(* ===== verification/Prelude.thy ===== *)
theory Prelude
  imports Main "HOL-Library.Word" "HOL-Library.AList" "HOL-Library.Char_ord"
    "HOL-Library.List_Lexorder" "HOL-Library.Product_Lexorder"
begin

text \<open>
  Shared ground of the development: the Go notions every component of Liftr uses.

  \<^item> \<open>time\<close>: an instant of Go's \<^verbatim>\<open>time.Time\<close>, as a number of nanoseconds relative to the zero
    time, so that \<^verbatim>\<open>IsZero\<close> is equality with 0 and \<^verbatim>\<open>Before\<close>/\<^verbatim>\<open>After\<close> are the integer orders.
  \<^item> \<open>uint64\<close>: the machine integer of generations, record versions and sequences; it wraps.
  \<^item> \<open>error\<close>: the sentinels that callers test with \<^verbatim>\<open>errors.Is\<close>, each with the text of its message
    (formatted arguments are left out), and \<open>ErrMessage\<close> for an error without a sentinel. The error
    structs \<open>InvalidReferenceError\<close>, \<open>ValidationError\<close>, \<open>InvalidSpecError\<close> (type name, type version,
    violations, truncated) and \<open>PolicyAdmissionError\<close> (revision, denial) carry their fields.
  \<^item> \<open>'a result\<close>: a Go pair of a value and an error, of which exactly one is meaningful.
  \<^item> \<open>bindE\<close>: the idiom \<^verbatim>\<open>x, err := f(); if err != nil { return err }\<close>.
  \<^item> \<open>TrimSpace\<close>: \<^verbatim>\<open>strings.TrimSpace\<close> on UTF-8 byte strings.
  \<^item> Go maps are association lists with distinct keys; iteration follows the list, and every
    theorem quantifies over all lists, hence over every iteration order.
\<close>

section \<open>Automation\<close>

named_theorems result_simps \<open>rewriting of error-threading combinators\<close>
named_theorems domain_simps \<open>unfolding of the validation functions of the domain package\<close>

section \<open>Time and machine integers\<close>

type_synonym time = int
type_synonym uint64 = "64 word"

abbreviation IsZero :: "time \<Rightarrow> bool" where
  "IsZero t \<equiv> t = 0"

lemma uint64_inc_less:
  fixes g :: uint64
  assumes "g \<noteq> -1"
  shows "g < g + 1"
  using assms by (metis inc_less_eq_triv_imp linorder_less_linear word_le_less_eq)

lemma unat_uint64_inc:
  fixes g :: uint64
  assumes "g \<noteq> -1"
  shows "unat (g + 1) = Suc (unat g)"
proof -
  have "1 + g \<noteq> 0"
    using assms by (simp add: add_eq_0_iff add.commute)
  then show ?thesis
    using unatSuc [of g] by (simp add: add.commute)
qed

section \<open>Errors and results\<close>

text \<open>One violation reported to a client: where, which rule, and the curated sentence.\<close>

record SpecViolation =
  sv_Path :: string
  sv_Keyword :: string
  sv_Message :: string

text \<open>The private diagnostics of one refusal of the admission policy.\<close>

datatype PolicyDenialKind =
    PolicyDenialCapabilityDisabled | PolicyDenialQuotaExceeded

record PolicyDenial =
  pd_Kind :: PolicyDenialKind
  pd_RuleID :: string
  pd_Measure :: string
  pd_Current :: uint64
  pd_Requested :: uint64
  pd_Limit :: uint64

datatype error =
    ErrMessage string
  | ErrInvalidOperationTransition string
  | ErrInvalidTransition string
  | ErrOperationActive string
  | ErrResourceNotFound string
  | ErrOperationNotFound string
  | ErrResourceTypeNotFound string
  | ErrProvisionerNotFound string
  | ErrIdempotencyConflict string
  | ErrIdempotencyNotFound string
  | ErrConcurrencyConflict string
  | ErrOperationNotRetryable string
  | ErrInvalidApplicationCall string
  | InvalidReferenceError "SpecViolation list"
  | ErrResourceInUse string
  | ErrDependencyCycle string
  | ErrReferenceGraphLimit string
  | ErrReferenceInvariant string
  | ErrNotAuthorized string
  | ErrPolicyDenied string
  | ErrQuotaExceeded string
  | ErrPolicyEvaluation string
  | ErrPersistenceUnavailable string
  | ErrQuotaInvariant string
  | ErrOperatorIdempotencyNotFound string
  | ErrDiagnosticStale string
  | RecoveryAlreadyActiveError string
  | NotApplicableError string
  | UnsafeRecoveryError string
  | ErrNotFound string
  | ValidationError string string "SpecViolation list"
  | InvalidSpecError string string "SpecViolation list" bool
  | PolicyAdmissionError string PolicyDenial

type_synonym 'a result = "error + 'a"

definition bindE :: "'e + 'a \<Rightarrow> ('a \<Rightarrow> 'e + 'b) \<Rightarrow> 'e + 'b" where
  "bindE m f = (case m of Inl e \<Rightarrow> Inl e | Inr x \<Rightarrow> f x)"

lemma bindE_simps [simp]:
  "bindE (Inl e) f = Inl e"
  "bindE (Inr x) f = f x"
  by (simp_all add: bindE_def)

lemma bindE_eq_Inr [simp, result_simps]:
  "bindE m f = Inr y \<longleftrightarrow> (\<exists>x. m = Inr x \<and> f x = Inr y)"
  by (simp add: bindE_def split: sum.splits)

lemma bindE_eq_Inl [result_simps]:
  "bindE m f = Inl e \<longleftrightarrow> m = Inl e \<or> (\<exists>x. m = Inr x \<and> f x = Inl e)"
  by (simp add: bindE_def split: sum.splits)

lemma if_Inl_eq_Inr [simp, result_simps]:
  "((if b then Inl e else m) = Inr y) \<longleftrightarrow> \<not> b \<and> m = Inr y"
  by simp

lemma bindE_cong [fundef_cong]:
  "m = m' \<Longrightarrow> (\<And>x. m' = Inr x \<Longrightarrow> f x = f' x) \<Longrightarrow> bindE m f = bindE m' f'"
  by (simp add: bindE_def split: sum.splits)

text \<open>A loop over a slice that threads state and stops at the first error.\<close>

fun foldE :: "('a \<Rightarrow> 's \<Rightarrow> 's result) \<Rightarrow> 'a list \<Rightarrow> 's \<Rightarrow> 's result" where
  "foldE f [] s = Inr s"
| "foldE f (x # xs) s = bindE (f x s) (foldE f xs)"

lemma foldE_cong [fundef_cong]:
  "xs = ys \<Longrightarrow> s = s' \<Longrightarrow> (\<And>x s. x \<in> set ys \<Longrightarrow> f x s = g x s) \<Longrightarrow> foldE f xs s = foldE g ys s'"
proof (induction ys arbitrary: xs s s')
  case (Cons y ys)
  then show ?case by (auto simp: bindE_def split: sum.splits)
qed simp

section \<open>Strings\<close>

text \<open>
  The UTF-8 encodings of the code points for which \<^verbatim>\<open>unicode.IsSpace\<close> holds. The encoding is
  self-synchronising, so removing a leading or trailing white-space rune is removing one of these
  byte strings at that end.
\<close>

definition space_runes :: "string list" where
  "space_runes =
     [[CHR 0x09], [CHR 0x0A], [CHR 0x0B], [CHR 0x0C], [CHR 0x0D], [CHR 0x20],
      [CHR 0xC2, CHR 0x85], [CHR 0xC2, CHR 0xA0], [CHR 0xE1, CHR 0x9A, CHR 0x80],
      [CHR 0xE2, CHR 0x80, CHR 0x80], [CHR 0xE2, CHR 0x80, CHR 0x81],
      [CHR 0xE2, CHR 0x80, CHR 0x82], [CHR 0xE2, CHR 0x80, CHR 0x83],
      [CHR 0xE2, CHR 0x80, CHR 0x84], [CHR 0xE2, CHR 0x80, CHR 0x85],
      [CHR 0xE2, CHR 0x80, CHR 0x86], [CHR 0xE2, CHR 0x80, CHR 0x87],
      [CHR 0xE2, CHR 0x80, CHR 0x88], [CHR 0xE2, CHR 0x80, CHR 0x89],
      [CHR 0xE2, CHR 0x80, CHR 0x8A], [CHR 0xE2, CHR 0x80, CHR 0xA8],
      [CHR 0xE2, CHR 0x80, CHR 0xA9], [CHR 0xE2, CHR 0x80, CHR 0xAF],
      [CHR 0xE2, CHR 0x81, CHR 0x9F], [CHR 0xE3, CHR 0x80, CHR 0x80]]"

definition has_prefix :: "string \<Rightarrow> string \<Rightarrow> bool" where
  "has_prefix p s \<longleftrightarrow> take (length p) s = p"

definition leading_space :: "string list \<Rightarrow> string \<Rightarrow> string option" where
  "leading_space runes s = List.find (\<lambda>p. p \<noteq> [] \<and> has_prefix p s) runes"

lemma leading_space_Some:
  assumes "leading_space runes s = Some p"
  shows "p \<noteq> []" "s \<noteq> []"
proof -
  have "p \<noteq> [] \<and> has_prefix p s"
    using assms by (auto simp: leading_space_def find_Some_iff)
  then show "p \<noteq> []" "s \<noteq> []"
    by (auto simp: has_prefix_def)
qed

lemma leading_space_shorter:
  "leading_space runes s = Some p \<Longrightarrow> length s - length p < length s"
  using leading_space_Some [of runes s p] by simp

function trim_left :: "string list \<Rightarrow> string \<Rightarrow> string" where
  "trim_left runes s =
     (case leading_space runes s of
        None \<Rightarrow> s
      | Some p \<Rightarrow> trim_left runes (drop (length p) s))"
  by pat_completeness auto
termination
  by (relation "measure (\<lambda>(runes, s). length s)") (auto simp: leading_space_shorter)

declare trim_left.simps [simp del]

definition TrimSpace :: "string \<Rightarrow> string" where
  "TrimSpace s =
     rev (trim_left (map rev space_runes) (rev (trim_left space_runes s)))"

definition blank :: "string \<Rightarrow> bool" where
  "blank s \<longleftrightarrow> TrimSpace s = ''''"

lemma trim_left_prefix_free: "leading_space runes (trim_left runes s) = None"
proof (induction runes s rule: trim_left.induct)
  case (1 runes s)
  then show ?case
    by (cases "leading_space runes s") (simp_all add: trim_left.simps [of runes s])
qed

lemma trim_left_id: "leading_space runes s = None \<Longrightarrow> trim_left runes s = s"
  by (simp add: trim_left.simps)

lemma trim_left_suffix: "\<exists>k. trim_left runes s = drop k s"
proof (induction runes s rule: trim_left.induct)
  case (1 runes s)
  show ?case
  proof (cases "leading_space runes s")
    case None
    then show ?thesis by (auto simp: trim_left_id intro: exI [of _ 0])
  next
    case (Some p)
    with 1 obtain k where "trim_left runes (drop (length p) s) = drop k (drop (length p) s)"
      by blast
    with Some show ?thesis by (auto simp: trim_left.simps [of runes s])
  qed
qed

lemma leading_space_take:
  assumes "leading_space runes s = None"
  shows "leading_space runes (take k s) = None"
  using assms
  by (auto simp: leading_space_def find_None_iff has_prefix_def min_def split: if_splits)

text \<open>Trimming is idempotent, so a trimmed string is canonical.\<close>

lemma TrimSpace_idem [simp]: "TrimSpace (TrimSpace s) = TrimSpace s"
proof -
  let ?R = "map rev space_runes"
  define l where "l = trim_left space_runes s"
  define r where "r = trim_left ?R (rev l)"
  obtain k where "r = drop k (rev l)"
    unfolding r_def using trim_left_suffix by blast
  then have "rev r = take (length l - k) l"
    by (simp add: rev_drop)
  moreover have "leading_space space_runes l = None"
    unfolding l_def by (rule trim_left_prefix_free)
  ultimately have "trim_left space_runes (rev r) = rev r"
    by (simp add: leading_space_take trim_left_id)
  moreover have "trim_left ?R r = r"
    unfolding r_def by (simp add: trim_left_prefix_free trim_left_id)
  moreover have "TrimSpace s = rev r"
    by (simp add: TrimSpace_def r_def l_def)
  ultimately show ?thesis
    by (simp add: TrimSpace_def)
qed

lemma trim_left_Nil [simp]: "trim_left runes [] = []"
  using trim_left_suffix [of runes "[]"] by auto

lemma TrimSpace_Nil [simp]: "TrimSpace [] = []"
  by (simp add: TrimSpace_def)

lemma blank_TrimSpace [simp]: "blank (TrimSpace s) = blank s"
  by (simp add: blank_def)

lemma blank_Nil [simp]: "blank []"
  by (simp add: blank_def)

text \<open>
  What trimming on the right consumes whole begins with a white-space rune, so a string is blank as soon
  as trimming on the left consumes it. As a code equation this decides a string by its first rune.
\<close>

lemma leading_space_None_iff:
  "leading_space runes s = None \<longleftrightarrow> (\<forall>p\<in>set runes. p = [] \<or> (\<forall>t. s \<noteq> p @ t))"
proof -
  have "has_prefix p s \<longleftrightarrow> (\<exists>t. s = p @ t)" for p
    unfolding has_prefix_def by (metis append_eq_conv_conj)
  then show ?thesis by (auto simp: leading_space_def find_None_iff)
qed

lemma leading_space_split:
  assumes "leading_space runes s = Some p"
  shows "p \<in> set runes" "s = p @ drop (length p) s"
  using assms by (auto simp: leading_space_def find_Some_iff has_prefix_def in_set_conv_nth)
    (metis append_take_drop_id)

lemma trim_right_consumes:
  assumes "trim_left (map rev runes) t = []" "leading_space runes (rev t) = None"
  shows "t = []"
  using assms
proof (induction "map rev runes" t rule: trim_left.induct)
  case (1 t)
  show ?case
  proof (cases "leading_space (map rev runes) t")
    case None
    then show ?thesis using "1.prems"(1) by (simp add: trim_left_id)
  next
    case (Some p)
    define u where "u = drop (length p) t"
    have p: "rev p \<in> set runes" "p \<noteq> []" and t: "t = p @ u"
      using leading_space_split [OF Some] leading_space_Some(1) [OF Some] by (auto simp: u_def)
    have "trim_left (map rev runes) u = []"
      using "1.prems"(1) Some by (simp add: trim_left.simps [of _ t] u_def)
    moreover have "leading_space runes (rev u) = None"
      unfolding leading_space_None_iff
    proof
      fix q assume "q \<in> set runes"
      then show "q = [] \<or> (\<forall>v. rev u \<noteq> q @ v)"
        using "1.prems"(2) t by (auto simp: leading_space_None_iff)
    qed
    ultimately have "u = []" using "1.hyps" [OF Some] u_def by simp
    then show ?thesis using "1.prems"(2) p t by (auto simp: leading_space_None_iff)
  qed
qed

lemma blank_code [code]: "blank s \<longleftrightarrow> trim_left space_runes s = []"
proof
  assume "blank s"
  then show "trim_left space_runes s = []"
    using trim_right_consumes [of space_runes "rev (trim_left space_runes s)"]
    by (simp add: blank_def TrimSpace_def trim_left_prefix_free)
qed (simp add: blank_def TrimSpace_def)

lemma not_blank_not_Nil: "\<not> blank s \<Longrightarrow> s \<noteq> []"
  by auto

text \<open>
  A string that holds a byte of no white-space rune is not blank.
\<close>

definition space_byte :: "char \<Rightarrow> bool" where
  "space_byte c \<longleftrightarrow> c \<in> set (concat space_runes)"

lemma trim_left_keeps:
  assumes "c \<in> set s" "\<And>p. p \<in> set runes \<Longrightarrow> c \<notin> set p"
  shows "c \<in> set (trim_left runes s)"
  using assms
proof (induction runes s rule: trim_left.induct)
  case (1 runes s)
  show ?case
  proof (cases "leading_space runes s")
    case None
    with 1 show ?thesis by (simp add: trim_left_id)
  next
    case (Some p)
    then have p: "p \<in> set runes" "take (length p) s = p"
      by (auto simp: leading_space_def has_prefix_def find_Some_iff)
    have "c \<in> set (take (length p) s) \<union> set (drop (length p) s)"
      using "1.prems"(1) by (metis append_take_drop_id set_append)
    with p "1.prems" have "c \<in> set (drop (length p) s)" by auto
    with 1 Some show ?thesis by (simp add: trim_left.simps [of runes s])
  qed
qed

lemma not_blankI:
  assumes "c \<in> set s" "\<not> space_byte c"
  shows "\<not> blank s"
proof -
  have "c \<in> set (trim_left space_runes s)"
    using assms by (intro trim_left_keeps) (auto simp: space_byte_def)
  then have "c \<in> set (trim_left (map rev space_runes) (rev (trim_left space_runes s)))"
    using assms(2) by (intro trim_left_keeps) (auto simp: space_byte_def)
  then show ?thesis by (auto simp: blank_def TrimSpace_def)
qed

lemma blank_Cons [simp]: "\<not> space_byte c \<Longrightarrow> \<not> blank (c # s)"
  by (rule not_blankI) auto

lemma space_byte_alnum [simp]:
  "CHR 0x21 \<le> c \<Longrightarrow> c \<le> CHR 0x7E \<Longrightarrow> \<not> space_byte c"
  by (auto simp: space_byte_def space_runes_def less_eq_char_def)

section \<open>Lists\<close>

lemma sort_key_Nil_iff [simp]: "sort_key f xs = [] \<longleftrightarrow> xs = []"
  by (metis length_0_conv length_sort)

lemma find_key_iff:
  "distinct (map f xs) \<Longrightarrow> List.find (\<lambda>x. f x = k) xs = Some x \<longleftrightarrow> x \<in> set xs \<and> f x = k"
  by (induction xs) (auto simp: rev_image_eqI)

section \<open>Key-value tables\<close>

text \<open>
  A Go map. The laws a client of a map relies on, proved once for the association lists used by
  every component.
\<close>

type_synonym ('k, 'v) table = "('k \<times> 'v) list"

abbreviation put :: "'k \<Rightarrow> 'v \<Rightarrow> ('k, 'v) table \<Rightarrow> ('k, 'v) table" where
  "put \<equiv> AList.update"

abbreviation del :: "'k \<Rightarrow> ('k, 'v) table \<Rightarrow> ('k, 'v) table" where
  "del \<equiv> AList.delete"

abbreviation wf_table :: "('k, 'v) table \<Rightarrow> bool" where
  "wf_table m \<equiv> distinct (map fst m)"

lemma map_of_put [simp]: "map_of (put k v m) = (map_of m)(k \<mapsto> v)"
  by (simp add: update_conv')

lemma map_of_del [simp]: "map_of (del k m) = (map_of m)(k := None)"
  by (simp add: delete_conv')

lemma wf_put [simp]: "wf_table m \<Longrightarrow> wf_table (put k v m)"
  by (simp add: distinct_update)

lemma wf_del [simp]: "wf_table m \<Longrightarrow> wf_table (del k m)"
  by (simp add: distinct_delete)

lemma wf_table_in_set_iff:
  "wf_table m \<Longrightarrow> (k, v) \<in> set m \<longleftrightarrow> map_of m k = Some v"
  by (simp add: map_of_eq_Some_iff)

section \<open>Keyed collections\<close>

text \<open>
  The contract of a collection that holds at most one element per key and replaces it in place: the
  condition list of a status, and the entity tables of the in-memory store.
\<close>

locale keyed_collection =
  fixes key :: "'v \<Rightarrow> 'k"
    and get :: "'c \<Rightarrow> 'k \<Rightarrow> 'v option"
    and upsert :: "'v \<Rightarrow> 'c \<Rightarrow> 'c"
    and elems :: "'c \<Rightarrow> 'v list"
  assumes get_upsert: "get (upsert v c) k = (if k = key v then Some v else get c k)"
    and get_elem: "distinct (map key (elems c)) \<Longrightarrow> get c k = Some v \<longleftrightarrow> v \<in> set (elems c) \<and> key v = k"
    and distinct_upsert: "distinct (map key (elems c)) \<Longrightarrow> distinct (map key (elems (upsert v c)))"
    and elems_upsert: "set (elems (upsert v c)) \<subseteq> insert v (set (elems c))"
begin

lemma get_upsert_same [simp]: "get (upsert v c) (key v) = Some v"
  by (simp add: get_upsert)

lemma get_upsert_other: "k \<noteq> key v \<Longrightarrow> get (upsert v c) k = get c k"
  by (simp add: get_upsert)

lemma upsert_all:
  "P v \<Longrightarrow> (\<And>w. w \<in> set (elems c) \<Longrightarrow> P w) \<Longrightarrow> w \<in> set (elems (upsert v c)) \<Longrightarrow> P w"
  using elems_upsert [of v c] by blast

lemma upsert_key_set:
  assumes "distinct (map key (elems c))"
  shows "key ` set (elems (upsert v c)) = insert (key v) (key ` set (elems c))"
proof -
  have "k \<in> key ` set (elems d) \<longleftrightarrow> (\<exists>w. get d k = Some w)" if "distinct (map key (elems d))" for d k
    using get_elem [OF that] by auto
  then show ?thesis
    using assms distinct_upsert [OF assms, of v] by (auto simp: get_upsert set_eq_iff split: if_splits)
qed

end

end
