(* ===== verification/Domain.thy ===== *)
theory Domain
  imports Prelude
begin

text \<open>
  The domain package (\<^verbatim>\<open>src/internal/domain\<close>): resource type references and owners, resources with
  their desired-state generation, capabilities and resource types, operations and their state
  machine, normalized statuses with conditions, observed facts and audit events.

  A Go string type with a closed vocabulary is a datatype whose last constructor holds any other
  string, so that the validation branches of the code keep their meaning; the zero value of such a
  type is that constructor at the empty string. Open string types stay strings.
\<close>

section \<open>References, owners and capabilities\<close>

type_synonym resource_id = string
type_synonym operation_id = string
type_synonym event_id = string
type_synonym capability = string

record ResourceTypeRef =
  tref_Name :: string
  tref_Version :: string

record OwnerRef =
  owner_Kind :: string
  owner_ID :: string

definition ResourceTypeRef_validate :: "ResourceTypeRef \<Rightarrow> unit result" where
  "ResourceTypeRef_validate r =
     (if blank (tref_Name r) then Inl (ErrMessage ''resource type name is required'')
      else if blank (tref_Version r) then Inl (ErrMessage ''resource type version is required'')
      else Inr ())"

definition OwnerRef_validate :: "OwnerRef \<Rightarrow> unit result" where
  "OwnerRef_validate w =
     (if blank (owner_Kind w) then Inl (ErrMessage ''owner kind is required'')
      else if blank (owner_ID w) then Inl (ErrMessage ''owner ID is required'')
      else Inr ())"

definition CapabilityCreate :: capability where "CapabilityCreate = ''create''"
definition CapabilityUpdate :: capability where "CapabilityUpdate = ''update''"
definition CapabilityDelete :: capability where "CapabilityDelete = ''delete''"
definition CapabilityObserve :: capability where "CapabilityObserve = ''observe''"

lemmas capability_defs =
  CapabilityCreate_def CapabilityUpdate_def CapabilityDelete_def CapabilityObserve_def

lemma capability_distinct [simp]:
  "CapabilityCreate \<noteq> CapabilityUpdate" "CapabilityUpdate \<noteq> CapabilityCreate"
  "CapabilityCreate \<noteq> CapabilityDelete" "CapabilityDelete \<noteq> CapabilityCreate"
  "CapabilityUpdate \<noteq> CapabilityDelete" "CapabilityDelete \<noteq> CapabilityUpdate"
  "CapabilityCreate \<noteq> []" "CapabilityUpdate \<noteq> []" "CapabilityDelete \<noteq> []"
  by (simp_all add: capability_defs)

definition Capability_validate :: "capability \<Rightarrow> unit result" where
  "Capability_validate c =
     (if blank c then Inl (ErrMessage ''capability is required'')
      else if c \<noteq> TrimSpace c
        then Inl (ErrMessage ''capability cannot contain surrounding whitespace'')
      else Inr ())"

lemma Capability_validate_lifecycle [simp]:
  "Capability_validate CapabilityCreate = Inr ()"
  "Capability_validate CapabilityUpdate = Inr ()"
  "Capability_validate CapabilityDelete = Inr ()"
  by (simp_all add: Capability_validate_def capability_defs blank_def TrimSpace_def
      trim_left.simps leading_space_def space_runes_def has_prefix_def)

section \<open>Resource types\<close>

record ResourceType =
  rtype_ref :: ResourceTypeRef
  rtype_description :: string
  rtype_capabilities :: "capability list"

fun check_capabilities :: "capability list \<Rightarrow> capability list \<Rightarrow> unit result" where
  "check_capabilities seen [] = Inr ()"
| "check_capabilities seen (c # cs) =
     bindE (Capability_validate c) (\<lambda>_.
       if c \<in> set seen then Inl (ErrMessage ''capability is duplicated'')
       else check_capabilities (c # seen) cs)"

definition NewResourceType ::
    "ResourceTypeRef \<Rightarrow> string \<Rightarrow> capability list \<Rightarrow> ResourceType result" where
  "NewResourceType ref description capabilities =
     bindE (ResourceTypeRef_validate ref) (\<lambda>_.
       if blank description then Inl (ErrMessage ''resource type description is required'')
       else if capabilities = []
         then Inl (ErrMessage ''resource type must define at least one capability'')
       else bindE (check_capabilities [] capabilities) (\<lambda>_.
         Inr \<lparr>rtype_ref = ref, rtype_description = description,
              rtype_capabilities = capabilities\<rparr>))"

definition Supports :: "ResourceType \<Rightarrow> capability \<Rightarrow> bool" where
  "Supports r c \<longleftrightarrow> c \<in> set (rtype_capabilities r)"

section \<open>Resources\<close>

record 'spec Resource =
  resource_id :: resource_id
  resource_typeRef :: ResourceTypeRef
  resource_owner :: OwnerRef
  resource_generation :: uint64
  resource_spec :: 'spec
  resource_createdAt :: time
  resource_updatedAt :: time

definition NewResource ::
    "resource_id \<Rightarrow> ResourceTypeRef \<Rightarrow> OwnerRef \<Rightarrow> 'spec \<Rightarrow> time \<Rightarrow> 'spec Resource result" where
  "NewResource rid typeRef owner spec createdAt =
     (if blank rid then Inl (ErrMessage ''resource ID is required'')
      else bindE (ResourceTypeRef_validate typeRef) (\<lambda>_.
        bindE (OwnerRef_validate owner) (\<lambda>_.
          if IsZero createdAt then Inl (ErrMessage ''resource creation time is required'')
          else Inr \<lparr>resource_id = rid, resource_typeRef = typeRef, resource_owner = owner,
                    resource_generation = 1, resource_spec = spec,
                    resource_createdAt = createdAt, resource_updatedAt = createdAt\<rparr>)))"

record 'spec ResourceSnapshot =
  rsnap_ID :: resource_id
  rsnap_Type :: ResourceTypeRef
  rsnap_Owner :: OwnerRef
  rsnap_Generation :: uint64
  rsnap_Spec :: 'spec
  rsnap_CreatedAt :: time
  rsnap_UpdatedAt :: time

definition RestoreResource :: "'spec ResourceSnapshot \<Rightarrow> 'spec Resource result" where
  "RestoreResource snapshot =
     (if rsnap_Generation snapshot = 0
      then Inl (ErrMessage ''resource generation must be greater than zero'')
      else bindE (NewResource (rsnap_ID snapshot) (rsnap_Type snapshot) (rsnap_Owner snapshot)
                    (rsnap_Spec snapshot) (rsnap_CreatedAt snapshot)) (\<lambda>resource.
        if IsZero (rsnap_UpdatedAt snapshot)
          then Inl (ErrMessage ''resource update time is required'')
        else if rsnap_UpdatedAt snapshot < rsnap_CreatedAt snapshot
          then Inl (ErrMessage ''resource update time cannot precede creation'')
        else Inr (resource\<lparr>resource_generation := rsnap_Generation snapshot,
                            resource_updatedAt := rsnap_UpdatedAt snapshot\<rparr>)))"

definition UpdateSpec :: "'spec Resource \<Rightarrow> 'spec \<Rightarrow> time \<Rightarrow> 'spec Resource result" where
  "UpdateSpec r spec updatedAt =
     (if IsZero updatedAt then Inl (ErrMessage ''resource update time is required'')
      else if updatedAt < resource_updatedAt r
        then Inl (ErrMessage ''resource update time cannot precede the previous update'')
      else if resource_generation r = - 1
        then Inl (ErrMessage ''resource generation cannot be incremented'')
      else Inr (r\<lparr>resource_spec := spec,
                  resource_generation := resource_generation r + 1,
                  resource_updatedAt := updatedAt\<rparr>))"

section \<open>Operations\<close>

datatype OperationState =
    OperationStatePending
  | OperationStateRunning
  | OperationStateSucceeded
  | OperationStateFailed
  | OperationStateCanceled
  | OperationStateOther string

datatype OperationPhase =
    OperationPhaseRequested
  | OperationPhaseValidating
  | OperationPhasePlanning
  | OperationPhaseApplying
  | OperationPhaseDestroying
  | OperationPhaseOther string

fun phase_string :: "OperationPhase \<Rightarrow> string" where
  "phase_string OperationPhaseRequested = ''Requested''"
| "phase_string OperationPhaseValidating = ''Validating''"
| "phase_string OperationPhasePlanning = ''Planning''"
| "phase_string OperationPhaseApplying = ''Applying''"
| "phase_string OperationPhaseDestroying = ''Destroying''"
| "phase_string (OperationPhaseOther s) = s"

record OperationFailure =
  failure_reason :: string
  failure_message :: string

record Operation =
  op_id :: operation_id
  op_resourceID :: resource_id
  op_capability :: capability
  op_targetGeneration :: uint64
  op_retryOf :: operation_id
  op_state :: OperationState
  op_phase :: OperationPhase
  op_requestedAt :: time
  op_startedAt :: time
  op_phaseChangedAt :: time
  op_completedAt :: time
  op_failure :: "OperationFailure option"

fun validOperationState :: "OperationState \<Rightarrow> bool" where
  "validOperationState (OperationStateOther s) = False"
| "validOperationState _ = True"

fun validOperationPhase :: "OperationPhase \<Rightarrow> bool" where
  "validOperationPhase (OperationPhaseOther s) = False"
| "validOperationPhase _ = True"

definition NewOperation ::
    "operation_id \<Rightarrow> resource_id \<Rightarrow> capability \<Rightarrow> uint64 \<Rightarrow> time \<Rightarrow> operation_id list
      \<Rightarrow> Operation result" where
  "NewOperation oid resourceID capability targetGeneration requestedAt retryOf =
     (if blank oid then Inl (ErrMessage ''operation ID is required'')
      else if blank resourceID then Inl (ErrMessage ''resource ID is required'')
      else bindE (Capability_validate capability) (\<lambda>_.
        if targetGeneration = 0
          then Inl (ErrMessage ''operation target generation must be greater than zero'')
        else if IsZero requestedAt then Inl (ErrMessage ''operation request time is required'')
        else if 1 < length retryOf
          then Inl (ErrMessage ''operation may retry at most one operation'')
        else bindE
          (case retryOf of
             [] \<Rightarrow> Inr ''''
           | r # _ \<Rightarrow>
               (if blank r \<and> r \<noteq> '''' then Inl (ErrMessage ''retry operation ID cannot be blank'')
                else if r = oid then Inl (ErrMessage ''operation cannot retry itself'')
                else Inr r)) (\<lambda>retryOfOperationID.
          Inr \<lparr>op_id = oid, op_resourceID = resourceID, op_capability = capability,
               op_targetGeneration = targetGeneration, op_retryOf = retryOfOperationID,
               op_state = OperationStatePending, op_phase = OperationPhaseRequested,
               op_requestedAt = requestedAt, op_startedAt = 0,
               op_phaseChangedAt = requestedAt, op_completedAt = 0, op_failure = None\<rparr>)))"

fun terminal_state :: "OperationState \<Rightarrow> bool" where
  "terminal_state OperationStateSucceeded = True"
| "terminal_state OperationStateFailed = True"
| "terminal_state OperationStateCanceled = True"
| "terminal_state _ = False"

definition IsTerminal :: "Operation \<Rightarrow> bool" where
  "IsTerminal op \<longleftrightarrow> terminal_state (op_state op)"

definition validateTransitionTime :: "Operation \<Rightarrow> time \<Rightarrow> unit result" where
  "validateTransitionTime op at =
     (if IsZero at then Inl (ErrMessage ''operation transition time is required'')
      else if at < op_requestedAt op
        then Inl (ErrMessage ''operation transition cannot precede its request'')
      else if at < op_phaseChangedAt op
        then Inl (ErrMessage ''operation transition cannot precede its current phase'')
      else Inr ())"

definition canAdvanceTo :: "Operation \<Rightarrow> OperationPhase \<Rightarrow> bool" where
  "canAdvanceTo op nxt =
     (if op_state op = OperationStatePending
        then op_phase op = OperationPhaseRequested \<and> nxt = OperationPhaseValidating
      else if op_state op \<noteq> OperationStateRunning then False
      else if op_capability op = CapabilityCreate \<or> op_capability op = CapabilityUpdate
        then (op_phase op = OperationPhaseValidating \<and> nxt = OperationPhasePlanning) \<or>
             (op_phase op = OperationPhasePlanning \<and> nxt = OperationPhaseApplying)
      else if op_capability op = CapabilityDelete
        then op_phase op = OperationPhaseValidating \<and> nxt = OperationPhaseDestroying
      else False)"

definition isFinalPhase :: "Operation \<Rightarrow> bool" where
  "isFinalPhase op =
     (if op_capability op = CapabilityCreate \<or> op_capability op = CapabilityUpdate
        then op_phase op = OperationPhaseApplying
      else if op_capability op = CapabilityDelete then op_phase op = OperationPhaseDestroying
      else False)"

definition AdvancePhase :: "Operation \<Rightarrow> OperationPhase \<Rightarrow> time \<Rightarrow> Operation result" where
  "AdvancePhase op nxt changedAt =
     (if IsTerminal op
        then Inl (ErrInvalidOperationTransition ''cannot change phase of operation in state'')
      else if \<not> canAdvanceTo op nxt
        then Inl (ErrInvalidOperationTransition ''cannot move operation from phase'')
      else bindE (validateTransitionTime op changedAt) (\<lambda>_.
        let op1 = (if op_state op = OperationStatePending
                   then op\<lparr>op_state := OperationStateRunning, op_startedAt := changedAt\<rparr>
                   else op)
        in Inr (op1\<lparr>op_phase := nxt, op_phaseChangedAt := changedAt\<rparr>)))"

definition Start :: "Operation \<Rightarrow> time \<Rightarrow> Operation result" where
  "Start op startedAt = AdvancePhase op OperationPhaseValidating startedAt"

definition complete ::
    "Operation \<Rightarrow> OperationState \<Rightarrow> time \<Rightarrow> OperationFailure option \<Rightarrow> Operation result" where
  "complete op state completedAt failure =
     bindE (validateTransitionTime op completedAt) (\<lambda>_.
       Inr (op\<lparr>op_state := state, op_completedAt := completedAt, op_failure := failure\<rparr>))"

definition Operation_Succeed :: "Operation \<Rightarrow> time \<Rightarrow> Operation result" where
  "Operation_Succeed op completedAt =
     (if op_state op \<noteq> OperationStateRunning
        then Inl (ErrInvalidOperationTransition ''cannot succeed operation in state'')
      else if \<not> isFinalPhase op
        then Inl (ErrInvalidOperationTransition ''cannot succeed operation in phase'')
      else complete op OperationStateSucceeded completedAt None)"

definition Operation_Fail :: "Operation \<Rightarrow> string \<Rightarrow> string \<Rightarrow> time \<Rightarrow> Operation result" where
  "Operation_Fail op reason message completedAt =
     (if op_state op \<noteq> OperationStatePending \<and> op_state op \<noteq> OperationStateRunning
        then Inl (ErrInvalidOperationTransition ''cannot fail operation in state'')
      else if blank reason then Inl (ErrMessage ''operation failure reason is required'')
      else complete op OperationStateFailed completedAt
             (Some \<lparr>failure_reason = reason, failure_message = message\<rparr>))"

definition Operation_Cancel :: "Operation \<Rightarrow> time \<Rightarrow> Operation result" where
  "Operation_Cancel op completedAt =
     (if op_state op \<noteq> OperationStatePending \<and> op_state op \<noteq> OperationStateRunning
        then Inl (ErrInvalidOperationTransition ''cannot cancel operation in state'')
      else complete op OperationStateCanceled completedAt None)"

record OperationSnapshot =
  osnap_ID :: operation_id
  osnap_ResourceID :: resource_id
  osnap_Capability :: capability
  osnap_TargetGeneration :: uint64
  osnap_RetryOfOperationID :: operation_id
  osnap_State :: OperationState
  osnap_Phase :: OperationPhase
  osnap_RequestedAt :: time
  osnap_StartedAt :: time
  osnap_PhaseChangedAt :: time
  osnap_CompletedAt :: time
  osnap_FailureReason :: string
  osnap_FailureMessage :: string

definition RestoreOperation :: "OperationSnapshot \<Rightarrow> Operation result" where
  "RestoreOperation s =
     bindE (NewOperation (osnap_ID s) (osnap_ResourceID s) (osnap_Capability s)
              (osnap_TargetGeneration s) (osnap_RequestedAt s) [osnap_RetryOfOperationID s])
       (\<lambda>operation.
     if IsZero (osnap_PhaseChangedAt s) \<or> osnap_PhaseChangedAt s < osnap_RequestedAt s
       then Inl (ErrMessage ''operation phase change time is invalid'')
     else if \<not> validOperationState (osnap_State s) \<or> \<not> validOperationPhase (osnap_Phase s)
       then Inl (ErrMessage ''invalid persisted operation state or phase'')
     else bindE
       (if osnap_State s = OperationStatePending
        then (if osnap_Phase s \<noteq> OperationPhaseRequested \<or> \<not> IsZero (osnap_StartedAt s) \<or>
                 \<not> IsZero (osnap_CompletedAt s)
              then Inl (ErrMessage ''invalid pending operation snapshot'') else Inr ())
        else if osnap_State s = OperationStateRunning \<or> osnap_State s = OperationStateSucceeded
        then (if IsZero (osnap_StartedAt s) \<or> osnap_StartedAt s < osnap_RequestedAt s
              then Inl (ErrMessage ''invalid operation start time'') else Inr ())
        else if \<not> IsZero (osnap_StartedAt s) \<and> osnap_StartedAt s < osnap_RequestedAt s
        then Inl (ErrMessage ''invalid operation start time'')
        else Inr ()) (\<lambda>_.
     let terminal = (osnap_State s = OperationStateSucceeded \<or> osnap_State s = OperationStateFailed \<or>
                     osnap_State s = OperationStateCanceled)
     in if terminal \<noteq> (\<not> IsZero (osnap_CompletedAt s))
       then Inl (ErrMessage ''operation completion time does not match terminal state'')
     else if terminal \<and> osnap_CompletedAt s < osnap_PhaseChangedAt s
       then Inl (ErrMessage ''operation completion precedes its phase'')
     else bindE
       (if osnap_State s = OperationStateFailed
        then (if blank (osnap_FailureReason s)
              then Inl (ErrMessage ''failed operation reason is required'')
              else Inr (Some \<lparr>failure_reason = osnap_FailureReason s,
                               failure_message = osnap_FailureMessage s\<rparr>))
        else if osnap_FailureReason s \<noteq> '''' \<or> osnap_FailureMessage s \<noteq> ''''
        then Inl (ErrMessage ''non-failed operation cannot contain failure'')
        else Inr (op_failure operation)) (\<lambda>failure.
     Inr (operation\<lparr>op_failure := failure, op_state := osnap_State s, op_phase := osnap_Phase s,
                     op_startedAt := osnap_StartedAt s,
                     op_phaseChangedAt := osnap_PhaseChangedAt s,
                     op_completedAt := osnap_CompletedAt s\<rparr>))))"

section \<open>The operation state machine\<close>

text \<open>
  One step of an operation is a successful call of one of its mutators; an operation is reachable
  when it comes from \<open>NewOperation\<close> by steps. \<open>op_run\<close> also records the phases it went through.
\<close>

inductive op_step :: "Operation \<Rightarrow> Operation \<Rightarrow> bool" where
  advance: "AdvancePhase op p t = Inr op' \<Longrightarrow> op_step op op'"
| succeed: "Operation_Succeed op t = Inr op' \<Longrightarrow> op_step op op'"
| fail: "Operation_Fail op reason message t = Inr op' \<Longrightarrow> op_step op op'"
| cancel: "Operation_Cancel op t = Inr op' \<Longrightarrow> op_step op op'"

inductive op_run :: "Operation \<Rightarrow> OperationPhase list \<Rightarrow> bool" where
  new: "NewOperation oid rid c g t rs = Inr op \<Longrightarrow> op_run op [op_phase op]"
| phase: "op_run op ps \<Longrightarrow> AdvancePhase op p t = Inr op' \<Longrightarrow> op_run op' (ps @ [op_phase op'])"
| succeeded: "op_run op ps \<Longrightarrow> Operation_Succeed op t = Inr op' \<Longrightarrow> op_run op' ps"
| failed: "op_run op ps \<Longrightarrow> Operation_Fail op reason message t = Inr op' \<Longrightarrow> op_run op' ps"
| canceled: "op_run op ps \<Longrightarrow> Operation_Cancel op t = Inr op' \<Longrightarrow> op_run op' ps"

text \<open>The snapshot whose fields are the accessors of the operation, as persistence writes them.\<close>

definition operation_snapshot :: "Operation \<Rightarrow> OperationSnapshot" where
  "operation_snapshot op =
     \<lparr>osnap_ID = op_id op, osnap_ResourceID = op_resourceID op, osnap_Capability = op_capability op,
      osnap_TargetGeneration = op_targetGeneration op, osnap_RetryOfOperationID = op_retryOf op,
      osnap_State = op_state op, osnap_Phase = op_phase op, osnap_RequestedAt = op_requestedAt op,
      osnap_StartedAt = op_startedAt op, osnap_PhaseChangedAt = op_phaseChangedAt op,
      osnap_CompletedAt = op_completedAt op,
      osnap_FailureReason = (case op_failure op of None \<Rightarrow> '''' | Some f \<Rightarrow> failure_reason f),
      osnap_FailureMessage = (case op_failure op of None \<Rightarrow> '''' | Some f \<Rightarrow> failure_message f)\<rparr>"

definition op_intent :: "Operation \<Rightarrow>
    operation_id \<times> resource_id \<times> capability \<times> uint64 \<times> operation_id \<times> time" where
  "op_intent op = (op_id op, op_resourceID op, op_capability op, op_targetGeneration op,
     op_retryOf op, op_requestedAt op)"

definition wf_intent :: "Operation \<Rightarrow> bool" where
  "wf_intent op \<longleftrightarrow> \<not> blank (op_id op) \<and> \<not> blank (op_resourceID op) \<and>
     Capability_validate (op_capability op) = Inr () \<and> op_targetGeneration op \<noteq> 0 \<and>
     op_requestedAt op \<noteq> 0 \<and> (op_retryOf op = '''' \<or> \<not> blank (op_retryOf op)) \<and>
     op_retryOf op \<noteq> op_id op"

definition wf_timeline :: "Operation \<Rightarrow> bool" where
  "wf_timeline op \<longleftrightarrow> op_requestedAt op \<le> op_phaseChangedAt op \<and> op_phaseChangedAt op \<noteq> 0 \<and>
     (op_startedAt op \<noteq> 0 \<longrightarrow> op_requestedAt op \<le> op_startedAt op) \<and>
     (IsTerminal op \<longleftrightarrow> op_completedAt op \<noteq> 0) \<and>
     (IsTerminal op \<longrightarrow> op_phaseChangedAt op \<le> op_completedAt op)"

text \<open>The phases of a capability, in the order in which an operation goes through them.\<close>

definition phase_path :: "capability \<Rightarrow> OperationPhase list" where
  "phase_path c =
     (if c = CapabilityCreate \<or> c = CapabilityUpdate
      then [OperationPhaseRequested, OperationPhaseValidating, OperationPhasePlanning,
            OperationPhaseApplying]
      else if c = CapabilityDelete
      then [OperationPhaseRequested, OperationPhaseValidating, OperationPhaseDestroying]
      else [OperationPhaseRequested, OperationPhaseValidating])"

definition wf_progress :: "Operation \<Rightarrow> bool" where
  "wf_progress op \<longleftrightarrow> validOperationState (op_state op) \<and> validOperationPhase (op_phase op) \<and>
     (op_state op = OperationStatePending \<longrightarrow>
        op_phase op = OperationPhaseRequested \<and> op_startedAt op = 0) \<and>
     (op_state op \<in> {OperationStateRunning, OperationStateSucceeded} \<longrightarrow> op_startedAt op \<noteq> 0) \<and>
     (op_state op = OperationStateRunning \<longrightarrow>
        op_phase op \<in> set (tl (phase_path (op_capability op)))) \<and>
     (case op_failure op of
        None \<Rightarrow> op_state op \<noteq> OperationStateFailed
      | Some f \<Rightarrow> op_state op = OperationStateFailed \<and> \<not> blank (failure_reason f))"

definition wf_operation :: "Operation \<Rightarrow> bool" where
  "wf_operation op \<longleftrightarrow> wf_intent op \<and> wf_timeline op \<and> wf_progress op"

lemmas wf_operation_defs = wf_operation_def wf_intent_def wf_timeline_def wf_progress_def

lemmas transition_defs =
  AdvancePhase_def Operation_Succeed_def Operation_Fail_def Operation_Cancel_def complete_def
  validateTransitionTime_def Let_def

lemma NewOperation_wf: "NewOperation oid rid c g t rs = Inr op \<Longrightarrow> wf_operation op"
  by (auto simp: NewOperation_def wf_operation_defs IsTerminal_def split: list.splits if_splits)

lemma canAdvanceTo_valid: "canAdvanceTo op p \<Longrightarrow> validOperationPhase p"
  by (auto simp: canAdvanceTo_def split: if_splits)

lemma canAdvanceTo_path:
  "canAdvanceTo op p \<Longrightarrow> p \<in> set (tl (phase_path (op_capability op)))"
  by (auto simp: canAdvanceTo_def phase_path_def split: if_splits)

lemma Validating_in_path [simp]: "OperationPhaseValidating \<in> set (tl (phase_path c))"
  by (simp add: phase_path_def)

lemma AdvancePhase_cases:
  assumes "AdvancePhase op p t = Inr op'"
  obtains (start) "op_state op = OperationStatePending" "op_phase op = OperationPhaseRequested"
      "p = OperationPhaseValidating" "t \<noteq> 0" "op_requestedAt op \<le> t" "op_phaseChangedAt op \<le> t"
      "op' = op\<lparr>op_state := OperationStateRunning, op_startedAt := t, op_phase := p,
               op_phaseChangedAt := t\<rparr>"
    | (move) "op_state op = OperationStateRunning" "canAdvanceTo op p"
      "t \<noteq> 0" "op_requestedAt op \<le> t" "op_phaseChangedAt op \<le> t"
      "op' = op\<lparr>op_phase := p, op_phaseChangedAt := t\<rparr>"
proof (cases "op_state op = OperationStatePending")
  case True
  with assms show ?thesis
    by (intro start) (auto simp: AdvancePhase_def canAdvanceTo_def validateTransitionTime_def
        Let_def split: if_splits)
next
  case False
  with assms have "op_state op = OperationStateRunning"
    by (simp add: AdvancePhase_def canAdvanceTo_def split: if_splits)
  with assms False show ?thesis
    by (intro move) (auto simp: AdvancePhase_def validateTransitionTime_def Let_def
        split: if_splits)
qed

lemma complete_cases:
  assumes "complete op st t f = Inr op'"
  obtains "t \<noteq> 0" "op_requestedAt op \<le> t" "op_phaseChangedAt op \<le> t"
    "op' = op\<lparr>op_state := st, op_completedAt := t, op_failure := f\<rparr>"
  using assms by (auto simp: complete_def validateTransitionTime_def split: if_splits)

lemma AdvancePhase_wf:
  assumes "AdvancePhase op p t = Inr op'" "wf_operation op"
  shows "wf_operation op'"
  using assms(1)
proof (cases rule: AdvancePhase_cases)
  case start
  with assms(2) show ?thesis
    by (simp add: wf_operation_defs IsTerminal_def split: option.splits)
next
  case move
  with assms(2) canAdvanceTo_valid canAdvanceTo_path show ?thesis
    by (simp add: wf_operation_defs IsTerminal_def split: option.splits)
qed

lemma complete_wf:
  assumes "complete op st t f = Inr op'" "wf_operation op"
    and "terminal_state st" "(f = None) = (st \<noteq> OperationStateFailed)"
    and "\<And>x. f = Some x \<Longrightarrow> \<not> blank (failure_reason x)"
    and "st = OperationStateSucceeded \<longrightarrow> op_startedAt op \<noteq> 0"
  shows "wf_operation op'"
  using assms(1)
proof (cases rule: complete_cases)
  case 1
  have "validOperationState st" "st \<noteq> OperationStatePending" "st \<noteq> OperationStateRunning"
    using assms(3) by (cases st; simp)+
  with 1 assms(2-) show ?thesis
    by (cases f) (simp_all add: wf_operation_defs IsTerminal_def)
qed

lemma op_step_wf: "op_step op op' \<Longrightarrow> wf_operation op \<Longrightarrow> wf_operation op'"
proof (induction rule: op_step.induct)
  case (advance op p t op')
  then show ?case by (blast intro: AdvancePhase_wf)
next
  case (succeed op t op')
  then have "complete op OperationStateSucceeded t None = Inr op'" "op_startedAt op \<noteq> 0"
    by (simp_all add: Operation_Succeed_def wf_operation_def wf_progress_def)
  with succeed.prems show ?case by (auto elim: complete_wf)
next
  case (fail op reason message t op')
  then have "complete op OperationStateFailed t
      (Some \<lparr>failure_reason = reason, failure_message = message\<rparr>) = Inr op'" "\<not> blank reason"
    by (simp_all add: Operation_Fail_def)
  with fail.prems show ?case by (auto elim: complete_wf)
next
  case (cancel op t op')
  then have "complete op OperationStateCanceled t None = Inr op'"
    by (simp add: Operation_Cancel_def)
  with cancel.prems show ?case by (auto elim: complete_wf)
qed

lemma op_run_wf: "op_run op ps \<Longrightarrow> wf_operation op"
  by (induction rule: op_run.induct)
    (blast intro: NewOperation_wf AdvancePhase_wf op_step_wf op_step.intros)+

lemma op_step_intent: "op_step op op' \<Longrightarrow> op_intent op' = op_intent op"
  by (induction rule: op_step.induct) (auto simp: transition_defs op_intent_def split: if_splits)

lemma op_step_nonterminal: "op_step op op' \<Longrightarrow> \<not> IsTerminal op"
  by (induction rule: op_step.induct)
    (auto simp: transition_defs IsTerminal_def split: if_splits)

lemma RestoreOperation_snapshot:
  "wf_operation op \<Longrightarrow> RestoreOperation (operation_snapshot op) = Inr op"
  by (cases "op_state op")
    (auto simp: RestoreOperation_def operation_snapshot_def NewOperation_def wf_operation_defs
      IsTerminal_def Let_def split: option.splits intro!: Operation.equality)

text \<open>The phases an operation went through are a prefix of the path of its capability.\<close>

definition follows_path :: "Operation \<Rightarrow> OperationPhase list \<Rightarrow> bool" where
  "follows_path op ps \<longleftrightarrow>
     (\<exists>n. 0 < n \<and> n \<le> length (phase_path (op_capability op)) \<and>
        ps = take n (phase_path (op_capability op)) \<and> op_phase op = last ps)"

lemma follows_path_advance:
  assumes "follows_path op ps" "AdvancePhase op p t = Inr op'"
  shows "follows_path op' (ps @ [op_phase op'])"
proof -
  from assms(1) obtain n where n: "0 < n" "n \<le> length (phase_path (op_capability op))"
    "ps = take n (phase_path (op_capability op))" "op_phase op = last ps"
    unfolding follows_path_def by blast
  have same: "op_capability op' = op_capability op" "op_phase op' = p"
    using assms(2) by (cases rule: AdvancePhase_cases; simp)+
  from assms(2) have "Suc n \<le> length (phase_path (op_capability op)) \<and>
      ps @ [p] = take (Suc n) (phase_path (op_capability op))"
    using n
    by (cases rule: AdvancePhase_cases)
      (auto simp: phase_path_def canAdvanceTo_def less_Suc_eq take_Cons' le_Suc_eq numeral_eq_Suc
        split: if_splits)
  then show ?thesis
    unfolding follows_path_def same by (intro exI [of _ "Suc n"]) (metis last_snoc zero_less_Suc)
qed

lemma op_run_follows_path: "op_run op ps \<Longrightarrow> follows_path op ps"
proof (induction rule: op_run.induct)
  case (new oid rid c g t rs op)
  then have "op_phase op = OperationPhaseRequested"
    by (auto simp: NewOperation_def split: if_splits)
  then show ?case
    unfolding follows_path_def by (intro exI [of _ 1]) (auto simp: phase_path_def)
next
  case (phase op ps p t op')
  then show ?case by (blast intro: follows_path_advance)
qed (auto simp: follows_path_def Operation_Succeed_def Operation_Fail_def Operation_Cancel_def
    elim!: complete_cases)

lemma NewOperation_fields:
  assumes "NewOperation oid rid c g t rs = Inr op"
  shows "op_id op = oid" "op_resourceID op = rid" "op_capability op = c"
    "op_targetGeneration op = g" "op_phaseChangedAt op = t" "op_state op = OperationStatePending"
    "op_phase op = OperationPhaseRequested"
  using assms by (auto simp: NewOperation_def split: if_splits list.splits)

lemma op_run_succeeded_path:
  assumes "op_run op ps"
  shows "op_state op = OperationStateSucceeded \<longrightarrow> ps = phase_path (op_capability op) \<and>
    op_capability op \<in> {CapabilityCreate, CapabilityUpdate, CapabilityDelete}"
  using assms
proof (induction rule: op_run.induct)
  case (new oid rid c g t rs op)
  then show ?case by (simp add: NewOperation_fields)
next
  case (phase op ps p t op')
  from phase.hyps(2) show ?case by (cases rule: AdvancePhase_cases) simp_all
next
  case (succeeded op ps t op')
  from succeeded.hyps(1) obtain n where n: "n \<le> length (phase_path (op_capability op))" "0 < n"
    "ps = take n (phase_path (op_capability op))" "op_phase op = last ps"
    using op_run_follows_path unfolding follows_path_def by blast
  from succeeded.hyps(2) have "isFinalPhase op" "op_capability op' = op_capability op"
    by (auto simp: Operation_Succeed_def elim!: complete_cases)
  with n show ?case
    by (auto simp: isFinalPhase_def phase_path_def take_Cons' numeral_eq_Suc le_Suc_eq
        split: if_splits)
qed (auto simp: Operation_Fail_def Operation_Cancel_def elim!: complete_cases)

section \<open>Resource histories\<close>

text \<open>A resource after a number of accepted specification updates, and the snapshot of its fields.\<close>

inductive resource_run :: "'spec Resource \<Rightarrow> nat \<Rightarrow> bool" where
  new: "NewResource rid ty owner spec t = Inr r \<Longrightarrow> resource_run r 0"
| update: "resource_run r n \<Longrightarrow> UpdateSpec r spec t = Inr r' \<Longrightarrow> resource_run r' (Suc n)"

definition resource_snapshot :: "'spec Resource \<Rightarrow> 'spec ResourceSnapshot" where
  "resource_snapshot r =
     \<lparr>rsnap_ID = resource_id r, rsnap_Type = resource_typeRef r, rsnap_Owner = resource_owner r,
      rsnap_Generation = resource_generation r, rsnap_Spec = resource_spec r,
      rsnap_CreatedAt = resource_createdAt r, rsnap_UpdatedAt = resource_updatedAt r\<rparr>"

definition wf_resource :: "'spec Resource \<Rightarrow> bool" where
  "wf_resource r \<longleftrightarrow> \<not> blank (resource_id r) \<and> ResourceTypeRef_validate (resource_typeRef r) = Inr () \<and>
     OwnerRef_validate (resource_owner r) = Inr () \<and> resource_generation r \<noteq> 0 \<and>
     resource_createdAt r \<noteq> 0 \<and> resource_updatedAt r \<noteq> 0 \<and>
     resource_createdAt r \<le> resource_updatedAt r"

lemma UpdateSpec_fields:
  assumes "UpdateSpec r spec t = Inr r'"
  shows "resource_id r' = resource_id r" "resource_typeRef r' = resource_typeRef r"
    "resource_owner r' = resource_owner r" "resource_spec r' = spec" "t \<noteq> 0"
    "resource_createdAt r' = resource_createdAt r" "resource_updatedAt r' = t"
    "resource_updatedAt r \<le> t" "resource_generation r' = resource_generation r + 1"
    "resource_generation r \<noteq> -1" "resource_generation r < resource_generation r'"
  using assms by (auto simp: UpdateSpec_def not_less uint64_inc_less)

lemma resource_run_wf:
  "resource_run r n \<Longrightarrow> wf_resource r \<and> unat (resource_generation r) = Suc n"
proof (induction rule: resource_run.induct)
  case (new rid ty owner spec t r)
  then show ?case by (auto simp: NewResource_def wf_resource_def)
next
  case (update r n spec t r')
  note f = UpdateSpec_fields [OF update.hyps(2)]
  have "unat (resource_generation r') = Suc (Suc n)"
    using update.IH f(9,10) by (simp add: unat_uint64_inc)
  moreover from this have "resource_generation r' \<noteq> 0" by auto
  ultimately show ?case using update.IH f(1-8) by (simp add: wf_resource_def)
qed

lemma RestoreResource_snapshot:
  "wf_resource r \<Longrightarrow> RestoreResource (resource_snapshot r) = Inr r"
  by (auto simp: RestoreResource_def resource_snapshot_def NewResource_def wf_resource_def)

section \<open>Properties of operations and resources\<close>

text \<open>A create operation, started and driven to success, as an input of the witnesses.\<close>

definition example_operation :: "OperationState \<Rightarrow> OperationPhase \<Rightarrow> time \<Rightarrow> time \<Rightarrow> time \<Rightarrow> Operation" where
  "example_operation st ph started changed completed =
     \<lparr>op_id = ''op-1'', op_resourceID = ''res-1'', op_capability = CapabilityCreate,
      op_targetGeneration = 1, op_retryOf = '''', op_state = st, op_phase = ph,
      op_requestedAt = 10, op_startedAt = started, op_phaseChangedAt = changed,
      op_completedAt = completed, op_failure = None\<rparr>"

lemma example_operation_new:
  "op_run (example_operation OperationStatePending OperationPhaseRequested 0 10 0)
     [OperationPhaseRequested]"
  using op_run.new [of "''op-1''" "''res-1''" CapabilityCreate 1 10 "[]"]
  by (simp add: NewOperation_def example_operation_def)

lemma example_operation_started:
  "op_run (example_operation OperationStateRunning OperationPhaseValidating 11 11 0)
     [OperationPhaseRequested, OperationPhaseValidating]"
  using op_run.phase [OF example_operation_new, of OperationPhaseValidating 11]
  by (simp add: example_operation_def AdvancePhase_def IsTerminal_def canAdvanceTo_def
      validateTransitionTime_def)

lemma example_operation_applying:
  "op_run (example_operation OperationStateRunning OperationPhaseApplying 11 13 0)
     [OperationPhaseRequested, OperationPhaseValidating, OperationPhasePlanning, OperationPhaseApplying]"
proof -
  have "op_run (example_operation OperationStateRunning OperationPhasePlanning 11 12 0)
     [OperationPhaseRequested, OperationPhaseValidating, OperationPhasePlanning]"
    using op_run.phase [OF example_operation_started, of OperationPhasePlanning 12]
    by (simp add: example_operation_def AdvancePhase_def IsTerminal_def canAdvanceTo_def
        validateTransitionTime_def)
  from op_run.phase [OF this, of OperationPhaseApplying 13] show ?thesis
    by (simp add: example_operation_def AdvancePhase_def IsTerminal_def canAdvanceTo_def
        validateTransitionTime_def)
qed

lemma example_operation_step:
  "Operation_Succeed (example_operation OperationStateRunning OperationPhaseApplying 11 13 0) 14 =
     Inr (example_operation OperationStateSucceeded OperationPhaseApplying 11 13 14)"
  by (simp add: example_operation_def Operation_Succeed_def isFinalPhase_def complete_def
      validateTransitionTime_def)

text \<open>
  C37: an operation that any sequence of its mutators produced survives persistence. Restoring the
  snapshot of its fields passes every check of \<open>RestoreOperation\<close> and gives back the same operation.
\<close>

theorem operation_restore_roundtrip:
  assumes "op_run op ps"
  shows "RestoreOperation (operation_snapshot op) = Inr op"
  using assms by (simp add: op_run_wf RestoreOperation_snapshot)

theorem operation_restore_roundtrip_witness:
  "RestoreOperation (operation_snapshot
     (example_operation OperationStateRunning OperationPhaseApplying 11 13 0)) =
   Inr (example_operation OperationStateRunning OperationPhaseApplying 11 13 0)"
  by (rule operation_restore_roundtrip [OF example_operation_applying])

text \<open>
  C38: a terminal operation never changes again, and no transition alters what was requested
  (identity, resource, capability, target generation, retried operation, request time) or breaks
  the invariant of operations; failures have a reason, times are ordered.
\<close>

theorem operation_transitions_safe:
  assumes "op_run op ps" "op_step op op'"
  shows "\<not> IsTerminal op \<and> op_intent op' = op_intent op \<and> wf_operation op'"
  using assms op_run_wf op_step_wf op_step_intent op_step_nonterminal by blast

theorem operation_transitions_safe_witness:
  "wf_operation (example_operation OperationStateSucceeded OperationPhaseApplying 11 13 14)"
  using operation_transitions_safe
    [OF example_operation_applying op_step.succeed [OF example_operation_step]] by simp

text \<open>
  an operation succeeds only after it went through every phase of its capability, in order
  and once: requested, validating, planning, applying for create and update; requested, validating,
  destroying for delete. An operation of another capability never succeeds.
\<close>

theorem operation_success_full_path:
  assumes "op_run op ps" "op_state op = OperationStateSucceeded"
  shows "ps = phase_path (op_capability op) \<and>
    op_capability op \<in> {CapabilityCreate, CapabilityUpdate, CapabilityDelete}"
  using op_run_succeeded_path [OF assms(1)] assms(2) by blast

theorem operation_success_full_path_witness:
  "op_run (example_operation OperationStateSucceeded OperationPhaseApplying 11 13 14)
     [OperationPhaseRequested, OperationPhaseValidating, OperationPhasePlanning, OperationPhaseApplying] \<and>
   phase_path CapabilityCreate =
     [OperationPhaseRequested, OperationPhaseValidating, OperationPhasePlanning, OperationPhaseApplying]"
  using operation_success_full_path
    [OF op_run.succeeded [OF example_operation_applying example_operation_step]]
    op_run.succeeded [OF example_operation_applying example_operation_step]
  by (simp add: example_operation_def)

text \<open>
  C39: the generation of a resource counts its accepted specification updates. After n updates it
  is n + 1 as a number, so the 64-bit counter never wraps, creation never follows the last update,
  and the persisted snapshot restores to the same resource.
\<close>

theorem resource_generation_counts_updates:
  assumes "resource_run r n"
  shows "unat (resource_generation r) = n + 1 \<and> resource_createdAt r \<le> resource_updatedAt r \<and>
    RestoreResource (resource_snapshot r) = Inr r"
  using resource_run_wf [OF assms] RestoreResource_snapshot [of r] by (simp add: wf_resource_def)

definition example_resource :: "nat Resource" where
  "example_resource =
     \<lparr>resource_id = ''res-1'', resource_typeRef = \<lparr>tref_Name = ''app'', tref_Version = ''v1''\<rparr>,
      resource_owner = \<lparr>owner_Kind = ''team'', owner_ID = ''t1''\<rparr>, resource_generation = 1,
      resource_spec = 7, resource_createdAt = 10, resource_updatedAt = 10\<rparr>"

lemma example_resource_new:
  "NewResource ''res-1'' \<lparr>tref_Name = ''app'', tref_Version = ''v1''\<rparr>
     \<lparr>owner_Kind = ''team'', owner_ID = ''t1''\<rparr> 7 10 = Inr example_resource"
  by (simp add: NewResource_def ResourceTypeRef_validate_def OwnerRef_validate_def example_resource_def)

text \<open>The example Resource after one update of its specification.\<close>

definition example_updated :: "nat Resource" where
  "example_updated = example_resource\<lparr>resource_spec := 8, resource_generation := 2, resource_updatedAt := 11\<rparr>"

lemma example_updated_run: "resource_run example_updated 1"
proof -
  have "UpdateSpec example_resource 8 11 = Inr example_updated"
    by (simp add: UpdateSpec_def example_resource_def example_updated_def)
  from resource_run.update [OF resource_run.new [OF example_resource_new] this] show ?thesis by simp
qed

theorem resource_generation_counts_updates_witness:
  "resource_run example_updated 1 \<and> resource_spec example_updated = 8 \<and>
   unat (resource_generation example_updated) = 1 + 1 \<and>
   RestoreResource (resource_snapshot example_updated) = Inr example_updated"
  using resource_generation_counts_updates [OF example_updated_run] example_updated_run
  by (simp add: example_updated_def)

end
