(* ===== verification/Status.thy ===== *)
theory Status
  imports Domain
begin

text \<open>
  Normalized statuses (\<^verbatim>\<open>src/internal/domain/status.go\<close>), observed facts
  (\<^verbatim>\<open>observed_facts.go\<close>) and audit events (\<^verbatim>\<open>event.go\<close>). A status owns a list of conditions with
  distinct types, none of which observes a generation or a time later than the status itself.
\<close>

section \<open>Conditions and statuses\<close>

datatype ResourceState =
    ResourceStateUnknown
  | ResourceStatePending
  | ResourceStateReady
  | ResourceStateDeleting
  | ResourceStateDeleted
  | ResourceStateFailed
  | ResourceStateOther string

datatype ConditionStatus =
    ConditionStatusTrue
  | ConditionStatusFalse
  | ConditionStatusUnknown
  | ConditionStatusOther string

fun ResourceState_validate :: "ResourceState \<Rightarrow> unit result" where
  "ResourceState_validate (ResourceStateOther s) = Inl (ErrMessage ''invalid resource state'')"
| "ResourceState_validate _ = Inr ()"

fun ConditionStatus_validate :: "ConditionStatus \<Rightarrow> unit result" where
  "ConditionStatus_validate (ConditionStatusOther s) = Inl (ErrMessage ''invalid condition status'')"
| "ConditionStatus_validate _ = Inr ()"

record Condition =
  cond_typeName :: string
  cond_status :: ConditionStatus
  cond_reason :: string
  cond_message :: string
  cond_observedGeneration :: uint64
  cond_lastTransitionAt :: time

definition Condition_validate :: "Condition \<Rightarrow> unit result" where
  "Condition_validate c =
     (if blank (cond_typeName c) then Inl (ErrMessage ''condition type is required'')
      else bindE (ConditionStatus_validate (cond_status c)) (\<lambda>_.
        if blank (cond_reason c) then Inl (ErrMessage ''condition reason is required'')
        else if IsZero (cond_lastTransitionAt c)
          then Inl (ErrMessage ''condition transition time is required'')
        else Inr ()))"

definition NewCondition ::
    "string \<Rightarrow> ConditionStatus \<Rightarrow> string \<Rightarrow> string \<Rightarrow> uint64 \<Rightarrow> time \<Rightarrow> Condition result" where
  "NewCondition typeName status reason message observedGeneration lastTransitionAt =
     (let condition = \<lparr>cond_typeName = typeName, cond_status = status, cond_reason = reason,
                       cond_message = message, cond_observedGeneration = observedGeneration,
                       cond_lastTransitionAt = lastTransitionAt\<rparr>
      in bindE (Condition_validate condition) (\<lambda>_. Inr condition))"

record ResourceStatus =
  status_resourceID :: resource_id
  status_observedGeneration :: uint64
  status_state :: ResourceState
  status_conditions :: "Condition list"
  status_updatedAt :: time

fun check_conditions :: "uint64 \<Rightarrow> time \<Rightarrow> string list \<Rightarrow> Condition list \<Rightarrow> unit result" where
  "check_conditions gen at seen [] = Inr ()"
| "check_conditions gen at seen (c # cs) =
     bindE (Condition_validate c) (\<lambda>_.
       if cond_typeName c \<in> set seen then Inl (ErrMessage ''condition type is duplicated'')
       else if gen < cond_observedGeneration c
         then Inl (ErrMessage ''condition observes a generation newer than the resource status'')
       else if at < cond_lastTransitionAt c
         then Inl (ErrMessage ''condition transition cannot follow the resource status update'')
       else check_conditions gen at (cond_typeName c # seen) cs)"

definition NewResourceStatus ::
    "resource_id \<Rightarrow> uint64 \<Rightarrow> ResourceState \<Rightarrow> Condition list \<Rightarrow> time \<Rightarrow> ResourceStatus result" where
  "NewResourceStatus resourceID observedGeneration state conditions updatedAt =
     (if blank resourceID then Inl (ErrMessage ''resource ID is required'')
      else bindE (ResourceState_validate state) (\<lambda>_.
        if IsZero updatedAt then Inl (ErrMessage ''resource status update time is required'')
        else bindE (check_conditions observedGeneration updatedAt [] conditions) (\<lambda>_.
          Inr \<lparr>status_resourceID = resourceID, status_observedGeneration = observedGeneration,
               status_state = state, status_conditions = conditions,
               status_updatedAt = updatedAt\<rparr>)))"

section \<open>Observed facts\<close>

datatype ResourcePresence =
    ResourcePresencePresent
  | ResourcePresenceNotFound
  | ResourcePresenceUnknown
  | ResourcePresenceOther string

datatype ResourceReadiness =
    ResourceReadinessReady
  | ResourceReadinessNotReady
  | ResourceReadinessUnknown
  | ResourceReadinessOther string

datatype ResourceDrift =
    ResourceDriftInSync
  | ResourceDriftDrifted
  | ResourceDriftUnknown
  | ResourceDriftOther string

record ObservedFacts =
  facts_Presence :: ResourcePresence
  facts_Readiness :: ResourceReadiness
  facts_Drift :: ResourceDrift

definition ObservedFacts_zero :: ObservedFacts where
  "ObservedFacts_zero = \<lparr>facts_Presence = ResourcePresenceOther '''',
     facts_Readiness = ResourceReadinessOther '''', facts_Drift = ResourceDriftOther ''''\<rparr>"

definition ObservedFacts_Validate :: "ObservedFacts \<Rightarrow> unit result" where
  "ObservedFacts_Validate f =
     (if facts_Presence f \<noteq> ResourcePresencePresent \<and> facts_Presence f \<noteq> ResourcePresenceNotFound \<and>
         facts_Presence f \<noteq> ResourcePresenceUnknown
        then Inl (ErrMessage ''invalid resource presence'')
      else if facts_Readiness f \<noteq> ResourceReadinessReady \<and>
         facts_Readiness f \<noteq> ResourceReadinessNotReady \<and> facts_Readiness f \<noteq> ResourceReadinessUnknown
        then Inl (ErrMessage ''invalid resource readiness'')
      else if facts_Drift f \<noteq> ResourceDriftInSync \<and> facts_Drift f \<noteq> ResourceDriftDrifted \<and>
         facts_Drift f \<noteq> ResourceDriftUnknown
        then Inl (ErrMessage ''invalid resource drift'')
      else if facts_Presence f \<noteq> ResourcePresencePresent \<and>
         facts_Readiness f \<noteq> ResourceReadinessUnknown
        then Inl (ErrMessage ''readiness requires a present resource'')
      else Inr ())"

section \<open>Events\<close>

record EventActor =
  actor_ID :: string
  actor_Kind :: string

record Event =
  event_id :: event_id
  event_resourceID :: resource_id
  event_operationID :: operation_id
  event_generation :: uint64
  event_typeName :: string
  event_reason :: string
  event_message :: string
  event_occurredAt :: time
  event_actor :: "EventActor option"
  event_admission :: "string option"

definition NewEvent ::
    "event_id \<Rightarrow> resource_id \<Rightarrow> operation_id \<Rightarrow> uint64 \<Rightarrow> string \<Rightarrow> string \<Rightarrow> string \<Rightarrow> time
      \<Rightarrow> Event result" where
  "NewEvent eid resourceID operationID generation typeName reason message occurredAt =
     (if blank eid then Inl (ErrMessage ''event ID is required'')
      else if blank resourceID then Inl (ErrMessage ''resource ID is required'')
      else if generation = 0 then Inl (ErrMessage ''event generation must be greater than zero'')
      else if blank typeName then Inl (ErrMessage ''event type is required'')
      else if blank reason then Inl (ErrMessage ''event reason is required'')
      else if IsZero occurredAt then Inl (ErrMessage ''event occurrence time is required'')
      else Inr \<lparr>event_id = eid, event_resourceID = resourceID, event_operationID = operationID,
                event_generation = generation, event_typeName = typeName, event_reason = reason,
                event_message = message, event_occurredAt = occurredAt,
                event_actor = None, event_admission = None\<rparr>)"

definition WithActor :: "Event \<Rightarrow> EventActor \<Rightarrow> Event result" where
  "WithActor e actor =
     (if blank (actor_ID actor) then Inl (ErrMessage ''event actor ID is required'')
      else if blank (actor_Kind actor) then Inl (ErrMessage ''event actor kind is required'')
      else Inr (e\<lparr>event_actor := Some \<lparr>actor_ID = TrimSpace (actor_ID actor),
                                        actor_Kind = TrimSpace (actor_Kind actor)\<rparr>\<rparr>))"

text \<open>
  \<^verbatim>\<open>hex.DecodeString\<close> fails exactly on an odd length or a byte that is no hexadecimal digit;
  \<^verbatim>\<open>strings.ToLower\<close> fixes a string of hexadecimal digits exactly when it has no upper-case one,
  so on the strings that pass the decoder both tests together ask for lower-case digits.
\<close>

definition lower_hex :: "char \<Rightarrow> bool" where
  "lower_hex c \<longleftrightarrow> c \<in> set ''0123456789abcdef''"

definition WithAdmissionPolicyRevision :: "Event \<Rightarrow> string \<Rightarrow> Event result" where
  "WithAdmissionPolicyRevision e revision =
     (let p = ''pol_v1_'';
          digest = (if has_prefix p revision then drop (length p) revision else revision)
      in if revision \<noteq> TrimSpace revision \<or> \<not> has_prefix p revision \<or> length digest \<noteq> 64 \<or>
            \<not> list_all lower_hex digest
         then Inl (ErrMessage ''event admission policy revision is invalid'')
         else Inr (e\<lparr>event_admission := Some revision\<rparr>))"

section \<open>Well-formed statuses\<close>

definition wf_conditions :: "uint64 \<Rightarrow> time \<Rightarrow> Condition list \<Rightarrow> bool" where
  "wf_conditions gen at cs \<longleftrightarrow> distinct (map cond_typeName cs) \<and>
     (\<forall>c \<in> set cs. Condition_validate c = Inr () \<and> cond_observedGeneration c \<le> gen \<and>
        cond_lastTransitionAt c \<le> at)"

definition wf_status :: "ResourceStatus \<Rightarrow> bool" where
  "wf_status st \<longleftrightarrow> \<not> blank (status_resourceID st) \<and>
     ResourceState_validate (status_state st) = Inr () \<and> status_updatedAt st \<noteq> 0 \<and>
     wf_conditions (status_observedGeneration st) (status_updatedAt st) (status_conditions st)"

lemma check_conditions_iff:
  "check_conditions gen at seen cs = Inr () \<longleftrightarrow>
     wf_conditions gen at cs \<and> set seen \<inter> cond_typeName ` set cs = {}"
proof (induction cs arbitrary: seen)
  case Nil
  then show ?case by (simp add: wf_conditions_def)
next
  case (Cons c cs)
  then show ?case by (auto simp: wf_conditions_def not_less)
qed

lemma NewResourceStatus_iff:
  "NewResourceStatus rid gen state cs at = Inr st \<longleftrightarrow>
     wf_status st \<and> st = \<lparr>status_resourceID = rid, status_observedGeneration = gen,
       status_state = state, status_conditions = cs, status_updatedAt = at\<rparr>"
  by (auto simp: NewResourceStatus_def check_conditions_iff wf_status_def)

lemma wf_conditions_mono:
  "wf_conditions gen at cs \<Longrightarrow> gen \<le> gen' \<Longrightarrow> at \<le> at' \<Longrightarrow> wf_conditions gen' at' cs"
  by (fastforce simp: wf_conditions_def)

section \<open>Properties of statuses\<close>

text \<open>
  \<open>NewResourceStatus\<close> accepts exactly the well-formed statuses and returns its arguments
  unchanged: condition types are distinct, every condition is valid, and none observes a generation
  or a transition time later than the status.
\<close>

theorem status_constructor_exact:
  "NewResourceStatus rid gen state cs at = Inr st \<longleftrightarrow>
     wf_status st \<and> st = \<lparr>status_resourceID = rid, status_observedGeneration = gen,
       status_state = state, status_conditions = cs, status_updatedAt = at\<rparr>"
  by (rule NewResourceStatus_iff)

end
