(* ===== verification/Lifecycle.thy ===== *)
theory Lifecycle
  imports Status
begin

text \<open>
  The lifecycle engine (\<^verbatim>\<open>src/internal/lifecycle/engine.go\<close>, \<^verbatim>\<open>observation.go\<close>): a stateless
  policy that turns a resource, its status and its latest operation into the next operation, status
  and audit event. Every function returns the first error the code would return.
\<close>

section \<open>Conditions of a status\<close>

definition ConditionReady :: string where "ConditionReady = ''Ready''"
definition ConditionReconciled :: string where "ConditionReconciled = ''Reconciled''"
definition ConditionReconciling :: string where "ConditionReconciling = ''Reconciling''"
definition ConditionOperationFailed :: string where "ConditionOperationFailed = ''OperationFailed''"
definition ConditionDeleted :: string where "ConditionDeleted = ''Deleted''"
definition ConditionDependenciesReady :: string where
  "ConditionDependenciesReady = ''DependenciesReady''"
definition ConditionDrifted :: string where "ConditionDrifted = ''Drifted''"

lemmas condition_type_defs =
  ConditionReady_def ConditionReconciled_def ConditionReconciling_def ConditionOperationFailed_def
  ConditionDeleted_def ConditionDependenciesReady_def ConditionDrifted_def

fun upsert_condition :: "Condition \<Rightarrow> Condition list \<Rightarrow> Condition list" where
  "upsert_condition c [] = [c]"
| "upsert_condition c (d # ds) =
     (if cond_typeName d = cond_typeName c then c # ds else d # upsert_condition c ds)"

definition setCondition ::
    "Condition list \<Rightarrow> string \<Rightarrow> ConditionStatus \<Rightarrow> string \<Rightarrow> string \<Rightarrow> uint64 \<Rightarrow> time
      \<Rightarrow> Condition list result" where
  "setCondition conditions typeName status reason message generation at =
     bindE (NewCondition typeName status reason message generation at) (\<lambda>condition.
       Inr (upsert_condition condition conditions))"

definition findCondition :: "Condition list \<Rightarrow> string \<Rightarrow> Condition option" where
  "findCondition conditions typeName = List.find (\<lambda>c. cond_typeName c = typeName) conditions"

definition condition_is :: "Condition list \<Rightarrow> string \<Rightarrow> ConditionStatus \<Rightarrow> bool" where
  "condition_is conditions typeName s \<longleftrightarrow>
     (case findCondition conditions typeName of None \<Rightarrow> False | Some c \<Rightarrow> cond_status c = s)"

definition ensurePreviouslyReady :: "Condition list \<Rightarrow> uint64 \<Rightarrow> time \<Rightarrow> Condition list result" where
  "ensurePreviouslyReady conditions generation at =
     (if condition_is conditions ConditionReady ConditionStatusTrue then Inr conditions
      else setCondition conditions ConditionReady ConditionStatusTrue ''PreviouslyReady'' '''' generation at)"

section \<open>Reasons\<close>

text \<open>
  \<^verbatim>\<open>strings.ToUpper(string(capability[:1])) + string(capability[1:])\<close>. The engine reaches it only
  with the three lifecycle capabilities, whose first byte is an ASCII letter.
\<close>

fun capability_prefix :: "capability \<Rightarrow> string" where
  "capability_prefix [] = []"
| "capability_prefix (c # cs) =
     (if CHR ''a'' \<le> c \<and> c \<le> CHR ''z'' then char_of (of_char c - 32 :: nat) else c) # cs"

definition requestReason :: "capability \<Rightarrow> bool \<Rightarrow> string" where
  "requestReason capability retry =
     (if retry then capability_prefix capability @ ''RetryRequested''
      else capability_prefix capability @ ''Requested'')"

definition successReason :: "capability \<Rightarrow> string" where
  "successReason capability = capability_prefix capability @ ''Succeeded''"

section \<open>Guards\<close>

definition activeStatusOperation :: "ResourceStatus \<Rightarrow> bool \<times> capability" where
  "activeStatusOperation status =
     (case status_state status of
        ResourceStatePending \<Rightarrow> (True, CapabilityCreate)
      | ResourceStateDeleting \<Rightarrow> (True, CapabilityDelete)
      | ResourceStateReady \<Rightarrow>
          (if condition_is (status_conditions status) ConditionReconciling ConditionStatusTrue
           then (True, CapabilityUpdate) else (False, ''''))
      | _ \<Rightarrow> (False, ''''))"

definition validateResourceContext ::
    "'spec Resource \<Rightarrow> ResourceType \<Rightarrow> ResourceStatus \<Rightarrow> time \<Rightarrow> unit result" where
  "validateResourceContext resource resourceType status at =
     (if resource_typeRef resource \<noteq> rtype_ref resourceType
        then Inl (ErrInvalidTransition ''resource type does not match its definition'')
      else if status_resourceID status \<noteq> resource_id resource
        then Inl (ErrInvalidTransition ''status belongs to a different resource'')
      else if resource_generation resource < status_observedGeneration status
        then Inl (ErrInvalidTransition ''observed generation exceeds desired generation'')
      else if IsZero at \<or> at < resource_updatedAt resource \<or> at < status_updatedAt status
        then Inl (ErrInvalidTransition ''transition time precedes current resource state'')
      else Inr ())"

definition validateOperationContext ::
    "'spec Resource \<Rightarrow> ResourceStatus \<Rightarrow> Operation \<Rightarrow> time \<Rightarrow> unit result" where
  "validateOperationContext resource status operation at =
     (if status_resourceID status \<noteq> resource_id resource \<or>
         op_resourceID operation \<noteq> resource_id resource
        then Inl (ErrInvalidTransition ''resource, status, and operation do not match'')
      else if resource_generation resource < op_targetGeneration operation
        then Inl (ErrInvalidTransition ''operation targets a future generation'')
      else if status_observedGeneration status \<noteq> op_targetGeneration operation
        then Inl (ErrInvalidTransition ''active operation target does not match the evaluated generation'')
      else if IsZero at \<or> at < status_updatedAt status
        then Inl (ErrInvalidTransition ''transition time precedes current status'')
      else if \<not> IsTerminal operation then
        (let (statusActive, expectedCapability) = activeStatusOperation status
         in if \<not> statusActive
              then Inl (ErrInvalidTransition ''active operation is not represented by the resource status'')
            else if op_capability operation \<noteq> expectedCapability
              then Inl (ErrInvalidTransition ''active operation capability does not match status capability'')
            else Inr ())
      else Inr ())"

definition validateRequestPrecondition ::
    "'spec Resource \<Rightarrow> ResourceStatus \<Rightarrow> capability \<Rightarrow> bool \<Rightarrow> unit result" where
  "validateRequestPrecondition resource status capability retry =
     (let state = status_state status;
          newer = status_observedGeneration status < resource_generation resource;
          permitted =
            (if capability = CapabilityCreate
               then state = ResourceStateUnknown \<or> state = ResourceStatePending \<or>
                    (state = ResourceStateFailed \<and> retry) \<or> (state = ResourceStateDeleted \<and> newer)
             else if capability = CapabilityUpdate
               then (state = ResourceStateReady \<and> newer) \<or> (state = ResourceStateReady \<and> retry)
             else if capability = CapabilityDelete
               then state = ResourceStateReady \<or> state = ResourceStateFailed
             else False)
      in if permitted then Inr () else Inl (ErrInvalidTransition ''cannot request from state''))"

definition validateOperationSnapshot ::
    "'spec Resource \<Rightarrow> ResourceStatus \<Rightarrow> Operation option \<Rightarrow> unit result" where
  "validateOperationSnapshot resource status latest =
     (let (statusActive, expectedCapability) = activeStatusOperation status;
          operationActive = (case latest of None \<Rightarrow> False | Some l \<Rightarrow> \<not> IsTerminal l)
      in if statusActive \<noteq> operationActive
           then Inl (ErrInvalidTransition ''status active but operation active'')
         else case latest of
           None \<Rightarrow> Inr ()
         | Some l \<Rightarrow>
             if op_resourceID l \<noteq> resource_id resource
               then Inl (ErrInvalidTransition ''latest operation belongs to a different resource'')
             else if \<not> operationActive then Inr ()
             else if op_capability l \<noteq> expectedCapability
               then Inl (ErrInvalidTransition ''active operation capability does not match expected capability'')
             else if op_targetGeneration l \<noteq> status_observedGeneration status
               then Inl (ErrInvalidTransition ''active operation target generation does not match observed generation'')
             else Inr ())"

section \<open>Transitions\<close>

record lifecycle_result =
  lr_Operation :: Operation
  lr_Status :: ResourceStatus
  lr_Event :: Event

definition request_source ::
    "'spec Resource \<Rightarrow> Operation option \<Rightarrow> capability \<Rightarrow> operation_id
      \<Rightarrow> (bool \<times> operation_id \<times> uint64) result" where
  "request_source resource latest capability operationID =
     (case latest of
        None \<Rightarrow> Inr (False, '''', resource_generation resource)
      | Some l \<Rightarrow>
          if op_resourceID l \<noteq> resource_id resource
            then Inl (ErrInvalidTransition ''latest operation belongs to a different resource'')
          else if op_id l = operationID
            then Inl (ErrInvalidTransition ''operation ID has already been used'')
          else if \<not> IsTerminal l then Inl (ErrOperationActive ''resource has operation'')
          else if op_state l = OperationStateFailed \<and> op_capability l = capability
            then Inr (True, op_id l, op_targetGeneration l)
          else Inr (False, '''', resource_generation resource))"

definition request_conditions ::
    "ResourceStatus \<Rightarrow> capability \<Rightarrow> bool \<Rightarrow> uint64 \<Rightarrow> time \<Rightarrow> (ResourceState \<times> Condition list) result" where
  "request_conditions status capability retry target requestedAt =
     bindE (if status_state status = ResourceStateReady
            then ensurePreviouslyReady (status_conditions status) (status_observedGeneration status) requestedAt
            else Inr (status_conditions status)) (\<lambda>cs0.
     bindE (setCondition cs0 ConditionReconciling ConditionStatusTrue (requestReason capability retry) '''' target requestedAt) (\<lambda>cs1.
     bindE (setCondition cs1 ConditionReconciled ConditionStatusFalse ''LifecycleRequested'' '''' target requestedAt) (\<lambda>cs2.
     bindE (setCondition cs2 ConditionOperationFailed ConditionStatusFalse ''NoFailure'' '''' target requestedAt) (\<lambda>cs3.
     if capability = CapabilityCreate then
       bindE (setCondition cs3 ConditionReady ConditionStatusFalse ''CreatePending'' '''' target requestedAt) (\<lambda>cs4.
       bindE (setCondition cs4 ConditionDeleted ConditionStatusFalse ''CreatePending'' '''' target requestedAt) (\<lambda>cs5.
       Inr (ResourceStatePending, cs5)))
     else if capability = CapabilityDelete then
       bindE (setCondition cs3 ConditionDeleted ConditionStatusFalse ''DeletePending'' '''' target requestedAt) (\<lambda>cs4.
       Inr (ResourceStateDeleting, cs4))
     else Inr (status_state status, cs3)))))"

definition Engine_Request ::
    "'spec Resource \<Rightarrow> ResourceType \<Rightarrow> ResourceStatus \<Rightarrow> Operation option \<Rightarrow> capability
      \<Rightarrow> operation_id \<Rightarrow> event_id \<Rightarrow> time \<Rightarrow> lifecycle_result result" where
  "Engine_Request resource resourceType status latest capability operationID eventID requestedAt =
     bindE (validateResourceContext resource resourceType status requestedAt) (\<lambda>_.
     if \<not> Supports resourceType capability
       then Inl (ErrInvalidTransition ''resource type does not support capability'')
     else if capability \<noteq> CapabilityCreate \<and> capability \<noteq> CapabilityUpdate \<and>
             capability \<noteq> CapabilityDelete
       then Inl (ErrInvalidTransition ''capability has no lifecycle flow'')
     else bindE (validateOperationSnapshot resource status latest) (\<lambda>_.
     bindE (request_source resource latest capability operationID) (\<lambda>(retry, retryOf, targetGeneration).
     bindE (validateRequestPrecondition resource status capability retry) (\<lambda>_.
     bindE (NewOperation operationID (resource_id resource) capability targetGeneration requestedAt [retryOf]) (\<lambda>operation.
     bindE (request_conditions status capability retry (op_targetGeneration operation) requestedAt) (\<lambda>(state, conditions).
     bindE (NewResourceStatus (resource_id resource) (op_targetGeneration operation) state conditions requestedAt) (\<lambda>updatedStatus.
     bindE (NewEvent eventID (resource_id resource) (op_id operation) (op_targetGeneration operation)
              ''LifecycleRequested'' (requestReason capability retry) '''' requestedAt) (\<lambda>event.
     Inr \<lparr>lr_Operation = operation, lr_Status = updatedStatus, lr_Event = event\<rparr>))))))))"

definition Engine_Advance ::
    "'spec Resource \<Rightarrow> ResourceStatus \<Rightarrow> Operation \<Rightarrow> OperationPhase \<Rightarrow> event_id \<Rightarrow> time
      \<Rightarrow> lifecycle_result result" where
  "Engine_Advance resource status operation nxt eventID changedAt =
     bindE (validateOperationContext resource status operation changedAt) (\<lambda>_.
     bindE (AdvancePhase operation nxt changedAt) (\<lambda>updatedOperation.
     bindE (setCondition (status_conditions status) ConditionReconciling ConditionStatusTrue (phase_string nxt) '''' (op_targetGeneration operation) changedAt) (\<lambda>cs1.
     bindE (setCondition cs1 ConditionReconciled ConditionStatusFalse (phase_string nxt) '''' (op_targetGeneration operation) changedAt) (\<lambda>cs2.
     bindE (NewResourceStatus (resource_id resource) (status_observedGeneration status) (status_state status) cs2 changedAt) (\<lambda>updatedStatus.
     bindE (NewEvent eventID (resource_id resource) (op_id operation) (op_targetGeneration operation)
              ''LifecyclePhaseChanged'' (phase_string nxt) '''' changedAt) (\<lambda>event.
     Inr \<lparr>lr_Operation = updatedOperation, lr_Status = updatedStatus, lr_Event = event\<rparr>))))))"

text \<open>
  The last condition block of \<^verbatim>\<open>Complete\<close> and \<^verbatim>\<open>Fail\<close>: a newer desired generation leaves the
  resource unreconciled, otherwise reconciling simply stops with the given reason and message.
\<close>

definition settle_conditions ::
    "'spec Resource \<Rightarrow> Operation \<Rightarrow> Condition list \<Rightarrow> string \<Rightarrow> string \<Rightarrow> time \<Rightarrow> Condition list result" where
  "settle_conditions resource operation cs reason message at =
     (if op_targetGeneration operation < resource_generation resource then
        bindE (setCondition cs ConditionReconciled ConditionStatusFalse ''NewerGenerationPending'' '''' (op_targetGeneration operation) at) (\<lambda>cs1.
        setCondition cs1 ConditionReconciling ConditionStatusFalse ''NewerGenerationPending'' '''' (op_targetGeneration operation) at)
      else setCondition cs ConditionReconciling ConditionStatusFalse reason message (op_targetGeneration operation) at)"

definition complete_conditions ::
    "Operation \<Rightarrow> Condition list \<Rightarrow> time \<Rightarrow> (ResourceState \<times> Condition list) result" where
  "complete_conditions operation cs completedAt =
     (let target = op_targetGeneration operation; capability = op_capability operation in
      bindE (setCondition cs ConditionReconciled ConditionStatusTrue ''LifecycleSucceeded'' '''' target completedAt) (\<lambda>cs1.
      bindE (setCondition cs1 ConditionOperationFailed ConditionStatusFalse ''NoFailure'' '''' target completedAt) (\<lambda>cs2.
      if capability = CapabilityCreate then
        bindE (setCondition cs2 ConditionReady ConditionStatusTrue ''LifecycleSucceeded'' '''' target completedAt) (\<lambda>cs3.
        bindE (setCondition cs3 ConditionDeleted ConditionStatusFalse ''ResourceCreated'' '''' target completedAt) (\<lambda>cs4.
        Inr (ResourceStateReady, cs4)))
      else if capability = CapabilityUpdate then
        bindE (setCondition cs2 ConditionReady ConditionStatusTrue ''LifecycleSucceeded'' '''' target completedAt) (\<lambda>cs3.
        Inr (ResourceStateReady, cs3))
      else if capability = CapabilityDelete then
        bindE (setCondition cs2 ConditionReady ConditionStatusFalse ''Deleted'' '''' target completedAt) (\<lambda>cs3.
        bindE (setCondition cs3 ConditionDeleted ConditionStatusTrue ''DestructionSucceeded'' '''' target completedAt) (\<lambda>cs4.
        Inr (ResourceStateDeleted, cs4)))
      else Inl (ErrInvalidTransition ''capability has no completion semantics''))))"

definition Engine_Complete ::
    "'spec Resource \<Rightarrow> ResourceStatus \<Rightarrow> Operation \<Rightarrow> event_id \<Rightarrow> time \<Rightarrow> lifecycle_result result" where
  "Engine_Complete resource status operation eventID completedAt =
     bindE (validateOperationContext resource status operation completedAt) (\<lambda>_.
     bindE (Operation_Succeed operation completedAt) (\<lambda>updatedOperation.
     bindE (complete_conditions operation (status_conditions status) completedAt) (\<lambda>(state, cs).
     bindE (settle_conditions resource operation cs ''LifecycleSucceeded'' '''' completedAt) (\<lambda>cs'.
     bindE (NewResourceStatus (resource_id resource) (status_observedGeneration status) state cs' completedAt) (\<lambda>updatedStatus.
     bindE (NewEvent eventID (resource_id resource) (op_id operation) (op_targetGeneration operation)
              ''LifecycleSucceeded'' (successReason (op_capability operation)) '''' completedAt) (\<lambda>event.
     Inr \<lparr>lr_Operation = updatedOperation, lr_Status = updatedStatus, lr_Event = event\<rparr>))))))"

definition fail_conditions ::
    "Operation \<Rightarrow> Condition list \<Rightarrow> string \<Rightarrow> string \<Rightarrow> time \<Rightarrow> (ResourceState \<times> Condition list) result" where
  "fail_conditions operation cs reason message failedAt =
     (let target = op_targetGeneration operation; capability = op_capability operation in
      bindE (setCondition cs ConditionReconciled ConditionStatusFalse reason message target failedAt) (\<lambda>cs1.
      bindE (setCondition cs1 ConditionOperationFailed ConditionStatusTrue reason message target failedAt) (\<lambda>cs2.
      if capability = CapabilityCreate then
        bindE (setCondition cs2 ConditionReady ConditionStatusFalse reason message target failedAt) (\<lambda>cs3.
        Inr (ResourceStateFailed, cs3))
      else if capability = CapabilityUpdate then Inr (ResourceStateReady, cs2)
      else if capability = CapabilityDelete then
        (let state = (if condition_is cs2 ConditionReady ConditionStatusTrue
                      then ResourceStateReady else ResourceStateFailed) in
         bindE (setCondition cs2 ConditionDeleted ConditionStatusFalse reason message target failedAt) (\<lambda>cs3.
         Inr (state, cs3)))
      else Inl (ErrInvalidTransition ''capability has no failure semantics''))))"

definition Engine_Fail ::
    "'spec Resource \<Rightarrow> ResourceStatus \<Rightarrow> Operation \<Rightarrow> string \<Rightarrow> string \<Rightarrow> event_id \<Rightarrow> time
      \<Rightarrow> lifecycle_result result" where
  "Engine_Fail resource status operation reason message eventID failedAt =
     bindE (validateOperationContext resource status operation failedAt) (\<lambda>_.
     bindE (Operation_Fail operation reason message failedAt) (\<lambda>updatedOperation.
     bindE (fail_conditions operation (status_conditions status) reason message failedAt) (\<lambda>(state, cs).
     bindE (settle_conditions resource operation cs ''OperationFailed'' message failedAt) (\<lambda>cs'.
     bindE (NewResourceStatus (resource_id resource) (status_observedGeneration status) state cs' failedAt) (\<lambda>updatedStatus.
     bindE (NewEvent eventID (resource_id resource) (op_id operation) (op_targetGeneration operation)
              ''LifecycleFailed'' reason message failedAt) (\<lambda>event.
     Inr \<lparr>lr_Operation = updatedOperation, lr_Status = updatedStatus, lr_Event = event\<rparr>))))))"

definition SetDependencyCondition ::
    "ResourceStatus \<Rightarrow> ConditionStatus \<Rightarrow> string \<Rightarrow> string \<Rightarrow> time \<Rightarrow> ResourceStatus result" where
  "SetDependencyCondition status conditionStatus reason message at =
     bindE (setCondition (status_conditions status) ConditionDependenciesReady conditionStatus reason message (status_observedGeneration status) at) (\<lambda>cs.
     NewResourceStatus (status_resourceID status) (status_observedGeneration status) (status_state status) cs at)"

section \<open>Observations\<close>

definition readinessCondition :: "ObservedFacts \<Rightarrow> ConditionStatus \<times> string" where
  "readinessCondition facts =
     (if facts_Presence facts = ResourcePresenceNotFound then (ConditionStatusFalse, ''ResourceNotFound'')
      else if facts_Readiness facts = ResourceReadinessReady then (ConditionStatusTrue, ''ResourceReady'')
      else if facts_Readiness facts = ResourceReadinessNotReady then (ConditionStatusFalse, ''ResourceNotReady'')
      else (ConditionStatusUnknown, ''ReadinessUnknown''))"

definition driftCondition :: "ObservedFacts \<Rightarrow> ConditionStatus \<times> string" where
  "driftCondition facts =
     (if facts_Drift facts = ResourceDriftInSync then (ConditionStatusFalse, ''InSync'')
      else if facts_Drift facts = ResourceDriftDrifted then (ConditionStatusTrue, ''DriftDetected'')
      else (ConditionStatusUnknown, ''DriftUnknown''))"

definition observed_state :: "ObservedFacts \<Rightarrow> bool \<Rightarrow> ResourceState \<Rightarrow> ResourceState" where
  "observed_state facts preserveState state =
     (if preserveState then state
      else if facts_Presence facts = ResourcePresencePresent \<and> facts_Readiness facts = ResourceReadinessReady
        then ResourceStateReady
      else if facts_Presence facts = ResourcePresenceNotFound \<or>
              (facts_Presence facts = ResourcePresencePresent \<and> facts_Readiness facts = ResourceReadinessNotReady)
        then ResourceStateUnknown
      else state)"

definition applyObservation ::
    "'spec Resource \<Rightarrow> ResourceStatus \<Rightarrow> ObservedFacts \<Rightarrow> time \<Rightarrow> bool \<Rightarrow> ResourceStatus result" where
  "applyObservation resource status facts observedAt preserve =
     (case ObservedFacts_Validate facts of
        Inl e \<Rightarrow> Inl (ErrInvalidTransition ''invalid observed facts'')
      | Inr _ \<Rightarrow>
     if status_resourceID status \<noteq> resource_id resource
       then Inl (ErrInvalidTransition ''status belongs to a different resource'')
     else if IsZero observedAt \<or> observedAt < status_updatedAt status \<or> observedAt < resource_updatedAt resource
       then Inl (ErrInvalidTransition ''observation time precedes current state'')
     else if fst (activeStatusOperation status)
       then Inl (ErrInvalidTransition ''passive observation cannot replace an active operation'')
     else let gen = status_observedGeneration status;
              preserveState = (preserve \<or> status_state status = ResourceStateDeleted \<or>
                               status_state status = ResourceStateFailed)
     in bindE
       (if facts_Presence facts \<noteq> ResourcePresenceUnknown \<or> facts_Readiness facts \<noteq> ResourceReadinessUnknown \<or>
           findCondition (status_conditions status) ConditionReady = None
        then (let (readyStatus, readyReason) = readinessCondition facts
              in setCondition (status_conditions status) ConditionReady readyStatus readyReason '''' gen observedAt)
        else Inr (status_conditions status)) (\<lambda>cs1.
     let (driftStatus, driftReason) = driftCondition facts in
     bindE (setCondition cs1 ConditionDrifted driftStatus driftReason '''' gen observedAt) (\<lambda>cs2.
     bindE
       (if facts_Drift facts = ResourceDriftDrifted \<and>
           (findCondition cs2 ConditionReconciled = None \<or>
            condition_is cs2 ConditionReconciled ConditionStatusTrue)
        then setCondition cs2 ConditionReconciled ConditionStatusFalse ''DriftDetected'' '''' gen observedAt
        else Inr cs2) (\<lambda>cs3.
     NewResourceStatus (resource_id resource) gen
       (observed_state facts preserveState (status_state status)) cs3 observedAt))))"

definition ApplyObservation ::
    "'spec Resource \<Rightarrow> ResourceStatus \<Rightarrow> ObservedFacts \<Rightarrow> time \<Rightarrow> ResourceStatus result" where
  "ApplyObservation resource status facts observedAt =
     applyObservation resource status facts observedAt False"

definition ApplyPostOperationObservation ::
    "'spec Resource \<Rightarrow> ResourceStatus \<Rightarrow> ObservedFacts \<Rightarrow> time \<Rightarrow> ResourceStatus result" where
  "ApplyPostOperationObservation resource status facts observedAt =
     applyObservation resource status facts observedAt True"

section \<open>Condition lists as a keyed collection\<close>

lemma findCondition_upsert [simp]:
  "findCondition (upsert_condition c cs) x =
     (if x = cond_typeName c then Some c else findCondition cs x)"
  unfolding findCondition_def by (induction cs) auto

lemma upsert_condition_set: "set (upsert_condition c cs) \<subseteq> insert c (set cs)"
  by (induction cs) auto

lemma distinct_upsert_condition:
  "distinct (map cond_typeName cs) \<Longrightarrow> distinct (map cond_typeName (upsert_condition c cs))"
proof (induction cs)
  case (Cons d ds)
  then show ?case using upsert_condition_set [of c ds] by (auto 4 3)
qed simp

lemma findCondition_iff:
  "distinct (map cond_typeName cs) \<Longrightarrow>
     findCondition cs x = Some c \<longleftrightarrow> c \<in> set cs \<and> cond_typeName c = x"
  unfolding findCondition_def by (rule find_key_iff)

interpretation conditions: keyed_collection cond_typeName findCondition upsert_condition "\<lambda>cs. cs"
  by unfold_locales
    (simp_all add: findCondition_iff distinct_upsert_condition upsert_condition_set)

lemma condition_is_upsert [simp]:
  "condition_is (upsert_condition c cs) x v \<longleftrightarrow>
     (if x = cond_typeName c then cond_status c = v else condition_is cs x v)"
  by (simp add: condition_is_def)

lemma setCondition_iff [simp, result_simps]:
  "setCondition cs x v reason message gen at = Inr cs' \<longleftrightarrow>
     \<not> blank x \<and> ConditionStatus_validate v = Inr () \<and> \<not> blank reason \<and> at \<noteq> 0 \<and>
     cs' = upsert_condition \<lparr>cond_typeName = x, cond_status = v, cond_reason = reason,
       cond_message = message, cond_observedGeneration = gen, cond_lastTransitionAt = at\<rparr> cs"
  by (auto simp: setCondition_def NewCondition_def Condition_validate_def Let_def)

lemma wf_conditions_upsert:
  assumes "wf_conditions gen at cs" "Condition_validate c = Inr ()"
    "cond_observedGeneration c \<le> gen" "cond_lastTransitionAt c \<le> at"
  shows "wf_conditions gen at (upsert_condition c cs)"
  using assms conditions.distinct_upsert [of cs c] conditions.elems_upsert [of c cs]
  unfolding wf_conditions_def by blast

lemma condition_type_simps [simp]:
  "\<not> blank ConditionReady" "\<not> blank ConditionReconciled" "\<not> blank ConditionReconciling"
  "\<not> blank ConditionOperationFailed" "\<not> blank ConditionDeleted"
  "\<not> blank ConditionDependenciesReady" "\<not> blank ConditionDrifted"
  by (simp_all add: condition_type_defs)

lemma condition_type_distinct [simp]:
  "ConditionReady \<noteq> ConditionReconciled" "ConditionReconciled \<noteq> ConditionReady"
  "ConditionReady \<noteq> ConditionReconciling" "ConditionReconciling \<noteq> ConditionReady"
  "ConditionReady \<noteq> ConditionOperationFailed" "ConditionOperationFailed \<noteq> ConditionReady"
  "ConditionReady \<noteq> ConditionDeleted" "ConditionDeleted \<noteq> ConditionReady"
  "ConditionReady \<noteq> ConditionDependenciesReady" "ConditionDependenciesReady \<noteq> ConditionReady"
  "ConditionReady \<noteq> ConditionDrifted" "ConditionDrifted \<noteq> ConditionReady"
  "ConditionReconciled \<noteq> ConditionReconciling" "ConditionReconciling \<noteq> ConditionReconciled"
  "ConditionReconciled \<noteq> ConditionOperationFailed" "ConditionOperationFailed \<noteq> ConditionReconciled"
  "ConditionReconciled \<noteq> ConditionDeleted" "ConditionDeleted \<noteq> ConditionReconciled"
  "ConditionReconciling \<noteq> ConditionOperationFailed" "ConditionOperationFailed \<noteq> ConditionReconciling"
  "ConditionReconciling \<noteq> ConditionDeleted" "ConditionDeleted \<noteq> ConditionReconciling"
  "ConditionReconciling \<noteq> ConditionDependenciesReady" "ConditionDependenciesReady \<noteq> ConditionReconciling"
  "ConditionReconciling \<noteq> ConditionDrifted" "ConditionDrifted \<noteq> ConditionReconciling"
  "ConditionReconciled \<noteq> ConditionDrifted" "ConditionDrifted \<noteq> ConditionReconciled"
  "ConditionOperationFailed \<noteq> ConditionDeleted" "ConditionDeleted \<noteq> ConditionOperationFailed"
  "ConditionOperationFailed \<noteq> ConditionDrifted" "ConditionDrifted \<noteq> ConditionOperationFailed"
  by (simp_all add: condition_type_defs)

lemma capability_prefix_simps [simp]:
  "capability_prefix CapabilityCreate = ''Create''"
  "capability_prefix CapabilityUpdate = ''Update''"
  "capability_prefix CapabilityDelete = ''Delete''"
  by code_simp+

lemma setCondition_wf:
  assumes "setCondition cs x v reason message gen at = Inr cs'" "wf_conditions gen' at' cs" "gen \<le> gen'" "at \<le> at'"
  shows "wf_conditions gen' at' cs'"
  using assms by (auto intro!: wf_conditions_upsert simp: Condition_validate_def)

section \<open>What a successful transition returns\<close>

definition lifecycle_state :: "capability \<Rightarrow> ResourceStatus \<Rightarrow> ResourceState" where
  "lifecycle_state c st =
     (if c = CapabilityCreate then ResourceStatePending
      else if c = CapabilityDelete then ResourceStateDeleting else status_state st)"

lemma request_conditions_result:
  assumes "request_conditions st c retry g t = Inr (s, cs)"
  shows "s = lifecycle_state c st" "condition_is cs ConditionReconciling ConditionStatusTrue"
  using assms
  by (auto simp: request_conditions_def lifecycle_state_def split: if_splits)

lemma Engine_Request_guards:
  assumes "Engine_Request r rt st latest c oid eid t = Inr res"
  shows "validateResourceContext r rt st t = Inr ()"
    and "c = CapabilityCreate \<or> c = CapabilityUpdate \<or> c = CapabilityDelete"
    and "Supports rt c"
    and "validateOperationSnapshot r st latest = Inr ()"
    and "case latest of None \<Rightarrow> True | Some l \<Rightarrow> IsTerminal l \<and> op_id l \<noteq> oid"
  using assms
  by (auto simp: Engine_Request_def request_source_def split: option.splits if_splits)

lemma Engine_Request_result:
  assumes "Engine_Request r rt st latest c oid eid t = Inr res"
  obtains retry retryOf target cs where
    "request_source r latest c oid = Inr (retry, retryOf, target)"
    "validateRequestPrecondition r st c retry = Inr ()"
    "NewOperation oid (resource_id r) c target t [retryOf] = Inr (lr_Operation res)"
    "op_targetGeneration (lr_Operation res) = target"
    "request_conditions st c retry target t = Inr (lifecycle_state c st, cs)"
    "wf_status (lr_Status res)"
    "lr_Status res = \<lparr>status_resourceID = resource_id r, status_observedGeneration = target,
       status_state = lifecycle_state c st, status_conditions = cs, status_updatedAt = t\<rparr>"
    "NewEvent eid (resource_id r) oid target
              ''LifecycleRequested'' (requestReason c retry) '''' t = Inr (lr_Event res)"
proof -
  from assms obtain retry retryOf target op s cs st' ev where *:
    "request_source r latest c oid = Inr (retry, retryOf, target)"
    "validateRequestPrecondition r st c retry = Inr ()"
    "NewOperation oid (resource_id r) c target t [retryOf] = Inr op"
    "request_conditions st c retry (op_targetGeneration op) t = Inr (s, cs)"
    "NewResourceStatus (resource_id r) (op_targetGeneration op) s cs t = Inr st'"
    "NewEvent eid (resource_id r) (op_id op) (op_targetGeneration op)
              ''LifecycleRequested'' (requestReason c retry) '''' t = Inr ev"
    "res = \<lparr>lr_Operation = op, lr_Status = st', lr_Event = ev\<rparr>"
    unfolding Engine_Request_def by (auto split: if_splits)
  have "op_targetGeneration op = target" "op_id op = oid"
    using NewOperation_fields [OF *(3)] by simp_all
  with * request_conditions_result(1) [OF *(4)] show thesis
    by (intro that [of retry retryOf target cs]) (auto simp: NewResourceStatus_iff)
qed

lemma Engine_Advance_result:
  assumes "Engine_Advance r st op p eid t = Inr res"
  obtains cs where
    "validateOperationContext r st op t = Inr ()"
    "AdvancePhase op p t = Inr (lr_Operation res)"
    "condition_is cs ConditionReconciling ConditionStatusTrue"
    "wf_status (lr_Status res)"
    "lr_Status res = \<lparr>status_resourceID = resource_id r,
       status_observedGeneration = status_observedGeneration st, status_state = status_state st,
       status_conditions = cs, status_updatedAt = t\<rparr>"
proof -
  from assms obtain cs1 cs2 op' st' ev where *:
    "validateOperationContext r st op t = Inr ()" "AdvancePhase op p t = Inr op'"
    "setCondition (status_conditions st) ConditionReconciling ConditionStatusTrue (phase_string p) ''''
       (op_targetGeneration op) t = Inr cs1"
    "setCondition cs1 ConditionReconciled ConditionStatusFalse (phase_string p) ''''
       (op_targetGeneration op) t = Inr cs2"
    "NewResourceStatus (resource_id r) (status_observedGeneration st) (status_state st) cs2 t = Inr st'"
    "res = \<lparr>lr_Operation = op', lr_Status = st', lr_Event = ev\<rparr>"
    unfolding Engine_Advance_def by (auto simp del: setCondition_iff)
  then have "condition_is cs2 ConditionReconciling ConditionStatusTrue" by auto
  with * show thesis by (intro that [of cs2]) (auto simp: NewResourceStatus_iff)
qed

definition completed_state :: "capability \<Rightarrow> ResourceState" where
  "completed_state c = (if c = CapabilityDelete then ResourceStateDeleted else ResourceStateReady)"

lemma complete_conditions_result:
  assumes "complete_conditions op cs t = Inr (s, cs')"
  shows "s = completed_state (op_capability op)"
    and "condition_is cs' ConditionReady ConditionStatusTrue \<longleftrightarrow> op_capability op \<noteq> CapabilityDelete"
    and "condition_is cs' ConditionOperationFailed ConditionStatusFalse"
    and "condition_is cs' ConditionReconciled ConditionStatusTrue"
  using assms by (auto simp: complete_conditions_def completed_state_def Let_def split: if_splits)

lemma settle_conditions_result:
  assumes "settle_conditions r op cs reason message t = Inr cs'"
  shows "condition_is cs' ConditionReconciling ConditionStatusFalse"
    and "x \<noteq> ConditionReconciling \<Longrightarrow> x \<noteq> ConditionReconciled \<Longrightarrow> findCondition cs' x = findCondition cs x"
    and "\<not> op_targetGeneration op < resource_generation r \<Longrightarrow>
      findCondition cs' ConditionReconciled = findCondition cs ConditionReconciled"
    and "op_targetGeneration op < resource_generation r \<Longrightarrow>
      condition_is cs' ConditionReconciled ConditionStatusFalse"
  using assms by (auto simp: settle_conditions_def condition_is_def split: if_splits)

lemma Engine_Complete_result:
  assumes "Engine_Complete r st op eid t = Inr res"
  obtains cs cs' where
    "validateOperationContext r st op t = Inr ()"
    "Operation_Succeed op t = Inr (lr_Operation res)"
    "complete_conditions op (status_conditions st) t = Inr (completed_state (op_capability op), cs)"
    "settle_conditions r op cs ''LifecycleSucceeded'' '''' t = Inr cs'"
    "wf_status (lr_Status res)"
    "lr_Status res = \<lparr>status_resourceID = resource_id r,
       status_observedGeneration = status_observedGeneration st,
       status_state = completed_state (op_capability op),
       status_conditions = cs', status_updatedAt = t\<rparr>"
proof -
  from assms obtain s cs cs' op' st' ev where *:
    "validateOperationContext r st op t = Inr ()"
    "Operation_Succeed op t = Inr op'"
    "complete_conditions op (status_conditions st) t = Inr (s, cs)"
    "settle_conditions r op cs ''LifecycleSucceeded'' '''' t = Inr cs'"
    "NewResourceStatus (resource_id r) (status_observedGeneration st) s cs' t = Inr st'"
    "res = \<lparr>lr_Operation = op', lr_Status = st', lr_Event = ev\<rparr>"
    unfolding Engine_Complete_def by auto
  with complete_conditions_result(1) [OF *(3)] show thesis
    by (intro that [of cs cs']) (auto simp: NewResourceStatus_iff)
qed

definition failed_state :: "capability \<Rightarrow> Condition list \<Rightarrow> ResourceState" where
  "failed_state c cs =
     (if c = CapabilityCreate then ResourceStateFailed
      else if c = CapabilityUpdate \<or> condition_is cs ConditionReady ConditionStatusTrue
      then ResourceStateReady else ResourceStateFailed)"

lemma fail_conditions_result:
  assumes "fail_conditions op cs reason message t = Inr (s, cs')"
  shows "s = failed_state (op_capability op) cs"
    and "condition_is cs' ConditionOperationFailed ConditionStatusTrue"
    and "condition_is cs' ConditionReconciled ConditionStatusFalse"
    and "op_capability op \<noteq> CapabilityCreate \<Longrightarrow>
      findCondition cs' ConditionReady = findCondition cs ConditionReady"
  using assms by (auto simp: fail_conditions_def failed_state_def Let_def split: if_splits)

lemma Engine_Fail_result:
  assumes "Engine_Fail r st op reason message eid t = Inr res"
  obtains cs cs' where
    "validateOperationContext r st op t = Inr ()"
    "Operation_Fail op reason message t = Inr (lr_Operation res)"
    "fail_conditions op (status_conditions st) reason message t =
       Inr (failed_state (op_capability op) (status_conditions st), cs)"
    "settle_conditions r op cs ''OperationFailed'' message t = Inr cs'"
    "wf_status (lr_Status res)"
    "lr_Status res = \<lparr>status_resourceID = resource_id r,
       status_observedGeneration = status_observedGeneration st,
       status_state = failed_state (op_capability op) (status_conditions st),
       status_conditions = cs', status_updatedAt = t\<rparr>"
proof -
  from assms obtain s cs cs' op' st' ev where *:
    "validateOperationContext r st op t = Inr ()"
    "Operation_Fail op reason message t = Inr op'"
    "fail_conditions op (status_conditions st) reason message t = Inr (s, cs)"
    "settle_conditions r op cs ''OperationFailed'' message t = Inr cs'"
    "NewResourceStatus (resource_id r) (status_observedGeneration st) s cs' t = Inr st'"
    "res = \<lparr>lr_Operation = op', lr_Status = st', lr_Event = ev\<rparr>"
    unfolding Engine_Fail_def by auto
  with fail_conditions_result(1) [OF *(3)] show thesis
    by (intro that [of cs cs']) (auto simp: NewResourceStatus_iff)
qed

lemma SetDependencyCondition_result:
  assumes "SetDependencyCondition st v reason message t = Inr st'"
  shows "wf_status st'" "status_resourceID st' = status_resourceID st"
    "status_observedGeneration st' = status_observedGeneration st"
    "status_state st' = status_state st" "status_updatedAt st' = t"
    "x \<noteq> ConditionDependenciesReady \<Longrightarrow>
       findCondition (status_conditions st') x = findCondition (status_conditions st) x"
    "condition_is (status_conditions st') ConditionDependenciesReady v"
  using assms unfolding SetDependencyCondition_def by (auto simp: NewResourceStatus_iff)

lemma applyObservation_result:
  assumes "applyObservation r st facts t preserve = Inr st'"
  shows "wf_status st'" "status_resourceID st' = status_resourceID st" "status_resourceID st = resource_id r"
    "status_observedGeneration st' = status_observedGeneration st"
    "status_updatedAt st' = t" "status_updatedAt st \<le> t" "resource_updatedAt r \<le> t"
    "\<not> fst (activeStatusOperation st)" "ObservedFacts_Validate facts = Inr ()"
    "status_state st' = observed_state facts (preserve \<or> status_state st = ResourceStateDeleted \<or>
                               status_state st = ResourceStateFailed) (status_state st)"
    "x \<notin> {ConditionReady, ConditionDrifted, ConditionReconciled} \<Longrightarrow>
       findCondition (status_conditions st') x = findCondition (status_conditions st) x"
  using assms unfolding applyObservation_def
  by (auto simp: NewResourceStatus_iff Let_def split: if_splits sum.splits prod.splits)

record 'spec config =
  cfg_resource :: "'spec Resource"
  cfg_status :: ResourceStatus
  cfg_latest :: "Operation option"

text \<open>
  The steps of the engine on one Resource. The step of the dependency gate has a premise that
  \<^verbatim>\<open>SetDependencyCondition\<close> does not check itself, that its time does not lie before the status: the
  worker passes one nanosecond after the last phase change of the Operation.
\<close>

inductive engine_step :: "ResourceType \<Rightarrow> 'spec config \<Rightarrow> 'spec config \<Rightarrow> bool"
  for rt :: ResourceType where
  request: "Engine_Request (cfg_resource k) rt (cfg_status k) (cfg_latest k) c oid eid t = Inr res \<Longrightarrow>
    engine_step rt k (k\<lparr>cfg_status := lr_Status res, cfg_latest := Some (lr_Operation res)\<rparr>)"
| update: "UpdateSpec (cfg_resource k) spec t = Inr r \<Longrightarrow>
    Engine_Request r rt (cfg_status k) (cfg_latest k) CapabilityUpdate oid eid t = Inr res \<Longrightarrow>
    engine_step rt k (k\<lparr>cfg_resource := r, cfg_status := lr_Status res, cfg_latest := Some (lr_Operation res)\<rparr>)"
| advance: "cfg_latest k = Some op \<Longrightarrow>
    Engine_Advance (cfg_resource k) (cfg_status k) op p eid t = Inr res \<Longrightarrow>
    engine_step rt k (k\<lparr>cfg_status := lr_Status res, cfg_latest := Some (lr_Operation res)\<rparr>)"
| complete: "cfg_latest k = Some op \<Longrightarrow>
    Engine_Complete (cfg_resource k) (cfg_status k) op eid t = Inr res \<Longrightarrow>
    engine_step rt k (k\<lparr>cfg_status := lr_Status res, cfg_latest := Some (lr_Operation res)\<rparr>)"
| fail: "cfg_latest k = Some op \<Longrightarrow>
    Engine_Fail (cfg_resource k) (cfg_status k) op reason message eid t = Inr res \<Longrightarrow>
    engine_step rt k (k\<lparr>cfg_status := lr_Status res, cfg_latest := Some (lr_Operation res)\<rparr>)"
| dependency: "status_updatedAt (cfg_status k) \<le> t \<Longrightarrow>
    SetDependencyCondition (cfg_status k) v reason message t = Inr st \<Longrightarrow>
    engine_step rt k (k\<lparr>cfg_status := st\<rparr>)"
| observe: "ApplyObservation (cfg_resource k) (cfg_status k) facts t = Inr st \<Longrightarrow>
    engine_step rt k (k\<lparr>cfg_status := st\<rparr>)"
| post_observe: "ApplyPostOperationObservation (cfg_resource k) (cfg_status k) facts t = Inr st \<Longrightarrow>
    engine_step rt k (k\<lparr>cfg_status := st\<rparr>)"

inductive engine_reachable :: "ResourceType \<Rightarrow> 'spec config \<Rightarrow> bool"
  for rt :: ResourceType where
  create: "NewResource rid (rtype_ref rt) owner spec t = Inr r \<Longrightarrow>
    NewResourceStatus rid 0 ResourceStateUnknown [] t = Inr st \<Longrightarrow>
    engine_reachable rt \<lparr>cfg_resource = r, cfg_status = st, cfg_latest = None\<rparr>"
| step: "engine_reachable rt k \<Longrightarrow> engine_step rt k k' \<Longrightarrow> engine_reachable rt k'"

text \<open>An operation is active exactly when the status says so, for the same capability and generation.\<close>

definition latest_agrees :: "ResourceStatus \<Rightarrow> Operation option \<Rightarrow> bool" where
  "latest_agrees st latest \<longleftrightarrow>
     (case latest of
        None \<Rightarrow> \<not> fst (activeStatusOperation st)
      | Some op \<Rightarrow> wf_operation op \<and> op_resourceID op = status_resourceID st \<and>
          op_phaseChangedAt op \<le> status_updatedAt st \<and>
          op_targetGeneration op = status_observedGeneration st \<and>
          (if IsTerminal op then \<not> fst (activeStatusOperation st)
           else activeStatusOperation st = (True, op_capability op)))"

definition lifecycle_inv :: "ResourceType \<Rightarrow> 'spec config \<Rightarrow> bool" where
  "lifecycle_inv rt k \<longleftrightarrow> (let r = cfg_resource k; st = cfg_status k in
     wf_status st \<and> status_resourceID st = resource_id r \<and> resource_typeRef r = rtype_ref rt \<and>
     status_observedGeneration st \<le> resource_generation r \<and> 0 < resource_generation r \<and>
     resource_updatedAt r \<le> status_updatedAt st \<and> resource_createdAt r \<le> resource_updatedAt r \<and>
     (condition_is (status_conditions st) ConditionReconciling ConditionStatusTrue \<longleftrightarrow>
        fst (activeStatusOperation st)) \<and>
     latest_agrees st (cfg_latest k))"

lemma Engine_Request_inv:
  assumes "Engine_Request r rt st latest c oid eid t = Inr res"
    and "latest_agrees st latest"
  shows "wf_status (lr_Status res)" "status_resourceID (lr_Status res) = resource_id r"
    "status_observedGeneration (lr_Status res) \<le> resource_generation r"
    "status_updatedAt (lr_Status res) = t" "resource_updatedAt r \<le> t"
    "condition_is (status_conditions (lr_Status res)) ConditionReconciling ConditionStatusTrue"
    "activeStatusOperation (lr_Status res) = (True, c)"
    "latest_agrees (lr_Status res) (Some (lr_Operation res))"
proof -
  note g = Engine_Request_guards [OF assms(1)]
  from assms(1) obtain retry retryOf target cs where *:
    "request_source r latest c oid = Inr (retry, retryOf, target)"
    "validateRequestPrecondition r st c retry = Inr ()"
    "NewOperation oid (resource_id r) c target t [retryOf] = Inr (lr_Operation res)"
    "op_targetGeneration (lr_Operation res) = target"
    "request_conditions st c retry target t = Inr (lifecycle_state c st, cs)"
    "wf_status (lr_Status res)"
    "lr_Status res = \<lparr>status_resourceID = resource_id r, status_observedGeneration = target,
       status_state = lifecycle_state c st, status_conditions = cs, status_updatedAt = t\<rparr>"
    by (rule Engine_Request_result)
  have target: "target \<le> resource_generation r"
    using *(1) g(1) assms(2)
    by (auto simp: request_source_def validateResourceContext_def latest_agrees_def not_less
        split: option.splits if_splits)
  have active: "activeStatusOperation (lr_Status res) = (True, c)"
    using *(2,7) g(2) request_conditions_result(2) [OF *(5)]
    by (auto simp: validateRequestPrecondition_def lifecycle_state_def activeStatusOperation_def
        Let_def split: if_splits)
  have op: "wf_operation (lr_Operation res)" "\<not> IsTerminal (lr_Operation res)"
    "op_capability (lr_Operation res) = c" "op_resourceID (lr_Operation res) = resource_id r"
    "op_phaseChangedAt (lr_Operation res) = t"
    using NewOperation_wf [OF *(3)] NewOperation_fields [OF *(3)] by (simp_all add: IsTerminal_def)
  show "latest_agrees (lr_Status res) (Some (lr_Operation res))"
    using op active *(4,7) by (simp add: latest_agrees_def)
  show "condition_is (status_conditions (lr_Status res)) ConditionReconciling ConditionStatusTrue"
    using *(7) request_conditions_result(2) [OF *(5)] by simp
  show "resource_updatedAt r \<le> t" using g(1) by (simp add: validateResourceContext_def not_less)
  show "wf_status (lr_Status res)" "status_resourceID (lr_Status res) = resource_id r"
    "status_observedGeneration (lr_Status res) \<le> resource_generation r"
    "status_updatedAt (lr_Status res) = t" "activeStatusOperation (lr_Status res) = (True, c)"
    using * active target by simp_all
qed

lemma condition_is_unique: "condition_is cs x v \<Longrightarrow> condition_is cs x w \<Longrightarrow> v = w"
  by (auto simp: condition_is_def split: option.splits)

lemma activeStatusOperation_cong:
  assumes "status_state st' = status_state st"
    "condition_is (status_conditions st') ConditionReconciling ConditionStatusTrue =
     condition_is (status_conditions st) ConditionReconciling ConditionStatusTrue"
  shows "activeStatusOperation st' = activeStatusOperation st"
  using assms by (simp add: activeStatusOperation_def)

lemma complete_fields:
  assumes "complete op s t f = Inr op'"
  shows "op_resourceID op' = op_resourceID op" "op_phaseChangedAt op' = op_phaseChangedAt op"
    "op_targetGeneration op' = op_targetGeneration op" "op_state op' = s"
    "op_phaseChangedAt op \<le> t"
  using assms by (auto elim!: complete_cases)

lemma Operation_Succeed_complete:
  "Operation_Succeed op t = Inr op' \<Longrightarrow> complete op OperationStateSucceeded t None = Inr op'"
  by (simp add: Operation_Succeed_def)

lemma Operation_Fail_complete:
  "Operation_Fail op reason message t = Inr op' \<Longrightarrow> complete op OperationStateFailed t
     (Some \<lparr>failure_reason = reason, failure_message = message\<rparr>) = Inr op'"
  by (simp add: Operation_Fail_def)

lemma Engine_Advance_inv:
  assumes "Engine_Advance r st op p eid t = Inr res" "latest_agrees st (Some op)"
    "condition_is (status_conditions st) ConditionReconciling ConditionStatusTrue \<longleftrightarrow>
       fst (activeStatusOperation st)"
  shows "latest_agrees (lr_Status res) (Some (lr_Operation res))"
    and "condition_is (status_conditions (lr_Status res)) ConditionReconciling ConditionStatusTrue"
    and "fst (activeStatusOperation (lr_Status res))"
proof -
  from assms(1) obtain cs where *:
    "validateOperationContext r st op t = Inr ()"
    "AdvancePhase op p t = Inr (lr_Operation res)"
    "condition_is cs ConditionReconciling ConditionStatusTrue"
    "lr_Status res = \<lparr>status_resourceID = resource_id r,
       status_observedGeneration = status_observedGeneration st, status_state = status_state st,
       status_conditions = cs, status_updatedAt = t\<rparr>"
    by (rule Engine_Advance_result)
  have nt: "\<not> IsTerminal op" using *(2) by (simp add: AdvancePhase_def)
  then have act: "activeStatusOperation st = (True, op_capability op)"
    using assms(2) by (simp add: latest_agrees_def)
  then have act': "activeStatusOperation (lr_Status res) = (True, op_capability op)"
    using assms(3) *(3,4) activeStatusOperation_cong [of "lr_Status res" st] by simp
  have "\<not> IsTerminal (lr_Operation res) \<and> op_capability (lr_Operation res) = op_capability op \<and>
    op_resourceID (lr_Operation res) = op_resourceID op \<and> op_phaseChangedAt (lr_Operation res) = t \<and>
    op_targetGeneration (lr_Operation res) = op_targetGeneration op"
    using *(2) nt by (cases rule: AdvancePhase_cases) (simp_all add: IsTerminal_def)
  moreover have "wf_operation (lr_Operation res)"
    using *(2) assms(2) by (auto simp: latest_agrees_def intro: AdvancePhase_wf)
  moreover have "op_resourceID op = resource_id r"
    using *(1) by (simp add: validateOperationContext_def)
  ultimately show "latest_agrees (lr_Status res) (Some (lr_Operation res))"
    using act' assms(2) *(4) by (simp add: latest_agrees_def)
  show "condition_is (status_conditions (lr_Status res)) ConditionReconciling ConditionStatusTrue"
    "fst (activeStatusOperation (lr_Status res))"
    using act' *(3,4) by simp_all
qed

lemma settled_status_inv:
  assumes "Operation_Succeed op t = Inr op' \<or> Operation_Fail op reason message t = Inr op'"
    and "validateOperationContext r st op t = Inr ()"
    and "settle_conditions r op cs reason' message' t = Inr cs'" "latest_agrees st (Some op)"
    and "s \<in> {ResourceStateReady, ResourceStateFailed, ResourceStateDeleted}"
    and st': "st' = \<lparr>status_resourceID = resource_id r,
       status_observedGeneration = status_observedGeneration st, status_state = s,
       status_conditions = cs', status_updatedAt = t\<rparr>"
  shows "latest_agrees st' (Some op')" "\<not> fst (activeStatusOperation st')"
    "\<not> condition_is (status_conditions st') ConditionReconciling ConditionStatusTrue"
proof -
  obtain s' f where c: "complete op s' t f = Inr op'" "terminal_state s'"
    using assms(1) Operation_Succeed_complete Operation_Fail_complete
    by (metis terminal_state.simps(1,2))
  have "op_step op op'" using assms(1) by (blast intro: op_step.intros)
  then have wf: "wf_operation op'"
    using assms(4) by (auto simp: latest_agrees_def intro: op_step_wf)
  have rec: "\<not> condition_is cs' ConditionReconciling ConditionStatusTrue"
    using settle_conditions_result(1) [OF assms(3)] condition_is_unique by blast
  then show na: "\<not> fst (activeStatusOperation st')"
    using assms(5) st' by (auto simp: activeStatusOperation_def)
  show "\<not> condition_is (status_conditions st') ConditionReconciling ConditionStatusTrue"
    using rec st' by simp
  show "latest_agrees st' (Some op')"
    using na wf c complete_fields [OF c(1)] st' assms(2,4)
    by (simp add: latest_agrees_def IsTerminal_def validateOperationContext_def)
qed

lemma validateOperationContext_facts:
  assumes "validateOperationContext r st op t = Inr ()"
  shows "status_resourceID st = resource_id r" "status_updatedAt st \<le> t" "t \<noteq> 0"
  using assms by (simp_all add: validateOperationContext_def not_less)

lemma observation_inv:
  assumes "applyObservation r st facts t preserve = Inr st'" "latest_agrees st latest"
    "condition_is (status_conditions st) ConditionReconciling ConditionStatusTrue \<longleftrightarrow>
       fst (activeStatusOperation st)"
  shows "latest_agrees st' latest" "\<not> fst (activeStatusOperation st')"
    "\<not> condition_is (status_conditions st') ConditionReconciling ConditionStatusTrue"
proof -
  note o = applyObservation_result [OF assms(1)]
  show rec: "\<not> condition_is (status_conditions st') ConditionReconciling ConditionStatusTrue"
    using assms(3) o(8) o(11) [of ConditionReconciling] by (simp add: condition_is_def)
  have "status_state st' \<noteq> ResourceStatePending \<and> status_state st' \<noteq> ResourceStateDeleting"
    using o(8,10) by (auto simp: observed_state_def activeStatusOperation_def split: if_splits)
  then show na: "\<not> fst (activeStatusOperation st')"
    using rec by (auto simp: activeStatusOperation_def split: ResourceState.splits)
  show "latest_agrees st' latest"
    using assms(2) na o(2,4,5,6,8)
    by (auto simp: latest_agrees_def split: option.splits if_splits)
qed

lemmas lifecycle_inv_defs = lifecycle_inv_def Let_def

lemma engine_step_inv:
  assumes "engine_step rt k k'" "lifecycle_inv rt k"
  shows "lifecycle_inv rt k'"
  using assms
proof (induction rule: engine_step.induct)
  case (request k c oid eid t res)
  then have "latest_agrees (cfg_status k) (cfg_latest k)" by (simp add: lifecycle_inv_defs)
  note f = Engine_Request_inv [OF request.hyps this]
  show ?case using request.prems f by (simp add: lifecycle_inv_defs)
next
  case (update k spec t r oid eid res)
  then have "latest_agrees (cfg_status k) (cfg_latest k)" by (simp add: lifecycle_inv_defs)
  note f = Engine_Request_inv [OF update.hyps(2) this] UpdateSpec_fields [OF update.hyps(1)]
  have "0 < resource_generation r"
    using UpdateSpec_fields(11) [OF update.hyps(1)] by (metis word_gt_0 word_not_simps(1))
  then show ?case using update.prems f by (simp add: lifecycle_inv_defs)
next
  case (advance k op p eid t res)
  then have i: "latest_agrees (cfg_status k) (Some op)"
    "condition_is (status_conditions (cfg_status k)) ConditionReconciling ConditionStatusTrue \<longleftrightarrow>
       fst (activeStatusOperation (cfg_status k))"
    by (simp_all add: lifecycle_inv_defs)
  from advance.hyps(2) obtain cs where *:
    "validateOperationContext (cfg_resource k) (cfg_status k) op t = Inr ()"
    "wf_status (lr_Status res)"
    "lr_Status res = \<lparr>status_resourceID = resource_id (cfg_resource k),
       status_observedGeneration = status_observedGeneration (cfg_status k),
       status_state = status_state (cfg_status k), status_conditions = cs, status_updatedAt = t\<rparr>"
    by (rule Engine_Advance_result)
  show ?case
    using advance.prems Engine_Advance_inv [OF advance.hyps(2) i] * validateOperationContext_facts [OF *(1)]
    by (simp add: lifecycle_inv_defs)
next
  case (complete k op eid t res)
  then have i: "latest_agrees (cfg_status k) (Some op)" by (simp add: lifecycle_inv_defs)
  from complete.hyps(2) obtain cs cs' where *:
    "validateOperationContext (cfg_resource k) (cfg_status k) op t = Inr ()"
    "Operation_Succeed op t = Inr (lr_Operation res)"
    "settle_conditions (cfg_resource k) op cs ''LifecycleSucceeded'' '''' t = Inr cs'"
    "wf_status (lr_Status res)"
    "lr_Status res = \<lparr>status_resourceID = resource_id (cfg_resource k),
       status_observedGeneration = status_observedGeneration (cfg_status k),
       status_state = completed_state (op_capability op), status_conditions = cs', status_updatedAt = t\<rparr>"
    by (rule Engine_Complete_result)
  have "completed_state (op_capability op) \<in> {ResourceStateReady, ResourceStateFailed, ResourceStateDeleted}"
    by (simp add: completed_state_def)
  note f = settled_status_inv [OF disjI1 [OF *(2)] *(1,3) i this *(5)]
  show ?case
    using complete.prems f * validateOperationContext_facts [OF *(1)] by (simp add: lifecycle_inv_defs)
next
  case (fail k op reason message eid t res)
  then have i: "latest_agrees (cfg_status k) (Some op)" by (simp add: lifecycle_inv_defs)
  from fail.hyps(2) obtain cs cs' where *:
    "validateOperationContext (cfg_resource k) (cfg_status k) op t = Inr ()"
    "Operation_Fail op reason message t = Inr (lr_Operation res)"
    "settle_conditions (cfg_resource k) op cs ''OperationFailed'' message t = Inr cs'"
    "wf_status (lr_Status res)"
    "lr_Status res = \<lparr>status_resourceID = resource_id (cfg_resource k),
       status_observedGeneration = status_observedGeneration (cfg_status k),
       status_state = failed_state (op_capability op) (status_conditions (cfg_status k)),
       status_conditions = cs', status_updatedAt = t\<rparr>"
    by (rule Engine_Fail_result)
  have "failed_state (op_capability op) (status_conditions (cfg_status k))
      \<in> {ResourceStateReady, ResourceStateFailed, ResourceStateDeleted}"
    by (simp add: failed_state_def)
  note f = settled_status_inv [OF disjI2 [OF *(2)] *(1,3) i this *(5)]
  show ?case
    using fail.prems f * validateOperationContext_facts [OF *(1)] by (simp add: lifecycle_inv_defs)
next
  case (dependency k t v reason message st)
  note d = SetDependencyCondition_result [OF dependency.hyps(2)]
  have "condition_is (status_conditions st) ConditionReconciling ConditionStatusTrue =
      condition_is (status_conditions (cfg_status k)) ConditionReconciling ConditionStatusTrue"
    using d(6) [of ConditionReconciling] by (simp add: condition_is_def)
  moreover note activeStatusOperation_cong [OF d(4) this]
  ultimately show ?case
    using dependency d(1-5)
    by (auto simp: lifecycle_inv_defs latest_agrees_def split: option.splits if_splits)
next
  case (observe k facts t st)
  then have i: "applyObservation (cfg_resource k) (cfg_status k) facts t False = Inr st"
    by (simp add: ApplyObservation_def)
  show ?case
    using observe.prems observation_inv [OF i, of "cfg_latest k"] applyObservation_result(1-7) [OF i]
    by (simp add: lifecycle_inv_defs)
next
  case (post_observe k facts t st)
  then have i: "applyObservation (cfg_resource k) (cfg_status k) facts t True = Inr st"
    by (simp add: ApplyPostOperationObservation_def)
  show ?case
    using post_observe.prems observation_inv [OF i, of "cfg_latest k"] applyObservation_result(1-7) [OF i]
    by (simp add: lifecycle_inv_defs)
qed

lemma engine_reachable_inv: "engine_reachable rt k \<Longrightarrow> lifecycle_inv rt k"
proof (induction rule: engine_reachable.induct)
  case (create rid owner spec t r st)
  then show ?case
    by (auto simp: lifecycle_inv_defs NewResource_def NewResourceStatus_iff latest_agrees_def
        activeStatusOperation_def condition_is_def findCondition_def)
next
  case (step k k')
  then show ?case by (blast intro: engine_step_inv)
qed

section \<open>Progress\<close>

lemma setCondition_Inr [simp]:
  "\<not> blank x \<Longrightarrow> ConditionStatus_validate v = Inr () \<Longrightarrow> \<not> blank reason \<Longrightarrow> t \<noteq> 0 \<Longrightarrow>
   setCondition cs x v reason message g t = Inr (upsert_condition
     \<lparr>cond_typeName = x, cond_status = v, cond_reason = reason, cond_message = message,
      cond_observedGeneration = g, cond_lastTransitionAt = t\<rparr> cs)"
  by simp

lemma NewResourceStatus_Inr:
  "wf_status \<lparr>status_resourceID = rid, status_observedGeneration = g, status_state = s,
     status_conditions = cs, status_updatedAt = t\<rparr> \<Longrightarrow>
   NewResourceStatus rid g s cs t = Inr \<lparr>status_resourceID = rid, status_observedGeneration = g,
     status_state = s, status_conditions = cs, status_updatedAt = t\<rparr>"
  by (simp add: NewResourceStatus_iff)

lemma fail_conditions_Inr:
  assumes "wf_conditions g t cs" "op_targetGeneration op \<le> g" "\<not> blank reason" "t \<noteq> 0"
    "op_capability op \<in> {CapabilityCreate, CapabilityUpdate, CapabilityDelete}"
  shows "\<exists>s cs'. fail_conditions op cs reason message t = Inr (s, cs') \<and> wf_conditions g t cs' \<and>
    ResourceState_validate s = Inr ()"
  using assms
  by (auto simp: fail_conditions_def Let_def intro!: wf_conditions_upsert simp: Condition_validate_def)

lemma complete_conditions_Inr:
  assumes "wf_conditions g t cs" "op_targetGeneration op \<le> g" "t \<noteq> 0"
    "op_capability op \<in> {CapabilityCreate, CapabilityUpdate, CapabilityDelete}"
  shows "\<exists>s cs'. complete_conditions op cs t = Inr (s, cs') \<and> wf_conditions g t cs' \<and>
    ResourceState_validate s = Inr ()"
  using assms
  by (auto simp: complete_conditions_def Let_def intro!: wf_conditions_upsert simp: Condition_validate_def)

lemma settle_conditions_Inr:
  assumes "wf_conditions g t cs" "op_targetGeneration op \<le> g" "\<not> blank reason" "t \<noteq> 0"
  shows "\<exists>cs'. settle_conditions r op cs reason message t = Inr cs' \<and> wf_conditions g t cs'"
  using assms
  by (auto simp: settle_conditions_def intro!: wf_conditions_upsert simp: Condition_validate_def)

lemma NewEvent_Inr:
  "\<not> blank eid \<Longrightarrow> \<not> blank rid \<Longrightarrow> g \<noteq> 0 \<Longrightarrow> \<not> blank ty \<Longrightarrow> \<not> blank reason \<Longrightarrow> t \<noteq> 0 \<Longrightarrow>
   \<exists>e. NewEvent eid rid oid g ty reason message t = Inr e"
  by (simp add: NewEvent_def)

lemma complete_Inr:
  "wf_operation op \<Longrightarrow> op_phaseChangedAt op \<le> t \<Longrightarrow> t \<noteq> 0 \<Longrightarrow> \<exists>op'. complete op s t f = Inr op'"
  by (auto simp: complete_def validateTransitionTime_def wf_operation_defs not_less)

text \<open>The active operation of a reachable resource, as the engine sees it.\<close>

lemma active_context:
  assumes "lifecycle_inv rt k" "cfg_latest k = Some op" "\<not> IsTerminal op"
    "status_updatedAt (cfg_status k) \<le> t" "t \<noteq> 0"
  shows "validateOperationContext (cfg_resource k) (cfg_status k) op t = Inr ()"
    and "wf_operation op" "op_phaseChangedAt op \<le> t" "op_targetGeneration op \<noteq> 0"
    and "op_capability op \<in> {CapabilityCreate, CapabilityUpdate, CapabilityDelete}"
    and "\<not> blank (resource_id (cfg_resource k))" "\<not> blank (op_id op)"
    and "wf_conditions (op_targetGeneration op) t (status_conditions (cfg_status k))"
    and "status_observedGeneration (cfg_status k) = op_targetGeneration op"
    and "ResourceState_validate (status_state (cfg_status k)) = Inr ()"
proof -
  have i: "wf_status (cfg_status k)" "status_resourceID (cfg_status k) = resource_id (cfg_resource k)"
    "status_observedGeneration (cfg_status k) \<le> resource_generation (cfg_resource k)"
    "latest_agrees (cfg_status k) (Some op)"
    using assms(1,2) by (simp_all add: lifecycle_inv_defs)
  then show "validateOperationContext (cfg_resource k) (cfg_status k) op t = Inr ()"
    using assms(3-5) by (simp add: validateOperationContext_def latest_agrees_def)
  show w: "wf_operation op" "op_phaseChangedAt op \<le> t"
      "status_observedGeneration (cfg_status k) = op_targetGeneration op"
    using i(4) assms(4) by (auto simp: latest_agrees_def)
  show "op_targetGeneration op \<noteq> 0" "\<not> blank (op_id op)" using w(1) by (simp_all add: wf_operation_defs)
  have "activeStatusOperation (cfg_status k) = (True, op_capability op)"
    using i(4) assms(3) by (simp add: latest_agrees_def)
  then show "op_capability op \<in> {CapabilityCreate, CapabilityUpdate, CapabilityDelete}"
    by (auto simp: activeStatusOperation_def split: ResourceState.splits if_splits)
  show "\<not> blank (resource_id (cfg_resource k))" "ResourceState_validate (status_state (cfg_status k)) = Inr ()"
    using i(1,2) by (simp_all add: wf_status_def)
  show "wf_conditions (op_targetGeneration op) t (status_conditions (cfg_status k))"
    using i(1) w(3) assms(4) by (auto simp: wf_status_def intro: wf_conditions_mono)
qed

lemma Engine_Fail_progress:
  assumes "lifecycle_inv rt k" "cfg_latest k = Some op" "\<not> IsTerminal op"
    "status_updatedAt (cfg_status k) \<le> t" "t \<noteq> 0" "\<not> blank eid" "\<not> blank reason"
  shows "\<exists>res. Engine_Fail (cfg_resource k) (cfg_status k) op reason message eid t = Inr res"
proof -
  note a = active_context [OF assms(1-5)]
  have "op_state op = OperationStatePending \<or> op_state op = OperationStateRunning"
    using a(2) assms(3) by (cases "op_state op") (auto simp: IsTerminal_def wf_operation_defs)
  then obtain op' where "Operation_Fail op reason message t = Inr op'"
    using complete_Inr [OF a(2,3) assms(5)] assms(7) by (auto simp: Operation_Fail_def)
  moreover obtain s cs where fc: "fail_conditions op (status_conditions (cfg_status k)) reason message t = Inr (s, cs)"
    "wf_conditions (op_targetGeneration op) t cs" "ResourceState_validate s = Inr ()"
    using fail_conditions_Inr [OF a(8) order_refl assms(7,5) a(5)] by blast
  moreover obtain cs' where "settle_conditions (cfg_resource k) op cs ''OperationFailed'' message t = Inr cs'"
    "wf_conditions (op_targetGeneration op) t cs'"
    using settle_conditions_Inr [OF fc(2) order_refl _ assms(5), of "''OperationFailed''"] by auto
  moreover obtain ev where "NewEvent eid (resource_id (cfg_resource k)) (op_id op) (op_targetGeneration op)
              ''LifecycleFailed'' reason message t = Inr ev"
    using NewEvent_Inr [OF assms(6) a(6,4) _ assms(7,5)] by fastforce
  ultimately show ?thesis
    using a assms(5) unfolding Engine_Fail_def by (simp add: NewResourceStatus_Inr wf_status_def)
qed

lemma Engine_Advance_progress:
  assumes "lifecycle_inv rt k" "cfg_latest k = Some op" "\<not> IsTerminal op"
    "status_updatedAt (cfg_status k) \<le> t" "t \<noteq> 0" "\<not> blank eid" "canAdvanceTo op p"
  shows "\<exists>res. Engine_Advance (cfg_resource k) (cfg_status k) op p eid t = Inr res"
proof -
  note a = active_context [OF assms(1-5)]
  have p: "\<not> blank (phase_string p)"
    using canAdvanceTo_valid [OF assms(7)] by (cases p) simp_all
  obtain op' where "AdvancePhase op p t = Inr op'"
    using assms(3,5,7) a(2,3)
    by (auto simp: AdvancePhase_def validateTransitionTime_def wf_operation_defs not_less Let_def)
  moreover obtain ev where "NewEvent eid (resource_id (cfg_resource k)) (op_id op) (op_targetGeneration op)
              ''LifecyclePhaseChanged'' (phase_string p) '''' t = Inr ev"
    using NewEvent_Inr [OF assms(6) a(6,4) _ p assms(5)] by fastforce
  ultimately show ?thesis
    using a p assms(5) unfolding Engine_Advance_def
    by (simp add: NewResourceStatus_Inr wf_status_def wf_conditions_upsert Condition_validate_def)
qed

lemma Engine_Complete_progress:
  assumes "lifecycle_inv rt k" "cfg_latest k = Some op" "\<not> IsTerminal op"
    "status_updatedAt (cfg_status k) \<le> t" "t \<noteq> 0" "\<not> blank eid"
    "op_state op = OperationStateRunning" "isFinalPhase op"
  shows "\<exists>res. Engine_Complete (cfg_resource k) (cfg_status k) op eid t = Inr res"
proof -
  note a = active_context [OF assms(1-5)]
  obtain op' where "Operation_Succeed op t = Inr op'"
    using complete_Inr [OF a(2,3) assms(5)] assms(7,8) by (auto simp: Operation_Succeed_def)
  moreover obtain s cs where fc: "complete_conditions op (status_conditions (cfg_status k)) t = Inr (s, cs)"
    "wf_conditions (op_targetGeneration op) t cs" "ResourceState_validate s = Inr ()"
    using complete_conditions_Inr [OF a(8) order_refl assms(5) a(5)] by blast
  moreover obtain cs' where "settle_conditions (cfg_resource k) op cs ''LifecycleSucceeded'' '''' t = Inr cs'"
    "wf_conditions (op_targetGeneration op) t cs'"
    using settle_conditions_Inr [OF fc(2) order_refl _ assms(5), of "''LifecycleSucceeded''"] by auto
  moreover obtain ev where "NewEvent eid (resource_id (cfg_resource k)) (op_id op) (op_targetGeneration op)
              ''LifecycleSucceeded'' (successReason (op_capability op)) '''' t = Inr ev"
    using NewEvent_Inr [OF assms(6) a(6,4) _ _ assms(5)] a(5) by (fastforce simp: successReason_def)
  ultimately show ?thesis
    using a assms(5) unfolding Engine_Complete_def by (simp add: NewResourceStatus_Inr wf_status_def)
qed

definition phases_left :: "Operation \<Rightarrow> nat" where
  "phases_left op = length (dropWhile (\<lambda>p. p \<noteq> op_phase op) (phase_path (op_capability op)))"

lemma active_can_move:
  assumes "wf_operation op" "\<not> IsTerminal op"
    "op_capability op \<in> {CapabilityCreate, CapabilityUpdate, CapabilityDelete}"
  shows "op_state op = OperationStateRunning \<and> isFinalPhase op \<or>
    (\<exists>p. canAdvanceTo op p \<and> phases_left (op\<lparr>op_phase := p\<rparr>) < phases_left op)"
proof (cases "op_state op = OperationStatePending")
  case True
  with assms show ?thesis
    by (intro disjI2 exI [of _ OperationPhaseValidating])
      (auto simp: canAdvanceTo_def wf_operation_defs phases_left_def phase_path_def)
next
  case False
  then have "op_state op = OperationStateRunning"
    using assms(1,2) by (cases "op_state op") (auto simp: IsTerminal_def wf_operation_defs)
  moreover from this have "op_phase op \<in> set (tl (phase_path (op_capability op)))"
    using assms(1) by (simp add: wf_operation_defs)
  ultimately show ?thesis
    using assms(3)
    by (auto simp: phase_path_def canAdvanceTo_def isFinalPhase_def phases_left_def split: if_splits)
qed

lemma engine_can_succeed:
  assumes "lifecycle_inv rt k" "cfg_latest k = Some op" "\<not> IsTerminal op" "\<not> blank eid"
  shows "\<exists>k' op'. (engine_step rt)\<^sup>*\<^sup>* k k' \<and> cfg_latest k' = Some op' \<and> op_id op' = op_id op \<and>
    op_state op' = OperationStateSucceeded"
  using assms
proof (induction "phases_left op" arbitrary: k op rule: less_induct)
  case less
  let ?t = "status_updatedAt (cfg_status k)"
  have t: "?t \<le> ?t" "?t \<noteq> 0"
    using less.prems(1) by (simp_all add: lifecycle_inv_defs wf_status_def)
  note a = active_context [OF less.prems(1-3) t]
  from active_can_move [OF a(2) less.prems(3) a(5)] show ?case
  proof (elim disjE exE conjE)
    assume "op_state op = OperationStateRunning" "isFinalPhase op"
    then obtain res where res: "Engine_Complete (cfg_resource k) (cfg_status k) op eid ?t = Inr res"
      using Engine_Complete_progress [OF less.prems(1-3) t less.prems(4)] by blast
    then have "Operation_Succeed op ?t = Inr (lr_Operation res)" by (rule Engine_Complete_result)
    then have "op_id (lr_Operation res) = op_id op \<and> op_state (lr_Operation res) = OperationStateSucceeded"
      by (auto dest!: Operation_Succeed_complete elim!: complete_cases)
    then show ?thesis
      using engine_step.complete [OF less.prems(2) res, of rt]
      by (intro exI [of _ "k\<lparr>cfg_status := lr_Status res, cfg_latest := Some (lr_Operation res)\<rparr>"]
          exI [of _ "lr_Operation res"]) (simp add: r_into_rtranclp)
  next
    fix p assume p: "canAdvanceTo op p" "phases_left (op\<lparr>op_phase := p\<rparr>) < phases_left op"
    then obtain res where res: "Engine_Advance (cfg_resource k) (cfg_status k) op p eid ?t = Inr res"
      using Engine_Advance_progress [OF less.prems(1-3) t less.prems(4)] by blast
    let ?k = "k\<lparr>cfg_status := lr_Status res, cfg_latest := Some (lr_Operation res)\<rparr>"
    have step: "engine_step rt k ?k" by (rule engine_step.advance [OF less.prems(2) res])
    from res have "AdvancePhase op p ?t = Inr (lr_Operation res)" by (rule Engine_Advance_result)
    then have same: "op_id (lr_Operation res) = op_id op" "\<not> IsTerminal (lr_Operation res)"
      "phases_left (lr_Operation res) = phases_left (op\<lparr>op_phase := p\<rparr>)"
      by (cases rule: AdvancePhase_cases; simp add: IsTerminal_def phases_left_def)+
    obtain k' op' where "(engine_step rt)\<^sup>*\<^sup>* ?k k'" "cfg_latest k' = Some op'"
      "op_id op' = op_id (lr_Operation res)" "op_state op' = OperationStateSucceeded"
      using less.hyps [of "lr_Operation res" ?k] p(2) same less.prems(4)
        engine_step_inv [OF step less.prems(1)] by auto
    with step same show ?thesis by (auto intro: converse_rtranclp_into_rtranclp)
  qed
qed

definition cfg_active :: "'spec config \<Rightarrow> bool" where
  "cfg_active k \<longleftrightarrow> (case cfg_latest k of None \<Rightarrow> False | Some op \<Rightarrow> \<not> IsTerminal op)"

lemma active_step_frame:
  assumes "engine_step rt k k'" "lifecycle_inv rt k" "cfg_active k" "cfg_active k'"
  shows "findCondition (status_conditions (cfg_status k')) ConditionReady =
      findCondition (status_conditions (cfg_status k)) ConditionReady"
    and "status_state (cfg_status k') = status_state (cfg_status k)"
    and "map_option op_capability (cfg_latest k') = map_option op_capability (cfg_latest k)"
  using assms
proof (atomize (full), induction rule: engine_step.induct)
  case (request k c oid eid t res)
  then show ?case using Engine_Request_guards(5) [OF request.hyps(1)]
    by (auto simp: cfg_active_def split: option.splits)
next
  case (update k spec t r oid eid res)
  then show ?case using Engine_Request_guards(5) [OF update.hyps(2)]
    by (auto simp: cfg_active_def split: option.splits)
next
  case (advance k op p eid t res)
  from advance.hyps(2) have "AdvancePhase op p t = Inr (lr_Operation res)"
    by (rule Engine_Advance_result)
  then have "op_capability (lr_Operation res) = op_capability op"
    by (cases rule: AdvancePhase_cases) simp_all
  with advance.hyps show ?case
    by (auto simp: Engine_Advance_def NewResourceStatus_iff)
next
  case (complete k op eid t res)
  then have "Operation_Succeed op t = Inr (lr_Operation res)" by (blast elim: Engine_Complete_result)
  then have "IsTerminal (lr_Operation res)"
    by (auto dest!: Operation_Succeed_complete complete_fields(4) simp: IsTerminal_def)
  with complete show ?case by (simp add: cfg_active_def)
next
  case (fail k op reason message eid t res)
  then have "Operation_Fail op reason message t = Inr (lr_Operation res)" by (blast elim: Engine_Fail_result)
  then have "IsTerminal (lr_Operation res)"
    by (auto dest!: Operation_Fail_complete complete_fields(4) simp: IsTerminal_def)
  with fail show ?case by (simp add: cfg_active_def)
next
  case (dependency k t v reason message st)
  then show ?case using SetDependencyCondition_result [OF dependency.hyps(2)] by simp
next
  case (observe k facts t st)
  then have "applyObservation (cfg_resource k) (cfg_status k) facts t False = Inr st"
    by (simp add: ApplyObservation_def)
  from applyObservation_result(8) [OF this] observe.prems show ?case
    by (auto simp: cfg_active_def lifecycle_inv_defs latest_agrees_def split: option.splits)
next
  case (post_observe k facts t st)
  then have "applyObservation (cfg_resource k) (cfg_status k) facts t True = Inr st"
    by (simp add: ApplyPostOperationObservation_def)
  from applyObservation_result(8) [OF this] post_observe.prems show ?case
    by (auto simp: cfg_active_def lifecycle_inv_defs latest_agrees_def split: option.splits)
qed

definition active_step :: "ResourceType \<Rightarrow> 'spec config \<Rightarrow> 'spec config \<Rightarrow> bool" where
  "active_step rt k k' \<longleftrightarrow> engine_step rt k k' \<and> cfg_active k'"

lemma active_run_frame:
  assumes "(active_step rt)\<^sup>*\<^sup>* k k'" "lifecycle_inv rt k" "cfg_active k"
  shows "findCondition (status_conditions (cfg_status k')) ConditionReady =
      findCondition (status_conditions (cfg_status k)) ConditionReady \<and>
    status_state (cfg_status k') = status_state (cfg_status k) \<and>
    map_option op_capability (cfg_latest k') = map_option op_capability (cfg_latest k) \<and>
    lifecycle_inv rt k' \<and> cfg_active k'"
  using assms
proof (induction rule: rtranclp_induct)
  case (step k1 k2)
  then show ?case
    using active_step_frame [of rt k1 k2] engine_step_inv [of rt k1 k2] by (simp add: active_step_def)
qed simp

lemma request_keeps_readiness:
  assumes "Engine_Request r rt st latest CapabilityDelete oid eid t = Inr res"
  shows "condition_is (status_conditions (lr_Status res)) ConditionReady ConditionStatusTrue \<longleftrightarrow>
    status_state st = ResourceStateReady \<or>
    condition_is (status_conditions st) ConditionReady ConditionStatusTrue"
proof -
  from assms obtain retry retryOf target cs where
    "request_conditions st CapabilityDelete retry target t = Inr (lifecycle_state CapabilityDelete st, cs)"
    "lr_Status res = \<lparr>status_resourceID = resource_id r, status_observedGeneration = target,
       status_state = lifecycle_state CapabilityDelete st, status_conditions = cs, status_updatedAt = t\<rparr>"
    by (rule Engine_Request_result)
  then show ?thesis
    by (auto simp: request_conditions_def ensurePreviouslyReady_def split: if_splits)
qed

lemma failed_delete_state:
  assumes "lifecycle_inv rt k"
    "Engine_Request (cfg_resource k) rt (cfg_status k) (cfg_latest k) CapabilityDelete oid eid t = Inr res"
    "(active_step rt)\<^sup>*\<^sup>* (k\<lparr>cfg_status := lr_Status res, cfg_latest := Some (lr_Operation res)\<rparr>) k'"
    "cfg_latest k' = Some op"
    "Engine_Fail (cfg_resource k') (cfg_status k') op reason message eid' t' = Inr res'"
  shows "status_state (lr_Status res') =
    (if status_state (cfg_status k) = ResourceStateReady \<or>
        condition_is (status_conditions (cfg_status k)) ConditionReady ConditionStatusTrue
     then ResourceStateReady else ResourceStateFailed)"
proof -
  let ?k = "k\<lparr>cfg_status := lr_Status res, cfg_latest := Some (lr_Operation res)\<rparr>"
  have "latest_agrees (cfg_status k) (cfg_latest k)" using assms(1) by (simp add: lifecycle_inv_defs)
  note q = Engine_Request_inv [OF assms(2) this]
  then have op: "\<not> IsTerminal (lr_Operation res)" "op_capability (lr_Operation res) = CapabilityDelete"
    by (auto simp: latest_agrees_def split: if_splits)
  have "cfg_active ?k" using op by (simp add: cfg_active_def)
  moreover have "lifecycle_inv rt ?k" by (rule engine_step_inv [OF engine_step.request [OF assms(2)] assms(1)])
  ultimately have fr: "findCondition (status_conditions (cfg_status k')) ConditionReady =
      findCondition (status_conditions (lr_Status res)) ConditionReady"
      "op_capability op = CapabilityDelete"
    using active_run_frame [OF assms(3)] assms(4) op(2) by auto
  from assms(5) have "status_state (lr_Status res') = failed_state (op_capability op) (status_conditions (cfg_status k'))"
    by (rule Engine_Fail_result) simp
  then show ?thesis
    using fr request_keeps_readiness [OF assms(2)] by (simp add: failed_state_def condition_is_def)
qed

section \<open>Properties of the engine\<close>

text \<open>A resource with its first request, as an input of the witnesses.\<close>

definition example_type :: ResourceType where
  "example_type = \<lparr>rtype_ref = \<lparr>tref_Name = ''app'', tref_Version = ''v1''\<rparr>,
     rtype_description = ''application'',
     rtype_capabilities = [CapabilityCreate, CapabilityUpdate, CapabilityDelete]\<rparr>"

definition example_config :: "nat config" where
  "example_config = \<lparr>cfg_resource = example_resource,
     cfg_status = \<lparr>status_resourceID = ''res-1'', status_observedGeneration = 0,
       status_state = ResourceStateUnknown, status_conditions = [], status_updatedAt = 10\<rparr>,
     cfg_latest = None\<rparr>"

lemma example_config_reachable: "engine_reachable example_type example_config"
  using engine_reachable.create [of "''res-1''" example_type "\<lparr>owner_Kind = ''team'', owner_ID = ''t1''\<rparr>"
      7 10 example_resource]
  by (simp add: example_type_def example_resource_new example_config_def NewResourceStatus_iff
      wf_status_def wf_conditions_def)

definition example_condition :: "string \<Rightarrow> ConditionStatus \<Rightarrow> string \<Rightarrow> Condition" where
  "example_condition x v reason = \<lparr>cond_typeName = x, cond_status = v, cond_reason = reason,
     cond_message = '''', cond_observedGeneration = 1, cond_lastTransitionAt = 10\<rparr>"

definition example_active :: "nat config" where
  "example_active = example_config\<lparr>cfg_status := \<lparr>status_resourceID = ''res-1'',
     status_observedGeneration = 1, status_state = ResourceStatePending,
     status_conditions =
       [example_condition ConditionReconciling ConditionStatusTrue ''CreateRequested'',
        example_condition ConditionReconciled ConditionStatusFalse ''LifecycleRequested'',
        example_condition ConditionOperationFailed ConditionStatusFalse ''NoFailure'',
        example_condition ConditionReady ConditionStatusFalse ''CreatePending'',
        example_condition ConditionDeleted ConditionStatusFalse ''CreatePending''],
     status_updatedAt = 10\<rparr>,
   cfg_latest := Some (example_operation OperationStatePending OperationPhaseRequested 0 10 0)\<rparr>"

lemma example_request:
  "\<exists>ev. Engine_Request (cfg_resource example_config) example_type (cfg_status example_config) None
     CapabilityCreate ''op-1'' ''ev-1'' 10 =
     Inr \<lparr>lr_Operation = example_operation OperationStatePending OperationPhaseRequested 0 10 0,
          lr_Status = cfg_status example_active, lr_Event = ev\<rparr>"
proof -
  have "requestReason CapabilityCreate False = ''CreateRequested''" by (simp add: requestReason_def)
  moreover have "NewOperation ''op-1'' ''res-1'' CapabilityCreate 1 10 [''''] =
      Inr (example_operation OperationStatePending OperationPhaseRequested 0 10 0)"
    by (simp add: NewOperation_def example_operation_def)
  moreover have "wf_status (cfg_status example_active)"
    by (simp add: wf_status_def wf_conditions_def example_active_def example_condition_def
        Condition_validate_def)
  ultimately show ?thesis
    by (simp add: Engine_Request_def example_config_def example_type_def example_resource_def
        validateResourceContext_def Supports_def validateOperationSnapshot_def request_source_def
        activeStatusOperation_def validateRequestPrecondition_def request_conditions_def
        NewResourceStatus_iff NewEvent_def example_operation_def example_active_def
        example_condition_def)
qed

lemma example_active_reachable: "engine_reachable example_type example_active"
proof -
  obtain ev where ev: "Engine_Request (cfg_resource example_config) example_type
      (cfg_status example_config) (cfg_latest example_config) CapabilityCreate ''op-1'' ''ev-1'' 10 =
      Inr \<lparr>lr_Operation = example_operation OperationStatePending OperationPhaseRequested 0 10 0,
           lr_Status = cfg_status example_active, lr_Event = ev\<rparr>"
    using example_request by (auto simp: example_config_def)
  from engine_reachable.step [OF example_config_reachable engine_step.request [OF ev]]
  show ?thesis by (simp add: example_active_def example_config_def)
qed

text \<open>
  C12: in every state the engine can reach from a fresh resource, through requests, updates, phase
  changes, completions, failures, dependency gates and observations in any order, the status is
  well-formed, the observed generation is at most the desired one, the status shows an active
  operation exactly when the latest operation is not terminal, with its capability and target
  generation, and the Reconciling condition says the same.
\<close>

theorem engine_reachable_invariant:
  assumes "engine_reachable rt k"
  shows "lifecycle_inv rt k"
  using assms by (rule engine_reachable_inv)

theorem engine_reachable_invariant_witness:
  "lifecycle_inv example_type example_active \<and> fst (activeStatusOperation (cfg_status example_active))"
  using engine_reachable_invariant [OF example_active_reachable]
  by (simp add: example_active_def activeStatusOperation_def)

text \<open>
  C37: no reachable resource is stuck with its active operation. Engine steps can always drive the
  operation to success, and at any time not before the last status update the engine can fail it
  with any reason, whatever generation was requested meanwhile.
\<close>

theorem engine_active_operation_settles:
  assumes "engine_reachable rt k" "cfg_latest k = Some op" "\<not> IsTerminal op" "\<not> blank eid"
  shows "(\<exists>k' op'. (engine_step rt)\<^sup>*\<^sup>* k k' \<and> cfg_latest k' = Some op' \<and> op_id op' = op_id op \<and>
      op_state op' = OperationStateSucceeded) \<and>
    (\<forall>reason message t. \<not> blank reason \<longrightarrow> status_updatedAt (cfg_status k) \<le> t \<longrightarrow> t \<noteq> 0 \<longrightarrow>
      (\<exists>res. Engine_Fail (cfg_resource k) (cfg_status k) op reason message eid t = Inr res))"
  using engine_can_succeed [OF engine_reachable_inv [OF assms(1)] assms(2-4)]
    Engine_Fail_progress [OF engine_reachable_inv [OF assms(1)] assms(2,3)] assms(4) by blast

theorem engine_active_operation_settles_witness:
  "\<exists>k' op'. (engine_step example_type)\<^sup>*\<^sup>* example_active k' \<and> cfg_latest k' = Some op' \<and>
     op_id op' = ''op-1'' \<and> op_state op' = OperationStateSucceeded"
  using engine_active_operation_settles [OF example_active_reachable, of
      "example_operation OperationStatePending OperationPhaseRequested 0 10 0" "''ev-2''"]
  by (simp add: example_active_def example_operation_def IsTerminal_def)

text \<open>
  a failed delete restores the stable state from before the request. Whatever phases and
  dependency gates lie between the accepted delete request and its failure, a resource that was
  Ready (or whose Ready condition held) is Ready again, and a failed one is Failed again.
\<close>

theorem engine_failed_delete_restores:
  assumes "lifecycle_inv rt k"
    "Engine_Request (cfg_resource k) rt (cfg_status k) (cfg_latest k) CapabilityDelete oid eid t = Inr res"
    "(active_step rt)\<^sup>*\<^sup>* (k\<lparr>cfg_status := lr_Status res, cfg_latest := Some (lr_Operation res)\<rparr>) k'"
    "cfg_latest k' = Some op"
    "Engine_Fail (cfg_resource k') (cfg_status k') op reason message eid' t' = Inr res'"
  shows "status_state (lr_Status res') =
    (if status_state (cfg_status k) = ResourceStateReady \<or>
        condition_is (status_conditions (cfg_status k)) ConditionReady ConditionStatusTrue
     then ResourceStateReady else ResourceStateFailed)"
  using assms by (rule failed_delete_state)

definition example_ready :: "nat config" where
  "example_ready = \<lparr>cfg_resource = example_resource,
     cfg_status = \<lparr>status_resourceID = ''res-1'', status_observedGeneration = 1,
       status_state = ResourceStateReady,
       status_conditions = [example_condition ConditionReconciling ConditionStatusFalse ''Idle''],
       status_updatedAt = 10\<rparr>,
     cfg_latest = None\<rparr>"

lemma example_ready_inv: "lifecycle_inv example_type example_ready"
  by (simp add: lifecycle_inv_defs example_ready_def example_resource_def example_type_def wf_status_def
      wf_conditions_def Condition_validate_def example_condition_def latest_agrees_def
      activeStatusOperation_def condition_is_def findCondition_def)

lemma example_delete_request:
  "\<exists>res. Engine_Request (cfg_resource example_ready) example_type (cfg_status example_ready)
     (cfg_latest example_ready) CapabilityDelete ''op-2'' ''ev-2'' 20 = Inr res"
  by (simp add: Engine_Request_def example_ready_def example_type_def example_resource_def
      validateResourceContext_def Supports_def validateOperationSnapshot_def request_source_def
      activeStatusOperation_def validateRequestPrecondition_def request_conditions_def
      ensurePreviouslyReady_def condition_is_def findCondition_def requestReason_def
      NewOperation_def NewResourceStatus_Inr NewEvent_def wf_status_def wf_conditions_def
      Condition_validate_def example_condition_def condition_type_defs)

theorem engine_failed_delete_restores_witness:
  "\<exists>res op res'. Engine_Request (cfg_resource example_ready) example_type (cfg_status example_ready)
     (cfg_latest example_ready) CapabilityDelete ''op-2'' ''ev-2'' 20 = Inr res \<and>
   Engine_Fail (cfg_resource example_ready) (lr_Status res) op ''Boom'' '''' ''ev-3'' 30 = Inr res' \<and>
   status_state (lr_Status res) = ResourceStateDeleting \<and>
   status_state (lr_Status res') = ResourceStateReady"
proof -
  obtain res where res: "Engine_Request (cfg_resource example_ready) example_type
      (cfg_status example_ready) (cfg_latest example_ready) CapabilityDelete ''op-2'' ''ev-2'' 20 = Inr res"
    using example_delete_request by blast
  let ?k = "example_ready\<lparr>cfg_status := lr_Status res, cfg_latest := Some (lr_Operation res)\<rparr>"
  note q = Engine_Request_inv [OF res]
  have la: "latest_agrees (cfg_status example_ready) (cfg_latest example_ready)"
    using example_ready_inv by (simp add: lifecycle_inv_defs)
  have inv: "lifecycle_inv example_type ?k"
    by (rule engine_step_inv [OF engine_step.request [OF res] example_ready_inv])
  have t: "status_updatedAt (cfg_status ?k) \<le> 30" "\<not> IsTerminal (lr_Operation res)"
    using q(4,7,8) [OF la] by (auto simp: latest_agrees_def split: if_splits)
  obtain res' where res': "Engine_Fail (cfg_resource ?k) (cfg_status ?k) (lr_Operation res) ''Boom'' ''''
      ''ev-3'' 30 = Inr res'"
    using Engine_Fail_progress [OF inv _ t(2,1), of "''ev-3''" "''Boom''" "''''"] by auto
  have "status_state (lr_Status res) = ResourceStateDeleting"
    using res by (rule Engine_Request_result) (simp add: lifecycle_state_def)
  moreover have "status_state (lr_Status res') = ResourceStateReady"
    using engine_failed_delete_restores [OF example_ready_inv res rtranclp.rtrancl_refl _ res']
    by (simp add: example_ready_def)
  ultimately show ?thesis using res res' by (intro exI conjI) (auto simp: example_ready_def)
qed

text \<open>
  a completion publishes exactly the outcome of the operation: Deleted for a delete and Ready
  otherwise, no failure, no reconciling, the Ready condition true unless deleted, and Reconciled
  true exactly when no newer generation is pending.
\<close>

theorem engine_completion_outcome:
  assumes "Engine_Complete r st op eid t = Inr res"
  shows "op_state (lr_Operation res) = OperationStateSucceeded \<and>
    status_state (lr_Status res) = completed_state (op_capability op) \<and>
    (condition_is (status_conditions (lr_Status res)) ConditionReady ConditionStatusTrue \<longleftrightarrow>
       op_capability op \<noteq> CapabilityDelete) \<and>
    condition_is (status_conditions (lr_Status res)) ConditionOperationFailed ConditionStatusFalse \<and>
    condition_is (status_conditions (lr_Status res)) ConditionReconciling ConditionStatusFalse \<and>
    (condition_is (status_conditions (lr_Status res)) ConditionReconciled ConditionStatusTrue \<longleftrightarrow>
       op_targetGeneration op = resource_generation r)"
proof -
  from assms obtain cs cs' where *: "validateOperationContext r st op t = Inr ()"
    "Operation_Succeed op t = Inr (lr_Operation res)"
    "complete_conditions op (status_conditions st) t = Inr (completed_state (op_capability op), cs)"
    "settle_conditions r op cs ''LifecycleSucceeded'' '''' t = Inr cs'"
    "lr_Status res = \<lparr>status_resourceID = resource_id r,
       status_observedGeneration = status_observedGeneration st,
       status_state = completed_state (op_capability op),
       status_conditions = cs', status_updatedAt = t\<rparr>"
    by (rule Engine_Complete_result)
  note c = complete_conditions_result [OF *(3)] and s = settle_conditions_result [OF *(4)]
  have "op_targetGeneration op \<le> resource_generation r"
    using *(1) by (simp add: validateOperationContext_def not_less)
  then have "condition_is cs' ConditionReconciled ConditionStatusTrue \<longleftrightarrow>
      op_targetGeneration op = resource_generation r"
    using s(3,4) c(4) condition_is_unique [of cs' ConditionReconciled ConditionStatusTrue]
    by (fastforce simp: condition_is_def)
  with c s(1) s(2) [of ConditionReady] s(2) [of ConditionOperationFailed] *(5)
    complete_fields(4) [OF Operation_Succeed_complete [OF *(2)]]
  show ?thesis by (simp add: condition_is_def)
qed

theorem engine_completion_outcome_witness:
  "\<exists>res. Engine_Complete example_resource
     (cfg_status example_active) (example_operation OperationStateRunning OperationPhaseApplying 10 10 0)
     ''ev-9'' 12 = Inr res \<and> status_state (lr_Status res) = ResourceStateReady"
proof -
  let ?k = "example_active\<lparr>cfg_latest := Some (example_operation OperationStateRunning OperationPhaseApplying 10 10 0)\<rparr>"
  have i: "lifecycle_inv example_type example_active"
    by (rule engine_reachable_inv [OF example_active_reachable])
  moreover have "cfg_latest example_active =
      Some (example_operation OperationStatePending OperationPhaseRequested 0 10 0)"
    by (simp add: example_active_def)
  ultimately have "latest_agrees (cfg_status example_active)
      (Some (example_operation OperationStatePending OperationPhaseRequested 0 10 0))"
    by (simp add: lifecycle_inv_defs)
  then have "latest_agrees (cfg_status example_active)
      (Some (example_operation OperationStateRunning OperationPhaseApplying 10 10 0))"
    by (auto simp: latest_agrees_def IsTerminal_def example_operation_def wf_operation_defs
        phase_path_def example_active_def)
  with i have "lifecycle_inv example_type ?k" by (simp add: lifecycle_inv_defs)
  then obtain res where res: "Engine_Complete example_resource (cfg_status example_active)
      (example_operation OperationStateRunning OperationPhaseApplying 10 10 0) ''ev-9'' 12 = Inr res"
    using Engine_Complete_progress [of example_type ?k
        "example_operation OperationStateRunning OperationPhaseApplying 10 10 0" 12 "''ev-9''"]
    by (auto simp: IsTerminal_def example_operation_def isFinalPhase_def example_active_def example_config_def)
  with engine_completion_outcome [OF res] show ?thesis
    by (simp add: example_operation_def completed_state_def)
qed

text \<open>
  a failure is never silent and never loses a working resource. The operation is failed with
  the given reason, the status carries the failure, reconciling stops, a failed create leaves the
  resource Failed and not ready, and a failed update keeps it Ready with its readiness untouched.
\<close>

theorem engine_failure_outcome:
  assumes "Engine_Fail r st op reason message eid t = Inr res"
  shows "op_failure (lr_Operation res) = Some \<lparr>failure_reason = reason, failure_message = message\<rparr> \<and>
    op_state (lr_Operation res) = OperationStateFailed \<and>
    condition_is (status_conditions (lr_Status res)) ConditionOperationFailed ConditionStatusTrue \<and>
    condition_is (status_conditions (lr_Status res)) ConditionReconciling ConditionStatusFalse \<and>
    condition_is (status_conditions (lr_Status res)) ConditionReconciled ConditionStatusFalse \<and>
    status_state (lr_Status res) = failed_state (op_capability op) (status_conditions st) \<and>
    (op_capability op \<noteq> CapabilityCreate \<longrightarrow>
       findCondition (status_conditions (lr_Status res)) ConditionReady =
       findCondition (status_conditions st) ConditionReady)"
proof -
  from assms obtain cs cs' where *:
    "Operation_Fail op reason message t = Inr (lr_Operation res)"
    "fail_conditions op (status_conditions st) reason message t =
       Inr (failed_state (op_capability op) (status_conditions st), cs)"
    "settle_conditions r op cs ''OperationFailed'' message t = Inr cs'"
    "lr_Status res = \<lparr>status_resourceID = resource_id r,
       status_observedGeneration = status_observedGeneration st,
       status_state = failed_state (op_capability op) (status_conditions st),
       status_conditions = cs', status_updatedAt = t\<rparr>"
    by (rule Engine_Fail_result)
  note c = fail_conditions_result [OF *(2)] and s = settle_conditions_result [OF *(3)]
  have "condition_is cs' ConditionReconciled ConditionStatusFalse"
    using s(3,4) c(3) by (cases "op_targetGeneration op < resource_generation r")
      (simp_all add: condition_is_def)
  moreover have "op_failure (lr_Operation res) = Some \<lparr>failure_reason = reason, failure_message = message\<rparr>"
    "op_state (lr_Operation res) = OperationStateFailed"
    using Operation_Fail_complete [OF *(1)] by (auto elim!: complete_cases)
  ultimately show ?thesis
    using c s(1) s(2) [of ConditionReady] s(2) [of ConditionOperationFailed] *(4)
    by (simp add: condition_is_def)
qed

theorem engine_failure_outcome_witness:
  "\<exists>res. Engine_Fail example_resource (cfg_status example_active)
     (example_operation OperationStatePending OperationPhaseRequested 0 10 0) ''Boom'' ''x'' ''ev-9'' 12 =
     Inr res \<and> status_state (lr_Status res) = ResourceStateFailed"
proof -
  obtain res where res: "Engine_Fail example_resource (cfg_status example_active)
     (example_operation OperationStatePending OperationPhaseRequested 0 10 0) ''Boom'' ''x'' ''ev-9'' 12 = Inr res"
    using Engine_Fail_progress [OF engine_reachable_inv [OF example_active_reachable], of
        "example_operation OperationStatePending OperationPhaseRequested 0 10 0" 12 "''ev-9''" "''Boom''"]
    by (auto simp: IsTerminal_def example_operation_def example_active_def example_config_def)
  with engine_failure_outcome [OF res] show ?thesis
    by (simp add: example_operation_def failed_state_def)
qed

text \<open>
  a passive observation cannot disturb the lifecycle. It is refused while an operation is
  active, never changes the observed generation, leaves every condition but Ready, Drifted and
  Reconciled alone, can only move the state to Ready or Unknown, never moves a Deleted or Failed
  resource, and after an operation moves no state at all.
\<close>

theorem engine_observation_bounded:
  assumes "applyObservation r st facts t preserve = Inr st'"
  shows "\<not> fst (activeStatusOperation st) \<and>
    status_observedGeneration st' = status_observedGeneration st \<and>
    (\<forall>x. x \<notin> {ConditionReady, ConditionDrifted, ConditionReconciled} \<longrightarrow>
       findCondition (status_conditions st') x = findCondition (status_conditions st) x) \<and>
    (status_state st' = status_state st \<or>
     \<not> preserve \<and> status_state st \<notin> {ResourceStateDeleted, ResourceStateFailed} \<and>
     status_state st' \<in> {ResourceStateReady, ResourceStateUnknown})"
  using applyObservation_result [OF assms] by (auto simp: observed_state_def split: if_splits)

theorem engine_observation_bounded_witness:
  "\<exists>st'. applyObservation example_resource (cfg_status example_ready)
     \<lparr>facts_Presence = ResourcePresenceNotFound, facts_Readiness = ResourceReadinessUnknown,
      facts_Drift = ResourceDriftDrifted\<rparr> 20 False = Inr st' \<and>
     status_observedGeneration st' = 1"
proof -
  let ?f = "\<lparr>facts_Presence = ResourcePresenceNotFound, facts_Readiness = ResourceReadinessUnknown,
      facts_Drift = ResourceDriftDrifted\<rparr>"
  obtain st' where st': "applyObservation example_resource (cfg_status example_ready) ?f 20 False = Inr st'"
    by (simp add: applyObservation_def ObservedFacts_Validate_def example_ready_def example_resource_def
        activeStatusOperation_def condition_is_def findCondition_def readinessCondition_def
        driftCondition_def observed_state_def NewResourceStatus_Inr wf_status_def wf_conditions_def
        Condition_validate_def example_condition_def condition_type_defs)
  from engine_observation_bounded [OF this] st' show ?thesis
    by (simp add: example_ready_def)
qed

end
