(* ===== verification/References.thy ===== *)
theory References
  imports Lifecycle "HOL-Library.Multiset"
begin

text \<open>
  Resource references: the reference contract of a resource type
  (\<^verbatim>\<open>src/internal/resourcecontract/reference.go\<close>) and the canonical edge sets, their shape
  validation, their difference and the bounded cycle proof of
  \<^verbatim>\<open>src/internal/application/references.go\<close>.

  The outgoing edges of a node come from the reference repository; here they are a function
  argument, which the store theory instantiates.
\<close>

section \<open>Reference contracts\<close>

definition MaxReferenceSlots :: nat where "MaxReferenceSlots = 16"
definition MaxSlotItems :: int where "MaxSlotItems = 16"

definition reservedReferenceNames :: "string list" where
  "reservedReferenceNames =
     [''id'', ''type'', ''owner'', ''spec'', ''status'', ''generation'', ''references'', ''outputs'',
      ''latestOperation'', ''createdAt'', ''updatedAt'']"

record ReferenceSlot =
  slot_Name :: string
  slot_AllowedTargetTypes :: "ResourceTypeRef list"
  slot_MinItems :: int
  slot_MaxItems :: int

record ReferenceContract =
  rc_slots :: "ReferenceSlot list"

fun check_targets :: "ResourceTypeRef list \<Rightarrow> ResourceTypeRef list \<Rightarrow> unit result" where
  "check_targets seen [] = Inr ()"
| "check_targets seen (t # ts) =
     (if blank (tref_Name t) \<or> blank (tref_Version t)
        then Inl (ErrMessage ''reference slot declares an invalid target type: name and version are required'')
      else if t \<in> set seen then Inl (ErrMessage ''reference slot declares duplicate target type'')
      else check_targets (t # seen) ts)"

definition normalize_slot :: "ReferenceSlot \<Rightarrow> ReferenceSlot result" where
  "normalize_slot slot =
     (let name = TrimSpace (slot_Name slot) in
      if name = '''' \<or> name \<noteq> slot_Name slot
        then Inl (ErrMessage ''reference slot name is empty or not canonical'')
      else if name \<in> set reservedReferenceNames
        then Inl (ErrMessage ''reference slot name is reserved'')
      else if slot_AllowedTargetTypes slot = []
        then Inl (ErrMessage ''reference slot must declare at least one allowed target type'')
      else bindE (check_targets [] (slot_AllowedTargetTypes slot)) (\<lambda>_.
        if slot_MinItems slot \<noteq> 0 \<and> slot_MinItems slot \<noteq> 1
          then Inl (ErrMessage ''reference slot minItems must be 0 or 1'')
        else if slot_MaxItems slot < 1 \<or> MaxSlotItems < slot_MaxItems slot
          then Inl (ErrMessage ''reference slot maxItems is out of range'')
        else if slot_MaxItems slot < slot_MinItems slot
          then Inl (ErrMessage ''reference slot minItems exceeds maxItems'')
        else Inr \<lparr>slot_Name = name,
          slot_AllowedTargetTypes =
            sort_key (\<lambda>t. (tref_Name t, tref_Version t)) (slot_AllowedTargetTypes slot),
          slot_MinItems = slot_MinItems slot, slot_MaxItems = slot_MaxItems slot\<rparr>))"

fun normalize_slots :: "ReferenceSlot list \<Rightarrow> ReferenceSlot list result" where
  "normalize_slots [] = Inr []"
| "normalize_slots (s # ss) =
     bindE (normalize_slot s) (\<lambda>s'. bindE (normalize_slots ss) (\<lambda>ss'. Inr (s' # ss')))"

fun adjacent_duplicate :: "string list \<Rightarrow> bool" where
  "adjacent_duplicate (x # y # zs) \<longleftrightarrow> x = y \<or> adjacent_duplicate (y # zs)"
| "adjacent_duplicate _ \<longleftrightarrow> False"

definition NewReferenceContract :: "ReferenceSlot list \<Rightarrow> ReferenceContract result" where
  "NewReferenceContract slots =
     (if slots = [] then Inl (ErrMessage ''reference contract must declare at least one slot'')
      else if MaxReferenceSlots < length slots
        then Inl (ErrMessage ''reference contract declares too many slots'')
      else bindE (normalize_slots slots) (\<lambda>normalized.
        let sorted = sort_key slot_Name normalized in
        if adjacent_duplicate (map slot_Name sorted)
          then Inl (ErrMessage ''reference slot is duplicated'')
        else Inr \<lparr>rc_slots = sorted\<rparr>))"

definition Slot :: "ReferenceContract \<Rightarrow> string \<Rightarrow> ReferenceSlot option" where
  "Slot c name = List.find (\<lambda>s. slot_Name s = name) (rc_slots c)"

definition AllowsTarget :: "ReferenceSlot \<Rightarrow> ResourceTypeRef \<Rightarrow> bool" where
  "AllowsTarget s ref \<longleftrightarrow> ref \<in> set (slot_AllowedTargetTypes s)"

definition SlotTargetTypeAllowed :: "ReferenceContract option \<Rightarrow> string \<Rightarrow> ResourceTypeRef \<Rightarrow> bool" where
  "SlotTargetTypeAllowed contract slot ref =
     (case contract of
        None \<Rightarrow> False
      | Some c \<Rightarrow> (case Slot c slot of None \<Rightarrow> False | Some s \<Rightarrow> AllowsTarget s ref))"

section \<open>Canonical edge sets\<close>

definition MaxReferencesPerResource :: nat where "MaxReferencesPerResource = 32"
definition MaxDependencyDepth :: nat where "MaxDependencyDepth = 32"
definition MaxCycleTraversalNodes :: nat where "MaxCycleTraversalNodes = 4096"

record ReferenceEdge =
  edge_Slot :: string
  edge_TargetID :: resource_id
  edge_Generation :: uint64

abbreviation mk_edge :: "string \<Rightarrow> resource_id \<Rightarrow> ReferenceEdge" where
  "mk_edge slot target \<equiv> \<lparr>edge_Slot = slot, edge_TargetID = target, edge_Generation = 0\<rparr>"

definition slot_targets :: "(string, string list) table \<Rightarrow> string \<Rightarrow> string list" where
  "slot_targets input slot = (case map_of input slot of None \<Rightarrow> [] | Some ts \<Rightarrow> ts)"

definition canonical_slot :: "string \<Rightarrow> string list \<Rightarrow> ReferenceEdge list result" where
  "canonical_slot slot targets =
     (if \<not> distinct targets
      then Inl (InvalidReferenceError [\<lparr>sv_Path = ''/'' @ slot, sv_Keyword = ''duplicate-target'',
             sv_Message = ''reference slot contains duplicate target entries''\<rparr>])
      else Inr (map (mk_edge slot) (sort targets)))"

fun canonical_slots :: "(string \<Rightarrow> string list) \<Rightarrow> string list \<Rightarrow> ReferenceEdge list result" where
  "canonical_slots get [] = Inr []"
| "canonical_slots get (slot # slots) =
     bindE (canonical_slot slot (get slot)) (\<lambda>edges.
       bindE (canonical_slots get slots) (\<lambda>rest. Inr (edges @ rest)))"

definition CanonicalizeReferences :: "(string, string list) table \<Rightarrow> ReferenceEdge list result" where
  "CanonicalizeReferences input =
     (if input = [] then Inr []
      else bindE (canonical_slots (slot_targets input) (sort (map fst input))) (\<lambda>edges.
        if MaxReferencesPerResource < length edges
        then Inl (InvalidReferenceError [\<lparr>sv_Path = '''', sv_Keyword = ''maxItems'',
               sv_Message = ''a resource may declare at most 32 bound references''\<rparr>])
        else Inr edges))"

fun shape_violations :: "ReferenceContract \<Rightarrow> resource_id \<Rightarrow> ReferenceEdge list \<Rightarrow> SpecViolation list" where
  "shape_violations c sourceID [] = []"
| "shape_violations c sourceID (e # es) =
     (if Slot c (edge_Slot e) = None
        then \<lparr>sv_Path = ''/'' @ edge_Slot e, sv_Keyword = ''unknown-slot'',
              sv_Message = ''reference slot is not declared by the resource type contract''\<rparr>
             # shape_violations c sourceID es
      else if edge_TargetID e = sourceID
        then \<lparr>sv_Path = ''/'' @ edge_Slot e, sv_Keyword = ''self-reference'',
              sv_Message = ''a resource cannot reference itself''\<rparr> # shape_violations c sourceID es
      else shape_violations c sourceID es)"

text \<open>The local map of counts, in the order in which its keys are first counted.\<close>

fun slot_counts :: "ReferenceEdge list \<Rightarrow> (string, nat) table \<Rightarrow> (string, nat) table" where
  "slot_counts [] counts = counts"
| "slot_counts (e # es) counts =
     slot_counts es (put (edge_Slot e)
       ((case map_of counts (edge_Slot e) of None \<Rightarrow> 0 | Some n \<Rightarrow> n) + 1) counts)"

definition cardinality_violation :: "ReferenceContract \<Rightarrow> string \<times> nat \<Rightarrow> SpecViolation list" where
  "cardinality_violation c = (\<lambda>(slot, count).
     case Slot c slot of
       None \<Rightarrow> []
     | Some d \<Rightarrow>
         (if int count < slot_MinItems d \<or> slot_MaxItems d < int count
          then [\<lparr>sv_Path = ''/'' @ slot, sv_Keyword = ''cardinality'',
                 sv_Message = ''reference slot accepts a different number of targets''\<rparr>]
          else []))"

definition cardinality_violations ::
    "ReferenceContract \<Rightarrow> (string, nat) table \<Rightarrow> SpecViolation list" where
  "cardinality_violations c counts = concat (map (cardinality_violation c) counts)"

definition ValidateReferenceShape ::
    "ReferenceContract option \<Rightarrow> resource_id \<Rightarrow> ReferenceEdge list \<Rightarrow> unit result" where
  "ValidateReferenceShape contract sourceID edges =
     (if edges = [] then Inr ()
      else case contract of
        None \<Rightarrow> Inl (InvalidReferenceError [\<lparr>sv_Path = '''', sv_Keyword = ''unknown-slot'',
           sv_Message = ''the resource type does not declare any reference slots''\<rparr>])
      | Some c \<Rightarrow>
          (let violations = shape_violations c sourceID edges in
           if violations \<noteq> [] then Inl (InvalidReferenceError violations)
           else let more = cardinality_violations c (slot_counts edges []) in
             if more \<noteq> [] then Inl (InvalidReferenceError more) else Inr ()))"

text \<open>Keys of edges, compared by \<^verbatim>\<open>ReferenceDifference\<close> and \<^verbatim>\<open>EdgesEqual\<close>.\<close>

definition edgeKey :: "ReferenceEdge \<Rightarrow> string" where
  "edgeKey e = edge_Slot e @ [CHR 0x00] @ edge_TargetID e"

definition edgeKeySet :: "ReferenceEdge list \<Rightarrow> string list" where
  "edgeKeySet edges = map edgeKey edges"

definition ReferenceDifference ::
    "ReferenceEdge list \<Rightarrow> ReferenceEdge list \<Rightarrow> ReferenceEdge list \<times> ReferenceEdge list" where
  "ReferenceDifference oldSet newSet =
     (filter (\<lambda>e. edgeKey e \<notin> set (edgeKeySet oldSet)) newSet,
      filter (\<lambda>e. edgeKey e \<notin> set (edgeKeySet newSet)) oldSet)"

definition EdgesEqual :: "ReferenceEdge list \<Rightarrow> ReferenceEdge list \<Rightarrow> bool" where
  "EdgesEqual a b \<longleftrightarrow>
     length a = length b \<and> list_all (\<lambda>e. edgeKey e \<in> set (edgeKeySet a)) b"

definition distinctEdgeTargets :: "ReferenceEdge list \<Rightarrow> resource_id list" where
  "distinctEdgeTargets edges = sort (remdups (map edge_TargetID edges))"

definition hiddenTargetViolation :: "string \<Rightarrow> error" where
  "hiddenTargetViolation slot = InvalidReferenceError [\<lparr>sv_Path = ''/'' @ slot, sv_Keyword = ''target'',
     sv_Message = ''the target referenced by slot is not an available dependency''\<rparr>]"

section \<open>The bounded cycle proof\<close>

type_synonym outgoing = "resource_id \<Rightarrow> resource_id list result"

abbreviation cycle_error :: error where
  "cycle_error \<equiv> ErrDependencyCycle ''resource references form a dependency cycle''"

abbreviation limit_error :: error where
  "limit_error \<equiv> ErrReferenceGraphLimit ''dependency graph exceeds supported verification bounds''"

function walk ::
    "outgoing \<Rightarrow> resource_id \<Rightarrow> nat \<Rightarrow> resource_id \<Rightarrow> resource_id list \<times> nat
      \<Rightarrow> (resource_id list \<times> nat) result" where
  "walk out source depth node (visited, budget) =
     (if node = source then Inl cycle_error
      else if node \<in> set visited then Inr (visited, budget)
      else if budget = 0 then Inl limit_error
      else bindE (out node) (\<lambda>nexts.
        if nexts = [] then Inr (node # visited, budget - 1)
        else if MaxDependencyDepth < depth + 1 then Inl limit_error
        else foldE (walk out source (depth + 1)) nexts (node # visited, budget - 1)))"
  by pat_completeness auto
termination
  by (relation "measure (\<lambda>(out, source, depth, node, st). MaxDependencyDepth + 1 - depth)") auto

declare walk.simps [simp del]

definition DetectDependencyCycle :: "outgoing \<Rightarrow> resource_id \<Rightarrow> resource_id list \<Rightarrow> unit result" where
  "DetectDependencyCycle out source candidateTargets =
     bindE (foldE (walk out source 1) (sort candidateTargets) ([], MaxCycleTraversalNodes)) (\<lambda>_. Inr ())"

section \<open>Canonical edge sets are canonical\<close>

lemma canonical_slot_perm:
  assumes "mset ts = mset ts'"
  shows "canonical_slot s ts = canonical_slot s ts'"
proof -
  have "distinct ts \<longleftrightarrow> distinct ts'" using assms by (rule mset_eq_imp_distinct_iff)
  moreover have "sort ts = sort ts'" using assms by (metis properties_for_sort sorted_sort mset_sort)
  ultimately show ?thesis by (simp add: canonical_slot_def)
qed

lemma canonical_slots_perm:
  "(\<And>s. mset (get s) = mset (get' s)) \<Longrightarrow> canonical_slots get slots = canonical_slots get' slots"
proof (induction slots)
  case (Cons s slots)
  then show ?case using canonical_slot_perm [of "get s" "get' s" s] by simp
qed simp

lemma canonical_slots_skip_empty:
  "canonical_slots get (filter (\<lambda>s. get s \<noteq> []) slots) = canonical_slots get slots"
  by (induction slots) (auto simp: canonical_slot_def bindE_def split: sum.splits)

lemma slot_targets_dom: "slot_targets input s \<noteq> [] \<Longrightarrow> s \<in> set (map fst input)"
  by (cases "map_of input s") (auto simp: slot_targets_def dest: map_of_SomeD intro: rev_image_eqI)

lemma used_slots_unique:
  assumes "wf_table input" "wf_table input'"
    and "\<And>s. mset (slot_targets input s) = mset (slot_targets input' s)"
  shows "filter (\<lambda>s. slot_targets input s \<noteq> []) (sort (map fst input)) =
    filter (\<lambda>s. slot_targets input' s \<noteq> []) (sort (map fst input'))"
proof (rule sorted_distinct_set_unique)
  have e: "slot_targets input s = [] \<longleftrightarrow> slot_targets input' s = []" for s
    using assms(3) [of s] by (metis mset_zero_iff)
  show "set (filter (\<lambda>s. slot_targets input s \<noteq> []) (sort (map fst input))) =
    set (filter (\<lambda>s. slot_targets input' s \<noteq> []) (sort (map fst input')))"
    using e slot_targets_dom [of input] slot_targets_dom [of input'] by auto
qed (use assms(1,2) in \<open>simp_all add: sorted_wrt_filter\<close>)

lemma canonical_slots_Inr:
  "canonical_slots get slots = Inr es \<longleftrightarrow>
     list_all (\<lambda>s. distinct (get s)) slots \<and>
     es = concat (map (\<lambda>s. map (mk_edge s) (sort (get s))) slots)"
  by (induction slots arbitrary: es) (auto simp: canonical_slot_def)

abbreviation edge_pair :: "ReferenceEdge \<Rightarrow> string \<times> resource_id" where
  "edge_pair e \<equiv> (edge_Slot e, edge_TargetID e)"

lemma sorted_canonical:
  assumes "sorted slots" "distinct slots" "list_all (\<lambda>s. distinct (get s)) slots"
  shows "sorted_wrt (<) (map edge_pair (concat (map (\<lambda>s. map (mk_edge s) (sort (get s))) slots)))"
  using assms
proof (induction slots)
  case (Cons s slots)
  have "sorted_wrt (<) (sort (get s))"
    using Cons.prems(3) by (simp add: strict_sorted_iff)
  then have "sorted_wrt (<) (map (\<lambda>t. (s, t)) (sort (get s)))"
    by (simp add: sorted_wrt_map less_prod_simp)
  moreover have "\<forall>s' \<in> set slots. s < s'"
    using Cons.prems(1,2) by (auto simp: order.strict_iff_order)
  ultimately show ?case
    using Cons.IH Cons.prems by (auto simp: sorted_wrt_append comp_def less_prod_simp)
qed simp

lemma CanonicalizeReferences_perm:
  assumes "wf_table input" "wf_table input'"
    and "\<And>s. mset (slot_targets input s) = mset (slot_targets input' s)"
  shows "CanonicalizeReferences input = CanonicalizeReferences input'"
proof -
  let ?c = "\<lambda>input. bindE (canonical_slots (slot_targets input) (sort (map fst input))) (\<lambda>edges.
        if MaxReferencesPerResource < length edges
        then Inl (InvalidReferenceError [\<lparr>sv_Path = '''', sv_Keyword = ''maxItems'',
               sv_Message = ''a resource may declare at most 32 bound references''\<rparr>])
        else Inr edges)"
  have c: "CanonicalizeReferences i = ?c i" for i
    by (simp add: CanonicalizeReferences_def)
  have "canonical_slots (slot_targets input) (sort (map fst input)) =
      canonical_slots (slot_targets input') (sort (map fst input'))"
    using used_slots_unique [OF assms] canonical_slots_perm [of "slot_targets input" "slot_targets input'"]
      assms(3) canonical_slots_skip_empty by metis
  then show ?thesis by (simp only: c)
qed

lemma CanonicalizeReferences_Inr:
  assumes "CanonicalizeReferences input = Inr es" "wf_table input"
  shows "sorted_wrt (<) (map edge_pair es)" "length es \<le> 32"
    "edge_pair ` set es = {(s, t). t \<in> set (slot_targets input s)}"
    "e \<in> set es \<Longrightarrow> edge_Generation e = 0"
proof -
  have *: "list_all (\<lambda>s. distinct (slot_targets input s)) (sort (map fst input))"
    "es = concat (map (\<lambda>s. map (mk_edge s) (sort (slot_targets input s))) (sort (map fst input)))"
    "length es \<le> 32"
    using assms(1) by (auto simp: CanonicalizeReferences_def canonical_slots_Inr
        MaxReferencesPerResource_def not_less split: if_splits)
  show "sorted_wrt (<) (map edge_pair es)"
    unfolding *(2) by (rule sorted_canonical) (use assms(2) *(1) in simp_all)
  show "edge_pair ` set es = {(s, t). t \<in> set (slot_targets input s)}"
    using slot_targets_dom [of input] unfolding *(2) by (force simp: image_iff)
  show "e \<in> set es \<Longrightarrow> edge_Generation e = 0" unfolding *(2) by auto
qed (use assms(1) in \<open>auto simp: CanonicalizeReferences_def MaxReferencesPerResource_def split: if_splits\<close>)

section \<open>Differences of edge sets\<close>

definition plain_slots :: "ReferenceEdge list \<Rightarrow> bool" where
  "plain_slots es \<longleftrightarrow> list_all (\<lambda>e. CHR 0x00 \<notin> set (edge_Slot e)) es"

lemma edgeKey_inj:
  assumes "CHR 0x00 \<notin> set (edge_Slot e)" "CHR 0x00 \<notin> set (edge_Slot e')"
  shows "edgeKey e = edgeKey e' \<longleftrightarrow> edge_pair e = edge_pair e'"
proof
  assume eq: "edgeKey e = edgeKey e'"
  have *: "takeWhile (\<lambda>c. c \<noteq> CHR 0x00) (edgeKey x) = edge_Slot x \<and>
      dropWhile (\<lambda>c. c \<noteq> CHR 0x00) (edgeKey x) = CHR 0x00 # edge_TargetID x"
    if "CHR 0x00 \<notin> set (edge_Slot x)" for x
    using that by (auto simp: edgeKey_def takeWhile_append dropWhile_append)
  show "edge_pair e = edge_pair e'"
    using * [OF assms(1)] * [OF assms(2)] eq by simp
qed (simp add: edgeKey_def)

lemma edgeKeySet_iff:
  assumes "plain_slots es" "CHR 0x00 \<notin> set (edge_Slot e)"
  shows "edgeKey e \<in> set (edgeKeySet es) \<longleftrightarrow> edge_pair e \<in> edge_pair ` set es"
proof -
  have "edgeKey e = edgeKey x \<longleftrightarrow> edge_pair e = edge_pair x" if "x \<in> set es" for x
    using edgeKey_inj that assms by (auto simp: plain_slots_def list_all_iff)
  then show ?thesis by (force simp: edgeKeySet_def)
qed

lemma ReferenceDifference_sets:
  assumes "plain_slots old" "plain_slots new" "ReferenceDifference old new = (added, removed)"
  shows "edge_pair ` set added = edge_pair ` set new - edge_pair ` set old"
    "edge_pair ` set removed = edge_pair ` set old - edge_pair ` set new"
    "set added \<subseteq> set new" "set removed \<subseteq> set old"
proof -
  have mem: "e \<in> set new \<Longrightarrow> edgeKey e \<in> set (edgeKeySet old) \<longleftrightarrow> edge_pair e \<in> edge_pair ` set old"
    "e \<in> set old \<Longrightarrow> edgeKey e \<in> set (edgeKeySet new) \<longleftrightarrow> edge_pair e \<in> edge_pair ` set new" for e
    using edgeKeySet_iff assms(1,2) by (auto simp: plain_slots_def list_all_iff)
  have a: "added = filter (\<lambda>e. edgeKey e \<notin> set (edgeKeySet old)) new"
    and r: "removed = filter (\<lambda>e. edgeKey e \<notin> set (edgeKeySet new)) old"
    using assms(3) by (simp_all add: ReferenceDifference_def)
  show "edge_pair ` set added = edge_pair ` set new - edge_pair ` set old"
    unfolding a using mem(1) by fastforce
  show "edge_pair ` set removed = edge_pair ` set old - edge_pair ` set new"
    unfolding r using mem(2) by fastforce
  show "set added \<subseteq> set new" "set removed \<subseteq> set old" unfolding a r by auto
qed

lemma EdgesEqual_iff:
  assumes "plain_slots a" "plain_slots b" "distinct (map edge_pair a)" "distinct (map edge_pair b)"
  shows "EdgesEqual a b \<longleftrightarrow> edge_pair ` set a = edge_pair ` set b"
proof -
  have c: "length xs = card (edge_pair ` set xs)" if "distinct (map edge_pair xs)" for xs
    using distinct_card [OF that] by simp
  have s: "list_all (\<lambda>e. edgeKey e \<in> set (edgeKeySet a)) b \<longleftrightarrow> edge_pair ` set b \<subseteq> edge_pair ` set a"
    using edgeKeySet_iff [OF assms(1)] assms(2) by (auto simp: plain_slots_def list_all_iff)
  have "card A = card B \<and> B \<subseteq> A \<longleftrightarrow> A = B" if "finite A" for A B :: "(string \<times> resource_id) set"
    using card_subset_eq [OF that, of B] by auto
  from this [of "edge_pair ` set a" "edge_pair ` set b"] show ?thesis
    unfolding EdgesEqual_def s c [OF assms(3)] c [OF assms(4)] by simp
qed

section \<open>Shape validation\<close>

lemma shape_violations_Nil:
  "shape_violations c source es = [] \<longleftrightarrow>
     (\<forall>e \<in> set es. Slot c (edge_Slot e) \<noteq> None \<and> edge_TargetID e \<noteq> source)"
  by (induction es) auto

definition edges_of_slot :: "ReferenceEdge list \<Rightarrow> string \<Rightarrow> nat" where
  "edges_of_slot es s = length (filter (\<lambda>e. edge_Slot e = s) es)"

lemma slot_counts_map_of:
  "map_of (slot_counts es counts) s =
     (if edges_of_slot es s = 0 then map_of counts s
      else Some ((case map_of counts s of None \<Rightarrow> 0 | Some n \<Rightarrow> n) + edges_of_slot es s))"
  by (induction es arbitrary: counts) (auto simp: edges_of_slot_def split: option.splits)

lemma slot_counts_wf: "wf_table counts \<Longrightarrow> wf_table (slot_counts es counts)"
  by (induction es arbitrary: counts) simp_all

lemma slot_counts_set:
  "(s, n) \<in> set (slot_counts es []) \<longleftrightarrow> 0 < n \<and> n = edges_of_slot es s"
  using wf_table_in_set_iff [OF slot_counts_wf [of "[]" es], of s n]
  by (auto simp: slot_counts_map_of)

lemma cardinality_violations_Nil:
  "cardinality_violations c (slot_counts es []) = [] \<longleftrightarrow>
     (\<forall>s d. 0 < edges_of_slot es s \<longrightarrow> Slot c s = Some d \<longrightarrow>
        slot_MinItems d \<le> int (edges_of_slot es s) \<and> int (edges_of_slot es s) \<le> slot_MaxItems d)"
proof -
  have "cardinality_violation c (s, n) = [] \<longleftrightarrow> (\<forall>d. Slot c s = Some d \<longrightarrow>
      slot_MinItems d \<le> int n \<and> int n \<le> slot_MaxItems d)" for s n
    by (simp add: cardinality_violation_def not_less split: option.splits)
  then have "cardinality_violations c t = [] \<longleftrightarrow> (\<forall>s n d. (s, n) \<in> set t \<longrightarrow> Slot c s = Some d \<longrightarrow>
      slot_MinItems d \<le> int n \<and> int n \<le> slot_MaxItems d)" for t
    by (auto simp: cardinality_violations_def)
  then show ?thesis by (auto simp: slot_counts_set)
qed

lemma ValidateReferenceShape_iff:
  "ValidateReferenceShape contract source es = Inr () \<longleftrightarrow> es = [] \<or>
     (\<exists>c. contract = Some c \<and>
        (\<forall>e \<in> set es. edge_TargetID e \<noteq> source \<and>
           (\<exists>d. Slot c (edge_Slot e) = Some d \<and>
              slot_MinItems d \<le> int (edges_of_slot es (edge_Slot e)) \<and>
              int (edges_of_slot es (edge_Slot e)) \<le> slot_MaxItems d)))"
proof -
  have pos: "0 < edges_of_slot es s \<longleftrightarrow> (\<exists>e \<in> set es. edge_Slot e = s)" for s
    by (simp add: edges_of_slot_def filter_empty_conv)
  have "(\<forall>e \<in> set es. Slot c (edge_Slot e) \<noteq> None \<and> edge_TargetID e \<noteq> source) \<and>
      (\<forall>s. (\<forall>e \<in> set es. edge_Slot e \<noteq> s) \<or> (\<forall>d. Slot c s = Some d \<longrightarrow>
        slot_MinItems d \<le> int (edges_of_slot es s) \<and> int (edges_of_slot es s) \<le> slot_MaxItems d)) \<longleftrightarrow>
    (\<forall>e \<in> set es. edge_TargetID e \<noteq> source \<and>
           (\<exists>d. Slot c (edge_Slot e) = Some d \<and>
              slot_MinItems d \<le> int (edges_of_slot es (edge_Slot e)) \<and>
              int (edges_of_slot es (edge_Slot e)) \<le> slot_MaxItems d))" for c
    by (metis not_None_eq option.inject)
  then show ?thesis
    by (cases contract) (simp_all add: ValidateReferenceShape_def Let_def shape_violations_Nil
        cardinality_violations_Nil pos)
qed

section \<open>Soundness of the cycle proof\<close>

definition points_to :: "outgoing \<Rightarrow> resource_id \<Rightarrow> resource_id \<Rightarrow> bool" where
  "points_to out n m \<longleftrightarrow> (\<exists>ms. out n = Inr ms \<and> m \<in> set ms)"

text \<open>
  What a completed walk establishes: it only adds nodes, never the source, and every node it adds
  had its outgoing edges read and all their ends visited.
\<close>

definition explores :: "outgoing \<Rightarrow> resource_id \<Rightarrow> resource_id set \<Rightarrow> resource_id list \<Rightarrow> resource_id list \<Rightarrow> bool" where
  "explores out source nodes visited visited' \<longleftrightarrow>
     set visited \<subseteq> set visited' \<and> nodes \<subseteq> set visited' \<and> source \<notin> set visited' - set visited \<and>
     (\<forall>n \<in> set visited' - set visited. \<forall>m. points_to out n m \<longrightarrow> m \<in> set visited')"

lemma explores_trans:
  assumes "explores out source A v v'" "explores out source B v' v''"
  shows "explores out source (A \<union> B) v v''"
  using assms unfolding explores_def by blast

lemma foldE_explores:
  assumes "foldE f ns (v, b) = Inr (v', b')"
    and "\<And>n v b v' b'. n \<in> set ns \<Longrightarrow> f n (v, b) = Inr (v', b') \<Longrightarrow> explores out source {n} v v'"
  shows "explores out source (set ns) v v'"
  using assms
proof (induction ns arbitrary: v b)
  case Nil
  then show ?case by (simp add: explores_def)
next
  case (Cons n ns)
  from Cons.prems(1) obtain v1 b1 where *: "f n (v, b) = Inr (v1, b1)" "foldE f ns (v1, b1) = Inr (v', b')"
    by auto
  from explores_trans [OF Cons.prems(2) [OF _ *(1)] Cons.IH [OF *(2) Cons.prems(2)]] show ?case
    by simp
qed

lemma walk_explores:
  "walk out source depth node (visited, budget) = Inr (visited', budget') \<Longrightarrow>
     explores out source {node} visited visited'"
proof (induction "MaxDependencyDepth + 1 - depth" arbitrary: depth node visited budget visited' budget'
    rule: less_induct)
  case less
  note w = less.prems [unfolded walk.simps [of out source depth node visited budget]]
  show ?case
  proof (cases "node \<in> set visited")
    case True
    then have "visited' = visited" using w by (simp split: if_splits)
    with True show ?thesis by (simp add: explores_def)
  next
    case False
    have ns: "node \<noteq> source" using w by (simp split: if_splits)
    obtain nexts where o: "out node = Inr nexts"
      using w False ns by (cases "out node") (simp_all split: if_splits)
    show ?thesis
    proof (cases "nexts = []")
      case True
      then have "visited' = node # visited" using w False ns o by (simp split: if_splits)
      with True ns o show ?thesis by (auto simp: explores_def points_to_def)
    next
      case nonempty: False
      then have f: "\<not> MaxDependencyDepth < depth + 1"
        "foldE (walk out source (depth + 1)) nexts (node # visited, budget - 1) = Inr (visited', budget')"
        using w False ns o by (simp_all split: if_splits)
      have "explores out source (set nexts) (node # visited) visited'"
        by (rule foldE_explores [OF f(2)]) (rule less.hyps [rotated], assumption, use f(1) in simp)
      then have e: "set (node # visited) \<subseteq> set visited'" "set nexts \<subseteq> set visited'"
        "source \<notin> set visited' - set (node # visited)"
        "\<And>n m. n \<in> set visited' - set (node # visited) \<Longrightarrow> points_to out n m \<Longrightarrow> m \<in> set visited'"
        unfolding explores_def by blast+
      have "m \<in> set visited'" if "n \<in> set visited' - set visited" "points_to out n m" for n m
      proof (cases "n = node")
        case True
        with that(2) o have "m \<in> set nexts" by (simp add: points_to_def)
        with e(2) show ?thesis by blast
      qed (use that e(4) [of n m] in simp)
      with e(1,3) ns show ?thesis unfolding explores_def by simp
    qed
  qed
qed

lemma closed_reach:
  assumes "(points_to out)\<^sup>*\<^sup>* n m" "n \<in> V" "\<And>x y. x \<in> V \<Longrightarrow> points_to out x y \<Longrightarrow> y \<in> V"
  shows "m \<in> V"
  using assms by (induction rule: rtranclp_induct) auto

lemma DetectDependencyCycle_sound:
  assumes "DetectDependencyCycle out source ts = Inr ()" "t \<in> set ts"
  shows "\<not> (points_to out)\<^sup>*\<^sup>* t source"
proof
  assume r: "(points_to out)\<^sup>*\<^sup>* t source"
  from assms(1) obtain v b where
    "foldE (walk out source 1) (sort ts) ([], MaxCycleTraversalNodes) = Inr (v, b)"
    by (auto simp: DetectDependencyCycle_def)
  then have "explores out source (set (sort ts)) [] v"
    by (rule foldE_explores) (rule walk_explores)
  then have e: "set ts \<subseteq> set v" "source \<notin> set v" "\<And>n m. n \<in> set v \<Longrightarrow> points_to out n m \<Longrightarrow> m \<in> set v"
    by (auto simp: explores_def)
  with assms(2) closed_reach [OF r, of "set v"] show False by blast
qed

lemma foldE_Inl:
  "foldE f xs s = Inl e \<Longrightarrow> \<exists>x \<in> set xs. \<exists>s'. f x s' = Inl e"
  by (induction xs arbitrary: s) (auto simp: bindE_eq_Inl)

lemma walk_cycle:
  assumes "\<And>n. out n \<noteq> Inl cycle_error"
  shows "walk out source depth node st = Inl cycle_error \<Longrightarrow> (points_to out)\<^sup>*\<^sup>* node source"
proof (induction "MaxDependencyDepth + 1 - depth" arbitrary: depth node st rule: less_induct)
  case less
  obtain visited budget where st: "st = (visited, budget)" by fastforce
  note w = less.prems [unfolded st walk.simps [of out source depth node visited budget]]
  show ?case
  proof (cases "node = source")
    case False
    obtain nexts where o: "out node = Inr nexts"
      using w False assms [of node] by (cases "out node") (simp_all split: if_splits)
    then have f: "\<not> MaxDependencyDepth < depth + 1"
      "foldE (walk out source (depth + 1)) nexts (node # visited, budget - 1) = Inl cycle_error"
      using w False by (simp_all split: if_splits)
    then obtain n st' where n: "n \<in> set nexts" "walk out source (depth + 1) n st' = Inl cycle_error"
      using foldE_Inl [OF f(2)] by blast
    have "(points_to out)\<^sup>*\<^sup>* n source" using less.hyps [OF _ n(2)] f(1) by simp
    moreover have "points_to out node n" using o n(1) by (auto simp: points_to_def)
    ultimately show ?thesis by (rule converse_rtranclp_into_rtranclp [rotated])
  qed simp
qed

lemma DetectDependencyCycle_cycle:
  assumes "\<And>n. out n \<noteq> Inl cycle_error" "DetectDependencyCycle out source ts = Inl cycle_error"
  shows "\<exists>t \<in> set ts. (points_to out)\<^sup>*\<^sup>* t source"
proof -
  from assms(2) obtain t st where "t \<in> set ts" "walk out source 1 t st = Inl cycle_error"
    by (auto simp: DetectDependencyCycle_def bindE_eq_Inl dest: foldE_Inl)
  with walk_cycle [of out source 1 t st] assms(1) show ?thesis by blast
qed

text \<open>Adding edges from one node to nodes that do not reach it keeps a relation acyclic.\<close>

lemma acyclic_insert_edges:
  assumes "acyclicP R" "\<And>t. t \<in> T \<Longrightarrow> \<not> R\<^sup>*\<^sup>* t s"
  shows "acyclicP (\<lambda>x y. R x y \<or> x = s \<and> y \<in> T)"
proof -
  let ?Q = "\<lambda>x y. R x y \<or> x = s \<and> y \<in> T"
  have split: "R\<^sup>+\<^sup>+ x y \<or> (R\<^sup>*\<^sup>* x s \<and> (\<exists>t \<in> T. R\<^sup>*\<^sup>* t y))" if "?Q\<^sup>+\<^sup>+ x y" for x y
    using that
  proof (induction rule: tranclp_induct)
    case (base y)
    then show ?case by auto
  next
    case (step y z)
    then show ?case
      by (meson rtranclp.rtrancl_into_rtrancl rtranclp.rtrancl_refl tranclp.trancl_into_trancl
          tranclp_into_rtranclp)
  qed
  have "\<not> ?Q\<^sup>+\<^sup>+ x x" for x
    using split [of x x] assms by (metis acyclic_def mem_Collect_eq case_prodI rtranclp_trans tranclp_unfold)
  then show ?thesis by (simp add: acyclic_def tranclp_unfold)
qed

lemma DetectDependencyCycle_acyclic:
  assumes "acyclicP (points_to out)" "DetectDependencyCycle out source ts = Inr ()"
  shows "acyclicP (\<lambda>n m. points_to out n m \<or> n = source \<and> m \<in> set ts)"
  using assms by (intro acyclic_insert_edges DetectDependencyCycle_sound)

text \<open>
  Within the bounds the search is exact: on a graph whose nodes have heights that decrease along
  edges, with at most 32 nodes on a chain from a target and at most 4096 nodes in all, it never
  gives up.
\<close>

definition walk_room :: "resource_id set \<Rightarrow> resource_id list \<times> nat \<Rightarrow> bool" where
  "walk_room V st \<longleftrightarrow> distinct (fst st) \<and> set (fst st) \<subseteq> V \<and>
     snd st + length (fst st) = MaxCycleTraversalNodes"

definition walk_good :: "resource_id set \<Rightarrow> (resource_id list \<times> nat) result \<Rightarrow> bool" where
  "walk_good V r \<longleftrightarrow> (case r of Inl e \<Rightarrow> e = cycle_error | Inr st \<Rightarrow> walk_room V st)"

lemma foldE_good:
  assumes "walk_room V st" "\<And>n st. n \<in> set ns \<Longrightarrow> walk_room V st \<Longrightarrow> walk_good V (f n st)"
  shows "walk_good V (foldE f ns st)"
  using assms
proof (induction ns arbitrary: st)
  case (Cons n ns)
  then have "walk_good V (f n st)" by simp
  with Cons show ?case by (cases "f n st") (simp_all add: walk_good_def)
qed (simp add: walk_good_def)

lemma walk_within_bounds:
  assumes "finite V" "card V \<le> MaxCycleTraversalNodes"
    and "\<And>n. n \<in> V \<Longrightarrow> \<exists>ms. out n = Inr ms \<and> set ms \<subseteq> V"
    and "\<And>n m. points_to out n m \<Longrightarrow> height m < height n"
  shows "node \<in> V \<Longrightarrow> walk_room V st \<Longrightarrow> depth + height node \<le> MaxDependencyDepth \<Longrightarrow>
    walk_good V (walk out source depth node st)"
proof (induction "height node" arbitrary: depth node st rule: less_induct)
  case less
  obtain v b where st: "st = (v, b)" by fastforce
  obtain ms where ms: "out node = Inr ms" "set ms \<subseteq> V" using assms(3) less.prems(1) by blast
  show ?case
  proof (cases "node = source \<or> node \<in> set v")
    case True
    then show ?thesis using less.prems(2) by (auto simp: st walk.simps walk_good_def)
  next
    case False
    have "card (set (node # v)) \<le> card V"
      using less.prems(1,2) assms(1) by (intro card_mono) (simp_all add: st walk_room_def)
    then have "0 < b" and room: "walk_room V (node # v, b - 1)"
      using less.prems(1,2) assms(2) False by (auto simp: st walk_room_def distinct_card)
    moreover have "walk_good V (foldE (walk out source (depth + 1)) ms (node # v, b - 1))"
    proof (rule foldE_good [OF room])
      fix n st' assume n: "n \<in> set ms" "walk_room V st'"
      then have h: "height n < height node" using ms(1) assms(4) by (auto simp: points_to_def)
      show "walk_good V (walk out source (depth + 1) n st')"
        by (rule less.hyps) (use n ms(2) h less.prems(3) in auto)
    qed
    moreover have "\<not> MaxDependencyDepth < depth + 1" if ne: "ms \<noteq> []"
    proof -
      obtain n where "n \<in> set ms" using ne by (meson list.set_sel(1))
      then have "height n < height node" using ms(1) assms(4) by (auto simp: points_to_def)
      with less.prems(3) show ?thesis by simp
    qed
    ultimately show ?thesis
      using False ms(1) by (simp add: st walk.simps [of out source depth node v b] walk_good_def)
  qed
qed

lemma DetectDependencyCycle_exact:
  assumes "finite V" "card V \<le> MaxCycleTraversalNodes" "set ts \<subseteq> V"
    and "\<And>n. n \<in> V \<Longrightarrow> \<exists>ms. out n = Inr ms \<and> set ms \<subseteq> V"
    and "\<And>n m. points_to out n m \<Longrightarrow> height m < height n"
    and "\<And>t. t \<in> set ts \<Longrightarrow> height t < MaxDependencyDepth"
    and "\<And>n. out n \<noteq> Inl cycle_error"
  shows "DetectDependencyCycle out source ts =
    (if \<exists>t \<in> set ts. (points_to out)\<^sup>*\<^sup>* t source then Inl cycle_error else Inr ())"
proof -
  have "walk_good V (foldE (walk out source 1) (sort ts) ([], MaxCycleTraversalNodes))"
    using assms(3,6)
    by (intro foldE_good walk_within_bounds [OF assms(1,2,4,5)])
      (auto simp: walk_room_def Suc_le_eq)
  then have "DetectDependencyCycle out source ts = Inr () \<or>
      DetectDependencyCycle out source ts = Inl cycle_error"
    by (auto simp: DetectDependencyCycle_def walk_good_def split: sum.splits)
  then show ?thesis
    using DetectDependencyCycle_sound [of out source ts]
      DetectDependencyCycle_cycle [of out source ts] assms(7) by auto
qed

section \<open>Reference contracts are normal forms\<close>

definition wf_slot :: "ReferenceSlot \<Rightarrow> bool" where
  "wf_slot s \<longleftrightarrow> slot_Name s \<noteq> '''' \<and> TrimSpace (slot_Name s) = slot_Name s \<and>
     slot_Name s \<notin> set reservedReferenceNames \<and> slot_AllowedTargetTypes s \<noteq> [] \<and>
     distinct (slot_AllowedTargetTypes s) \<and>
     sorted (map (\<lambda>t. (tref_Name t, tref_Version t)) (slot_AllowedTargetTypes s)) \<and>
     (\<forall>t \<in> set (slot_AllowedTargetTypes s). \<not> blank (tref_Name t) \<and> \<not> blank (tref_Version t)) \<and>
     slot_MinItems s \<in> {0, 1} \<and> 1 \<le> slot_MaxItems s \<and> slot_MaxItems s \<le> 16"

definition wf_contract :: "ReferenceContract \<Rightarrow> bool" where
  "wf_contract c \<longleftrightarrow> rc_slots c \<noteq> [] \<and> length (rc_slots c) \<le> 16 \<and>
     sorted_wrt (<) (map slot_Name (rc_slots c)) \<and> list_all wf_slot (rc_slots c)"

lemma check_targets_iff:
  "check_targets seen ts = Inr () \<longleftrightarrow> distinct ts \<and> set seen \<inter> set ts = {} \<and>
     (\<forall>t \<in> set ts. \<not> blank (tref_Name t) \<and> \<not> blank (tref_Version t))"
  by (induction ts arbitrary: seen) auto

lemma normalize_slot_Inr:
  assumes "normalize_slot s = Inr s'"
  shows "wf_slot s'" "slot_Name s' = slot_Name s"
    "set (slot_AllowedTargetTypes s') = set (slot_AllowedTargetTypes s)"
  using assms
  by (auto simp: normalize_slot_def Let_def check_targets_iff wf_slot_def MaxSlotItems_def)

lemma normalize_slot_fixed: "wf_slot s \<Longrightarrow> normalize_slot s = Inr s"
  by (auto simp: normalize_slot_def Let_def wf_slot_def MaxSlotItems_def check_targets_iff
      sorted_sort_id sort_key_id_if_sorted)

lemma normalize_slots_Inr:
  "normalize_slots ss = Inr ss' \<Longrightarrow>
     list_all wf_slot ss' \<and> map slot_Name ss' = map slot_Name ss \<and> length ss' = length ss"
  by (induction ss arbitrary: ss') (auto dest: normalize_slot_Inr)

lemma normalize_slots_fixed: "list_all wf_slot ss \<Longrightarrow> normalize_slots ss = Inr ss"
  by (induction ss) (simp_all add: normalize_slot_fixed)

lemma adjacent_duplicate_iff: "sorted xs \<Longrightarrow> \<not> adjacent_duplicate xs \<longleftrightarrow> sorted_wrt (<) xs"
proof (induction xs rule: adjacent_duplicate.induct)
  case (1 x y zs)
  then show ?case by (auto simp: order.strict_iff_order intro: order.strict_trans2)
qed auto

lemma NewReferenceContract_wf:
  assumes "NewReferenceContract slots = Inr c"
  shows "wf_contract c" "set (map slot_Name (rc_slots c)) = set (map slot_Name slots)"
proof -
  from assms obtain ss where ss: "slots \<noteq> []" "length slots \<le> 16" "normalize_slots slots = Inr ss"
    "\<not> adjacent_duplicate (map slot_Name (sort_key slot_Name ss))" "c = \<lparr>rc_slots = sort_key slot_Name ss\<rparr>"
    by (auto simp: NewReferenceContract_def MaxReferenceSlots_def Let_def split: if_splits)
  note n = normalize_slots_Inr [OF ss(3)]
  have "sorted_wrt (<) (map slot_Name (sort_key slot_Name ss))"
    using ss(4) adjacent_duplicate_iff by fastforce
  then show "wf_contract c"
    using n ss by (auto simp: wf_contract_def list_all_iff)
  have "set (map slot_Name ss) = set (map slot_Name slots)" using n by simp
  then show "set (map slot_Name (rc_slots c)) = set (map slot_Name slots)" using ss(5) by simp
qed

lemma NewReferenceContract_fixed:
  assumes "wf_contract c"
  shows "NewReferenceContract (rc_slots c) = Inr c"
proof -
  have s: "sorted (map slot_Name (rc_slots c))" "\<not> adjacent_duplicate (map slot_Name (rc_slots c))"
    using assms adjacent_duplicate_iff strict_sorted_iff by (auto simp: wf_contract_def)
  then show ?thesis
    using assms by (simp add: NewReferenceContract_def MaxReferenceSlots_def Let_def wf_contract_def
        normalize_slots_fixed sort_key_id_if_sorted)
qed

lemma Slot_wf:
  assumes "wf_contract c"
  shows "Slot c name = Some s \<longleftrightarrow> s \<in> set (rc_slots c) \<and> slot_Name s = name"
proof -
  have "distinct (map slot_Name (rc_slots c))"
    using assms by (simp add: wf_contract_def strict_sorted_iff)
  then show ?thesis unfolding Slot_def by (rule find_key_iff)
qed

section \<open>Properties of references\<close>

text \<open>
  canonicalization is independent of the order of the submitted slots and of the targets
  within a slot, and of slots submitted with no target: two inputs that bind the same targets give
  the same edges or the same refusal.
\<close>

theorem canonicalize_order_independent:
  assumes "wf_table input" "wf_table input'"
    and "\<And>s. mset (slot_targets input s) = mset (slot_targets input' s)"
  shows "CanonicalizeReferences input = CanonicalizeReferences input'"
  using assms by (rule CanonicalizeReferences_perm)

theorem canonicalize_order_independent_witness:
  "CanonicalizeReferences [(''db'', [''b'', ''a'']), (''net'', [''n''])] =
   CanonicalizeReferences [(''net'', [''n'']), (''x'', []), (''db'', [''a'', ''b''])]"
  by (rule canonicalize_order_independent) (auto simp: slot_targets_def)

text \<open>
  an accepted set of references is exactly the submitted set of slot-target pairs, without
  duplicates, in strictly ascending order of slot and target, and never larger than 32.
\<close>

theorem canonicalize_exact:
  assumes "wf_table input" "CanonicalizeReferences input = Inr es"
  shows "sorted_wrt (<) (map edge_pair es) \<and> length es \<le> 32 \<and>
    edge_pair ` set es = {(s, t). t \<in> set (slot_targets input s)}"
  using CanonicalizeReferences_Inr [OF assms(2,1)] by blast

theorem canonicalize_exact_witness:
  "CanonicalizeReferences [(''net'', [''n'']), (''db'', [''b'', ''a''])] =
     Inr [mk_edge ''db'' ''a'', mk_edge ''db'' ''b'', mk_edge ''net'' ''n''] \<and>
   sorted_wrt (<) [(''db'', ''a''), (''db'', ''b''), (''net'', ''n'')]"
proof -
  have "CanonicalizeReferences [(''net'', [''n'']), (''db'', [''b'', ''a''])] =
     Inr [mk_edge ''db'' ''a'', mk_edge ''db'' ''b'', mk_edge ''net'' ''n'']"
    by (simp add: CanonicalizeReferences_def canonical_slot_def slot_targets_def
        MaxReferencesPerResource_def less_eq_char_def less_char_def)
  with canonicalize_exact [OF _ this] show ?thesis by simp
qed

text \<open>
  C19: an accepted reference change keeps the desired graph acyclic. When the graph of desired
  references is acyclic and the bounded search answers that adding edges from the source is safe,
  the graph with those edges added is acyclic too, in spite of the depth and node limits.
\<close>

theorem cycle_proof_keeps_graph_acyclic:
  assumes "acyclicP (points_to out)" "DetectDependencyCycle out source ts = Inr ()"
  shows "acyclicP (\<lambda>n m. points_to out n m \<or> n = source \<and> m \<in> set ts)"
  using assms by (rule DetectDependencyCycle_acyclic)

definition example_graph :: outgoing where
  "example_graph n = Inr (if n = ''a'' then [''b''] else if n = ''b'' then [''c''] else [])"

definition example_height :: "resource_id \<Rightarrow> nat" where
  "example_height n = (if n = ''a'' then 2 else if n = ''b'' then 1 else 0)"

lemma example_graph_height: "points_to example_graph n m \<Longrightarrow> example_height m < example_height n"
  by (auto simp: points_to_def example_graph_def example_height_def split: if_splits)

lemma example_graph_acyclic: "acyclicP (points_to example_graph)"
proof -
  have "(points_to example_graph)\<^sup>+\<^sup>+ x y \<Longrightarrow> example_height y < example_height x" for x y
    by (induction rule: tranclp_induct) (auto dest: example_graph_height)
  then show ?thesis by (auto simp: acyclic_def tranclp_unfold)
qed

lemma example_graph_safe: "DetectDependencyCycle example_graph ''s'' [''a''] = Inr ()"
  by (simp add: DetectDependencyCycle_def walk.simps example_graph_def MaxDependencyDepth_def
      MaxCycleTraversalNodes_def)

theorem cycle_proof_keeps_graph_acyclic_witness:
  "acyclicP (\<lambda>n m. points_to example_graph n m \<or> n = ''s'' \<and> m \<in> set [''a''])"
  by (rule cycle_proof_keeps_graph_acyclic [OF example_graph_acyclic example_graph_safe])

text \<open>
  C20: within its limits the search decides. On an acyclic graph in which a chain from a candidate
  has at most 32 nodes and at most 4096 nodes are involved, it refuses exactly when some candidate
  already reaches the source, and never with the graph-limit error.
\<close>

theorem cycle_proof_exact_within_bounds:
  assumes "finite V" "card V \<le> MaxCycleTraversalNodes" "set ts \<subseteq> V"
    and "\<And>n. n \<in> V \<Longrightarrow> \<exists>ms. out n = Inr ms \<and> set ms \<subseteq> V"
    and "\<And>n m. points_to out n m \<Longrightarrow> height m < height n"
    and "\<And>t. t \<in> set ts \<Longrightarrow> height t < MaxDependencyDepth"
    and "\<And>n. out n \<noteq> Inl cycle_error"
  shows "DetectDependencyCycle out source ts =
    (if \<exists>t \<in> set ts. (points_to out)\<^sup>*\<^sup>* t source then Inl cycle_error else Inr ())"
  using assms by (rule DetectDependencyCycle_exact)

theorem cycle_proof_exact_within_bounds_witness:
  "DetectDependencyCycle example_graph ''c'' [''a''] = Inl cycle_error"
proof -
  have "points_to example_graph ''a'' ''b''" "points_to example_graph ''b'' ''c''"
    by (simp_all add: points_to_def example_graph_def)
  then have "(points_to example_graph)\<^sup>*\<^sup>* ''a'' ''c''"
    by (rule rtranclp.rtrancl_into_rtrancl [OF r_into_rtranclp])
  moreover have "DetectDependencyCycle example_graph ''c'' [''a''] =
      (if \<exists>t \<in> set [''a'']. (points_to example_graph)\<^sup>*\<^sup>* t ''c'' then Inl cycle_error else Inr ())"
    by (rule cycle_proof_exact_within_bounds [of "{''a'', ''b'', ''c''}" _ _ example_height])
      (use example_graph_height in \<open>auto simp: MaxCycleTraversalNodes_def MaxDependencyDepth_def
        example_graph_def example_height_def points_to_def split: if_splits\<close>)
  ultimately show ?thesis by simp
qed

text \<open>
  shape validation accepts a non-empty set of edges exactly when the type declares a contract,
  every edge uses a declared slot and another resource, and every used slot holds a number of
  targets within its bounds.
\<close>

theorem reference_shape_exact:
  "ValidateReferenceShape contract source es = Inr () \<longleftrightarrow> es = [] \<or>
     (\<exists>c. contract = Some c \<and>
        (\<forall>e \<in> set es. edge_TargetID e \<noteq> source \<and>
           (\<exists>d. Slot c (edge_Slot e) = Some d \<and>
              slot_MinItems d \<le> int (edges_of_slot es (edge_Slot e)) \<and>
              int (edges_of_slot es (edge_Slot e)) \<le> slot_MaxItems d)))"
  by (rule ValidateReferenceShape_iff)

definition example_contract :: ReferenceContract where
  "example_contract = \<lparr>rc_slots =
     [\<lparr>slot_Name = ''cache'', slot_AllowedTargetTypes = [\<lparr>tref_Name = ''app'', tref_Version = ''v1''\<rparr>],
       slot_MinItems = 0, slot_MaxItems = 2\<rparr>,
      \<lparr>slot_Name = ''db'', slot_AllowedTargetTypes = [\<lparr>tref_Name = ''app'', tref_Version = ''v1''\<rparr>],
       slot_MinItems = 1, slot_MaxItems = 1\<rparr>]\<rparr>"

theorem reference_shape_exact_witness:
  "ValidateReferenceShape (Some example_contract) ''s'' [mk_edge ''db'' ''a''] = Inr () \<and>
   ValidateReferenceShape (Some example_contract) ''s'' [mk_edge ''db'' ''a'', mk_edge ''db'' ''b''] \<noteq> Inr ()"
  by (simp add: reference_shape_exact example_contract_def Slot_def edges_of_slot_def)

text \<open>A slot with minItems 1 may be left out: only slots that hold an edge are counted.\<close>

lemma required_slot_may_be_omitted:
  "Slot example_contract ''db'' =
     Some \<lparr>slot_Name = ''db'', slot_AllowedTargetTypes = [\<lparr>tref_Name = ''app'', tref_Version = ''v1''\<rparr>],
       slot_MinItems = 1, slot_MaxItems = 1\<rparr> \<and>
   ValidateReferenceShape (Some example_contract) ''s'' [mk_edge ''cache'' ''a''] = Inr ()"
  by (simp add: ValidateReferenceShape_iff example_contract_def Slot_def edges_of_slot_def)

text \<open>
  the difference of two reference sets is exact. With slot names free of the key separator,
  the added edges are those of the new set that the old one lacks, the removed edges those of the
  old set that the new one lacks, and two duplicate-free sets compare equal exactly when they hold
  the same edges.
\<close>

theorem reference_difference_exact:
  assumes "plain_slots old" "plain_slots new"
    and "distinct (map edge_pair old)" "distinct (map edge_pair new)"
    and "ReferenceDifference old new = (added, removed)"
  shows "edge_pair ` set added = edge_pair ` set new - edge_pair ` set old \<and>
    edge_pair ` set removed = edge_pair ` set old - edge_pair ` set new \<and>
    (EdgesEqual old new \<longleftrightarrow> added = [] \<and> removed = [])"
proof -
  note d = ReferenceDifference_sets [OF assms(1,2,5)]
  have "added = [] \<longleftrightarrow> edge_pair ` set added = {}" "removed = [] \<longleftrightarrow> edge_pair ` set removed = {}"
    by simp_all
  then have "added = [] \<and> removed = [] \<longleftrightarrow> edge_pair ` set old = edge_pair ` set new"
    unfolding d(1,2) by blast
  with d(1,2) EdgesEqual_iff [OF assms(1-4)] show ?thesis by simp
qed

theorem reference_difference_exact_witness:
  "ReferenceDifference [mk_edge ''db'' ''a''] [mk_edge ''db'' ''b''] =
     ([mk_edge ''db'' ''b''], [mk_edge ''db'' ''a'']) \<and>
   \<not> EdgesEqual [mk_edge ''db'' ''a''] [mk_edge ''db'' ''b'']"
proof -
  have "ReferenceDifference [mk_edge ''db'' ''a''] [mk_edge ''db'' ''b''] =
     ([mk_edge ''db'' ''b''], [mk_edge ''db'' ''a''])"
    by (simp add: ReferenceDifference_def edgeKeySet_def edgeKey_def)
  with reference_difference_exact [OF _ _ _ _ this] show ?thesis
    by (simp add: plain_slots_def)
qed

text \<open>
  a reference contract is a normal form. Its slots are valid and in strict name order, it
  keeps the declared slot names, looking up a declared name finds its one slot, and building a
  contract from the slots it holds gives the same contract.
\<close>

theorem reference_contract_normal_form:
  assumes "NewReferenceContract slots = Inr c"
  shows "wf_contract c \<and> set (map slot_Name (rc_slots c)) = set (map slot_Name slots) \<and>
    NewReferenceContract (rc_slots c) = Inr c \<and>
    (\<forall>name s. Slot c name = Some s \<longleftrightarrow> s \<in> set (rc_slots c) \<and> slot_Name s = name)"
  using NewReferenceContract_wf [OF assms] NewReferenceContract_fixed Slot_wf by blast

theorem reference_contract_normal_form_witness:
  "NewReferenceContract (rev (rc_slots example_contract)) = Inr example_contract \<and>
   wf_contract example_contract"
proof -
  have "TrimSpace ''db'' = ''db''" "TrimSpace ''cache'' = ''cache''"
    by (simp_all add: TrimSpace_def trim_left.simps leading_space_def space_runes_def has_prefix_def)
  then have "NewReferenceContract (rev (rc_slots example_contract)) = Inr example_contract"
    by (simp add: NewReferenceContract_def normalize_slot_def Let_def reservedReferenceNames_def
        MaxSlotItems_def MaxReferenceSlots_def example_contract_def less_eq_char_def less_char_def)
  with reference_contract_normal_form [OF this] show ?thesis by simp
qed

end
