(* ===== verification/Values.thy ===== *)
theory Values
  imports References
begin

text \<open>
  Dynamic values: resource specifications (\<^verbatim>\<open>src/internal/domain/spec.go\<close>), integral values
  (\<^verbatim>\<open>spec_numeric.go\<close>), published outputs (\<^verbatim>\<open>outputs.go\<close>) and the output contract that guards
  them (\<^verbatim>\<open>src/internal/resourcecontract/contract.go\<close>).

  A Go \<^verbatim>\<open>any\<close> is a value tagged with its dynamic type. The ten integer types are one constructor
  that carries the type and the mathematical value, which the type bounds. A finite floating-point
  number is a dyadic rational \<open>m * 2 ^ e\<close>; NaN and the infinities are kept apart. A value of any
  other dynamic type is \<open>GoOther\<close>.
\<close>

section \<open>Dynamic values\<close>

datatype int_type =
    GoInt | GoInt8 | GoInt16 | GoInt32 | GoInt64 | GoUint | GoUint8 | GoUint16 | GoUint32 | GoUint64

fun int_type_signed :: "int_type \<Rightarrow> bool" where
  "int_type_signed t \<longleftrightarrow> t \<in> {GoInt, GoInt8, GoInt16, GoInt32, GoInt64}"

fun int_type_bits :: "int_type \<Rightarrow> nat" where
  "int_type_bits GoInt8 = 8" | "int_type_bits GoUint8 = 8"
| "int_type_bits GoInt16 = 16" | "int_type_bits GoUint16 = 16"
| "int_type_bits GoInt32 = 32" | "int_type_bits GoUint32 = 32"
| "int_type_bits _ = 64"

text \<open>The values an integer type holds, on a 64-bit platform.\<close>

definition in_int_type :: "int_type \<Rightarrow> int \<Rightarrow> bool" where
  "in_int_type t n \<longleftrightarrow>
     (if int_type_signed t then - (2 ^ (int_type_bits t - 1)) \<le> n \<and> n < 2 ^ (int_type_bits t - 1)
      else 0 \<le> n \<and> n < 2 ^ int_type_bits t)"

datatype float_value = NaN | Inf bool | Finite int int

datatype any =
    GoNil
  | GoBool bool
  | GoString string
  | GoInteger int_type int
  | GoFloat32 float_value
  | GoFloat64 float_value
  | GoMap "(string \<times> any) list"
  | GoSlice "any list"
  | GoOther string

definition MaxInt64 :: int where "MaxInt64 = 2 ^ 63 - 1"
definition maxExactIntegerFloat :: int where "maxExactIntegerFloat = 9007199254740992"

fun finite_float :: "float_value \<Rightarrow> bool" where
  "finite_float (Finite m e) = True"
| "finite_float _ = False"

section \<open>Integral values\<close>

definition fromUint64 :: "int \<Rightarrow> int option" where
  "fromUint64 value = (if MaxInt64 < value then None else Some value)"

text \<open>
  \<open>Finite m e\<close> is integral when the exponent is not negative or the power of two divides the
  mantissa; then its value is compared with the largest exactly representable integer.
\<close>

fun fromFloat :: "float_value \<Rightarrow> int option" where
  "fromFloat (Finite m e) =
     (if 0 \<le> e
      then (let v = m * 2 ^ nat e in if maxExactIntegerFloat < \<bar>v\<bar> then None else Some v)
      else if m mod 2 ^ nat (- e) \<noteq> 0 then None
      else (let v = m div 2 ^ nat (- e) in if maxExactIntegerFloat < \<bar>v\<bar> then None else Some v))"
| "fromFloat _ = None"

fun IntegralValue :: "any \<Rightarrow> int option" where
  "IntegralValue (GoInteger t n) =
     (if t = GoUint \<or> t = GoUint64 then fromUint64 n else Some n)"
| "IntegralValue (GoFloat32 f) = fromFloat f"
| "IntegralValue (GoFloat64 f) = fromFloat f"
| "IntegralValue _ = None"

section \<open>Resource specifications\<close>

text \<open>
  Cloning copies, so a clone equals its original: the functions return the value itself or the
  first error met. An object is a key-value list; the order in which the code happens to iterate
  only decides which of several errors it reports. Values that are compared with
  \<^verbatim>\<open>reflect.DeepEqual\<close> list their keys in ascending order, so that deep equality is equality.
\<close>

fun cloneSpecValue :: "any \<Rightarrow> any result"
  and cloneObject :: "(string \<times> any) list \<Rightarrow> (string \<times> any) list result"
  and cloneSlice :: "any list \<Rightarrow> any list result" where
  "cloneSpecValue GoNil = Inr GoNil"
| "cloneSpecValue (GoBool b) = Inr (GoBool b)"
| "cloneSpecValue (GoString s) = Inr (GoString s)"
| "cloneSpecValue (GoInteger t n) = Inr (GoInteger t n)"
| "cloneSpecValue (GoFloat32 f) =
     (if finite_float f then Inr (GoFloat32 f)
      else Inl (ErrMessage ''non-finite number is not supported''))"
| "cloneSpecValue (GoFloat64 f) =
     (if finite_float f then Inr (GoFloat64 f)
      else Inl (ErrMessage ''non-finite number is not supported''))"
| "cloneSpecValue (GoMap m) = bindE (cloneObject m) (\<lambda>m'. Inr (GoMap m'))"
| "cloneSpecValue (GoSlice xs) = bindE (cloneSlice xs) (\<lambda>xs'. Inr (GoSlice xs'))"
| "cloneSpecValue (GoOther s) = Inl (ErrMessage ''unsupported value type'')"
| "cloneObject [] = Inr []"
| "cloneObject ((key, value) # m) =
     (if key = '''' then Inl (ErrMessage ''resource spec property name cannot be empty'')
      else bindE (cloneSpecValue value) (\<lambda>value'.
        bindE (cloneObject m) (\<lambda>m'. Inr ((key, value') # m'))))"
| "cloneSlice [] = Inr []"
| "cloneSlice (x # xs) =
     bindE (cloneSpecValue x) (\<lambda>x'. bindE (cloneSlice xs) (\<lambda>xs'. Inr (x' # xs')))"

record ResourceSpec =
  spec_values :: "(string \<times> any) list"

definition NewResourceSpec :: "(string \<times> any) list \<Rightarrow> ResourceSpec result" where
  "NewResourceSpec values = bindE (cloneObject values) (\<lambda>cloned. Inr \<lparr>spec_values = cloned\<rparr>)"

text \<open>\<^verbatim>\<open>Values\<close> panics when the stored values cannot be cloned; \<open>None\<close> is the panic.\<close>

definition ResourceSpec_Values :: "ResourceSpec \<Rightarrow> (string \<times> any) list option" where
  "ResourceSpec_Values s = (case cloneObject (spec_values s) of Inl e \<Rightarrow> None | Inr m \<Rightarrow> Some m)"

section \<open>Published outputs\<close>

fun canonicalOutputValue :: "any \<Rightarrow> any result" where
  "canonicalOutputValue (GoString s) = Inr (GoString s)"
| "canonicalOutputValue (GoBool b) = Inr (GoBool b)"
| "canonicalOutputValue (GoInteger t n) =
     (if (t = GoUint \<or> t = GoUint64) \<and> MaxInt64 < n
      then Inl (ErrMessage ''integer value is out of the supported range'')
      else Inr (GoInteger GoInt64 n))"
| "canonicalOutputValue (GoFloat32 f) =
     (if finite_float f then Inr (GoFloat64 f)
      else Inl (ErrMessage ''non-finite number is not supported''))"
| "canonicalOutputValue (GoFloat64 f) =
     (if finite_float f then Inr (GoFloat64 f)
      else Inl (ErrMessage ''non-finite number is not supported''))"
| "canonicalOutputValue _ =
     Inl (ErrMessage ''unsupported output value type; outputs carry flat scalars only'')"

record ResourceOutputs =
  outputs_observedGeneration :: uint64
  outputs_values :: "(string \<times> any) list"
  outputs_publishedAt :: time

fun canonical_outputs :: "(string \<times> any) list \<Rightarrow> (string \<times> any) list result" where
  "canonical_outputs [] = Inr []"
| "canonical_outputs ((key, value) # m) =
     (if blank key \<or> key \<noteq> TrimSpace key
      then Inl (ErrMessage ''resource outputs property name is empty or not canonical'')
      else bindE (canonicalOutputValue value) (\<lambda>scalar.
        bindE (canonical_outputs m) (\<lambda>m'. Inr ((key, scalar) # m'))))"

definition NewResourceOutputs :: "uint64 \<Rightarrow> (string \<times> any) list \<Rightarrow> time \<Rightarrow> ResourceOutputs result" where
  "NewResourceOutputs observedGeneration values publishedAt =
     (if observedGeneration = 0
        then Inl (ErrMessage ''resource outputs observed generation must be greater than zero'')
      else if IsZero publishedAt
        then Inl (ErrMessage ''resource outputs publication time is required'')
      else bindE (canonical_outputs values) (\<lambda>cloned.
        Inr \<lparr>outputs_observedGeneration = observedGeneration, outputs_values = cloned,
             outputs_publishedAt = publishedAt\<rparr>))"

section \<open>Output contracts\<close>

datatype OutputType =
    OutputTypeString | OutputTypeInteger | OutputTypeNumber | OutputTypeBoolean
  | OutputTypeOther string

fun OutputType_valid :: "OutputType \<Rightarrow> bool" where
  "OutputType_valid (OutputTypeOther s) = False"
| "OutputType_valid _ = True"

definition reservedOutputNames :: "string list" where
  "reservedOutputNames = [''observedGeneration'', ''values'']"

record OutputField =
  field_Name :: string
  field_JSONType :: OutputType
  field_RequiredWhenReady :: bool

record OutputContract =
  oc_fields :: "OutputField list"

fun check_fields :: "OutputField list \<Rightarrow> unit result" where
  "check_fields [] = Inr ()"
| "check_fields (f # fs) =
     (let name = TrimSpace (field_Name f) in
      if name = '''' \<or> name \<noteq> field_Name f
        then Inl (ErrMessage ''output field name is empty or not canonical'')
      else if name \<in> set reservedOutputNames then Inl (ErrMessage ''output field name is reserved'')
      else if \<not> OutputType_valid (field_JSONType f)
        then Inl (ErrMessage ''output field declares unknown JSON type'')
      else check_fields fs)"

definition NewOutputContract :: "OutputField list \<Rightarrow> OutputContract result" where
  "NewOutputContract flds =
     (if flds = [] then Inl (ErrMessage ''output contract must declare at least one field'')
      else bindE (check_fields flds) (\<lambda>_.
        let normalized = sort_key field_Name flds in
        if adjacent_duplicate (map field_Name normalized)
          then Inl (ErrMessage ''output field is duplicated'')
        else Inr \<lparr>oc_fields = normalized\<rparr>))"

definition RequiresOutputs :: "OutputContract \<Rightarrow> bool" where
  "RequiresOutputs c \<longleftrightarrow> list_ex field_RequiredWhenReady (oc_fields c)"

definition validateFieldType :: "OutputField \<Rightarrow> any \<Rightarrow> unit result" where
  "validateFieldType field value =
     (case field_JSONType field of
        OutputTypeString \<Rightarrow>
          (case value of GoString s \<Rightarrow> Inr () | _ \<Rightarrow> Inl (ErrMessage ''output field must be a string''))
      | OutputTypeBoolean \<Rightarrow>
          (case value of GoBool b \<Rightarrow> Inr () | _ \<Rightarrow> Inl (ErrMessage ''output field must be a boolean''))
      | OutputTypeInteger \<Rightarrow>
          (case IntegralValue value of
             None \<Rightarrow> Inl (ErrMessage ''output field must carry an integral number'')
           | Some n \<Rightarrow> Inr ())
      | OutputTypeNumber \<Rightarrow>
          (case value of GoInteger t n \<Rightarrow> Inr () | GoFloat32 f \<Rightarrow> Inr () | GoFloat64 f \<Rightarrow> Inr ()
           | _ \<Rightarrow> Inl (ErrMessage ''output field must be a number''))
      | OutputTypeOther s \<Rightarrow> Inl (ErrMessage ''output field declares unknown JSON type''))"

fun check_field_types :: "OutputField list \<Rightarrow> (string \<times> any) list \<Rightarrow> unit result" where
  "check_field_types [] values = Inr ()"
| "check_field_types (f # fs) values =
     (case map_of values (field_Name f) of
        None \<Rightarrow> check_field_types fs values
      | Some value \<Rightarrow> bindE (validateFieldType f value) (\<lambda>_. check_field_types fs values))"

definition OutputContract_Validate :: "OutputContract \<Rightarrow> (string \<times> any) list \<Rightarrow> unit result" where
  "OutputContract_Validate c values =
     bindE (check_field_types (oc_fields c) values) (\<lambda>_.
       if \<not> list_all (\<lambda>(name, value). name \<in> set (map field_Name (oc_fields c))) values
         then Inl (ErrMessage ''output field is not declared by the resource type contract'')
       else if list_ex (\<lambda>f. field_RequiredWhenReady f \<and> map_of values (field_Name f) = None) (oc_fields c)
         then Inl (ErrMessage ''required output field is missing'')
       else Inr ())"

section \<open>Cloning and canonical values\<close>

lemma clone_identity:
  "cloneSpecValue v = Inr v' \<Longrightarrow> v' = v"
  "cloneObject m = Inr m' \<Longrightarrow> m' = m"
  "cloneSlice xs = Inr xs' \<Longrightarrow> xs' = xs"
  by (induction v and m and xs arbitrary: v' and m' and xs'
      rule: cloneSpecValue_cloneObject_cloneSlice.induct) (auto split: if_splits)

lemma canonical_IntegralValue:
  "canonicalOutputValue v = Inr v' \<Longrightarrow> IntegralValue v' = IntegralValue v"
  by (cases v) (auto simp: fromUint64_def split: if_splits)

lemma canonical_type:
  "canonicalOutputValue v = Inr v' \<Longrightarrow> validateFieldType f v' = validateFieldType f v"
  by (cases v; cases "field_JSONType f") (auto simp: validateFieldType_def fromUint64_def split: if_splits)

lemma canonical_idem: "canonicalOutputValue v = Inr v' \<Longrightarrow> canonicalOutputValue v' = Inr v'"
  by (cases v) (auto split: if_splits)

lemma canonical_outputs_map_of:
  "canonical_outputs m = Inr m' \<Longrightarrow>
     map fst m' = map fst m \<and>
     (\<forall>k. rel_option (\<lambda>v v'. canonicalOutputValue v = Inr v') (map_of m k) (map_of m' k))"
  by (induction m arbitrary: m' rule: canonical_outputs.induct) (auto split: if_splits)

lemma canonical_outputs_idem: "canonical_outputs m = Inr m' \<Longrightarrow> canonical_outputs m' = Inr m'"
  by (induction m arbitrary: m' rule: canonical_outputs.induct) (auto simp: canonical_idem split: if_splits)

lemma check_field_types_iff:
  "check_field_types fs values = Inr () \<longleftrightarrow>
     (\<forall>f \<in> set fs. \<forall>v. map_of values (field_Name f) = Some v \<longrightarrow> validateFieldType f v = Inr ())"
  by (induction fs) (auto split: option.splits)

lemma OutputContract_Validate_iff:
  "OutputContract_Validate c values = Inr () \<longleftrightarrow>
     fst ` set values \<subseteq> field_Name ` set (oc_fields c) \<and>
     (\<forall>f \<in> set (oc_fields c). case map_of values (field_Name f) of
        None \<Rightarrow> \<not> field_RequiredWhenReady f | Some v \<Rightarrow> validateFieldType f v = Inr ())"
  by (auto simp: OutputContract_Validate_def check_field_types_iff list_all_iff list_ex_iff
      split: option.splits)

lemma canonical_outputs_valid:
  assumes "canonical_outputs m = Inr m'"
  shows "OutputContract_Validate c m' = Inr () \<longleftrightarrow> OutputContract_Validate c m = Inr ()"
proof -
  note r = canonical_outputs_map_of [OF assms]
  have "fst ` set m' = fst ` set m" using r by (metis list.set_map)
  moreover have "(case map_of m' k of None \<Rightarrow> P | Some v \<Rightarrow> validateFieldType f v = Inr ()) =
      (case map_of m k of None \<Rightarrow> P | Some v \<Rightarrow> validateFieldType f v = Inr ())" for k P f
  proof -
    have "rel_option (\<lambda>v v'. canonicalOutputValue v = Inr v') (map_of m k) (map_of m' k)" using r by blast
    then show ?thesis by (cases "map_of m k"; cases "map_of m' k") (simp_all add: canonical_type)
  qed
  ultimately show ?thesis by (simp add: OutputContract_Validate_iff)
qed

section \<open>Properties of values\<close>

text \<open>The number a numeric value denotes equals an integer, cross-multiplied by the power of two.\<close>

fun float_equals :: "float_value \<Rightarrow> int \<Rightarrow> bool" where
  "float_equals (Finite m e) n \<longleftrightarrow> (if 0 \<le> e then n = m * 2 ^ nat e else n * 2 ^ nat (- e) = m)"
| "float_equals _ n \<longleftrightarrow> False"

fun denotes :: "any \<Rightarrow> int \<Rightarrow> bool" where
  "denotes (GoInteger t k) n \<longleftrightarrow> n = k"
| "denotes (GoFloat32 f) n \<longleftrightarrow> float_equals f n"
| "denotes (GoFloat64 f) n \<longleftrightarrow> float_equals f n"
| "denotes _ n \<longleftrightarrow> False"

fun well_typed :: "any \<Rightarrow> bool" where
  "well_typed (GoInteger t n) \<longleftrightarrow> in_int_type t n"
| "well_typed _ \<longleftrightarrow> True"

lemma fromFloat_Some: "fromFloat f = Some n \<Longrightarrow> float_equals f n \<and> \<bar>n\<bar> \<le> maxExactIntegerFloat"
  by (cases f) (auto simp: Let_def not_less split: if_splits)

lemma int_type_int64:
  "in_int_type t n \<Longrightarrow> t \<noteq> GoUint \<Longrightarrow> t \<noteq> GoUint64 \<Longrightarrow> - (2 ^ 63) \<le> n \<and> n < 2 ^ 63"
  by (cases t) (auto simp: in_int_type_def)

lemma IntegralValue_bounds:
  assumes "well_typed v" "IntegralValue v = Some n"
  shows "denotes v n \<and> - (2 ^ 63) \<le> n \<and> n < 2 ^ 63"
proof (cases v)
  case (GoInteger t k)
  show ?thesis
  proof (cases "t = GoUint \<or> t = GoUint64")
    case True
    then show ?thesis
      using assms GoInteger by (auto simp: fromUint64_def MaxInt64_def in_int_type_def split: if_splits)
  next
    case False
    then show ?thesis using assms GoInteger int_type_int64 [of t k] by simp
  qed
next
  case (GoFloat32 f)
  then show ?thesis using assms fromFloat_Some [of f n] by (auto simp: maxExactIntegerFloat_def)
next
  case (GoFloat64 f)
  then show ?thesis using assms fromFloat_Some [of f n] by (auto simp: maxExactIntegerFloat_def)
qed (use assms in simp_all)

text \<open>
  an integral value never loses information. Whatever the dynamic numeric type, an accepted
  value denotes exactly the returned integer, which fits a signed 64-bit integer.
\<close>

theorem integral_value_exact:
  assumes "well_typed v" "IntegralValue v = Some n"
  shows "denotes v n \<and> - (2 ^ 63) \<le> n \<and> n < 2 ^ 63"
  using assms by (rule IntegralValue_bounds)

theorem integral_value_exact_witness:
  "denotes (GoFloat64 (Finite 12 (-2))) 3 \<and> IntegralValue (GoInteger GoUint64 (2 ^ 63)) = None"
  using integral_value_exact [of "GoFloat64 (Finite 12 (-2))" 3]
  by (simp add: maxExactIntegerFloat_def Let_def fromUint64_def MaxInt64_def)

text \<open>
  a specification is stored as it was submitted, and reading it back never panics: the values
  a specification was built from are the values it returns.
\<close>

theorem spec_values_roundtrip:
  assumes "NewResourceSpec values = Inr s"
  shows "ResourceSpec_Values s = Some values"
  using assms clone_identity(2) by (fastforce simp: NewResourceSpec_def ResourceSpec_Values_def)

theorem spec_values_roundtrip_witness:
  "ResourceSpec_Values \<lparr>spec_values = [(''size'', GoInteger GoInt 3), (''tags'', GoSlice [GoString ''x''])]\<rparr> =
     Some [(''size'', GoInteger GoInt 3), (''tags'', GoSlice [GoString ''x''])]"
  by (rule spec_values_roundtrip) (simp add: NewResourceSpec_def)

text \<open>
  C40: only contract-conforming values are published. The snapshot built from values that satisfy
  an output contract holds the same names, only declared ones, every required one, each with a value
  of its declared type, and canonicalizing it again changes nothing.
\<close>

theorem outputs_conform_to_contract:
  assumes "OutputContract_Validate c values = Inr ()" "NewResourceOutputs g values t = Inr out"
  shows "map fst (outputs_values out) = map fst values \<and>
    fst ` set (outputs_values out) \<subseteq> field_Name ` set (oc_fields c) \<and>
    (\<forall>f \<in> set (oc_fields c). case map_of (outputs_values out) (field_Name f) of
       None \<Rightarrow> \<not> field_RequiredWhenReady f | Some v \<Rightarrow> validateFieldType f v = Inr ()) \<and>
    NewResourceOutputs g (outputs_values out) t = Inr out"
proof -
  from assms(2) have c: "canonical_outputs values = Inr (outputs_values out)"
    by (auto simp: NewResourceOutputs_def)
  then have "OutputContract_Validate c (outputs_values out) = Inr ()"
    using canonical_outputs_valid assms(1) by blast
  moreover have "NewResourceOutputs g (outputs_values out) t = Inr out"
    using assms(2) canonical_outputs_idem [OF c] by (auto simp: NewResourceOutputs_def)
  ultimately show ?thesis
    using canonical_outputs_map_of [OF c] by (simp add: OutputContract_Validate_iff)
qed

definition example_output_contract :: OutputContract where
  "example_output_contract = \<lparr>oc_fields =
     [\<lparr>field_Name = ''port'', field_JSONType = OutputTypeInteger, field_RequiredWhenReady = True\<rparr>]\<rparr>"

theorem outputs_conform_to_contract_witness:
  "\<exists>out. NewResourceOutputs 1 [(''port'', GoInteger GoUint16 80)] 10 = Inr out \<and>
     outputs_values out = [(''port'', GoInteger GoInt64 80)] \<and>
     NewResourceOutputs 1 (outputs_values out) 10 = Inr out"
proof -
  have "TrimSpace ''port'' = ''port''"
    by (simp add: TrimSpace_def trim_left.simps leading_space_def space_runes_def has_prefix_def)
  then have "NewResourceOutputs 1 [(''port'', GoInteger GoUint16 80)] 10 =
      Inr \<lparr>outputs_observedGeneration = 1, outputs_values = [(''port'', GoInteger GoInt64 80)],
           outputs_publishedAt = 10\<rparr>"
    by (simp add: NewResourceOutputs_def)
  with outputs_conform_to_contract [OF _ this, of example_output_contract] show ?thesis
    by (simp add: OutputContract_Validate_def example_output_contract_def validateFieldType_def)
qed

end
