(* ===== verification/Digest.thy ===== *)
theory Digest
  imports Prelude
begin

text \<open>
  The parts of Go's standard library that identifiers are made of: \<^verbatim>\<open>crypto/sha256\<close> (FIPS 180-4) on
  byte strings, \<^verbatim>\<open>%x\<close> and \<^verbatim>\<open>%d\<close> formatting, and \<^verbatim>\<open>strings.ToLower\<close> on ASCII.
\<close>

unbundle bit_operations_syntax

type_synonym word32 = "32 word"

section \<open>Formatting\<close>

definition digit :: "nat \<Rightarrow> char" where
  "digit n = ''0123456789abcdef'' ! n"

fun decimal :: "nat \<Rightarrow> string" where
  "decimal n = (if n < 10 then [digit n] else decimal (n div 10) @ [digit (n mod 10)])"

declare decimal.simps [simp del]

definition decimal64 :: "uint64 \<Rightarrow> string" where
  "decimal64 n = decimal (unat n)"

definition hex_byte :: "nat \<Rightarrow> string" where
  "hex_byte b = [digit (b div 16), digit (b mod 16)]"

definition hex_bytes :: "nat list \<Rightarrow> string" where
  "hex_bytes bs = concat (map hex_byte bs)"

definition lower_char :: "char \<Rightarrow> char" where
  "lower_char c = (if CHR ''A'' \<le> c \<and> c \<le> CHR ''Z'' then char_of (of_char c + 32 :: nat) else c)"

definition ToLower :: "string \<Rightarrow> string" where
  "ToLower s = map lower_char s"

section \<open>SHA-256\<close>

definition sha_K :: "word32 list" where
  "sha_K =
    [1116352408, 1899447441, 3049323471, 3921009573, 961987163, 1508970993, 2453635748,
     2870763221, 3624381080, 310598401, 607225278, 1426881987, 1925078388, 2162078206,
     2614888103, 3248222580, 3835390401, 4022224774, 264347078, 604807628, 770255983,
     1249150122, 1555081692, 1996064986, 2554220882, 2821834349, 2952996808, 3210313671,
     3336571891, 3584528711, 113926993, 338241895, 666307205, 773529912, 1294757372,
     1396182291, 1695183700, 1986661051, 2177026350, 2456956037, 2730485921, 2820302411,
     3259730800, 3345764771, 3516065817, 3600352804, 4094571909, 275423344, 430227734,
     506948616, 659060556, 883997877, 958139571, 1322822218, 1537002063, 1747873779,
     1955562222, 2024104815, 2227730452, 2361852424, 2428436474, 2756734187, 3204031479,
     3329325298]"

definition sha_init :: "word32 list" where
  "sha_init =
    [1779033703, 3144134277, 1013904242, 2773480762, 1359893119, 2600822924, 528734635,
     1541459225]"

definition rotr :: "nat \<Rightarrow> word32 \<Rightarrow> word32" where
  "rotr n x = drop_bit n x OR push_bit (32 - n) x"

definition ssig0 :: "word32 \<Rightarrow> word32" where
  "ssig0 x = (rotr 7 x XOR rotr 18 x) XOR drop_bit 3 x"

definition ssig1 :: "word32 \<Rightarrow> word32" where
  "ssig1 x = (rotr 17 x XOR rotr 19 x) XOR drop_bit 10 x"

definition bsig0 :: "word32 \<Rightarrow> word32" where
  "bsig0 x = (rotr 2 x XOR rotr 13 x) XOR rotr 22 x"

definition bsig1 :: "word32 \<Rightarrow> word32" where
  "bsig1 x = (rotr 6 x XOR rotr 11 x) XOR rotr 25 x"

text \<open>The message schedule, extended one word at a time from the most recent sixteen.\<close>

fun schedule :: "nat \<Rightarrow> word32 list \<Rightarrow> word32 list" where
  "schedule 0 w = w"
| "schedule (Suc n) w =
     (let t = length w in
      schedule n (w @ [ssig1 (w ! (t - 2)) + w ! (t - 7) + ssig0 (w ! (t - 15)) + w ! (t - 16)]))"

fun sha_rounds :: "(word32 \<times> word32) list \<Rightarrow> word32 list \<Rightarrow> word32 list" where
  "sha_rounds ((k, w) # kws) [a, b, c, d, e, f, g, h] =
     (let t1 = h + bsig1 e + ((e AND f) XOR (NOT e AND g)) + k + w;
          t2 = bsig0 a + (((a AND b) XOR (a AND c)) XOR (b AND c))
      in sha_rounds kws [t1 + t2, a, b, c, d + t1, e, f, g])"
| "sha_rounds _ st = st"

fun words_of :: "nat list \<Rightarrow> word32 list" where
  "words_of (a # b # c # d # bs) =
     of_nat (((a * 256 + b) * 256 + c) * 256 + d) # words_of bs"
| "words_of _ = []"

definition sha_block :: "word32 list \<Rightarrow> nat list \<Rightarrow> word32 list" where
  "sha_block st block =
     map2 (+) st (sha_rounds (zip sha_K (schedule 48 (words_of block))) st)"

definition sha_pad :: "nat list \<Rightarrow> nat list" where
  "sha_pad bs =
     (let l = length bs; z = (119 - l mod 64) mod 64
      in bs @ [128] @ replicate z 0 @ map (\<lambda>i. (l * 8) div 256 ^ i mod 256) (rev [0..<8]))"

function sha_blocks :: "word32 list \<Rightarrow> nat list \<Rightarrow> word32 list" where
  "sha_blocks st bs =
     (if length bs < 64 then st else sha_blocks (sha_block st (take 64 bs)) (drop 64 bs))"
  by pat_completeness auto
termination
  by (relation "measure (\<lambda>(st, bs). length bs)") auto

declare sha_blocks.simps [simp del]

definition word_bytes :: "word32 \<Rightarrow> nat list" where
  "word_bytes w = map (\<lambda>i. unat w div 256 ^ i mod 256) [3, 2, 1, 0]"

definition sha256 :: "string \<Rightarrow> nat list" where
  "sha256 s = concat (map word_bytes (sha_blocks sha_init (sha_pad (map of_char s))))"

definition sha256_hex :: "string \<Rightarrow> string" where
  "sha256_hex s = hex_bytes (sha256 s)"

section \<open>Decimal numerals are unambiguous\<close>

lemma digit_inj: "m < 16 \<Longrightarrow> n < 16 \<Longrightarrow> digit m = digit n \<longleftrightarrow> m = n"
proof -
  have "distinct ''0123456789abcdef''" by simp
  then show "m < 16 \<Longrightarrow> n < 16 \<Longrightarrow> digit m = digit n \<longleftrightarrow> m = n"
    by (simp add: digit_def nth_eq_iff_index_eq)
qed

lemma decimal_not_Nil [simp]: "decimal n \<noteq> []"
  by (simp add: decimal.simps [of n])

lemma decimal_inj: "decimal m = decimal n \<longleftrightarrow> m = n"
proof (induction m arbitrary: n rule: less_induct)
  case (less m)
  show ?case
  proof (cases "m < 10 \<or> n < 10")
    case True
    then show ?thesis
      using decimal_not_Nil [of "m div 10"] decimal_not_Nil [of "n div 10"]
      by (auto simp: decimal.simps [of m] decimal.simps [of n] digit_inj simp del: decimal_not_Nil
          split: if_splits)
  next
    case False
    have "decimal m = decimal n \<longleftrightarrow> m div 10 = n div 10 \<and> m mod 10 = n mod 10"
      using False less.IH [of "m div 10" "n div 10"]
      by (auto simp: decimal.simps [of m] decimal.simps [of n] digit_inj)
    then show ?thesis by (metis div_mod_decomp)
  qed
qed

lemma decimal_digits: "c \<in> set (decimal n) \<Longrightarrow> c \<in> set ''0123456789''"
proof (induction n rule: decimal.induct)
  case (1 n)
  have d: "digit k \<in> set ''0123456789''" if "k < 10" for k
  proof -
    have "k \<in> {0, 1, 2, 3, 4, 5, 6, 7, 8, 9}" using that by auto
    then show ?thesis by (auto simp: digit_def)
  qed
  show ?case
  proof (cases "n < 10")
    case True
    then show ?thesis using "1.prems" d [of n] by (simp add: decimal.simps [of n])
  next
    case False
    then show ?thesis
      using "1.prems" "1.IH" d [of "n mod 10"] by (auto simp: decimal.simps [of n])
  qed
qed

lemma decimal64_inj [simp]: "decimal64 m = decimal64 n \<longleftrightarrow> m = n"
  by (simp add: decimal64_def decimal_inj word_unat_eq_iff)

text \<open>A key of an identifier and a number determines both, whatever the identifier contains.\<close>

lemma numbered_key_inj:
  "a @ '':'' @ decimal64 m = b @ '':'' @ decimal64 n \<longleftrightarrow> a = b \<and> m = n"
proof
  assume eq: "a @ '':'' @ decimal64 m = b @ '':'' @ decimal64 n"
  have nc: "CHR '':'' \<notin> set (decimal64 k)" for k
    using decimal_digits [of "CHR '':''" "unat k"] by (auto simp: decimal64_def)
  have t: "takeWhile (\<lambda>c. c \<noteq> CHR '':'') (rev (x @ '':'' @ decimal64 k)) = rev (decimal64 k)" for x k
    using nc [of k] by (simp add: takeWhile_append)
  have "rev (decimal64 m) = rev (decimal64 n)"
    by (subst t [of a m, symmetric], subst t [of b n, symmetric]) (simp only: eq)
  then have "decimal64 m = decimal64 n" by (simp only: rev_is_rev_conv)
  with eq show "a = b \<and> m = n" by simp
qed simp

end
