(* ===== verification/Provisioning.thy ===== *)
theory Provisioning
  imports Values Digest
begin

text \<open>
  The provider boundary (\<^verbatim>\<open>src/internal/provisioning/contract.go\<close>), the execution and attempt
  records of the application (\<^verbatim>\<open>application.go\<close>, \<^verbatim>\<open>work.go\<close>), the interpretation of provider
  evidence (\<^verbatim>\<open>submission.go\<close>, the evidence helpers at the end of \<^verbatim>\<open>application.go\<close>) and the output
  plan (\<^verbatim>\<open>outputs.go\<close>).

  An error returned by a provider is \<open>None\<close> or \<open>Some\<close> of its text. The text of an error of the
  application is \<open>err_text\<close>.
\<close>

section \<open>Provider vocabulary\<close>

datatype ExecutionState =
    ExecutionStateAccepted | ExecutionStateRunning | ExecutionStateSucceeded | ExecutionStateFailed
  | ExecutionStateUnknown | ExecutionStateOther string

datatype RequestCorrelation =
    RequestCorrelationFound | RequestCorrelationNotFound | RequestCorrelationUnknown
  | RequestCorrelationOther string

datatype ExecutionFailureKind =
    FailureInvalidRequest | FailureUnsupported | FailureUnavailable | FailureTimeout | FailureNotFound
  | FailureExecution | FailureUnknown | FailureOther string

datatype OutputEvidenceState =
    OutputsUnavailable | OutputsAvailable | OutputsInvalid | OutputsOther string

record ExecutionFence =
  fence_MessageID :: string
  fence_LeaseToken :: string
  fence_Passive :: bool

record ExecutionRequest =
  req_OperationID :: operation_id
  req_AttemptNumber :: uint64
  req_ResourceID :: resource_id
  req_ResourceType :: ResourceTypeRef
  req_Spec :: ResourceSpec
  req_Capability :: capability
  req_TargetGeneration :: uint64
  req_OutputMappingRef :: string

type_synonym ExecutionHandle = string

record ExecutionFailure =
  fail_Kind :: ExecutionFailureKind
  fail_Reason :: string
  fail_Message :: string

record Execution =
  exec_State :: ExecutionState
  exec_Handle :: "ExecutionHandle option"
  exec_Failure :: "ExecutionFailure option"

record OutputEvidence =
  ev_State :: OutputEvidenceState
  ev_Values :: "(string \<times> any) list"
  ev_OutputMappingRef :: string
  ev_Reason :: string

record ExecutionObservation =
  obs_Correlation :: RequestCorrelation
  obs_Execution :: "Execution option"
  obs_Resource :: ObservedFacts
  obs_ObservedAt :: time
  obs_Outputs :: "OutputEvidence option"

record Submission =
  sub_Observation :: ExecutionObservation

record ObservationRequest =
  oreq_OperationID :: operation_id
  oreq_AttemptNumber :: uint64
  oreq_ResourceID :: resource_id
  oreq_ResourceType :: ResourceTypeRef
  oreq_Spec :: ResourceSpec
  oreq_Capability :: capability
  oreq_TargetGeneration :: uint64
  oreq_Handle :: "ExecutionHandle option"
  oreq_OutputMappingRef :: string
  oreq_OutputSourceMappingRef :: string

definition ExecutionFence_Validate :: "ExecutionFence \<Rightarrow> unit result" where
  "ExecutionFence_Validate f =
     (if blank (fence_MessageID f) \<or> blank (fence_LeaseToken f)
      then Inl (ErrMessage ''message ID and lease token are required'') else Inr ())"

definition ExecutionRequest_Validate :: "ExecutionRequest \<Rightarrow> unit result" where
  "ExecutionRequest_Validate r =
     (if blank (req_OperationID r) then Inl (ErrMessage ''operation ID is required'')
      else if req_AttemptNumber r = 0 then Inl (ErrMessage ''attempt number must be greater than zero'')
      else if blank (req_ResourceID r) then Inl (ErrMessage ''resource ID is required'')
      else if blank (tref_Name (req_ResourceType r)) \<or> blank (tref_Version (req_ResourceType r))
        then Inl (ErrMessage ''resource type reference is required'')
      else if blank (req_Capability r) then Inl (ErrMessage ''capability is required'')
      else if req_TargetGeneration r = 0
        then Inl (ErrMessage ''target generation must be greater than zero'')
      else Inr ())"

definition ObservationRequest_Validate :: "ObservationRequest \<Rightarrow> unit result" where
  "ObservationRequest_Validate r =
     (if blank (oreq_ResourceID r) then Inl (ErrMessage ''resource ID is required'')
      else if blank (tref_Name (oreq_ResourceType r)) \<or> blank (tref_Version (oreq_ResourceType r))
        then Inl (ErrMessage ''resource type reference is required'')
      else if oreq_TargetGeneration r = 0
        then Inl (ErrMessage ''target generation must be greater than zero'')
      else let hasOperation = \<not> blank (oreq_OperationID r);
               hasAttempt = oreq_AttemptNumber r \<noteq> 0;
               hasCapability = \<not> blank (oreq_Capability r)
        in if hasOperation \<noteq> hasAttempt \<or> hasOperation \<noteq> hasCapability
             then Inl (ErrMessage ''operation ID, attempt number, and capability must be provided together'')
           else if \<not> blank (oreq_OutputSourceMappingRef r) \<and>
                   (\<not> hasOperation \<or> blank (oreq_OutputMappingRef r))
             then Inl (ErrMessage ''output source mapping requires an operation and selected output mapping'')
           else Inr ())"

definition NewExecutionHandle :: "string \<Rightarrow> ExecutionHandle result" where
  "NewExecutionHandle token =
     (if blank token then Inl (ErrMessage ''execution handle is required'') else Inr token)"

definition Submission_IsZero :: "Submission \<Rightarrow> bool" where
  "Submission_IsZero s =
     (let observation = sub_Observation s
      in obs_Correlation observation = RequestCorrelationOther '''' \<and> obs_Execution observation = None \<and>
         obs_Resource observation = ObservedFacts_zero \<and> IsZero (obs_ObservedAt observation) \<and>
         obs_Outputs observation = None)"

text \<open>A \<^verbatim>\<open>SubmissionNotAttemptedError\<close> is the failure it carries.\<close>

definition SubmissionNotAttempted_Validate :: "ExecutionFailure \<Rightarrow> unit result" where
  "SubmissionNotAttempted_Validate f =
     (if fail_Kind f \<noteq> FailureUnavailable \<and> fail_Kind f \<noteq> FailureTimeout
        then Inl (ErrMessage ''submission not attempted failure kind must be Unavailable or Timeout'')
      else if blank (fail_Reason f)
        then Inl (ErrMessage ''submission not attempted failure reason is required'')
      else Inr ())"

section \<open>Execution and attempt records\<close>

datatype ProvisioningAttemptState =
    AttemptPending | AttemptDispatching | AttemptAccepted | AttemptSucceeded | AttemptFailed
  | AttemptUnknown | AttemptOther string

datatype SubmissionAttemptState =
    SubmissionAttemptPending | SubmissionAttemptLeased | SubmissionAttemptAccepted
  | SubmissionAttemptRejected | SubmissionAttemptNotFound | SubmissionAttemptUnknown
  | SubmissionAttemptOther string

datatype OutputResolution =
    OutputResolutionNone | OutputResolutionPending | OutputResolutionPublished
  | OutputResolutionRejected | OutputResolutionOther string

fun ValidOutputResolution :: "OutputResolution \<Rightarrow> bool" where
  "ValidOutputResolution (OutputResolutionOther s) = False"
| "ValidOutputResolution _ = True"

record ResourceRecord =
  rr_Resource :: "ResourceSpec Resource"
  rr_Status :: ResourceStatus
  rr_ProvisionerRef :: string
  rr_Version :: uint64

record ProvisioningExecutionRecord =
  ex_OperationID :: operation_id
  ex_ProvisionerRef :: string
  ex_ResourceID :: resource_id
  ex_ResourceType :: ResourceTypeRef
  ex_Capability :: capability
  ex_TargetGeneration :: uint64
  ex_Spec :: ResourceSpec
  ex_OutputMappingRef :: string
  ex_OutputResolution :: OutputResolution
  ex_OutputFailureReason :: string
  ex_OutputFailureMessage :: string
  ex_RecoverySourceOperationID :: operation_id
  ex_RecoverySourceAttempt :: uint64
  ex_Handle :: "ExecutionHandle option"
  ex_State :: ProvisioningAttemptState
  ex_Submission :: "Submission option"
  ex_AcceptanceConfirmed :: bool
  ex_LastObservation :: "ExecutionObservation option"
  ex_LastObservedAt :: time
  ex_LastProviderObservedAt :: time
  ex_LastFailure :: "ExecutionFailure option"
  ex_Correlation :: RequestCorrelation
  ex_CurrentAttempt :: uint64
  ex_NextObservation :: uint64
  ex_Version :: uint64

record SubmissionAttemptRecord =
  att_OperationID :: operation_id
  att_AttemptNumber :: uint64
  att_State :: SubmissionAttemptState
  att_DispatchMessage :: string
  att_ClaimedAt :: time
  att_ResolvedAt :: time
  att_Failure :: "ExecutionFailure option"

definition OutputMappingIsBound :: "ProvisioningExecutionRecord \<Rightarrow> bool" where
  "OutputMappingIsBound r \<longleftrightarrow> ex_OutputMappingRef r \<noteq> ''''"

definition IsOutputRecovery :: "ProvisioningExecutionRecord \<Rightarrow> bool" where
  "IsOutputRecovery r \<longleftrightarrow> ex_RecoverySourceOperationID r \<noteq> '''' \<and> ex_RecoverySourceAttempt r \<noteq> 0"

section \<open>Evidence helpers\<close>

fun err_text :: "error \<Rightarrow> string" where
  "err_text (ErrMessage m) = m"
| "err_text (ErrInvalidTransition m) = m"
| "err_text (ErrInvalidApplicationCall m) = m"
| "err_text (ErrInvalidOperationTransition m) = m"
| "err_text (ErrOperationActive m) = m"
| "err_text (ErrResourceNotFound m) = m"
| "err_text (ErrOperationNotFound m) = m"
| "err_text (ErrResourceTypeNotFound m) = m"
| "err_text (ErrProvisionerNotFound m) = m"
| "err_text (ErrIdempotencyConflict m) = m"
| "err_text (ErrIdempotencyNotFound m) = m"
| "err_text (ErrConcurrencyConflict m) = m"
| "err_text (ErrOperationNotRetryable m) = m"
| "err_text (InvalidReferenceError vs) =
     (case vs of [] \<Rightarrow> ''references are invalid'' | v # _ \<Rightarrow> sv_Message v)"
| "err_text (ErrResourceInUse m) = m"
| "err_text (ErrDependencyCycle m) = m"
| "err_text (ErrReferenceGraphLimit m) = m"
| "err_text (ErrReferenceInvariant m) = m"
| "err_text (ErrNotAuthorized m) = m"
| "err_text (ErrPolicyDenied m) = m"
| "err_text (ErrQuotaExceeded m) = m"
| "err_text (ErrPolicyEvaluation m) = m"
| "err_text (ErrPersistenceUnavailable m) = m"
| "err_text (ErrQuotaInvariant m) = m"
| "err_text (ErrOperatorIdempotencyNotFound m) = m"
| "err_text (ErrDiagnosticStale m) = m"
| "err_text (RecoveryAlreadyActiveError work) =
     ''equivalent recovery work is already active'' @ (if work = [] then [] else '': '' @ work)"
| "err_text (NotApplicableError reason) =
     ''operator action is not applicable'' @ (if reason = [] then [] else '': '' @ reason)"
| "err_text (UnsafeRecoveryError reason) =
     ''recovery action is unsafe'' @ (if reason = [] then [] else '': '' @ reason)"
| "err_text (ErrNotFound m) = m"
| "err_text (ValidationError name version vs) =
     ''spec does not satisfy the '' @ name @ ''/'' @ version @ '' resource type contract ('' @
     decimal (length vs) @ '' violation(s))''"
| "err_text (InvalidSpecError name version vs truncated) =
     ''spec does not satisfy the '' @ name @ ''/'' @ version @ '' resource type contract ('' @
     decimal (length vs) @ '' violation(s))''"
| "err_text (PolicyAdmissionError revision denial) =
     (if pd_Kind denial = PolicyDenialQuotaExceeded then ''platform quota exceeded''
      else ''platform policy denied admission'')"

definition hasObservedFacts :: "ObservedFacts \<Rightarrow> bool" where
  "hasObservedFacts facts \<longleftrightarrow> facts_Presence facts \<noteq> ResourcePresenceOther '''' \<or>
     facts_Readiness facts \<noteq> ResourceReadinessOther '''' \<or> facts_Drift facts \<noteq> ResourceDriftOther ''''"

definition validateObservedFacts :: "ObservedFacts \<Rightarrow> unit result" where
  "validateObservedFacts facts =
     (if \<not> hasObservedFacts facts then Inr ()
      else case ObservedFacts_Validate facts of
        Inl e \<Rightarrow> Inl (ErrInvalidTransition (err_text e))
      | Inr _ \<Rightarrow> Inr ())"

definition sanitizeObservedFacts :: "ObservedFacts \<Rightarrow> ObservedFacts" where
  "sanitizeObservedFacts facts =
     (if validateObservedFacts facts \<noteq> Inr () then ObservedFacts_zero else facts)"

fun validFailureKind :: "ExecutionFailureKind \<Rightarrow> bool" where
  "validFailureKind (FailureOther s) = False"
| "validFailureKind _ = True"

definition normalizeExecutionFailure :: "ExecutionFailure option \<Rightarrow> ExecutionFailure" where
  "normalizeExecutionFailure failure =
     (case failure of
        None \<Rightarrow> \<lparr>fail_Kind = FailureUnknown, fail_Reason = ''MalformedExecutionFailure'',
                 fail_Message = ''provider reported failure without details''\<rparr>
      | Some f \<Rightarrow>
          (let f1 = (if validFailureKind (fail_Kind f) then f else f\<lparr>fail_Kind := FailureUnknown\<rparr>)
           in if blank (fail_Reason f1)
              then f1\<lparr>fail_Reason := ''MalformedExecutionFailure'',
                      fail_Message := (if fail_Message f1 = ''''
                        then ''provider reported failure without details'' else fail_Message f1)\<rparr>
              else f1))"

definition ExecutionFailureFrom :: "string option \<Rightarrow> Execution option \<Rightarrow> ExecutionFailure" where
  "ExecutionFailureFrom err execution =
     (case Option.bind execution exec_Failure of
        Some failure \<Rightarrow>
          (if fail_Reason failure = '''' then failure\<lparr>fail_Reason := ''ExecutionFailed''\<rparr> else failure)
      | None \<Rightarrow> \<lparr>fail_Kind = FailureUnknown, fail_Reason = ''SubmissionUnknown'',
             fail_Message = (case err of None \<Rightarrow> ''submission outcome is ambiguous'' | Some m \<Rightarrow> m)\<rparr>)"

fun ValidCorrelation :: "RequestCorrelation \<Rightarrow> bool" where
  "ValidCorrelation (RequestCorrelationOther s) = False"
| "ValidCorrelation _ = True"

fun ValidExecutionState :: "ExecutionState \<Rightarrow> bool" where
  "ValidExecutionState (ExecutionStateOther s) = False"
| "ValidExecutionState _ = True"

definition EvidenceFresh :: "time \<Rightarrow> time \<Rightarrow> bool" where
  "EvidenceFresh persistedObservedAt evidenceAt \<longleftrightarrow>
     IsZero persistedObservedAt \<or> persistedObservedAt < evidenceAt"

definition providerEvidenceStale :: "ProvisioningExecutionRecord \<Rightarrow> time \<Rightarrow> bool" where
  "providerEvidenceStale execution providerAt \<longleftrightarrow>
     \<not> IsZero providerAt \<and> \<not> IsZero (ex_LastProviderObservedAt execution) \<and>
     \<not> ex_LastProviderObservedAt execution < providerAt"

definition acceptProviderEvidence ::
    "ProvisioningExecutionRecord \<Rightarrow> time \<Rightarrow> ProvisioningExecutionRecord" where
  "acceptProviderEvidence execution providerAt =
     (if IsZero providerAt then execution
      else if ex_LastProviderObservedAt execution < providerAt
      then execution\<lparr>ex_LastProviderObservedAt := providerAt\<rparr> else execution)"

definition ConclusiveManagedAbsence ::
    "capability \<Rightarrow> RequestCorrelation \<Rightarrow> Execution option \<Rightarrow> bool \<Rightarrow> bool" where
  "ConclusiveManagedAbsence capability correlation execution acceptanceConfirmed \<longleftrightarrow>
     capability = CapabilityDelete \<and> correlation = RequestCorrelationNotFound \<and>
     \<not> acceptanceConfirmed \<and>
     (case execution of
        None \<Rightarrow> False
      | Some x \<Rightarrow> exec_State x = ExecutionStateFailed \<and>
          (case exec_Failure x of None \<Rightarrow> False | Some f \<Rightarrow> fail_Kind f = FailureNotFound))"

section \<open>Interpretation of submissions\<close>

datatype SubmissionOutcome =
    SubmissionOutcomeAmbiguous | SubmissionOutcomeRejected | SubmissionOutcomeAccepted
  | SubmissionOutcomeSucceeded | SubmissionOutcomeFailed

datatype ObservationOutcome =
    ObservationOutcomeStale | ObservationOutcomeRejected | ObservationOutcomeRetry
  | ObservationOutcomeObserve | ObservationOutcomeSucceeded | ObservationOutcomeFailed

record Finish =
  fin_Succeeded :: bool
  fin_Reason :: string
  fin_Message :: string
  fin_Facts :: ObservedFacts

definition ManagedTargetAbsentReason :: string where
  "ManagedTargetAbsentReason = ''ManagedTargetAbsent''"

type_synonym submission_result =
  "(ProvisioningExecutionRecord \<times> SubmissionAttemptRecord \<times> SubmissionOutcome \<times> Finish option) result"

type_synonym observation_result =
  "(ProvisioningExecutionRecord \<times> SubmissionAttemptRecord \<times> ObservationOutcome \<times> Finish option) result"

text \<open>An ambiguous submission: the attempt and the execution stay unknown with the given failure.\<close>

definition ambiguous_submission ::
    "ProvisioningExecutionRecord \<Rightarrow> SubmissionAttemptRecord \<Rightarrow> ExecutionFailure \<Rightarrow> submission_result" where
  "ambiguous_submission execution attempt failure =
     Inr (execution\<lparr>ex_State := AttemptUnknown, ex_LastFailure := Some failure\<rparr>,
          attempt\<lparr>att_State := SubmissionAttemptUnknown, att_Failure := Some failure\<rparr>,
          SubmissionOutcomeAmbiguous, None)"

text \<open>The part of \<^verbatim>\<open>InterpretSubmission\<close> that copies the evidence into the execution.\<close>

definition record_submission ::
    "ProvisioningExecutionRecord \<Rightarrow> Submission \<Rightarrow> time \<Rightarrow> ProvisioningExecutionRecord" where
  "record_submission execution submission observedAt =
     (let observation = sub_Observation submission;
          e1 = execution\<lparr>ex_Submission := Some submission, ex_LastObservation := Some observation,
                 ex_Correlation := (if ValidCorrelation (obs_Correlation observation)
                   then obs_Correlation observation else RequestCorrelationUnknown)\<rparr>;
          e2 = (case obs_Execution observation of
                  Some x \<Rightarrow> (case exec_Handle x of Some h \<Rightarrow> e1\<lparr>ex_Handle := Some h\<rparr> | None \<Rightarrow> e1)
                | None \<Rightarrow> e1);
          e3 = (if obs_Execution observation \<noteq> None \<and> EvidenceFresh (ex_LastObservedAt e2) observedAt
                then e2\<lparr>ex_LastObservedAt := observedAt\<rparr> else e2)
      in acceptProviderEvidence e3 (obs_ObservedAt observation))"

definition resolve_submission ::
    "ProvisioningExecutionRecord \<Rightarrow> SubmissionAttemptRecord \<Rightarrow> Execution \<Rightarrow> ObservedFacts \<Rightarrow> submission_result" where
  "resolve_submission execution attempt x facts =
     (if exec_State x = ExecutionStateAccepted \<or> exec_State x = ExecutionStateRunning
        then Inr (execution\<lparr>ex_State := AttemptAccepted\<rparr>, attempt, SubmissionOutcomeAccepted, None)
      else if exec_State x = ExecutionStateSucceeded
        then Inr (execution\<lparr>ex_State := AttemptSucceeded\<rparr>, attempt, SubmissionOutcomeSucceeded,
                  Some \<lparr>fin_Succeeded = True, fin_Reason = ''SubmissionSucceeded'', fin_Message = '''',
                        fin_Facts = facts\<rparr>)
      else if exec_State x = ExecutionStateFailed
        then (let failure = ExecutionFailureFrom None (Some x)
              in Inr (execution\<lparr>ex_State := AttemptFailed, ex_LastFailure := Some failure\<rparr>, attempt,
                      SubmissionOutcomeFailed,
                      Some \<lparr>fin_Succeeded = False, fin_Reason = fail_Reason failure,
                            fin_Message = fail_Message failure, fin_Facts = facts\<rparr>))
      else Inl (ErrMessage ''invalid execution state''))"

definition InterpretSubmission ::
    "ProvisioningExecutionRecord \<Rightarrow> SubmissionAttemptRecord \<Rightarrow> Submission \<Rightarrow> string option \<Rightarrow> time
      \<Rightarrow> submission_result" where
  "InterpretSubmission execution attempt submission submitErr observedAt =
     (let observation = sub_Observation submission; backend = obs_Execution observation in
      if backend \<noteq> None \<and> providerEvidenceStale execution (obs_ObservedAt observation)
      then ambiguous_submission (execution\<lparr>ex_Correlation := RequestCorrelationUnknown\<rparr>) attempt
             \<lparr>fail_Kind = FailureUnknown, fail_Reason = ''StaleSubmissionEvidence'',
              fail_Message = ''submission evidence does not advance the persisted observation timeline''\<rparr>
      else
      let terminalEvidence = (case backend of None \<Rightarrow> False
            | Some x \<Rightarrow> exec_State x = ExecutionStateSucceeded \<or> exec_State x = ExecutionStateFailed);
          factsErr = validateObservedFacts (obs_Resource observation)
      in if factsErr \<noteq> Inr () \<and> \<not> terminalEvidence
      then ambiguous_submission (execution\<lparr>ex_Correlation := RequestCorrelationUnknown\<rparr>) attempt
             \<lparr>fail_Kind = FailureUnknown, fail_Reason = ''MalformedObservedFacts'',
              fail_Message = (case factsErr of Inl e \<Rightarrow> err_text e | Inr _ \<Rightarrow> '''')\<rparr>
      else
      let submission' = (if factsErr \<noteq> Inr ()
            then submission\<lparr>sub_Observation := observation\<lparr>obs_Resource := ObservedFacts_zero\<rparr>\<rparr>
            else submission);
          correlation = obs_Correlation observation;
          e1 = record_submission execution submission' observedAt
      in case backend of
        None \<Rightarrow> ambiguous_submission
          (if correlation = RequestCorrelationFound then e1\<lparr>ex_AcceptanceConfirmed := True\<rparr> else e1)
          attempt (ExecutionFailureFrom submitErr backend)
      | Some x \<Rightarrow>
        let validState = ValidExecutionState (exec_State x);
            preflightRejected = (validState \<and> exec_State x = ExecutionStateFailed \<and>
              exec_Failure x \<noteq> None \<and> correlation = RequestCorrelationNotFound);
            acceptedRequest = (validState \<and> correlation = RequestCorrelationFound)
        in if (submitErr \<noteq> None \<and> \<not> terminalEvidence) \<or> \<not> validState \<or>
              exec_State x = ExecutionStateUnknown \<or> (\<not> preflightRejected \<and> \<not> acceptedRequest)
        then ambiguous_submission
          (if correlation = RequestCorrelationFound then e1\<lparr>ex_AcceptanceConfirmed := True\<rparr> else e1)
          attempt (ExecutionFailureFrom submitErr backend)
        else
        let a1 = attempt\<lparr>att_ResolvedAt := observedAt\<rparr> in
        if preflightRejected then
          let a2 = a1\<lparr>att_State := SubmissionAttemptRejected,
                      att_Failure := Some (ExecutionFailureFrom None backend)\<rparr>;
              e2 = e1\<lparr>ex_Correlation := RequestCorrelationNotFound, ex_AcceptanceConfirmed := False\<rparr>
          in if ConclusiveManagedAbsence (ex_Capability e1) RequestCorrelationNotFound backend
                  (ex_AcceptanceConfirmed e1)
             then Inr (e2\<lparr>ex_State := AttemptSucceeded\<rparr>, a2, SubmissionOutcomeSucceeded,
               Some \<lparr>fin_Succeeded = True, fin_Reason = ManagedTargetAbsentReason, fin_Message = '''',
                 fin_Facts = \<lparr>facts_Presence = ResourcePresenceNotFound,
                   facts_Readiness = ResourceReadinessUnknown, facts_Drift = ResourceDriftUnknown\<rparr>\<rparr>)
             else resolve_submission e2 a2 x (obs_Resource (sub_Observation submission'))
        else
          resolve_submission
            (e1\<lparr>ex_Correlation := RequestCorrelationFound, ex_AcceptanceConfirmed := True\<rparr>)
            (a1\<lparr>att_State := SubmissionAttemptAccepted\<rparr>) x
            (obs_Resource (sub_Observation submission')))"

section \<open>Interpretation of observations\<close>

text \<open>The switch over the state of a positively correlated execution.\<close>

definition resolve_observation ::
    "ProvisioningExecutionRecord \<Rightarrow> SubmissionAttemptRecord \<Rightarrow> Execution \<Rightarrow> ObservedFacts \<Rightarrow> observation_result" where
  "resolve_observation execution attempt x facts =
     (if exec_State x = ExecutionStateAccepted \<or> exec_State x = ExecutionStateRunning \<or>
         exec_State x = ExecutionStateUnknown
        then Inr (execution\<lparr>ex_State := (if exec_State x = ExecutionStateUnknown
                   then AttemptUnknown else AttemptAccepted)\<rparr>, attempt, ObservationOutcomeObserve, None)
      else if exec_State x = ExecutionStateSucceeded
        then Inr (execution\<lparr>ex_State := AttemptSucceeded\<rparr>, attempt, ObservationOutcomeSucceeded,
                  Some \<lparr>fin_Succeeded = True, fin_Reason = ''ObservationSucceeded'', fin_Message = '''',
                        fin_Facts = facts\<rparr>)
      else if exec_State x = ExecutionStateFailed
        then (let failure = ExecutionFailureFrom None (Some x)
              in Inr (execution\<lparr>ex_State := AttemptFailed, ex_LastFailure := Some failure\<rparr>, attempt,
                      ObservationOutcomeFailed,
                      Some \<lparr>fin_Succeeded = False, fin_Reason = fail_Reason failure,
                            fin_Message = fail_Message failure, fin_Facts = facts\<rparr>))
      else Inl (ErrMessage ''invalid execution state''))"

text \<open>
  The decision once the evidence is recorded: \<open>observation\<close> already carries the sanitized facts and
  \<open>e1\<close> the updated timeline.
\<close>

definition decide_observation ::
    "ProvisioningExecutionRecord \<Rightarrow> SubmissionAttemptRecord \<Rightarrow> ExecutionObservation \<Rightarrow> time
      \<Rightarrow> observation_result" where
  "decide_observation e1 attempt observation observedAt =
     (let notFound = (obs_Correlation observation = RequestCorrelationNotFound);
          state = map_option exec_State (obs_Execution observation)
      in if notFound \<and> state = Some ExecutionStateFailed then
        let failure = ExecutionFailureFrom None (obs_Execution observation)
        in Inr (e1\<lparr>ex_State := AttemptFailed, ex_AcceptanceConfirmed := False, ex_LastFailure := Some failure\<rparr>,
                attempt\<lparr>att_State := SubmissionAttemptRejected, att_Failure := Some failure,
                        att_ResolvedAt := observedAt\<rparr>,
                ObservationOutcomeRejected,
                Some \<lparr>fin_Succeeded = False, fin_Reason = fail_Reason failure,
                      fin_Message = fail_Message failure, fin_Facts = obs_Resource observation\<rparr>)
      else if notFound \<and> ex_State e1 = AttemptUnknown \<and> \<not> ex_AcceptanceConfirmed e1 then
        Inr (e1\<lparr>ex_CurrentAttempt := ex_CurrentAttempt e1 + 1, ex_State := AttemptPending\<rparr>,
             attempt\<lparr>att_State := SubmissionAttemptNotFound, att_ResolvedAt := observedAt\<rparr>,
             ObservationOutcomeRetry, None)
      else case obs_Execution observation of
        None \<Rightarrow>
          Inr ((if obs_Correlation observation = RequestCorrelationFound
                then e1\<lparr>ex_AcceptanceConfirmed := True\<rparr> else e1)\<lparr>ex_State := AttemptUnknown\<rparr>,
               attempt, ObservationOutcomeObserve, None)
      | Some x \<Rightarrow>
          if obs_Correlation observation \<noteq> RequestCorrelationFound then
            Inr (e1\<lparr>ex_State := AttemptUnknown, ex_LastFailure := Some
                   \<lparr>fail_Kind = FailureUnknown, fail_Reason = ''ExecutionCorrelationUnknown'',
                    fail_Message = ''terminal execution evidence was not positively correlated''\<rparr>\<rparr>,
                 attempt, ObservationOutcomeObserve, None)
          else
            resolve_observation
              (acceptProviderEvidence
                ((case exec_Handle x of Some h \<Rightarrow> e1\<lparr>ex_Handle := Some h\<rparr> | None \<Rightarrow> e1)
                   \<lparr>ex_AcceptanceConfirmed := True\<rparr>) (obs_ObservedAt observation))
              attempt x (obs_Resource observation))"

definition InterpretObservation ::
    "ProvisioningExecutionRecord \<Rightarrow> SubmissionAttemptRecord \<Rightarrow> ExecutionObservation \<Rightarrow> time
      \<Rightarrow> observation_result" where
  "InterpretObservation execution attempt observation observedAt =
     (let notFound = (obs_Correlation observation = RequestCorrelationNotFound);
          state = map_option exec_State (obs_Execution observation)
      in if notFound \<and> state \<noteq> None \<and> state \<noteq> Some ExecutionStateFailed
      then Inl (ErrMessage ''contradictory observation reports NotFound with an execution'')
      else
      let stale = (providerEvidenceStale execution (obs_ObservedAt observation) \<or>
            (IsZero (obs_ObservedAt observation) \<and> \<not> IsZero (ex_LastObservedAt execution) \<and>
             \<not> ex_LastObservedAt execution < observedAt));
          e0 = acceptProviderEvidence execution (obs_ObservedAt observation)
      in if stale then Inr (e0, attempt, ObservationOutcomeStale, None)
      else
      let factsErr = validateObservedFacts (obs_Resource observation);
          terminal = (state = Some ExecutionStateSucceeded \<or> state = Some ExecutionStateFailed)
      in if factsErr \<noteq> Inr () \<and> \<not> terminal then Inl (ErrMessage ''malformed observed facts'')
      else
      let observation' = (if factsErr \<noteq> Inr () then observation\<lparr>obs_Resource := ObservedFacts_zero\<rparr>
            else observation)
      in decide_observation
           (e0\<lparr>ex_LastObservation := Some observation', ex_LastObservedAt := observedAt,
              ex_Correlation := obs_Correlation observation\<rparr>) attempt observation' observedAt)"

section \<open>Finish evidence\<close>

definition internalEventPrefix :: string where
  "internalEventPrefix = ''liftr-internal-''"

definition validateExternalEventID :: "event_id \<Rightarrow> unit result" where
  "validateExternalEventID eventID =
     (if has_prefix internalEventPrefix eventID
      then Inl (ErrInvalidApplicationCall ''event ID uses reserved internal prefix'') else Inr ())"

definition InternalEventID :: "operation_id \<Rightarrow> string \<Rightarrow> event_id" where
  "InternalEventID operationID transition =
     internalEventPrefix @ sha256_hex (operationID @ [CHR 0x00] @ transition)"

definition InternalTransitionLabel :: "OperationPhase \<Rightarrow> string" where
  "InternalTransitionLabel phase = ToLower (phase_string phase)"

definition BuildFinishEvidence ::
    "Operation \<Rightarrow> 'spec Resource \<Rightarrow> ResourceStatus \<Rightarrow> Finish \<Rightarrow> time \<Rightarrow> lifecycle_result result" where
  "BuildFinishEvidence operation resource status finish at =
     bindE
       (if fin_Succeeded finish
        then Engine_Complete resource status operation (InternalEventID (op_id operation) ''succeeded'') at
        else Engine_Fail resource status operation (fin_Reason finish) (fin_Message finish)
               (InternalEventID (op_id operation) ''failed'') at) (\<lambda>result.
       let facts = sanitizeObservedFacts (fin_Facts finish) in
       if hasObservedFacts facts
       then bindE (ApplyPostOperationObservation resource (lr_Status result) facts at) (\<lambda>status'.
         Inr (result\<lparr>lr_Status := status'\<rparr>))
       else Inr result)"

section \<open>Persisted terminal evidence\<close>

definition persistedTerminalExecution :: "ProvisioningExecutionRecord \<Rightarrow> Execution option" where
  "persistedTerminalExecution execution =
     (case Option.bind (ex_LastObservation execution) obs_Execution of
        Some x \<Rightarrow> Some x
      | None \<Rightarrow> Option.bind (ex_Submission execution) (\<lambda>s. obs_Execution (sub_Observation s)))"

definition persistedTerminalObservedAt :: "ProvisioningExecutionRecord \<Rightarrow> time" where
  "persistedTerminalObservedAt execution =
     (if Option.bind (ex_LastObservation execution) obs_Execution \<noteq> None
        then (case ex_LastObservation execution of None \<Rightarrow> 0 | Some ob \<Rightarrow> obs_ObservedAt ob)
      else if Option.bind (ex_Submission execution) (\<lambda>s. obs_Execution (sub_Observation s)) \<noteq> None
        then (case ex_Submission execution of None \<Rightarrow> 0 | Some s \<Rightarrow> obs_ObservedAt (sub_Observation s))
      else 0)"

definition absenceCompletedDelete ::
    "ProvisioningExecutionRecord \<Rightarrow> Operation \<Rightarrow> Execution option \<Rightarrow> bool" where
  "absenceCompletedDelete execution operation evidence \<longleftrightarrow>
     op_capability operation = CapabilityDelete \<and> op_state operation = OperationStateSucceeded \<and>
     ex_State execution = AttemptSucceeded \<and>
     ex_Correlation execution = RequestCorrelationNotFound \<and> \<not> ex_AcceptanceConfirmed execution \<and>
     (case evidence of
        None \<Rightarrow> False
      | Some x \<Rightarrow> exec_State x = ExecutionStateFailed \<and>
          (case exec_Failure x of None \<Rightarrow> False | Some f \<Rightarrow> fail_Kind f = FailureNotFound))"

definition validatePersistedTerminalEvidence ::
    "ProvisioningExecutionRecord \<Rightarrow> 'spec Resource \<Rightarrow> ResourceStatus \<Rightarrow> Operation \<Rightarrow> unit result" where
  "validatePersistedTerminalEvidence execution resource status operation =
     (case persistedTerminalExecution execution of
        None \<Rightarrow> Inl (ErrInvalidApplicationCall ''terminal attempt has no terminal execution evidence'')
      | Some evidence \<Rightarrow>
     let absenceCompletion = absenceCompletedDelete execution operation (Some evidence);
         expected = (if ex_State execution = AttemptSucceeded then ExecutionStateSucceeded
                     else ExecutionStateFailed);
         sourceObservedAt = persistedTerminalObservedAt execution;
         failure = normalizeExecutionFailure (exec_Failure evidence);
         outputRejected = (ex_State execution = AttemptSucceeded \<and>
                           ex_OutputResolution execution = OutputResolutionRejected)
     in if \<not> absenceCompletion \<and> exec_State evidence \<noteq> expected
       then Inl (ErrInvalidApplicationCall ''terminal attempt contradicts persisted execution evidence'')
     else if IsZero (ex_LastObservedAt execution)
       then Inl (ErrInvalidApplicationCall ''terminal attempt has no effective observation timestamp'')
     else if \<not> IsTerminal operation \<and>
             (ex_LastObservedAt execution < resource_updatedAt resource \<or>
              ex_LastObservedAt execution < status_updatedAt status)
       then Inl (ErrInvalidApplicationCall ''terminal evidence predates current resource state'')
     else if \<not> IsZero sourceObservedAt \<and> \<not> IsZero (ex_LastProviderObservedAt execution) \<and>
             sourceObservedAt \<noteq> ex_LastProviderObservedAt execution
       then Inl (ErrInvalidApplicationCall ''terminal source timestamp differs from backend evidence time'')
     else if IsTerminal operation \<and> op_completedAt operation \<noteq> ex_LastObservedAt execution
       then Inl (ErrInvalidApplicationCall ''terminal operation and execution timestamps differ'')
     else if exec_State evidence = ExecutionStateFailed \<and> \<not> absenceCompletion \<and>
             ex_LastFailure execution \<noteq> Some failure
       then Inl (ErrInvalidApplicationCall ''terminal failure evidence is inconsistent'')
     else if op_state operation = OperationStateSucceeded \<and> ex_State execution \<noteq> AttemptSucceeded
       then Inl (ErrInvalidApplicationCall ''succeeded operation contradicts execution attempt'')
     else if op_state operation = OperationStateFailed \<and> ex_State execution \<noteq> AttemptFailed \<and>
             \<not> outputRejected
       then Inl (ErrInvalidApplicationCall ''failed operation contradicts execution attempt'')
     else if op_state operation = OperationStateFailed then
       (case op_failure operation of
          None \<Rightarrow> Inl (ErrInvalidApplicationCall ''failed operation carries no failure details'')
        | Some f \<Rightarrow>
            if outputRejected then
              (if failure_reason f \<noteq> ex_OutputFailureReason execution \<or>
                  failure_message f \<noteq> ex_OutputFailureMessage execution \<or>
                  ex_OutputFailureReason execution = ''''
               then Inl (ErrInvalidApplicationCall ''failed operation details contradict output postcondition rejection'')
               else Inr ())
            else if failure_reason f \<noteq> fail_Reason failure \<or> failure_message f \<noteq> fail_Message failure
            then Inl (ErrInvalidApplicationCall ''failed operation details contradict execution evidence'')
            else Inr ())
     else Inr ())"

definition validateExecutionContext ::
    "ResourceRecord \<Rightarrow> Operation \<Rightarrow> ProvisioningExecutionRecord \<Rightarrow> unit result" where
  "validateExecutionContext record operation execution =
     (let resource = rr_Resource record in
      if op_resourceID operation \<noteq> resource_id resource \<or> ex_OperationID execution \<noteq> op_id operation \<or>
         ex_ResourceID execution \<noteq> resource_id resource \<or>
         ex_ResourceType execution \<noteq> resource_typeRef resource \<or>
         ex_Capability execution \<noteq> op_capability operation \<or>
         ex_TargetGeneration execution \<noteq> op_targetGeneration operation \<or>
         ex_ProvisionerRef execution \<noteq> rr_ProvisionerRef record
      then Inl (ErrInvalidApplicationCall ''provisioning execution associations are inconsistent'')
      else if resource_generation resource = ex_TargetGeneration execution \<and>
              spec_values (ex_Spec execution) \<noteq> spec_values (resource_spec resource)
      then Inl (ErrInvalidApplicationCall ''provisioning execution intent does not match the target generation'')
      else Inr ())"

section \<open>Output plans\<close>

definition ReasonOutputPostconditionRejected :: string where
  "ReasonOutputPostconditionRejected = ''OutputPostconditionRejected''"

definition ValidateOutputEvidenceMapping :: "string \<Rightarrow> OutputEvidence option \<Rightarrow> unit result" where
  "ValidateOutputEvidenceMapping mappingRef evidence =
     (case evidence of
        None \<Rightarrow> Inr ()
      | Some e \<Rightarrow>
          if ev_OutputMappingRef e \<noteq> '''' \<and> ev_OutputMappingRef e \<noteq> mappingRef
          then Inl (ErrInvalidApplicationCall ''output evidence mapping contradicts execution provenance'')
          else Inr ())"

text \<open>The decision, with the snapshot or the failure that belongs to it.\<close>

datatype OutputPlan =
    OutputPlanNone
  | OutputPlanPublish ResourceOutputs
  | OutputPlanDefer
  | OutputPlanReject ExecutionFailure

definition output_rejection :: "string \<Rightarrow> OutputPlan" where
  "output_rejection message = OutputPlanReject \<lparr>fail_Kind = FailureUnknown,
     fail_Reason = ReasonOutputPostconditionRejected, fail_Message = message\<rparr>"

text \<open>The contract argument is the output contract of the resource type, if it declares one.\<close>

definition PlanTerminalOutputs ::
    "OutputContract option \<Rightarrow> capability \<Rightarrow> OutputEvidence option \<Rightarrow> uint64 \<Rightarrow> time \<Rightarrow> OutputPlan result" where
  "PlanTerminalOutputs contract capability evidence targetGeneration publishedAt =
     (if capability = CapabilityDelete then Inr OutputPlanNone
      else case contract of
        None \<Rightarrow>
          (case evidence of
             None \<Rightarrow> Inr OutputPlanNone
           | Some e \<Rightarrow>
               if ev_State e = OutputsAvailable \<or> ev_State e = OutputsInvalid
               then Inr (output_rejection ''provider reported outputs for a resource type without an output contract'')
               else Inr OutputPlanNone)
      | Some c \<Rightarrow>
          (let waiting = (if RequiresOutputs c then OutputPlanDefer else OutputPlanNone) in
           case evidence of
             None \<Rightarrow> Inr waiting
           | Some e \<Rightarrow>
               (case ev_State e of
                  OutputsUnavailable \<Rightarrow> Inr waiting
                | OutputsInvalid \<Rightarrow>
                    Inr (output_rejection (if ev_Reason e = ''''
                      then ''declared outputs deterministically violated the resource type contract''
                      else ev_Reason e))
                | OutputsAvailable \<Rightarrow>
                    (case OutputContract_Validate c (ev_Values e) of
                       Inl err \<Rightarrow> Inr (output_rejection (err_text err))
                     | Inr _ \<Rightarrow>
                         (case NewResourceOutputs targetGeneration (ev_Values e) publishedAt of
                            Inl err \<Rightarrow> Inr (output_rejection (err_text err))
                          | Inr snapshot \<Rightarrow> Inr (OutputPlanPublish snapshot)))
                | OutputsOther s \<Rightarrow> Inl (ErrMessage ''invalid output evidence state''))))"

section \<open>What an interpretation may conclude\<close>

lemma acceptProviderEvidence_simps [simp]:
  "ex_State (acceptProviderEvidence e t) = ex_State e"
  "ex_AcceptanceConfirmed (acceptProviderEvidence e t) = ex_AcceptanceConfirmed e"
  "ex_LastObservedAt (acceptProviderEvidence e t) = ex_LastObservedAt e"
  "ex_CurrentAttempt (acceptProviderEvidence e t) = ex_CurrentAttempt e"
  "ex_LastObservation (acceptProviderEvidence e t) = ex_LastObservation e"
  "ex_Submission (acceptProviderEvidence e t) = ex_Submission e"
  "ex_LastFailure (acceptProviderEvidence e t) = ex_LastFailure e"
  "ex_Correlation (acceptProviderEvidence e t) = ex_Correlation e"
  "ex_Capability (acceptProviderEvidence e t) = ex_Capability e"
  "ex_OutputResolution (acceptProviderEvidence e t) = ex_OutputResolution e"
  by (simp_all add: acceptProviderEvidence_def)

lemma acceptProviderEvidence_time:
  "ex_LastProviderObservedAt (acceptProviderEvidence e t) =
     (if t = 0 then ex_LastProviderObservedAt e else max (ex_LastProviderObservedAt e) t)"
  by (simp add: acceptProviderEvidence_def max_def)

lemma record_submission_simps [simp]:
  "ex_AcceptanceConfirmed (record_submission e s t) = ex_AcceptanceConfirmed e"
  "ex_CurrentAttempt (record_submission e s t) = ex_CurrentAttempt e"
  "ex_Capability (record_submission e s t) = ex_Capability e"
  "ex_LastObservation (record_submission e s t) = Some (sub_Observation s)"
  "ex_Submission (record_submission e s t) = Some s"
  "ex_OutputResolution (record_submission e s t) = ex_OutputResolution e"
  by (simp_all add: record_submission_def Let_def split: option.splits)

lemma record_submission_times:
  "ex_LastObservedAt (record_submission e s t) =
     (if obs_Execution (sub_Observation s) \<noteq> None \<and> EvidenceFresh (ex_LastObservedAt e) t then t
      else ex_LastObservedAt e)"
  "ex_LastProviderObservedAt (record_submission e s t) =
     ex_LastProviderObservedAt (acceptProviderEvidence e (obs_ObservedAt (sub_Observation s)))"
  by (simp_all add: record_submission_def Let_def acceptProviderEvidence_def split: option.splits)

lemmas interpret_submission_defs =
  InterpretSubmission_def Let_def ambiguous_submission_def resolve_submission_def

lemma submission_cases:
  assumes "InterpretSubmission e a s err t = Inr (e', a', out, f)"
  obtains (ambiguous) "out = SubmissionOutcomeAmbiguous" "f = None" "ex_State e' = AttemptUnknown"
      "att_State a' = SubmissionAttemptUnknown"
      "ex_AcceptanceConfirmed e \<longrightarrow> ex_AcceptanceConfirmed e'"
    | (absent) x where "out = SubmissionOutcomeSucceeded" "obs_Execution (sub_Observation s) = Some x"
      "ConclusiveManagedAbsence (ex_Capability e) (obs_Correlation (sub_Observation s)) (Some x)
         (ex_AcceptanceConfirmed e)"
      "f \<noteq> None" "ex_State e' = AttemptSucceeded"
    | (rejected) x where "out = SubmissionOutcomeFailed" "obs_Execution (sub_Observation s) = Some x"
      "exec_State x = ExecutionStateFailed" "exec_Failure x \<noteq> None"
      "obs_Correlation (sub_Observation s) = RequestCorrelationNotFound" "f \<noteq> None"
      "ex_State e' = AttemptFailed"
    | (accepted) x where "obs_Execution (sub_Observation s) = Some x"
      "obs_Correlation (sub_Observation s) = RequestCorrelationFound" "ex_AcceptanceConfirmed e'"
      "att_State a' = SubmissionAttemptAccepted"
      "(out = SubmissionOutcomeAccepted \<and> exec_State x \<in> {ExecutionStateAccepted, ExecutionStateRunning} \<and>
          err = None \<and> f = None \<and> ex_State e' = AttemptAccepted) \<or>
       (out = SubmissionOutcomeSucceeded \<and> exec_State x = ExecutionStateSucceeded \<and> f \<noteq> None \<and>
          ex_State e' = AttemptSucceeded) \<or>
       (out = SubmissionOutcomeFailed \<and> exec_State x = ExecutionStateFailed \<and> f \<noteq> None \<and>
          ex_State e' = AttemptFailed)"
proof (cases "obs_Execution (sub_Observation s)")
  case None
  with assms show ?thesis
    by (intro ambiguous) (auto simp: interpret_submission_defs split: if_splits)
next
  case (Some x)
  show ?thesis
  proof (cases "out = SubmissionOutcomeAmbiguous")
    case True
    with assms Some show ?thesis
      by (intro ambiguous) (auto simp: interpret_submission_defs split: if_splits)
  next
    case False
    note h = assms [unfolded InterpretSubmission_def Let_def ambiguous_submission_def Some, simplified]
    show ?thesis
    proof (cases "obs_Correlation (sub_Observation s) = RequestCorrelationFound")
      case True
      with h False show ?thesis
        by (intro accepted [OF Some]) (auto simp: resolve_submission_def Let_def split: if_splits)
    next
      case nf: False
      then have p: "exec_State x = ExecutionStateFailed" "exec_Failure x \<noteq> None"
        "obs_Correlation (sub_Observation s) = RequestCorrelationNotFound"
        using h False by (auto split: if_splits)
      show ?thesis
      proof (cases "ConclusiveManagedAbsence (ex_Capability e) (obs_Correlation (sub_Observation s)) (Some x)
         (ex_AcceptanceConfirmed e)")
        case True
        with h False p show ?thesis by (intro absent [OF _ Some True]) (auto split: if_splits)
      next
        case nc: False
        with h False p show ?thesis
          by (intro rejected [OF _ Some p]) (auto simp: resolve_submission_def Let_def split: if_splits)
      qed
    qed
  qed
qed

lemma submission_timeline:
  assumes "InterpretSubmission e a s err t = Inr (e', a', out, f)"
  shows "ex_CurrentAttempt e' = ex_CurrentAttempt e"
    "ex_LastProviderObservedAt e \<le> ex_LastProviderObservedAt e'"
    "ex_LastObservedAt e \<noteq> 0 \<longrightarrow> ex_LastObservedAt e \<le> ex_LastObservedAt e'"
  using assms
  by (auto simp: interpret_submission_defs record_submission_times acceptProviderEvidence_time EvidenceFresh_def
      split: if_splits option.splits)

lemmas decide_observation_defs = decide_observation_def resolve_observation_def Let_def

text \<open>
  An observation is refused, settled as stale, or decided on the execution with the evidence
  recorded.
\<close>

lemma observation_cases:
  assumes "InterpretObservation e a ob t = Inr (e', a', out, f)"
  obtains (stale) "out = ObservationOutcomeStale" "f = None" "a' = a"
      "e' = acceptProviderEvidence e (obs_ObservedAt ob)" "providerEvidenceStale e (obs_ObservedAt ob) \<or>
        obs_ObservedAt ob = 0 \<and> ex_LastObservedAt e \<noteq> 0 \<and> t \<le> ex_LastObservedAt e"
    | (decided) ob' where "obs_Correlation ob' = obs_Correlation ob" "obs_Execution ob' = obs_Execution ob"
      "obs_ObservedAt ob' = obs_ObservedAt ob" "\<not> providerEvidenceStale e (obs_ObservedAt ob)"
      "obs_ObservedAt ob = 0 \<Longrightarrow> ex_LastObservedAt e \<noteq> 0 \<Longrightarrow> ex_LastObservedAt e < t"
      "validateObservedFacts (obs_Resource ob') = Inr ()"
      "decide_observation ((acceptProviderEvidence e (obs_ObservedAt ob))\<lparr>ex_LastObservation := Some ob',
         ex_LastObservedAt := t, ex_Correlation := obs_Correlation ob\<rparr>) a ob' t = Inr (e', a', out, f)"
proof (cases "providerEvidenceStale e (obs_ObservedAt ob) \<or>
    (obs_ObservedAt ob = 0 \<and> ex_LastObservedAt e \<noteq> 0 \<and> \<not> ex_LastObservedAt e < t)")
  case True
  with assms show ?thesis by (intro stale) (simp_all add: InterpretObservation_def Let_def not_less split: if_splits)
next
  case False
  let ?ob = "if validateObservedFacts (obs_Resource ob) \<noteq> Inr ()
    then ob\<lparr>obs_Resource := ObservedFacts_zero\<rparr> else ob"
  have "validateObservedFacts ObservedFacts_zero = Inr ()"
    by (simp add: validateObservedFacts_def hasObservedFacts_def ObservedFacts_zero_def)
  then show ?thesis
    using False assms
    by (intro decided [of ?ob]) (simp_all add: InterpretObservation_def Let_def split: if_splits)
qed

lemma decide_timeline:
  assumes "decide_observation e1 a ob t = Inr (e', a', out, f)"
  shows "ex_LastProviderObservedAt e' = ex_LastProviderObservedAt e1 \<or>
      ex_LastProviderObservedAt e' = ex_LastProviderObservedAt (acceptProviderEvidence e1 (obs_ObservedAt ob))"
    and "ex_LastObservedAt e' = ex_LastObservedAt e1" "out \<noteq> ObservationOutcomeStale"
    and "ex_CurrentAttempt e' = ex_CurrentAttempt e1 + (if out = ObservationOutcomeRetry then 1 else 0)"
  using assms
  by (cases "obs_Execution ob";
      force simp: decide_observation_defs acceptProviderEvidence_time split: if_splits option.splits)+

lemma decide_retry:
  assumes "decide_observation e1 a ob t = Inr (e', a', ObservationOutcomeRetry, f)"
    "\<not> (obs_Correlation ob = RequestCorrelationNotFound \<and> obs_Execution ob \<noteq> None \<and>
        map_option exec_State (obs_Execution ob) \<noteq> Some ExecutionStateFailed)"
  shows "\<not> ex_AcceptanceConfirmed e1" "ex_State e1 = AttemptUnknown"
    "obs_Correlation ob = RequestCorrelationNotFound" "obs_Execution ob = None"
    "ex_State e' = AttemptPending" "att_State a' = SubmissionAttemptNotFound" "f = None"
  using assms
  by (cases "obs_Execution ob"; auto simp: decide_observation_defs split: if_splits)+

lemma decide_terminal:
  assumes "decide_observation e1 a ob t = Inr (e', a', out, Some f)" "ex_LastObservation e1 = Some ob"
  shows "\<exists>x. obs_Execution ob = Some x \<and> ex_LastObservation e' = Some ob \<and>
    fin_Facts f = obs_Resource ob \<and>
    (if fin_Succeeded f
     then exec_State x = ExecutionStateSucceeded \<and> obs_Correlation ob = RequestCorrelationFound \<and>
       out = ObservationOutcomeSucceeded \<and> ex_State e' = AttemptSucceeded \<and> ex_AcceptanceConfirmed e'
     else exec_State x = ExecutionStateFailed \<and> ex_State e' = AttemptFailed \<and>
       out \<in> {ObservationOutcomeFailed, ObservationOutcomeRejected} \<and>
       ex_LastFailure e' = Some (ExecutionFailureFrom None (Some x)) \<and>
       fin_Reason f = fail_Reason (ExecutionFailureFrom None (Some x)) \<and>
       fin_Message f = fail_Message (ExecutionFailureFrom None (Some x)))"
proof (cases "obs_Execution ob")
  case None
  with assms show ?thesis by (auto simp: decide_observation_defs split: if_splits)
next
  case (Some x)
  with assms show ?thesis
    by (cases "exec_Handle x") (auto simp: decide_observation_defs split: if_splits)
qed

lemma decide_acceptance:
  assumes "decide_observation e1 a ob t = Inr (e', a', out, f)" "ex_AcceptanceConfirmed e1"
  shows "ex_AcceptanceConfirmed e' \<or> out = ObservationOutcomeRejected"
  using assms
  by (cases "obs_Execution ob") (auto simp: decide_observation_defs split: if_splits)

section \<open>Terminal evidence always finishes\<close>

lemma applyObservation_progress:
  assumes "wf_status st" "status_resourceID st = resource_id r" "t \<noteq> 0" "status_updatedAt st \<le> t"
    "resource_updatedAt r \<le> t" "\<not> fst (activeStatusOperation st)" "ObservedFacts_Validate facts = Inr ()"
  shows "\<exists>st'. applyObservation r st facts t preserve = Inr st'"
proof -
  let ?g = "status_observedGeneration st"
  have wf: "wf_conditions ?g t (status_conditions st)"
    using assms(1,4) by (auto simp: wf_status_def intro: wf_conditions_mono)
  have up: "wf_conditions ?g t (upsert_condition \<lparr>cond_typeName = x, cond_status = v, cond_reason = reason,
      cond_message = '''', cond_observedGeneration = ?g, cond_lastTransitionAt = t\<rparr> cs)"
    if "wf_conditions ?g t cs" "\<not> blank x" "\<not> blank reason" "ConditionStatus_validate v = Inr ()" for cs x v reason
    using that assms(3) by (auto intro!: wf_conditions_upsert simp: Condition_validate_def)
  have rd: "\<not> blank (snd (readinessCondition facts))" "ConditionStatus_validate (fst (readinessCondition facts)) = Inr ()"
    "\<not> blank (snd (driftCondition facts))" "ConditionStatus_validate (fst (driftCondition facts)) = Inr ()"
    by (simp_all add: readinessCondition_def driftCondition_def)
  have os: "ResourceState_validate (observed_state facts p (status_state st)) = Inr ()" for p
    using assms(1) by (simp add: observed_state_def wf_status_def)
  show ?thesis
    using assms(2-7) wf rd os up assms(1)
    by (cases "readinessCondition facts"; cases "driftCondition facts")
      (auto simp: applyObservation_def Let_def NewResourceStatus_Inr wf_status_def)
qed

lemma sanitized_facts_valid:
  assumes "hasObservedFacts (sanitizeObservedFacts facts)"
  shows "ObservedFacts_Validate (sanitizeObservedFacts facts) = Inr ()"
proof -
  have "\<not> hasObservedFacts ObservedFacts_zero" by (simp add: hasObservedFacts_def ObservedFacts_zero_def)
  then show ?thesis
    using assms by (auto simp: sanitizeObservedFacts_def validateObservedFacts_def split: if_splits sum.splits)
qed

lemma InternalEventID_not_blank [simp]: "\<not> blank (InternalEventID oid transition)"
  by (simp add: InternalEventID_def internalEventPrefix_def)

lemma finish_result:
  assumes "lifecycle_inv rt k" "cfg_latest k = Some op" "\<not> IsTerminal op"
    "status_updatedAt (cfg_status k) \<le> t" "t \<noteq> 0"
    "fin_Succeeded f \<Longrightarrow> op_state op = OperationStateRunning \<and> isFinalPhase op"
    "\<not> fin_Succeeded f \<Longrightarrow> \<not> blank (fin_Reason f)"
  obtains res where
    "(if fin_Succeeded f
      then Engine_Complete (cfg_resource k) (cfg_status k) op (InternalEventID (op_id op) ''succeeded'') t
      else Engine_Fail (cfg_resource k) (cfg_status k) op (fin_Reason f) (fin_Message f)
             (InternalEventID (op_id op) ''failed'') t) = Inr res"
    "lifecycle_inv rt (k\<lparr>cfg_status := lr_Status res, cfg_latest := Some (lr_Operation res)\<rparr>)"
    "IsTerminal (lr_Operation res)" "op_completedAt (lr_Operation res) = t"
    "status_updatedAt (lr_Status res) = t"
proof (cases "fin_Succeeded f")
  case True
  then obtain res where res: "Engine_Complete (cfg_resource k) (cfg_status k) op
      (InternalEventID (op_id op) ''succeeded'') t = Inr res"
    using Engine_Complete_progress [OF assms(1-5)] assms(6) by fastforce
  then have "Operation_Succeed op t = Inr (lr_Operation res)" "status_updatedAt (lr_Status res) = t"
    by (auto elim!: Engine_Complete_result)
  then show ?thesis
    using True res engine_step_inv [OF engine_step.complete [OF assms(2) res] assms(1)]
    by (intro that [of res])
      (auto dest!: Operation_Succeed_complete simp: IsTerminal_def elim!: complete_cases)
next
  case False
  then obtain res where res: "Engine_Fail (cfg_resource k) (cfg_status k) op (fin_Reason f) (fin_Message f)
      (InternalEventID (op_id op) ''failed'') t = Inr res"
    using Engine_Fail_progress [OF assms(1-5)] assms(7) by fastforce
  then have "Operation_Fail op (fin_Reason f) (fin_Message f) t = Inr (lr_Operation res)"
    "status_updatedAt (lr_Status res) = t"
    by (auto elim!: Engine_Fail_result)
  then show ?thesis
    using False res engine_step_inv [OF engine_step.fail [OF assms(2) res] assms(1)]
    by (intro that [of res])
      (auto dest!: Operation_Fail_complete simp: IsTerminal_def elim!: complete_cases)
qed

lemma BuildFinishEvidence_progress:
  assumes "lifecycle_inv rt k" "cfg_latest k = Some op" "\<not> IsTerminal op"
    "status_updatedAt (cfg_status k) \<le> t" "t \<noteq> 0"
    "fin_Succeeded f \<Longrightarrow> op_state op = OperationStateRunning \<and> isFinalPhase op"
    "\<not> fin_Succeeded f \<Longrightarrow> \<not> blank (fin_Reason f)"
  shows "\<exists>res. BuildFinishEvidence op (cfg_resource k) (cfg_status k) f t = Inr res \<and>
    IsTerminal (lr_Operation res) \<and> op_completedAt (lr_Operation res) = t \<and>
    (op_state (lr_Operation res) = OperationStateSucceeded \<longleftrightarrow> fin_Succeeded f)"
proof -
  from assms obtain res where res: 
    "(if fin_Succeeded f
      then Engine_Complete (cfg_resource k) (cfg_status k) op (InternalEventID (op_id op) ''succeeded'') t
      else Engine_Fail (cfg_resource k) (cfg_status k) op (fin_Reason f) (fin_Message f)
             (InternalEventID (op_id op) ''failed'') t) = Inr res"
    "lifecycle_inv rt (k\<lparr>cfg_status := lr_Status res, cfg_latest := Some (lr_Operation res)\<rparr>)"
    "IsTerminal (lr_Operation res)" "op_completedAt (lr_Operation res) = t"
    "status_updatedAt (lr_Status res) = t"
    by (rule finish_result)
  have st: "op_state (lr_Operation res) = OperationStateSucceeded \<longleftrightarrow> fin_Succeeded f"
    using res(1) by (cases "fin_Succeeded f")
      (auto elim!: Engine_Complete_result Engine_Fail_result
        dest!: Operation_Succeed_complete Operation_Fail_complete complete_fields(4))
  have i: "wf_status (lr_Status res)" "status_resourceID (lr_Status res) = resource_id (cfg_resource k)"
    "resource_updatedAt (cfg_resource k) \<le> t" "\<not> fst (activeStatusOperation (lr_Status res))"
    using res(2,3,5) by (simp_all add: lifecycle_inv_defs latest_agrees_def)
  have "\<exists>st'. applyObservation (cfg_resource k) (lr_Status res) (sanitizeObservedFacts (fin_Facts f)) t True = Inr st'"
    if "hasObservedFacts (sanitizeObservedFacts (fin_Facts f))"
    using applyObservation_progress [OF i(1,2) assms(5) _ i(3,4) sanitized_facts_valid [OF that]] res(5) by simp
  then show ?thesis
    using res(1,3,4) st
    by (auto simp: BuildFinishEvidence_def Let_def ApplyPostOperationObservation_def)
qed

lemma BuildFinishEvidence_refuses_old:
  "t < status_updatedAt st \<Longrightarrow> isl (BuildFinishEvidence op r st f t)"
  by (auto simp: BuildFinishEvidence_def Let_def Engine_Complete_def Engine_Fail_def validateOperationContext_def)

section \<open>Recorded outcomes pass the persisted-evidence check\<close>

definition well_formed_failure :: "Execution \<Rightarrow> bool" where
  "well_formed_failure x \<longleftrightarrow>
     (case exec_Failure x of None \<Rightarrow> False
      | Some f \<Rightarrow> validFailureKind (fail_Kind f) \<and> \<not> blank (fail_Reason f))"

lemma well_formed_failure_normal:
  "well_formed_failure x \<Longrightarrow> normalizeExecutionFailure (exec_Failure x) = ExecutionFailureFrom None (Some x)"
  by (auto simp: well_formed_failure_def normalizeExecutionFailure_def ExecutionFailureFrom_def
      split: option.splits)

lemma observation_evidence_persists:
  assumes "InterpretObservation e a ob t = Inr (e', a', out, Some f)" "t \<noteq> 0"
    "ex_OutputResolution e' \<noteq> OutputResolutionRejected"
    "obs_Execution ob = Some x" "exec_State x = ExecutionStateFailed \<Longrightarrow> well_formed_failure x"
    "IsTerminal op'" "op_completedAt op' = t"
    "if fin_Succeeded f then op_state op' = OperationStateSucceeded
     else op_state op' = OperationStateFailed \<and>
       op_failure op' = Some \<lparr>failure_reason = fin_Reason f, failure_message = fin_Message f\<rparr>"
  shows "validatePersistedTerminalEvidence e' r st op' = Inr ()"
  using assms(1)
proof (cases rule: observation_cases)
  case (decided ob')
  note d = decide_timeline [OF decided(7)] decide_terminal [OF decided(7), simplified]
  have ex: "persistedTerminalExecution e' = Some x" "persistedTerminalObservedAt e' = obs_ObservedAt ob"
    using d decided(2,3) assms(4) by (auto simp: persistedTerminalExecution_def persistedTerminalObservedAt_def)
  have "obs_ObservedAt ob \<noteq> 0 \<longrightarrow> ex_LastProviderObservedAt e' = 0 \<or> ex_LastProviderObservedAt e' = obs_ObservedAt ob"
    using d(1) decided(3,4) by (auto simp: acceptProviderEvidence_time providerEvidenceStale_def max_def split: if_splits)
  moreover have "ex_LastObservedAt e' = t" using d(2) by simp
  moreover have "\<not> absenceCompletedDelete e' op' (Some x)"
    using d assms(8) decided(2) assms(4) by (auto simp: absenceCompletedDelete_def split: if_splits)
  ultimately show ?thesis
    using d(5) decided(2) assms(2-8) ex well_formed_failure_normal [of x]
    by (auto simp: validatePersistedTerminalEvidence_def Let_def split: if_splits)
qed simp

section \<open>Properties of evidence interpretation\<close>

text \<open>An accepted create with a later observation, as an input of the witnesses.\<close>

definition example_execution :: ProvisioningExecutionRecord where
  "example_execution =
     \<lparr>ex_OperationID = ''op-1'', ex_ProvisionerRef = ''p'', ex_ResourceID = ''res-1'',
      ex_ResourceType = \<lparr>tref_Name = ''app'', tref_Version = ''v1''\<rparr>, ex_Capability = CapabilityCreate,
      ex_TargetGeneration = 1, ex_Spec = \<lparr>spec_values = []\<rparr>, ex_OutputMappingRef = '''',
      ex_OutputResolution = OutputResolutionNone, ex_OutputFailureReason = '''',
      ex_OutputFailureMessage = '''', ex_RecoverySourceOperationID = '''', ex_RecoverySourceAttempt = 0,
      ex_Handle = None, ex_State = AttemptUnknown, ex_Submission = None, ex_AcceptanceConfirmed = False,
      ex_LastObservation = None, ex_LastObservedAt = 0, ex_LastProviderObservedAt = 0,
      ex_LastFailure = None, ex_Correlation = RequestCorrelationUnknown, ex_CurrentAttempt = 1,
      ex_NextObservation = 1, ex_Version = 1\<rparr>"

definition example_attempt :: SubmissionAttemptRecord where
  "example_attempt = \<lparr>att_OperationID = ''op-1'', att_AttemptNumber = 1, att_State = SubmissionAttemptLeased,
     att_DispatchMessage = ''m'', att_ClaimedAt = 10, att_ResolvedAt = 0, att_Failure = None\<rparr>"

definition example_observation ::
    "RequestCorrelation \<Rightarrow> Execution option \<Rightarrow> time \<Rightarrow> ExecutionObservation" where
  "example_observation c x at = \<lparr>obs_Correlation = c, obs_Execution = x,
     obs_Resource = ObservedFacts_zero, obs_ObservedAt = at, obs_Outputs = None\<rparr>"

definition example_backend :: "ExecutionState \<Rightarrow> ExecutionFailure option \<Rightarrow> Execution" where
  "example_backend s f = \<lparr>exec_State = s, exec_Handle = Some ''h'', exec_Failure = f\<rparr>"

lemmas example_evidence_defs =
  example_execution_def example_attempt_def example_observation_def example_backend_def
  validateObservedFacts_def hasObservedFacts_def ObservedFacts_zero_def providerEvidenceStale_def
  acceptProviderEvidence_def record_submission_def EvidenceFresh_def

text \<open>
  a submission succeeds only on proof. The outcome is success only for a positively correlated
  terminal success or the conclusive absence of the target of a delete, failure only for correlated
  failure evidence, acceptance only for a correlated running execution reported without an error;
  everything else stays ambiguous. Submissions never start a new attempt and never move either
  evidence clock backwards, and a confirmed acceptance survives an ambiguous answer.
\<close>

theorem submission_outcome_sound:
  assumes "InterpretSubmission e a s err t = Inr (e', a', out, f)"
  shows "(out = SubmissionOutcomeSucceeded \<longrightarrow>
      (\<exists>x. obs_Execution (sub_Observation s) = Some x \<and>
        (exec_State x = ExecutionStateSucceeded \<and>
           obs_Correlation (sub_Observation s) = RequestCorrelationFound \<or>
         ConclusiveManagedAbsence (ex_Capability e) (obs_Correlation (sub_Observation s)) (Some x)
           (ex_AcceptanceConfirmed e)))) \<and>
    (out = SubmissionOutcomeFailed \<longrightarrow>
      (\<exists>x. obs_Execution (sub_Observation s) = Some x \<and> exec_State x = ExecutionStateFailed \<and>
        obs_Correlation (sub_Observation s) \<in> {RequestCorrelationFound, RequestCorrelationNotFound})) \<and>
    (out = SubmissionOutcomeAccepted \<longrightarrow> err = None \<and> ex_AcceptanceConfirmed e' \<and>
        obs_Correlation (sub_Observation s) = RequestCorrelationFound) \<and>
    (out = SubmissionOutcomeAmbiguous \<longrightarrow> f = None \<and> ex_State e' = AttemptUnknown \<and>
        (ex_AcceptanceConfirmed e \<longrightarrow> ex_AcceptanceConfirmed e')) \<and>
    ex_CurrentAttempt e' = ex_CurrentAttempt e \<and>
    ex_LastProviderObservedAt e \<le> ex_LastProviderObservedAt e' \<and>
    (ex_LastObservedAt e \<noteq> 0 \<longrightarrow> ex_LastObservedAt e \<le> ex_LastObservedAt e')"
  using submission_timeline [OF assms] by (cases rule: submission_cases [OF assms]) auto

theorem submission_outcome_sound_witness:
  "\<exists>e' a' f. InterpretSubmission example_execution example_attempt
      \<lparr>sub_Observation = example_observation RequestCorrelationFound
         (Some (example_backend ExecutionStateSucceeded None)) 0\<rparr> None 20 =
      Inr (e', a', SubmissionOutcomeSucceeded, f) \<and> ex_CurrentAttempt e' = 1"
proof -
  obtain e' a' f where r: "InterpretSubmission example_execution example_attempt
      \<lparr>sub_Observation = example_observation RequestCorrelationFound
         (Some (example_backend ExecutionStateSucceeded None)) 0\<rparr> None 20 =
      Inr (e', a', SubmissionOutcomeSucceeded, f)"
    by (simp add: interpret_submission_defs example_evidence_defs)
  with submission_outcome_sound [OF r] show ?thesis by (auto simp: example_execution_def)
qed

text \<open>
  C4: work is never submitted twice once a provider may have accepted it. An observation leads to
  a fresh attempt only when no acceptance was ever confirmed, the outcome was still unknown and the
  provider positively reports that it knows nothing of the request; the attempt number grows
  exactly then, and only conclusive rejection evidence withdraws a confirmed acceptance.
\<close>

theorem no_resubmission_after_acceptance:
  assumes "InterpretObservation e a ob t = Inr (e', a', out, f)"
  shows "(out = ObservationOutcomeRetry \<longrightarrow> \<not> ex_AcceptanceConfirmed e \<and> ex_State e = AttemptUnknown \<and>
      obs_Correlation ob = RequestCorrelationNotFound \<and> obs_Execution ob = None) \<and>
    ex_CurrentAttempt e' = ex_CurrentAttempt e + (if out = ObservationOutcomeRetry then 1 else 0) \<and>
    (ex_AcceptanceConfirmed e \<and> \<not> ex_AcceptanceConfirmed e' \<longrightarrow> out = ObservationOutcomeRejected)"
  using assms
proof (cases rule: observation_cases)
  case (decided ob')
  have nc: "\<not> (obs_Correlation ob' = RequestCorrelationNotFound \<and> obs_Execution ob' \<noteq> None \<and>
      map_option exec_State (obs_Execution ob') \<noteq> Some ExecutionStateFailed)"
    using assms decided(1,2) by (auto simp: InterpretObservation_def Let_def)
  have "out = ObservationOutcomeRetry \<longrightarrow> \<not> ex_AcceptanceConfirmed e \<and> ex_State e = AttemptUnknown \<and>
      obs_Correlation ob = RequestCorrelationNotFound \<and> obs_Execution ob = None"
    using decide_retry [OF _ nc] decided(1,2,7) by fastforce
  with decide_timeline(4) [OF decided(7)] decide_acceptance [OF decided(7)] show ?thesis by auto
qed simp

theorem no_resubmission_after_acceptance_witness:
  "\<exists>e' a' f. InterpretObservation example_execution example_attempt
      (example_observation RequestCorrelationNotFound None 0) 20 =
      Inr (e', a', ObservationOutcomeRetry, f) \<and> ex_CurrentAttempt e' = 2"
proof -
  obtain e' a' f where r: "InterpretObservation example_execution example_attempt
      (example_observation RequestCorrelationNotFound None 0) 20 = Inr (e', a', ObservationOutcomeRetry, f)"
    by (simp add: InterpretObservation_def decide_observation_defs example_evidence_defs)
  with no_resubmission_after_acceptance [OF r] show ?thesis by (auto simp: example_execution_def)
qed



text \<open>
  what the interpretation records as a terminal outcome, the persisted-evidence check of later
  replays and retries accepts, provided a reported failure has a known kind and a reason: the
  execution evidence, both clocks, the failure details and the operation agree.
\<close>

theorem recorded_outcome_replays:
  assumes "InterpretObservation e a ob t = Inr (e', a', out, Some f)" "t \<noteq> 0"
    "ex_OutputResolution e' \<noteq> OutputResolutionRejected"
    "obs_Execution ob = Some x" "exec_State x = ExecutionStateFailed \<Longrightarrow> well_formed_failure x"
    "IsTerminal op'" "op_completedAt op' = t"
    "if fin_Succeeded f then op_state op' = OperationStateSucceeded
     else op_state op' = OperationStateFailed \<and>
       op_failure op' = Some \<lparr>failure_reason = fin_Reason f, failure_message = fin_Message f\<rparr>"
  shows "validatePersistedTerminalEvidence e' r st op' = Inr ()"
  using assms by (rule observation_evidence_persists)

definition example_failed_operation :: "string \<Rightarrow> string \<Rightarrow> Operation" where
  "example_failed_operation reason message =
     (example_operation OperationStateFailed OperationPhaseApplying 11 13 20)
       \<lparr>op_failure := Some \<lparr>failure_reason = reason, failure_message = message\<rparr>\<rparr>"

theorem recorded_outcome_replays_witness:
  "\<exists>e' a' f. InterpretObservation example_execution example_attempt (example_observation
      RequestCorrelationFound (Some (example_backend ExecutionStateFailed
        (Some \<lparr>fail_Kind = FailureExecution, fail_Reason = ''Boom'', fail_Message = ''x''\<rparr>))) 0) 20 =
      Inr (e', a', ObservationOutcomeFailed, Some f) \<and>
    validatePersistedTerminalEvidence e' example_resource (cfg_status example_active)
      (example_failed_operation ''Boom'' ''x'') = Inr ()"
proof -
  let ?x = "example_backend ExecutionStateFailed
        (Some \<lparr>fail_Kind = FailureExecution, fail_Reason = ''Boom'', fail_Message = ''x''\<rparr>)"
  obtain e' a' f where r: "InterpretObservation example_execution example_attempt
      (example_observation RequestCorrelationFound (Some ?x) 0) 20 =
      Inr (e', a', ObservationOutcomeFailed, Some f)"
    and f: "\<not> fin_Succeeded f" "fin_Reason f = ''Boom''" "fin_Message f = ''x''"
    and e': "ex_OutputResolution e' = OutputResolutionNone"
    by (simp add: InterpretObservation_def decide_observation_defs example_evidence_defs
        ExecutionFailureFrom_def)
  have "validatePersistedTerminalEvidence e' example_resource (cfg_status example_active)
      (example_failed_operation ''Boom'' ''x'') = Inr ()"
    by (rule recorded_outcome_replays [OF r, of ?x])
      (use f e' in \<open>simp_all add: example_observation_def example_backend_def well_formed_failure_def
        example_failed_operation_def example_operation_def IsTerminal_def\<close>)
  with r show ?thesis by blast
qed

text \<open>
  Without a reason the two normalizations differ: the recorded failure gets the reason
  ExecutionFailed, the check expects MalformedExecutionFailure, and the replay is refused.
\<close>

lemma unreasoned_failure_breaks_replay:
  "\<exists>e' a' f. InterpretObservation example_execution example_attempt (example_observation
      RequestCorrelationFound (Some (example_backend ExecutionStateFailed
        (Some \<lparr>fail_Kind = FailureExecution, fail_Reason = '''', fail_Message = ''x''\<rparr>))) 0) 20 =
      Inr (e', a', ObservationOutcomeFailed, Some f) \<and> fin_Reason f = ''ExecutionFailed'' \<and>
    validatePersistedTerminalEvidence e' example_resource (cfg_status example_active)
      (example_failed_operation ''ExecutionFailed'' ''x'') =
      Inl (ErrInvalidApplicationCall ''terminal failure evidence is inconsistent'')"
  by (simp add: InterpretObservation_def decide_observation_defs example_evidence_defs
      ExecutionFailureFrom_def validatePersistedTerminalEvidence_def persistedTerminalExecution_def
      persistedTerminalObservedAt_def absenceCompletedDelete_def normalizeExecutionFailure_def
      example_failed_operation_def example_operation_def IsTerminal_def)

text \<open>
  outputs are published only through the contract. A plan publishes only for create or update
  of a type that declares outputs, from available evidence that satisfies the contract, at the
  target generation; a delete never touches outputs, a type without a contract never publishes,
  and required outputs that are not available yet keep the operation active.
\<close>

theorem output_plan_sound:
  assumes "PlanTerminalOutputs contract capability evidence g t = Inr plan"
  shows "(\<forall>out. plan = OutputPlanPublish out \<longrightarrow>
      (\<exists>c e. contract = Some c \<and> evidence = Some e \<and> capability \<noteq> CapabilityDelete \<and>
         ev_State e = OutputsAvailable \<and> OutputContract_Validate c (ev_Values e) = Inr () \<and>
         NewResourceOutputs g (ev_Values e) t = Inr out)) \<and>
    (plan = OutputPlanDefer \<longleftrightarrow> capability \<noteq> CapabilityDelete \<and>
      (\<exists>c. contract = Some c \<and> RequiresOutputs c \<and>
         (evidence = None \<or> (\<exists>e. evidence = Some e \<and> ev_State e = OutputsUnavailable)))) \<and>
    (capability = CapabilityDelete \<longrightarrow> plan = OutputPlanNone)"
  using assms
  by (auto simp: PlanTerminalOutputs_def output_rejection_def Let_def
      split: if_splits option.splits sum.splits OutputEvidenceState.splits)

theorem output_plan_sound_witness:
  "PlanTerminalOutputs (Some example_output_contract) CapabilityCreate None 1 10 = Inr OutputPlanDefer \<and>
   RequiresOutputs example_output_contract"
proof -
  have "PlanTerminalOutputs (Some example_output_contract) CapabilityCreate None 1 10 = Inr OutputPlanDefer"
    by (simp add: PlanTerminalOutputs_def RequiresOutputs_def example_output_contract_def)
  with output_plan_sound [OF this] show ?thesis by simp
qed

end
