(* ===== verification/Store.thy ===== *)
theory Store
  imports Provisioning
begin

text \<open>
  The transactional store of the application layer: the record types of the persistence ports
  (\<^verbatim>\<open>application.go\<close>, \<^verbatim>\<open>work.go\<close>, \<^verbatim>\<open>references.go\<close>, \<^verbatim>\<open>operator.go\<close>, \<^verbatim>\<open>policy.go\<close>), and the
  in-memory implementation of every port (\<^verbatim>\<open>src/internal/application/fake/store.go\<close> and
  \<^verbatim>\<open>fake/references.go\<close>), whose comments declare it to mirror the PostgreSQL store.

  A port method is a function from the store to a result and a store. A Go map is a table of the
  store; a loop over a map visits the table in its order. \<^verbatim>\<open>time.Now()\<close> is the argument \<open>now\<close>,
  read once per call. Durations are numbers of nanoseconds, like times. Cloning a record has no
  counterpart: values are immutable here.
\<close>

section \<open>Records\<close>

record OperationRecord =
  or_Operation :: Operation
  or_Sequence :: uint64
  or_Version :: uint64

record OperationPage =
  opg_Records :: "OperationRecord list"
  opg_NextSequence :: uint64

record IdempotencyRecord =
  idem_Scope :: string
  idem_Key :: string
  idem_Fingerprint :: string
  idem_CommandKind :: string
  idem_ResourceID :: resource_id
  idem_OperationID :: operation_id

record AttemptHistorySummary =
  ahs_Count :: nat
  ahs_Latest :: "SubmissionAttemptRecord option"

datatype OutboxKind =
    OutboxDrive | OutboxDispatch | OutboxObserve | OutboxPassiveObserve | OutboxWakeDependents
  | OutboxKindOther string

datatype OutboxState =
    OutboxPending | OutboxLeased | OutboxCompleted | OutboxDead | OutboxStateOther string

record OutboxMessage =
  msg_ID :: string
  msg_Kind :: OutboxKind
  msg_OperationID :: operation_id
  msg_ResourceID :: resource_id
  msg_AttemptNumber :: uint64
  msg_DedupeKey :: string
  msg_ExpectedVersion :: uint64
  msg_Sequence :: uint64
  msg_PayloadVersion :: int
  msg_Payload :: string
  msg_State :: OutboxState
  msg_Delay :: int
  msg_AvailableAt :: time
  msg_CreatedAt :: time
  msg_LeaseToken :: string
  msg_LeasedUntil :: time
  msg_AttemptCount :: int
  msg_LastError :: string
  msg_TerminalReason :: string

record WorkHistorySummary =
  whs_Active :: "OutboxMessage list"
  whs_Counts :: "(OutboxState, nat) table"

record ResourceOutputRecord =
  out_ResourceID :: resource_id
  out_ObservedGeneration :: uint64
  out_OperationID :: operation_id
  out_Capability :: capability
  out_OutputMappingRef :: string
  out_OutputContractDigest :: string
  out_Values :: ResourceOutputs
  out_ValuesDigest :: string

record DependencyWait =
  wait_OperationID :: operation_id
  wait_TargetID :: resource_id
  wait_WaitSequence :: uint64
  wait_OperationVersion :: uint64
  wait_RegisteredTargetVersion :: uint64

record OperatorActionRecord =
  oa_ID :: string
  oa_ActorPrincipalID :: string
  oa_ActorKind :: string
  oa_Action :: string
  oa_TargetKind :: string
  oa_TargetID :: string
  oa_SourceWorkID :: string
  oa_CreatedWorkID :: string
  oa_IdempotencyDigest :: string
  oa_RequestID :: string
  oa_CreatedAt :: time

record OperatorIdempotencyRecord =
  oi_Scope :: string
  oi_Key :: string
  oi_Fingerprint :: string
  oi_OperatorActionID :: string

record ResourceCountFacts =
  rcf_Available :: bool
  rcf_Owner :: OwnerRef
  rcf_ResourceType :: ResourceTypeRef
  rcf_OwnerNonDeleted :: uint64
  rcf_TypeNonDeleted :: uint64

record ResourceListQuery =
  q_AllowedOwners :: "OwnerRef list"
  q_Unrestricted :: bool
  q_OwnerFilter :: "OwnerRef option"
  q_TypeName :: string
  q_TypeVersion :: string
  q_StateFilter :: "ResourceState option"
  q_IncludeDeleted :: bool
  q_AfterSequence :: uint64
  q_Limit :: int

record ResourceInventoryLatestOperation =
  il_ID :: operation_id
  il_Capability :: capability
  il_State :: OperationState
  il_TargetGeneration :: uint64

record ResourceInventoryItem =
  ii_ID :: resource_id
  ii_Type :: ResourceTypeRef
  ii_Owner :: OwnerRef
  ii_Generation :: uint64
  ii_CreatedAt :: time
  ii_UpdatedAt :: time
  ii_State :: ResourceState
  ii_ObservedGeneration :: uint64
  ii_StatusUpdatedAt :: time
  ii_Sequence :: uint64
  ii_Latest :: "ResourceInventoryLatestOperation option"

record ResourceInventoryPage =
  ip_Items :: "ResourceInventoryItem list"
  ip_NextSequence :: uint64

section \<open>The store and its transactions\<close>

record Store =
  st_resources :: "(resource_id, ResourceRecord) table"
  st_resourceSequences :: "(resource_id, uint64) table"
  st_nextResourceSequence :: uint64
  st_operations :: "(operation_id, OperationRecord) table"
  st_nextOperationSequence :: uint64
  st_events :: "(event_id, Event) table"
  st_executions :: "(operation_id, ProvisioningExecutionRecord) table"
  st_idempotency :: "(string, IdempotencyRecord) table"
  st_attempts :: "(string, SubmissionAttemptRecord) table"
  st_outbox :: "(string, OutboxMessage) table"
  st_outputs :: "(resource_id, (uint64, ResourceOutputRecord) table) table"
  st_operatorActions :: "(string, OperatorActionRecord) table"
  st_operatorIdempotency :: "(string, OperatorIdempotencyRecord) table"
  st_desiredReferences :: "(resource_id, ReferenceEdge list) table"
  st_appliedReferences :: "(resource_id, ReferenceEdge list) table"
  st_dependencyWaits :: "(string, DependencyWait) table"
  st_nextWaitSequence :: uint64

definition NewStore :: Store where
  "NewStore = \<lparr>st_resources = [], st_resourceSequences = [], st_nextResourceSequence = 0,
     st_operations = [], st_nextOperationSequence = 0, st_events = [], st_executions = [],
     st_idempotency = [], st_attempts = [], st_outbox = [], st_outputs = [], st_operatorActions = [],
     st_operatorIdempotency = [], st_desiredReferences = [], st_appliedReferences = [],
     st_dependencyWaits = [], st_nextWaitSequence = 0\<rparr>"

type_synonym 'a tx = "Store \<Rightarrow> 'a result \<times> Store"

definition returnT :: "'a \<Rightarrow> 'a tx" where "returnT x = (\<lambda>s. (Inr x, s))"
definition throwT :: "error \<Rightarrow> 'a tx" where "throwT e = (\<lambda>s. (Inl e, s))"
definition liftT :: "'a result \<Rightarrow> 'a tx" where "liftT r = (\<lambda>s. (r, s))"
definition readT :: "(Store \<Rightarrow> 'a result) \<Rightarrow> 'a tx" where "readT f = (\<lambda>s. (f s, s))"

definition bindT :: "'a tx \<Rightarrow> ('a \<Rightarrow> 'b tx) \<Rightarrow> 'b tx" where
  "bindT m f = (\<lambda>s. case m s of (Inl e, s') \<Rightarrow> (Inl e, s') | (Inr x, s') \<Rightarrow> f x s')"

text \<open>
  A failed transaction leaves the store as it was, except for the sequence numbers it allocated.
\<close>

definition Within :: "'a tx \<Rightarrow> 'a tx" where
  "Within f = (\<lambda>s. case f s of
     (Inl e, tx) \<Rightarrow> (Inl e, s\<lparr>st_nextOperationSequence := st_nextOperationSequence tx,
        st_nextResourceSequence := st_nextResourceSequence tx,
        st_nextWaitSequence := st_nextWaitSequence tx\<rparr>)
   | (Inr x, tx) \<Rightarrow> (Inr x, tx))"

section \<open>Resources and outputs\<close>

definition SaveResourceOutputs :: "ResourceOutputRecord \<Rightarrow> unit tx" where
  "SaveResourceOutputs record = (\<lambda>s.
     let generations = (case map_of (st_outputs s) (out_ResourceID record) of None \<Rightarrow> [] | Some g \<Rightarrow> g);
         s1 = (if map_of (st_outputs s) (out_ResourceID record) = None
               then s\<lparr>st_outputs := put (out_ResourceID record) [] (st_outputs s)\<rparr> else s)
     in case map_of generations (out_ObservedGeneration record) of
       Some existing \<Rightarrow>
         (if out_OperationID existing \<noteq> out_OperationID record \<or>
             out_Capability existing \<noteq> out_Capability record \<or>
             out_OutputMappingRef existing \<noteq> out_OutputMappingRef record \<or>
             out_OutputContractDigest existing \<noteq> out_OutputContractDigest record \<or>
             out_ValuesDigest existing \<noteq> out_ValuesDigest record
          then (Inl (ErrInvalidApplicationCall ''contradictory output evidence for generation''), s1)
          else (Inr (), s1))
     | None \<Rightarrow>
         (Inr (), s1\<lparr>st_outputs := put (out_ResourceID record)
            (put (out_ObservedGeneration record) record generations) (st_outputs s1)\<rparr>))"

definition LatestResourceOutputs :: "resource_id \<Rightarrow> ResourceOutputRecord option tx" where
  "LatestResourceOutputs rid = readT (\<lambda>s.
     case map_of (st_outputs s) rid of
       None \<Rightarrow> Inr None
     | Some [] \<Rightarrow> Inr None
     | Some generations \<Rightarrow>
         Inr (map_of generations (foldr max (map fst generations) 0)))"

definition GetResource :: "resource_id \<Rightarrow> ResourceRecord tx" where
  "GetResource rid = readT (\<lambda>s. case map_of (st_resources s) rid of
     None \<Rightarrow> Inl (ErrResourceNotFound ''resource not found'') | Some r \<Rightarrow> Inr r)"

definition LookupResource :: "resource_id \<Rightarrow> ResourceRecord tx" where
  "LookupResource rid = GetResource rid"

definition LockResourceID :: "resource_id \<Rightarrow> bool tx" where
  "LockResourceID rid = readT (\<lambda>s. Inr (map_of (st_resources s) rid \<noteq> None))"

definition LockOwnerQuota :: "OwnerRef \<Rightarrow> unit tx" where
  "LockOwnerQuota owner = returnT ()"

fun count_resources ::
    "OwnerRef \<Rightarrow> ResourceTypeRef \<Rightarrow> ResourceRecord list \<Rightarrow> uint64 \<times> uint64 \<Rightarrow> (uint64 \<times> uint64) result" where
  "count_resources owner ref [] counts = Inr counts"
| "count_resources owner ref (r # rs) (n, m) =
     (if resource_owner (rr_Resource r) \<noteq> owner then count_resources owner ref rs (n, m)
      else if status_state (rr_Status r) = ResourceStateOther ''''
        then Inl (ErrQuotaInvariant ''quota accounting invariant violated'')
      else if status_state (rr_Status r) = ResourceStateDeleted then count_resources owner ref rs (n, m)
      else count_resources owner ref rs
             (n + 1, if resource_typeRef (rr_Resource r) = ref then m + 1 else m))"

definition ResourceCountFacts_of :: "OwnerRef \<Rightarrow> ResourceTypeRef \<Rightarrow> ResourceCountFacts tx" where
  "ResourceCountFacts_of owner ref = readT (\<lambda>s.
     bindE (count_resources owner ref (map snd (st_resources s)) (0, 0)) (\<lambda>(n, m).
       Inr \<lparr>rcf_Available = True, rcf_Owner = owner, rcf_ResourceType = ref,
            rcf_OwnerNonDeleted = n, rcf_TypeNonDeleted = m\<rparr>))"

definition CreateResource :: "ResourceRecord \<Rightarrow> unit tx" where
  "CreateResource record = (\<lambda>s.
     let rid = resource_id (rr_Resource record) in
     if map_of (st_resources s) rid \<noteq> None
       then (Inl (ErrConcurrencyConflict ''resource already exists''), s)
     else let r1 = (if rr_Version record = 0 then record\<lparr>rr_Version := 1\<rparr> else record);
              n = st_nextResourceSequence s + 1
       in (Inr (), s\<lparr>st_nextResourceSequence := n,
              st_resourceSequences := put rid n (st_resourceSequences s),
              st_resources := put rid r1 (st_resources s)\<rparr>))"

definition SaveResource :: "ResourceRecord \<Rightarrow> uint64 \<Rightarrow> unit tx" where
  "SaveResource record expectedVersion = (\<lambda>s.
     let rid = resource_id (rr_Resource record) in
     case map_of (st_resources s) rid of
       None \<Rightarrow> (Inl (ErrConcurrencyConflict ''concurrency conflict''), s)
     | Some current \<Rightarrow>
         if rr_Version current \<noteq> expectedVersion
           then (Inl (ErrConcurrencyConflict ''concurrency conflict''), s)
         else if resource_owner (rr_Resource current) \<noteq> resource_owner (rr_Resource record)
           then (Inl (ErrInvalidApplicationCall ''resource owner is immutable''), s)
         else (Inr (), s\<lparr>st_resources :=
            put rid (record\<lparr>rr_Version := expectedVersion + 1\<rparr>) (st_resources s)\<rparr>))"

fun lock_resources ::
    "(resource_id, ResourceRecord) table \<Rightarrow> resource_id list \<Rightarrow> ResourceRecord list result" where
  "lock_resources t [] = Inr []"
| "lock_resources t (rid # rids) =
     (case map_of t rid of
        None \<Rightarrow> Inl (ErrResourceNotFound ''resource not found'')
      | Some r \<Rightarrow> bindE (lock_resources t rids) (\<lambda>rs. Inr (r # rs)))"

definition LockResources :: "resource_id list \<Rightarrow> ResourceRecord list tx" where
  "LockResources ids = readT (\<lambda>s. lock_resources (st_resources s) (sort ids))"

section \<open>Operations, events and executions\<close>

definition GetOperation :: "operation_id \<Rightarrow> OperationRecord tx" where
  "GetOperation oid = readT (\<lambda>s. case map_of (st_operations s) oid of
     None \<Rightarrow> Inl (ErrOperationNotFound ''operation not found'') | Some r \<Rightarrow> Inr r)"

definition LookupOperation :: "operation_id \<Rightarrow> OperationRecord tx" where
  "LookupOperation oid = GetOperation oid"

definition ActiveForResource :: "resource_id \<Rightarrow> OperationRecord option tx" where
  "ActiveForResource rid = readT (\<lambda>s.
     Inr (List.find (\<lambda>r. op_resourceID (or_Operation r) = rid \<and> \<not> IsTerminal (or_Operation r))
            (map snd (st_operations s))))"

fun latest_record :: "resource_id \<Rightarrow> OperationRecord list \<Rightarrow> OperationRecord option \<Rightarrow> OperationRecord option" where
  "latest_record rid [] best = best"
| "latest_record rid (r # rs) best =
     (if op_resourceID (or_Operation r) \<noteq> rid then latest_record rid rs best
      else case best of
        None \<Rightarrow> latest_record rid rs (Some r)
      | Some b \<Rightarrow> latest_record rid rs (if or_Sequence b < or_Sequence r then Some r else Some b))"

definition LatestForResource :: "resource_id \<Rightarrow> OperationRecord option tx" where
  "LatestForResource rid = readT (\<lambda>s. Inr (latest_record rid (map snd (st_operations s)) None))"

definition PageForResource :: "resource_id \<Rightarrow> uint64 \<Rightarrow> int \<Rightarrow> OperationPage tx" where
  "PageForResource rid beforeSequence limit = readT (\<lambda>s.
     if limit \<le> 0
       then Inl (ErrInvalidApplicationCall ''operation page limit must be greater than zero'')
     else let records = rev (sort_key or_Sequence
                (filter (\<lambda>r. op_resourceID (or_Operation r) = rid \<and>
                           (beforeSequence = 0 \<or> or_Sequence r < beforeSequence))
                   (map snd (st_operations s))))
       in if nat limit < length records
          then Inr \<lparr>opg_Records = take (nat limit) records,
                    opg_NextSequence = or_Sequence (last (take (nat limit) records))\<rparr>
          else Inr \<lparr>opg_Records = records, opg_NextSequence = 0\<rparr>)"

definition CreateOperation :: "OperationRecord \<Rightarrow> unit tx" where
  "CreateOperation record = (\<lambda>s.
     let oid = op_id (or_Operation record); n = st_nextOperationSequence s + 1;
         s1 = s\<lparr>st_nextOperationSequence := n\<rparr>;
         r1 = record\<lparr>or_Sequence := n,
                     or_Version := (if or_Version record = 0 then 1 else or_Version record)\<rparr>;
         retryOf = op_retryOf (or_Operation record)
     in if map_of (st_operations s) oid \<noteq> None
          then (Inl (ErrMessage ''operation already exists''), s1)
        else if retryOf \<noteq> '''' \<and>
            (case map_of (st_operations s) retryOf of
               None \<Rightarrow> True
             | Some source \<Rightarrow>
                 op_state (or_Operation source) \<noteq> OperationStateFailed \<or>
                 op_resourceID (or_Operation source) \<noteq> op_resourceID (or_Operation record) \<or>
                 op_capability (or_Operation source) \<noteq> op_capability (or_Operation record) \<or>
                 op_targetGeneration (or_Operation source) \<noteq> op_targetGeneration (or_Operation record))
          then (Inl (ErrInvalidApplicationCall ''retry source must be a failed operation with matching intent''), s1)
        else (Inr (), s1\<lparr>st_operations := put oid r1 (st_operations s1)\<rparr>))"

definition SaveOperation :: "OperationRecord \<Rightarrow> uint64 \<Rightarrow> unit tx" where
  "SaveOperation record expectedVersion = (\<lambda>s.
     let oid = op_id (or_Operation record); op' = or_Operation record in
     case map_of (st_operations s) oid of
       None \<Rightarrow> (Inl (ErrConcurrencyConflict ''concurrency conflict''), s)
     | Some current \<Rightarrow>
         let op = or_Operation current in
         if or_Version current \<noteq> expectedVersion
           then (Inl (ErrConcurrencyConflict ''concurrency conflict''), s)
         else if IsTerminal op
           then (Inl (ErrInvalidApplicationCall ''terminal operation is immutable''), s)
         else if op_resourceID op \<noteq> op_resourceID op' \<or> op_capability op \<noteq> op_capability op' \<or>
                 op_targetGeneration op \<noteq> op_targetGeneration op' \<or>
                 op_requestedAt op \<noteq> op_requestedAt op' \<or> op_retryOf op \<noteq> op_retryOf op'
           then (Inl (ErrInvalidApplicationCall ''operation intent is immutable''), s)
         else (Inr (), s\<lparr>st_operations := put oid
            (record\<lparr>or_Sequence := or_Sequence current, or_Version := expectedVersion + 1\<rparr>)
            (st_operations s)\<rparr>))"

definition AppendEvent :: "Event \<Rightarrow> unit tx" where
  "AppendEvent event = (\<lambda>s.
     if map_of (st_events s) (event_id event) \<noteq> None
     then (Inl (ErrMessage ''event already exists''), s)
     else (Inr (), s\<lparr>st_events := put (event_id event) event (st_events s)\<rparr>))"

definition GetEvent :: "event_id \<Rightarrow> Event tx" where
  "GetEvent eid = readT (\<lambda>s. case map_of (st_events s) eid of
     None \<Rightarrow> Inl (ErrNotFound ''fake record not found'') | Some e \<Rightarrow> Inr e)"

definition GetExecution :: "operation_id \<Rightarrow> ProvisioningExecutionRecord tx" where
  "GetExecution oid = readT (\<lambda>s. case map_of (st_executions s) oid of
     None \<Rightarrow> Inl (ErrResourceNotFound ''resource not found'') | Some r \<Rightarrow> Inr r)"

definition LookupExecution :: "operation_id \<Rightarrow> ProvisioningExecutionRecord tx" where
  "LookupExecution oid = GetExecution oid"

definition attemptKey :: "operation_id \<Rightarrow> uint64 \<Rightarrow> string" where
  "attemptKey operationID attempt = operationID @ '':'' @ decimal64 attempt"

definition CreateExecution :: "ProvisioningExecutionRecord \<Rightarrow> unit tx" where
  "CreateExecution record = (\<lambda>s.
     if map_of (st_executions s) (ex_OperationID record) \<noteq> None
       then (Inl (ErrMessage ''execution already exists''), s)
     else if (ex_RecoverySourceOperationID record = '''') \<noteq> (ex_RecoverySourceAttempt record = 0) \<or>
             ex_RecoverySourceOperationID record = ex_OperationID record
       then (Inl (ErrInvalidApplicationCall ''invalid output recovery provenance''), s)
     else if IsOutputRecovery record \<and>
             map_of (st_attempts s) (attemptKey (ex_RecoverySourceOperationID record)
               (ex_RecoverySourceAttempt record)) = None
       then (Inl (ErrInvalidApplicationCall ''output recovery source attempt does not exist''), s)
     else (Inr (), s\<lparr>st_executions := put (ex_OperationID record)
        (if ex_Version record = 0 then record\<lparr>ex_Version := 1\<rparr> else record) (st_executions s)\<rparr>))"

definition SaveExecution :: "ProvisioningExecutionRecord \<Rightarrow> uint64 \<Rightarrow> unit tx" where
  "SaveExecution record expectedVersion = (\<lambda>s.
     case map_of (st_executions s) (ex_OperationID record) of
       None \<Rightarrow> (Inl (ErrConcurrencyConflict ''concurrency conflict''), s)
     | Some current \<Rightarrow>
         if ex_Version current \<noteq> expectedVersion
           then (Inl (ErrConcurrencyConflict ''concurrency conflict''), s)
         else if list_ex (\<lambda>child. ex_RecoverySourceOperationID child = ex_OperationID record)
                   (map snd (st_executions s))
           then (Inl (ErrInvalidApplicationCall ''referenced recovery source execution is immutable''), s)
         else if ex_RecoverySourceOperationID current \<noteq> ex_RecoverySourceOperationID record \<or>
                 ex_RecoverySourceAttempt current \<noteq> ex_RecoverySourceAttempt record
           then (Inl (ErrInvalidApplicationCall ''output recovery provenance is immutable''), s)
         else if ex_OutputMappingRef current \<noteq> '''' \<and>
                 ex_OutputMappingRef current \<noteq> ex_OutputMappingRef record
           then (Inl (ErrConcurrencyConflict ''concurrency conflict''), s)
         else (Inr (), s\<lparr>st_executions := put (ex_OperationID record)
            (record\<lparr>ex_Version := expectedVersion + 1\<rparr>) (st_executions s)\<rparr>))"

section \<open>Idempotency, attempts and operator records\<close>

definition idempotencyMapKey :: "string \<Rightarrow> string \<Rightarrow> string" where
  "idempotencyMapKey scope key = scope @ [CHR 0x00] @ key"

definition GetIdempotency :: "string \<Rightarrow> string \<Rightarrow> IdempotencyRecord tx" where
  "GetIdempotency scope key = readT (\<lambda>s.
     case map_of (st_idempotency s) (idempotencyMapKey scope key) of
       None \<Rightarrow> Inl (ErrIdempotencyNotFound ''idempotency record not found'') | Some r \<Rightarrow> Inr r)"

definition PutIdempotency :: "IdempotencyRecord \<Rightarrow> unit tx" where
  "PutIdempotency record = (\<lambda>s.
     let k = idempotencyMapKey (idem_Scope record) (idem_Key record) in
     if map_of (st_idempotency s) k \<noteq> None
     then (Inl (ErrMessage ''idempotency key already exists''), s)
     else (Inr (), s\<lparr>st_idempotency := put k record (st_idempotency s)\<rparr>))"

definition GetOperatorAction :: "string \<Rightarrow> OperatorActionRecord tx" where
  "GetOperatorAction aid = readT (\<lambda>s. case map_of (st_operatorActions s) aid of
     None \<Rightarrow> Inl (ErrResourceNotFound ''resource not found'') | Some r \<Rightarrow> Inr r)"

definition InsertOperatorAction :: "OperatorActionRecord \<Rightarrow> unit tx" where
  "InsertOperatorAction record = (\<lambda>s.
     if map_of (st_operatorActions s) (oa_ID record) \<noteq> None
       then (Inl (ErrConcurrencyConflict ''concurrency conflict''), s)
     else if map_of (st_outbox s) (oa_CreatedWorkID record) = None
       then (Inl (ErrInvalidApplicationCall ''created operator work does not exist''), s)
     else if oa_SourceWorkID record \<noteq> '''' \<and> map_of (st_outbox s) (oa_SourceWorkID record) = None
       then (Inl (ErrInvalidApplicationCall ''source operator work does not exist''), s)
     else (Inr (), s\<lparr>st_operatorActions := put (oa_ID record) record (st_operatorActions s)\<rparr>))"

definition GetOperatorIdempotency :: "string \<Rightarrow> string \<Rightarrow> OperatorIdempotencyRecord tx" where
  "GetOperatorIdempotency scope key = readT (\<lambda>s.
     case map_of (st_operatorIdempotency s) (idempotencyMapKey scope key) of
       None \<Rightarrow> Inl (ErrOperatorIdempotencyNotFound ''operator idempotency record not found'')
     | Some r \<Rightarrow> Inr r)"

definition PutOperatorIdempotency :: "OperatorIdempotencyRecord \<Rightarrow> unit tx" where
  "PutOperatorIdempotency record = (\<lambda>s.
     let k = idempotencyMapKey (oi_Scope record) (oi_Key record) in
     if map_of (st_operatorIdempotency s) k \<noteq> None
       then (Inl (ErrConcurrencyConflict ''concurrency conflict''), s)
     else if map_of (st_operatorActions s) (oi_OperatorActionID record) = None
       then (Inl (ErrInvalidApplicationCall ''operator action does not exist''), s)
     else (Inr (), s\<lparr>st_operatorIdempotency := put k record (st_operatorIdempotency s)\<rparr>))"

definition GetSubmissionAttempt :: "operation_id \<Rightarrow> uint64 \<Rightarrow> SubmissionAttemptRecord tx" where
  "GetSubmissionAttempt oid attempt = readT (\<lambda>s.
     case map_of (st_attempts s) (attemptKey oid attempt) of
       None \<Rightarrow> Inl (ErrResourceNotFound ''resource not found'') | Some r \<Rightarrow> Inr r)"

fun summarize_attempts ::
    "operation_id \<Rightarrow> SubmissionAttemptRecord list \<Rightarrow> AttemptHistorySummary \<Rightarrow> AttemptHistorySummary" where
  "summarize_attempts oid [] summary = summary"
| "summarize_attempts oid (r # rs) summary =
     (if att_OperationID r \<noteq> oid then summarize_attempts oid rs summary
      else summarize_attempts oid rs \<lparr>ahs_Count = ahs_Count summary + 1,
        ahs_Latest = (case ahs_Latest summary of
            None \<Rightarrow> Some r
          | Some l \<Rightarrow> if att_AttemptNumber l < att_AttemptNumber r then Some r else Some l)\<rparr>)"

definition SummarizeSubmissionAttempts :: "operation_id \<Rightarrow> AttemptHistorySummary tx" where
  "SummarizeSubmissionAttempts oid = readT (\<lambda>s.
     Inr (summarize_attempts oid (map snd (st_attempts s)) \<lparr>ahs_Count = 0, ahs_Latest = None\<rparr>))"

definition CreateSubmissionAttempt :: "SubmissionAttemptRecord \<Rightarrow> unit tx" where
  "CreateSubmissionAttempt record = (\<lambda>s.
     let k = attemptKey (att_OperationID record) (att_AttemptNumber record) in
     if map_of (st_attempts s) k \<noteq> None
     then (Inl (ErrMessage ''submission attempt already exists''), s)
     else (Inr (), s\<lparr>st_attempts := put k record (st_attempts s)\<rparr>))"

definition SaveSubmissionAttempt :: "SubmissionAttemptRecord \<Rightarrow> SubmissionAttemptState \<Rightarrow> unit tx" where
  "SaveSubmissionAttempt record expected = (\<lambda>s.
     let k = attemptKey (att_OperationID record) (att_AttemptNumber record) in
     case map_of (st_attempts s) k of
       None \<Rightarrow> (Inl (ErrConcurrencyConflict ''concurrency conflict''), s)
     | Some current \<Rightarrow>
         if att_State current \<noteq> expected
           then (Inl (ErrConcurrencyConflict ''concurrency conflict''), s)
         else if list_ex (\<lambda>child. ex_RecoverySourceOperationID child = att_OperationID record \<and>
                   ex_RecoverySourceAttempt child = att_AttemptNumber record) (map snd (st_executions s))
           then (Inl (ErrInvalidApplicationCall ''referenced recovery source submission attempt is immutable''), s)
         else (Inr (), s\<lparr>st_attempts := put k record (st_attempts s)\<rparr>))"

section \<open>The resource inventory\<close>

definition operationSequenceOf :: "Store \<Rightarrow> Operation \<Rightarrow> uint64" where
  "operationSequenceOf s operation =
     (case map_of (st_operations s) (op_id operation) of None \<Rightarrow> 0 | Some r \<Rightarrow> or_Sequence r)"

fun latest_operation :: "Store \<Rightarrow> resource_id \<Rightarrow> OperationRecord list \<Rightarrow> Operation option \<Rightarrow> Operation option" where
  "latest_operation s rid [] latest = latest"
| "latest_operation s rid (r # rs) latest =
     (if op_resourceID (or_Operation r) \<noteq> rid then latest_operation s rid rs latest
      else if (case latest of None \<Rightarrow> True | Some l \<Rightarrow> operationSequenceOf s l < or_Sequence r)
        then latest_operation s rid rs (Some (or_Operation r))
      else latest_operation s rid rs latest)"

definition latestOperationOf :: "Store \<Rightarrow> resource_id \<Rightarrow> Operation option" where
  "latestOperationOf s rid = latest_operation s rid (map snd (st_operations s)) None"

definition inventory_match :: "ResourceListQuery \<Rightarrow> Store \<Rightarrow> resource_id \<times> ResourceRecord \<Rightarrow> bool" where
  "inventory_match query s row =
     (let resource = rr_Resource (snd row); state = status_state (rr_Status (snd row));
          sequence = (case map_of (st_resourceSequences s) (fst row) of None \<Rightarrow> 0 | Some n \<Rightarrow> n)
      in (q_Unrestricted query \<or> resource_owner resource \<in> set (q_AllowedOwners query)) \<and>
         (case q_OwnerFilter query of None \<Rightarrow> True | Some f \<Rightarrow> resource_owner resource = f) \<and>
         (q_TypeName query = '''' \<or> tref_Name (resource_typeRef resource) = q_TypeName query) \<and>
         (q_TypeVersion query = '''' \<or> tref_Version (resource_typeRef resource) = q_TypeVersion query) \<and>
         (state = ResourceStateDeleted \<longrightarrow> q_IncludeDeleted query) \<and>
         (case q_StateFilter query of None \<Rightarrow> True | Some f \<Rightarrow> state = f) \<and>
         (q_AfterSequence query = 0 \<or> sequence < q_AfterSequence query))"

definition inventory_item :: "Store \<Rightarrow> resource_id \<times> ResourceRecord \<Rightarrow> ResourceInventoryItem" where
  "inventory_item s row =
     (let resource = rr_Resource (snd row); status = rr_Status (snd row) in
      \<lparr>ii_ID = resource_id resource, ii_Type = resource_typeRef resource,
       ii_Owner = resource_owner resource, ii_Generation = resource_generation resource,
       ii_CreatedAt = resource_createdAt resource, ii_UpdatedAt = resource_updatedAt resource,
       ii_State = status_state status, ii_ObservedGeneration = status_observedGeneration status,
       ii_StatusUpdatedAt = status_updatedAt status,
       ii_Sequence = (case map_of (st_resourceSequences s) (fst row) of None \<Rightarrow> 0 | Some n \<Rightarrow> n),
       ii_Latest = map_option (\<lambda>op. \<lparr>il_ID = op_id op, il_Capability = op_capability op,
         il_State = op_state op, il_TargetGeneration = op_targetGeneration op\<rparr>)
         (latestOperationOf s (fst row))\<rparr>)"

definition ListResources :: "ResourceListQuery \<Rightarrow> ResourceInventoryPage tx" where
  "ListResources query = readT (\<lambda>s.
     if q_Limit query \<le> 0
       then Inl (ErrInvalidApplicationCall ''resource page limit must be greater than zero'')
     else if \<not> q_Unrestricted query \<and> q_AllowedOwners query = []
       then Inr \<lparr>ip_Items = [], ip_NextSequence = 0\<rparr>
     else let matches = rev (sort_key ii_Sequence
                (map (inventory_item s) (filter (inventory_match query s) (st_resources s))));
              items = take (nat (q_Limit query)) matches
       in Inr \<lparr>ip_Items = items,
               ip_NextSequence = (if nat (q_Limit query) < length matches then ii_Sequence (last items) else 0)\<rparr>)"

section \<open>Optimistic concurrency\<close>

fun run_saves ::
    "('r \<Rightarrow> uint64 \<Rightarrow> unit tx) \<Rightarrow> ('r \<times> uint64) list \<Rightarrow> Store \<Rightarrow> bool list \<times> Store" where
  "run_saves save [] s = ([], s)"
| "run_saves save ((r, v) # ws) s =
     (case save r v s of (res, s1) \<Rightarrow>
       (case run_saves save ws s1 of (oks, s2) \<Rightarrow>
         ((case res of Inl _ \<Rightarrow> False | Inr _ \<Rightarrow> True) # oks, s2)))"

text \<open>The expected versions of the successful writes to one key, in the order they happened.\<close>

definition accepted :: "('r \<Rightarrow> 'k) \<Rightarrow> 'k \<Rightarrow> ('r \<times> uint64) list \<Rightarrow> bool list \<Rightarrow> uint64 list" where
  "accepted key k ws oks = [v. ((r, v), ok) \<leftarrow> zip ws oks, ok \<and> key r = k]"

lemma accepted_Cons [simp]:
  "accepted key k ((r, v) # ws) (ok # oks) = (if ok \<and> key r = k then [v] else []) @ accepted key k ws oks"
  by (simp add: accepted_def)

text \<open>
  The contract of a versioned repository: a save goes through only against the stored version, which
  it increments; a refused save leaves the store as it was. The client lemmas show that concurrent
  writers cannot overwrite each other.
\<close>

locale versioned_repository =
  fixes get :: "Store \<Rightarrow> 'k \<Rightarrow> 'r option" and key :: "'r \<Rightarrow> 'k" and version :: "'r \<Rightarrow> uint64"
    and save :: "'r \<Rightarrow> uint64 \<Rightarrow> unit tx"
  assumes save_ok: "save r v s = (Inr (), s') \<Longrightarrow>
      (\<exists>cur. get s (key r) = Some cur \<and> version cur = v) \<and>
      (\<exists>new. get s' (key r) = Some new \<and> version new = v + 1) \<and>
      (\<forall>k. k \<noteq> key r \<longrightarrow> get s' k = get s k)"
    and save_refused: "save r v s = (Inl e, s') \<Longrightarrow> s' = s"
begin

lemma saves_chain:
  assumes "run_saves save ws s = (oks, s')" "get s k = Some cur"
  shows "accepted key k ws oks = map (\<lambda>i. version cur + of_nat i) [0..<length (accepted key k ws oks)] \<and>
    (\<exists>new. get s' k = Some new \<and> version new = version cur + of_nat (length (accepted key k ws oks)))"
  using assms
proof (induction ws arbitrary: s oks cur)
  case Nil
  then show ?case by (simp add: accepted_def)
next
  case (Cons w ws)
  obtain r v where w: "w = (r, v)" by (cases w)
  obtain res s1 where s1: "save r v s = (res, s1)" by (cases "save r v s")
  obtain oks1 where o1: "run_saves save ws s1 = (oks1, s')" "oks = (case res of Inl _ \<Rightarrow> False | Inr _ \<Rightarrow> True) # oks1"
    using Cons.prems(1) by (auto simp: w s1 split: prod.splits)
  show ?case
  proof (cases "(\<exists>u. res = Inr u) \<and> key r = k")
    case True
    then have sv: "save r v s = (Inr (), s1)" using s1 by auto
    obtain new where new: "get s1 k = Some new" "version new = v + 1" and v: "version cur = v"
      using save_ok [OF sv] True Cons.prems(2) by auto
    let ?a = "accepted key k ws oks1"
    have IH: "?a = map (\<lambda>i. version new + of_nat i) [0..<length ?a]"
      "\<exists>n. get s' k = Some n \<and> version n = version new + of_nat (length ?a)"
      using Cons.IH [OF o1(1) new(1)] by blast+
    have acc: "accepted key k (w # ws) oks = v # ?a" using True by (auto simp: w o1(2))
    have "map (\<lambda>i. version cur + of_nat i) [0..<Suc (length ?a)] =
        v # map (\<lambda>i. v + of_nat (Suc i)) [0..<length ?a]"
      by (simp only: map_upt_Suc v) simp
    also have "map (\<lambda>i. v + of_nat (Suc i)) [0..<length ?a] = map (\<lambda>i. version new + of_nat i) [0..<length ?a]"
      by (rule map_cong) (simp_all add: new(2))
    finally show ?thesis
      using IH by (auto simp: acc new(2) v algebra_simps simp del: upt_Suc)
  next
    case False
    have "get s1 k = Some cur"
      using False Cons.prems(2) save_ok [of r v s s1] save_refused [of r v s _ s1] s1 by (cases res) auto
    from Cons.IH [OF o1(1) this] show ?thesis
      using False by (auto simp: w o1(2) split: sum.splits)
  qed
qed

lemma no_lost_update:
  assumes "save r v s = (Inr (), s')" "key r' = key r"
  shows "fst (save r' v s') \<noteq> Inr ()"
proof
  assume "fst (save r' v s') = Inr ()"
  then have "save r' v s' = (Inr (), snd (save r' v s'))" by (simp add: prod_eq_iff)
  from save_ok [OF this] save_ok [OF assms(1)] assms(2) show False by auto
qed

end

interpretation resources: versioned_repository "\<lambda>s. map_of (st_resources s)"
    "\<lambda>r. resource_id (rr_Resource r)" rr_Version SaveResource
  by unfold_locales (auto simp: SaveResource_def Let_def split: option.splits if_splits)

interpretation operations: versioned_repository "\<lambda>s. map_of (st_operations s)"
    "\<lambda>r. op_id (or_Operation r)" or_Version SaveOperation
  by unfold_locales (auto simp: SaveOperation_def Let_def split: option.splits if_splits)

interpretation executions: versioned_repository "\<lambda>s. map_of (st_executions s)" ex_OperationID ex_Version
    SaveExecution
  by unfold_locales (auto simp: SaveExecution_def split: option.splits if_splits)

text \<open>
  C16: Concurrent writers never overwrite each other. Whatever saves of resource records run in whatever
  order, the successful saves of one Resource were made against consecutive versions starting at the
  stored one, and the stored version counts them; the same holds for Operations and for provisioning
  executions. Of two writers that read the same version at most one succeeds.
\<close>
theorem saves_serialize:
  assumes "map_of (st_resources s) rid = Some r" "map_of (st_operations s) oid = Some o1"
    "map_of (st_executions s) oid = Some e"
    and "run_saves SaveResource rws s = (roks, sr)" "ra = accepted (\<lambda>r. resource_id (rr_Resource r)) rid rws roks"
    and "run_saves SaveOperation ows s = (ooks, so)" "oa = accepted (\<lambda>r. op_id (or_Operation r)) oid ows ooks"
    and "run_saves SaveExecution ews s = (eoks, se)" "ea = accepted ex_OperationID oid ews eoks"
  shows "ra = map (\<lambda>i. rr_Version r + of_nat i) [0..<length ra] \<and>
    (\<exists>r'. map_of (st_resources sr) rid = Some r' \<and> rr_Version r' = rr_Version r + of_nat (length ra)) \<and>
    oa = map (\<lambda>i. or_Version o1 + of_nat i) [0..<length oa] \<and>
    (\<exists>o2. map_of (st_operations so) oid = Some o2 \<and> or_Version o2 = or_Version o1 + of_nat (length oa)) \<and>
    ea = map (\<lambda>i. ex_Version e + of_nat i) [0..<length ea] \<and>
    (\<exists>e'. map_of (st_executions se) oid = Some e' \<and> ex_Version e' = ex_Version e + of_nat (length ea))"
  unfolding assms(5,7,9)
  using resources.saves_chain [OF assms(4,1)] operations.saves_chain [OF assms(6,2)]
    executions.saves_chain [OF assms(8,3)] by blast

definition example_resource_record :: "resource_id \<Rightarrow> ResourceState \<Rightarrow> ResourceRecord" where
  "example_resource_record rid st =
     \<lparr>rr_Resource = \<lparr>resource_id = rid, resource_typeRef = \<lparr>tref_Name = ''app'', tref_Version = ''v1''\<rparr>,
        resource_owner = \<lparr>owner_Kind = ''team'', owner_ID = ''t1''\<rparr>, resource_generation = 1,
        resource_spec = \<lparr>spec_values = []\<rparr>, resource_createdAt = 10, resource_updatedAt = 10\<rparr>,
      rr_Status = \<lparr>status_resourceID = rid, status_observedGeneration = 1, status_state = st,
        status_conditions = [], status_updatedAt = 10\<rparr>,
      rr_ProvisionerRef = '''', rr_Version = 0\<rparr>"

definition example_operation_record :: "operation_id \<Rightarrow> OperationRecord" where
  "example_operation_record oid = \<lparr>or_Operation =
     (example_operation OperationStatePending OperationPhaseRequested 0 10 0)\<lparr>op_id := oid\<rparr>,
     or_Sequence = 0, or_Version = 0\<rparr>"

definition example_store :: Store where
  "example_store = snd (CreateExecution example_execution
     (snd (CreateOperation (example_operation_record ''op-1'')
     (snd (CreateResource (example_resource_record ''res-1'' ResourceStateReady) NewStore)))))"

lemmas example_store_defs = example_store_def NewStore_def CreateResource_def CreateOperation_def
  CreateExecution_def example_resource_record_def example_operation_record_def example_operation_def
  example_execution_def IsOutputRecovery_def Let_def

lemma example_store_rows:
  "map_of (st_resources example_store) ''res-1'' = Some ((example_resource_record ''res-1'' ResourceStateReady)\<lparr>rr_Version := 1\<rparr>)"
  "map_of (st_operations example_store) ''op-1'' = Some ((example_operation_record ''op-1'')\<lparr>or_Sequence := 1, or_Version := 1\<rparr>)"
  "map_option ex_Version (map_of (st_executions example_store) ''op-1'') = Some 1"
  by (simp_all add: example_store_defs)

theorem saves_serialize_witness:
  "\<exists>roks sr. run_saves SaveResource [(example_resource_record ''res-1'' ResourceStateDeleting, 1),
       (example_resource_record ''res-1'' ResourceStateFailed, 1)] example_store = (roks, sr) \<and>
     roks = [True, False] \<and>
     accepted (\<lambda>r. resource_id (rr_Resource r)) ''res-1''
       [(example_resource_record ''res-1'' ResourceStateDeleting, 1),
        (example_resource_record ''res-1'' ResourceStateFailed, 1)] roks = [1] \<and>
     (\<exists>r'. map_of (st_resources sr) ''res-1'' = Some r' \<and> rr_Version r' = 2)"
proof -
  let ?ws = "[(example_resource_record ''res-1'' ResourceStateDeleting, 1),
    (example_resource_record ''res-1'' ResourceStateFailed, 1::uint64)]"
  obtain roks sr where run: "run_saves SaveResource ?ws example_store = (roks, sr)" by (cases "run_saves SaveResource ?ws example_store")
  have oks: "roks = [True, False]"
    using run by (simp add: SaveResource_def Let_def example_store_rows example_resource_record_def)
  obtain e where e: "map_of (st_executions example_store) ''op-1'' = Some e" "ex_Version e = 1"
    using example_store_rows(3) by auto
  have acc: "accepted (\<lambda>r. resource_id (rr_Resource r)) ''res-1'' ?ws roks = [1]"
    unfolding oks by (simp add: example_resource_record_def) (simp add: accepted_def)
  have "\<exists>r'. map_of (st_resources sr) ''res-1'' = Some r' \<and> rr_Version r' = 2"
    using saves_serialize [OF example_store_rows(1,2) e(1) run refl, of "[]" "[]" example_store _ "[]" "[]" example_store]
      acc by auto
  then show ?thesis using run oks acc by auto
qed

section \<open>Operation records over time\<close>

text \<open>
  Sequence numbers come from a counter that also failed transactions advance. While it has not wrapped,
  the numbers are positive, distinct and bounded by it.
\<close>

definition operations_inv :: "Store \<Rightarrow> bool" where
  "operations_inv s \<longleftrightarrow> wf_table (st_operations s) \<and>
     (\<forall>(k, r) \<in> set (st_operations s). k = op_id (or_Operation r) \<and> 0 < or_Sequence r \<and>
        or_Sequence r \<le> st_nextOperationSequence s) \<and>
     distinct (map (or_Sequence \<circ> snd) (st_operations s))"

inductive operations_step :: "Store \<Rightarrow> Store \<Rightarrow> bool" where
  create: "st_nextOperationSequence s \<noteq> - 1 \<Longrightarrow> operations_step s (snd (Within (CreateOperation r) s))"
| create_aborted: "st_nextOperationSequence s \<noteq> - 1 \<Longrightarrow>
    operations_step s (snd (Within (bindT (CreateOperation r) (\<lambda>_. throwT e :: unit tx)) s))"
| save: "operations_step s (snd (Within (SaveOperation r v) s))"
| other: "\<lbrakk>st_operations s' = st_operations s; st_nextOperationSequence s' = st_nextOperationSequence s\<rbrakk> \<Longrightarrow>
    operations_step s s'"

definition same_intent :: "Operation \<Rightarrow> Operation \<Rightarrow> bool" where
  "same_intent a b \<longleftrightarrow> op_id a = op_id b \<and> op_resourceID a = op_resourceID b \<and>
     op_capability a = op_capability b \<and> op_targetGeneration a = op_targetGeneration b \<and>
     op_requestedAt a = op_requestedAt b \<and> op_retryOf a = op_retryOf b"

lemma CreateOperation_cases:
  obtains (refused) e where "CreateOperation r s =
      (Inl e, s\<lparr>st_nextOperationSequence := st_nextOperationSequence s + 1\<rparr>)"
  | (created) r1 where "map_of (st_operations s) (op_id (or_Operation r)) = None"
      "or_Operation r1 = or_Operation r" "or_Sequence r1 = st_nextOperationSequence s + 1"
      "CreateOperation r s = (Inr (), s\<lparr>st_nextOperationSequence := st_nextOperationSequence s + 1,
         st_operations := put (op_id (or_Operation r)) r1 (st_operations s)\<rparr>)"
proof (cases "\<exists>e. CreateOperation r s =
    (Inl e, s\<lparr>st_nextOperationSequence := st_nextOperationSequence s + 1\<rparr>)")
  case False
  let ?r1 = "r\<lparr>or_Sequence := st_nextOperationSequence s + 1,
    or_Version := (if or_Version r = 0 then 1 else or_Version r)\<rparr>"
  have "map_of (st_operations s) (op_id (or_Operation r)) = None"
    using False by (rule contrapos_np) (simp add: CreateOperation_def Let_def)
  moreover have "CreateOperation r s = (Inr (), s\<lparr>st_nextOperationSequence := st_nextOperationSequence s + 1,
      st_operations := put (op_id (or_Operation r)) ?r1 (st_operations s)\<rparr>)"
    using False by (auto simp: CreateOperation_def Let_def split: if_splits)
  ultimately show ?thesis using created [of ?r1] by simp
qed (use refused in blast)

lemma SaveOperation_cases:
  obtains (refused) e where "SaveOperation r v s = (Inl e, s)"
  | (saved) cur new where "map_of (st_operations s) (op_id (or_Operation r)) = Some cur"
      "or_Operation new = or_Operation r" "or_Sequence new = or_Sequence cur"
      "op_id (or_Operation cur) = op_id (or_Operation r) \<longrightarrow> same_intent (or_Operation cur) (or_Operation r)"
      "\<not> IsTerminal (or_Operation cur)"
      "SaveOperation r v s = (Inr (), s\<lparr>st_operations := put (op_id (or_Operation r)) new (st_operations s)\<rparr>)"
proof (cases "\<exists>e. SaveOperation r v s = (Inl e, s)")
  case False
  then obtain cur where cur: "map_of (st_operations s) (op_id (or_Operation r)) = Some cur"
    "or_Version cur = v" "\<not> IsTerminal (or_Operation cur)"
    "op_id (or_Operation cur) = op_id (or_Operation r) \<longrightarrow> same_intent (or_Operation cur) (or_Operation r)"
    by (auto simp: SaveOperation_def Let_def same_intent_def split: option.splits if_splits)
  moreover have "SaveOperation r v s = (Inr (), s\<lparr>st_operations := put (op_id (or_Operation r))
      (r\<lparr>or_Sequence := or_Sequence cur, or_Version := v + 1\<rparr>) (st_operations s)\<rparr>)"
    using False cur(1) by (auto simp: SaveOperation_def Let_def split: if_splits)
  ultimately show ?thesis
    using saved [of cur "r\<lparr>or_Sequence := or_Sequence cur, or_Version := v + 1\<rparr>"] by simp
qed (use refused in blast)

text \<open>What one step does to the table of operations and the counter.\<close>

definition operations_effect :: "Store \<Rightarrow> Store \<Rightarrow> bool" where
  "operations_effect s s' \<longleftrightarrow>
     (st_operations s' = st_operations s \<and> (st_nextOperationSequence s' = st_nextOperationSequence s \<or>
        st_nextOperationSequence s \<noteq> - 1 \<and> st_nextOperationSequence s' = st_nextOperationSequence s + 1)) \<or>
     (st_nextOperationSequence s \<noteq> - 1 \<and> st_nextOperationSequence s' = st_nextOperationSequence s + 1 \<and>
      (\<exists>r. map_of (st_operations s) (op_id (or_Operation r)) = None \<and>
        or_Sequence r = st_nextOperationSequence s + 1 \<and>
        st_operations s' = put (op_id (or_Operation r)) r (st_operations s))) \<or>
     (st_nextOperationSequence s' = st_nextOperationSequence s \<and>
      (\<exists>k cur r. map_of (st_operations s) k = Some cur \<and> k = op_id (or_Operation r) \<and>
        or_Sequence r = or_Sequence cur \<and> \<not> IsTerminal (or_Operation cur) \<and>
        (op_id (or_Operation cur) = k \<longrightarrow> same_intent (or_Operation cur) (or_Operation r)) \<and>
        st_operations s' = put k r (st_operations s)))"

lemma operations_step_effect: "operations_step s s' \<Longrightarrow> operations_effect s s'"
proof (induction rule: operations_step.induct)
  case (create s r)
  show ?case
  proof (cases rule: CreateOperation_cases [of r s])
    case (created r1)
    then show ?thesis unfolding operations_effect_def Within_def
      by (intro disjI2 disjI1 conjI exI [of _ r1]) (simp_all add: create)
  qed (use create in \<open>simp add: operations_effect_def Within_def\<close>)
next
  case (create_aborted s r e)
  then show ?case
    by (cases rule: CreateOperation_cases [of r s])
      (auto simp: operations_effect_def Within_def bindT_def throwT_def)
next
  case (save s r v)
  show ?case
  proof (cases rule: SaveOperation_cases [of r v s])
    case (saved cur new)
    then show ?thesis unfolding operations_effect_def Within_def
      by (intro disjI2 conjI exI [of _ "op_id (or_Operation r)"] exI [of _ cur] exI [of _ new]) simp_all
  qed (simp add: operations_effect_def Within_def)
qed (simp add: operations_effect_def)

lemma operations_invI:
  assumes "wf_table (st_operations s)"
    and "\<And>k r. map_of (st_operations s) k = Some r \<Longrightarrow>
      k = op_id (or_Operation r) \<and> 0 < or_Sequence r \<and> or_Sequence r \<le> st_nextOperationSequence s"
    and "\<And>k r k' r'. \<lbrakk>map_of (st_operations s) k = Some r; map_of (st_operations s) k' = Some r';
      or_Sequence r = or_Sequence r'\<rbrakk> \<Longrightarrow> k = k'"
  shows "operations_inv s"
proof -
  note rows = wf_table_in_set_iff [OF assms(1)]
  have "inj_on (or_Sequence \<circ> snd) (set (st_operations s))"
  proof (rule inj_onI)
    fix x y assume xy: "x \<in> set (st_operations s)" "y \<in> set (st_operations s)"
      "(or_Sequence \<circ> snd) x = (or_Sequence \<circ> snd) y"
    then have r: "map_of (st_operations s) (fst x) = Some (snd x)" "map_of (st_operations s) (fst y) = Some (snd y)"
      using rows by (metis prod.collapse)+
    have "fst x = fst y" using assms(3) [OF r] xy(3) by simp
    then show "x = y" using r by (simp add: prod_eq_iff)
  qed
  moreover have "distinct (st_operations s)" using assms(1) by (simp add: distinct_map)
  ultimately have "distinct (map (or_Sequence \<circ> snd) (st_operations s))" by (simp only: distinct_map)
  moreover have "\<forall>(k, r) \<in> set (st_operations s). k = op_id (or_Operation r) \<and> 0 < or_Sequence r \<and>
      or_Sequence r \<le> st_nextOperationSequence s"
    using assms(2) rows by auto
  ultimately show ?thesis
    unfolding operations_inv_def using assms(1) by blast
qed

lemma operations_invD:
  assumes "operations_inv s" "map_of (st_operations s) k = Some r"
  shows "k = op_id (or_Operation r)" "0 < or_Sequence r" "or_Sequence r \<le> st_nextOperationSequence s"
  using assms map_of_SomeD [OF assms(2)] unfolding operations_inv_def by auto

lemma operations_inv_wf: "operations_inv s \<Longrightarrow> wf_table (st_operations s)"
  by (simp add: operations_inv_def)

lemma operations_inv_inj:
  assumes "operations_inv s" "map_of (st_operations s) k = Some r" "map_of (st_operations s) k' = Some r'"
    "or_Sequence r = or_Sequence r'"
  shows "k = k'"
proof -
  have "inj_on (or_Sequence \<circ> snd) (set (st_operations s))"
    using assms(1) unfolding operations_inv_def distinct_map by blast
  from inj_onD [OF this _ map_of_SomeD [OF assms(2)] map_of_SomeD [OF assms(3)]] assms(4)
  show ?thesis by simp
qed

lemma word_Suc_less: "n \<noteq> - 1 \<Longrightarrow> n < n + (1::uint64)"
proof -
  assume "n \<noteq> - 1"
  then have "n < - 1" by (simp only: word_order.not_eq_extremum)
  then show ?thesis by unat_arith
qed

lemma operations_effect_inv:
  assumes inv: "operations_inv s" and eff: "operations_effect s s'"
  shows "operations_inv s'"
  using eff unfolding operations_effect_def
proof (elim disjE conjE exE)
  assume "st_operations s' = st_operations s" "st_nextOperationSequence s \<noteq> - 1"
    "st_nextOperationSequence s' = st_nextOperationSequence s + 1"
  then show ?thesis using inv word_Suc_less [of "st_nextOperationSequence s"] unfolding operations_inv_def
    by (auto intro: order_trans less_imp_le)
next
  fix r
  assume n: "st_nextOperationSequence s \<noteq> - 1" "st_nextOperationSequence s' = st_nextOperationSequence s + 1"
    and r: "map_of (st_operations s) (op_id (or_Operation r)) = None" "or_Sequence r = st_nextOperationSequence s + 1"
      "st_operations s' = put (op_id (or_Operation r)) r (st_operations s)"
  have lt: "st_nextOperationSequence s < or_Sequence r" using word_Suc_less [OF n(1)] r(2) by simp
  have old: "or_Sequence c < or_Sequence r" if "map_of (st_operations s) k = Some c" for k c
    using operations_invD(3) [OF inv that] lt by simp
  show ?thesis
  proof (rule operations_invI, unfold r(3))
    show "wf_table (put (op_id (or_Operation r)) r (st_operations s))"
      using operations_inv_wf [OF inv] by simp
    show "k = op_id (or_Operation c) \<and> 0 < or_Sequence c \<and> or_Sequence c \<le> st_nextOperationSequence s'"
      if "map_of (put (op_id (or_Operation r)) r (st_operations s)) k = Some c" for k c
      using that operations_invD [OF inv, of k c] lt n(2) r(2) old [of k c]
      by (cases "k = op_id (or_Operation r)") (auto simp: word_gt_0)
    show "k = k'"
      if "map_of (put (op_id (or_Operation r)) r (st_operations s)) k = Some c"
        "map_of (put (op_id (or_Operation r)) r (st_operations s)) k' = Some c'" "or_Sequence c = or_Sequence c'" for k c k' c'
      using that operations_inv_inj [OF inv, of k c k' c'] old [of k c] old [of k' c'] by (auto split: if_splits)
  qed
next
  fix k cur r
  assume n: "st_nextOperationSequence s' = st_nextOperationSequence s"
    and r: "map_of (st_operations s) k = Some cur" "k = op_id (or_Operation r)" "or_Sequence r = or_Sequence cur"
      "st_operations s' = put k r (st_operations s)"
  show ?thesis
  proof (rule operations_invI, unfold r(4))
    show "wf_table (put k r (st_operations s))" using operations_inv_wf [OF inv] by simp
    show "j = op_id (or_Operation c) \<and> 0 < or_Sequence c \<and> or_Sequence c \<le> st_nextOperationSequence s'"
      if "map_of (put k r (st_operations s)) j = Some c" for j c
      using that operations_invD [OF inv, of j c] operations_invD [OF inv r(1)] n r(2,3)
      by (cases "j = k") auto
    show "j = j'"
      if "map_of (put k r (st_operations s)) j = Some c" "map_of (put k r (st_operations s)) j' = Some c'"
        "or_Sequence c = or_Sequence c'" for j c j' c'
      using that operations_inv_inj [OF inv] r(1,3) by (auto split: if_splits)
  qed
qed (use inv in \<open>simp add: operations_inv_def\<close>)

lemma operations_steps_inv:
  "\<lbrakk>operations_step\<^sup>*\<^sup>* s s'; operations_inv s\<rbrakk> \<Longrightarrow> operations_inv s'"
  by (induction rule: rtranclp_induct) (blast intro: operations_effect_inv operations_step_effect)+

lemma operations_inv_NewStore: "operations_inv NewStore"
  by (simp add: operations_inv_def NewStore_def)

lemma operations_effect_keeps:
  assumes "operations_inv s" "operations_effect s s'" "map_of (st_operations s) oid = Some r"
  shows "\<exists>r'. map_of (st_operations s') oid = Some r' \<and> same_intent (or_Operation r) (or_Operation r') \<and>
    or_Sequence r' = or_Sequence r \<and> (IsTerminal (or_Operation r) \<longrightarrow> r' = r)"
  using assms(2) unfolding operations_effect_def
proof (elim disjE conjE exE)
  fix k cur new
  assume new: "map_of (st_operations s) k = Some cur" "or_Sequence new = or_Sequence cur"
    "\<not> IsTerminal (or_Operation cur)" "op_id (or_Operation cur) = k \<longrightarrow> same_intent (or_Operation cur) (or_Operation new)"
    "st_operations s' = put k new (st_operations s)"
  have "op_id (or_Operation cur) = k" using operations_invD(1) [OF assms(1) new(1)] by simp
  then show ?thesis
    using new assms(3) by (cases "oid = k") (auto simp: same_intent_def)
qed (use assms(3) in \<open>auto simp: same_intent_def\<close>)

lemma same_intent_trans: "\<lbrakk>same_intent a b; same_intent b c\<rbrakk> \<Longrightarrow> same_intent a c"
  by (simp add: same_intent_def)

text \<open>
  The history of Operations is append-only. Whatever transactions run, committed or aborted, an
  Operation once stored stays stored with the same identity, Resource, capability, target generation,
  request time, retry source and sequence number; once terminal its record never changes again; and
  all sequence numbers are positive, distinct and bounded by the counter, which aborted transactions
  do not turn back.
\<close>
theorem operation_history_append_only:
  assumes "operations_step\<^sup>*\<^sup>* NewStore s" "operations_step\<^sup>*\<^sup>* s s'" "map_of (st_operations s) oid = Some r"
  shows "operations_inv s' \<and> (\<exists>r'. map_of (st_operations s') oid = Some r' \<and>
    same_intent (or_Operation r) (or_Operation r') \<and> or_Sequence r' = or_Sequence r \<and>
    (IsTerminal (or_Operation r) \<longrightarrow> r' = r))"
  using assms(2)
proof (induction rule: rtranclp_induct)
  case base
  then show ?case
    using operations_steps_inv [OF assms(1) operations_inv_NewStore] assms(3) by (auto simp: same_intent_def)
next
  case (step s1 s2)
  then obtain r1 where r1: "map_of (st_operations s1) oid = Some r1"
    "same_intent (or_Operation r) (or_Operation r1)" "or_Sequence r1 = or_Sequence r"
    "IsTerminal (or_Operation r) \<longrightarrow> r1 = r" and inv: "operations_inv s1" by blast
  have eff: "operations_effect s1 s2" by (rule operations_step_effect [OF step.hyps(2)])
  obtain r2 where "map_of (st_operations s2) oid = Some r2"
    "same_intent (or_Operation r1) (or_Operation r2)" "or_Sequence r2 = or_Sequence r1"
    "IsTerminal (or_Operation r1) \<longrightarrow> r2 = r1"
    using operations_effect_keeps [OF inv eff r1(1)] by blast
  then show ?case
    using operations_effect_inv [OF inv eff] r1 same_intent_trans by auto
qed

definition example_history :: Store where
  "example_history = snd (Within (CreateOperation (example_operation_record ''op-2''))
     (snd (Within (CreateOperation (example_operation_record ''op-1'')) NewStore)))"

lemma example_history_reachable: "operations_step\<^sup>*\<^sup>* NewStore example_history"
proof -
  have n: "st_nextOperationSequence NewStore \<noteq> - 1"
    "st_nextOperationSequence (snd (Within (CreateOperation (example_operation_record ''op-1'')) NewStore)) \<noteq> - 1"
    by (simp_all add: NewStore_def Within_def CreateOperation_def Let_def example_operation_record_def
        example_operation_def)
  show ?thesis
    unfolding example_history_def
    by (rule rtranclp.rtrancl_into_rtrancl, rule rtranclp.rtrancl_into_rtrancl, rule rtranclp.rtrancl_refl)
      (rule operations_step.create, rule n)+
qed

lemma example_history_row:
  "map_of (st_operations example_history) ''op-1'' =
     Some ((example_operation_record ''op-1'')\<lparr>or_Sequence := 1, or_Version := 1\<rparr>)"
  by (simp add: example_history_def NewStore_def Within_def CreateOperation_def Let_def
      example_operation_record_def example_operation_def)

theorem operation_history_append_only_witness:
  "operations_inv example_history \<and> (\<exists>r. map_of (st_operations example_history) ''op-1'' = Some r \<and> or_Sequence r = 1)"
  using operation_history_append_only [OF example_history_reachable rtranclp.rtrancl_refl example_history_row] by auto

section \<open>Keyset pages\<close>

text \<open>
  Both histories are read in pages that go backwards from a cursor, the sequence number of the last
  row returned. The contract of such a reader, and what a client that follows the cursors collects.
\<close>

fun follow :: "nat \<Rightarrow> (uint64 \<Rightarrow> ('a list \<times> uint64) option) \<Rightarrow> uint64 \<Rightarrow> 'a list option" where
  "follow 0 page cursor = None"
| "follow (Suc fuel) page cursor =
     (case page cursor of
        None \<Rightarrow> None
      | Some (items, next_cursor) \<Rightarrow>
          if next_cursor = 0 then Some items
          else map_option (\<lambda>rest. items @ rest) (follow fuel page next_cursor))"

locale keyset_pages =
  fixes valid :: "'s \<Rightarrow> bool" and rows :: "'s \<Rightarrow> 'a list" and seq :: "'a \<Rightarrow> uint64"
    and page :: "'s \<Rightarrow> nat \<Rightarrow> uint64 \<Rightarrow> ('a list \<times> uint64) option"
  assumes rows_descending: "valid s \<Longrightarrow> sorted_wrt (\<lambda>a b. seq b < seq a) (rows s)"
    and seq_positive: "\<lbrakk>valid s; r \<in> set (rows s)\<rbrakk> \<Longrightarrow> seq r \<noteq> 0"
    and page_rows: "\<lbrakk>valid s; 0 < n; rest = filter (\<lambda>r. cursor = 0 \<or> seq r < cursor) (rows s)\<rbrakk> \<Longrightarrow>
      page s n cursor = Some (take n rest, if n < length rest then seq (last (take n rest)) else 0)"
begin

lemma follow_suffix:
  assumes v: "valid s" and n: "0 < n" and split: "rows s = done @ rest"
    and cursor: "filter (\<lambda>r. cursor = 0 \<or> seq r < cursor) (rows s) = rest" and fuel: "length rest < fuel"
  shows "follow fuel (page s n) cursor = Some rest"
  using split cursor fuel
proof (induction fuel arbitrary: cursor "done" rest)
  case (Suc fuel)
  let ?items = "take n rest"
  have pg: "page s n cursor = Some (?items, if n < length rest then seq (last ?items) else 0)"
    using page_rows [OF v n Suc.prems(2) [symmetric]] .
  show ?case
  proof (cases "n < length rest")
    case False
    then show ?thesis by (simp add: pg)
  next
    case True
    have ne: "?items \<noteq> []" using n True by auto
    define c where "c = seq (last ?items)"
    have last_in: "last ?items \<in> set (rows s)"
      using last_in_set [OF ne] set_take_subset [of n rest] by (auto simp: Suc.prems(1))
    have c0: "c \<noteq> 0" unfolding c_def by (rule seq_positive [OF v last_in])
    have eq: "rows s = (done @ ?items) @ drop n rest" by (simp add: Suc.prems(1))
    have sorted: "sorted_wrt (\<lambda>a b. seq b < seq a) ((done @ butlast ?items) @ last ?items # drop n rest)"
      using rows_descending [OF v] unfolding eq using append_butlast_last_id [OF ne] by (metis append.assoc append_Cons append_Nil)
    have "filter (\<lambda>r. c = 0 \<or> seq r < c) (rows s) = drop n rest"
    proof -
      have rw: "rows s = (done @ butlast ?items) @ last ?items # drop n rest"
        unfolding eq using append_butlast_last_id [OF ne] by (metis append.assoc append_Cons append_Nil)
      have "\<forall>a \<in> set (done @ butlast ?items). \<not> seq a < c" "\<forall>b \<in> set (drop n rest). seq b < c"
        using sorted unfolding sorted_wrt_append c_def by (auto intro: less_asym)
      then show ?thesis
        unfolding rw using c0 by (simp add: filter_True filter_False c_def)
    qed
    from Suc.IH [OF eq this] have "follow fuel (page s n) c = Some (drop n rest)"
      using Suc.prems(3) n True by simp
    then show ?thesis using True c0 by (simp add: pg flip: c_def)
  qed
qed simp

lemma follow_all:
  assumes "valid s" "0 < n" "length (rows s) < fuel"
  shows "follow fuel (page s n) 0 = Some (rows s)"
  by (rule follow_suffix [OF assms(1,2), of "[]"]) (simp_all add: assms(3))

end

end
