(* ===== verification/Paging.thy ===== *)
theory Paging
  imports Store
begin

text \<open>
  The two paged readers of the store, \<^verbatim>\<open>PageForResource\<close> and \<^verbatim>\<open>ListResources\<close> of
  \<^verbatim>\<open>src/internal/application/fake/store.go\<close>, as instances of the keyset contract: a client that
  follows the cursors sees every row it is allowed to see exactly once, newest first.
\<close>

section \<open>Generic facts on sorted rows\<close>

lemma descending_rows:
  fixes f :: "'a \<Rightarrow> uint64"
  assumes "distinct (map f xs)"
  shows "sorted_wrt (\<lambda>a b. f b < f a) (rev (sort_key f xs))"
proof -
  have "mset (map f (sort_key f xs)) = mset (map f xs)" by simp
  then have "distinct (map f (sort_key f xs))" using assms by (metis mset_eq_imp_distinct_iff)
  then have "sorted_wrt (<) (map f (sort_key f xs))" by (simp add: strict_sorted_iff)
  then show ?thesis by (simp add: sorted_wrt_rev sorted_wrt_map)
qed

lemma filter_rev_sort_key: "filter P (rev (sort_key f xs)) = rev (sort_key f (filter P xs))"
  by (simp add: filter_sort rev_filter flip: rev_filter)

lemma distinct_map_filter_rows: "distinct (map f xs) \<Longrightarrow> distinct (map f (filter P xs))"
  by (simp add: distinct_map_filter)

lemma put_keyed:
  "\<lbrakk>\<forall>(j, c) \<in> set t. j = key c; k = key v\<rbrakk> \<Longrightarrow> \<forall>(j, c) \<in> set (put k v t). j = key c"
  by (induction t) auto

section \<open>Pages of the operation history\<close>

definition operation_rows :: "resource_id \<Rightarrow> Store \<Rightarrow> OperationRecord list" where
  "operation_rows rid s = rev (sort_key or_Sequence
     (filter (\<lambda>r. op_resourceID (or_Operation r) = rid) (map snd (st_operations s))))"

definition operation_page :: "resource_id \<Rightarrow> Store \<Rightarrow> nat \<Rightarrow> uint64 \<Rightarrow> (OperationRecord list \<times> uint64) option" where
  "operation_page rid s n cursor =
     (case fst (PageForResource rid cursor (int n) s) of
        Inl _ \<Rightarrow> None | Inr p \<Rightarrow> Some (opg_Records p, opg_NextSequence p))"

lemma operation_rows_filter:
  "filter (\<lambda>r. cursor = 0 \<or> or_Sequence r < cursor) (operation_rows rid s) = rev (sort_key or_Sequence
     (filter (\<lambda>r. op_resourceID (or_Operation r) = rid \<and> (cursor = 0 \<or> or_Sequence r < cursor))
        (map snd (st_operations s))))"
  unfolding operation_rows_def filter_rev_sort_key filter_filter by (simp add: conj_commute)

lemma operation_page_rows:
  assumes "0 < n" "rest = filter (\<lambda>r. cursor = 0 \<or> or_Sequence r < cursor) (operation_rows rid s)"
  shows "operation_page rid s n cursor =
    Some (take n rest, if n < length rest then or_Sequence (last (take n rest)) else 0)"
  using assms(1) unfolding assms(2) operation_rows_filter operation_page_def PageForResource_def readT_def Let_def
  by simp

interpretation operation_pages: keyset_pages operations_inv "operation_rows rid" or_Sequence "operation_page rid" for rid
proof
  fix s assume inv: "operations_inv s"
  have "distinct (map or_Sequence (map snd (st_operations s)))"
    using inv by (simp add: operations_inv_def)
  then show "sorted_wrt (\<lambda>a b. or_Sequence b < or_Sequence a) (operation_rows rid s)"
    unfolding operation_rows_def by (intro descending_rows distinct_map_filter_rows)
  show "or_Sequence r \<noteq> 0" if "r \<in> set (operation_rows rid s)" for r
    using that inv unfolding operation_rows_def operations_inv_def by auto
qed (rule operation_page_rows)

section \<open>Pages of the resource inventory\<close>

definition sequence_of :: "Store \<Rightarrow> resource_id \<Rightarrow> uint64" where
  "sequence_of s rid = (case map_of (st_resourceSequences s) rid of None \<Rightarrow> 0 | Some n \<Rightarrow> n)"

definition resources_inv :: "Store \<Rightarrow> bool" where
  "resources_inv s \<longleftrightarrow> wf_table (st_resources s) \<and>
     (\<forall>(k, r) \<in> set (st_resources s). k = resource_id (rr_Resource r)) \<and>
     (\<forall>k \<in> fst ` set (st_resources s). 0 < sequence_of s k \<and> sequence_of s k \<le> st_nextResourceSequence s) \<and>
     inj_on (sequence_of s) (fst ` set (st_resources s))"

lemma resources_inv_create:
  assumes inv: "resources_inv s" and n: "st_nextResourceSequence s \<noteq> - 1"
  shows "resources_inv (snd (CreateResource r s))"
proof (cases "map_of (st_resources s) (resource_id (rr_Resource r))")
  case None
  let ?k = "resource_id (rr_Resource r)" and ?n = "st_nextResourceSequence s + 1"
  define r1 where "r1 = (if rr_Version r = 0 then r\<lparr>rr_Version := 1\<rparr> else r)"
  define s' where "s' = snd (CreateResource r s)"
  have s': "st_resources s' = put ?k r1 (st_resources s)" "st_nextResourceSequence s' = ?n"
    "st_resourceSequences s' = put ?k ?n (st_resourceSequences s)"
    using None by (simp_all add: s'_def CreateResource_def r1_def Let_def)
  have k: "?k \<notin> fst ` set (st_resources s)" using None by (simp add: map_of_eq_None_iff)
  have keys: "fst ` set (st_resources s') = insert ?k (fst ` set (st_resources s))"
    by (simp add: s'(1) dom_update)
  have seq: "sequence_of s' j = (if j = ?k then ?n else sequence_of s j)" for j
    by (simp add: sequence_of_def s'(3))
  have lt: "st_nextResourceSequence s < ?n" by (rule word_Suc_less [OF n])
  have old: "0 < sequence_of s j \<and> sequence_of s j \<le> st_nextResourceSequence s" if "j \<in> fst ` set (st_resources s)" for j
    using inv that unfolding resources_inv_def by blast
  have "inj_on (sequence_of s') (insert ?k (fst ` set (st_resources s)))"
  proof (unfold inj_on_insert, intro conjI)
    have "inj_on (sequence_of s) (fst ` set (st_resources s))" using inv by (simp add: resources_inv_def)
    moreover have "sequence_of s' j = sequence_of s j" if "j \<in> fst ` set (st_resources s)" for j
      using that k seq [of j] by metis
    ultimately show "inj_on (sequence_of s') (fst ` set (st_resources s))" by (simp only: inj_on_def) metis
    show "sequence_of s' ?k \<notin> sequence_of s' ` (fst ` set (st_resources s) - {?k})"
    proof
      assume "sequence_of s' ?k \<in> sequence_of s' ` (fst ` set (st_resources s) - {?k})"
      then obtain j where "j \<in> fst ` set (st_resources s)" "?n = sequence_of s j" by (auto simp: seq)
      then show False using old lt by force
    qed
  qed
  moreover have "wf_table (st_resources s')" using inv by (simp add: s'(1) resources_inv_def)
  moreover have "\<forall>(j, c) \<in> set (st_resources s'). j = resource_id (rr_Resource c)"
    unfolding s'(1) by (rule put_keyed) (use inv in \<open>simp_all add: resources_inv_def r1_def\<close>)
  moreover have "0 < ?n" by (rule order.strict_trans1 [OF word_zero_le lt])
  moreover have "0 < sequence_of s' j \<and> sequence_of s' j \<le> st_nextResourceSequence s'"
    if "j \<in> insert ?k (fst ` set (st_resources s))" for j
    using that old [of j] lt \<open>0 < ?n\<close> by (cases "j = ?k") (auto simp: seq s'(2))
  ultimately have "resources_inv s'"
    unfolding resources_inv_def keys by blast
  then show ?thesis by (simp add: s'_def)
qed (use inv in \<open>simp add: CreateResource_def Let_def\<close>)

lemma SaveResource_cases:
  obtains (refused) e where "SaveResource r v s = (Inl e, s)"
  | (saved) cur where "map_of (st_resources s) (resource_id (rr_Resource r)) = Some cur"
      "resource_owner (rr_Resource cur) = resource_owner (rr_Resource r)"
      "SaveResource r v s = (Inr (), s\<lparr>st_resources :=
         put (resource_id (rr_Resource r)) (r\<lparr>rr_Version := v + 1\<rparr>) (st_resources s)\<rparr>)"
proof (cases "\<exists>e. SaveResource r v s = (Inl e, s)")
  case False
  then obtain cur where cur: "map_of (st_resources s) (resource_id (rr_Resource r)) = Some cur"
    "resource_owner (rr_Resource cur) = resource_owner (rr_Resource r)" "rr_Version cur = v"
    by (auto simp: SaveResource_def Let_def split: option.splits if_splits)
  then show ?thesis using saved [of cur] by (simp add: SaveResource_def Let_def)
qed (use refused in blast)

lemma resources_inv_save:
  assumes inv: "resources_inv s"
  shows "resources_inv (snd (SaveResource r v s))"
proof (cases rule: SaveResource_cases [of r v s])
  case (saved cur)
  let ?k = "resource_id (rr_Resource r)"
  define s' where "s' = snd (SaveResource r v s)"
  have s': "st_resources s' = put ?k (r\<lparr>rr_Version := v + 1\<rparr>) (st_resources s)"
    "st_nextResourceSequence s' = st_nextResourceSequence s" "sequence_of s' = sequence_of s"
    using saved(3) by (simp_all add: s'_def sequence_of_def fun_eq_iff)
  have "?k \<in> fst ` set (st_resources s)" using map_of_SomeD [OF saved(1)] by force
  then have keys: "fst ` set (st_resources s') = fst ` set (st_resources s)"
    by (simp add: s'(1) dom_update insert_absorb)
  have wf: "wf_table (st_resources s')" using inv by (simp add: s'(1) resources_inv_def)
  have "\<forall>(j, c) \<in> set (st_resources s'). j = resource_id (rr_Resource c)"
    unfolding s'(1) by (rule put_keyed) (use inv in \<open>simp_all add: resources_inv_def\<close>)
  then have "resources_inv s'"
    using inv wf unfolding resources_inv_def keys s'(2,3) by blast
  then show ?thesis by (simp add: s'_def)
qed (use inv in simp)

inductive resources_step :: "Store \<Rightarrow> Store \<Rightarrow> bool" where
  create: "st_nextResourceSequence s \<noteq> - 1 \<Longrightarrow> resources_step s (snd (CreateResource r s))"
| save: "resources_step s (snd (SaveResource r v s))"
| other: "\<lbrakk>st_resources s' = st_resources s; st_resourceSequences s' = st_resourceSequences s;
    st_nextResourceSequence s \<le> st_nextResourceSequence s'\<rbrakk> \<Longrightarrow> resources_step s s'"

lemma resources_steps_inv:
  "\<lbrakk>resources_step\<^sup>*\<^sup>* s s'; resources_inv s\<rbrakk> \<Longrightarrow> resources_inv s'"
proof (induction rule: rtranclp_induct)
  case (step s1 s2)
  from step.hyps(2) step.IH [OF step.prems] show ?case
  proof (cases rule: resources_step.cases)
    case other
    then show ?thesis using step.IH [OF step.prems] unfolding resources_inv_def sequence_of_def by fastforce
  qed (simp_all add: resources_inv_create resources_inv_save)
qed

lemma resources_reachable_inv: "resources_step\<^sup>*\<^sup>* NewStore s \<Longrightarrow> resources_inv s"
  by (erule resources_steps_inv) (simp add: resources_inv_def NewStore_def)

definition inventory_rows :: "ResourceListQuery \<Rightarrow> Store \<Rightarrow> ResourceInventoryItem list" where
  "inventory_rows query s = rev (sort_key ii_Sequence (map (inventory_item s)
     (filter (inventory_match (query\<lparr>q_AfterSequence := 0\<rparr>) s) (st_resources s))))"

definition inventory_page ::
    "ResourceListQuery \<Rightarrow> Store \<Rightarrow> nat \<Rightarrow> uint64 \<Rightarrow> (ResourceInventoryItem list \<times> uint64) option" where
  "inventory_page query s n cursor =
     (case fst (ListResources (query\<lparr>q_AfterSequence := cursor, q_Limit := int n\<rparr>) s) of
        Inl _ \<Rightarrow> None | Inr p \<Rightarrow> Some (ip_Items p, ip_NextSequence p))"

lemma inventory_item_sequence [simp]: "ii_Sequence (inventory_item s row) = sequence_of s (fst row)"
  by (simp add: inventory_item_def Let_def sequence_of_def)

lemma inventory_match_cursor:
  "inventory_match (query\<lparr>q_AfterSequence := cursor, q_Limit := n\<rparr>) s row \<longleftrightarrow>
     inventory_match (query\<lparr>q_AfterSequence := 0\<rparr>) s row \<and> (cursor = 0 \<or> sequence_of s (fst row) < cursor)"
  by (simp add: inventory_match_def Let_def sequence_of_def)

lemma inventory_rows_filter:
  "filter (\<lambda>r. cursor = 0 \<or> ii_Sequence r < cursor) (inventory_rows query s) =
     rev (sort_key ii_Sequence (map (inventory_item s)
       (filter (inventory_match (query\<lparr>q_AfterSequence := cursor, q_Limit := n\<rparr>) s) (st_resources s))))"
  unfolding inventory_rows_def filter_rev_sort_key filter_map filter_filter inventory_match_cursor
  by (simp add: comp_def conj_commute)

lemma inventory_page_rows:
  assumes "0 < n" "rest = filter (\<lambda>r. cursor = 0 \<or> ii_Sequence r < cursor) (inventory_rows query s)"
  shows "inventory_page query s n cursor =
    Some (take n rest, if n < length rest then ii_Sequence (last (take n rest)) else 0)"
proof (cases "\<not> q_Unrestricted query \<and> q_AllowedOwners query = []")
  case True
  then have "rest = []" unfolding assms(2) inventory_rows_def by (simp add: inventory_match_def Let_def)
  then show ?thesis using True assms(1) by (simp add: inventory_page_def ListResources_def readT_def)
next
  case False
  then have guard: "(\<not> q_Unrestricted query \<and> q_AllowedOwners query = []) = False" by simp
  show ?thesis
    using assms(1) unfolding assms(2) inventory_rows_filter [where n = "int n"] inventory_page_def ListResources_def readT_def Let_def
    by (simp add: guard)
qed

interpretation inventory_pages: keyset_pages resources_inv "inventory_rows query" ii_Sequence "inventory_page query" for query
proof
  fix s assume inv: "resources_inv s"
  have "inj_on (sequence_of s \<circ> fst) (set (st_resources s))"
    using inv unfolding resources_inv_def by (metis comp_inj_on distinct_map)
  then have "distinct (map (\<lambda>row. sequence_of s (fst row)) (st_resources s))"
    using inv unfolding resources_inv_def distinct_map comp_def by blast
  then have "distinct (map (ii_Sequence \<circ> inventory_item s)
      (filter (inventory_match (query\<lparr>q_AfterSequence := 0\<rparr>) s) (st_resources s)))"
    unfolding comp_def inventory_item_sequence by (rule distinct_map_filter_rows)
  then show "sorted_wrt (\<lambda>a b. ii_Sequence b < ii_Sequence a) (inventory_rows query s)"
    unfolding inventory_rows_def by (intro descending_rows) simp
  show "ii_Sequence r \<noteq> 0" if "r \<in> set (inventory_rows query s)" for r
    using that inv unfolding inventory_rows_def resources_inv_def by (force simp: word_gt_0)
qed (rule inventory_page_rows)

section \<open>What a client of the pages sees\<close>

lemma operation_rows_length: "length (operation_rows rid s) \<le> length (st_operations s)"
  unfolding operation_rows_def using length_filter_le [of _ "map snd (st_operations s)"] by simp

lemma operation_rows_set:
  assumes "operations_inv s"
  shows "set (operation_rows rid s) =
    {r. op_resourceID (or_Operation r) = rid \<and> map_of (st_operations s) (op_id (or_Operation r)) = Some r}"
proof -
  have "r \<in> snd ` set (st_operations s) \<longleftrightarrow> map_of (st_operations s) (op_id (or_Operation r)) = Some r" for r
  proof
    assume "r \<in> snd ` set (st_operations s)"
    then obtain k where "map_of (st_operations s) k = Some r"
      using wf_table_in_set_iff [OF operations_inv_wf [OF assms]] by force
    with operations_invD(1) [OF assms this] show "map_of (st_operations s) (op_id (or_Operation r)) = Some r" by simp
  qed (force dest: map_of_SomeD)
  then show ?thesis unfolding operation_rows_def by auto
qed

text \<open>
  C36: Following the cursors of the operation history loses nothing and repeats nothing. For any page
  size, a client that starts without a cursor and follows the returned ones terminates after at most
  one request per stored Operation plus one, and has then collected exactly the Operations of that
  Resource, in strictly decreasing sequence order.
\<close>
theorem operation_pages_complete:
  assumes "operations_step\<^sup>*\<^sup>* NewStore s" "0 < n" "length (st_operations s) < fuel"
  shows "\<exists>records. follow fuel (operation_page rid s n) 0 = Some records \<and>
    sorted_wrt (\<lambda>a b. or_Sequence b < or_Sequence a) records \<and>
    set records = {r. op_resourceID (or_Operation r) = rid \<and>
      map_of (st_operations s) (op_id (or_Operation r)) = Some r}"
proof -
  have inv: "operations_inv s" by (rule operations_steps_inv [OF assms(1) operations_inv_NewStore])
  have "length (operation_rows rid s) < fuel" using operation_rows_length [of rid s] assms(3) by simp
  from operation_pages.follow_all [OF inv assms(2) this] operation_pages.rows_descending [OF inv]
    operation_rows_set [OF inv] show ?thesis by blast
qed

theorem operation_pages_complete_witness:
  "\<exists>records. follow 3 (operation_page ''res-1'' example_history 1) 0 = Some records \<and>
     {r. op_resourceID (or_Operation r) = ''res-1'' \<and>
       map_of (st_operations example_history) (op_id (or_Operation r)) = Some r} = set records"
proof -
  have "length (st_operations example_history) < 3"
    by (simp add: example_history_def NewStore_def Within_def CreateOperation_def Let_def
        example_operation_record_def example_operation_def)
  from operation_pages_complete [OF example_history_reachable zero_less_one this, of "''res-1''"]
  show ?thesis by auto
qed

lemma inventory_rows_length: "length (inventory_rows query s) \<le> length (st_resources s)"
  unfolding inventory_rows_def by simp

lemma inventory_rows_set:
  assumes "resources_inv s"
  shows "set (inventory_rows query s) = {inventory_item s (rid, r) | rid r. map_of (st_resources s) rid = Some r \<and>
      inventory_match (query\<lparr>q_AfterSequence := 0\<rparr>) s (rid, r)}"
proof -
  have "wf_table (st_resources s)" using assms by (simp add: resources_inv_def)
  from wf_table_in_set_iff [OF this] show ?thesis unfolding inventory_rows_def by force
qed

lemma inventory_rows_confined:
  assumes "resources_inv s" "item \<in> set (inventory_rows query s)"
  shows "(q_Unrestricted query \<or> ii_Owner item \<in> set (q_AllowedOwners query)) \<and>
    (ii_State item = ResourceStateDeleted \<longrightarrow> q_IncludeDeleted query) \<and>
    (\<exists>r. map_of (st_resources s) (ii_ID item) = Some r)"
proof -
  have "k = resource_id (rr_Resource r)" if "map_of (st_resources s) k = Some r" for k r
    using assms(1) map_of_SomeD [OF that] unfolding resources_inv_def by blast
  then show ?thesis
    using assms(2) unfolding inventory_rows_set [OF assms(1)] by (auto simp: inventory_match_def inventory_item_def Let_def)
qed

text \<open>
  The inventory shows a caller exactly what the query allows. For any page size, following the
  cursors terminates and collects, newest first and each once, exactly the stored Resources whose
  owner is visible to the caller and that pass the filters; no item of an owner outside the allowed
  set appears unless the query is unrestricted, and no deleted Resource unless asked for.
\<close>
theorem inventory_pages_complete_and_confined:
  assumes "resources_step\<^sup>*\<^sup>* NewStore s" "0 < n" "length (st_resources s) < fuel"
  shows "\<exists>items. follow fuel (inventory_page query s n) 0 = Some items \<and>
    sorted_wrt (\<lambda>a b. ii_Sequence b < ii_Sequence a) items \<and>
    set items = {inventory_item s (rid, r) | rid r. map_of (st_resources s) rid = Some r \<and>
      inventory_match (query\<lparr>q_AfterSequence := 0\<rparr>) s (rid, r)} \<and>
    (\<forall>item \<in> set items. (q_Unrestricted query \<or> ii_Owner item \<in> set (q_AllowedOwners query)) \<and>
      (ii_State item = ResourceStateDeleted \<longrightarrow> q_IncludeDeleted query) \<and>
      (\<exists>r. map_of (st_resources s) (ii_ID item) = Some r))"
proof -
  have inv: "resources_inv s" by (rule resources_reachable_inv [OF assms(1)])
  have len: "length (inventory_rows query s) < fuel"
    using inventory_rows_length [of query s] assms(3) by simp
  from inventory_pages.follow_all [OF inv assms(2) len] inventory_pages.rows_descending [OF inv]
    inventory_rows_set [OF inv, of query] inventory_rows_confined [OF inv]
  show ?thesis by blast
qed

definition example_inventory :: Store where
  "example_inventory = snd (CreateResource (example_resource_record ''res-2'' ResourceStateDeleted)
     (snd (CreateResource (example_resource_record ''res-1'' ResourceStateReady) NewStore)))"

definition example_query :: ResourceListQuery where
  "example_query = \<lparr>q_AllowedOwners = [\<lparr>owner_Kind = ''team'', owner_ID = ''t1''\<rparr>], q_Unrestricted = False,
     q_OwnerFilter = None, q_TypeName = '''', q_TypeVersion = '''', q_StateFilter = None,
     q_IncludeDeleted = False, q_AfterSequence = 0, q_Limit = 10\<rparr>"

lemma example_inventory_reachable: "resources_step\<^sup>*\<^sup>* NewStore example_inventory"
proof -
  have n: "st_nextResourceSequence NewStore \<noteq> - 1"
    "st_nextResourceSequence (snd (CreateResource (example_resource_record ''res-1'' ResourceStateReady) NewStore)) \<noteq> - 1"
    by (simp_all add: NewStore_def CreateResource_def Let_def example_resource_record_def)
  show ?thesis
    unfolding example_inventory_def
    by (rule rtranclp.rtrancl_into_rtrancl, rule rtranclp.rtrancl_into_rtrancl, rule rtranclp.rtrancl_refl)
      (rule resources_step.create, rule n)+
qed

theorem inventory_pages_complete_and_confined_witness:
  "\<exists>items. follow 3 (inventory_page example_query example_inventory 1) 0 = Some items \<and>
     (\<forall>item \<in> set items. ii_State item \<noteq> ResourceStateDeleted)"
proof -
  have "length (st_resources example_inventory) < 3"
    by (simp add: example_inventory_def NewStore_def CreateResource_def Let_def example_resource_record_def)
  from inventory_pages_complete_and_confined [OF example_inventory_reachable zero_less_one this, of example_query]
  show ?thesis by (auto simp: example_query_def)
qed

end
