(* ===== verification/Outbox.thy ===== *)
theory Outbox
  imports Store
begin

text \<open>
  The durable work queue: the message constructors of \<^verbatim>\<open>src/internal/application/work.go\<close> and the
  outbox methods of \<^verbatim>\<open>src/internal/application/fake/store.go\<close>: enqueueing with deduplication and a
  single active row per aggregate, leases fenced by token and expiry, retry, completion and
  quarantine. The theorems show that the queue keeps its uniqueness invariant, that the outcome of a
  lease is decided by whoever holds it, and that finished work is never claimed again.
\<close>

section \<open>Message constructors\<close>

definition work_message ::
    "OutboxKind \<Rightarrow> operation_id \<Rightarrow> resource_id \<Rightarrow> uint64 \<Rightarrow> string \<Rightarrow> uint64 \<Rightarrow> uint64 \<Rightarrow> OutboxMessage" where
  "work_message kind oid rid attempt key expectedVersion sequence =
     \<lparr>msg_ID = key, msg_Kind = kind, msg_OperationID = oid, msg_ResourceID = rid,
      msg_AttemptNumber = attempt, msg_DedupeKey = key, msg_ExpectedVersion = expectedVersion,
      msg_Sequence = sequence, msg_PayloadVersion = 1, msg_Payload = ''{}'', msg_State = OutboxPending,
      msg_Delay = 0, msg_AvailableAt = 0, msg_CreatedAt = 0, msg_LeaseToken = '''', msg_LeasedUntil = 0,
      msg_AttemptCount = 0, msg_LastError = '''', msg_TerminalReason = ''''\<rparr>"

definition DriveMessage :: "operation_id \<Rightarrow> uint64 \<Rightarrow> OutboxMessage" where
  "DriveMessage operationID expectedVersion =
     work_message OutboxDrive operationID '''' 0
       (''drive:'' @ operationID @ '':'' @ decimal64 expectedVersion) expectedVersion 0"

definition DispatchMessage :: "operation_id \<Rightarrow> uint64 \<Rightarrow> uint64 \<Rightarrow> OutboxMessage" where
  "DispatchMessage operationID attemptNumber expectedVersion =
     work_message OutboxDispatch operationID '''' attemptNumber
       (''dispatch:'' @ operationID @ '':'' @ decimal64 attemptNumber) expectedVersion 0"

definition ObserveMessage :: "operation_id \<Rightarrow> uint64 \<Rightarrow> uint64 \<Rightarrow> OutboxMessage" where
  "ObserveMessage operationID sequence expectedVersion =
     work_message OutboxObserve operationID '''' 0
       (''observe:'' @ operationID @ '':'' @ decimal64 sequence) expectedVersion sequence"

definition PassiveObserveMessage :: "resource_id \<Rightarrow> uint64 \<Rightarrow> uint64 \<Rightarrow> OutboxMessage" where
  "PassiveObserveMessage resourceID sequence expectedVersion =
     work_message OutboxPassiveObserve '''' resourceID 0
       (''passive-observe:'' @ resourceID @ '':'' @ decimal64 sequence) expectedVersion sequence"

definition WakeDependentsMessage :: "resource_id \<Rightarrow> uint64 \<Rightarrow> OutboxMessage" where
  "WakeDependentsMessage resourceID targetVersion =
     work_message OutboxWakeDependents '''' resourceID 0
       (''wake-dependents:'' @ resourceID @ '':'' @ decimal64 targetVersion) targetVersion 0"

section \<open>Enqueueing\<close>

definition active_work :: "OutboxMessage \<Rightarrow> bool" where
  "active_work message \<longleftrightarrow> msg_State message = OutboxPending \<or> msg_State message = OutboxLeased"

text \<open>
  The scan of both enqueue methods: \<open>Some (Inr ())\<close> when a deduplication key is hit,
  \<open>Some (Inl e)\<close> when an active row conflicts, and \<open>None\<close> when the message is to be stored.
\<close>

fun enqueue_scan :: "OutboxMessage \<Rightarrow> OutboxMessage list \<Rightarrow> unit result option" where
  "enqueue_scan message [] = None"
| "enqueue_scan message (existing # rest) =
     (if msg_DedupeKey existing = msg_DedupeKey message then Some (Inr ())
      else if msg_Kind existing \<noteq> msg_Kind message \<or> \<not> active_work existing
        then enqueue_scan message rest
      else if msg_OperationID message \<noteq> '''' \<and> msg_OperationID existing = msg_OperationID message \<or>
              msg_ResourceID message \<noteq> '''' \<and> msg_ResourceID existing = msg_ResourceID message
        then Some (Inl (ErrConcurrencyConflict ''concurrency conflict''))
      else enqueue_scan message rest)"

definition stamp_times :: "time \<Rightarrow> OutboxMessage \<Rightarrow> OutboxMessage" where
  "stamp_times now message =
     (let m1 = (if msg_AvailableAt message = 0
                then message\<lparr>msg_AvailableAt := now + msg_Delay message\<rparr> else message)
      in if msg_CreatedAt m1 = 0 then m1\<lparr>msg_CreatedAt := now\<rparr> else m1)"

definition Enqueue :: "time \<Rightarrow> OutboxMessage \<Rightarrow> unit tx" where
  "Enqueue now message = (\<lambda>s.
     case enqueue_scan message (map snd (st_outbox s)) of
       Some r \<Rightarrow> (r, s)
     | None \<Rightarrow>
         let m1 = (if msg_State message = OutboxStateOther ''''
                   then message\<lparr>msg_State := OutboxPending\<rparr> else message)
         in (Inr (), s\<lparr>st_outbox := put (msg_ID message) (stamp_times now m1) (st_outbox s)\<rparr>))"

fun wake_scan :: "OutboxMessage \<Rightarrow> OutboxMessage list \<Rightarrow> unit result option" where
  "wake_scan message [] = None"
| "wake_scan message (existing # rest) =
     (if msg_DedupeKey existing = msg_DedupeKey message then Some (Inr ())
      else if msg_Kind existing \<noteq> OutboxWakeDependents \<or> \<not> active_work existing
        then wake_scan message rest
      else if msg_ResourceID existing = msg_ResourceID message then Some (Inr ())
      else wake_scan message rest)"

definition EnqueueWakeDependents :: "time \<Rightarrow> OutboxMessage \<Rightarrow> unit tx" where
  "EnqueueWakeDependents now message = (\<lambda>s.
     case wake_scan message (map snd (st_outbox s)) of
       Some r \<Rightarrow> (r, s)
     | None \<Rightarrow> (Inr (), s\<lparr>st_outbox := put (msg_ID message)
         (stamp_times now (message\<lparr>msg_State := OutboxPending\<rparr>)) (st_outbox s)\<rparr>))"

definition GetOutbox :: "string \<Rightarrow> OutboxMessage tx" where
  "GetOutbox mid = readT (\<lambda>s. case map_of (st_outbox s) mid of
     None \<Rightarrow> Inl (ErrResourceNotFound ''resource not found'') | Some m \<Rightarrow> Inr m)"

section \<open>Work summaries\<close>

fun count_state :: "OutboxState \<Rightarrow> (OutboxState, nat) table \<Rightarrow> (OutboxState, nat) table" where
  "count_state k counts = put k (case map_of counts k of None \<Rightarrow> 1 | Some n \<Rightarrow> n + 1) counts"

definition summarizeWork :: "(OutboxMessage \<Rightarrow> bool) \<Rightarrow> Store \<Rightarrow> WorkHistorySummary" where
  "summarizeWork include s =
     (let messages = filter include (map snd (st_outbox s))
      in \<lparr>whs_Active = sort_key (\<lambda>m. (msg_CreatedAt m, msg_ID m)) (filter active_work messages),
          whs_Counts = fold (\<lambda>m. count_state (msg_State m)) messages []\<rparr>)"

definition SummarizeWorkByOperation :: "operation_id \<Rightarrow> WorkHistorySummary tx" where
  "SummarizeWorkByOperation oid = readT (\<lambda>s. Inr (summarizeWork (\<lambda>m. msg_OperationID m = oid) s))"

definition SummarizeWorkByResource :: "resource_id \<Rightarrow> WorkHistorySummary tx" where
  "SummarizeWorkByResource rid = readT (\<lambda>s. Inr (summarizeWork (\<lambda>m. msg_ResourceID m = rid) s))"

definition ActiveID :: "WorkHistorySummary \<Rightarrow> OutboxKind \<Rightarrow> string" where
  "ActiveID summary kind =
     (case List.find (\<lambda>m. msg_Kind m = kind) (whs_Active summary) of None \<Rightarrow> '''' | Some m \<Rightarrow> msg_ID m)"

definition HasActive :: "WorkHistorySummary \<Rightarrow> OutboxKind \<Rightarrow> bool" where
  "HasActive summary kind \<longleftrightarrow> ActiveID summary kind \<noteq> ''''"

section \<open>Leases\<close>

definition ClaimOutbox :: "time \<Rightarrow> string \<Rightarrow> int \<Rightarrow> OutboxMessage option tx" where
  "ClaimOutbox now token lease = (\<lambda>s.
     case List.find (\<lambda>(mid, m). msg_State m = OutboxPending \<and>
             \<not> (msg_AvailableAt m \<noteq> 0 \<and> now < msg_AvailableAt m)) (st_outbox s) of
       None \<Rightarrow> (Inr None, s)
     | Some (mid, m) \<Rightarrow>
         let m1 = m\<lparr>msg_State := OutboxLeased, msg_LeaseToken := token,
                    msg_LeasedUntil := now + lease, msg_AttemptCount := msg_AttemptCount m + 1\<rparr>
         in (Inr (Some m1), s\<lparr>st_outbox := put mid m1 (st_outbox s)\<rparr>))"

definition FindExpiredDispatch :: "time \<Rightarrow> OutboxMessage option tx" where
  "FindExpiredDispatch now = readT (\<lambda>s. Inr (List.find
     (\<lambda>m. msg_Kind m = OutboxDispatch \<and> msg_State m = OutboxLeased \<and> \<not> now < msg_LeasedUntil m)
     (map snd (st_outbox s))))"

definition live_lease :: "time \<Rightarrow> string \<Rightarrow> OutboxMessage \<Rightarrow> bool" where
  "live_lease now token m \<longleftrightarrow>
     msg_State m = OutboxLeased \<and> msg_LeaseToken m = token \<and> now < msg_LeasedUntil m"

definition expired_lease :: "time \<Rightarrow> string \<Rightarrow> OutboxMessage \<Rightarrow> bool" where
  "expired_lease now token m \<longleftrightarrow>
     msg_State m = OutboxLeased \<and> msg_LeaseToken m = token \<and> \<not> now < msg_LeasedUntil m"

text \<open>The read, guard and write every lease method has in common.\<close>

definition update_work ::
    "string \<Rightarrow> (OutboxMessage \<Rightarrow> bool) \<Rightarrow> (OutboxMessage \<Rightarrow> OutboxMessage) \<Rightarrow> unit tx" where
  "update_work mid guard change = (\<lambda>s.
     case map_of (st_outbox s) mid of
       None \<Rightarrow> (Inl (ErrConcurrencyConflict ''concurrency conflict''), s)
     | Some m \<Rightarrow>
         if \<not> guard m then (Inl (ErrConcurrencyConflict ''concurrency conflict''), s)
         else (Inr (), s\<lparr>st_outbox := put mid (change m) (st_outbox s)\<rparr>))"

definition RenewOutbox :: "time \<Rightarrow> string \<Rightarrow> string \<Rightarrow> int \<Rightarrow> unit tx" where
  "RenewOutbox now mid token lease =
     update_work mid (live_lease now token) (\<lambda>m. m\<lparr>msg_LeasedUntil := now + lease\<rparr>)"

definition RequeueExpiredOutbox :: "time \<Rightarrow> string \<Rightarrow> string \<Rightarrow> unit tx" where
  "RequeueExpiredOutbox now mid token =
     update_work mid (expired_lease now token)
       (\<lambda>m. m\<lparr>msg_State := OutboxPending, msg_LeaseToken := '''', msg_LeasedUntil := 0,
               msg_AvailableAt := now\<rparr>)"

definition CompleteOutbox :: "time \<Rightarrow> string \<Rightarrow> string \<Rightarrow> string \<Rightarrow> unit tx" where
  "CompleteOutbox now mid token reason =
     update_work mid (live_lease now token)
       (\<lambda>m. m\<lparr>msg_State := OutboxCompleted, msg_LeaseToken := '''', msg_LeasedUntil := 0,
               msg_TerminalReason := reason\<rparr>)"

definition CompleteExpiredOutbox :: "time \<Rightarrow> string \<Rightarrow> string \<Rightarrow> string \<Rightarrow> unit tx" where
  "CompleteExpiredOutbox now mid token reason =
     update_work mid (expired_lease now token)
       (\<lambda>m. m\<lparr>msg_State := OutboxCompleted, msg_LeaseToken := '''', msg_LeasedUntil := 0,
               msg_TerminalReason := reason\<rparr>)"

definition RetryOutbox :: "time \<Rightarrow> string \<Rightarrow> string \<Rightarrow> int \<Rightarrow> string \<Rightarrow> unit tx" where
  "RetryOutbox now mid token delay messageText =
     update_work mid (live_lease now token)
       (\<lambda>m. m\<lparr>msg_LeaseToken := '''', msg_LeasedUntil := 0, msg_LastError := messageText,
               msg_State := OutboxPending, msg_AvailableAt := now + delay\<rparr>)"

definition execution_at :: "Store \<Rightarrow> operation_id \<Rightarrow> uint64 \<Rightarrow> bool" where
  "execution_at s oid version \<longleftrightarrow>
     (case map_of (st_executions s) oid of None \<Rightarrow> False | Some e \<Rightarrow> ex_Version e = version)"

definition RetryDispatchOutbox ::
    "time \<Rightarrow> string \<Rightarrow> string \<Rightarrow> uint64 \<Rightarrow> int \<Rightarrow> string \<Rightarrow> unit tx" where
  "RetryDispatchOutbox now mid token expectedVersion delay messageText = (\<lambda>s.
     update_work mid
       (\<lambda>m. msg_Kind m = OutboxDispatch \<and> live_lease now token m \<and>
            execution_at s (msg_OperationID m) expectedVersion)
       (\<lambda>m. m\<lparr>msg_ExpectedVersion := expectedVersion, msg_LeaseToken := '''', msg_LeasedUntil := 0,
               msg_LastError := messageText, msg_State := OutboxPending,
               msg_AvailableAt := now + delay\<rparr>) s)"

definition RetryExpiredDispatchOutbox ::
    "time \<Rightarrow> string \<Rightarrow> string \<Rightarrow> uint64 \<Rightarrow> int \<Rightarrow> string \<Rightarrow> unit tx" where
  "RetryExpiredDispatchOutbox now mid token expectedVersion delay messageText = (\<lambda>s.
     update_work mid
       (\<lambda>m. msg_Kind m = OutboxDispatch \<and> expired_lease now token m \<and>
            execution_at s (msg_OperationID m) expectedVersion)
       (\<lambda>m. m\<lparr>msg_ExpectedVersion := expectedVersion, msg_LeaseToken := '''', msg_LeasedUntil := 0,
               msg_LastError := messageText, msg_State := OutboxPending,
               msg_AvailableAt := now + delay\<rparr>) s)"

definition DeadOutbox :: "time \<Rightarrow> string \<Rightarrow> string \<Rightarrow> string \<Rightarrow> unit tx" where
  "DeadOutbox now mid token reason =
     update_work mid (live_lease now token)
       (\<lambda>m. m\<lparr>msg_State := OutboxDead, msg_LeaseToken := '''', msg_LeasedUntil := 0,
               msg_TerminalReason := reason\<rparr>)"

section \<open>The effect of a queue operation on the rows\<close>

definition work_identity :: "OutboxMessage \<Rightarrow> string \<times> OutboxKind \<times> operation_id \<times> resource_id \<times> string" where
  "work_identity m = (msg_ID m, msg_Kind m, msg_OperationID m, msg_ResourceID m, msg_DedupeKey m)"

lemma work_identity_eq:
  "work_identity m = work_identity m' \<longleftrightarrow>
     msg_ID m = msg_ID m' \<and> msg_Kind m = msg_Kind m' \<and> msg_OperationID m = msg_OperationID m' \<and>
     msg_ResourceID m = msg_ResourceID m' \<and> msg_DedupeKey m = msg_DedupeKey m'"
  by (simp add: work_identity_def)

definition work_kinds :: "OutboxKind list" where
  "work_kinds = [OutboxDrive, OutboxDispatch, OutboxObserve, OutboxPassiveObserve, OutboxWakeDependents]"

definition same_aggregate :: "OutboxMessage \<Rightarrow> OutboxMessage \<Rightarrow> bool" where
  "same_aggregate m m' \<longleftrightarrow> msg_Kind m = msg_Kind m' \<and>
     (msg_OperationID m' \<noteq> '''' \<and> msg_OperationID m = msg_OperationID m' \<or>
      msg_ResourceID m' \<noteq> '''' \<and> msg_ResourceID m = msg_ResourceID m')"

lemma same_aggregate_sym: "same_aggregate m m' \<longleftrightarrow> same_aggregate m' m"
  by (auto simp: same_aggregate_def)

lemma same_aggregate_identity:
  "work_identity a = work_identity a' \<Longrightarrow> same_aggregate a m = same_aggregate a' m"
  by (simp add: same_aggregate_def work_identity_eq)

text \<open>
  Every operation of the queue leaves the rows alone, adds a row for a fresh deduplication key that no
  active row of its aggregate blocks, or changes an active row without touching its identity.
\<close>

definition fresh_work :: "OutboxMessage \<Rightarrow> (string, OutboxMessage) table \<Rightarrow> bool" where
  "fresh_work m t \<longleftrightarrow> (\<forall>e \<in> set (map snd t).
     msg_DedupeKey e \<noteq> msg_DedupeKey m \<and> \<not> (active_work e \<and> same_aggregate e m))"

definition outbox_effect :: "(string, OutboxMessage) table \<Rightarrow> (string, OutboxMessage) table \<Rightarrow> bool" where
  "outbox_effect t t' \<longleftrightarrow> t' = t
     \<or> (\<exists>m. fresh_work m t \<and> msg_ID m = msg_DedupeKey m \<and> msg_Kind m \<in> set work_kinds \<and> active_work m \<and>
          t' = put (msg_ID m) m t)
     \<or> (\<exists>k m m'. map_of t k = Some m \<and> active_work m \<and> work_identity m' = work_identity m \<and>
          t' = put k m' t)"

definition outbox_inv :: "(string, OutboxMessage) table \<Rightarrow> bool" where
  "outbox_inv t \<longleftrightarrow> wf_table t
     \<and> (\<forall>(k, m) \<in> set t. k = msg_ID m \<and> msg_ID m = msg_DedupeKey m \<and> msg_Kind m \<in> set work_kinds)
     \<and> (\<forall>(k, m) \<in> set t. \<forall>(k', m') \<in> set t.
          active_work m \<and> active_work m' \<and> same_aggregate m m' \<longrightarrow> k = k')"

lemma outbox_invI:
  assumes "wf_table t"
    and "\<And>k m. map_of t k = Some m \<Longrightarrow> k = msg_ID m \<and> msg_ID m = msg_DedupeKey m \<and> msg_Kind m \<in> set work_kinds"
    and "\<And>k m k' m'. \<lbrakk>map_of t k = Some m; map_of t k' = Some m'; active_work m; active_work m';
          same_aggregate m m'\<rbrakk> \<Longrightarrow> k = k'"
  shows "outbox_inv t"
  unfolding outbox_inv_def
proof (intro conjI ballI; clarify?)
  show "wf_table t" by (rule assms(1))
  show "k = msg_ID m \<and> msg_ID m = msg_DedupeKey m \<and> msg_Kind m \<in> set work_kinds" if "(k, m) \<in> set t" for k m
    using that unfolding wf_table_in_set_iff [OF assms(1)] by (rule assms(2))
  show "k = k'" if "(k, m) \<in> set t" "(k', m') \<in> set t"
      "active_work m" "active_work m'" "same_aggregate m m'" for k m k' m'
    using that assms(3) unfolding wf_table_in_set_iff [OF assms(1)] by blast
qed

lemma outbox_inv_row:
  "\<lbrakk>outbox_inv t; map_of t k = Some m\<rbrakk> \<Longrightarrow> k = msg_ID m \<and> msg_ID m = msg_DedupeKey m \<and> msg_Kind m \<in> set work_kinds"
  unfolding outbox_inv_def by (fastforce dest: map_of_SomeD)

lemma outbox_inv_unique:
  "\<lbrakk>outbox_inv t; map_of t k = Some m; map_of t k' = Some m'; active_work m; active_work m';
    same_aggregate m m'\<rbrakk> \<Longrightarrow> k = k'"
  unfolding outbox_inv_def by (fastforce dest: map_of_SomeD)

lemma outbox_inv_wf: "outbox_inv t \<Longrightarrow> wf_table t"
  by (simp add: outbox_inv_def)

lemma fresh_work_row:
  "\<lbrakk>fresh_work m t; map_of t k = Some e\<rbrakk> \<Longrightarrow>
     msg_DedupeKey e \<noteq> msg_DedupeKey m \<and> \<not> (active_work e \<and> same_aggregate e m)"
  unfolding fresh_work_def by (force dest: map_of_SomeD)

lemma fresh_work_new_key:
  assumes "outbox_inv t" "fresh_work m t" "msg_ID m = msg_DedupeKey m"
  shows "map_of t (msg_ID m) = None"
  using assms outbox_inv_row fresh_work_row by (metis not_None_eq)

lemma outbox_effect_inv:
  assumes inv: "outbox_inv t" and eff: "outbox_effect t t'"
  shows "outbox_inv t'"
  using eff unfolding outbox_effect_def
proof (elim disjE exE conjE)
  fix m
  assume m: "fresh_work m t" "msg_ID m = msg_DedupeKey m" "msg_Kind m \<in> set work_kinds" "active_work m"
      "t' = put (msg_ID m) m t"
  show ?thesis
    unfolding m(5)
  proof (rule outbox_invI)
    show "wf_table (put (msg_ID m) m t)" using inv by (simp add: outbox_inv_wf)
    show "k = msg_ID e \<and> msg_ID e = msg_DedupeKey e \<and> msg_Kind e \<in> set work_kinds"
      if "map_of (put (msg_ID m) m t) k = Some e" for k e
      using that outbox_inv_row [OF inv, of k e] m(2,3) by (auto split: if_splits)
    show "k = k'"
      if "map_of (put (msg_ID m) m t) k = Some e" "map_of (put (msg_ID m) m t) k' = Some e'"
        "active_work e" "active_work e'" "same_aggregate e e'" for k e k' e'
      using that outbox_inv_unique [OF inv] fresh_work_row [OF m(1)] same_aggregate_sym
      by (cases "k = msg_ID m"; cases "k' = msg_ID m") (simp_all, metis+)
  qed
next
  fix k m m'
  assume m: "map_of t k = Some m" "active_work m" "work_identity m' = work_identity m" "t' = put k m' t"
  show ?thesis
    unfolding m(4)
  proof (rule outbox_invI)
    show "wf_table (put k m' t)" using inv by (simp add: outbox_inv_wf)
    show "j = msg_ID e \<and> msg_ID e = msg_DedupeKey e \<and> msg_Kind e \<in> set work_kinds"
      if "map_of (put k m' t) j = Some e" for j e
      using that outbox_inv_row [OF inv m(1)] outbox_inv_row [OF inv, of j e] m(3)
      by (cases "j = k") (simp_all add: work_identity_eq)
    show "j = j'"
      if "map_of (put k m' t) j = Some e" "map_of (put k m' t) j' = Some e'"
        "active_work e" "active_work e'" "same_aggregate e e'" for j e j' e'
      using that outbox_inv_unique [OF inv] m(1-3) same_aggregate_identity [OF m(3)] same_aggregate_sym
      by (cases "j = k"; cases "j' = k") (simp_all, metis+)
  qed
qed (use inv in simp)

lemma outbox_effect_final:
  assumes "outbox_inv t" "outbox_effect t t'" "map_of t k = Some m" "\<not> active_work m"
  shows "map_of t' k = Some m"
  using assms fresh_work_new_key [OF assms(1)] unfolding outbox_effect_def by force

lemma outbox_effect_keeps:
  assumes "outbox_inv t" "outbox_effect t t'" "map_of t k = Some m"
  shows "\<exists>m'. map_of t' k = Some m' \<and> work_identity m' = work_identity m"
  using assms fresh_work_new_key [OF assms(1)] unfolding outbox_effect_def by force

section \<open>The contract of the lease methods\<close>

text \<open>
  What the eight methods that settle or extend a lease have in common: the row is found by its
  identifier, a guard that implies the row is leased decides, and the change keeps the identity.
\<close>

locale lease_method =
  fixes run :: "string \<Rightarrow> unit tx"
    and guard :: "Store \<Rightarrow> OutboxMessage \<Rightarrow> bool"
    and change :: "OutboxMessage \<Rightarrow> OutboxMessage"
  assumes run_update: "run mid s = update_work mid (guard s) change s"
    and guard_leased: "guard s m \<Longrightarrow> msg_State m = OutboxLeased"
    and change_identity: "work_identity (change m) = work_identity m"
begin

lemma succeeds_iff:
  "fst (run mid s) = Inr () \<longleftrightarrow> (\<exists>m. map_of (st_outbox s) mid = Some m \<and> guard s m)"
  unfolding run_update update_work_def by (simp split: option.split)

lemma refused:
  "fst (run mid s) \<noteq> Inr () \<Longrightarrow>
     run mid s = (Inl (ErrConcurrencyConflict ''concurrency conflict''), s)"
  unfolding run_update update_work_def by (auto split: option.split)

lemma row_after:
  assumes "fst (run mid s) = Inr ()"
  obtains m where "map_of (st_outbox s) mid = Some m" "guard s m"
    "snd (run mid s) = s\<lparr>st_outbox := put mid (change m) (st_outbox s)\<rparr>"
  using assms unfolding run_update update_work_def by (auto split: option.splits if_splits)

lemma effect: "outbox_effect (st_outbox s) (st_outbox (snd (run mid s)))"
proof (cases "fst (run mid s) = Inr ()")
  case True
  then obtain m where m: "map_of (st_outbox s) mid = Some m" "guard s m"
    "snd (run mid s) = s\<lparr>st_outbox := put mid (change m) (st_outbox s)\<rparr>"
    by (rule row_after)
  have "active_work m" using guard_leased [OF m(2)] by (simp add: active_work_def)
  then show ?thesis
    unfolding outbox_effect_def m(3) using m(1) change_identity [of m]
    by (intro disjI2 exI [of _ mid] exI [of _ m] exI [of _ "change m"]) simp
qed (simp add: refused outbox_effect_def)

end

lemmas lease_simps = live_lease_def expired_lease_def work_identity_def

interpretation renew: lease_method "\<lambda>mid. RenewOutbox now mid token lease" "\<lambda>s. live_lease now token"
    "\<lambda>m. m\<lparr>msg_LeasedUntil := now + lease\<rparr>" for now token lease
  by unfold_locales (simp_all add: RenewOutbox_def lease_simps)

interpretation requeue: lease_method "\<lambda>mid. RequeueExpiredOutbox now mid token"
    "\<lambda>s. expired_lease now token"
    "\<lambda>m. m\<lparr>msg_State := OutboxPending, msg_LeaseToken := '''', msg_LeasedUntil := 0,
           msg_AvailableAt := now\<rparr>" for now token
  by unfold_locales (simp_all add: RequeueExpiredOutbox_def lease_simps)

interpretation complete: lease_method "\<lambda>mid. CompleteOutbox now mid token reason"
    "\<lambda>s. live_lease now token"
    "\<lambda>m. m\<lparr>msg_State := OutboxCompleted, msg_LeaseToken := '''', msg_LeasedUntil := 0,
           msg_TerminalReason := reason\<rparr>" for now token reason
  by unfold_locales (simp_all add: CompleteOutbox_def lease_simps)

interpretation complete_expired: lease_method "\<lambda>mid. CompleteExpiredOutbox now mid token reason"
    "\<lambda>s. expired_lease now token"
    "\<lambda>m. m\<lparr>msg_State := OutboxCompleted, msg_LeaseToken := '''', msg_LeasedUntil := 0,
           msg_TerminalReason := reason\<rparr>" for now token reason
  by unfold_locales (simp_all add: CompleteExpiredOutbox_def lease_simps)

interpretation retry: lease_method "\<lambda>mid. RetryOutbox now mid token delay messageText"
    "\<lambda>s. live_lease now token"
    "\<lambda>m. m\<lparr>msg_LeaseToken := '''', msg_LeasedUntil := 0, msg_LastError := messageText,
           msg_State := OutboxPending, msg_AvailableAt := now + delay\<rparr>" for now token delay messageText
  by unfold_locales (simp_all add: RetryOutbox_def lease_simps)

interpretation retry_dispatch: lease_method
    "\<lambda>mid. RetryDispatchOutbox now mid token expectedVersion delay messageText"
    "\<lambda>s m. msg_Kind m = OutboxDispatch \<and> live_lease now token m \<and>
       execution_at s (msg_OperationID m) expectedVersion"
    "\<lambda>m. m\<lparr>msg_ExpectedVersion := expectedVersion, msg_LeaseToken := '''', msg_LeasedUntil := 0,
           msg_LastError := messageText, msg_State := OutboxPending,
           msg_AvailableAt := now + delay\<rparr>" for now token expectedVersion delay messageText
  by unfold_locales (simp_all add: RetryDispatchOutbox_def lease_simps)

interpretation retry_expired_dispatch: lease_method
    "\<lambda>mid. RetryExpiredDispatchOutbox now mid token expectedVersion delay messageText"
    "\<lambda>s m. msg_Kind m = OutboxDispatch \<and> expired_lease now token m \<and>
       execution_at s (msg_OperationID m) expectedVersion"
    "\<lambda>m. m\<lparr>msg_ExpectedVersion := expectedVersion, msg_LeaseToken := '''', msg_LeasedUntil := 0,
           msg_LastError := messageText, msg_State := OutboxPending,
           msg_AvailableAt := now + delay\<rparr>" for now token expectedVersion delay messageText
  by unfold_locales (simp_all add: RetryExpiredDispatchOutbox_def lease_simps)

interpretation dead: lease_method "\<lambda>mid. DeadOutbox now mid token reason"
    "\<lambda>s. live_lease now token"
    "\<lambda>m. m\<lparr>msg_State := OutboxDead, msg_LeaseToken := '''', msg_LeasedUntil := 0,
           msg_TerminalReason := reason\<rparr>" for now token reason
  by unfold_locales (simp_all add: DeadOutbox_def lease_simps)

section \<open>Enqueueing and claiming\<close>

lemma enqueue_scan_None:
  "enqueue_scan message rows = None \<longleftrightarrow> (\<forall>e \<in> set rows. msg_DedupeKey e \<noteq> msg_DedupeKey message \<and>
     \<not> (active_work e \<and> same_aggregate e message))"
  by (induction rows) (auto simp: same_aggregate_def)

lemma enqueue_scan_Some:
  "enqueue_scan message rows = Some r \<Longrightarrow>
     r = Inr () \<and> (\<exists>e \<in> set rows. msg_DedupeKey e = msg_DedupeKey message) \<or>
     r = Inl (ErrConcurrencyConflict ''concurrency conflict'') \<and>
       (\<exists>e \<in> set rows. active_work e \<and> same_aggregate e message)"
  by (induction rows) (auto simp: same_aggregate_def split: if_splits)

lemma wake_scan_None:
  "wake_scan message rows = None \<longleftrightarrow> (\<forall>e \<in> set rows. msg_DedupeKey e \<noteq> msg_DedupeKey message \<and>
     \<not> (active_work e \<and> msg_Kind e = OutboxWakeDependents \<and> msg_ResourceID e = msg_ResourceID message))"
  by (induction rows) auto

lemma wake_scan_Some: "wake_scan message rows = Some r \<Longrightarrow> r = Inr ()"
  by (induction rows) (auto split: if_splits)

lemma stamp_times_keeps [simp]:
  "work_identity (stamp_times now m) = work_identity m" "msg_State (stamp_times now m) = msg_State m"
  "active_work (stamp_times now m) = active_work m"
  by (simp_all add: stamp_times_def work_identity_def active_work_def)

lemma stamp_times_fields [simp]:
  "msg_ID (stamp_times now m) = msg_ID m" "msg_DedupeKey (stamp_times now m) = msg_DedupeKey m"
  "msg_Kind (stamp_times now m) = msg_Kind m" "msg_OperationID (stamp_times now m) = msg_OperationID m"
  "msg_ResourceID (stamp_times now m) = msg_ResourceID m"
  "same_aggregate e (stamp_times now m) = same_aggregate e m"
  by (simp_all add: stamp_times_def same_aggregate_def)

lemma Enqueue_effect:
  assumes "msg_ID m = msg_DedupeKey m" "msg_State m = OutboxPending" "msg_Kind m \<in> set work_kinds"
  shows "outbox_effect (st_outbox s) (st_outbox (snd (Enqueue now m s)))"
proof (cases "enqueue_scan m (map snd (st_outbox s))")
  case None
  then have "fresh_work (stamp_times now m) (st_outbox s)"
    unfolding enqueue_scan_None by (simp add: fresh_work_def)
  then show ?thesis
    using None assms unfolding outbox_effect_def Enqueue_def
    by (intro disjI2 disjI1 exI [of _ "stamp_times now m"]) (simp add: active_work_def)
qed (simp add: Enqueue_def outbox_effect_def)

lemma EnqueueWakeDependents_effect:
  assumes "msg_ID m = msg_DedupeKey m" "msg_Kind m = OutboxWakeDependents" "msg_OperationID m = ''''"
  shows "outbox_effect (st_outbox s) (st_outbox (snd (EnqueueWakeDependents now m s)))"
proof (cases "wake_scan m (map snd (st_outbox s))")
  case None
  let ?m = "stamp_times now (m\<lparr>msg_State := OutboxPending\<rparr>)"
  have "fresh_work ?m (st_outbox s)"
    using None assms(2,3) unfolding wake_scan_None by (auto simp: fresh_work_def same_aggregate_def)
  then show ?thesis
    using None assms(1,2) unfolding outbox_effect_def EnqueueWakeDependents_def
    by (intro disjI2 disjI1 exI [of _ ?m]) (simp add: active_work_def work_kinds_def)
qed (simp add: EnqueueWakeDependents_def outbox_effect_def)

definition due :: "time \<Rightarrow> OutboxMessage \<Rightarrow> bool" where
  "due now m \<longleftrightarrow> msg_State m = OutboxPending \<and> \<not> (msg_AvailableAt m \<noteq> 0 \<and> now < msg_AvailableAt m)"

definition lease_row :: "time \<Rightarrow> string \<Rightarrow> int \<Rightarrow> OutboxMessage \<Rightarrow> OutboxMessage" where
  "lease_row now token lease m = m\<lparr>msg_State := OutboxLeased, msg_LeaseToken := token,
     msg_LeasedUntil := now + lease, msg_AttemptCount := msg_AttemptCount m + 1\<rparr>"

lemma find_SomeD: "List.find P xs = Some x \<Longrightarrow> x \<in> set xs \<and> P x"
  by (induction xs) (auto split: if_splits)

lemma ClaimOutbox_find:
  "ClaimOutbox now token lease s =
     (case List.find (\<lambda>(mid, m). due now m) (st_outbox s) of
        None \<Rightarrow> (Inr None, s)
      | Some (mid, m) \<Rightarrow> (Inr (Some (lease_row now token lease m)),
          s\<lparr>st_outbox := put mid (lease_row now token lease m) (st_outbox s)\<rparr>))"
  unfolding ClaimOutbox_def due_def lease_row_def Let_def by (rule refl)

lemma ClaimOutbox_cases:
  assumes "wf_table (st_outbox s)"
  obtains (none) "ClaimOutbox now token lease s = (Inr None, s)"
      "\<And>k m. map_of (st_outbox s) k = Some m \<Longrightarrow> \<not> due now m"
  | (claim) mid m where "map_of (st_outbox s) mid = Some m" "due now m"
      "ClaimOutbox now token lease s = (Inr (Some (lease_row now token lease m)),
         s\<lparr>st_outbox := put mid (lease_row now token lease m) (st_outbox s)\<rparr>)"
proof (cases "List.find (\<lambda>(mid, m). due now m) (st_outbox s)")
  case None
  have "\<not> due now m" if "map_of (st_outbox s) k = Some m" for k m
    using None map_of_SomeD [OF that] by (auto simp: find_None_iff)
  moreover have "ClaimOutbox now token lease s = (Inr None, s)" by (simp add: ClaimOutbox_find None)
  ultimately show ?thesis using none by blast
next
  case (Some r)
  obtain mid m where r: "r = (mid, m)" by (cases r)
  have "(mid, m) \<in> set (st_outbox s)" and due: "due now m"
    using find_SomeD [OF Some [unfolded r]] by simp_all
  then have "map_of (st_outbox s) mid = Some m" by (simp only: wf_table_in_set_iff [OF assms])
  moreover note due
  moreover have "ClaimOutbox now token lease s = (Inr (Some (lease_row now token lease m)),
      s\<lparr>st_outbox := put mid (lease_row now token lease m) (st_outbox s)\<rparr>)"
    by (simp add: ClaimOutbox_find Some r)
  ultimately show ?thesis by (rule claim)
qed

lemma ClaimOutbox_effect:
  assumes "wf_table (st_outbox s)"
  shows "outbox_effect (st_outbox s) (st_outbox (snd (ClaimOutbox now token lease s)))"
  using assms
proof (cases rule: ClaimOutbox_cases [where now = now and token = token and lease = lease])
  case (claim mid m)
  then show ?thesis
    unfolding outbox_effect_def
    by (intro disjI2 exI [of _ mid] exI [of _ m] exI [of _ "lease_row now token lease m"])
      (simp add: due_def active_work_def lease_row_def work_identity_def)
qed (simp add: outbox_effect_def)

section \<open>Runs of the queue\<close>

definition WorkActiveLimit :: nat where "WorkActiveLimit = 8"

definition enqueueable :: "OutboxMessage \<Rightarrow> bool" where
  "enqueueable m \<longleftrightarrow> msg_ID m = msg_DedupeKey m \<and> msg_State m = OutboxPending \<and>
     msg_Kind m \<in> set work_kinds \<and> (msg_Kind m = OutboxWakeDependents \<longrightarrow> msg_OperationID m = '''')"

text \<open>Every message the application builds is enqueueable, whatever delay it is given.\<close>

lemma constructors_enqueueable:
  "enqueueable (DriveMessage oid v\<lparr>msg_Delay := d\<rparr>)"
  "enqueueable (DispatchMessage oid n v\<lparr>msg_Delay := d\<rparr>)"
  "enqueueable (ObserveMessage oid n v\<lparr>msg_Delay := d\<rparr>)"
  "enqueueable (PassiveObserveMessage rid n v\<lparr>msg_Delay := d\<rparr>)"
  "enqueueable (WakeDependentsMessage rid v\<lparr>msg_Delay := d\<rparr>)"
  by (simp_all add: enqueueable_def work_kinds_def work_message_def DriveMessage_def DispatchMessage_def
      ObserveMessage_def PassiveObserveMessage_def WakeDependentsMessage_def)

text \<open>
  One step of the application seen from the queue: a queue method, whatever its result, or any change
  of the store that leaves the outbox alone.
\<close>

inductive queue_step :: "Store \<Rightarrow> Store \<Rightarrow> bool" where
  enqueue: "enqueueable m \<Longrightarrow> queue_step s (snd (Enqueue now m s))"
| wake: "enqueueable m \<Longrightarrow> msg_Kind m = OutboxWakeDependents \<Longrightarrow>
    queue_step s (snd (EnqueueWakeDependents now m s))"
| claim: "queue_step s (snd (ClaimOutbox now token lease s))"
| renew: "queue_step s (snd (RenewOutbox now mid token lease s))"
| requeue: "queue_step s (snd (RequeueExpiredOutbox now mid token s))"
| complete: "queue_step s (snd (CompleteOutbox now mid token reason s))"
| complete_expired: "queue_step s (snd (CompleteExpiredOutbox now mid token reason s))"
| retry: "queue_step s (snd (RetryOutbox now mid token delay err s))"
| retry_dispatch: "queue_step s (snd (RetryDispatchOutbox now mid token v delay err s))"
| retry_expired_dispatch: "queue_step s (snd (RetryExpiredDispatchOutbox now mid token v delay err s))"
| dead: "queue_step s (snd (DeadOutbox now mid token reason s))"
| other: "st_outbox s' = st_outbox s \<Longrightarrow> queue_step s s'"

lemmas lease_effects = renew.effect requeue.effect complete.effect complete_expired.effect retry.effect
  retry_dispatch.effect retry_expired_dispatch.effect dead.effect

lemma queue_step_effect:
  assumes "queue_step s s'" "outbox_inv (st_outbox s)"
  shows "outbox_effect (st_outbox s) (st_outbox s')"
  using assms
proof (cases rule: queue_step.cases)
  case (enqueue m now)
  then show ?thesis using Enqueue_effect by (simp add: enqueueable_def)
next
  case (wake m now)
  then show ?thesis using EnqueueWakeDependents_effect by (simp add: enqueueable_def)
next
  case claim
  then show ?thesis using ClaimOutbox_effect outbox_inv_wf [OF assms(2)] by simp
qed (simp_all add: lease_effects outbox_effect_def [of t t for t])

lemma queue_steps_inv:
  "\<lbrakk>queue_step\<^sup>*\<^sup>* s s'; outbox_inv (st_outbox s)\<rbrakk> \<Longrightarrow> outbox_inv (st_outbox s')"
  by (induction rule: rtranclp_induct) (blast intro: outbox_effect_inv queue_step_effect)+

lemma queue_reachable_inv: "queue_step\<^sup>*\<^sup>* NewStore s \<Longrightarrow> outbox_inv (st_outbox s)"
  by (erule queue_steps_inv) (simp add: NewStore_def outbox_inv_def)

lemma queue_steps_final:
  "\<lbrakk>queue_step\<^sup>*\<^sup>* s s'; outbox_inv (st_outbox s); map_of (st_outbox s) k = Some m; \<not> active_work m\<rbrakk> \<Longrightarrow>
     map_of (st_outbox s') k = Some m"
proof (induction rule: rtranclp_induct)
  case (step s1 s2)
  have "outbox_inv (st_outbox s1)" using step queue_steps_inv by blast
  then show ?case
    using outbox_effect_final [OF _ queue_step_effect] step by blast
qed

lemma active_kinds_distinct:
  assumes inv: "outbox_inv t"
    and agg: "\<And>m m'. \<lbrakk>P m; P m'; msg_Kind m = msg_Kind m'\<rbrakk> \<Longrightarrow> same_aggregate m m'"
  shows "distinct (map msg_Kind (filter active_work (filter P (map snd t))))"
proof -
  let ?Q = "\<lambda>r. P (snd r) \<and> active_work (snd r)"
  have rows: "filter active_work (filter P (map snd t)) = map snd (filter ?Q t)"
    by (induction t) auto
  have key: "distinct (map fst (filter ?Q t))"
    using outbox_inv_wf [OF inv] by (simp add: distinct_map_filter)
  have "inj_on (msg_Kind \<circ> snd) (set (filter ?Q t))"
  proof (rule inj_onI)
    fix r r' assume r: "r \<in> set (filter ?Q t)" "r' \<in> set (filter ?Q t)" "(msg_Kind \<circ> snd) r = (msg_Kind \<circ> snd) r'"
    have m: "map_of t (fst r) = Some (snd r)" "map_of t (fst r') = Some (snd r')"
      using r(1,2) outbox_inv_wf [OF inv] by (auto intro!: map_of_is_SomeI)
    have "fst r = fst r'"
      using r agg [of "snd r" "snd r'"] by (intro outbox_inv_unique [OF inv m]) auto
    then show "r = r'" using m by (simp add: prod_eq_iff)
  qed
  then show ?thesis
    using key unfolding rows map_map distinct_map by blast
qed

lemma kinds_bound:
  assumes "distinct (map msg_Kind ms)" "\<forall>m \<in> set ms. msg_Kind m \<in> set work_kinds"
  shows "length ms \<le> 5"
proof -
  have "length ms = card (set (map msg_Kind ms))"
    using distinct_card [OF assms(1)] by simp
  also have "\<dots> \<le> card (set work_kinds)"
    by (rule card_mono) (use assms(2) in auto)
  finally show ?thesis by (simp add: work_kinds_def)
qed

lemma summary_active_bound:
  assumes inv: "outbox_inv (st_outbox s)"
    and agg: "\<And>m m'. \<lbrakk>P m; P m'; msg_Kind m = msg_Kind m'\<rbrakk> \<Longrightarrow> same_aggregate m m'"
  shows "length (whs_Active (summarizeWork P s)) \<le> 5 \<and>
    distinct (map msg_Kind (whs_Active (summarizeWork P s)))"
proof -
  let ?ms = "filter active_work (filter P (map snd (st_outbox s)))"
  have d: "distinct (map msg_Kind ?ms)" by (rule active_kinds_distinct [OF inv agg])
  have k: "\<forall>m \<in> set ?ms. msg_Kind m \<in> set work_kinds"
    using outbox_inv_row [OF inv] wf_table_in_set_iff [OF outbox_inv_wf [OF inv]] by auto
  have "mset (map msg_Kind (sort_key (\<lambda>m. (msg_CreatedAt m, msg_ID m)) ?ms)) = mset (map msg_Kind ?ms)"
    by simp
  with d have "distinct (map msg_Kind (sort_key (\<lambda>m. (msg_CreatedAt m, msg_ID m)) ?ms))"
    by (metis mset_eq_imp_distinct_iff)
  then show ?thesis using kinds_bound [OF d k] by (simp add: summarizeWork_def)
qed

text \<open>
  C18: In every state the queue reaches from the empty store, work identifiers are unique and equal to
  their deduplication keys, at most one active row exists per kind and Operation or Resource, and the
  active work of one Operation or one Resource therefore never reaches the limit of eight rows the
  repositories cap it at; each kind occurs at most once in it.
\<close>
theorem outbox_single_active_row:
  assumes "queue_step\<^sup>*\<^sup>* NewStore s" "oid \<noteq> ''''" "rid \<noteq> ''''"
  shows "outbox_inv (st_outbox s) \<and>
    length (whs_Active (summarizeWork (\<lambda>m. msg_OperationID m = oid) s)) < WorkActiveLimit \<and>
    length (whs_Active (summarizeWork (\<lambda>m. msg_ResourceID m = rid) s)) < WorkActiveLimit \<and>
    distinct (map msg_Kind (whs_Active (summarizeWork (\<lambda>m. msg_OperationID m = oid) s)))"
proof -
  have inv: "outbox_inv (st_outbox s)" by (rule queue_reachable_inv [OF assms(1)])
  have o: "length (whs_Active (summarizeWork (\<lambda>m. msg_OperationID m = oid) s)) \<le> 5 \<and>
      distinct (map msg_Kind (whs_Active (summarizeWork (\<lambda>m. msg_OperationID m = oid) s)))"
    by (rule summary_active_bound [OF inv]) (simp add: same_aggregate_def assms(2))
  have r: "length (whs_Active (summarizeWork (\<lambda>m. msg_ResourceID m = rid) s)) \<le> 5 \<and>
      distinct (map msg_Kind (whs_Active (summarizeWork (\<lambda>m. msg_ResourceID m = rid) s)))"
    by (rule summary_active_bound [OF inv]) (simp add: same_aggregate_def assms(3))
  show ?thesis using inv o r by (simp add: WorkActiveLimit_def)
qed

definition example_queue :: Store where
  "example_queue =
     snd (Enqueue 100 (WakeDependentsMessage ''db'' 3)
       (snd (Enqueue 100 (ObserveMessage ''op-1'' 1 2) (snd (Enqueue 100 (DriveMessage ''op-1'' 1) NewStore)))))"

lemma decimal64_small [simp]:
  "decimal64 1 = ''1''" "decimal64 2 = ''2''" "decimal64 3 = ''3''"
  by (code_simp)+

lemma example_queue_reachable: "queue_step\<^sup>*\<^sup>* NewStore example_queue"
proof -
  have e: "enqueueable (DriveMessage ''op-1'' 1)" "enqueueable (ObserveMessage ''op-1'' 1 2)"
    "enqueueable (WakeDependentsMessage ''db'' 3)"
    by (simp_all add: enqueueable_def work_kinds_def work_message_def DriveMessage_def ObserveMessage_def
        WakeDependentsMessage_def)
  show ?thesis
    unfolding example_queue_def
    by (rule rtranclp.rtrancl_into_rtrancl, rule rtranclp.rtrancl_into_rtrancl,
        rule rtranclp.rtrancl_into_rtrancl, rule rtranclp.rtrancl_refl; rule queue_step.enqueue, rule e)
qed

lemma example_queue_rows:
  "st_outbox example_queue = map (\<lambda>m. (msg_ID m, stamp_times 100 m))
     [DriveMessage ''op-1'' 1, ObserveMessage ''op-1'' 1 2, WakeDependentsMessage ''db'' 3]"
  by code_simp

theorem outbox_single_active_row_witness:
  "outbox_inv (st_outbox example_queue) \<and> length (st_outbox example_queue) = 3 \<and>
   length (whs_Active (summarizeWork (\<lambda>m. msg_OperationID m = ''op-1'') example_queue)) < WorkActiveLimit"
  using outbox_single_active_row [OF example_queue_reachable, of "''op-1''" "''db''"]
  by (simp add: example_queue_rows)

section \<open>Settled work is final\<close>

lemma lease_refused:
  assumes "map_of (st_outbox s) mid = Some m" "msg_State m \<noteq> OutboxLeased"
  shows "fst (RenewOutbox now mid token lease s) \<noteq> Inr ()"
    "fst (RequeueExpiredOutbox now mid token s) \<noteq> Inr ()"
    "fst (CompleteOutbox now mid token reason s) \<noteq> Inr ()"
    "fst (CompleteExpiredOutbox now mid token reason s) \<noteq> Inr ()"
    "fst (RetryOutbox now mid token delay err s) \<noteq> Inr ()"
    "fst (RetryDispatchOutbox now mid token v delay err s) \<noteq> Inr ()"
    "fst (RetryExpiredDispatchOutbox now mid token v delay err s) \<noteq> Inr ()"
    "fst (DeadOutbox now mid token reason s) \<noteq> Inr ()"
  using assms
  unfolding renew.succeeds_iff requeue.succeeds_iff complete.succeeds_iff complete_expired.succeeds_iff
    retry.succeeds_iff retry_dispatch.succeeds_iff retry_expired_dispatch.succeeds_iff dead.succeeds_iff
  by (simp_all add: live_lease_def expired_lease_def)

lemma claim_active:
  assumes "outbox_inv (st_outbox s)" "ClaimOutbox now token lease s = (Inr (Some c), s')"
  shows "\<exists>m. map_of (st_outbox s) (msg_ID c) = Some m \<and> due now m \<and> c = lease_row now token lease m \<and>
    s' = s\<lparr>st_outbox := put (msg_ID c) c (st_outbox s)\<rparr>"
  using outbox_inv_wf [OF assms(1)]
proof (cases rule: ClaimOutbox_cases [where now = now and token = token and lease = lease])
  case (claim mid m)
  have c: "c = lease_row now token lease m" "s' = s\<lparr>st_outbox := put mid c (st_outbox s)\<rparr>"
    using claim(3) assms(2) by simp_all
  have "msg_ID c = mid"
    using outbox_inv_row [OF assms(1) claim(1)] by (simp add: c(1) lease_row_def)
  then show ?thesis using claim(1,2) c by blast
qed (use assms(2) in simp)

text \<open>
  C17: The holder of a lease decides the outcome of its work exactly once. Completing succeeds exactly
  when the row is leased under the presented token and the lease has not expired; otherwise the store
  is unchanged. After a success, whatever runs on the queue afterwards and under whatever token, the
  row stays Completed with the recorded reason, a message with the same deduplication key is ignored,
  no claim ever returns it again and no settling method accepts it.
\<close>
theorem completed_work_is_final:
  assumes "queue_step\<^sup>*\<^sup>* NewStore s"
  shows "(fst (CompleteOutbox now mid token reason s) = Inr () \<longleftrightarrow>
      (\<exists>m. map_of (st_outbox s) mid = Some m \<and> live_lease now token m)) \<and>
    (fst (CompleteOutbox now mid token reason s) \<noteq> Inr () \<longrightarrow>
       snd (CompleteOutbox now mid token reason s) = s) \<and>
    (\<forall>s'. fst (CompleteOutbox now mid token reason s) = Inr () \<and>
        queue_step\<^sup>*\<^sup>* (snd (CompleteOutbox now mid token reason s)) s' \<longrightarrow>
      (\<exists>m. map_of (st_outbox s') mid = Some m \<and> msg_State m = OutboxCompleted \<and>
         msg_TerminalReason m = reason) \<and>
      (\<forall>message now'. msg_DedupeKey message = mid \<longrightarrow> snd (Enqueue now' message s') = s') \<and>
      (\<forall>now' token' lease c s''. ClaimOutbox now' token' lease s' = (Inr (Some c), s'') \<longrightarrow> msg_ID c \<noteq> mid) \<and>
      (\<forall>now' token' delay err. fst (RetryOutbox now' mid token' delay err s') \<noteq> Inr () \<and>
         fst (RequeueExpiredOutbox now' mid token' s') \<noteq> Inr () \<and>
         fst (DeadOutbox now' mid token' err s') \<noteq> Inr ()))"
proof (intro conjI allI impI; (elim conjE)?)
  show "fst (CompleteOutbox now mid token reason s) = Inr () \<longleftrightarrow>
      (\<exists>m. map_of (st_outbox s) mid = Some m \<and> live_lease now token m)"
    by (rule complete.succeeds_iff)
  show "snd (CompleteOutbox now mid token reason s) = s"
    if "fst (CompleteOutbox now mid token reason s) \<noteq> Inr ()"
    by (simp add: complete.refused [OF that])
next
  fix s'
  assume ok: "fst (CompleteOutbox now mid token reason s) = Inr ()"
    and run: "queue_step\<^sup>*\<^sup>* (snd (CompleteOutbox now mid token reason s)) s'"
  obtain m where m: "map_of (st_outbox s) mid = Some m" "snd (CompleteOutbox now mid token reason s) =
      s\<lparr>st_outbox := put mid (m\<lparr>msg_State := OutboxCompleted, msg_LeaseToken := '''', msg_LeasedUntil := 0,
        msg_TerminalReason := reason\<rparr>) (st_outbox s)\<rparr>"
    using complete.row_after [OF ok] by metis
  define m' where "m' = m\<lparr>msg_State := OutboxCompleted, msg_LeaseToken := '''', msg_LeasedUntil := 0,
    msg_TerminalReason := reason\<rparr>"
  have inv1: "outbox_inv (st_outbox (snd (CompleteOutbox now mid token reason s)))"
    using outbox_effect_inv [OF queue_reachable_inv [OF assms] complete.effect] .
  have row: "map_of (st_outbox s') mid = Some m'"
    by (rule queue_steps_final [OF run inv1]) (simp_all add: m(2) m'_def active_work_def)
  have inv: "outbox_inv (st_outbox s')" by (rule queue_steps_inv [OF run inv1])
  have st: "msg_State m' = OutboxCompleted" by (simp add: m'_def)
  show "\<exists>m. map_of (st_outbox s') mid = Some m \<and> msg_State m = OutboxCompleted \<and> msg_TerminalReason m = reason"
    using row by (simp add: m'_def)
  show "snd (Enqueue now' message s') = s'" if "msg_DedupeKey message = mid" for message now'
  proof -
    have "enqueue_scan message (map snd (st_outbox s')) \<noteq> None"
      using map_of_SomeD [OF row] outbox_inv_row [OF inv row] that unfolding enqueue_scan_None by force
    then show ?thesis by (auto simp: Enqueue_def)
  qed
  show "msg_ID c \<noteq> mid" if "ClaimOutbox now' token' lease s' = (Inr (Some c), s'')" for now' token' lease c s''
    using claim_active [OF inv that] row st by (auto simp: due_def)
  show "fst (RetryOutbox now' mid token' delay err s') \<noteq> Inr ()"
    "fst (RequeueExpiredOutbox now' mid token' s') \<noteq> Inr ()"
    "fst (DeadOutbox now' mid token' err s') \<noteq> Inr ()" for now' token' delay err
    using st by (simp_all add: lease_refused [OF row])
qed

definition example_leased :: Store where
  "example_leased = snd (ClaimOutbox 200 ''worker-a'' 30 example_queue)"

lemma example_leased_reachable: "queue_step\<^sup>*\<^sup>* NewStore example_leased"
  unfolding example_leased_def
  by (rule rtranclp.rtrancl_into_rtrancl [OF example_queue_reachable queue_step.claim])

lemma example_leased_row:
  "map_option (live_lease 220 ''worker-a'') (map_of (st_outbox example_leased) ''drive:op-1:1'') = Some True"
  "map_option (live_lease 220 ''worker-b'') (map_of (st_outbox example_leased) ''drive:op-1:1'') = Some False"
  by code_simp+

theorem completed_work_is_final_witness:
  "fst (CompleteOutbox 220 ''drive:op-1:1'' ''worker-a'' ''done'' example_leased) = Inr () \<and>
   fst (CompleteOutbox 220 ''drive:op-1:1'' ''worker-b'' ''done'' example_leased) \<noteq> Inr ()"
  using completed_work_is_final [OF example_leased_reachable, of 220 "''drive:op-1:1''" "''worker-a''" "''done''"]
    completed_work_is_final [OF example_leased_reachable, of 220 "''drive:op-1:1''" "''worker-b''" "''done''"]
    example_leased_row by auto

section \<open>Claims share the due work out\<close>

fun claims :: "time \<Rightarrow> int \<Rightarrow> string list \<Rightarrow> Store \<Rightarrow> OutboxMessage list \<times> Store" where
  "claims now lease [] s = ([], s)"
| "claims now lease (token # tokens) s =
     (case ClaimOutbox now token lease s of
        (Inr (Some m), s') \<Rightarrow> (case claims now lease tokens s' of (ms, s'') \<Rightarrow> (m # ms, s''))
      | (_, s') \<Rightarrow> claims now lease tokens s')"

definition due_ids :: "time \<Rightarrow> Store \<Rightarrow> string set" where
  "due_ids now s = {k. \<exists>m. map_of (st_outbox s) k = Some m \<and> due now m}"

lemma finite_due_ids [simp]: "finite (due_ids now s)"
  by (rule finite_subset [of _ "dom (map_of (st_outbox s))"]) (auto simp: due_ids_def finite_dom_map_of)

lemma claim_step:
  assumes inv: "outbox_inv (st_outbox s)" and r: "ClaimOutbox now token lease s = (Inr (Some c), s')"
  shows "msg_ID c \<in> due_ids now s" "due_ids now s' = due_ids now s - {msg_ID c}"
    "outbox_inv (st_outbox s')" "msg_LeaseToken c = token"
proof -
  obtain m where m: "map_of (st_outbox s) (msg_ID c) = Some m" "due now m" "c = lease_row now token lease m"
    "s' = s\<lparr>st_outbox := put (msg_ID c) c (st_outbox s)\<rparr>"
    using claim_active [OF inv r] by blast
  show "msg_ID c \<in> due_ids now s" using m(1,2) by (auto simp: due_ids_def)
  have nd: "\<not> due now c" "msg_LeaseToken c = token" by (simp_all add: m(3) due_def lease_row_def)
  show "due_ids now s' = due_ids now s - {msg_ID c}"
    using nd(1) by (subst m(4)) (auto simp: due_ids_def)
  show "msg_LeaseToken c = token" by (rule nd(2))
  show "outbox_inv (st_outbox s')"
    using outbox_effect_inv [OF inv ClaimOutbox_effect [OF outbox_inv_wf [OF inv], of now token lease]] r by simp
qed

lemma claim_none:
  assumes "outbox_inv (st_outbox s)" "\<And>c s'. ClaimOutbox now token lease s \<noteq> (Inr (Some c), s')"
  shows "ClaimOutbox now token lease s = (Inr None, s)" "due_ids now s = {}"
  using outbox_inv_wf [OF assms(1)]
  by (cases rule: ClaimOutbox_cases [where now = now and token = token and lease = lease];
      use assms(2) in \<open>auto simp: due_ids_def\<close>)+

lemma claims_share:
  assumes "outbox_inv (st_outbox s)" "claims now lease tokens s = (ms, s')"
  shows "distinct (map msg_ID ms) \<and> set (map msg_ID ms) \<subseteq> due_ids now s \<and>
    length ms = min (length tokens) (card (due_ids now s))"
  using assms
proof (induction tokens arbitrary: s ms)
  case (Cons token tokens)
  show ?case
  proof (cases "\<exists>c s1. ClaimOutbox now token lease s = (Inr (Some c), s1)")
    case True
    then obtain c s1 where c: "ClaimOutbox now token lease s = (Inr (Some c), s1)" by blast
    note step = claim_step [OF Cons.prems(1) c]
    obtain ms1 where ms1: "claims now lease tokens s1 = (ms1, s')" "ms = c # ms1"
      using Cons.prems(2) by (auto simp: c split: prod.splits)
    have IH: "distinct (map msg_ID ms1)" "set (map msg_ID ms1) \<subseteq> due_ids now s - {msg_ID c}"
      "length ms1 = min (length tokens) (card (due_ids now s - {msg_ID c}))"
      using Cons.IH [OF step(3) ms1(1)] step(2) by auto
    have pos: "0 < card (due_ids now s)" using step(1) by (auto simp: card_gt_0_iff)
    have "length ms = min (length (token # tokens)) (card (due_ids now s))"
      using IH(3) step(1) pos by (simp add: ms1(2))
    then show ?thesis using IH(1,2) step(1) by (auto simp: ms1(2))
  next
    case False
    then have n: "ClaimOutbox now token lease s = (Inr None, s)" "due_ids now s = {}"
      using claim_none [OF Cons.prems(1)] by blast+
    have "claims now lease tokens s = (ms, s')" using Cons.prems(2) n(1) by simp
    from Cons.IH [OF Cons.prems(1) this] show ?thesis by (simp add: n(2))
  qed
qed simp

text \<open>
  C22: Claims share the due work out without loss or duplication. However many workers claim in turn,
  no row is handed to two of them, only rows that are pending and due are handed out, and as soon as
  there are as many claims as due rows, every due row has been handed out.
\<close>
theorem claims_exclusive_and_complete:
  assumes "queue_step\<^sup>*\<^sup>* NewStore s" "claims now lease tokens s = (ms, s')"
  shows "distinct (map msg_ID ms) \<and> set (map msg_ID ms) \<subseteq> due_ids now s \<and>
    length ms = min (length tokens) (card (due_ids now s)) \<and>
    (card (due_ids now s) \<le> length tokens \<longrightarrow> set (map msg_ID ms) = due_ids now s)"
proof -
  have s: "distinct (map msg_ID ms)" "set (map msg_ID ms) \<subseteq> due_ids now s"
    "length ms = min (length tokens) (card (due_ids now s))"
    using claims_share [OF queue_reachable_inv [OF assms(1)] assms(2)] by blast+
  have "set (map msg_ID ms) = due_ids now s" if "card (due_ids now s) \<le> length tokens"
    by (rule card_subset_eq [OF finite_due_ids s(2)])
      (use distinct_card [OF s(1)] s(3) that in simp)
  then show ?thesis using s by blast
qed

lemma example_claims:
  "map msg_ID (fst (claims 200 30 [''a'', ''b'', ''c'', ''d''] example_queue)) =
     [''drive:op-1:1'', ''observe:op-1:1'', ''wake-dependents:db:3'']"
  by code_simp

theorem claims_exclusive_and_complete_witness:
  "card (due_ids 200 example_queue) = 3"
proof -
  let ?r = "claims 200 30 [''a'', ''b'', ''c'', ''d''] example_queue"
  have "?r = (fst ?r, snd ?r)" by simp
  from claims_exclusive_and_complete [OF example_queue_reachable this] example_claims
  have "3 = min (length [''a'', ''b'', ''c'', ''d'']) (card (due_ids 200 example_queue))"
    by (metis length_map length_Cons list.size(3) numeral_3_eq_3 One_nat_def)
  then show ?thesis by (simp add: min_def split: if_splits)
qed

lemma fresh_scan: "fresh_work message (st_outbox s) \<longleftrightarrow> enqueue_scan message (map snd (st_outbox s)) = None"
  by (simp add: enqueue_scan_None fresh_work_def)

text \<open>
  Enqueueing is idempotent per deduplication key and admits one active row per aggregate. A
  message is stored exactly when no row has its key and no active row of the same kind names its
  Operation or Resource; a refusal with a conflict always has such an active row, a silent success
  without a new row always has a row with that key; and repeating the call changes nothing.
\<close>
theorem enqueue_exact:
  "(snd (Enqueue now message s) \<noteq> s \<longrightarrow>
       fst (Enqueue now message s) = Inr () \<and> fresh_work message (st_outbox s)) \<and>
     (fresh_work message (st_outbox s) \<longrightarrow> fst (Enqueue now message s) = Inr () \<and>
       (\<exists>m. map_of (st_outbox (snd (Enqueue now message s))) (msg_ID message) = Some m \<and>
          work_identity m = work_identity message)) \<and>
     (fst (Enqueue now message s) \<noteq> Inr () \<longrightarrow>
       fst (Enqueue now message s) = Inl (ErrConcurrencyConflict ''concurrency conflict'') \<and>
       (\<exists>e \<in> set (map snd (st_outbox s)). active_work e \<and> same_aggregate e message)) \<and>
     (fst (Enqueue now message s) = Inr () \<and> \<not> fresh_work message (st_outbox s) \<longrightarrow>
       (\<exists>e \<in> set (map snd (st_outbox s)). msg_DedupeKey e = msg_DedupeKey message)) \<and>
     snd (Enqueue now message (snd (Enqueue now message s))) = snd (Enqueue now message s)"
proof (cases "enqueue_scan message (map snd (st_outbox s))")
  case None
  let ?m = "stamp_times now (if msg_State message = OutboxStateOther ''''
    then message\<lparr>msg_State := OutboxPending\<rparr> else message)"
  have id: "work_identity ?m = work_identity message" by (simp add: work_identity_def)
  have E: "Enqueue now message s = (Inr (), s\<lparr>st_outbox := put (msg_ID message) ?m (st_outbox s)\<rparr>)"
    using None by (simp add: Enqueue_def Let_def)
  have "?m \<in> set (map snd (put (msg_ID message) ?m (st_outbox s)))"
    using map_of_SomeD [of "put (msg_ID message) ?m (st_outbox s)" "msg_ID message" ?m] by force
  then have "enqueue_scan message (map snd (put (msg_ID message) ?m (st_outbox s))) \<noteq> None"
    unfolding enqueue_scan_None using id [unfolded work_identity_eq] by blast
  then have "snd (Enqueue now message (snd (Enqueue now message s))) = snd (Enqueue now message s)"
    unfolding E by (auto simp: Enqueue_def)
  then show ?thesis using None id E by (simp add: fresh_scan)
next
  case (Some r)
  have E: "Enqueue now message s = (r, s)" using Some by (simp add: Enqueue_def)
  show ?thesis using enqueue_scan_Some [OF Some] E by (auto simp: fresh_scan Some)
qed

theorem enqueue_exact_witness:
  "fst (Enqueue 300 (DriveMessage ''op-1'' 2) example_queue) =
     Inl (ErrConcurrencyConflict ''concurrency conflict'') \<and>
   (\<exists>e \<in> set (map snd (st_outbox example_queue)). active_work e \<and> same_aggregate e (DriveMessage ''op-1'' 2))"
proof -
  have "(case fst (Enqueue 300 (DriveMessage ''op-1'' 2) example_queue) of Inl _ \<Rightarrow> True | Inr _ \<Rightarrow> False)"
    by code_simp
  then have "fst (Enqueue 300 (DriveMessage ''op-1'' 2) example_queue) \<noteq> Inr ()"
    by (auto split: sum.splits)
  then show ?thesis using enqueue_exact [of 300 "DriveMessage ''op-1'' 2" example_queue] by blast
qed

end
