(* ===== verification/Dependencies.thy ===== *)
theory Dependencies
  imports Outbox Paging
begin

text \<open>
  Stored references and the dependency gate: the reference and wait tables of the store
  (\<^verbatim>\<open>src/internal/application/fake/references.go\<close>), the evaluation of a Resource's dependencies
  before its provider is called (\<^verbatim>\<open>application/dependencies.go\<close>), the admission check of newly added
  references (\<^verbatim>\<open>application/references.go\<close>) and the conditional wake of blocked dependents
  (\<^verbatim>\<open>application/work.go\<close>).

  The catalog of resource types and the authorizer are supplied from outside these files; they are
  arguments. \<open>None\<close> for the catalog is Go's nil interface.
\<close>

section \<open>Reading the store inside a transaction\<close>

lemma tx_apply [simp]:
  "returnT x s = (Inr x, s)" "throwT e s = (Inl e, s)" "liftT r s = (r, s)" "readT f s = (f s, s)"
  by (simp_all add: returnT_def throwT_def liftT_def readT_def)

lemma bindT_Inr [simp]: "m s = (Inr x, s') \<Longrightarrow> bindT m f s = f x s'"
  and bindT_Inl [simp]: "m s = (Inl e, s') \<Longrightarrow> bindT m f s = (Inl e, s')"
  by (simp_all add: bindT_def)

lemma bindT_eq_Inr:
  "bindT m f s = (Inr y, s'') \<longleftrightarrow> (\<exists>x s'. m s = (Inr x, s') \<and> f x s' = (Inr y, s''))"
  by (auto simp: bindT_def split: prod.splits sum.splits)

section \<open>Reference and wait tables\<close>

definition edges_of :: "(resource_id, ReferenceEdge list) table \<Rightarrow> resource_id \<Rightarrow> ReferenceEdge list" where
  "edges_of t source = (case map_of t source of None \<Rightarrow> [] | Some es \<Rightarrow> es)"

definition DesiredReferences :: "resource_id \<Rightarrow> ReferenceEdge list tx" where
  "DesiredReferences source = readT (\<lambda>s. Inr (edges_of (st_desiredReferences s) source))"

definition AppliedReferences :: "resource_id \<Rightarrow> ReferenceEdge list tx" where
  "AppliedReferences source = readT (\<lambda>s. Inr (edges_of (st_appliedReferences s) source))"

definition stamp_edges :: "uint64 \<Rightarrow> ReferenceEdge list \<Rightarrow> ReferenceEdge list" where
  "stamp_edges generation edges = map (\<lambda>e. e\<lparr>edge_Generation := generation\<rparr>) edges"

definition ReplaceDesiredReferences :: "resource_id \<Rightarrow> uint64 \<Rightarrow> ReferenceEdge list \<Rightarrow> unit tx" where
  "ReplaceDesiredReferences source generation edges = (\<lambda>s.
     (Inr (), s\<lparr>st_desiredReferences :=
        (if edges = [] then del source (st_desiredReferences s)
         else put source (stamp_edges generation edges) (st_desiredReferences s))\<rparr>))"

definition AdvanceAppliedReferences :: "resource_id \<Rightarrow> uint64 \<Rightarrow> ReferenceEdge list \<Rightarrow> unit tx" where
  "AdvanceAppliedReferences source generation edges = (\<lambda>s.
     (Inr (), s\<lparr>st_appliedReferences :=
        (if edges = [] then del source (st_appliedReferences s)
         else put source (stamp_edges generation edges) (st_appliedReferences s))\<rparr>))"

definition DeleteReferencesForSource :: "resource_id \<Rightarrow> unit tx" where
  "DeleteReferencesForSource source = (\<lambda>s.
     (Inr (), s\<lparr>st_desiredReferences := del source (st_desiredReferences s),
                st_appliedReferences := del source (st_appliedReferences s)\<rparr>))"

definition inboundSources :: "(resource_id, ReferenceEdge list) table \<Rightarrow> resource_id \<Rightarrow> resource_id list" where
  "inboundSources t target =
     sort (map fst (filter (\<lambda>(source, edges). list_ex (\<lambda>e. edge_TargetID e = target) edges) t))"

definition live_source :: "Store \<Rightarrow> resource_id \<Rightarrow> bool" where
  "live_source s source \<longleftrightarrow>
     (case map_of (st_resources s) source of
        None \<Rightarrow> False | Some r \<Rightarrow> status_state (rr_Status r) \<noteq> ResourceStateDeleted)"

definition HasInboundProtectiveReference :: "resource_id \<Rightarrow> bool tx" where
  "HasInboundProtectiveReference target = readT (\<lambda>s.
     let desired = inboundSources (st_desiredReferences s) target;
         applied = inboundSources (st_appliedReferences s) target
     in if \<not> list_all (live_source s) desired
          then Inl (ErrReferenceInvariant ''desired reference row belongs to a Deleted or missing source'')
        else if \<not> list_all (live_source s) applied
          then Inl (ErrReferenceInvariant ''applied reference row belongs to a Deleted or missing source'')
        else Inr (desired \<noteq> [] \<or> applied \<noteq> []))"

definition OutgoingReferenceTargets :: "resource_id \<Rightarrow> resource_id list tx" where
  "OutgoingReferenceTargets source = readT (\<lambda>s.
     Inr (sort (remdups (map edge_TargetID (edges_of (st_desiredReferences s) source)))))"

definition NUL :: char where "NUL = char_of (0 :: nat)"

definition waitKey :: "operation_id \<Rightarrow> resource_id \<Rightarrow> string" where
  "waitKey operationID target = operationID @ [NUL] @ target"

definition register_wait ::
    "operation_id \<Rightarrow> uint64 \<Rightarrow> resource_id \<times> uint64 \<Rightarrow> Store \<Rightarrow> Store" where
  "register_wait operationID operationVersion row s =
     (let key = waitKey operationID (fst row);
          fresh = map_of (st_dependencyWaits s) key = None;
          n = st_nextWaitSequence s + 1;
          sequence = (case map_of (st_dependencyWaits s) key of None \<Rightarrow> n | Some w \<Rightarrow> wait_WaitSequence w)
      in s\<lparr>st_nextWaitSequence := (if fresh then n else st_nextWaitSequence s),
           st_dependencyWaits := put key
             \<lparr>wait_OperationID = operationID, wait_TargetID = fst row, wait_WaitSequence = sequence,
              wait_OperationVersion = operationVersion, wait_RegisteredTargetVersion = snd row\<rparr>
             (st_dependencyWaits s)\<rparr>)"

definition RegisterDependencyWaits ::
    "operation_id \<Rightarrow> uint64 \<Rightarrow> (resource_id, uint64) table \<Rightarrow> unit tx" where
  "RegisterDependencyWaits operationID operationVersion targets = (\<lambda>s.
     (Inr (), fold (register_wait operationID operationVersion) targets s))"

definition wait_prefix :: "operation_id \<Rightarrow> string \<Rightarrow> bool" where
  "wait_prefix operationID key \<longleftrightarrow>
     (let prefix = operationID @ [NUL] in length prefix < length key \<and> take (length prefix) key = prefix)"

definition DeleteDependencyWaitsForOperation :: "operation_id \<Rightarrow> unit tx" where
  "DeleteDependencyWaitsForOperation operationID = (\<lambda>s.
     (Inr (), s\<lparr>st_dependencyWaits :=
        filter (\<lambda>(key, _). \<not> wait_prefix operationID key) (st_dependencyWaits s)\<rparr>))"

definition HasDependencyWaiterForTarget :: "resource_id \<Rightarrow> bool tx" where
  "HasDependencyWaiterForTarget target = readT (\<lambda>s.
     Inr (list_ex (\<lambda>w. wait_TargetID w = target) (map snd (st_dependencyWaits s))))"

definition HasDependencyWaitsForOperation :: "operation_id \<Rightarrow> bool tx" where
  "HasDependencyWaitsForOperation operationID = readT (\<lambda>s.
     Inr (list_ex (wait_prefix operationID) (map fst (st_dependencyWaits s))))"

definition PageDependencyWaitersByTarget ::
    "resource_id \<Rightarrow> uint64 \<Rightarrow> int \<Rightarrow> (DependencyWait list \<times> uint64) tx" where
  "PageDependencyWaitersByTarget target afterSequence limit = readT (\<lambda>s.
     let rows = filter (\<lambda>w. wait_TargetID w = target) (map snd (st_dependencyWaits s));
         matching = sort_key wait_WaitSequence (filter (\<lambda>w. afterSequence < wait_WaitSequence w) rows);
         waits = take (nat limit) matching;
         highest = foldr (\<lambda>w h. max (wait_WaitSequence w) h) rows 0
     in Inr (waits, if waits = [] then 0
                    else if highest \<le> wait_WaitSequence (last waits) then 0
                    else wait_WaitSequence (last waits)))"

section \<open>Waking dependents\<close>

definition EnqueueWakeDependentsIfWaited :: "time \<Rightarrow> resource_id \<Rightarrow> uint64 \<Rightarrow> unit tx" where
  "EnqueueWakeDependentsIfWaited now target targetVersion =
     bindT (HasDependencyWaiterForTarget target) (\<lambda>has.
       if \<not> has then returnT ()
       else EnqueueWakeDependents now (WakeDependentsMessage target targetVersion))"

section \<open>The dependency gate\<close>

record ResourceContract =
  rc_ReferenceContract :: "ReferenceContract option"
  rc_OutputContract :: "OutputContract option"

type_synonym catalog = "ResourceTypeRef \<Rightarrow> ResourceContract result"

datatype DependencyClass =
    DependencyReady | DependencyWaiting | DependencyTerminalFailure | DependencyInvalid

record DependencyEvaluation =
  eval_Class :: DependencyClass
  eval_Blocking :: "resource_id list"
  eval_TargetVersions :: "(resource_id, uint64) table"

definition generation_reconciled :: "ResourceRecord \<Rightarrow> bool" where
  "generation_reconciled target \<longleftrightarrow>
     list_ex (\<lambda>c. cond_typeName c = ConditionReconciled \<and> cond_status c = ConditionStatusTrue \<and>
                  cond_observedGeneration c = resource_generation (rr_Resource target))
       (status_conditions (rr_Status target))"

definition outputs_required :: "catalog \<Rightarrow> ResourceTypeRef \<Rightarrow> bool" where
  "outputs_required types ref =
     (case types ref of
        Inr contract \<Rightarrow> (case rc_OutputContract contract of None \<Rightarrow> False | Some oc \<Rightarrow> RequiresOutputs oc)
      | Inl _ \<Rightarrow> False)"

definition outputs_published :: "Store \<Rightarrow> ResourceRecord \<Rightarrow> bool" where
  "outputs_published s target =
     (case fst (LatestResourceOutputs (resource_id (rr_Resource target)) s) of
        Inr (Some record) \<Rightarrow> outputs_observedGeneration (out_Values record) = resource_generation (rr_Resource target)
      | _ \<Rightarrow> False)"

definition classifyDependency :: "catalog \<Rightarrow> ResourceRecord \<Rightarrow> Store \<Rightarrow> DependencyClass" where
  "classifyDependency types target s =
     (let state = status_state (rr_Status target) in
      if state = ResourceStateDeleting \<or> state = ResourceStateDeleted then DependencyInvalid
      else if state = ResourceStatePending \<or> state = ResourceStateUnknown then DependencyWaiting
      else if state \<noteq> ResourceStateFailed \<and> state \<noteq> ResourceStateReady then DependencyInvalid
      else case fst (ActiveForResource (resource_id (rr_Resource target)) s) of
        Inl _ \<Rightarrow> DependencyInvalid
      | Inr active \<Rightarrow>
          let hasActive = (case active of None \<Rightarrow> False | Some r \<Rightarrow> \<not> IsTerminal (or_Operation r)) in
          if state = ResourceStateFailed \<and> \<not> hasActive then DependencyTerminalFailure
          else if state \<noteq> ResourceStateReady then DependencyWaiting
          else if \<not> generation_reconciled target \<or> hasActive then DependencyWaiting
          else if outputs_required types (resource_typeRef (rr_Resource target)) \<and>
                  \<not> outputs_published s target then DependencyWaiting
          else DependencyReady)"

fun evaluate_targets ::
    "(ResourceRecord \<Rightarrow> DependencyClass) \<Rightarrow> ResourceRecord list \<Rightarrow> DependencyEvaluation \<Rightarrow> DependencyEvaluation" where
  "evaluate_targets classify [] ev = ev"
| "evaluate_targets classify (target # rest) ev =
     (let tid = resource_id (rr_Resource target);
          ev1 = ev\<lparr>eval_TargetVersions := put tid (rr_Version target) (eval_TargetVersions ev)\<rparr>
      in evaluate_targets classify rest
        (case classify target of
           DependencyReady \<Rightarrow> ev1
         | DependencyWaiting \<Rightarrow>
             ev1\<lparr>eval_Class := DependencyWaiting, eval_Blocking := eval_Blocking ev @ [tid]\<rparr>
         | DependencyTerminalFailure \<Rightarrow>
             ev1\<lparr>eval_Class := (if eval_Class ev \<noteq> DependencyInvalid then DependencyTerminalFailure
                                else eval_Class ev), eval_Blocking := eval_Blocking ev @ [tid]\<rparr>
         | DependencyInvalid \<Rightarrow>
             ev1\<lparr>eval_Class := DependencyInvalid, eval_Blocking := eval_Blocking ev @ [tid]\<rparr>))"

text \<open>The result is \<open>None\<close> where the code reports that the Resource is not gated.\<close>

definition EvaluateDependencies ::
    "catalog option \<Rightarrow> ResourceRecord \<Rightarrow> DependencyEvaluation option tx" where
  "EvaluateDependencies types resource =
     (case types of
        None \<Rightarrow> returnT None
      | Some catalog \<Rightarrow>
          (case catalog (resource_typeRef (rr_Resource resource)) of
             Inl _ \<Rightarrow> throwT (ErrResourceTypeNotFound ''resource type not found'')
           | Inr contract \<Rightarrow>
               if rc_ReferenceContract contract = None then returnT None
               else bindT (DesiredReferences (resource_id (rr_Resource resource))) (\<lambda>desired.
                 if list_ex (\<lambda>e. edge_Generation e \<noteq> resource_generation (rr_Resource resource)) desired
                   then throwT (ErrReferenceInvariant
                          ''desired reference generation does not match resource generation'')
                 else if desired = [] then returnT None
                 else bindT (LockResources (distinctEdgeTargets desired)) (\<lambda>targets.
                   readT (\<lambda>s. Inr (Some (evaluate_targets (\<lambda>t. classifyDependency catalog t s) targets
                     \<lparr>eval_Class = DependencyReady, eval_Blocking = [], eval_TargetVersions = []\<rparr>)))))))"

section \<open>Admission of new reference targets\<close>

definition admissible_target ::
    "(ResourceRecord \<Rightarrow> bool) \<Rightarrow> OwnerRef \<Rightarrow> ReferenceContract option \<Rightarrow> ReferenceEdge \<Rightarrow> ResourceRecord \<Rightarrow> bool" where
  "admissible_target authorized owner contract edge record \<longleftrightarrow>
     resource_owner (rr_Resource record) = owner \<and>
     SlotTargetTypeAllowed contract (edge_Slot edge) (resource_typeRef (rr_Resource record)) \<and>
     status_state (rr_Status record) \<in> {ResourceStateUnknown, ResourceStatePending, ResourceStateReady,
       ResourceStateFailed} \<and>
     authorized record"

fun check_added ::
    "(ResourceRecord \<Rightarrow> bool) \<Rightarrow> OwnerRef \<Rightarrow> ReferenceContract option \<Rightarrow> ResourceRecord list \<Rightarrow>
      ReferenceEdge list \<Rightarrow> unit result" where
  "check_added authorized owner contract locked [] = Inr ()"
| "check_added authorized owner contract locked (edge # edges) =
     (case map_of (rev (map (\<lambda>r. (resource_id (rr_Resource r), r)) locked)) (edge_TargetID edge) of
        None \<Rightarrow> Inl (hiddenTargetViolation (edge_Slot edge))
      | Some record \<Rightarrow>
          if admissible_target authorized owner contract edge record
          then check_added authorized owner contract locked edges
          else Inl (hiddenTargetViolation (edge_Slot edge)))"

definition validateReferenceTargets ::
    "(ResourceRecord \<Rightarrow> bool) \<Rightarrow> OwnerRef \<Rightarrow> ReferenceContract option \<Rightarrow> ReferenceEdge list \<Rightarrow> unit tx" where
  "validateReferenceTargets authorized owner contract added = (\<lambda>s.
     case LockResources (distinctEdgeTargets added) s of
       (Inl (ErrResourceNotFound _), s') \<Rightarrow> (Inl (hiddenTargetViolation (edge_Slot (hd added))), s')
     | (Inl e, s') \<Rightarrow> (Inl e, s')
     | (Inr locked, s') \<Rightarrow> (check_added authorized owner contract locked added, s'))"

section \<open>The gate evaluates every target\<close>

lemma lock_resources_Inr:
  "lock_resources t ids = Inr rs \<Longrightarrow> map (map_of t) ids = map Some rs"
  by (induction ids arbitrary: rs) (auto split: option.splits)

lemma lock_resources_total:
  "\<forall>i \<in> set ids. map_of t i \<noteq> None \<Longrightarrow> \<exists>rs. lock_resources t ids = Inr rs"
  by (induction ids) (auto split: option.splits)

lemma evaluate_targets_blocking:
  "eval_Blocking (evaluate_targets classify ts ev) =
     eval_Blocking ev @ map (\<lambda>t. resource_id (rr_Resource t)) (filter (\<lambda>t. classify t \<noteq> DependencyReady) ts)"
  by (induction ts arbitrary: ev) (auto simp: Let_def split: DependencyClass.splits)

lemma evaluate_targets_ready:
  "eval_Class (evaluate_targets classify ts ev) = DependencyReady \<longleftrightarrow>
     eval_Class ev = DependencyReady \<and> (\<forall>t \<in> set ts. classify t = DependencyReady)"
  by (induction ts arbitrary: ev) (auto simp: Let_def split: DependencyClass.splits)

lemma evaluate_targets_version_other:
  "tid \<notin> (\<lambda>t. resource_id (rr_Resource t)) ` set ts \<Longrightarrow>
     map_of (eval_TargetVersions (evaluate_targets classify ts ev)) tid = map_of (eval_TargetVersions ev) tid"
  by (induction ts arbitrary: ev) (auto simp: Let_def split: DependencyClass.splits)

lemma evaluate_targets_versions:
  assumes "distinct (map (\<lambda>t. resource_id (rr_Resource t)) ts)" "t \<in> set ts"
  shows "map_of (eval_TargetVersions (evaluate_targets classify ts ev)) (resource_id (rr_Resource t)) =
    Some (rr_Version t)"
  using assms
proof (induction ts arbitrary: ev)
  case (Cons u ts)
  show ?case
  proof (cases "u = t")
    case True
    then have "resource_id (rr_Resource t) \<notin> (\<lambda>t. resource_id (rr_Resource t)) ` set ts"
      using Cons.prems(1) by simp
    from evaluate_targets_version_other [OF this] True show ?thesis
      by (cases "classify t") (simp_all add: Let_def)
  qed (use Cons in \<open>simp add: Let_def\<close>)
qed simp

lemma classify_ready:
  "classifyDependency types target s = DependencyReady \<longleftrightarrow>
     status_state (rr_Status target) = ResourceStateReady \<and> generation_reconciled target \<and>
     fst (ActiveForResource (resource_id (rr_Resource target)) s) = Inr None \<and>
     (outputs_required types (resource_typeRef (rr_Resource target)) \<longrightarrow> outputs_published s target)"
proof -
  have "(case active of None \<Rightarrow> False | Some r \<Rightarrow> \<not> IsTerminal (or_Operation r)) = (active \<noteq> None)"
    if "fst (ActiveForResource rid s) = Inr active" for active rid
    using that by (auto simp: ActiveForResource_def split: option.splits dest!: find_SomeD)
  then show ?thesis
    unfolding classifyDependency_def Let_def
    by (cases "fst (ActiveForResource (resource_id (rr_Resource target)) s)") auto
qed

lemma no_active_operation:
  assumes "operations_inv s" "fst (ActiveForResource rid s) = Inr None"
    "map_of (st_operations s) oid = Some r" "op_resourceID (or_Operation r) = rid"
  shows "IsTerminal (or_Operation r)"
  using assms map_of_SomeD [OF assms(3)] by (force simp: ActiveForResource_def find_None_iff)

lemma evaluation_cases:
  assumes "EvaluateDependencies types resource s = (Inr (Some ev), s')"
  obtains catalog locked where "types = Some catalog" "s' = s"
    "lock_resources (st_resources s)
       (distinctEdgeTargets (edges_of (st_desiredReferences s) (resource_id (rr_Resource resource)))) = Inr locked"
    "\<forall>e \<in> set (edges_of (st_desiredReferences s) (resource_id (rr_Resource resource))).
       edge_Generation e = resource_generation (rr_Resource resource)"
    "ev = evaluate_targets (\<lambda>t. classifyDependency catalog t s) locked
       \<lparr>eval_Class = DependencyReady, eval_Blocking = [], eval_TargetVersions = []\<rparr>"
proof -
  have sort_distinct: "sort (distinctEdgeTargets es) = distinctEdgeTargets es" for es
    by (simp add: distinctEdgeTargets_def sorted_sort_id)
  show thesis
    using assms unfolding EvaluateDependencies_def
    by (auto simp: bindT_eq_Inr DesiredReferences_def LockResources_def sort_distinct list_ex_iff
        split: option.splits sum.splits if_splits intro!: that)
qed

text \<open>
  C21: The gate lets work reach a provider only when every dependency has converged. A gate evaluation
  changes nothing; it is READY exactly when no target blocks; a READY result means that every target of
  a desired reference exists, is Ready and reconciled at its own current generation, has no Operation
  in progress and has published the outputs its type requires at that generation; and every target that
  blocks is recorded together with the version it was observed at.
\<close>
theorem gate_ready_only_when_converged:
  assumes "operations_inv s" "resources_inv s"
    and "EvaluateDependencies (Some types) resource s = (Inr (Some ev), s')"
  shows "s' = s \<and> (eval_Class ev = DependencyReady \<longleftrightarrow> eval_Blocking ev = []) \<and>
    (\<forall>e \<in> set (edges_of (st_desiredReferences s) (resource_id (rr_Resource resource))).
       \<exists>t. map_of (st_resources s) (edge_TargetID e) = Some t \<and>
         map_of (eval_TargetVersions ev) (edge_TargetID e) = Some (rr_Version t) \<and>
         (edge_TargetID e \<in> set (eval_Blocking ev) \<or>
            status_state (rr_Status t) = ResourceStateReady \<and> generation_reconciled t \<and>
            (\<forall>oid r. map_of (st_operations s) oid = Some r \<and>
               op_resourceID (or_Operation r) = edge_TargetID e \<longrightarrow> IsTerminal (or_Operation r)) \<and>
            (outputs_required types (resource_typeRef (rr_Resource t)) \<longrightarrow> outputs_published s t)))"
proof -
  let ?edges = "edges_of (st_desiredReferences s) (resource_id (rr_Resource resource))"
  let ?ids = "distinctEdgeTargets ?edges"
  obtain locked where locked: "s' = s" "lock_resources (st_resources s) ?ids = Inr locked"
    "ev = evaluate_targets (\<lambda>t. classifyDependency types t s) locked
       \<lparr>eval_Class = DependencyReady, eval_Blocking = [], eval_TargetVersions = []\<rparr>"
    by (rule evaluation_cases [OF assms(3)]) auto
  have rows: "map (map_of (st_resources s)) ?ids = map Some locked" by (rule lock_resources_Inr [OF locked(2)])
  have key: "k = resource_id (rr_Resource r)" if "map_of (st_resources s) k = Some r" for k r
    using assms(2) map_of_SomeD [OF that] unfolding resources_inv_def by blast
  have ids: "map (\<lambda>t. resource_id (rr_Resource t)) locked = ?ids"
  proof (rule nth_equalityI)
    show len: "length (map (\<lambda>t. resource_id (rr_Resource t)) locked) = length ?ids"
      using map_eq_imp_length_eq [OF rows] by simp
    fix i assume i: "i < length (map (\<lambda>t. resource_id (rr_Resource t)) locked)"
    then have "map_of (st_resources s) (?ids ! i) = Some (locked ! i)"
      using arg_cong [OF rows, of "\<lambda>xs. xs ! i"] len by simp
    from key [OF this] show "map (\<lambda>t. resource_id (rr_Resource t)) locked ! i = ?ids ! i" using i by simp
  qed
  have block: "eval_Blocking ev = map (\<lambda>t. resource_id (rr_Resource t))
      (filter (\<lambda>t. classifyDependency types t s \<noteq> DependencyReady) locked)"
    by (simp add: locked(3) evaluate_targets_blocking)
  have ready: "eval_Class ev = DependencyReady \<longleftrightarrow> eval_Blocking ev = []"
    unfolding block by (simp add: locked(3) evaluate_targets_ready filter_empty_conv)
  have dist: "distinct (map (\<lambda>t. resource_id (rr_Resource t)) locked)"
    unfolding ids by (simp add: distinctEdgeTargets_def)
  have "\<exists>t. map_of (st_resources s) (edge_TargetID e) = Some t \<and>
         map_of (eval_TargetVersions ev) (edge_TargetID e) = Some (rr_Version t) \<and>
         (edge_TargetID e \<in> set (eval_Blocking ev) \<or> classifyDependency types t s = DependencyReady)"
    if "e \<in> set ?edges" for e
  proof -
    have "edge_TargetID e \<in> set ?ids" using that by (simp add: distinctEdgeTargets_def)
    then obtain t where t: "t \<in> set locked" "resource_id (rr_Resource t) = edge_TargetID e"
      unfolding ids [symmetric] by auto
    have "Some t \<in> set (map (map_of (st_resources s)) ?ids)" unfolding rows using t(1) by simp
    then obtain k where k: "map_of (st_resources s) k = Some t" by auto
    with key [OF k] t(2) have m: "map_of (st_resources s) (edge_TargetID e) = Some t" by simp
    have "map_of (eval_TargetVersions ev) (edge_TargetID e) = Some (rr_Version t)"
      using evaluate_targets_versions [OF dist t(1)] by (simp add: locked(3) t(2))
    moreover have "edge_TargetID e \<in> set (eval_Blocking ev) \<or> classifyDependency types t s = DependencyReady"
      unfolding block using t by force
    ultimately show ?thesis using m by blast
  qed
  moreover have "status_state (rr_Status t) = ResourceStateReady \<and> generation_reconciled t \<and>
      (\<forall>oid r. map_of (st_operations s) oid = Some r \<and> op_resourceID (or_Operation r) = k \<longrightarrow>
         IsTerminal (or_Operation r)) \<and>
      (outputs_required types (resource_typeRef (rr_Resource t)) \<longrightarrow> outputs_published s t)"
    if "classifyDependency types t s = DependencyReady" "map_of (st_resources s) k = Some t" for t k
    using that(1) no_active_operation [OF assms(1), of "resource_id (rr_Resource t)"]
    unfolding classify_ready key [OF that(2)] by blast
  ultimately show ?thesis using locked(1) ready by blast
qed

definition example_target :: ResourceRecord where
  "example_target = (example_resource_record ''res-1'' ResourceStateReady)
     \<lparr>rr_Status := \<lparr>status_resourceID = ''res-1'', status_observedGeneration = 1,
       status_state = ResourceStateReady,
       status_conditions = [example_condition ConditionReconciled ConditionStatusTrue ''LifecycleSucceeded''],
       status_updatedAt = 10\<rparr>\<rparr>"

definition example_gate_store :: Store where
  "example_gate_store = snd (ReplaceDesiredReferences ''res-2'' 1
      [\<lparr>edge_Slot = ''db'', edge_TargetID = ''res-1'', edge_Generation = 0\<rparr>]
     (snd (CreateResource (example_resource_record ''res-2'' ResourceStatePending)
     (snd (CreateResource example_target NewStore)))))"

definition example_catalog :: catalog where
  "example_catalog ref = Inr \<lparr>rc_ReferenceContract = Some example_contract, rc_OutputContract = None\<rparr>"

lemma example_gate_inv: "operations_inv example_gate_store" "resources_inv example_gate_store"
proof -
  have n: "st_nextResourceSequence NewStore \<noteq> - 1"
    "st_nextResourceSequence (snd (CreateResource example_target NewStore)) \<noteq> - 1"
    by (simp_all add: NewStore_def CreateResource_def Let_def example_target_def example_resource_record_def)
  define s0 where "s0 = snd (CreateResource (example_resource_record ''res-2'' ResourceStatePending)
    (snd (CreateResource example_target NewStore)))"
  have "resources_step\<^sup>*\<^sup>* NewStore s0"
    unfolding s0_def
    by (rule rtranclp.rtrancl_into_rtrancl, rule rtranclp.rtrancl_into_rtrancl, rule rtranclp.rtrancl_refl)
      (rule resources_step.create, rule n)+
  moreover have "resources_step s0 example_gate_store"
    by (rule resources_step.other)
      (simp_all add: example_gate_store_def ReplaceDesiredReferences_def flip: s0_def)
  ultimately have "resources_step\<^sup>*\<^sup>* NewStore example_gate_store"
    by (rule rtranclp.rtrancl_into_rtrancl)
  then show "resources_inv example_gate_store" by (rule resources_reachable_inv)
  show "operations_inv example_gate_store"
    by (simp add: operations_inv_def example_gate_store_def ReplaceDesiredReferences_def CreateResource_def
        Let_def NewStore_def example_target_def example_resource_record_def)
qed

lemma example_gate_result:
  "map_prod (map_sum id (map_option eval_Class)) (\<lambda>_. ())
     (EvaluateDependencies (Some example_catalog) (example_resource_record ''res-2'' ResourceStatePending)
        example_gate_store) = (Inr (Some DependencyReady), ())"
  by code_simp

theorem gate_ready_only_when_converged_witness:
  "\<exists>t. map_of (st_resources example_gate_store) ''res-1'' = Some t \<and> generation_reconciled t"
proof -
  let ?r = "example_resource_record ''res-2'' ResourceStatePending"
  obtain ev s' where r: "EvaluateDependencies (Some example_catalog) ?r example_gate_store = (Inr (Some ev), s')"
    "eval_Class ev = DependencyReady"
    using example_gate_result
    by (cases "EvaluateDependencies (Some example_catalog) ?r example_gate_store")
      (auto simp: map_sum_def split: sum.splits)
  have e: "\<lparr>edge_Slot = ''db'', edge_TargetID = ''res-1'', edge_Generation = 1\<rparr> \<in>
      set (edges_of (st_desiredReferences example_gate_store) (resource_id (rr_Resource ?r)))"
    by (simp add: example_gate_store_def ReplaceDesiredReferences_def edges_of_def stamp_edges_def
        example_resource_record_def)
  from gate_ready_only_when_converged [OF example_gate_inv r(1)] r(2) e show ?thesis by fastforce
qed

section \<open>Waits and wakes\<close>

text \<open>
  The class of an evaluation depends on the order of the target identifiers when one target is invalid
  and another still converges: a WAIT after an INVALID replaces it, an INVALID after a WAIT replaces that.
\<close>

lemma gate_class_depends_on_order:
  assumes "classify a = DependencyInvalid" "classify b = DependencyWaiting"
  shows "eval_Class (evaluate_targets classify [a, b] ev) = DependencyWaiting"
    "eval_Class (evaluate_targets classify [b, a] ev) = DependencyInvalid"
  using assms by (simp_all add: Let_def)

lemma waitKey_prefix:
  assumes "NUL \<notin> set op" "NUL \<notin> set op'" "target \<noteq> ''''"
  shows "wait_prefix op (waitKey op' target) \<longleftrightarrow> op = op'"
proof
  assume "wait_prefix op (waitKey op' target)"
  then have "take (length (op @ [NUL])) (op' @ NUL # target) = op @ [NUL]"
    unfolding wait_prefix_def waitKey_def Let_def by simp
  then obtain rest where "op' @ NUL # target = (op @ [NUL]) @ rest" by (metis append_take_drop_id)
  then have "op' @ NUL # target = op @ NUL # rest" by simp
  then have "takeWhile (\<lambda>c. c \<noteq> NUL) (op' @ NUL # target) = takeWhile (\<lambda>c. c \<noteq> NUL) (op @ NUL # rest)" by simp
  moreover have "takeWhile (\<lambda>c. c \<noteq> NUL) (xs @ NUL # ys) = xs" if "NUL \<notin> set xs" for xs ys :: string
    using that by (induction xs) auto
  ultimately show "op = op'" using assms(1,2) by simp
qed (use assms(3) in \<open>simp add: wait_prefix_def waitKey_def\<close>)

lemma fold_register_wait:
  assumes "distinct (map fst targets)" "(t, v) \<in> set targets"
  shows "\<exists>w. map_of (st_dependencyWaits (fold (register_wait op ov) targets s)) (waitKey op t) = Some w \<and>
    wait_OperationID w = op \<and> wait_TargetID w = t \<and> wait_OperationVersion w = ov \<and> wait_RegisteredTargetVersion w = v"
  using assms
proof (induction targets arbitrary: s)
  case (Cons row rows)
  have keep: "map_of (st_dependencyWaits (fold (register_wait op ov) rows s1)) (waitKey op t) =
      map_of (st_dependencyWaits s1) (waitKey op t)" if "t \<notin> fst ` set rows" for s1
    using that by (induction rows arbitrary: s1) (auto simp: register_wait_def Let_def waitKey_def)
  show ?case
  proof (cases "row = (t, v)")
    case True
    have "map_of (st_dependencyWaits (fold (register_wait op ov) (row # rows) s)) (waitKey op t) =
        map_of (st_dependencyWaits (register_wait op ov row s)) (waitKey op t)"
      using keep [of "register_wait op ov row s"] Cons.prems(1) True by simp
    also have "\<dots> = Some \<lparr>wait_OperationID = op, wait_TargetID = t,
        wait_WaitSequence = (case map_of (st_dependencyWaits s) (waitKey op t) of
          None \<Rightarrow> st_nextWaitSequence s + 1 | Some w \<Rightarrow> wait_WaitSequence w),
        wait_OperationVersion = ov, wait_RegisteredTargetVersion = v\<rparr>"
      by (simp add: True register_wait_def Let_def)
    finally show ?thesis by simp
  qed (use Cons in auto)
qed simp

lemma wake_reaches_target:
  assumes w: "w \<in> set (map snd (st_dependencyWaits s))" "wait_TargetID w = target"
    and fresh: "\<forall>m \<in> set (map snd (st_outbox s)). msg_DedupeKey m \<noteq> msg_DedupeKey (WakeDependentsMessage target v)"
    and r: "EnqueueWakeDependentsIfWaited now target v s = (res, s')"
  shows "res = Inr () \<and> s' = s\<lparr>st_outbox := st_outbox s'\<rparr> \<and>
    (\<exists>m \<in> set (map snd (st_outbox s')). active_work m \<and> msg_Kind m = OutboxWakeDependents \<and> msg_ResourceID m = target)"
proof -
  let ?m = "WakeDependentsMessage target v"
  have has: "list_ex (\<lambda>w. wait_TargetID w = target) (map snd (st_dependencyWaits s))"
    using w by (auto simp: list_ex_iff)
  have e: "EnqueueWakeDependents now ?m s = (res, s')"
    using r has by (simp add: EnqueueWakeDependentsIfWaited_def HasDependencyWaiterForTarget_def bindT_def)
  show ?thesis
  proof (cases "wake_scan ?m (map snd (st_outbox s))")
    case None
    let ?row = "stamp_times now (?m\<lparr>msg_State := OutboxPending\<rparr>)"
    have s': "res = Inr ()" "s' = s\<lparr>st_outbox := put (msg_ID ?m) ?row (st_outbox s)\<rparr>"
      using e None by (simp_all add: EnqueueWakeDependents_def)
    have "?row \<in> set (map snd (st_outbox s'))"
      using map_of_SomeD [of "st_outbox s'" "msg_ID ?m" ?row] by (force simp: s'(2))
    moreover have "active_work ?row" "msg_Kind ?row = OutboxWakeDependents" "msg_ResourceID ?row = target"
      by (simp_all add: active_work_def WakeDependentsMessage_def work_message_def)
    ultimately show ?thesis using s' by (intro conjI bexI [of _ ?row]) simp_all
  next
    case (Some x)
    have "\<exists>e \<in> set (map snd (st_outbox s)). active_work e \<and> msg_Kind e = OutboxWakeDependents \<and> msg_ResourceID e = target"
      using Some fresh wake_scan_None [of ?m "map snd (st_outbox s)"]
      by (auto simp: WakeDependentsMessage_def work_message_def)
    then show ?thesis using e Some wake_scan_Some [OF Some] by (simp add: EnqueueWakeDependents_def)
  qed
qed

end
