(* ===== verification/Transactions.thy ===== *)
theory Transactions
  imports Dependencies
begin

text \<open>
  Reasoning about transactions composed of store methods: what a method leaves alone, and a calculus
  for showing that a composition keeps an invariant of the store whatever branch it takes and whether
  it commits or fails. The invariant is that of the three tables the components rely on: the work
  queue, the Operations and the Resources, together with the rule that a Resource has at most one
  Operation that is not terminal.
\<close>

section \<open>Frames\<close>

named_theorems frames \<open>the tables a store method leaves alone\<close>

lemma SaveResource_frame [frames]:
  "st_operations (snd (SaveResource r v s)) = st_operations s"
  "st_nextOperationSequence (snd (SaveResource r v s)) = st_nextOperationSequence s"
  "st_executions (snd (SaveResource r v s)) = st_executions s"
  "st_attempts (snd (SaveResource r v s)) = st_attempts s"
  "st_outbox (snd (SaveResource r v s)) = st_outbox s"
  "st_dependencyWaits (snd (SaveResource r v s)) = st_dependencyWaits s"
  "st_desiredReferences (snd (SaveResource r v s)) = st_desiredReferences s"
  "st_events (snd (SaveResource r v s)) = st_events s"
  "st_nextResourceSequence (snd (SaveResource r v s)) = st_nextResourceSequence s"
  by (cases rule: SaveResource_cases [of r v s]; simp)+

lemma SaveOperation_frame [frames]:
  "st_resources (snd (SaveOperation r v s)) = st_resources s"
  "st_resourceSequences (snd (SaveOperation r v s)) = st_resourceSequences s"
  "st_nextResourceSequence (snd (SaveOperation r v s)) = st_nextResourceSequence s"
  "st_nextOperationSequence (snd (SaveOperation r v s)) = st_nextOperationSequence s"
  "st_executions (snd (SaveOperation r v s)) = st_executions s"
  "st_attempts (snd (SaveOperation r v s)) = st_attempts s"
  "st_outbox (snd (SaveOperation r v s)) = st_outbox s"
  "st_dependencyWaits (snd (SaveOperation r v s)) = st_dependencyWaits s"
  "st_desiredReferences (snd (SaveOperation r v s)) = st_desiredReferences s"
  "st_events (snd (SaveOperation r v s)) = st_events s"
  by (cases rule: SaveOperation_cases [of r v s]; simp)+

definition same_tables :: "Store \<Rightarrow> Store \<Rightarrow> bool" where
  "same_tables s s' \<longleftrightarrow> st_resources s' = st_resources s \<and> st_resourceSequences s' = st_resourceSequences s \<and>
     st_nextResourceSequence s' = st_nextResourceSequence s \<and> st_operations s' = st_operations s \<and>
     st_nextOperationSequence s' = st_nextOperationSequence s \<and> st_outbox s' = st_outbox s"

lemma same_tables_refl [simp]: "same_tables s s"
  by (simp add: same_tables_def)

section \<open>The invariant of the store\<close>

definition single_active :: "Store \<Rightarrow> bool" where
  "single_active s \<longleftrightarrow> (\<forall>(k, r) \<in> set (st_operations s). \<forall>(k', r') \<in> set (st_operations s).
     op_resourceID (or_Operation r) = op_resourceID (or_Operation r') \<and>
     \<not> IsTerminal (or_Operation r) \<and> \<not> IsTerminal (or_Operation r') \<longrightarrow> k = k')"

definition store_inv :: "Store \<Rightarrow> bool" where
  "store_inv s \<longleftrightarrow> outbox_inv (st_outbox s) \<and> operations_inv s \<and> resources_inv s \<and> single_active s"

lemma store_inv_NewStore: "store_inv NewStore"
  by (simp add: store_inv_def operations_inv_NewStore)
    (simp add: outbox_inv_def resources_inv_def single_active_def NewStore_def)

lemma single_active_iff:
  assumes "wf_table (st_operations s)"
  shows "single_active s \<longleftrightarrow> (\<forall>k r k' r'. map_of (st_operations s) k = Some r \<and> map_of (st_operations s) k' = Some r' \<and>
     op_resourceID (or_Operation r) = op_resourceID (or_Operation r') \<and>
     \<not> IsTerminal (or_Operation r) \<and> \<not> IsTerminal (or_Operation r') \<longrightarrow> k = k')"
  unfolding single_active_def Ball_def split_paired_All prod.case wf_table_in_set_iff [OF assms] by blast

lemma single_active_cong: "st_operations s' = st_operations s \<Longrightarrow> single_active s' = single_active s"
  by (simp add: single_active_def)

text \<open>An Operation is saved only over one that is not terminal, so none becomes active again.\<close>

lemma single_active_save:
  assumes "operations_inv s" "single_active s"
  shows "single_active (snd (SaveOperation r v s))"
proof (cases rule: SaveOperation_cases [of r v s])
  case (saved cur new)
  have wf: "wf_table (st_operations s)" by (rule operations_inv_wf [OF assms(1)])
  have wf': "wf_table (put (op_id (or_Operation r)) new (st_operations s))" using wf by simp
  have "op_id (or_Operation cur) = op_id (or_Operation r)" using operations_invD(1) [OF assms(1) saved(1)] by simp
  then have same: "op_resourceID (or_Operation new) = op_resourceID (or_Operation cur)"
    using saved(2,4) by (simp add: same_intent_def)
  show ?thesis
    using assms(2) saved(1,5) same
    unfolding single_active_iff [OF wf] saved(6)
    by (subst single_active_iff) (auto simp: wf split: if_splits)
qed (use assms(2) in simp)

lemma operations_inv_cong:
  "\<lbrakk>st_operations s' = st_operations s; st_nextOperationSequence s' = st_nextOperationSequence s\<rbrakk> \<Longrightarrow>
     operations_inv s' = operations_inv s"
  by (simp add: operations_inv_def)

lemma resources_inv_cong:
  "\<lbrakk>st_resources s' = st_resources s; st_resourceSequences s' = st_resourceSequences s;
    st_nextResourceSequence s' = st_nextResourceSequence s\<rbrakk> \<Longrightarrow> resources_inv s' = resources_inv s"
proof -
  assume eq: "st_resources s' = st_resources s" "st_resourceSequences s' = st_resourceSequences s"
    "st_nextResourceSequence s' = st_nextResourceSequence s"
  then have "sequence_of s' = sequence_of s" by (simp add: sequence_of_def fun_eq_iff)
  then show ?thesis unfolding resources_inv_def eq by simp
qed

lemma store_inv_same_tables: "\<lbrakk>same_tables s s'; store_inv s\<rbrakk> \<Longrightarrow> store_inv s'"
  unfolding store_inv_def same_tables_def
  using operations_inv_cong [of s' s] resources_inv_cong [of s' s] single_active_cong [of s' s] by simp

text \<open>
  The history since some earlier table of Operations: what was stored then still is, with the same
  intent and sequence, and unchanged once terminal.
\<close>

type_synonym history = "(operation_id, OperationRecord) table"

definition keeps_history :: "history \<Rightarrow> Store \<Rightarrow> bool" where
  "keeps_history past s \<longleftrightarrow> (\<forall>oid r. map_of past oid = Some r \<longrightarrow>
     (\<exists>r'. map_of (st_operations s) oid = Some r' \<and> same_intent (or_Operation r) (or_Operation r') \<and>
        or_Sequence r' = or_Sequence r \<and> (IsTerminal (or_Operation r) \<longrightarrow> r' = r)))"

lemma keeps_history_start: "keeps_history [] s" "keeps_history (st_operations s) s"
  by (simp_all add: keeps_history_def same_intent_def)

lemma keeps_history_effect:
  assumes "keeps_history past s" "operations_inv s" "operations_effect s s'"
  shows "keeps_history past s'"
  unfolding keeps_history_def
proof (intro allI impI)
  fix oid r assume "map_of past oid = Some r"
  then obtain r1 where r1: "map_of (st_operations s) oid = Some r1" "same_intent (or_Operation r) (or_Operation r1)"
    "or_Sequence r1 = or_Sequence r" "IsTerminal (or_Operation r) \<longrightarrow> r1 = r"
    using assms(1) unfolding keeps_history_def by blast
  then show "\<exists>r'. map_of (st_operations s') oid = Some r' \<and> same_intent (or_Operation r) (or_Operation r') \<and>
      or_Sequence r' = or_Sequence r \<and> (IsTerminal (or_Operation r) \<longrightarrow> r' = r)"
    using operations_effect_keeps [OF assms(2,3) r1(1)] same_intent_trans by auto
qed

definition store_since :: "history \<Rightarrow> Store \<Rightarrow> bool" where
  "store_since past s \<longleftrightarrow> store_inv s \<and> keeps_history past s"

lemma store_since_start: "store_since [] s = store_inv s" "store_since (st_operations s) s = store_inv s"
  by (simp_all add: store_since_def keeps_history_start)

text \<open>
  The invariant and the history at given values of the two sequence counters, which the methods below
  do not move.
\<close>

definition store_at :: "(uint64 \<times> uint64) \<times> history \<Rightarrow> Store \<Rightarrow> bool" where
  "store_at c s \<longleftrightarrow> store_inv s \<and> (st_nextOperationSequence s, st_nextResourceSequence s) = fst c \<and>
     keeps_history (snd c) s"

lemma store_at_same_tables: "\<lbrakk>same_tables s s'; store_at c s\<rbrakk> \<Longrightarrow> store_at c s'"
  using store_inv_same_tables [of s s'] by (auto simp: store_at_def same_tables_def keeps_history_def)

section \<open>Preservation\<close>

named_theorems preserves_intros \<open>transactions that keep an invariant\<close>

definition preserves :: "(Store \<Rightarrow> bool) \<Rightarrow> (Store \<Rightarrow> 'r \<times> Store) \<Rightarrow> bool" where
  "preserves P m \<longleftrightarrow> (\<forall>s. P s \<longrightarrow> P (snd (m s)))"

lemma preservesD: "\<lbrakk>preserves P m; P s; m s = (r, s')\<rbrakk> \<Longrightarrow> P s'"
  unfolding preserves_def by force

lemma preserves_pure [preserves_intros]:
  "preserves P (returnT x)" "preserves P (throwT e)" "preserves P (liftT r)" "preserves P (readT f)"
  by (simp_all add: preserves_def)

lemma preserves_bindT [preserves_intros]:
  assumes "preserves P m" "\<And>x. preserves P (f x)"
  shows "preserves P (bindT m f)"
  unfolding preserves_def
proof (intro allI impI)
  fix s assume P: "P s"
  obtain r s1 where m: "m s = (r, s1)" by (cases "m s")
  have P1: "P s1" by (rule preservesD [OF assms(1) P m])
  show "P (snd (bindT m f s))"
  proof (cases r)
    case (Inl e)
    then show ?thesis using P1 by (simp add: bindT_def m)
  next
    case (Inr x)
    then show ?thesis using assms(2) [of x] P1 by (simp add: bindT_def m preserves_def)
  qed
qed

lemma preserves_if [preserves_intros]:
  "\<lbrakk>c \<Longrightarrow> preserves P m; \<not> c \<Longrightarrow> preserves P m'\<rbrakk> \<Longrightarrow> preserves P (if c then m else m')"
  by simp

lemma preserves_let [preserves_intros]: "(\<And>x. x = e \<Longrightarrow> preserves P (f x)) \<Longrightarrow> preserves P (let x = e in f x)"
  by simp

lemma preserves_case_option [preserves_intros]:
  "\<lbrakk>c = None \<Longrightarrow> preserves P m; \<And>x. c = Some x \<Longrightarrow> preserves P (f x)\<rbrakk> \<Longrightarrow>
     preserves P (case c of None \<Rightarrow> m | Some x \<Rightarrow> f x)"
  by (cases c) simp_all

lemma preserves_case_prod [preserves_intros]:
  "(\<And>x y. p = (x, y) \<Longrightarrow> preserves P (f x y)) \<Longrightarrow> preserves P (case p of (x, y) \<Rightarrow> f x y)"
  by (cases p) simp

lemma preserves_unchanged: "(\<And>s. snd (m s) = s) \<Longrightarrow> preserves P m"
  by (simp add: preserves_def)

lemma preserves_same_tables: "(\<And>s. same_tables s (snd (m s))) \<Longrightarrow> preserves (store_at c) m"
  unfolding preserves_def using store_at_same_tables by blast

lemma readers_preserve [preserves_intros]:
  "preserves P (GetResource rid)" "preserves P (LookupResource rid)" "preserves P (LockResources ids)"
  "preserves P (GetOperation oid)" "preserves P (LookupOperation oid)" "preserves P (ActiveForResource rid)"
  "preserves P (LatestForResource rid)" "preserves P (GetExecution oid)" "preserves P (LookupExecution oid)"
  "preserves P (GetSubmissionAttempt oid n)" "preserves P (GetOutbox mid)" "preserves P (FindExpiredDispatch now)"
  "preserves P (DesiredReferences rid)" "preserves P (AppliedReferences rid)"
  "preserves P (HasInboundProtectiveReference rid)" "preserves P (OutgoingReferenceTargets rid)"
  "preserves P (HasDependencyWaiterForTarget rid)" "preserves P (HasDependencyWaitsForOperation oid)"
  "preserves P (PageDependencyWaitersByTarget rid c limit)" "preserves P (LatestResourceOutputs rid)"
  "preserves P (GetIdempotency sc k)" "preserves P (GetEvent eid)" "preserves P (LockResourceID rid)"
  "preserves P (ResourceCountFacts_of owner ref)" "preserves P (LockOwnerQuota owner)"
  by (simp_all add: preserves_def GetResource_def LookupResource_def LockResources_def GetOperation_def
      LookupOperation_def ActiveForResource_def LatestForResource_def GetExecution_def LookupExecution_def
      GetSubmissionAttempt_def GetOutbox_def FindExpiredDispatch_def DesiredReferences_def AppliedReferences_def
      HasInboundProtectiveReference_def OutgoingReferenceTargets_def HasDependencyWaiterForTarget_def
      HasDependencyWaitsForOperation_def PageDependencyWaitersByTarget_def LatestResourceOutputs_def
      GetIdempotency_def GetEvent_def LockResourceID_def ResourceCountFacts_of_def LockOwnerQuota_def)

lemma SaveResource_preserves [preserves_intros]: "preserves (store_at c) (SaveResource r v)"
  unfolding preserves_def store_at_def store_inv_def
  using resources_inv_save single_active_cong [OF SaveResource_frame(1)]
  by (auto simp: frames operations_inv_def keeps_history_def)

lemma SaveOperation_preserves [preserves_intros]: "preserves (store_at c) (SaveOperation r v)"
proof -
  have hist: "operations_inv (snd (SaveOperation r v s)) \<and> keeps_history (snd c) (snd (SaveOperation r v s))"
    if "operations_inv s" "keeps_history (snd c) s" for s
  proof -
    have "operations_step s (snd (Within (SaveOperation r v) s))" by (rule operations_step.save)
    then have eff: "operations_effect s (snd (Within (SaveOperation r v) s))" by (rule operations_step_effect)
    have "operations_inv (snd (Within (SaveOperation r v) s)) = operations_inv (snd (SaveOperation r v s))"
      "keeps_history (snd c) (snd (Within (SaveOperation r v) s)) = keeps_history (snd c) (snd (SaveOperation r v s))"
      by (cases rule: SaveOperation_cases [of r v s]; simp add: Within_def operations_inv_def keeps_history_def)+
    then show ?thesis
      using operations_effect_inv [OF that(1) eff] keeps_history_effect [OF that(2,1) eff] by blast
  qed
  then show ?thesis
    unfolding preserves_def store_at_def store_inv_def
    by (simp add: frames single_active_save resources_inv_cong [of "snd (SaveOperation r v s)" s for s])
qed

lemma queue_step_preserves:
  assumes "\<And>s. queue_step s (snd (m s))" "\<And>s. \<exists>t. snd (m s) = s\<lparr>st_outbox := t\<rparr>"
  shows "preserves (store_at c) m"
  unfolding preserves_def
proof (intro allI impI)
  fix s assume inv: "store_at c s"
  obtain t where t: "snd (m s) = s\<lparr>st_outbox := t\<rparr>" using assms(2) by blast
  have "outbox_inv (st_outbox (snd (m s)))"
    using inv outbox_effect_inv [OF _ queue_step_effect [OF assms(1) [of s]]]
    by (simp add: store_at_def store_inv_def)
  then show "store_at c (snd (m s))"
    using inv operations_inv_cong [of "snd (m s)" s] resources_inv_cong [of "snd (m s)" s]
      single_active_cong [of "snd (m s)" s]
    by (simp add: store_at_def store_inv_def keeps_history_def t)
qed

lemma only_outbox:
  "\<exists>t. snd (Enqueue now m s) = s\<lparr>st_outbox := t\<rparr>" "\<exists>t. snd (EnqueueWakeDependents now m s) = s\<lparr>st_outbox := t\<rparr>"
  "\<exists>t. snd (ClaimOutbox now token lease s) = s\<lparr>st_outbox := t\<rparr>"
  "\<exists>t. snd (update_work mid guard change s) = s\<lparr>st_outbox := t\<rparr>"
proof -
  have id: "\<exists>t. s = s\<lparr>st_outbox := t\<rparr>" by (rule exI [of _ "st_outbox s"]) simp
  show "\<exists>t. snd (Enqueue now m s) = s\<lparr>st_outbox := t\<rparr>" "\<exists>t. snd (EnqueueWakeDependents now m s) = s\<lparr>st_outbox := t\<rparr>"
    "\<exists>t. snd (ClaimOutbox now token lease s) = s\<lparr>st_outbox := t\<rparr>"
    "\<exists>t. snd (update_work mid guard change s) = s\<lparr>st_outbox := t\<rparr>"
    using id by (auto simp: Enqueue_def EnqueueWakeDependents_def ClaimOutbox_def update_work_def Let_def
        split: option.split)
qed

lemma lease_methods_preserve [preserves_intros]:
  "preserves (store_at c) (ClaimOutbox now token lease)" "preserves (store_at c) (RenewOutbox now mid token lease)"
  "preserves (store_at c) (RequeueExpiredOutbox now mid token)" "preserves (store_at c) (CompleteOutbox now mid token reason)"
  "preserves (store_at c) (CompleteExpiredOutbox now mid token reason)"
  "preserves (store_at c) (RetryOutbox now mid token delay err)"
  "preserves (store_at c) (RetryDispatchOutbox now mid token v delay err)"
  "preserves (store_at c) (RetryExpiredDispatchOutbox now mid token v delay err)"
  "preserves (store_at c) (DeadOutbox now mid token reason)"
  by (rule queue_step_preserves; (rule queue_step.intros)?;
      simp only: only_outbox RenewOutbox_def RequeueExpiredOutbox_def CompleteOutbox_def CompleteExpiredOutbox_def
        RetryOutbox_def RetryDispatchOutbox_def RetryExpiredDispatchOutbox_def DeadOutbox_def)+

lemma Enqueue_preserves [preserves_intros]: "enqueueable m \<Longrightarrow> preserves (store_at c) (Enqueue now m)"
  by (rule queue_step_preserves) (simp_all add: queue_step.enqueue only_outbox)

lemma EnqueueWake_preserves [preserves_intros]:
  "preserves (store_at c) (EnqueueWakeDependents now (WakeDependentsMessage rid v))"
proof (rule queue_step_preserves)
  have "enqueueable (WakeDependentsMessage rid v)" "msg_Kind (WakeDependentsMessage rid v) = OutboxWakeDependents"
    by (simp_all add: enqueueable_def work_kinds_def work_message_def WakeDependentsMessage_def)
  then show "queue_step s (snd (EnqueueWakeDependents now (WakeDependentsMessage rid v) s))" for s
    by (rule queue_step.wake)
qed (rule only_outbox)

lemma enqueueable_messages [preserves_intros]:
  "enqueueable (DriveMessage oid v)" "enqueueable (DispatchMessage oid n v)" "enqueueable (ObserveMessage oid n v)"
  "enqueueable (PassiveObserveMessage rid n v)" "enqueueable ((ObserveMessage oid n v)\<lparr>msg_Delay := d\<rparr>)"
  by (simp_all add: enqueueable_def work_kinds_def work_message_def DriveMessage_def DispatchMessage_def
      ObserveMessage_def PassiveObserveMessage_def)

lemma other_methods_preserve [preserves_intros]:
  "preserves (store_at c) (SaveExecution e v)" "preserves (store_at c) (CreateExecution e)"
  "preserves (store_at c) (CreateSubmissionAttempt a)" "preserves (store_at c) (SaveSubmissionAttempt a st)"
  "preserves (store_at c) (AppendEvent ev)" "preserves (store_at c) (SaveResourceOutputs o1)"
  "preserves (store_at c) (RegisterDependencyWaits oid v ts)" "preserves (store_at c) (DeleteDependencyWaitsForOperation oid)"
  "preserves (store_at c) (ReplaceDesiredReferences rid g es)" "preserves (store_at c) (AdvanceAppliedReferences rid g es)"
  "preserves (store_at c) (DeleteReferencesForSource rid)" "preserves (store_at c) (PutIdempotency i)"
proof -
  have waits: "same_tables s (fold (register_wait oid v) ts s)" for s
    by (induction ts arbitrary: s) (simp_all add: same_tables_def register_wait_def Let_def)
  show "preserves (store_at c) (RegisterDependencyWaits oid v ts)"
    by (rule preserves_same_tables) (simp add: RegisterDependencyWaits_def waits)
qed (rule preserves_same_tables,
     simp add: same_tables_def SaveExecution_def CreateExecution_def CreateSubmissionAttempt_def SaveSubmissionAttempt_def
       AppendEvent_def SaveResourceOutputs_def DeleteDependencyWaitsForOperation_def ReplaceDesiredReferences_def
       AdvanceAppliedReferences_def DeleteReferencesForSource_def PutIdempotency_def Let_def split: option.split)+

lemma Within_preserves [preserves_intros]:
  assumes "preserves (store_at c) m"
  shows "preserves (store_at c) (Within m)"
  unfolding preserves_def
proof (intro allI impI)
  fix s assume inv: "store_at c s"
  obtain r s1 where m: "m s = (r, s1)" by (cases "m s")
  have inv1: "store_at c s1" by (rule preservesD [OF assms inv m])
  show "store_at c (snd (Within m s))"
  proof (cases r)
    case (Inl e)
    have "same_tables s (snd (Within m s))"
      using inv inv1 by (cases c) (auto simp: Inl Within_def m same_tables_def store_at_def)
    then show ?thesis using inv by (rule store_at_same_tables)
  next
    case (Inr x)
    then show ?thesis using inv1 by (simp add: Within_def m)
  qed
qed

lemma preserves_sinceI:
  assumes "\<And>c. preserves (store_at c) m"
  shows "preserves (store_since past) m"
  unfolding preserves_def
proof (intro allI impI)
  fix s assume "store_since past s"
  then have "store_at ((st_nextOperationSequence s, st_nextResourceSequence s), past) s"
    by (simp add: store_at_def store_since_def)
  then show "store_since past (snd (m s))"
    using assms unfolding preserves_def store_at_def store_since_def by fastforce
qed

lemma preserves_since:
  assumes "\<And>c. preserves (store_at c) m" "store_since past s" "m s = (r, s')"
  shows "store_since past s'"
  by (rule preservesD [OF preserves_sinceI [OF assms(1)] assms(2,3)])

lemma preserves_store_invI: "(\<And>c. preserves (store_at c) m) \<Longrightarrow> preserves store_inv m"
  using preserves_sinceI [of m "[]"] by (simp add: preserves_def store_since_start)

end
