(* ===== verification/Worker_Drive.thy ===== *)
theory Worker_Drive
  imports Transactions
begin

text \<open>
  The Drive half of the worker (\<^verbatim>\<open>src/internal/worker/drive.go\<close>, \<^verbatim>\<open>worker/dependencies.go\<close> and the
  helpers of \<^verbatim>\<open>worker/worker.go\<close> they call): advancing an Operation by one phase, the pre-submit
  dependency gate, waking blocked dependents and recovering expired dispatches. Every definition is one
  transaction of the code; telemetry has no durable effect and is left out.

  \<open>now\<close> is the time the store reads while the transaction runs.
\<close>

section \<open>Configuration and helpers\<close>

record Worker =
  w_Types :: "catalog option"
  w_Lease :: int
  w_RetryBase :: int

definition ReasonWaitingForDependencies :: string where "ReasonWaitingForDependencies = ''WaitingForDependencies''"
definition ReasonDependencyFailed :: string where "ReasonDependencyFailed = ''DependencyFailed''"
definition ReasonDependencyInvalid :: string where "ReasonDependencyInvalid = ''DependencyInvalid''"
definition ReasonDependenciesSatisfied :: string where "ReasonDependenciesSatisfied = ''DependenciesSatisfied''"

definition conflict :: error where "conflict = ErrConcurrencyConflict ''concurrency conflict''"

text \<open>The fence every transaction of a handler opens with.\<close>

definition require_lease :: "OutboxMessage \<Rightarrow> unit tx" where
  "require_lease message = bindT (GetOutbox (msg_ID message)) (\<lambda>current.
     if msg_State current \<noteq> OutboxLeased \<or> msg_LeaseToken current \<noteq> msg_LeaseToken message
     then throwT conflict else returnT ())"

definition settle_work :: "time \<Rightarrow> OutboxMessage \<Rightarrow> string \<Rightarrow> unit tx" where
  "settle_work now message reason = CompleteOutbox now (msg_ID message) (msg_LeaseToken message) reason"

definition backoff :: "Worker \<Rightarrow> int \<Rightarrow> int" where
  "backoff w attempt =
     (let a = (if attempt < 1 then 1 else attempt); b = (if 10 < a then 10 else a)
      in w_RetryBase w * 2 ^ nat (b - 1))"

definition scheduleObserve ::
    "ProvisioningExecutionRecord \<Rightarrow> int \<Rightarrow> ProvisioningExecutionRecord \<times> OutboxMessage" where
  "scheduleObserve execution delay =
     (let sequence = (if ex_NextObservation execution = 0 then 1 else ex_NextObservation execution)
      in (execution\<lparr>ex_NextObservation := sequence + 1\<rparr>,
          (ObserveMessage (ex_OperationID execution) sequence (ex_Version execution + 1))\<lparr>msg_Delay := delay\<rparr>))"

definition nextPhase :: "Operation \<Rightarrow> OperationPhase option" where
  "nextPhase operation =
     (if op_phase operation = OperationPhaseRequested then Some OperationPhaseValidating
      else if op_phase operation = OperationPhaseValidating
        then Some (if op_capability operation = CapabilityDelete then OperationPhaseDestroying
                   else OperationPhasePlanning)
      else if op_phase operation = OperationPhasePlanning then Some OperationPhaseApplying
      else None)"

definition zero_execution :: ProvisioningExecutionRecord where
  "zero_execution =
     \<lparr>ex_OperationID = '''', ex_ProvisionerRef = '''', ex_ResourceID = '''',
      ex_ResourceType = \<lparr>tref_Name = '''', tref_Version = ''''\<rparr>, ex_Capability = '''',
      ex_TargetGeneration = 0, ex_Spec = \<lparr>spec_values = []\<rparr>, ex_OutputMappingRef = '''',
      ex_OutputResolution = OutputResolutionOther '''', ex_OutputFailureReason = '''',
      ex_OutputFailureMessage = '''', ex_RecoverySourceOperationID = '''', ex_RecoverySourceAttempt = 0,
      ex_Handle = None, ex_State = AttemptOther '''', ex_Submission = None,
      ex_AcceptanceConfirmed = False, ex_LastObservation = None, ex_LastObservedAt = 0,
      ex_LastProviderObservedAt = 0, ex_LastFailure = None, ex_Correlation = RequestCorrelationOther '''',
      ex_CurrentAttempt = 0, ex_NextObservation = 0, ex_Version = 0\<rparr>"

section \<open>Terminal side effects\<close>

definition applyTerminalSideEffects :: "time \<Rightarrow> Operation \<Rightarrow> resource_id \<Rightarrow> uint64 \<Rightarrow> unit tx" where
  "applyTerminalSideEffects now operation resourceID savedVersion =
     bindT (DeleteDependencyWaitsForOperation (op_id operation)) (\<lambda>_.
     bindT (if op_capability operation = CapabilityDelete \<and> op_state operation = OperationStateSucceeded
            then DeleteReferencesForSource resourceID else returnT ()) (\<lambda>_.
     EnqueueWakeDependentsIfWaited now resourceID savedVersion))"

section \<open>The gate refuses\<close>

definition wait_targets :: "DependencyEvaluation \<Rightarrow> (resource_id, uint64) table" where
  "wait_targets evaluation =
     fold (\<lambda>target targets.
        let version = (case map_of (eval_TargetVersions evaluation) target of None \<Rightarrow> 0 | Some v \<Rightarrow> v)
        in put target (if version = 0 then 1 else version) targets) (eval_Blocking evaluation) []"

definition settle_waiting ::
    "time \<Rightarrow> OutboxMessage \<Rightarrow> ResourceRecord \<Rightarrow> OperationRecord \<Rightarrow> DependencyEvaluation \<Rightarrow> unit tx" where
  "settle_waiting now message resource operation evaluation =
     bindT (SaveOperation (operation\<lparr>or_Sequence := 0, or_Version := or_Version operation + 1\<rparr>) (or_Version operation)) (\<lambda>_.
     bindT (RegisterDependencyWaits (msg_OperationID message) (or_Version operation + 1) (wait_targets evaluation)) (\<lambda>_.
     bindT (SaveResource resource (rr_Version resource)) (\<lambda>_.
     settle_work now message ''WaitingForDependencies'')))"

definition gate_failure :: "DependencyClass \<Rightarrow> Finish" where
  "gate_failure class =
     (if class = DependencyInvalid
      then \<lparr>fin_Succeeded = False, fin_Reason = ReasonDependencyInvalid,
            fin_Message = ''a referenced dependency is unavailable or being deleted'', fin_Facts = ObservedFacts_zero\<rparr>
      else \<lparr>fin_Succeeded = False, fin_Reason = ReasonDependencyFailed,
            fin_Message = ''a referenced dependency failed and has no active recovery'', fin_Facts = ObservedFacts_zero\<rparr>)"

definition settle_failed_gate ::
    "time \<Rightarrow> OutboxMessage \<Rightarrow> ResourceRecord \<Rightarrow> OperationRecord \<Rightarrow> ProvisioningExecutionRecord \<Rightarrow>
      DependencyEvaluation \<Rightarrow> time \<Rightarrow> unit tx" where
  "settle_failed_gate now message resource operation execution evaluation at =
     bindT (liftT (BuildFinishEvidence (or_Operation operation) (rr_Resource resource) (rr_Status resource)
              (gate_failure (eval_Class evaluation)) at)) (\<lambda>result.
     bindT (SaveResource (resource\<lparr>rr_Status := lr_Status result\<rparr>) (rr_Version resource)) (\<lambda>_.
     bindT (SaveOperation \<lparr>or_Operation = lr_Operation result, or_Sequence = 0, or_Version = 0\<rparr> (or_Version operation)) (\<lambda>_.
     bindT (AppendEvent (lr_Event result)) (\<lambda>_.
     bindT (SaveExecution (execution\<lparr>ex_State := AttemptFailed, ex_Correlation := RequestCorrelationUnknown,
              ex_AcceptanceConfirmed := False\<rparr>) (ex_Version execution)) (\<lambda>_.
     bindT (DeleteDependencyWaitsForOperation (msg_OperationID message)) (\<lambda>_.
     settle_work now message ''DependencyGateRejected''))))))"

definition settleGateBlock ::
    "time \<Rightarrow> OutboxMessage \<Rightarrow> ResourceRecord \<Rightarrow> OperationRecord \<Rightarrow> ProvisioningExecutionRecord \<Rightarrow>
      DependencyEvaluation \<Rightarrow> time \<Rightarrow> unit tx" where
  "settleGateBlock now message resource operation execution evaluation changedAt =
     bindT (liftT (SetDependencyCondition (rr_Status resource) ConditionStatusFalse
              (case eval_Class evaluation of
                 DependencyWaiting \<Rightarrow> ReasonWaitingForDependencies
               | DependencyTerminalFailure \<Rightarrow> ReasonDependencyFailed
               | _ \<Rightarrow> ReasonDependencyInvalid) '''' changedAt)) (\<lambda>status.
       let blocked = resource\<lparr>rr_Status := status\<rparr> in
       if eval_Class evaluation = DependencyWaiting
       then settle_waiting now message blocked operation evaluation
       else settle_failed_gate now message blocked operation execution evaluation changedAt)"

section \<open>Driving one phase\<close>

definition hand_over ::
    "time \<Rightarrow> OutboxMessage \<Rightarrow> OperationPhase \<Rightarrow> ProvisioningExecutionRecord \<Rightarrow> unit tx" where
  "hand_over now message nxt execution =
     (if ex_CurrentAttempt execution \<noteq> 0 then throwT conflict
      else if IsOutputRecovery execution then
        (if nxt \<noteq> OperationPhaseApplying \<or> ex_Capability execution = CapabilityDelete \<or>
            ex_State execution \<noteq> AttemptSucceeded \<or> ex_OutputResolution execution \<noteq> OutputResolutionPending
         then throwT (ErrInvalidApplicationCall ''invalid output recovery execution'')
         else let (scheduled, observe) = scheduleObserve execution 0
              in bindT (SaveExecution scheduled (ex_Version execution)) (\<lambda>_. Enqueue now observe))
      else
        let started = execution\<lparr>ex_CurrentAttempt := 1\<rparr>;
            dispatch = DispatchMessage (msg_OperationID message) 1 (ex_Version execution + 1)
        in bindT (CreateSubmissionAttempt \<lparr>att_OperationID = msg_OperationID message, att_AttemptNumber = 1,
                    att_State = SubmissionAttemptPending, att_DispatchMessage = msg_ID dispatch,
                    att_ClaimedAt = 0, att_ResolvedAt = 0, att_Failure = None\<rparr>) (\<lambda>_.
           bindT (SaveExecution started (ex_Version execution)) (\<lambda>_.
           Enqueue now dispatch)))"

definition advance_operation ::
    "time \<Rightarrow> OutboxMessage \<Rightarrow> ResourceRecord \<Rightarrow> OperationRecord \<Rightarrow> OperationPhase \<Rightarrow>
      ProvisioningExecutionRecord \<Rightarrow> bool \<Rightarrow> time \<Rightarrow> unit tx" where
  "advance_operation now message resource operation nxt execution gated changedAt =
     bindT (liftT (Engine_Advance (rr_Resource resource) (rr_Status resource) (or_Operation operation) nxt
              (InternalEventID (op_id (or_Operation operation)) (InternalTransitionLabel nxt)) changedAt)) (\<lambda>transition.
     bindT (if gated
            then bindT (liftT (SetDependencyCondition (lr_Status transition) ConditionStatusTrue
                          ReasonDependenciesSatisfied '''' changedAt)) (\<lambda>status.
                 bindT (DeleteDependencyWaitsForOperation (msg_OperationID message)) (\<lambda>_. returnT status))
            else returnT (lr_Status transition)) (\<lambda>status.
     bindT (SaveResource (resource\<lparr>rr_Status := status\<rparr>) (rr_Version resource)) (\<lambda>_.
     bindT (SaveOperation \<lparr>or_Operation = lr_Operation transition, or_Sequence = 0, or_Version = 0\<rparr> (or_Version operation)) (\<lambda>_.
     bindT (AppendEvent (lr_Event transition)) (\<lambda>_.
     bindT (settle_work now message ''Driven'') (\<lambda>_.
     if nxt = OperationPhaseApplying \<or> nxt = OperationPhaseDestroying
     then hand_over now message nxt execution
     else Enqueue now (DriveMessage (msg_OperationID message) (or_Version operation + 1))))))))"

definition drive_phase ::
    "Worker \<Rightarrow> time \<Rightarrow> OutboxMessage \<Rightarrow> ResourceRecord \<Rightarrow> OperationRecord \<Rightarrow> OperationPhase \<Rightarrow> unit tx" where
  "drive_phase w now message resource operation nxt =
     (let changedAt = op_phaseChangedAt (or_Operation operation) + 1;
          gatingUp = (nxt = OperationPhaseApplying \<and> op_capability (or_Operation operation) \<noteq> CapabilityDelete)
      in bindT (if gatingUp \<or> nxt = OperationPhaseDestroying
                then GetExecution (msg_OperationID message) else returnT zero_execution) (\<lambda>execution.
         bindT (if gatingUp \<and> ex_CurrentAttempt execution = 0 \<and> \<not> IsOutputRecovery execution
                then EvaluateDependencies (w_Types w) resource else returnT None) (\<lambda>gate.
         case gate of
           None \<Rightarrow> advance_operation now message resource operation nxt execution False changedAt
         | Some evaluation \<Rightarrow>
             if eval_Class evaluation \<noteq> DependencyReady
             then settleGateBlock now message resource operation execution evaluation changedAt
             else advance_operation now message resource operation nxt execution True changedAt)))"

definition drive_tx :: "Worker \<Rightarrow> time \<Rightarrow> OutboxMessage \<Rightarrow> unit tx" where
  "drive_tx w now message =
     bindT (require_lease message) (\<lambda>_.
     bindT (LookupOperation (msg_OperationID message)) (\<lambda>preflight.
     bindT (GetResource (op_resourceID (or_Operation preflight))) (\<lambda>resource.
     bindT (GetOperation (msg_OperationID message)) (\<lambda>operation.
     if or_Version operation \<noteq> msg_ExpectedVersion message \<or> IsTerminal (or_Operation operation)
       then settle_work now message ''StaleDrive''
     else case nextPhase (or_Operation operation) of
       None \<Rightarrow> settle_work now message ''AlreadyDispatchable''
     | Some nxt \<Rightarrow> drive_phase w now message resource operation nxt))))"

definition drive :: "Worker \<Rightarrow> time \<Rightarrow> OutboxMessage \<Rightarrow> unit tx" where
  "drive w now message = Within (drive_tx w now message)"

section \<open>Waking dependents\<close>

definition wakeFanoutBatch :: int where "wakeFanoutBatch = 256"

definition stale_waiter :: "DependencyWait \<Rightarrow> OperationRecord \<Rightarrow> bool tx" where
  "stale_waiter wait operation =
     (if IsTerminal (or_Operation operation) \<or> or_Version operation \<noteq> wait_OperationVersion wait then returnT True
      else (\<lambda>s. case LookupExecution (wait_OperationID wait) s of
          (Inr execution, s') \<Rightarrow> (Inr (ex_CurrentAttempt execution \<noteq> 0 \<or> IsOutputRecovery execution), s')
        | (Inl (ErrResourceNotFound _), s') \<Rightarrow> (Inr False, s')
        | (Inl e, s') \<Rightarrow> (Inl e, s')))"

definition revalidateWaiter :: "time \<Rightarrow> DependencyWait \<Rightarrow> unit tx" where
  "revalidateWaiter now wait = (\<lambda>s.
     case GetOperation (wait_OperationID wait) s of
       (Inl (ErrResourceNotFound _), s') \<Rightarrow> DeleteDependencyWaitsForOperation (wait_OperationID wait) s'
     | (Inl (ErrOperationNotFound _), s') \<Rightarrow> DeleteDependencyWaitsForOperation (wait_OperationID wait) s'
     | (Inl e, s') \<Rightarrow> (Inl e, s')
     | (Inr operation, s') \<Rightarrow>
         bindT (stale_waiter wait operation) (\<lambda>stale.
           if stale then DeleteDependencyWaitsForOperation (wait_OperationID wait)
           else (\<lambda>s1. case Enqueue now (DriveMessage (wait_OperationID wait) (or_Version operation)) s1 of
                   (Inl (ErrConcurrencyConflict _), s2) \<Rightarrow> (Inr (), s2)
                 | r \<Rightarrow> r)) s')"

text \<open>The insertion sort of \<^verbatim>\<open>sortWaitsByID\<close> is stable.\<close>

definition sortWaitsByID :: "DependencyWait list \<Rightarrow> DependencyWait list" where
  "sortWaitsByID waits = sort_key wait_OperationID waits"

fun revalidate_all :: "time \<Rightarrow> DependencyWait list \<Rightarrow> unit tx" where
  "revalidate_all now [] = returnT ()"
| "revalidate_all now (wait # waits) = bindT (revalidateWaiter now wait) (\<lambda>_. revalidate_all now waits)"

definition wake_batch :: "Worker \<Rightarrow> time \<Rightarrow> OutboxMessage \<Rightarrow> uint64 \<Rightarrow> uint64 tx" where
  "wake_batch w now message cursor = Within
     (bindT (require_lease message) (\<lambda>_.
      bindT (PageDependencyWaitersByTarget (msg_ResourceID message) cursor wakeFanoutBatch) (\<lambda>(waits, nxt).
      bindT (revalidate_all now (sortWaitsByID waits)) (\<lambda>_.
      bindT (RenewOutbox now (msg_ID message) (msg_LeaseToken message) (w_Lease w)) (\<lambda>_. returnT nxt)))))"

fun wake_fanout :: "nat \<Rightarrow> Worker \<Rightarrow> time \<Rightarrow> OutboxMessage \<Rightarrow> uint64 \<Rightarrow> bool tx" where
  "wake_fanout 0 w now message cursor = returnT False"
| "wake_fanout (Suc fuel) w now message cursor =
     bindT (wake_batch w now message cursor) (\<lambda>nxt.
       if nxt \<noteq> 0 then wake_fanout fuel w now message nxt else returnT True)"

definition wake_finalize :: "time \<Rightarrow> OutboxMessage \<Rightarrow> unit tx" where
  "wake_finalize now message = Within
     (bindT (require_lease message) (\<lambda>_.
      bindT (GetResource (msg_ResourceID message)) (\<lambda>resource.
      bindT (settle_work now message ''Woke'') (\<lambda>_.
      if rr_Version resource \<noteq> msg_ExpectedVersion message
      then EnqueueWakeDependents now (WakeDependentsMessage (msg_ResourceID message) (rr_Version resource))
      else returnT ()))))"

text \<open>
  The fan-out loop ends because every page moves the cursor past the rows it returned; \<open>fuel\<close> bounds
  the number of pages, and \<open>None\<close> says that it ran out.
\<close>

definition wakeDependents :: "nat \<Rightarrow> Worker \<Rightarrow> time \<Rightarrow> OutboxMessage \<Rightarrow> unit option tx" where
  "wakeDependents fuel w now message =
     bindT (wake_fanout fuel w now message 0) (\<lambda>finished.
       if finished then bindT (wake_finalize now message) (\<lambda>_. returnT (Some ())) else returnT None)"

section \<open>Expired dispatches\<close>

text \<open>
  \<open>redeliverable\<close> says whether the resolved provider can safely re-enter an expired dispatch; it is
  false when the provider cannot be resolved.
\<close>

definition recover_attempt ::
    "Worker \<Rightarrow> time \<Rightarrow> bool \<Rightarrow> OutboxMessage \<Rightarrow> ProvisioningExecutionRecord \<Rightarrow> SubmissionAttemptRecord \<Rightarrow> unit tx" where
  "recover_attempt w now redeliverable message execution attempt =
     (if redeliverable then
        bindT (SaveSubmissionAttempt (attempt\<lparr>att_State := SubmissionAttemptPending, att_ClaimedAt := 0,
                 att_ResolvedAt := 0, att_Failure := None\<rparr>) SubmissionAttemptLeased) (\<lambda>_.
        bindT (SaveExecution (execution\<lparr>ex_State := AttemptPending\<rparr>) (ex_Version execution)) (\<lambda>_.
        RetryExpiredDispatchOutbox now (msg_ID message) (msg_LeaseToken message) (ex_Version execution + 1)
          (backoff w (msg_AttemptCount message)) ''ExpiredFencedDispatch''))
      else
        bindT (SaveSubmissionAttempt (attempt\<lparr>att_State := SubmissionAttemptUnknown\<rparr>) SubmissionAttemptLeased) (\<lambda>_.
        let (scheduled, observe) = scheduleObserve (execution\<lparr>ex_State := AttemptUnknown,
              ex_Correlation := RequestCorrelationUnknown\<rparr>) 0
        in bindT (SaveExecution scheduled (ex_Version execution)) (\<lambda>_.
           bindT (CompleteExpiredOutbox now (msg_ID message) (msg_LeaseToken message) ''LeaseExpiredAmbiguous'') (\<lambda>_.
           Enqueue now observe))))"

definition recover_expired_tx :: "Worker \<Rightarrow> time \<Rightarrow> (string \<Rightarrow> bool) \<Rightarrow> bool tx" where
  "recover_expired_tx w now redeliverable =
     bindT (FindExpiredDispatch now) (\<lambda>found. case found of
       None \<Rightarrow> returnT False
     | Some message \<Rightarrow>
         bindT (GetExecution (msg_OperationID message)) (\<lambda>execution.
         if ex_CurrentAttempt execution \<noteq> msg_AttemptNumber message then
           bindT (CompleteExpiredOutbox now (msg_ID message) (msg_LeaseToken message) ''StaleExpiredDispatch'') (\<lambda>_. returnT True)
         else bindT (GetSubmissionAttempt (msg_OperationID message) (msg_AttemptNumber message)) (\<lambda>attempt.
           if ex_State execution = AttemptPending \<and> att_State attempt = SubmissionAttemptPending then
             bindT (RequeueExpiredOutbox now (msg_ID message) (msg_LeaseToken message)) (\<lambda>_. returnT True)
           else if ex_State execution \<noteq> AttemptDispatching \<or> att_State attempt \<noteq> SubmissionAttemptLeased
             then throwT conflict
           else bindT (recover_attempt w now (redeliverable (ex_ProvisionerRef execution)) message execution attempt)
             (\<lambda>_. returnT True))))"

definition recoverExpiredDispatch :: "Worker \<Rightarrow> time \<Rightarrow> (string \<Rightarrow> bool) \<Rightarrow> bool tx" where
  "recoverExpiredDispatch w now redeliverable = Within (recover_expired_tx w now redeliverable)"

section \<open>The worker keeps the invariant of the store\<close>

lemma scheduleObserve_enqueueable:
  "scheduleObserve execution delay = (scheduled, observe) \<Longrightarrow> enqueueable observe"
  by (auto simp: scheduleObserve_def Let_def intro: preserves_intros)

lemma settle_work_preserves [preserves_intros]: "preserves (store_at c) (settle_work now message reason)"
  unfolding settle_work_def by (intro preserves_intros)

lemma require_lease_preserves [preserves_intros]: "preserves P (require_lease message)"
  unfolding require_lease_def by (intro preserves_intros)

lemma EvaluateDependencies_preserves [preserves_intros]: "preserves P (EvaluateDependencies types resource)"
  unfolding EvaluateDependencies_def
  by (cases types) (simp_all add: preserves_intros split: sum.split)

lemma wake_if_waited_preserves [preserves_intros]:
  "preserves (store_at c) (EnqueueWakeDependentsIfWaited now rid v)"
  unfolding EnqueueWakeDependentsIfWaited_def by (intro preserves_intros)

lemma applyTerminalSideEffects_preserves [preserves_intros]:
  "preserves (store_at c) (applyTerminalSideEffects now operation rid v)"
  unfolding applyTerminalSideEffects_def by (intro preserves_intros)

lemma settleGateBlock_preserves [preserves_intros]:
  "preserves (store_at c) (settleGateBlock now message resource operation execution evaluation at)"
  unfolding settleGateBlock_def settle_waiting_def settle_failed_gate_def by (intro preserves_intros)

lemma hand_over_preserves [preserves_intros]: "preserves (store_at c) (hand_over now message nxt execution)"
  unfolding hand_over_def by (intro preserves_intros) (auto simp: enqueueable_messages dest: sym intro: scheduleObserve_enqueueable)

lemma advance_operation_preserves [preserves_intros]:
  "preserves (store_at c) (advance_operation now message resource operation nxt execution gated at)"
  unfolding advance_operation_def by (intro preserves_intros)

lemma drive_preserves [preserves_intros]: "preserves (store_at c) (drive w now message)"
  unfolding drive_def drive_tx_def drive_phase_def by (intro preserves_intros)

lemma revalidateWaiter_keeps:
  assumes del: "\<And>oid. preserves P (DeleteDependencyWaitsForOperation oid)"
    and enq: "\<And>oid v. preserves P (Enqueue now (DriveMessage oid v))"
  shows "preserves P (revalidateWaiter now wait)"
  unfolding preserves_def
proof (intro allI impI)
  fix s assume inv: "P s"
  have del: "P (snd (DeleteDependencyWaitsForOperation oid s))" for oid
    using del inv by (simp add: preserves_def)
  have st: "snd (stale_waiter wait op s) = s" for op
    by (simp add: stale_waiter_def LookupExecution_def GetExecution_def split: sum.split error.split)
  have enq: "P (snd (Enqueue now (DriveMessage oid v) s))" for oid v
    using enq inv by (simp add: preserves_def)
  show "P (snd (revalidateWaiter now wait s))"
  proof (cases "map_of (st_operations s) (wait_OperationID wait)")
    case None
    then show ?thesis using del by (simp add: revalidateWaiter_def GetOperation_def)
  next
    case (Some op)
    obtain r where r: "stale_waiter wait op s = (r, s)" using st [of op] by (metis prod.collapse)
    show ?thesis
      using del enq [of "wait_OperationID wait" "or_Version op"] inv
      by (cases r; cases "Enqueue now (DriveMessage (wait_OperationID wait) (or_Version op)) s")
        (auto simp: revalidateWaiter_def GetOperation_def Some bindT_def r split: sum.split error.split)
  qed
qed

lemma revalidateWaiter_preserves [preserves_intros]: "preserves (store_at c) (revalidateWaiter now wait)"
  by (intro revalidateWaiter_keeps preserves_intros)

lemma revalidate_all_preserves [preserves_intros]: "preserves (store_at c) (revalidate_all now waits)"
  by (induction waits) (simp_all only: revalidate_all.simps preserves_intros)

lemma wake_fanout_preserves [preserves_intros]: "preserves (store_at c) (wake_fanout fuel w now message cursor)"
  by (induction fuel arbitrary: cursor)
    (simp_all only: wake_fanout.simps wake_batch_def, (intro preserves_intros | assumption)+)

lemma wakeDependents_preserves [preserves_intros]: "preserves (store_at c) (wakeDependents fuel w now message)"
  unfolding wakeDependents_def wake_finalize_def by (intro preserves_intros)

lemma recoverExpiredDispatch_preserves [preserves_intros]:
  "preserves (store_at c) (recoverExpiredDispatch w now redeliverable)"
  unfolding recoverExpiredDispatch_def recover_expired_tx_def recover_attempt_def
  by (intro preserves_intros) (auto dest: sym intro: scheduleObserve_enqueueable)

section \<open>The fan-out terminates\<close>

text \<open>Revalidating waiters only removes wait rows.\<close>

definition waits_within :: "(string, DependencyWait) table \<Rightarrow> Store \<Rightarrow> bool" where
  "waits_within W s \<longleftrightarrow> (\<exists>Q. st_dependencyWaits s = filter Q W)"

lemma waits_within_refl: "waits_within (st_dependencyWaits s) s"
  unfolding waits_within_def by (rule exI [of _ "\<lambda>_. True"]) simp

lemma waits_within_delete: "preserves (waits_within W) (DeleteDependencyWaitsForOperation oid)"
  unfolding preserves_def waits_within_def DeleteDependencyWaitsForOperation_def
  by (auto simp: filter_filter)

lemma waits_within_outbox:
  assumes "\<And>s. \<exists>t. snd (m s) = s\<lparr>st_outbox := t\<rparr>"
  shows "preserves (waits_within W) m"
  unfolding preserves_def waits_within_def
proof (intro allI impI)
  fix s :: Store assume "\<exists>Q. st_dependencyWaits s = filter Q W"
  moreover obtain t where "snd (m s) = s\<lparr>st_outbox := t\<rparr>" using assms by blast
  ultimately show "\<exists>Q. st_dependencyWaits (snd (m s)) = filter Q W" by simp
qed

lemma waits_within_Within: "preserves (waits_within W) m \<Longrightarrow> preserves (waits_within W) (Within m)"
  unfolding preserves_def waits_within_def Within_def by (auto split: prod.split sum.split) (metis snd_conv)

lemma revalidate_all_waits: "preserves (waits_within W) (revalidate_all now waits)"
proof (induction waits)
  case (Cons wait waits)
  have "preserves (waits_within W) (revalidateWaiter now wait)"
    by (intro revalidateWaiter_keeps waits_within_delete waits_within_outbox only_outbox)
  then show ?case using Cons by (simp add: preserves_intros)
qed (simp add: preserves_def)

definition waits_after :: "uint64 \<Rightarrow> (string, DependencyWait) table \<Rightarrow> nat" where
  "waits_after cursor W = length (filter (\<lambda>row. cursor < wait_WaitSequence (snd row)) W)"

lemma waits_after_le: "waits_after cursor (filter Q W) \<le> waits_after cursor W"
  unfolding waits_after_def by (induction W) auto

lemma waits_after_mono: "a \<le> b \<Longrightarrow> waits_after b W \<le> waits_after a W"
  unfolding waits_after_def by (induction W) auto

lemma waits_after_less:
  assumes "row \<in> set W" "a < wait_WaitSequence (snd row)" "\<not> b < wait_WaitSequence (snd row)" "a \<le> b"
  shows "waits_after b W < waits_after a W"
  using assms(1)
proof (induction W)
  case (Cons x W)
  show ?case
  proof (cases "x = row")
    case True
    then show ?thesis using assms(2-) waits_after_mono [OF assms(4), of W] by (simp add: waits_after_def)
  next
    case False
    then show ?thesis using Cons assms(4) by (auto simp: waits_after_def)
  qed
qed simp

lemma page_advances:
  assumes "PageDependencyWaitersByTarget target cursor limit s = (Inr (waits, nxt), s')" "nxt \<noteq> 0"
  shows "s' = s" "waits_after nxt (st_dependencyWaits s) < waits_after cursor (st_dependencyWaits s)"
proof -
  let ?W = "map snd (st_dependencyWaits s)"
  let ?m = "sort_key wait_WaitSequence (filter (\<lambda>w. cursor < wait_WaitSequence w)
    (filter (\<lambda>w. wait_TargetID w = target) ?W))"
  show "s' = s" using assms(1) by (simp add: PageDependencyWaitersByTarget_def Let_def)
  have w: "waits = take (nat limit) ?m" "waits \<noteq> []" "nxt = wait_WaitSequence (last waits)"
    using assms by (auto simp: PageDependencyWaitersByTarget_def Let_def split: if_splits)
  have "last waits \<in> set ?m" using w(1,2) by (metis last_in_set in_set_takeD)
  then obtain row where "row \<in> set (st_dependencyWaits s)" "snd row = last waits" "cursor < wait_WaitSequence (last waits)"
    by auto
  then show "waits_after nxt (st_dependencyWaits s) < waits_after cursor (st_dependencyWaits s)"
    using w(3) by (intro waits_after_less [of row]) auto
qed

lemma wake_batch_advances:
  assumes "wake_batch w now message cursor s = (Inr nxt, s')" "nxt \<noteq> 0"
  shows "waits_after nxt (st_dependencyWaits s') < waits_after cursor (st_dependencyWaits s)"
proof -
  let ?page = "PageDependencyWaitersByTarget (msg_ResourceID message) cursor wakeFanoutBatch"
  have lease: "snd (require_lease message s) = s"
    by (simp add: require_lease_def bindT_def GetOutbox_def split: option.split)
  obtain waits n s1 where page: "?page s = (Inr (waits, n), s1)"
    by (simp add: PageDependencyWaitersByTarget_def Let_def)
  have run: "bindT (revalidate_all now (sortWaitsByID waits)) (\<lambda>_.
      bindT (RenewOutbox now (msg_ID message) (msg_LeaseToken message) (w_Lease w)) (\<lambda>_. returnT n)) s1 = (Inr nxt, s')"
    using assms(1) lease page
    by (cases "require_lease message s")
      (auto simp: wake_batch_def Within_def bindT_def split: prod.splits sum.splits)
  then have n: "n = nxt" by (auto simp: bindT_def returnT_def split: prod.splits sum.splits)
  note adv = page_advances [OF page [unfolded n] assms(2)]
  have "preserves (waits_within W) (bindT (revalidate_all now (sortWaitsByID waits)) (\<lambda>_.
      bindT (RenewOutbox now (msg_ID message) (msg_LeaseToken message) (w_Lease w)) (\<lambda>_. returnT n)))" for W
    unfolding RenewOutbox_def
    by (intro preserves_intros revalidate_all_waits waits_within_outbox only_outbox)
  from preservesD [OF this waits_within_refl run]
  obtain Q where "st_dependencyWaits s' = filter Q (st_dependencyWaits s)"
    using adv(1) by (auto simp: waits_within_def)
  then show ?thesis using adv(2) waits_after_le by (metis le_less_trans)
qed

lemma wake_fanout_finishes:
  assumes "waits_after cursor (st_dependencyWaits s) < fuel"
  shows "fst (wake_fanout fuel w now message cursor s) \<noteq> Inr False"
  using assms
proof (induction fuel arbitrary: cursor s)
  case (Suc fuel)
  obtain r s1 where b: "wake_batch w now message cursor s = (r, s1)" by fastforce
  show ?case
  proof (cases r)
    case (Inr nxt)
    show ?thesis
    proof (cases "nxt = 0")
      case False
      then have "waits_after nxt (st_dependencyWaits s1) < fuel"
        using wake_batch_advances [OF b [unfolded Inr]] Suc.prems by simp
      from Suc.IH [OF this] show ?thesis by (simp add: bindT_def b Inr False)
    qed (simp add: bindT_def b Inr)
  qed (simp add: bindT_def b)
qed simp

lemma wake_fuel_suffices:
  "fst (wakeDependents (Suc (length (st_dependencyWaits s))) w now message s) \<noteq> Inr None"
proof -
  let ?fuel = "Suc (length (st_dependencyWaits s))"
  have "waits_after 0 (st_dependencyWaits s) < ?fuel" by (simp add: waits_after_def le_imp_less_Suc)
  from wake_fanout_finishes [OF this, of w now message]
  have "fst (wake_fanout ?fuel w now message 0 s) \<noteq> Inr False" .
  then show ?thesis
    unfolding wakeDependents_def
    by (auto simp: bindT_def returnT_def split: prod.splits sum.splits simp del: wake_fanout.simps)
qed

section \<open>A Drive reaches the provider only through the gate\<close>

lemma outbox_only_preserves:
  assumes "\<And>s. \<exists>t. snd (m s) = s\<lparr>st_outbox := t\<rparr>"
  shows "preserves (\<lambda>s. st_attempts s = a) m"
  unfolding preserves_def
proof (intro allI impI)
  fix s :: Store assume "st_attempts s = a"
  moreover obtain t where "snd (m s) = s\<lparr>st_outbox := t\<rparr>" using assms by blast
  ultimately show "st_attempts (snd (m s)) = a" by simp
qed

text \<open>The methods that do not touch the submission attempts.\<close>

lemma attempts_frame:
  "preserves (\<lambda>s. st_attempts s = a) (SaveResource r v)" "preserves (\<lambda>s. st_attempts s = a) (SaveOperation o1 v)"
  "preserves (\<lambda>s. st_attempts s = a) (SaveExecution e v)" "preserves (\<lambda>s. st_attempts s = a) (AppendEvent ev)"
  "preserves (\<lambda>s. st_attempts s = a) (DeleteDependencyWaitsForOperation oid)"
  "preserves (\<lambda>s. st_attempts s = a) (RegisterDependencyWaits oid v ts)"
  "preserves (\<lambda>s. st_attempts s = a) (settle_work now message reason)"
  "preserves (\<lambda>s. st_attempts s = a) (Enqueue now m)"
proof -
  have waits: "st_attempts (fold (register_wait oid v) ts s) = st_attempts s" for s
    by (induction ts arbitrary: s) (simp_all add: register_wait_def Let_def)
  then show "preserves (\<lambda>s. st_attempts s = a) (RegisterDependencyWaits oid v ts)"
    by (simp add: preserves_def RegisterDependencyWaits_def)
  show "preserves (\<lambda>s. st_attempts s = a) (Enqueue now m)"
    by (rule outbox_only_preserves) (rule only_outbox)
  show "preserves (\<lambda>s. st_attempts s = a) (settle_work now message reason)"
    unfolding settle_work_def CompleteOutbox_def by (rule outbox_only_preserves) (rule only_outbox)
qed (simp_all add: preserves_def frames SaveExecution_def AppendEvent_def DeleteDependencyWaitsForOperation_def
    split: option.split)

lemma settleGateBlock_attempts:
  "preserves (\<lambda>s. st_attempts s = a) (settleGateBlock now message resource operation execution evaluation at)"
  unfolding settleGateBlock_def settle_waiting_def settle_failed_gate_def
  by (intro preserves_intros attempts_frame)

lemma advance_operation_attempts:
  assumes "nxt \<in> {OperationPhaseApplying, OperationPhaseDestroying} \<Longrightarrow>
      ex_CurrentAttempt execution \<noteq> 0 \<or> IsOutputRecovery execution"
  shows "preserves (\<lambda>s. st_attempts s = a)
      (advance_operation now message resource operation nxt execution gated at)"
proof -
  have "preserves (\<lambda>s. st_attempts s = a) (hand_over now message nxt execution)"
    if "nxt = OperationPhaseApplying \<or> nxt = OperationPhaseDestroying"
    using assms that unfolding hand_over_def by (intro preserves_intros attempts_frame) auto
  then show ?thesis
    unfolding advance_operation_def by (intro preserves_intros attempts_frame)
qed

text \<open>What a hand-over leaves behind when it creates an attempt.\<close>

definition first_attempt :: "OutboxMessage \<Rightarrow> OutboxMessage \<Rightarrow> SubmissionAttemptRecord" where
  "first_attempt message dispatch = \<lparr>att_OperationID = msg_OperationID message, att_AttemptNumber = 1,
     att_State = SubmissionAttemptPending, att_DispatchMessage = msg_ID dispatch,
     att_ClaimedAt = 0, att_ResolvedAt = 0, att_Failure = None\<rparr>"

definition dispatch_started :: "OutboxMessage \<Rightarrow> ProvisioningExecutionRecord \<Rightarrow> Store \<Rightarrow> Store \<Rightarrow> bool" where
  "dispatch_started message execution s s' \<longleftrightarrow>
     (let dispatch = DispatchMessage (msg_OperationID message) 1 (ex_Version execution + 1);
          key = attemptKey (msg_OperationID message) 1 in
      map_of (st_attempts s) key = None \<and> st_attempts s' = put key (first_attempt message dispatch) (st_attempts s) \<and>
      map_of (st_executions s') (ex_OperationID execution) =
        Some (execution\<lparr>ex_CurrentAttempt := 1, ex_Version := ex_Version execution + 1\<rparr>) \<and>
      (\<exists>m \<in> set (map snd (st_outbox s')). msg_DedupeKey m = msg_DedupeKey dispatch))"

lemma Enqueue_done:
  assumes "Enqueue now message s = (Inr (), s')"
  shows "(\<exists>m \<in> set (map snd (st_outbox s')). msg_DedupeKey m = msg_DedupeKey message) \<and>
    st_executions s' = st_executions s \<and> st_attempts s' = st_attempts s"
proof (cases "enqueue_scan message (map snd (st_outbox s))")
  case None
  define m where "m = stamp_times now (if msg_State message = OutboxStateOther ''''
    then message\<lparr>msg_State := OutboxPending\<rparr> else message)"
  have s': "s' = s\<lparr>st_outbox := put (msg_ID message) m (st_outbox s)\<rparr>"
    using None assms by (simp add: Enqueue_def m_def Let_def)
  then have "map_of (st_outbox s') (msg_ID message) = Some m" by (simp add: update_conv')
  then have "m \<in> set (map snd (st_outbox s'))" by (force dest: map_of_SomeD)
  moreover have "msg_DedupeKey m = msg_DedupeKey message" by (simp add: m_def stamp_times_def Let_def)
  ultimately show ?thesis using s' by auto
next
  case (Some r)
  then have "r = Inr ()" "s' = s" using assms by (simp_all add: Enqueue_def)
  then show ?thesis using enqueue_scan_Some [OF Some] by auto
qed

lemma hand_over_starts:
  assumes "hand_over now message nxt execution s = (Inr (), s')" "ex_CurrentAttempt execution = 0" "\<not> IsOutputRecovery execution"
  shows "dispatch_started message execution s s'"
proof -
  let ?d = "DispatchMessage (msg_OperationID message) 1 (ex_Version execution + 1)"
  let ?k = "attemptKey (msg_OperationID message) 1"
  obtain s1 s2 where 1: "CreateSubmissionAttempt (first_attempt message ?d) s = (Inr (), s1)"
      "SaveExecution (execution\<lparr>ex_CurrentAttempt := 1\<rparr>) (ex_Version execution) s1 = (Inr (), s2)"
      "Enqueue now ?d s2 = (Inr (), s')"
    using assms by (auto simp: hand_over_def first_attempt_def bindT_def Let_def split: prod.splits sum.splits)
  have "map_of (st_attempts s) ?k = None" "st_attempts s1 = put ?k (first_attempt message ?d) (st_attempts s)"
    using 1(1) by (auto simp: CreateSubmissionAttempt_def first_attempt_def Let_def split: if_splits)
  moreover have "st_attempts s2 = st_attempts s1" "map_of (st_executions s2) (ex_OperationID execution) =
      Some (execution\<lparr>ex_CurrentAttempt := 1, ex_Version := ex_Version execution + 1\<rparr>)"
    using 1(2) by (auto simp: SaveExecution_def update_conv' split: option.splits if_splits)
  ultimately show ?thesis using Enqueue_done [OF 1(3)] by (simp add: dispatch_started_def Let_def)
qed

lemma bindT_done:
  assumes "bindT m f s = (Inr y, s')"
  obtains x s1 where "m s = (Inr x, s1)" "f x s1 = (Inr y, s')"
  using assms by (auto simp: bindT_def split: prod.splits sum.splits)

lemma advance_operation_done:
  assumes "advance_operation now message resource operation nxt execution gated at s = (Inr (), s')"
    "nxt = OperationPhaseApplying \<or> nxt = OperationPhaseDestroying"
  obtains s1 where "canAdvanceTo (or_Operation operation) nxt" "st_attempts s1 = st_attempts s"
    "hand_over now message nxt execution s1 = (Inr (), s')"
proof -
  from assms(1) obtain transition s1 where 1:
    "liftT (Engine_Advance (rr_Resource resource) (rr_Status resource) (or_Operation operation) nxt
       (InternalEventID (op_id (or_Operation operation)) (InternalTransitionLabel nxt)) at) s = (Inr transition, s1)"
    and r1: "bindT (if gated
            then bindT (liftT (SetDependencyCondition (lr_Status transition) ConditionStatusTrue
                          ReasonDependenciesSatisfied '''' at)) (\<lambda>status.
                 bindT (DeleteDependencyWaitsForOperation (msg_OperationID message)) (\<lambda>_. returnT status))
            else returnT (lr_Status transition)) (\<lambda>status.
     bindT (SaveResource (resource\<lparr>rr_Status := status\<rparr>) (rr_Version resource)) (\<lambda>_.
     bindT (SaveOperation \<lparr>or_Operation = lr_Operation transition, or_Sequence = 0, or_Version = 0\<rparr> (or_Version operation)) (\<lambda>_.
     bindT (AppendEvent (lr_Event transition)) (\<lambda>_.
     bindT (settle_work now message ''Driven'') (\<lambda>_. hand_over now message nxt execution))))) s1 = (Inr (), s')"
    unfolding advance_operation_def using assms(2) by (auto elim!: bindT_done)
  from r1 obtain status s2 where 2: "(if gated
            then bindT (liftT (SetDependencyCondition (lr_Status transition) ConditionStatusTrue
                          ReasonDependenciesSatisfied '''' at)) (\<lambda>status.
                 bindT (DeleteDependencyWaitsForOperation (msg_OperationID message)) (\<lambda>_. returnT status))
            else returnT (lr_Status transition)) s1 = (Inr status, s2)"
    and r2: "bindT (SaveResource (resource\<lparr>rr_Status := status\<rparr>) (rr_Version resource)) (\<lambda>_.
     bindT (SaveOperation \<lparr>or_Operation = lr_Operation transition, or_Sequence = 0, or_Version = 0\<rparr> (or_Version operation)) (\<lambda>_.
     bindT (AppendEvent (lr_Event transition)) (\<lambda>_.
     bindT (settle_work now message ''Driven'') (\<lambda>_. hand_over now message nxt execution)))) s2 = (Inr (), s')"
    by (rule bindT_done)
  from r2 obtain s3 s4 s5 s6 where 3: "SaveResource (resource\<lparr>rr_Status := status\<rparr>) (rr_Version resource) s2 = (Inr (), s3)"
    "SaveOperation \<lparr>or_Operation = lr_Operation transition, or_Sequence = 0, or_Version = 0\<rparr> (or_Version operation) s3 = (Inr (), s4)"
    "AppendEvent (lr_Event transition) s4 = (Inr (), s5)" "settle_work now message ''Driven'' s5 = (Inr (), s6)"
    "hand_over now message nxt execution s6 = (Inr (), s')"
    by (elim bindT_done) auto
  have "canAdvanceTo (or_Operation operation) nxt" "s1 = s"
    using 1 by (auto elim!: Engine_Advance_result simp: AdvancePhase_def split: if_splits)
  moreover have "preserves (\<lambda>s. st_attempts s = a) (if gated
            then bindT (liftT (SetDependencyCondition (lr_Status transition) ConditionStatusTrue
                          ReasonDependenciesSatisfied '''' at)) (\<lambda>status.
                 bindT (DeleteDependencyWaitsForOperation (msg_OperationID message)) (\<lambda>_. returnT status))
            else returnT (lr_Status transition))" for a
    by (intro preserves_intros attempts_frame)
  from preservesD [OF this refl 2] preservesD [OF attempts_frame(1) refl 3(1)] preservesD [OF attempts_frame(2) refl 3(2)]
    preservesD [OF attempts_frame(4) refl 3(3)] preservesD [OF attempts_frame(7) refl 3(4)]
  have "st_attempts s6 = st_attempts s1" by simp
  ultimately show thesis using that 3(5) by simp
qed

lemma drive_tx_cases:
  obtains (fails) e where "drive_tx w now message s = (Inl e, s)"
  | (settled) reason where "drive_tx w now message s = settle_work now message reason s"
  | (phase) operation resource nxt where
      "map_of (st_operations s) (msg_OperationID message) = Some operation"
      "map_of (st_resources s) (op_resourceID (or_Operation operation)) = Some resource"
      "or_Version operation = msg_ExpectedVersion message" "\<not> IsTerminal (or_Operation operation)"
      "nextPhase (or_Operation operation) = Some nxt"
      "drive_tx w now message s = drive_phase w now message resource operation nxt s"
proof (cases "\<exists>m. map_of (st_outbox s) (msg_ID message) = Some m \<and> msg_State m = OutboxLeased \<and>
    msg_LeaseToken m = msg_LeaseToken message")
  case False
  then have "\<exists>e. require_lease message s = (Inl e, s)"
    by (auto simp: require_lease_def GetOutbox_def bindT_def split: option.split)
  then show thesis using fails by (auto simp: drive_tx_def bindT_def)
next
  case True
  then have lease: "require_lease message s = (Inr (), s)"
    by (auto simp: require_lease_def GetOutbox_def bindT_def)
  show thesis
  proof (cases "map_of (st_operations s) (msg_OperationID message)")
    case None
    then show thesis using fails by (auto simp: drive_tx_def bindT_def lease LookupOperation_def GetOperation_def)
  next
    case (Some operation)
    show thesis
    proof (cases "map_of (st_resources s) (op_resourceID (or_Operation operation))")
      case None
      then show thesis
        using fails Some by (auto simp: drive_tx_def bindT_def lease LookupOperation_def GetOperation_def GetResource_def)
    next
      case res: (Some resource)
      have run: "drive_tx w now message s =
          (if or_Version operation \<noteq> msg_ExpectedVersion message \<or> IsTerminal (or_Operation operation)
           then settle_work now message ''StaleDrive''
           else case nextPhase (or_Operation operation) of
             None \<Rightarrow> settle_work now message ''AlreadyDispatchable''
           | Some nxt \<Rightarrow> drive_phase w now message resource operation nxt) s"
        using Some res by (simp add: drive_tx_def bindT_def lease LookupOperation_def GetOperation_def GetResource_def)
      show thesis
        using settled run phase [OF Some res]
        by (cases "or_Version operation \<noteq> msg_ExpectedVersion message \<or> IsTerminal (or_Operation operation)";
            cases "nextPhase (or_Operation operation)") auto
    qed
  qed
qed

lemma drive_phase_cases:
  obtains (fails) e where "drive_phase w now message resource operation nxt s = (Inl e, s)"
  | (blocked) execution evaluation where
      "EvaluateDependencies (w_Types w) resource s = (Inr (Some evaluation), s)"
      "eval_Class evaluation \<noteq> DependencyReady"
      "drive_phase w now message resource operation nxt s =
         settleGateBlock now message resource operation execution evaluation
           (op_phaseChangedAt (or_Operation operation) + 1) s"
  | (advance) execution gated where
      "nxt = OperationPhaseApplying \<and> op_capability (or_Operation operation) \<noteq> CapabilityDelete \<or>
         nxt = OperationPhaseDestroying \<Longrightarrow>
       map_of (st_executions s) (msg_OperationID message) = Some execution"
      "\<lbrakk>nxt = OperationPhaseApplying; op_capability (or_Operation operation) \<noteq> CapabilityDelete;
        ex_CurrentAttempt execution = 0; \<not> IsOutputRecovery execution\<rbrakk> \<Longrightarrow>
       EvaluateDependencies (w_Types w) resource s = (Inr None, s) \<or>
       (\<exists>evaluation. EvaluateDependencies (w_Types w) resource s = (Inr (Some evaluation), s) \<and>
          eval_Class evaluation = DependencyReady)"
      "drive_phase w now message resource operation nxt s =
         advance_operation now message resource operation nxt execution gated
           (op_phaseChangedAt (or_Operation operation) + 1) s"
proof -
  have ev: "snd (EvaluateDependencies (w_Types w) resource s) = s"
    using EvaluateDependencies_preserves [of "\<lambda>s1. s1 = s" "w_Types w" resource] by (simp add: preserves_def)
  let ?up = "nxt = OperationPhaseApplying \<and> op_capability (or_Operation operation) \<noteq> CapabilityDelete"
  let ?load = "if ?up \<or> nxt = OperationPhaseDestroying then GetExecution (msg_OperationID message) else returnT zero_execution"
  obtain r where r: "?load s = (r, s)"
    by (cases "?up \<or> nxt = OperationPhaseDestroying") (auto simp: GetExecution_def)
  show thesis
  proof (cases r)
    case (Inl e)
    then show thesis using fails r by (auto simp: drive_phase_def Let_def bindT_def)
  next
    case (Inr execution)
    have ex: "map_of (st_executions s) (msg_OperationID message) = Some execution" if "?up \<or> nxt = OperationPhaseDestroying"
      using r Inr that by (auto simp: GetExecution_def split: option.splits)
    let ?gate = "if ?up \<and> ex_CurrentAttempt execution = 0 \<and> \<not> IsOutputRecovery execution
      then EvaluateDependencies (w_Types w) resource else returnT None"
    obtain g where g: "?gate s = (g, s)"
      using ev by (cases "?up \<and> ex_CurrentAttempt execution = 0 \<and> \<not> IsOutputRecovery execution")
        (auto intro: prod_eqI simp: prod_eq_iff)
    have run: "drive_phase w now message resource operation nxt s =
        (case g of Inl e \<Rightarrow> (Inl e, s)
         | Inr gate \<Rightarrow> (case gate of
             None \<Rightarrow> advance_operation now message resource operation nxt execution False (op_phaseChangedAt (or_Operation operation) + 1)
           | Some evaluation \<Rightarrow>
               if eval_Class evaluation \<noteq> DependencyReady
               then settleGateBlock now message resource operation execution evaluation (op_phaseChangedAt (or_Operation operation) + 1)
               else advance_operation now message resource operation nxt execution True (op_phaseChangedAt (or_Operation operation) + 1)) s)"
      unfolding drive_phase_def Let_def bindT_def using r Inr g by (simp split: sum.split)
    show thesis
    proof (cases g)
      case (Inl e)
      then show thesis using fails run by simp
    next
      case gate: (Inr gate)
      have gev: "EvaluateDependencies (w_Types w) resource s = (Inr gate, s)"
        if "?up" "ex_CurrentAttempt execution = 0" "\<not> IsOutputRecovery execution"
        using g gate that by simp
      have none: "gate = None" if "\<not> (?up \<and> ex_CurrentAttempt execution = 0 \<and> \<not> IsOutputRecovery execution)"
        using g gate that by (auto split: if_splits)
      show thesis
      proof (cases "\<exists>evaluation. gate = Some evaluation \<and> eval_Class evaluation \<noteq> DependencyReady")
        case True
        then obtain evaluation where e: "gate = Some evaluation" "eval_Class evaluation \<noteq> DependencyReady" by blast
        then show thesis using blocked [of evaluation execution] gev none run gate by auto
      next
        case False
        show thesis
        proof (rule advance)
          show "map_of (st_executions s) (msg_OperationID message) = Some execution" if "?up \<or> nxt = OperationPhaseDestroying"
            by (rule ex [OF that])
          show "EvaluateDependencies (w_Types w) resource s = (Inr None, s) \<or>
             (\<exists>evaluation. EvaluateDependencies (w_Types w) resource s = (Inr (Some evaluation), s) \<and>
                eval_Class evaluation = DependencyReady)"
            if "nxt = OperationPhaseApplying" "op_capability (or_Operation operation) \<noteq> CapabilityDelete"
              "ex_CurrentAttempt execution = 0" "\<not> IsOutputRecovery execution"
            using gev that False by (cases gate) auto
          show "drive_phase w now message resource operation nxt s =
             advance_operation now message resource operation nxt execution (gate \<noteq> None)
               (op_phaseChangedAt (or_Operation operation) + 1) s"
            using run gate False by (cases gate) auto
        qed
      qed
    qed
  qed
qed

text \<open>
  C6: Work reaches a provider only through the dependency gate, and once. Whatever a Drive does, if it
  changes the submission attempts then it committed, the Drive was current and its Operation not
  finished, and the stored execution of the Operation, an ordinary one, had never been dispatched. What it
  changed is that it created the first attempt, which did not exist, pending and naming the Dispatch
  message of this attempt; the execution counts it, and a Dispatch with that key is in the outbox. The
  Operation came from its validating phase if it deletes, and otherwise from planning, where the gate
  found the Resource without dependencies or every dependency READY. A Drive that fails or is refused by
  the gate creates no attempt.
\<close>

theorem drive_submits_only_through_gate:
  assumes "drive w now message s = (r, s')" "st_attempts s' \<noteq> st_attempts s"
  shows "r = Inr () \<and> (\<exists>operation resource execution.
    map_of (st_operations s) (msg_OperationID message) = Some operation \<and>
    or_Version operation = msg_ExpectedVersion message \<and> \<not> IsTerminal (or_Operation operation) \<and>
    map_of (st_resources s) (op_resourceID (or_Operation operation)) = Some resource \<and>
    map_of (st_executions s) (msg_OperationID message) = Some execution \<and>
    ex_CurrentAttempt execution = 0 \<and> \<not> IsOutputRecovery execution \<and> dispatch_started message execution s s' \<and>
    (if op_capability (or_Operation operation) = CapabilityDelete
     then op_phase (or_Operation operation) = OperationPhaseValidating
     else op_phase (or_Operation operation) = OperationPhasePlanning \<and>
       (EvaluateDependencies (w_Types w) resource s = (Inr None, s) \<or>
        (\<exists>evaluation. EvaluateDependencies (w_Types w) resource s = (Inr (Some evaluation), s) \<and>
           eval_Class evaluation = DependencyReady))))"
proof -
  have ok: "r = Inr ()" "drive_tx w now message s = (Inr (), s')"
    using assms by (auto simp: drive_def Within_def split: prod.splits sum.splits)
  show ?thesis
  proof (cases rule: drive_tx_cases [of w now message s])
    case (fails e)
    then show ?thesis using ok by simp
  next
    case (settled reason)
    then show ?thesis
      using preservesD [OF attempts_frame(7) refl] ok(2) assms(2) by metis
  next
    case (phase operation resource nxt)
    show ?thesis
    proof (cases rule: drive_phase_cases [of w now message resource operation nxt s])
      case (fails e)
      then show ?thesis using ok phase(6) by simp
    next
      case (blocked execution evaluation)
      then show ?thesis
        using preservesD [OF settleGateBlock_attempts refl] ok(2) phase(6) assms(2) by metis
    next
      case (advance execution gated)
      have up: "nxt = OperationPhaseApplying \<or> nxt = OperationPhaseDestroying"
        "ex_CurrentAttempt execution = 0" "\<not> IsOutputRecovery execution"
        using preservesD [OF advance_operation_attempts refl] advance(3) ok(2) phase(6) assms(2) by (metis insertE empty_iff)+
      obtain s1 where s1: "canAdvanceTo (or_Operation operation) nxt" "st_attempts s1 = st_attempts s"
        "hand_over now message nxt execution s1 = (Inr (), s')"
        using advance_operation_done [OF _ up(1)] advance(3) ok(2) phase(6) by metis
      have started: "dispatch_started message execution s s'"
        using hand_over_starts [OF s1(3) up(2,3)] s1(2) by (simp add: dispatch_started_def)
      have "if op_capability (or_Operation operation) = CapabilityDelete
        then nxt = OperationPhaseDestroying \<and> op_phase (or_Operation operation) = OperationPhaseValidating
        else nxt = OperationPhaseApplying \<and> op_phase (or_Operation operation) = OperationPhasePlanning"
        using s1(1) up(1) phase(5) by (auto simp: canAdvanceTo_def nextPhase_def capability_defs split: if_splits)
      then show ?thesis using ok(1) phase(1-4) up(2,3) started advance(1,2) by (auto split: if_splits)
    qed
  qed
qed

definition example_worker :: Worker where
  "example_worker = \<lparr>w_Types = Some example_catalog, w_Lease = 60, w_RetryBase = 1\<rparr>"

definition example_driven :: Operation where
  "example_driven = (example_operation OperationStateRunning OperationPhasePlanning 11 12 0)\<lparr>op_resourceID := ''res-2''\<rparr>"

definition example_source :: ResourceRecord where
  "example_source = (example_resource_record ''res-2'' ResourceStatePending)
     \<lparr>rr_Status := \<lparr>status_resourceID = ''res-2'', status_observedGeneration = 1,
       status_state = ResourceStatePending, status_conditions =
         [example_condition ConditionReconciling ConditionStatusTrue ''Planning'',
          example_condition ConditionReconciled ConditionStatusFalse ''Planning''], status_updatedAt = 12\<rparr>,
      rr_Version := 1\<rparr>"

definition example_drive_message :: OutboxMessage where
  "example_drive_message = (DriveMessage ''op-1'' 1)\<lparr>msg_State := OutboxLeased, msg_LeaseToken := ''worker-a'',
     msg_LeasedUntil := 100\<rparr>"

definition example_drive_store :: Store where
  "example_drive_store = example_gate_store\<lparr>
     st_resources := put ''res-2'' example_source (st_resources example_gate_store),
     st_operations := [(''op-1'', \<lparr>or_Operation = example_driven, or_Sequence = 1, or_Version = 1\<rparr>)],
     st_nextOperationSequence := 1,
     st_executions := [(''op-1'', example_execution\<lparr>ex_ResourceID := ''res-2'', ex_State := AttemptPending,
       ex_CurrentAttempt := 0, ex_Version := 1\<rparr>)],
     st_outbox := [(''drive:op-1:1'', example_drive_message)]\<rparr>"

text \<open>
  The digest inside the event identifier is irrelevant to the run below and stays symbolic in its
  evaluation.
\<close>

declare sha256_hex_def [code del]

lemma example_drive_run:
  "map fst (st_attempts (snd (drive example_worker 50 example_drive_message example_drive_store))) = [''op-1:1'']"
  by code_simp

declare sha256_hex_def [code]

theorem drive_submits_only_through_gate_witness:
  "\<exists>s' execution. drive example_worker 50 example_drive_message example_drive_store = (Inr (), s') \<and>
     st_attempts s' \<noteq> st_attempts example_drive_store \<and>
     dispatch_started example_drive_message execution example_drive_store s'"
proof -
  obtain r s' where run: "drive example_worker 50 example_drive_message example_drive_store = (r, s')"
    by fastforce
  have "map fst (st_attempts s') = [''op-1:1'']" using example_drive_run run by simp
  moreover have "st_attempts example_drive_store = []"
    by code_simp
  ultimately have new: "st_attempts s' \<noteq> st_attempts example_drive_store" by auto
  then show ?thesis using drive_submits_only_through_gate [OF run new] run by auto
qed

end
