(* ===== verification/Worker_Execution.thy ===== *)
theory Worker_Execution
  imports Worker_Drive
begin

text \<open>
  The execution half of the worker (\<^verbatim>\<open>src/internal/worker/executor.go\<close>, \<^verbatim>\<open>worker.go\<close>,
  \<^verbatim>\<open>dispatcher.go\<close> and \<^verbatim>\<open>observer.go\<close>): dispatching a submission attempt to its provider, recording
  the answer, observing until the execution is terminal, finishing the Operation, and the cycle that
  claims one work item and settles it.

  A provider is the interface the worker calls, a record of functions. While a provider works, the
  heartbeat goroutine renews the lease and other processes commit transactions; \<open>meanwhile\<close> stands for
  all of these steps together and its result is what stopping the heartbeat returns. \<open>now\<close> and
  \<open>later\<close> are the times of the store before and after that call, \<open>clock\<close> the worker's own clock.
  The texts of JSON documents come from the encoder \<open>json\<close>.
\<close>

section \<open>Providers\<close>

record submit_error =
  se_Text :: string
  se_NotAttempted :: "ExecutionFailure option"
  se_Ambiguous :: bool

datatype submit_answer = SubmitPanic string | SubmitReturn Submission "submit_error option"

datatype observe_answer = ObservePanic string | ObserveReturn "ExecutionObservation result"

record Provider =
  pv_CanRedeliver :: bool
  pv_OutputMappingRef :: "(ResourceTypeRef \<Rightarrow> capability \<Rightarrow> string) option"
  pv_Submit :: "ExecutionRequest \<Rightarrow> submit_answer"
  pv_SubmitFenced :: "(ExecutionRequest \<Rightarrow> ExecutionFence \<Rightarrow> submit_answer) option"
  pv_Observe :: "ObservationRequest \<Rightarrow> observe_answer"
  pv_ObserveFenced :: "(ObservationRequest \<Rightarrow> ExecutionFence \<Rightarrow> observe_answer) option"

type_synonym resolver = "string \<Rightarrow> Provider option"

record json_encoder =
  json_fields :: "OutputField list \<Rightarrow> string result"
  json_values :: "(string \<times> any) list \<Rightarrow> string result"

definition can_redeliver :: "resolver \<Rightarrow> string \<Rightarrow> bool" where
  "can_redeliver resolve ref = (case resolve ref of None \<Rightarrow> False | Some p \<Rightarrow> pv_CanRedeliver p)"

definition executionFence :: "OutboxMessage \<Rightarrow> bool \<Rightarrow> ExecutionFence" where
  "executionFence message passive =
     \<lparr>fence_MessageID = msg_ID message, fence_LeaseToken = msg_LeaseToken message, fence_Passive = passive\<rparr>"

definition executionRequest :: "ProvisioningExecutionRecord \<Rightarrow> ExecutionRequest" where
  "executionRequest execution =
     \<lparr>req_OperationID = ex_OperationID execution, req_AttemptNumber = ex_CurrentAttempt execution,
      req_ResourceID = ex_ResourceID execution, req_ResourceType = ex_ResourceType execution,
      req_Spec = ex_Spec execution, req_Capability = ex_Capability execution,
      req_TargetGeneration = ex_TargetGeneration execution,
      req_OutputMappingRef = ex_OutputMappingRef execution\<rparr>"

definition observationRequest :: "ProvisioningExecutionRecord \<Rightarrow> ObservationRequest" where
  "observationRequest execution =
     \<lparr>oreq_OperationID = ex_OperationID execution, oreq_AttemptNumber = ex_CurrentAttempt execution,
      oreq_ResourceID = ex_ResourceID execution, oreq_ResourceType = ex_ResourceType execution,
      oreq_Spec = ex_Spec execution, oreq_Capability = ex_Capability execution,
      oreq_TargetGeneration = ex_TargetGeneration execution, oreq_Handle = ex_Handle execution,
      oreq_OutputMappingRef = ex_OutputMappingRef execution, oreq_OutputSourceMappingRef = ''''\<rparr>"

definition provider_submit :: "Provider \<Rightarrow> OutboxMessage \<Rightarrow> ExecutionRequest \<Rightarrow> submit_answer" where
  "provider_submit p message request =
     (case pv_SubmitFenced p of
        Some submit \<Rightarrow> submit request (executionFence message False)
      | None \<Rightarrow> pv_Submit p request)"

definition provider_observe :: "Provider \<Rightarrow> OutboxMessage \<Rightarrow> ObservationRequest \<Rightarrow> observe_answer" where
  "provider_observe p message request =
     (case pv_ObserveFenced p of
        Some observe \<Rightarrow> observe request (executionFence message (msg_Kind message = OutboxPassiveObserve))
      | None \<Rightarrow> pv_Observe p request)"

definition observedAt :: "time \<Rightarrow> time \<Rightarrow> time" where
  "observedAt clock providerTime = (if \<not> IsZero providerTime then providerTime else clock)"

definition observeCompletionReason :: "ExecutionObservation \<Rightarrow> string" where
  "observeCompletionReason observation =
     (if obs_Execution observation = None then ''ObservedNoCurrentExecution''
      else if obs_Correlation observation \<noteq> RequestCorrelationFound then ''ObservedUncorrelatedExecution''
      else ''ObservedNonterminal'')"

fun failure_kind_string :: "ExecutionFailureKind \<Rightarrow> string" where
  "failure_kind_string FailureInvalidRequest = ''InvalidRequest''"
| "failure_kind_string FailureUnsupported = ''Unsupported''"
| "failure_kind_string FailureUnavailable = ''Unavailable''"
| "failure_kind_string FailureTimeout = ''Timeout''"
| "failure_kind_string FailureNotFound = ''NotFound''"
| "failure_kind_string FailureExecution = ''ExecutionFailed''"
| "failure_kind_string FailureUnknown = ''Unknown''"
| "failure_kind_string (FailureOther s) = s"

definition ExecutionFailure_Error :: "ExecutionFailure \<Rightarrow> string" where
  "ExecutionFailure_Error f =
     (if fail_Message f = '''' then failure_kind_string (fail_Kind f) @ '': '' @ fail_Reason f
      else failure_kind_string (fail_Kind f) @ '': '' @ fail_Reason f @ '': '' @ fail_Message f)"

definition SubmissionNotAttempted_Error :: "ExecutionFailure \<Rightarrow> string" where
  "SubmissionNotAttempted_Error f =
     ''provisioner submission was not attempted: '' @ ExecutionFailure_Error f"

section \<open>Finishing an Operation\<close>

text \<open>The aligned time, and the execution whose effective observation time moves with it.\<close>

definition alignEvidenceTimeline ::
    "time \<Rightarrow> ProvisioningExecutionRecord \<Rightarrow> ResourceRecord \<Rightarrow> time \<times> ProvisioningExecutionRecord" where
  "alignEvidenceTimeline at execution resource =
     (let updated = status_updatedAt (rr_Status resource);
          frontier = (if updated < resource_updatedAt (rr_Resource resource)
                      then resource_updatedAt (rr_Resource resource) else updated)
      in if at < frontier then (frontier, execution\<lparr>ex_LastObservedAt := frontier\<rparr>) else (at, execution))"

text \<open>
  The writes all three ways of finishing share, in their order; \<open>publish\<close> and \<open>advance\<close> are the two
  steps only a success takes.
\<close>

definition commit_finish ::
    "time \<Rightarrow> OutboxMessage \<Rightarrow> ResourceRecord \<Rightarrow> OperationRecord \<Rightarrow> lifecycle_result \<Rightarrow> unit tx \<Rightarrow>
      ProvisioningExecutionRecord \<Rightarrow> uint64 \<Rightarrow> unit tx \<Rightarrow> string \<Rightarrow> unit tx" where
  "commit_finish now message resource operation result publish execution expected advance reason =
     bindT (SaveResource (resource\<lparr>rr_Status := lr_Status result\<rparr>) (rr_Version resource)) (\<lambda>_.
     bindT publish (\<lambda>_.
     bindT (SaveOperation \<lparr>or_Operation = lr_Operation result, or_Sequence = 0, or_Version = 0\<rparr> (or_Version operation)) (\<lambda>_.
     bindT (AppendEvent (lr_Event result)) (\<lambda>_.
     bindT (SaveExecution execution expected) (\<lambda>_.
     bindT advance (\<lambda>_.
     bindT (applyTerminalSideEffects now (lr_Operation result) (resource_id (rr_Resource resource)) (rr_Version resource + 1)) (\<lambda>_.
     settle_work now message reason)))))))"

definition load_finish :: "operation_id \<Rightarrow> (ResourceRecord \<times> OperationRecord) tx" where
  "load_finish oid =
     bindT (LookupOperation oid) (\<lambda>preflight.
     bindT (GetResource (op_resourceID (or_Operation preflight))) (\<lambda>resource.
     bindT (GetOperation oid) (\<lambda>operation. returnT (resource, operation))))"

definition finishOperation ::
    "time \<Rightarrow> OutboxMessage \<Rightarrow> ProvisioningExecutionRecord \<Rightarrow> uint64 \<Rightarrow> Finish \<Rightarrow> time \<Rightarrow> unit tx" where
  "finishOperation now message execution expected finish at =
     bindT (load_finish (ex_OperationID execution)) (\<lambda>(resource, operation).
       let (aligned, execution') = alignEvidenceTimeline at execution resource in
       bindT (liftT (BuildFinishEvidence (or_Operation operation) (rr_Resource resource) (rr_Status resource)
                finish aligned)) (\<lambda>result.
       commit_finish now message resource operation result (returnT ()) execution' expected (returnT ())
         ''TerminalExecution''))"

definition OutputContractDigest :: "json_encoder \<Rightarrow> OutputContract option \<Rightarrow> string result" where
  "OutputContractDigest json contract =
     (case contract of None \<Rightarrow> Inr ''''
      | Some c \<Rightarrow> bindE (json_fields json (oc_fields c)) (\<lambda>encoded. Inr (sha256_hex encoded)))"

definition ValuesDigest :: "json_encoder \<Rightarrow> (string \<times> any) list \<Rightarrow> string result" where
  "ValuesDigest json values = bindE (json_values json values) (\<lambda>encoded. Inr (sha256_hex encoded))"

definition terminal_output_plan ::
    "Worker \<Rightarrow> ProvisioningExecutionRecord \<Rightarrow> OutputEvidence option \<Rightarrow> time \<Rightarrow> OutputPlan result" where
  "terminal_output_plan w execution outputs at =
     (case w_Types w of
        None \<Rightarrow> (case outputs of None \<Rightarrow> Inr OutputPlanNone
                 | Some _ \<Rightarrow> Inl (ErrMessage ''output evidence requires a composed resource type catalog''))
      | Some types \<Rightarrow>
          bindE (types (ex_ResourceType execution)) (\<lambda>contract.
            PlanTerminalOutputs (rc_OutputContract contract) (ex_Capability execution) outputs
              (ex_TargetGeneration execution) at))"

definition publish_record ::
    "Worker \<Rightarrow> json_encoder \<Rightarrow> ResourceRecord \<Rightarrow> OperationRecord \<Rightarrow> ProvisioningExecutionRecord \<Rightarrow>
      ResourceOutputs \<Rightarrow> ResourceOutputRecord result" where
  "publish_record w json resource operation execution snapshot =
     bindE (case w_Types w of None \<Rightarrow> Inl (ErrMessage ''resource type catalog unavailable for output provenance'')
            | Some types \<Rightarrow> types (ex_ResourceType execution)) (\<lambda>contract.
     bindE (OutputContractDigest json (rc_OutputContract contract)) (\<lambda>contractDigest.
     bindE (ValuesDigest json (outputs_values snapshot)) (\<lambda>valuesDigest.
     Inr \<lparr>out_ResourceID = resource_id (rr_Resource resource),
          out_ObservedGeneration = outputs_observedGeneration snapshot,
          out_OperationID = op_id (or_Operation operation),
          out_Capability = op_capability (or_Operation operation),
          out_OutputMappingRef = ex_OutputMappingRef execution,
          out_OutputContractDigest = contractDigest, out_Values = snapshot, out_ValuesDigest = valuesDigest\<rparr>)))"

definition advance_applied :: "ResourceRecord \<Rightarrow> OperationRecord \<Rightarrow> ProvisioningExecutionRecord \<Rightarrow> unit tx" where
  "advance_applied resource operation execution =
     (if (ex_Capability execution = CapabilityCreate \<or> ex_Capability execution = CapabilityUpdate) \<and>
         op_targetGeneration (or_Operation operation) = resource_generation (rr_Resource resource)
      then bindT (DesiredReferences (resource_id (rr_Resource resource))) (\<lambda>desired.
        if list_ex (\<lambda>e. edge_Generation e \<noteq> op_targetGeneration (or_Operation operation)) desired
        then throwT (ErrReferenceInvariant ''desired reference generation does not match converged generation'')
        else AdvanceAppliedReferences (resource_id (rr_Resource resource))
               (op_targetGeneration (or_Operation operation)) desired)
      else returnT ())"

definition defer_outputs ::
    "Worker \<Rightarrow> time \<Rightarrow> OutboxMessage \<Rightarrow> ProvisioningExecutionRecord \<Rightarrow> uint64 \<Rightarrow> unit tx" where
  "defer_outputs w now message execution expected =
     (let (scheduled, nxt) = scheduleObserve (execution\<lparr>ex_State := AttemptSucceeded,
            ex_OutputResolution := OutputResolutionPending\<rparr>) (w_RetryBase w)
      in bindT (SaveExecution scheduled expected) (\<lambda>_.
         bindT (settle_work now message ''OutputsPending'') (\<lambda>_.
         Enqueue now nxt)))"

definition reject_outputs ::
    "time \<Rightarrow> OutboxMessage \<Rightarrow> ResourceRecord \<Rightarrow> OperationRecord \<Rightarrow> ProvisioningExecutionRecord \<Rightarrow> uint64 \<Rightarrow>
      ExecutionFailure \<Rightarrow> time \<Rightarrow> unit tx" where
  "reject_outputs now message resource operation execution expected failure at =
     bindT (liftT (BuildFinishEvidence (or_Operation operation) (rr_Resource resource) (rr_Status resource)
              \<lparr>fin_Succeeded = False, fin_Reason = fail_Reason failure, fin_Message = fail_Message failure,
               fin_Facts = ObservedFacts_zero\<rparr> at)) (\<lambda>result.
     commit_finish now message resource operation result (returnT ())
       (execution\<lparr>ex_State := AttemptSucceeded, ex_OutputResolution := OutputResolutionRejected,
          ex_OutputFailureReason := fail_Reason failure, ex_OutputFailureMessage := fail_Message failure\<rparr>)
       expected (returnT ()) ''OutputPostconditionRejected'')"

definition complete_success ::
    "time \<Rightarrow> OutboxMessage \<Rightarrow> ResourceRecord \<Rightarrow> OperationRecord \<Rightarrow> ProvisioningExecutionRecord \<Rightarrow> uint64 \<Rightarrow>
      Finish \<Rightarrow> time \<Rightarrow> ResourceOutputRecord option \<Rightarrow> unit tx" where
  "complete_success now message resource operation execution expected finish at publish =
     (let resolved = execution\<lparr>ex_OutputResolution :=
            (if publish = None then OutputResolutionNone else OutputResolutionPublished)\<rparr>;
          (aligned, execution') = alignEvidenceTimeline at resolved resource
      in bindT (liftT (BuildFinishEvidence (or_Operation operation) (rr_Resource resource) (rr_Status resource)
                 finish aligned)) (\<lambda>result.
         commit_finish now message resource operation result
           (case publish of None \<Rightarrow> returnT () | Some record \<Rightarrow> SaveResourceOutputs record)
           execution' expected (advance_applied resource operation execution') ''TerminalExecution''))"

definition finishSuccessInTx ::
    "Worker \<Rightarrow> json_encoder \<Rightarrow> time \<Rightarrow> OutboxMessage \<Rightarrow> ProvisioningExecutionRecord \<Rightarrow> uint64 \<Rightarrow> Finish \<Rightarrow>
      time \<Rightarrow> OutputEvidence option \<Rightarrow> unit tx" where
  "finishSuccessInTx w json now message execution expected finish at outputs =
     bindT (load_finish (ex_OperationID execution)) (\<lambda>(resource, operation).
     if IsTerminal (or_Operation operation)
       then throwT (ErrInvalidTransition ''cannot complete a terminal operation'')
     else
     bindT (liftT (ValidateOutputEvidenceMapping (ex_OutputMappingRef execution) outputs)) (\<lambda>_.
     bindT (liftT (terminal_output_plan w execution outputs at)) (\<lambda>plan.
     case plan of
       OutputPlanDefer \<Rightarrow> defer_outputs w now message execution expected
     | OutputPlanReject failure \<Rightarrow>
         reject_outputs now message resource operation execution expected failure at
     | OutputPlanPublish snapshot \<Rightarrow>
         bindT (liftT (publish_record w json resource operation execution snapshot)) (\<lambda>record.
         complete_success now message resource operation execution expected finish at (Some record))
     | OutputPlanNone \<Rightarrow>
         complete_success now message resource operation execution expected finish at None)))"

section \<open>Dispatching\<close>

text \<open>The provider of the code's \<^verbatim>\<open>dispatchContext\<close> is passed along separately.\<close>

record dispatchContext =
  dc_execution :: ProvisioningExecutionRecord
  dc_version :: uint64

definition pending_dispatch :: "OutboxMessage \<Rightarrow> ProvisioningExecutionRecord tx" where
  "pending_dispatch message =
     bindT (require_lease message) (\<lambda>_.
     bindT (GetExecution (msg_OperationID message)) (\<lambda>execution.
     if ex_Version execution \<noteq> msg_ExpectedVersion message \<or>
        ex_CurrentAttempt execution \<noteq> msg_AttemptNumber message \<or> ex_State execution \<noteq> AttemptPending
     then throwT conflict else returnT execution))"

definition load_dispatch :: "OutboxMessage \<Rightarrow> ProvisioningExecutionRecord tx" where
  "load_dispatch message =
     bindT (pending_dispatch message) (\<lambda>execution.
     if IsOutputRecovery execution
     then throwT (ErrInvalidApplicationCall ''output recovery cannot be dispatched'')
     else returnT execution)"

definition claim_attempt :: "Worker \<Rightarrow> time \<Rightarrow> OutboxMessage \<Rightarrow> string \<Rightarrow> dispatchContext tx" where
  "claim_attempt w now message outputMappingRef =
     bindT (pending_dispatch message) (\<lambda>execution.
     bindT (GetSubmissionAttempt (msg_OperationID message) (msg_AttemptNumber message)) (\<lambda>attempt.
     if att_State attempt \<noteq> SubmissionAttemptPending \<or> att_DispatchMessage attempt \<noteq> msg_ID message
     then throwT conflict
     else
     bindT (RenewOutbox now (msg_ID message) (msg_LeaseToken message) (w_Lease w)) (\<lambda>_.
     bindT (SaveSubmissionAttempt (attempt\<lparr>att_State := SubmissionAttemptLeased\<rparr>) SubmissionAttemptPending) (\<lambda>_.
     let claimed = execution\<lparr>ex_OutputMappingRef := (if ex_OutputMappingRef execution = ''''
              then outputMappingRef else ex_OutputMappingRef execution), ex_State := AttemptDispatching\<rparr>
     in bindT (SaveExecution claimed (ex_Version execution)) (\<lambda>_.
        returnT \<lparr>dc_execution = claimed\<lparr>ex_Version := ex_Version execution + 1\<rparr>,
                 dc_version = ex_Version execution + 1\<rparr>)))))"

definition selected_mapping :: "Provider \<Rightarrow> ProvisioningExecutionRecord \<Rightarrow> string" where
  "selected_mapping p execution =
     (if ex_OutputMappingRef execution \<noteq> '''' then ex_OutputMappingRef execution
      else case pv_OutputMappingRef p of
        None \<Rightarrow> '''' | Some source \<Rightarrow> source (ex_ResourceType execution) (ex_Capability execution))"

definition provisioner_not_found :: error where
  "provisioner_not_found = ErrProvisionerNotFound ''provisioner not found''"

definition prepareDispatch ::
    "Worker \<Rightarrow> resolver \<Rightarrow> time \<Rightarrow> OutboxMessage \<Rightarrow> (Provider \<times> dispatchContext) tx" where
  "prepareDispatch w resolve now message =
     bindT (Within (load_dispatch message)) (\<lambda>execution.
     case resolve (ex_ProvisionerRef execution) of
       None \<Rightarrow> throwT provisioner_not_found
     | Some provider \<Rightarrow>
         bindT (Within (claim_attempt w now message (selected_mapping provider execution))) (\<lambda>prepared.
         returnT (provider, prepared)))"

text \<open>The fence the three transactions after a submission share.\<close>

definition dispatching ::
    "OutboxMessage \<Rightarrow> uint64 \<Rightarrow> (ProvisioningExecutionRecord \<times> SubmissionAttemptRecord) tx" where
  "dispatching message version =
     bindT (require_lease message) (\<lambda>_.
     bindT (GetExecution (msg_OperationID message)) (\<lambda>execution.
     if ex_Version execution \<noteq> version \<or> ex_CurrentAttempt execution \<noteq> msg_AttemptNumber message \<or>
        ex_State execution \<noteq> AttemptDispatching
     then throwT conflict
     else
     bindT (GetSubmissionAttempt (msg_OperationID message) (msg_AttemptNumber message)) (\<lambda>attempt.
     if att_State attempt \<noteq> SubmissionAttemptLeased then throwT conflict
     else returnT (execution, attempt))))"

definition markDispatchUnknown :: "Worker \<Rightarrow> time \<Rightarrow> OutboxMessage \<Rightarrow> uint64 \<Rightarrow> error \<Rightarrow> unit tx" where
  "markDispatchUnknown w now message version cause = Within
     (bindT (dispatching message version) (\<lambda>(execution, attempt).
      let failure = \<lparr>fail_Kind = FailureUnknown, fail_Reason = ''DispatchResultPersistenceFailed'',
                     fail_Message = err_text cause\<rparr>
      in bindT (SaveSubmissionAttempt (attempt\<lparr>att_State := SubmissionAttemptUnknown, att_Failure := Some failure\<rparr>)
                 SubmissionAttemptLeased) (\<lambda>_.
         let (scheduled, observe) = scheduleObserve (execution\<lparr>ex_State := AttemptUnknown,
               ex_Correlation := RequestCorrelationUnknown, ex_LastFailure := Some failure\<rparr>) (w_RetryBase w)
         in bindT (SaveExecution scheduled (ex_Version execution)) (\<lambda>_.
            bindT (settle_work now message ''DispatchResultPersistenceFailed'') (\<lambda>_.
            Enqueue now observe)))))"

definition retryNotAttemptedDispatch ::
    "Worker \<Rightarrow> time \<Rightarrow> OutboxMessage \<Rightarrow> uint64 \<Rightarrow> ExecutionFailure \<Rightarrow> unit tx" where
  "retryNotAttemptedDispatch w now message version failure = Within
     (bindT (dispatching message version) (\<lambda>(execution, attempt).
      if att_DispatchMessage attempt \<noteq> msg_ID message then throwT conflict
      else
      bindT (SaveSubmissionAttempt (attempt\<lparr>att_State := SubmissionAttemptPending, att_ClaimedAt := 0,
               att_ResolvedAt := 0, att_Failure := None\<rparr>) SubmissionAttemptLeased) (\<lambda>_.
      bindT (SaveExecution (execution\<lparr>ex_State := AttemptPending\<rparr>) version) (\<lambda>_.
      RetryDispatchOutbox now (msg_ID message) (msg_LeaseToken message) (version + 1)
        (backoff w (msg_AttemptCount message)) (SubmissionNotAttempted_Error failure)))))"

text \<open>
  Dereferencing a nil \<^verbatim>\<open>finish\<close> would panic; the interpreters return one with every outcome that is
  finished (\<open>submission_cases\<close>, \<open>observation_cases\<close>).
\<close>

definition with_finish :: "Finish option \<Rightarrow> (Finish \<Rightarrow> unit tx) \<Rightarrow> unit tx" where
  "with_finish finish f = (case finish of None \<Rightarrow> throwT (ErrMessage ''nil finish'') | Some x \<Rightarrow> f x)"

definition settle_submission ::
    "Worker \<Rightarrow> json_encoder \<Rightarrow> time \<Rightarrow> OutboxMessage \<Rightarrow> uint64 \<Rightarrow> Submission \<Rightarrow> time \<Rightarrow>
      ProvisioningExecutionRecord \<Rightarrow> SubmissionOutcome \<Rightarrow> Finish option \<Rightarrow> unit tx" where
  "settle_submission w json now message version submission at execution outcome finish =
     (if outcome = SubmissionOutcomeAmbiguous \<or> outcome = SubmissionOutcomeAccepted then
        (let (scheduled, observe) = scheduleObserve execution (w_RetryBase w)
         in bindT (SaveExecution scheduled version) (\<lambda>_.
            bindT (settle_work now message (if outcome = SubmissionOutcomeAmbiguous
                     then ''AmbiguousSubmission'' else ''Submitted'')) (\<lambda>_.
            Enqueue now observe)))
      else if outcome = SubmissionOutcomeSucceeded then
        with_finish finish (\<lambda>f. finishSuccessInTx w json now message execution version f at
          (obs_Outputs (sub_Observation submission)))
      else with_finish finish (\<lambda>f. finishOperation now message execution version f at))"

definition recordDispatch ::
    "Worker \<Rightarrow> json_encoder \<Rightarrow> time \<Rightarrow> time \<Rightarrow> OutboxMessage \<Rightarrow> uint64 \<Rightarrow> Submission \<Rightarrow> string option \<Rightarrow> unit tx" where
  "recordDispatch w json now clock message version submission submitErr = Within
     (bindT (dispatching message version) (\<lambda>(execution, attempt).
      let at = observedAt clock (obs_ObservedAt (sub_Observation submission)) in
      bindT (liftT (InterpretSubmission execution attempt submission submitErr at)) (\<lambda>(execution', attempt', outcome, finish).
      bindT (SaveSubmissionAttempt attempt' SubmissionAttemptLeased) (\<lambda>_.
      settle_submission w json now message version submission at execution' outcome finish))))"

section \<open>Work errors\<close>

text \<open>
  What a handler reports beyond an error of the application: the wrappers the worker tells apart, and
  a panic of the provider that unwinds through it.
\<close>

datatype work_error =
    WorkFailed error
  | AmbiguousDispatch error bool
  | DispatchRequeued string
  | LeaseOwnershipLost error
  | WorkPanic string

type_synonym handler = "Store \<Rightarrow> (work_error + unit) \<times> Store"

definition plain_work :: "unit tx \<Rightarrow> handler" where
  "plain_work m = (\<lambda>s. case m s of (Inl e, s') \<Rightarrow> (Inl (WorkFailed e), s') | (Inr u, s') \<Rightarrow> (Inr u, s'))"

definition is_conflict :: "error \<Rightarrow> bool" where
  "is_conflict e = (case e of ErrConcurrencyConflict _ \<Rightarrow> True | _ \<Rightarrow> False)"

text \<open>The renewal \<^verbatim>\<open>startLeaseHeartbeat\<close> makes before it starts the goroutine.\<close>

definition startLeaseHeartbeat :: "Worker \<Rightarrow> time \<Rightarrow> OutboxMessage \<Rightarrow> unit tx" where
  "startLeaseHeartbeat w now message =
     Within (RenewOutbox now (msg_ID message) (msg_LeaseToken message) (w_Lease w))"

definition contradictory_result :: "submit_error \<Rightarrow> string" where
  "contradictory_result err =
     ''provisioner submission outcome is ambiguous: contradictory submission-not-attempted result: '' @ se_Text err"

definition zero_submission :: Submission where
  "zero_submission = \<lparr>sub_Observation = \<lparr>obs_Correlation = RequestCorrelationOther '''', obs_Execution = None,
     obs_Resource = ObservedFacts_zero, obs_ObservedAt = 0, obs_Outputs = None\<rparr>\<rparr>"

definition record_or_mark ::
    "Worker \<Rightarrow> json_encoder \<Rightarrow> time \<Rightarrow> time \<Rightarrow> OutboxMessage \<Rightarrow> uint64 \<Rightarrow> Submission \<Rightarrow> string option \<Rightarrow> handler" where
  "record_or_mark w json later clock message version submission submitErr = (\<lambda>s.
     case recordDispatch w json later clock message version submission submitErr s of
       (Inr _, s1) \<Rightarrow> (Inr (), s1)
     | (Inl e, s1) \<Rightarrow>
         (case markDispatchUnknown w later message version e s1 of
            (Inr _, s2) \<Rightarrow> (Inr (), s2)
          | (Inl _, s2) \<Rightarrow> (Inl (AmbiguousDispatch e (is_conflict e)), s2)))"

definition settle_dispatch ::
    "Worker \<Rightarrow> json_encoder \<Rightarrow> time \<Rightarrow> time \<Rightarrow> OutboxMessage \<Rightarrow> uint64 \<Rightarrow> Submission \<Rightarrow> submit_error option \<Rightarrow> handler" where
  "settle_dispatch w json later clock message version submission submitErr = (\<lambda>s.
     case submitErr of
       None \<Rightarrow> record_or_mark w json later clock message version submission None s
     | Some err \<Rightarrow>
         (case se_NotAttempted err of
            None \<Rightarrow> record_or_mark w json later clock message version submission (Some (se_Text err)) s
          | Some failure \<Rightarrow>
              if SubmissionNotAttempted_Validate failure = Inr () \<and> \<not> se_Ambiguous err \<and> Submission_IsZero submission
              then (case retryNotAttemptedDispatch w later message version failure s of
                      (Inl e, s1) \<Rightarrow> (Inl (AmbiguousDispatch e (is_conflict e)), s1)
                    | (Inr _, s1) \<Rightarrow> (Inl (DispatchRequeued (se_Text err)), s1))
              else record_or_mark w json later clock message version zero_submission
                     (Some (contradictory_result err)) s))"

definition dispatch ::
    "Worker \<Rightarrow> json_encoder \<Rightarrow> resolver \<Rightarrow> time \<Rightarrow> time \<Rightarrow> time \<Rightarrow> unit tx \<Rightarrow> OutboxMessage \<Rightarrow> handler" where
  "dispatch w json resolve now later clock meanwhile message = (\<lambda>s.
     case prepareDispatch w resolve now message s of
       (Inl e, s1) \<Rightarrow> (Inl (WorkFailed e), s1)
     | (Inr (provider, prepared), s1) \<Rightarrow>
         (case startLeaseHeartbeat w now message s1 of
            (Inl e, s2) \<Rightarrow> (Inl (AmbiguousDispatch e True), s2)
          | (Inr _, s2) \<Rightarrow>
              (case meanwhile s2 of (beat, s3) \<Rightarrow>
                (case provider_submit provider message (executionRequest (dc_execution prepared)) of
                   SubmitPanic panic \<Rightarrow> (Inl (AmbiguousDispatch (ErrMessage panic) False), s3)
                 | SubmitReturn submission submitErr \<Rightarrow>
                     (case beat of
                        Inl _ \<Rightarrow> (Inl (AmbiguousDispatch (ErrMessage ''dispatch lease ownership lost'') True), s3)
                      | Inr _ \<Rightarrow>
                          settle_dispatch w json later clock message (dc_version prepared) submission submitErr s3)))))"

section \<open>Observing\<close>

definition safeOutputRecoveryAttempt :: "ProvisioningExecutionRecord \<Rightarrow> SubmissionAttemptRecord \<Rightarrow> bool" where
  "safeOutputRecoveryAttempt execution attempt =
     (case att_State attempt of
        SubmissionAttemptAccepted \<Rightarrow> True
      | SubmissionAttemptUnknown \<Rightarrow>
          ex_AcceptanceConfirmed execution \<and> ex_Correlation execution = RequestCorrelationFound \<and>
          (case persistedTerminalExecution execution of
             None \<Rightarrow> False | Some evidence \<Rightarrow> exec_State evidence = ExecutionStateSucceeded)
      | _ \<Rightarrow> False)"

definition ValidateOutputRecoverySource ::
    "ProvisioningExecutionRecord \<Rightarrow> ProvisioningExecutionRecord \<Rightarrow> Operation \<Rightarrow> SubmissionAttemptRecord \<Rightarrow> unit result" where
  "ValidateOutputRecoverySource child source operation attempt =
     (if \<not> IsOutputRecovery child \<or> ex_OperationID source \<noteq> ex_RecoverySourceOperationID child \<or>
         ex_CurrentAttempt source \<noteq> ex_RecoverySourceAttempt child \<or>
         ex_ProvisionerRef source \<noteq> ex_ProvisionerRef child \<or> ex_ResourceID source \<noteq> ex_ResourceID child \<or>
         ex_ResourceType source \<noteq> ex_ResourceType child \<or> ex_Capability source \<noteq> ex_Capability child \<or>
         ex_TargetGeneration source \<noteq> ex_TargetGeneration child \<or>
         spec_values (ex_Spec source) \<noteq> spec_values (ex_Spec child) \<or> ex_State source \<noteq> AttemptSucceeded \<or>
         ex_OutputResolution source \<noteq> OutputResolutionRejected \<or> blank (ex_OutputMappingRef source) \<or>
         blank (ex_OutputMappingRef child) \<or> ex_OutputMappingRef child = ex_OutputMappingRef source \<or>
         op_id operation \<noteq> ex_OperationID source \<or> op_resourceID operation \<noteq> ex_ResourceID source \<or>
         op_capability operation \<noteq> ex_Capability source \<or>
         op_targetGeneration operation \<noteq> ex_TargetGeneration source \<or>
         op_state operation \<noteq> OperationStateFailed \<or>
         (case op_failure operation of
            None \<Rightarrow> True
          | Some f \<Rightarrow> failure_reason f \<noteq> ReasonOutputPostconditionRejected \<or>
              ex_OutputFailureReason source \<noteq> failure_reason f \<or>
              ex_OutputFailureMessage source \<noteq> failure_message f) \<or>
         att_OperationID attempt \<noteq> ex_OperationID source \<or>
         att_AttemptNumber attempt \<noteq> ex_RecoverySourceAttempt child \<or>
         \<not> safeOutputRecoveryAttempt source attempt
      then Inl (ErrInvalidApplicationCall ''output recovery source provenance changed'')
      else Inr ())"

record observationRecords =
  obr_execution :: ProvisioningExecutionRecord
  obr_source :: "ProvisioningExecutionRecord option"
  obr_operation :: OperationRecord

text \<open>
  A read the code makes only for an output recovery: \<open>None\<close> is the zero record it leaves otherwise.
\<close>

definition recovery_read :: "bool \<Rightarrow> 'a tx \<Rightarrow> 'a option tx" where
  "recovery_read recovery m = (if recovery then bindT m (\<lambda>x. returnT (Some x)) else returnT None)"

definition validate_recovery ::
    "ProvisioningExecutionRecord \<Rightarrow> ProvisioningExecutionRecord option \<Rightarrow> OperationRecord option \<Rightarrow>
      SubmissionAttemptRecord option \<Rightarrow> unit result" where
  "validate_recovery execution source sourceOperation sourceAttempt =
     (case (source, sourceOperation, sourceAttempt) of
        (Some e, Some o1, Some a) \<Rightarrow> ValidateOutputRecoverySource execution e (or_Operation o1) a
      | _ \<Rightarrow> Inl (ErrInvalidApplicationCall ''output recovery source provenance changed''))"

definition lockObservationRecords ::
    "operation_id \<Rightarrow> uint64 \<Rightarrow> uint64 \<Rightarrow> observationRecords tx" where
  "lockObservationRecords operationID expectedVersion expectedNextObservation =
     bindT (LookupExecution operationID) (\<lambda>preflight.
     if ex_Version preflight \<noteq> expectedVersion \<or> ex_NextObservation preflight \<noteq> expectedNextObservation
     then throwT conflict
     else
     let recovery = IsOutputRecovery preflight in
     bindT (GetResource (ex_ResourceID preflight)) (\<lambda>resource.
     bindT (recovery_read recovery (GetOperation (ex_RecoverySourceOperationID preflight))) (\<lambda>sourceOperation.
     bindT (GetOperation operationID) (\<lambda>operation.
     bindT (recovery_read recovery (GetExecution (ex_RecoverySourceOperationID preflight))) (\<lambda>source.
     bindT (GetExecution operationID) (\<lambda>execution.
     bindT (recovery_read recovery (GetSubmissionAttempt (ex_RecoverySourceOperationID preflight)
              (ex_RecoverySourceAttempt preflight))) (\<lambda>sourceAttempt.
     if ex_ResourceID execution \<noteq> ex_ResourceID preflight \<or>
        ex_RecoverySourceOperationID execution \<noteq> ex_RecoverySourceOperationID preflight \<or>
        ex_RecoverySourceAttempt execution \<noteq> ex_RecoverySourceAttempt preflight \<or>
        resource_id (rr_Resource resource) \<noteq> ex_ResourceID execution \<or>
        op_id (or_Operation operation) \<noteq> ex_OperationID execution \<or>
        op_resourceID (or_Operation operation) \<noteq> ex_ResourceID execution
     then throwT conflict
     else
     bindT (if IsOutputRecovery execution
            then liftT (validate_recovery execution source sourceOperation sourceAttempt)
            else returnT ()) (\<lambda>_.
     returnT \<lparr>obr_execution = execution, obr_source = source, obr_operation = operation\<rparr>))))))))"

text \<open>Keep observing: save the execution, settle the message and schedule the next observation.\<close>

definition observe_again ::
    "Worker \<Rightarrow> time \<Rightarrow> OutboxMessage \<Rightarrow> ProvisioningExecutionRecord \<Rightarrow> string \<Rightarrow> unit tx" where
  "observe_again w now message execution reason =
     (let (scheduled, nxt) = scheduleObserve execution (w_RetryBase w)
      in bindT (SaveExecution scheduled (ex_Version execution)) (\<lambda>_.
         bindT (settle_work now message reason) (\<lambda>_.
         Enqueue now nxt)))"

text \<open>Outputs are pending and the observation is no positively correlated success.\<close>

definition observe_recovery ::
    "Worker \<Rightarrow> time \<Rightarrow> OutboxMessage \<Rightarrow> ProvisioningExecutionRecord \<Rightarrow> ProvisioningExecutionRecord \<Rightarrow>
      ExecutionObservation \<Rightarrow> unit tx" where
  "observe_recovery w now message execution recorded observation =
     (if IsOutputRecovery execution
      then observe_again w now message
             (if \<not> IsZero (obs_ObservedAt observation) \<and>
                 (IsZero (ex_LastProviderObservedAt execution) \<or>
                  ex_LastProviderObservedAt execution < obs_ObservedAt observation)
              then recorded\<lparr>ex_LastProviderObservedAt := obs_ObservedAt observation\<rparr> else recorded)
             (observeCompletionReason observation)
      else throwT (ErrInvalidTransition ''pending-output observation is not positively correlated terminal success''))"

definition observe_pending_outputs ::
    "Worker \<Rightarrow> json_encoder \<Rightarrow> time \<Rightarrow> time \<Rightarrow> OutboxMessage \<Rightarrow> ProvisioningExecutionRecord \<Rightarrow> OperationRecord \<Rightarrow>
      ExecutionObservation \<Rightarrow> unit tx" where
  "observe_pending_outputs w json now clock message execution operation observation =
     (if IsTerminal (or_Operation operation) then throwT conflict
      else
      let recorded = execution\<lparr>ex_LastObservation := Some observation,
            ex_LastObservedAt := observedAt clock (obs_ObservedAt observation),
            ex_Correlation := obs_Correlation observation\<rparr>
      in case obs_Execution observation of
        Some x \<Rightarrow>
          if obs_Correlation observation = RequestCorrelationFound \<and> exec_State x = ExecutionStateSucceeded then
            let finishAt = (if IsOutputRecovery execution then observedAt clock (obs_ObservedAt observation)
                            else ex_LastObservedAt execution);
                handled = recorded\<lparr>ex_Handle := (case exec_Handle x of Some h \<Rightarrow> Some h | None \<Rightarrow> ex_Handle execution)\<rparr>;
                timed = (if \<not> IsZero (obs_ObservedAt observation)
                         then handled\<lparr>ex_LastProviderObservedAt := obs_ObservedAt observation\<rparr> else handled)
            in finishSuccessInTx w json now message (if IsOutputRecovery execution then timed else execution)
                 (ex_Version execution)
                 \<lparr>fin_Succeeded = True, fin_Reason = ''ObservationSucceeded'', fin_Message = '''',
                  fin_Facts = obs_Resource observation\<rparr> finishAt (obs_Outputs observation)
          else observe_recovery w now message execution recorded observation
      | None \<Rightarrow> observe_recovery w now message execution recorded observation)"

definition retry_submission ::
    "time \<Rightarrow> OutboxMessage \<Rightarrow> ProvisioningExecutionRecord \<Rightarrow> SubmissionAttemptRecord \<Rightarrow> unit tx" where
  "retry_submission now message execution attempt =
     (let dispatch = DispatchMessage (ex_OperationID execution) (ex_CurrentAttempt execution) (ex_Version execution + 1)
      in bindT (SaveSubmissionAttempt attempt SubmissionAttemptUnknown) (\<lambda>_.
         bindT (CreateSubmissionAttempt \<lparr>att_OperationID = ex_OperationID execution,
                  att_AttemptNumber = ex_CurrentAttempt execution, att_State = SubmissionAttemptPending,
                  att_DispatchMessage = msg_ID dispatch, att_ClaimedAt = 0, att_ResolvedAt = 0,
                  att_Failure = None\<rparr>) (\<lambda>_.
         bindT (SaveExecution execution (ex_Version execution)) (\<lambda>_.
         bindT (settle_work now message ''SubmissionNotFound'') (\<lambda>_.
         Enqueue now dispatch)))))"

definition settle_observation ::
    "Worker \<Rightarrow> json_encoder \<Rightarrow> time \<Rightarrow> OutboxMessage \<Rightarrow> ExecutionObservation \<Rightarrow> time \<Rightarrow>
      ProvisioningExecutionRecord \<Rightarrow> SubmissionAttemptRecord \<Rightarrow> ObservationOutcome \<Rightarrow> Finish option \<Rightarrow> unit tx" where
  "settle_observation w json now message observation at execution attempt outcome finish =
     (case outcome of
        ObservationOutcomeStale \<Rightarrow> observe_again w now message execution ''StaleObservation''
      | ObservationOutcomeRejected \<Rightarrow>
          bindT (SaveSubmissionAttempt attempt SubmissionAttemptUnknown) (\<lambda>_.
          with_finish finish (\<lambda>f. finishOperation now message execution (ex_Version execution) f at))
      | ObservationOutcomeRetry \<Rightarrow> retry_submission now message execution attempt
      | ObservationOutcomeObserve \<Rightarrow> observe_again w now message execution (observeCompletionReason observation)
      | ObservationOutcomeSucceeded \<Rightarrow>
          with_finish finish (\<lambda>f. finishSuccessInTx w json now message execution (ex_Version execution) f at
            (obs_Outputs observation))
      | ObservationOutcomeFailed \<Rightarrow>
          with_finish finish (\<lambda>f. finishOperation now message execution (ex_Version execution) f at))"

definition observe_running ::
    "Worker \<Rightarrow> json_encoder \<Rightarrow> time \<Rightarrow> time \<Rightarrow> OutboxMessage \<Rightarrow> ProvisioningExecutionRecord \<Rightarrow>
      ExecutionObservation \<Rightarrow> unit tx" where
  "observe_running w json now clock message execution observation =
     bindT (GetSubmissionAttempt (ex_OperationID execution) (ex_CurrentAttempt execution)) (\<lambda>attempt.
     let at = observedAt clock (obs_ObservedAt observation) in
     bindT (liftT (InterpretObservation execution attempt observation at)) (\<lambda>(execution', attempt', outcome, finish).
     settle_observation w json now message observation at execution' attempt' outcome finish))"

definition recordObservation ::
    "Worker \<Rightarrow> json_encoder \<Rightarrow> time \<Rightarrow> time \<Rightarrow> OutboxMessage \<Rightarrow> ProvisioningExecutionRecord \<Rightarrow>
      ExecutionObservation \<Rightarrow> unit tx" where
  "recordObservation w json now clock message loaded observation = Within
     (bindT (require_lease message) (\<lambda>_.
      bindT (lockObservationRecords (msg_OperationID message) (ex_Version loaded) (msg_Sequence message + 1)) (\<lambda>records.
      let execution = obr_execution records in
      if ex_Version execution \<noteq> ex_Version loaded \<or> ex_CurrentAttempt execution \<noteq> ex_CurrentAttempt loaded \<or>
         ex_NextObservation execution \<noteq> msg_Sequence message + 1
      then throwT conflict
      else if ex_State execution = AttemptSucceeded \<and> ex_OutputResolution execution = OutputResolutionPending
      then observe_pending_outputs w json now clock message execution (obr_operation records) observation
      else observe_running w json now clock message execution observation)))"

definition recovery_request ::
    "ProvisioningExecutionRecord \<Rightarrow> ProvisioningExecutionRecord \<Rightarrow> ObservationRequest" where
  "recovery_request loaded source =
     \<lparr>oreq_OperationID = ex_OperationID source, oreq_AttemptNumber = ex_RecoverySourceAttempt loaded,
      oreq_ResourceID = ex_ResourceID source, oreq_ResourceType = ex_ResourceType source,
      oreq_Spec = ex_Spec source, oreq_Capability = ex_Capability source,
      oreq_TargetGeneration = ex_TargetGeneration source, oreq_Handle = ex_Handle source,
      oreq_OutputMappingRef = ex_OutputMappingRef loaded,
      oreq_OutputSourceMappingRef = ex_OutputMappingRef source\<rparr>"

definition load_observation :: "OutboxMessage \<Rightarrow> (ProvisioningExecutionRecord \<times> ObservationRequest) tx" where
  "load_observation message =
     bindT (require_lease message) (\<lambda>_.
     bindT (lockObservationRecords (msg_OperationID message) (msg_ExpectedVersion message) (msg_Sequence message + 1)) (\<lambda>records.
     let loaded = obr_execution records in
     if ex_Version loaded \<noteq> msg_ExpectedVersion message \<or> ex_NextObservation loaded \<noteq> msg_Sequence message + 1
     then throwT conflict
     else returnT (loaded,
       case obr_source records of
         Some source \<Rightarrow> (if IsOutputRecovery loaded then recovery_request loaded source else observationRequest loaded)
       | None \<Rightarrow> observationRequest loaded)))"

text \<open>
  The provider's answer under the heartbeat: a lost lease discards it, a panic unwinds.
\<close>

definition observeWithHeartbeat ::
    "Worker \<Rightarrow> time \<Rightarrow> unit tx \<Rightarrow> OutboxMessage \<Rightarrow> Provider \<Rightarrow> ObservationRequest \<Rightarrow>
      Store \<Rightarrow> (work_error + ExecutionObservation) \<times> Store" where
  "observeWithHeartbeat w now meanwhile message provider request = (\<lambda>s.
     case startLeaseHeartbeat w now message s of
       (Inl e, s1) \<Rightarrow> (Inl (LeaseOwnershipLost e), s1)
     | (Inr _, s1) \<Rightarrow>
         (case meanwhile s1 of (beat, s2) \<Rightarrow>
           (case provider_observe provider message request of
              ObservePanic panic \<Rightarrow> (Inl (WorkPanic panic), s2)
            | ObserveReturn answer \<Rightarrow>
                (case beat of
                   Inl e \<Rightarrow> (Inl (LeaseOwnershipLost e), s2)
                 | Inr _ \<Rightarrow> (case answer of Inl e \<Rightarrow> (Inl (WorkFailed e), s2) | Inr observation \<Rightarrow> (Inr observation, s2))))))"

definition contradictory_observation :: "ExecutionObservation \<Rightarrow> bool" where
  "contradictory_observation observation \<longleftrightarrow>
     obs_Correlation observation = RequestCorrelationNotFound \<and>
     (case obs_Execution observation of None \<Rightarrow> False | Some x \<Rightarrow> exec_State x \<noteq> ExecutionStateFailed)"

definition observe ::
    "Worker \<Rightarrow> json_encoder \<Rightarrow> resolver \<Rightarrow> time \<Rightarrow> time \<Rightarrow> time \<Rightarrow> unit tx \<Rightarrow> OutboxMessage \<Rightarrow> handler" where
  "observe w json resolve now later clock meanwhile message = (\<lambda>s.
     case Within (load_observation message) s of
       (Inl e, s1) \<Rightarrow> (Inl (WorkFailed e), s1)
     | (Inr (loaded, request), s1) \<Rightarrow>
         (case resolve (ex_ProvisionerRef loaded) of
            None \<Rightarrow> (Inl (WorkFailed provisioner_not_found), s1)
          | Some provider \<Rightarrow>
              (case observeWithHeartbeat w now meanwhile message provider request s1 of
                 (Inl e, s2) \<Rightarrow> (Inl e, s2)
               | (Inr observation, s2) \<Rightarrow>
                   if \<not> ValidCorrelation (obs_Correlation observation)
                     then (Inl (WorkFailed (ErrMessage ''invalid request correlation'')), s2)
                   else if contradictory_observation observation
                     then (Inl (WorkFailed (ErrMessage ''contradictory observation reports NotFound with an execution'')), s2)
                   else plain_work (recordObservation w json later clock message loaded observation) s2)))"

section \<open>Passive observation\<close>

definition drifted :: "ResourceStatus \<Rightarrow> bool" where
  "drifted status = list_ex (\<lambda>c. cond_typeName c = ''Drifted'' \<and> cond_status c = ConditionStatusTrue)
     (status_conditions status)"

text \<open>The result is \<open>None\<close> where the code settles a stale message and stops.\<close>

definition load_passive :: "time \<Rightarrow> OutboxMessage \<Rightarrow> ResourceRecord option tx" where
  "load_passive now message =
     bindT (require_lease message) (\<lambda>_.
     bindT (GetResource (msg_ResourceID message)) (\<lambda>loaded.
     if rr_Version loaded \<noteq> msg_ExpectedVersion message
     then bindT (settle_work now message ''StalePassiveObservation'') (\<lambda>_. returnT None)
     else returnT (Some loaded)))"

definition passive_request :: "ResourceRecord \<Rightarrow> ObservationRequest" where
  "passive_request loaded =
     \<lparr>oreq_OperationID = '''', oreq_AttemptNumber = 0, oreq_ResourceID = resource_id (rr_Resource loaded),
      oreq_ResourceType = resource_typeRef (rr_Resource loaded), oreq_Spec = resource_spec (rr_Resource loaded),
      oreq_Capability = '''', oreq_TargetGeneration = resource_generation (rr_Resource loaded),
      oreq_Handle = None, oreq_OutputMappingRef = '''', oreq_OutputSourceMappingRef = ''''\<rparr>"

definition drift_event :: "string result \<Rightarrow> ResourceRecord \<Rightarrow> time \<Rightarrow> unit tx" where
  "drift_event token current at =
     bindT (liftT token) (\<lambda>suffix.
     bindT (liftT (NewEvent (''drift-'' @ suffix) (resource_id (rr_Resource current)) '''' (rr_Version current + 1)
              ''DriftDetected'' ''PassiveObservation''
              ''Drift was passively detected from provider drift metrics.'' at)) (\<lambda>event.
     AppendEvent event))"

definition record_passive ::
    "time \<Rightarrow> time \<Rightarrow> string result \<Rightarrow> OutboxMessage \<Rightarrow> ResourceRecord \<Rightarrow> ExecutionObservation \<Rightarrow> unit tx" where
  "record_passive now clock token message loaded observation =
     bindT (require_lease message) (\<lambda>_.
     bindT (GetResource (msg_ResourceID message)) (\<lambda>current.
     if rr_Version current \<noteq> rr_Version loaded then throwT conflict
     else
     let at = observedAt clock (obs_ObservedAt observation) in
     if at < resource_updatedAt (rr_Resource current) \<or> at < status_updatedAt (rr_Status current)
     then settle_work now message ''StaleObservation''
     else
     bindT (ActiveForResource (msg_ResourceID message)) (\<lambda>active.
     if active \<noteq> None then settle_work now message ''StaleObservation''
     else
     bindT (liftT (ApplyObservation (rr_Resource current) (rr_Status current) (obs_Resource observation) at)) (\<lambda>status.
     bindT (if \<not> drifted (rr_Status current) \<and> drifted status then drift_event token current at else returnT ()) (\<lambda>_.
     bindT (SaveResource (current\<lparr>rr_Status := status\<rparr>) (rr_Version current)) (\<lambda>_.
     bindT (settle_work now message ''PassivelyObserved'') (\<lambda>_.
     EnqueueWakeDependentsIfWaited now (msg_ResourceID message) (rr_Version current + 1))))))))"

definition passiveObserve ::
    "Worker \<Rightarrow> resolver \<Rightarrow> time \<Rightarrow> time \<Rightarrow> time \<Rightarrow> string result \<Rightarrow> unit tx \<Rightarrow> OutboxMessage \<Rightarrow> handler" where
  "passiveObserve w resolve now later clock token meanwhile message = (\<lambda>s.
     case Within (load_passive now message) s of
       (Inl e, s1) \<Rightarrow> (Inl (WorkFailed e), s1)
     | (Inr None, s1) \<Rightarrow> (Inr (), s1)
     | (Inr (Some loaded), s1) \<Rightarrow>
         (case resolve (rr_ProvisionerRef loaded) of
            None \<Rightarrow> (Inl (WorkFailed provisioner_not_found), s1)
          | Some provider \<Rightarrow>
              (case observeWithHeartbeat w now meanwhile message provider (passive_request loaded) s1 of
                 (Inl e, s2) \<Rightarrow> (Inl e, s2)
               | (Inr observation, s2) \<Rightarrow>
                   plain_work (Within (record_passive later clock token message loaded observation)) s2)))"

definition SchedulePassiveObservation :: "time \<Rightarrow> resource_id \<Rightarrow> uint64 \<Rightarrow> uint64 \<Rightarrow> unit tx" where
  "SchedulePassiveObservation now resourceID sequence expectedVersion =
     Within (Enqueue now (PassiveObserveMessage resourceID sequence expectedVersion))"

text \<open>Errors of the lookup and of the enqueue are dropped, so the transaction always commits.\<close>

definition schedule_item :: "time \<Rightarrow> resource_id \<Rightarrow> unit tx" where
  "schedule_item now rid = Within (\<lambda>s.
     case LookupResource rid s of
       (Inl _, s1) \<Rightarrow> (Inr (), s1)
     | (Inr loaded, s1) \<Rightarrow> (Inr (), snd (Enqueue now (PassiveObserveMessage rid 0 (rr_Version loaded)) s1)))"

definition passive_query :: "uint64 \<Rightarrow> ResourceListQuery" where
  "passive_query sequence =
     \<lparr>q_AllowedOwners = [], q_Unrestricted = True, q_OwnerFilter = None, q_TypeName = '''', q_TypeVersion = '''',
      q_StateFilter = None, q_IncludeDeleted = False, q_AfterSequence = sequence, q_Limit = 100\<rparr>"

fun schedule_items :: "time \<Rightarrow> ResourceInventoryItem list \<Rightarrow> Store \<Rightarrow> Store" where
  "schedule_items now [] s = s"
| "schedule_items now (item # items) s =
     schedule_items now items (if ii_State item = ResourceStateReady then snd (schedule_item now (ii_ID item) s) else s)"

text \<open>One sweep over the inventory; \<open>fuel\<close> bounds the number of pages.\<close>

fun schedulePassiveObservations :: "nat \<Rightarrow> time \<Rightarrow> uint64 \<Rightarrow> Store \<Rightarrow> Store" where
  "schedulePassiveObservations 0 now sequence s = s"
| "schedulePassiveObservations (Suc fuel) now sequence s =
     (case Within (ListResources (passive_query sequence)) s of
        (Inl _, s1) \<Rightarrow> s1
      | (Inr page, s1) \<Rightarrow>
          let s2 = schedule_items now (ip_Items page) s1 in
          if ip_NextSequence page = 0 then s2
          else schedulePassiveObservations fuel now (ip_NextSequence page) s2)"

section \<open>One cycle of the worker\<close>

datatype failureClass = failureRetryable | failureStale | failurePoison

definition classifyFailure :: "error \<Rightarrow> failureClass" where
  "classifyFailure e =
     (case e of
        ErrConcurrencyConflict _ \<Rightarrow> failureStale
      | ErrInvalidApplicationCall _ \<Rightarrow> failurePoison
      | ErrResourceNotFound _ \<Rightarrow> failurePoison
      | ErrOperationNotFound _ \<Rightarrow> failurePoison
      | ErrInvalidTransition _ \<Rightarrow> failurePoison
      | _ \<Rightarrow> failureRetryable)"

text \<open>
  The surroundings of one cycle: the two times of the store, the worker's clock, the two random
  tokens and what else happens during a provider call.
\<close>

record Cycle =
  cy_now :: time
  cy_later :: time
  cy_clock :: time
  cy_token :: "string result"
  cy_drift_token :: "string result"
  cy_meanwhile :: "OutboxMessage \<Rightarrow> unit tx"

text \<open>
  The fan-out runs with fuel for one page per wait row, which it never exhausts (\<open>wake_fuel_suffices\<close>).
\<close>

definition wake_work :: "Worker \<Rightarrow> time \<Rightarrow> OutboxMessage \<Rightarrow> unit tx" where
  "wake_work w now message = (\<lambda>s.
     bindT (wakeDependents (Suc (length (st_dependencyWaits s))) w now message) (\<lambda>_. returnT ()) s)"

definition process :: "Worker \<Rightarrow> json_encoder \<Rightarrow> resolver \<Rightarrow> Cycle \<Rightarrow> OutboxMessage \<Rightarrow> handler" where
  "process w json resolve cycle message =
     (case msg_Kind message of
        OutboxDrive \<Rightarrow> plain_work (drive w (cy_now cycle) message)
      | OutboxDispatch \<Rightarrow> dispatch w json resolve (cy_now cycle) (cy_later cycle) (cy_clock cycle)
          (cy_meanwhile cycle message) message
      | OutboxObserve \<Rightarrow> observe w json resolve (cy_now cycle) (cy_later cycle) (cy_clock cycle)
          (cy_meanwhile cycle message) message
      | OutboxPassiveObserve \<Rightarrow> passiveObserve w resolve (cy_now cycle) (cy_later cycle) (cy_clock cycle)
          (cy_drift_token cycle) (cy_meanwhile cycle message) message
      | OutboxWakeDependents \<Rightarrow> plain_work (wake_work w (cy_now cycle) message)
      | OutboxKindOther kind \<Rightarrow> plain_work (throwT (ErrMessage ''unsupported outbox kind'')))"

text \<open>What the cycle does with the claimed message when its handler failed.\<close>

definition settle_failure :: "Worker \<Rightarrow> time \<Rightarrow> OutboxMessage \<Rightarrow> work_error \<Rightarrow> Store \<Rightarrow> Store" where
  "settle_failure w now message failure s =
     (case failure of
        WorkFailed e \<Rightarrow>
          (case classifyFailure e of
             failureStale \<Rightarrow>
               snd (Within (CompleteOutbox now (msg_ID message) (msg_LeaseToken message) ''StaleWork'') s)
           | failurePoison \<Rightarrow>
               snd (Within (DeadOutbox now (msg_ID message) (msg_LeaseToken message) (err_text e)) s)
           | failureRetryable \<Rightarrow>
               snd (Within (RetryOutbox now (msg_ID message) (msg_LeaseToken message)
                      (backoff w (msg_AttemptCount message)) (err_text e)) s))
      | _ \<Rightarrow> s)"

text \<open>
  The result says whether work was found, and the error the cycle reports: one of the application
  before a handler runs, or that of the handler.
\<close>

definition expired_found :: "time \<Rightarrow> Store \<Rightarrow> bool" where
  "expired_found now s = (case FindExpiredDispatch now s of (Inr (Some _), _) \<Rightarrow> True | _ \<Rightarrow> False)"

definition runOnce ::
    "Worker \<Rightarrow> json_encoder \<Rightarrow> resolver \<Rightarrow> Cycle \<Rightarrow> Store \<Rightarrow> (bool \<times> work_error option) \<times> Store" where
  "runOnce w json resolve cycle s =
     (case recoverExpiredDispatch w (cy_now cycle) (can_redeliver resolve) s of
        (Inl e, s1) \<Rightarrow> ((expired_found (cy_now cycle) s, Some (WorkFailed e)), s1)
      | (Inr True, s1) \<Rightarrow> ((True, None), s1)
      | (Inr False, s1) \<Rightarrow>
          (case cy_token cycle of
             Inl e \<Rightarrow> ((False, Some (WorkFailed e)), s1)
           | Inr token \<Rightarrow>
               (case Within (ClaimOutbox (cy_now cycle) token (w_Lease w)) s1 of
                  (Inl e, s2) \<Rightarrow> ((False, Some (WorkFailed e)), s2)
                | (Inr None, s2) \<Rightarrow> ((False, None), s2)
                | (Inr (Some message), s2) \<Rightarrow>
                    (case process w json resolve cycle message s2 of
                       (Inr _, s3) \<Rightarrow> ((True, None), s3)
                     | (Inl failure, s3) \<Rightarrow>
                         ((True, Some failure), settle_failure w (cy_later cycle) message failure s3)))))"

section \<open>The worker keeps the invariant of the store\<close>

lemma preserves_case_plan [preserves_intros]:
  "\<lbrakk>preserves P m0; \<And>x. preserves P (f x); preserves P m1; \<And>x. preserves P (g x)\<rbrakk> \<Longrightarrow>
     preserves P (case plan of OutputPlanNone \<Rightarrow> m0 | OutputPlanPublish x \<Rightarrow> f x | OutputPlanDefer \<Rightarrow> m1
       | OutputPlanReject x \<Rightarrow> g x)"
  by (cases plan) simp_all

lemma preserves_case_outcome [preserves_intros]:
  "\<lbrakk>preserves P a; preserves P b; preserves P c; preserves P d; preserves P e; preserves P f\<rbrakk> \<Longrightarrow>
     preserves P (case outcome of ObservationOutcomeStale \<Rightarrow> a | ObservationOutcomeRejected \<Rightarrow> b
       | ObservationOutcomeRetry \<Rightarrow> c | ObservationOutcomeObserve \<Rightarrow> d | ObservationOutcomeSucceeded \<Rightarrow> e
       | ObservationOutcomeFailed \<Rightarrow> f)"
  by (cases outcome) simp_all

lemma with_finish_preserves [preserves_intros]: "(\<And>x. preserves P (f x)) \<Longrightarrow> preserves P (with_finish finish f)"
  unfolding with_finish_def by (intro preserves_intros)

lemma scheduled_enqueue_preserves:
  "scheduleObserve execution delay = (scheduled, m) \<Longrightarrow> preserves (store_at c) (Enqueue now m)"
  by (intro preserves_intros scheduleObserve_enqueueable)

lemma commit_finish_preserves [preserves_intros]:
  "\<lbrakk>preserves (store_at c) publish; preserves (store_at c) advance\<rbrakk> \<Longrightarrow>
     preserves (store_at c) (commit_finish now message resource operation result publish execution expected advance reason)"
  unfolding commit_finish_def by (intro preserves_intros)

lemma load_finish_preserves [preserves_intros]: "preserves P (load_finish oid)"
  unfolding load_finish_def by (intro preserves_intros)

lemma finishOperation_preserves [preserves_intros]:
  "preserves (store_at c) (finishOperation now message execution expected finish at)"
  unfolding finishOperation_def by (intro preserves_intros)

lemma finishSuccess_preserves [preserves_intros]:
  "preserves (store_at c) (finishSuccessInTx w json now message execution expected finish at outputs)"
  unfolding finishSuccessInTx_def defer_outputs_def reject_outputs_def complete_success_def advance_applied_def
  by (intro preserves_intros scheduled_enqueue_preserves) (auto dest: sym)

lemma dispatching_preserves [preserves_intros]: "preserves P (dispatching message version)"
  unfolding dispatching_def by (intro preserves_intros)

lemma pending_dispatch_preserves [preserves_intros]: "preserves P (pending_dispatch message)"
  unfolding pending_dispatch_def by (intro preserves_intros)

lemma recordDispatch_preserves [preserves_intros]:
  "preserves (store_at c) (recordDispatch w json now clock message version submission submitErr)"
  unfolding recordDispatch_def settle_submission_def
  by (intro preserves_intros scheduled_enqueue_preserves) (auto dest: sym)

lemma markDispatchUnknown_preserves [preserves_intros]:
  "preserves (store_at c) (markDispatchUnknown w now message version cause)"
  unfolding markDispatchUnknown_def by (intro preserves_intros scheduled_enqueue_preserves) (auto dest: sym)

lemma retryNotAttempted_preserves [preserves_intros]:
  "preserves (store_at c) (retryNotAttemptedDispatch w now message version failure)"
  unfolding retryNotAttemptedDispatch_def by (intro preserves_intros)

lemma prepareDispatch_preserves [preserves_intros]: "preserves (store_at c) (prepareDispatch w resolve now message)"
  unfolding prepareDispatch_def load_dispatch_def claim_attempt_def by (intro preserves_intros)

lemma lockObservationRecords_preserves [preserves_intros]: "preserves P (lockObservationRecords oid v n)"
  unfolding lockObservationRecords_def recovery_read_def by (intro preserves_intros)

lemma observe_again_preserves [preserves_intros]:
  "preserves (store_at c) (observe_again w now message execution reason)"
  unfolding observe_again_def by (intro preserves_intros scheduled_enqueue_preserves) (auto dest: sym)

lemma observe_pending_outputs_preserves [preserves_intros]:
  "preserves (store_at c) (observe_pending_outputs w json now clock message execution operation observation)"
  unfolding observe_pending_outputs_def observe_recovery_def by (intro preserves_intros)

lemma observe_running_preserves [preserves_intros]:
  "preserves (store_at c) (observe_running w json now clock message execution observation)"
  unfolding observe_running_def settle_observation_def retry_submission_def
  by (intro preserves_intros) (simp add: enqueueable_messages)

lemma recordObservation_preserves [preserves_intros]:
  "preserves (store_at c) (recordObservation w json now clock message loaded observation)"
  unfolding recordObservation_def by (intro preserves_intros)

lemma passive_preserves [preserves_intros]:
  "preserves (store_at c) (load_passive now message)"
  "preserves (store_at c) (record_passive now clock token message loaded observation)"
  unfolding load_passive_def record_passive_def drift_event_def by (intro preserves_intros)+

text \<open>Handlers run several transactions; each keeps the invariant, and so does their sequence.\<close>

lemma plain_work_preserves: "preserves P m \<Longrightarrow> preserves P (plain_work m)"
  unfolding preserves_def plain_work_def by (auto split: prod.split sum.split)

lemma record_or_mark_preserves:
  "preserves (store_since past) (record_or_mark w json later clock message version submission submitErr)"
proof -
  have rec: "preserves (store_since past) (recordDispatch w json later clock message version submission submitErr)"
    and mark: "preserves (store_since past) (markDispatchUnknown w later message version e)" for e
    by (rule preserves_sinceI, intro preserves_intros)+
  show ?thesis
    unfolding record_or_mark_def preserves_def
    using rec mark by (auto simp: preserves_def split: prod.split sum.split) (metis snd_conv)+
qed

lemma settle_dispatch_preserves:
  "preserves (store_since past) (settle_dispatch w json later clock message version submission submitErr)"
proof -
  have retry: "preserves (store_since past) (retryNotAttemptedDispatch w later message version f)" for f
    by (rule preserves_sinceI, intro preserves_intros)
  show ?thesis
    unfolding settle_dispatch_def preserves_def
    using retry record_or_mark_preserves [of past w json later clock message version]
    by (auto simp: preserves_def split: prod.split sum.split option.split) (metis snd_conv)+
qed

lemma startLeaseHeartbeat_preserves: "preserves (store_at c) (startLeaseHeartbeat w now message)"
  unfolding startLeaseHeartbeat_def by (intro preserves_intros)

lemma dispatch_preserves:
  assumes "preserves (store_since past) meanwhile"
  shows "preserves (store_since past) (dispatch w json resolve now later clock meanwhile message)"
  unfolding preserves_def
proof (intro allI impI)
  fix s assume inv: "store_since past s"
  obtain r1 s1 where p: "prepareDispatch w resolve now message s = (r1, s1)" by fastforce
  obtain r2 s2 where h: "startLeaseHeartbeat w now message s1 = (r2, s2)" by fastforce
  obtain r3 s3 where m: "meanwhile s2 = (r3, s3)" by fastforce
  have i1: "store_since past s1" by (rule preserves_since [OF prepareDispatch_preserves inv p])
  have i2: "store_since past s2" by (rule preserves_since [OF startLeaseHeartbeat_preserves i1 h])
  have i3: "store_since past s3" by (rule preservesD [OF assms i2 m])
  have "store_since past (snd (settle_dispatch w json later clock message v sub err s3))" for v sub err
    using settle_dispatch_preserves i3 by (simp add: preserves_def)
  then show "store_since past (snd (dispatch w json resolve now later clock meanwhile message s))"
    using i1 i2 i3 by (auto simp: dispatch_def p h m split: sum.split submit_answer.split)
qed

lemma observeWithHeartbeat_preserves:
  assumes "preserves (store_since past) meanwhile"
  shows "preserves (store_since past) (observeWithHeartbeat w now meanwhile message provider request)"
  unfolding preserves_def
proof (intro allI impI)
  fix s assume inv: "store_since past s"
  obtain r2 s2 where h: "startLeaseHeartbeat w now message s = (r2, s2)" by fastforce
  obtain r3 s3 where m: "meanwhile s2 = (r3, s3)" by fastforce
  have i2: "store_since past s2" by (rule preserves_since [OF startLeaseHeartbeat_preserves inv h])
  have i3: "store_since past s3" by (rule preservesD [OF assms i2 m])
  show "store_since past (snd (observeWithHeartbeat w now meanwhile message provider request s))"
    using i2 i3 by (auto simp: observeWithHeartbeat_def h m split: sum.split observe_answer.split)
qed

lemma observe_preserves:
  assumes "preserves (store_since past) meanwhile"
  shows "preserves (store_since past) (observe w json resolve now later clock meanwhile message)"
  unfolding preserves_def
proof (intro allI impI)
  fix s assume inv: "store_since past s"
  obtain r1 s1 where l: "Within (load_observation message) s = (r1, s1)" by fastforce
  have "preserves (store_since past) (Within (load_observation message))"
    unfolding load_observation_def by (intro preserves_sinceI preserves_intros)
  then have i1: "store_since past s1" using inv l by (rule preservesD)
  have hb: "store_since past s2" if "observeWithHeartbeat w now meanwhile message p req s1 = (r2, s2)" for p req r2 s2
    by (rule preservesD [OF observeWithHeartbeat_preserves [OF assms] i1 that])
  have rec: "store_since past (snd (plain_work (recordObservation w json later clock message loaded ob) s2))"
    if "store_since past s2" for loaded ob s2
    using plain_work_preserves [OF preserves_sinceI [OF recordObservation_preserves]] that
    by (simp add: preserves_def)
  show "store_since past (snd (observe w json resolve now later clock meanwhile message s))"
  proof (cases r1)
    case (Inr lr)
    obtain loaded req where lr: "lr = (loaded, req)" by fastforce
    show ?thesis
    proof (cases "resolve (ex_ProvisionerRef loaded)")
      case None
      then show ?thesis using i1 by (simp add: observe_def l Inr lr)
    next
      case (Some p)
      obtain r2 s2 where o1: "observeWithHeartbeat w now meanwhile message p req s1 = (r2, s2)" by fastforce
      show ?thesis
        using hb [OF o1] rec [OF hb [OF o1]] by (cases r2) (simp_all add: observe_def l Inr lr Some o1)
    qed
  qed (use i1 in \<open>simp add: observe_def l\<close>)
qed

lemma passiveObserve_preserves:
  assumes "preserves (store_since past) meanwhile"
  shows "preserves (store_since past) (passiveObserve w resolve now later clock token meanwhile message)"
  unfolding preserves_def
proof (intro allI impI)
  fix s assume inv: "store_since past s"
  obtain r1 s1 where l: "Within (load_passive now message) s = (r1, s1)" by fastforce
  have "preserves (store_since past) (Within (load_passive now message))" by (intro preserves_sinceI preserves_intros)
  then have i1: "store_since past s1" using inv l by (rule preservesD)
  have hb: "store_since past s2" if "observeWithHeartbeat w now meanwhile message p req s1 = (r2, s2)" for p req r2 s2
    by (rule preservesD [OF observeWithHeartbeat_preserves [OF assms] i1 that])
  have rec: "store_since past (snd (plain_work (Within (record_passive later clock token message loaded ob)) s2))"
    if "store_since past s2" for loaded ob s2
    using plain_work_preserves [OF preserves_sinceI [OF Within_preserves [OF passive_preserves(2)]]] that
    by (simp add: preserves_def)
  show "store_since past (snd (passiveObserve w resolve now later clock token meanwhile message s))"
  proof (cases "\<exists>loaded p. r1 = Inr (Some loaded) \<and> resolve (rr_ProvisionerRef loaded) = Some p")
    case True
    then obtain loaded p where Some: "r1 = Inr (Some loaded)" "resolve (rr_ProvisionerRef loaded) = Some p" by blast
    obtain r2 s2 where o1: "observeWithHeartbeat w now meanwhile message p (passive_request loaded) s1 = (r2, s2)"
      by fastforce
    show ?thesis
      using hb [OF o1] rec by (cases r2) (simp_all add: passiveObserve_def l Some o1)
  qed (use i1 in \<open>auto simp: passiveObserve_def l split: sum.split option.split\<close>)
qed

lemma wake_work_preserves: "preserves (store_since past) (wake_work w now message)"
proof -
  have "preserves (store_since past) (bindT (wakeDependents n w now message) (\<lambda>_. returnT ()))" for n
    by (intro preserves_sinceI preserves_intros)
  then show ?thesis by (simp add: preserves_def wake_work_def)
qed

lemma process_preserves:
  assumes "preserves (store_since past) (cy_meanwhile cycle message)"
  shows "preserves (store_since past) (process w json resolve cycle message)"
proof -
  have "preserves (store_since past) (drive w (cy_now cycle) message)" by (intro preserves_sinceI preserves_intros)
  then show ?thesis
    using assms by (auto simp: process_def intro: plain_work_preserves dispatch_preserves observe_preserves
        passiveObserve_preserves wake_work_preserves preserves_pure split: OutboxKind.split)
qed

lemma settle_failure_inv: "store_since past s \<Longrightarrow> store_since past (settle_failure w now message failure s)"
proof -
  assume inv: "store_since past s"
  have "store_since past (snd (Within (CompleteOutbox now i t r) s))" "store_since past (snd (Within (DeadOutbox now i t r) s))"
    "store_since past (snd (Within (RetryOutbox now i t d r) s))" for i t r d
    using inv preserves_sinceI [OF Within_preserves [OF lease_methods_preserve(4)]]
      preserves_sinceI [OF Within_preserves [OF lease_methods_preserve(9)]]
      preserves_sinceI [OF Within_preserves [OF lease_methods_preserve(6)]]
    by (simp_all add: preserves_def)
  then show ?thesis using inv by (simp add: settle_failure_def split: work_error.split failureClass.split)
qed

end
