(* ===== verification/Worker_Safety.thy ===== *)
theory Worker_Safety
  imports Worker_Execution
begin

text \<open>
  What any number of concurrent workers guarantee together. Every transaction of a worker is one step;
  the steps of different workers interleave freely, a worker that stops simply takes no further step,
  and transactions of other components appear as steps that leave the submission attempts alone. The last
  section shows that terminal evidence, aligned as the worker does it, finishes its Operation.
\<close>

section \<open>Steps of the workers\<close>

datatype label = Silent | Submitted string | NotAttempted string | Redelivered string

text \<open>
  \<open>Submitted\<close> marks the commit after which, and only after which, the worker calls the provider for
  that attempt. The two labels that hand an attempt back to be submitted again are the provider's word
  that nothing was attempted and the expiry of a lease at a provider that can redeliver safely.
\<close>

definition message_key :: "OutboxMessage \<Rightarrow> string" where
  "message_key message = attemptKey (msg_OperationID message) (msg_AttemptNumber message)"

inductive worker_step :: "label \<Rightarrow> Store \<Rightarrow> Store \<Rightarrow> bool" where
  drive: "worker_step Silent s (snd (drive w now message s))"
| prepared: "prepareDispatch w resolve now message s = (Inr (provider, prepared), s') \<Longrightarrow>
    worker_step (Submitted (message_key message)) s s'"
| refused: "prepareDispatch w resolve now message s = (Inl e, s') \<Longrightarrow> worker_step Silent s s'"
| recorded: "worker_step Silent s (snd (recordDispatch w json now clock message version submission submitErr s))"
| unknown: "worker_step Silent s (snd (markDispatchUnknown w now message version cause s))"
| not_attempted: "retryNotAttemptedDispatch w now message version failure s = (Inr (), s') \<Longrightarrow>
    worker_step (NotAttempted (message_key message)) s s'"
| observed: "worker_step Silent s (snd (recordObservation w json now clock message loaded observation s))"
| redelivered: "\<lbrakk>FindExpiredDispatch now s = (Inr (Some message), s);
      map_of (st_executions s) (msg_OperationID message) = Some execution; redeliverable (ex_ProvisionerRef execution)\<rbrakk> \<Longrightarrow>
    worker_step (Redelivered (message_key message)) s (snd (recoverExpiredDispatch w now redeliverable s))"
| expired: "\<lbrakk>FindExpiredDispatch now s = (Inr (Some message), s);
      map_of (st_executions s) (msg_OperationID message) = Some execution; \<not> redeliverable (ex_ProvisionerRef execution)\<rbrakk> \<Longrightarrow>
    worker_step Silent s (snd (recoverExpiredDispatch w now redeliverable s))"
| other: "st_attempts s' = st_attempts s \<Longrightarrow> worker_step Silent s s'"

inductive worker_run :: "label list \<Rightarrow> Store \<Rightarrow> Store \<Rightarrow> bool" where
  start: "worker_run [] s s"
| step: "\<lbrakk>worker_run tr s s1; worker_step l s1 s2\<rbrakk> \<Longrightarrow> worker_run (tr @ [l]) s s2"

section \<open>How an attempt moves\<close>

definition attempt_state :: "Store \<Rightarrow> string \<Rightarrow> SubmissionAttemptState option" where
  "attempt_state s k = map_option att_State (map_of (st_attempts s) k)"

definition attempts_keyed :: "Store \<Rightarrow> bool" where
  "attempts_keyed s \<longleftrightarrow>
     (\<forall>k a. map_of (st_attempts s) k = Some a \<longrightarrow> attemptKey (att_OperationID a) (att_AttemptNumber a) = k)"

text \<open>An attempt is open while it may still be submitted: it does not exist yet, or it is pending.\<close>

definition attempt_open :: "Store \<Rightarrow> string \<Rightarrow> nat" where
  "attempt_open s k = (if attempt_state s k \<in> {None, Some SubmissionAttemptPending} then 1 else 0)"

definition attempts_bounded :: "(string \<Rightarrow> nat) \<Rightarrow> Store \<Rightarrow> bool" where
  "attempts_bounded f s \<longleftrightarrow> attempts_keyed s \<and> (\<forall>k. attempt_open s k \<le> f k)"

named_theorems closing \<open>transactions that open no attempt\<close>

lemma attempts_unchanged_closing:
  assumes "\<And>s. st_attempts (snd (m s)) = st_attempts s"
  shows "preserves (attempts_bounded f) m"
  using assms by (simp add: preserves_def attempts_bounded_def attempts_keyed_def attempt_open_def attempt_state_def)

lemma outbox_only_attempts: "(\<And>s. \<exists>t. snd (m s) = s\<lparr>st_outbox := t\<rparr>) \<Longrightarrow> st_attempts (snd (m s)) = st_attempts s"
  by (metis Store.select_convs(9) Store.surjective Store.update_convs(10))

lemma methods_closing [closing]:
  "preserves (attempts_bounded f) (SaveResource r v)" "preserves (attempts_bounded f) (SaveOperation o1 v)"
  "preserves (attempts_bounded f) (SaveExecution e v)" "preserves (attempts_bounded f) (AppendEvent ev)"
  "preserves (attempts_bounded f) (DeleteDependencyWaitsForOperation oid)"
  "preserves (attempts_bounded f) (RegisterDependencyWaits oid v ts)"
  "preserves (attempts_bounded f) (SaveResourceOutputs o2)" "preserves (attempts_bounded f) (DeleteReferencesForSource rid)"
  "preserves (attempts_bounded f) (AdvanceAppliedReferences rid g es)"
proof -
  have "st_attempts (fold (register_wait oid v) ts s) = st_attempts s" for s
    by (induction ts arbitrary: s) (simp_all add: register_wait_def Let_def)
  then show "preserves (attempts_bounded f) (RegisterDependencyWaits oid v ts)"
    by (intro attempts_unchanged_closing) (simp add: RegisterDependencyWaits_def)
qed (intro attempts_unchanged_closing, simp add: frames SaveExecution_def AppendEvent_def
    DeleteDependencyWaitsForOperation_def SaveResourceOutputs_def DeleteReferencesForSource_def
    AdvanceAppliedReferences_def Let_def split: option.split)+

lemma outbox_closing [closing]:
  "preserves (attempts_bounded f) (Enqueue now m)" "preserves (attempts_bounded f) (EnqueueWakeDependents now m)"
  "preserves (attempts_bounded f) (CompleteOutbox now mid token reason)"
  "preserves (attempts_bounded f) (CompleteExpiredOutbox now mid token reason)"
  "preserves (attempts_bounded f) (RequeueExpiredOutbox now mid token)"
  "preserves (attempts_bounded f) (RenewOutbox now mid token lease)"
  unfolding CompleteOutbox_def CompleteExpiredOutbox_def RequeueExpiredOutbox_def RenewOutbox_def
  by (intro attempts_unchanged_closing outbox_only_attempts only_outbox)+

lemma settle_work_closing [closing]: "preserves (attempts_bounded f) (settle_work now message reason)"
  unfolding settle_work_def by (rule closing)

lemma wake_closing [closing]: "preserves (attempts_bounded f) (EnqueueWakeDependentsIfWaited now rid v)"
  unfolding EnqueueWakeDependentsIfWaited_def by (intro preserves_intros closing)

lemma side_effects_closing [closing]: "preserves (attempts_bounded f) (applyTerminalSideEffects now op rid v)"
  unfolding applyTerminalSideEffects_def by (intro preserves_intros closing)

lemma create_closing [closing]: "preserves (attempts_bounded f) (CreateSubmissionAttempt a)"
  by (auto simp: preserves_def attempts_bounded_def attempts_keyed_def attempt_open_def attempt_state_def
      CreateSubmissionAttempt_def Let_def split: if_splits)

lemma save_closing [closing]:
  "att_State a \<noteq> SubmissionAttemptPending \<Longrightarrow> preserves (attempts_bounded f) (SaveSubmissionAttempt a st)"
  by (auto simp: preserves_def attempts_bounded_def attempts_keyed_def attempt_open_def attempt_state_def
      SaveSubmissionAttempt_def Let_def split: option.split if_splits)

lemma Within_attempts:
  "st_attempts (snd (Within m s)) = (case fst (m s) of Inl _ \<Rightarrow> st_attempts s | Inr _ \<Rightarrow> st_attempts (snd (m s)))"
  by (simp add: Within_def split: prod.split sum.split)

lemma attempts_bounded_cong: "st_attempts s' = st_attempts s \<Longrightarrow> attempts_bounded f s' = attempts_bounded f s"
  by (simp add: attempts_bounded_def attempts_keyed_def attempt_open_def attempt_state_def)

lemma Within_closing [closing]:
  assumes "preserves (attempts_bounded f) m"
  shows "preserves (attempts_bounded f) (Within m)"
  unfolding preserves_def
proof (intro allI impI)
  fix s assume b: "attempts_bounded f s"
  then have "attempts_bounded f (snd (m s))" using assms by (simp add: preserves_def)
  with b show "attempts_bounded f (snd (Within m s))"
    using attempts_bounded_cong [of "snd (Within m s)" s f] attempts_bounded_cong [of "snd (Within m s)" "snd (m s)" f]
    by (cases "fst (m s)") (simp_all add: Within_attempts)
qed

lemma lift_closing [closing]:
  "(\<And>x. r = Inr x \<Longrightarrow> preserves P (f x)) \<Longrightarrow> preserves P (bindT (liftT r) f)"
  by (cases r) (auto simp: preserves_def bindT_def liftT_def)

lemma submission_attempt_state:
  "InterpretSubmission e a s err t = Inr (e', a', out, f) \<Longrightarrow>
     att_State a' \<in> {SubmissionAttemptUnknown, SubmissionAttemptRejected, SubmissionAttemptAccepted}"
  by (auto simp: interpret_submission_defs split: if_splits option.splits)

lemma observation_attempt_state:
  "\<lbrakk>InterpretObservation e a ob t = Inr (e', a', out, f); out \<in> {ObservationOutcomeRejected, ObservationOutcomeRetry}\<rbrakk> \<Longrightarrow>
     att_State a' \<in> {SubmissionAttemptRejected, SubmissionAttemptNotFound}"
  by (auto simp: InterpretObservation_def decide_observation_def resolve_observation_def Let_def
      split: if_splits option.splits)

lemma drive_closing [closing]: "preserves (attempts_bounded f) (drive w now message)"
  unfolding drive_def drive_tx_def drive_phase_def advance_operation_def hand_over_def settleGateBlock_def
    settle_waiting_def settle_failed_gate_def
  by (intro preserves_intros closing)

lemma commit_finish_closing [closing]:
  "\<lbrakk>preserves (attempts_bounded f) publish; preserves (attempts_bounded f) advance\<rbrakk> \<Longrightarrow>
     preserves (attempts_bounded f) (commit_finish now message resource operation result publish execution expected advance reason)"
  unfolding commit_finish_def by (intro preserves_intros closing)

lemma finishOperation_closing [closing]:
  "preserves (attempts_bounded f) (finishOperation now message execution expected finish at)"
  unfolding finishOperation_def by (intro preserves_intros closing)

lemma finishSuccess_closing [closing]:
  "preserves (attempts_bounded f) (finishSuccessInTx w json now message execution expected finish at outputs)"
  unfolding finishSuccessInTx_def defer_outputs_def reject_outputs_def complete_success_def advance_applied_def
  by (intro preserves_intros closing)

lemma recordDispatch_closing [closing]:
  "preserves (attempts_bounded f) (recordDispatch w json now clock message version submission submitErr)"
  unfolding recordDispatch_def settle_submission_def
  by (intro Within_closing preserves_bindT lift_closing preserves_intros closing)
    (auto dest!: submission_attempt_state)

lemma markDispatchUnknown_closing [closing]:
  "preserves (attempts_bounded f) (markDispatchUnknown w now message version cause)"
  unfolding markDispatchUnknown_def by (intro preserves_intros closing) simp

lemma observe_again_closing [closing]:
  "preserves (attempts_bounded f) (observe_again w now message execution reason)"
  unfolding observe_again_def by (intro preserves_intros closing)

lemma settle_observation_closing:
  assumes "InterpretObservation e a ob t = Inr (execution, attempt, outcome, finish)"
  shows "preserves (attempts_bounded f) (settle_observation w json now message observation at execution attempt outcome finish)"
  using observation_attempt_state [OF assms] unfolding settle_observation_def retry_submission_def
  by (cases outcome) (simp_all, (intro preserves_intros closing; auto)+)

lemma recordObservation_closing [closing]:
  "preserves (attempts_bounded f) (recordObservation w json now clock message loaded observation)"
proof -
  have "preserves (attempts_bounded f) (observe_running w json now clock message execution observation)" for execution
    unfolding observe_running_def
    by (intro preserves_bindT readers_preserve preserves_let lift_closing preserves_case_prod)
      (auto intro: settle_observation_closing)
  then show ?thesis
    unfolding recordObservation_def observe_pending_outputs_def observe_recovery_def
    by (intro preserves_intros closing)
qed

section \<open>The steps that move an attempt\<close>

lemma require_lease_snd [simp]: "snd (require_lease message s) = s"
  by (simp add: require_lease_def bindT_def GetOutbox_def split: option.split)

text \<open>The bound \<open>attempt_open s' k + submitted \<le> attempt_open s k + handed back\<close> of one step.\<close>

definition submitted :: "string \<Rightarrow> label \<Rightarrow> nat" where
  "submitted k l = (if l = Submitted k then 1 else 0)"

definition handed_back :: "string \<Rightarrow> label \<Rightarrow> nat" where
  "handed_back k l = (if l = NotAttempted k \<or> l = Redelivered k then 1 else 0)"

definition step_bound :: "label \<Rightarrow> Store \<Rightarrow> Store \<Rightarrow> bool" where
  "step_bound l s s' \<longleftrightarrow> attempts_keyed s' \<and>
     (\<forall>k. attempt_open s' k + submitted k l \<le> attempt_open s k + handed_back k l)"

lemma closing_step_bound:
  assumes "\<And>f. preserves (attempts_bounded f) m" "attempts_keyed s"
  shows "step_bound Silent s (snd (m s))"
proof -
  have "attempts_bounded (attempt_open s) s" using assms(2) by (simp add: attempts_bounded_def)
  then have "attempts_bounded (attempt_open s) (snd (m s))" using assms(1) by (simp add: preserves_def)
  then show ?thesis by (simp add: step_bound_def attempts_bounded_def submitted_def handed_back_def)
qed

lemma put_step_bound:
  assumes "attempts_keyed s" "map_of (st_attempts s) k = Some a" "st_attempts s' = put k a' (st_attempts s)"
    "attemptKey (att_OperationID a') (att_AttemptNumber a') = k"
    "(l = Submitted k \<and> att_State a = SubmissionAttemptPending \<and> att_State a' = SubmissionAttemptLeased) \<or>
     (l = NotAttempted k \<or> l = Redelivered k)"
  shows "step_bound l s s'"
  using assms by (auto simp: step_bound_def attempts_keyed_def attempt_open_def attempt_state_def submitted_def handed_back_def)

lemma require_lease_Inr: "require_lease message s = (Inr u, s') \<longleftrightarrow> s' = s \<and> (\<exists>m. map_of (st_outbox s) (msg_ID message) = Some m \<and>
    msg_State m = OutboxLeased \<and> msg_LeaseToken m = msg_LeaseToken message)"
  by (auto simp: require_lease_def GetOutbox_def bindT_def split: option.splits)

lemma Within_Inr: "Within m s = (Inr x, s') \<longleftrightarrow> m s = (Inr x, s')"
  by (auto simp: Within_def split: prod.splits sum.splits)

lemma readers_Inr:
  "GetExecution oid s = (Inr e, s') \<longleftrightarrow> s' = s \<and> map_of (st_executions s) oid = Some e"
  "GetSubmissionAttempt oid n s = (Inr a, s') \<longleftrightarrow> s' = s \<and> map_of (st_attempts s) (attemptKey oid n) = Some a"
  "GetOperation oid s = (Inr o1, s') \<longleftrightarrow> s' = s \<and> map_of (st_operations s) oid = Some o1"
  "GetResource rid s = (Inr r, s') \<longleftrightarrow> s' = s \<and> map_of (st_resources s) rid = Some r"
  by (auto simp: GetExecution_def GetSubmissionAttempt_def GetOperation_def GetResource_def split: option.splits)

lemma save_attempt_Inr:
  "SaveSubmissionAttempt a expected s = (Inr u, s') \<longleftrightarrow>
     (\<exists>cur. map_of (st_attempts s) (attemptKey (att_OperationID a) (att_AttemptNumber a)) = Some cur \<and>
        att_State cur = expected \<and>
        \<not> list_ex (\<lambda>child. ex_RecoverySourceOperationID child = att_OperationID a \<and>
             ex_RecoverySourceAttempt child = att_AttemptNumber a) (map snd (st_executions s)) \<and>
        s' = s\<lparr>st_attempts := put (attemptKey (att_OperationID a) (att_AttemptNumber a)) a (st_attempts s)\<rparr>)"
  by (auto simp: SaveSubmissionAttempt_def Let_def split: option.splits if_splits)

lemma update_work_attempts: "update_work mid guard change s = (r, s') \<Longrightarrow> st_attempts s' = st_attempts s"
  by (auto simp: update_work_def split: option.splits if_splits)

lemma outbox_result_attempts:
  "RenewOutbox now mid token lease s = (r, s') \<Longrightarrow> st_attempts s' = st_attempts s"
  "RetryDispatchOutbox now mid token v delay err s = (r, s') \<Longrightarrow> st_attempts s' = st_attempts s"
  "RetryExpiredDispatchOutbox now mid token v delay err s = (r, s') \<Longrightarrow> st_attempts s' = st_attempts s"
  unfolding RenewOutbox_def RetryDispatchOutbox_def RetryExpiredDispatchOutbox_def
  by (rule update_work_attempts, assumption)+

lemma save_execution_attempts: "SaveExecution e v s = (r, s') \<Longrightarrow> st_attempts s' = st_attempts s"
  by (auto simp: SaveExecution_def split: option.splits if_splits)

lemma pending_dispatch_Inr:
  "pending_dispatch message s = (Inr execution, s') \<Longrightarrow>
     s' = s \<and> map_of (st_executions s) (msg_OperationID message) = Some execution \<and>
     ex_CurrentAttempt execution = msg_AttemptNumber message \<and> ex_State execution = AttemptPending"
  by (auto simp: pending_dispatch_def bindT_eq_Inr require_lease_Inr readers_Inr split: if_splits)

lemma claim_attempt_effect:
  assumes "claim_attempt w now message ref s = (Inr prepared, s')" "attempts_keyed s"
  obtains attempt where "map_of (st_attempts s) (message_key message) = Some attempt"
    "att_State attempt = SubmissionAttemptPending"
    "st_attempts s' = put (message_key message) (attempt\<lparr>att_State := SubmissionAttemptLeased\<rparr>) (st_attempts s)"
    "attemptKey (att_OperationID attempt) (att_AttemptNumber attempt) = message_key message"
proof -
  obtain execution s0 where p: "pending_dispatch message s = (Inr execution, s0)"
    using assms(1) unfolding claim_attempt_def bindT_eq_Inr [of "pending_dispatch message"] by blast
  then have s0: "s0 = s" using pending_dispatch_Inr by blast
  have "\<exists>attempt. map_of (st_attempts s) (message_key message) = Some attempt"
    using assms(1) p s0
    by (auto simp: claim_attempt_def bindT_def GetSubmissionAttempt_def message_key_def split: option.splits)
  then obtain attempt where a: "map_of (st_attempts s) (message_key message) = Some attempt" by blast
  have g: "GetSubmissionAttempt (msg_OperationID message) (msg_AttemptNumber message) s = (Inr attempt, s)"
    using a by (simp add: readers_Inr message_key_def)
  have p: "pending_dispatch message s = (Inr execution, s)" using p s0 by simp
  note run = assms(1) [unfolded claim_attempt_def Let_def
      bindT_Inr [where m = "pending_dispatch message" and s = s, OF p]
      bindT_Inr [where m = "GetSubmissionAttempt (msg_OperationID message) (msg_AttemptNumber message)" and s = s, OF g]]
  then have st: "att_State attempt = SubmissionAttemptPending" by (auto split: if_splits)
  obtain s1 s2 e3 where
    renew: "RenewOutbox now (msg_ID message) (msg_LeaseToken message) (w_Lease w) s = (Inr (), s1)"
    and save: "SaveSubmissionAttempt (attempt\<lparr>att_State := SubmissionAttemptLeased\<rparr>) SubmissionAttemptPending s1 = (Inr (), s2)"
    and ex: "SaveExecution e3 (ex_Version execution) s2 = (Inr (), s')"
    using run by (auto simp: bindT_eq_Inr split: if_splits)
  have key: "attemptKey (att_OperationID attempt) (att_AttemptNumber attempt) = message_key message"
    using assms(2) a by (simp add: attempts_keyed_def)
  have "st_attempts s' = put (message_key message) (attempt\<lparr>att_State := SubmissionAttemptLeased\<rparr>) (st_attempts s)"
    using save outbox_result_attempts(1) [OF renew] save_execution_attempts [OF ex] key
    by (auto simp: save_attempt_Inr)
  then show thesis using that a st key by blast
qed

lemma prepared_step_bound:
  assumes "prepareDispatch w resolve now message s = (Inr (provider, prepared), s')" "attempts_keyed s"
  shows "step_bound (Submitted (message_key message)) s s'"
proof -
  obtain ref where "claim_attempt w now message ref s = (Inr prepared, s')"
    using assms(1) unfolding prepareDispatch_def load_dispatch_def
    by (auto simp: bindT_eq_Inr Within_Inr dest!: pending_dispatch_Inr split: option.splits if_splits)
  from claim_attempt_effect [OF this assms(2)] obtain attempt where a:
    "map_of (st_attempts s) (message_key message) = Some attempt" "att_State attempt = SubmissionAttemptPending"
    "st_attempts s' = put (message_key message) (attempt\<lparr>att_State := SubmissionAttemptLeased\<rparr>) (st_attempts s)"
    "attemptKey (att_OperationID attempt) (att_AttemptNumber attempt) = message_key message" .
  show ?thesis by (rule put_step_bound [OF assms(2) a(1,3)]) (use a in simp_all)
qed

lemma dispatching_Inr:
  "dispatching message version s = (Inr (execution, attempt), s') \<Longrightarrow>
     s' = s \<and> map_of (st_attempts s) (message_key message) = Some attempt \<and> att_State attempt = SubmissionAttemptLeased"
  by (auto simp: dispatching_def message_key_def bindT_eq_Inr require_lease_Inr readers_Inr split: if_splits)

lemma not_attempted_step_bound:
  assumes "retryNotAttemptedDispatch w now message version failure s = (Inr (), s')" "attempts_keyed s"
  shows "step_bound (NotAttempted (message_key message)) s s'"
proof -
  obtain execution attempt a' s1 s2 r2 where
    a: "map_of (st_attempts s) (message_key message) = Some attempt"
    and a': "a' = attempt\<lparr>att_State := SubmissionAttemptPending, att_ClaimedAt := 0, att_ResolvedAt := 0, att_Failure := None\<rparr>"
    and save: "SaveSubmissionAttempt a' SubmissionAttemptLeased s = (Inr (), s1)"
    and ex: "SaveExecution (execution\<lparr>ex_State := AttemptPending\<rparr>) version s1 = (Inr (), s2)"
    and retry: "RetryDispatchOutbox now (msg_ID message) (msg_LeaseToken message) (version + 1)
        (backoff w (msg_AttemptCount message)) (SubmissionNotAttempted_Error failure) s2 = (r2, s')"
    using assms(1) unfolding retryNotAttemptedDispatch_def Within_Inr
    by (auto simp: bindT_eq_Inr dest!: dispatching_Inr split: if_splits)
  have key: "attemptKey (att_OperationID a') (att_AttemptNumber a') = message_key message"
    using assms(2) a by (simp add: a' attempts_keyed_def)
  have "st_attempts s' = put (message_key message) a' (st_attempts s)"
    using save save_execution_attempts [OF ex] outbox_result_attempts(2) [OF retry] key by (auto simp: save_attempt_Inr)
  then show ?thesis by (rule put_step_bound [OF assms(2) a _ key]) simp
qed

lemma recover_attempt_closing: "preserves (attempts_bounded f) (recover_attempt w now False message execution attempt)"
  unfolding recover_attempt_def by (simp, intro preserves_intros closing) simp

lemma recover_cong:
  assumes "FindExpiredDispatch now s = (Inr (Some message), s)"
    "map_of (st_executions s) (msg_OperationID message) = Some execution"
  shows "recover_expired_tx w now redeliverable s =
    recover_expired_tx w now (\<lambda>_. redeliverable (ex_ProvisionerRef execution)) s"
  using assms by (simp add: recover_expired_tx_def GetExecution_def bindT_def)

lemma expired_closing: "preserves (attempts_bounded f) (recoverExpiredDispatch w now (\<lambda>_. False))"
  unfolding recoverExpiredDispatch_def recover_expired_tx_def
  by (intro preserves_intros closing recover_attempt_closing)

lemma unchanged_step_bound:
  "\<lbrakk>st_attempts s' = st_attempts s; attempts_keyed s; \<And>k. l \<noteq> Submitted k\<rbrakk> \<Longrightarrow> step_bound l s s'"
  by (simp add: step_bound_def attempts_keyed_def attempt_open_def attempt_state_def submitted_def)

lemma redelivery_step_bound:
  assumes found: "FindExpiredDispatch now s = (Inr (Some message), s)"
    and ex: "map_of (st_executions s) (msg_OperationID message) = Some execution" and keyed: "attempts_keyed s"
  shows "step_bound (Redelivered (message_key message)) s (snd (recoverExpiredDispatch w now (\<lambda>_. True) s))"
proof (cases "fst (recover_expired_tx w now (\<lambda>_. True) s)")
  case (Inl e)
  then show ?thesis
    using keyed by (intro unchanged_step_bound) (simp_all add: recoverExpiredDispatch_def Within_attempts)
next
  case (Inr b)
  then obtain s' where run: "recover_expired_tx w now (\<lambda>_. True) s = (Inr b, s')"
    by (cases "recover_expired_tx w now (\<lambda>_. True) s") auto
  have get: "GetExecution (msg_OperationID message) s = (Inr execution, s)" using ex by (simp add: readers_Inr)
  have unchanged: "step_bound (Redelivered (message_key message)) s s'" if "st_attempts s' = st_attempts s"
    using that keyed by (rule unchanged_step_bound) simp
  have "step_bound (Redelivered (message_key message)) s s'"
  proof (cases "ex_CurrentAttempt execution = msg_AttemptNumber message")
    case False
    then have "CompleteExpiredOutbox now (msg_ID message) (msg_LeaseToken message) ''StaleExpiredDispatch'' s = (Inr (), s')"
      using run found get by (auto simp: recover_expired_tx_def bindT_eq_Inr readers_Inr)
    then show ?thesis by (intro unchanged) (simp add: CompleteExpiredOutbox_def update_work_attempts)
  next
    case True
    then obtain attempt where a: "map_of (st_attempts s) (message_key message) = Some attempt"
      using run found get by (auto simp: recover_expired_tx_def bindT_eq_Inr readers_Inr message_key_def)
    then have att: "GetSubmissionAttempt (msg_OperationID message) (msg_AttemptNumber message) s = (Inr attempt, s)"
      by (simp add: readers_Inr message_key_def)
    show ?thesis
    proof (cases "ex_State execution = AttemptPending \<and> att_State attempt = SubmissionAttemptPending")
      case pending: True
      then have "RequeueExpiredOutbox now (msg_ID message) (msg_LeaseToken message) s = (Inr (), s')"
        using run found get att True by (auto simp: recover_expired_tx_def bindT_eq_Inr readers_Inr)
      then show ?thesis by (intro unchanged) (simp add: RequeueExpiredOutbox_def update_work_attempts)
    next
      case leased: False
      define a' where "a' = attempt\<lparr>att_State := SubmissionAttemptPending, att_ClaimedAt := 0, att_ResolvedAt := 0, att_Failure := None\<rparr>"
      obtain s1 s2 r where save: "SaveSubmissionAttempt a' SubmissionAttemptLeased s = (Inr (), s1)"
        and sx: "SaveExecution (execution\<lparr>ex_State := AttemptPending\<rparr>) (ex_Version execution) s1 = (Inr (), s2)"
        and retry: "RetryExpiredDispatchOutbox now (msg_ID message) (msg_LeaseToken message) (ex_Version execution + 1)
          (backoff w (msg_AttemptCount message)) ''ExpiredFencedDispatch'' s2 = (r, s')"
        using run found get att True leased
        by (auto simp: recover_expired_tx_def recover_attempt_def bindT_eq_Inr a'_def split: if_splits)
      have key: "attemptKey (att_OperationID a') (att_AttemptNumber a') = message_key message"
        using keyed a by (simp add: a'_def attempts_keyed_def)
      have "st_attempts s' = put (message_key message) a' (st_attempts s)"
        using save save_execution_attempts [OF sx] outbox_result_attempts(3) [OF retry] key by (auto simp: save_attempt_Inr)
      then show ?thesis by (rule put_step_bound [OF keyed a _ key]) simp
    qed
  qed
  then show ?thesis using run by (simp add: recoverExpiredDispatch_def Within_def)
qed

lemma refused_closing:
  assumes "prepareDispatch w resolve now message s = (Inl e, s')"
  shows "st_attempts s' = st_attempts s"
proof -
  have "preserves (\<lambda>t. t = s) (load_dispatch message)"
    unfolding load_dispatch_def by (intro preserves_intros)
  then have ld: "snd (load_dispatch message s) = s" by (simp add: preserves_def)
  then have wl: "st_attempts (snd (Within (load_dispatch message) s)) = st_attempts s"
    by (simp add: Within_attempts split: sum.split)
  show ?thesis
  proof (cases "fst (Within (load_dispatch message) s)")
    case (Inl e')
    then show ?thesis using assms wl by (cases "Within (load_dispatch message) s") (auto simp: prepareDispatch_def)
  next
    case (Inr execution)
    then have l: "Within (load_dispatch message) s = (Inr execution, s)"
      using ld by (cases "load_dispatch message s") (auto simp: Within_def split: sum.splits)
    show ?thesis
    proof (cases "resolve (ex_ProvisionerRef execution)")
      case None
      then show ?thesis using assms l by (simp add: prepareDispatch_def)
    next
      case (Some p)
      let ?c = "claim_attempt w now message (selected_mapping p execution)"
      have "fst (Within ?c s) = Inl e" "s' = snd (Within ?c s)"
        using assms l Some by (auto simp: prepareDispatch_def bindT_def split: prod.splits sum.splits)
      then show ?thesis by (cases "fst (?c s)") (simp_all add: Within_attempts, simp add: Within_def split: prod.splits)
    qed
  qed
qed

section \<open>Submissions are not repeated\<close>

lemma worker_step_bound:
  assumes "worker_step l s s'" "attempts_keyed s"
  shows "step_bound l s s'"
  using assms
proof (cases rule: worker_step.cases)
  case (drive w now message)
  show ?thesis unfolding drive by (rule closing_step_bound [OF _ assms(2)]) (rule closing)
next
  case (prepared w resolve now message provider prepared)
  then show ?thesis using prepared_step_bound assms(2) by blast
next
  case (refused w resolve now message e)
  then show ?thesis using refused_closing assms(2) unchanged_step_bound by fastforce
next
  case (recorded w json now clock message version submission submitErr)
  show ?thesis unfolding recorded by (rule closing_step_bound [OF _ assms(2)]) (rule closing)
next
  case (unknown w now message version cause)
  show ?thesis unfolding unknown by (rule closing_step_bound [OF _ assms(2)]) (rule closing)
next
  case (not_attempted w now message version failure)
  then show ?thesis using not_attempted_step_bound assms(2) by blast
next
  case (observed w json now clock message loaded observation)
  show ?thesis unfolding observed by (rule closing_step_bound [OF _ assms(2)]) (rule closing)
next
  case (redelivered now message execution redeliverable w)
  then have "recoverExpiredDispatch w now redeliverable s = recoverExpiredDispatch w now (\<lambda>_. True) s"
    using recover_cong [of now s message execution w redeliverable] by (simp add: recoverExpiredDispatch_def Within_def)
  then show ?thesis using redelivered redelivery_step_bound assms(2) by metis
next
  case (expired now message execution redeliverable w)
  then have "recoverExpiredDispatch w now redeliverable s = recoverExpiredDispatch w now (\<lambda>_. False) s"
    using recover_cong [of now s message execution w redeliverable] by (simp add: recoverExpiredDispatch_def Within_def)
  then show ?thesis using expired closing_step_bound [OF expired_closing assms(2)] by metis
next
  case other
  then show ?thesis using unchanged_step_bound assms(2) by simp
qed

definition submissions :: "string \<Rightarrow> label list \<Rightarrow> nat" where
  "submissions k tr = sum_list (map (submitted k) tr)"

definition returns :: "string \<Rightarrow> label list \<Rightarrow> nat" where
  "returns k tr = sum_list (map (handed_back k) tr)"

lemma worker_run_bound:
  assumes "worker_run tr s s'" "attempts_keyed s"
  shows "attempts_keyed s' \<and> attempt_open s' k + submissions k tr \<le> attempt_open s k + returns k tr"
  using assms
proof (induction rule: worker_run.induct)
  case (step tr s s1 l s2)
  then have "step_bound l s1 s2" using worker_step_bound by blast
  then have "attempts_keyed s2" "attempt_open s2 k + submitted k l \<le> attempt_open s1 k + handed_back k l"
    by (simp_all add: step_bound_def)
  moreover have "attempt_open s1 k + submissions k tr \<le> attempt_open s k + returns k tr" using step by blast
  ultimately show ?case by (simp add: submissions_def returns_def)
qed (simp add: submissions_def returns_def)

text \<open>
  C1: An attempt reaches its provider at most once. In every run of any number of concurrent workers,
  in which crashed workers, expired leases and stale messages may occur at any point, an attempt is
  submitted at most once more often than it was handed back, and it is handed back only on the word of
  the provider that nothing was attempted or, after its lease expired, because the provider declares
  that it can redeliver safely. An attempt that was already submitted when the run starts and is not
  handed back is never submitted again.
\<close>
theorem at_most_one_submission:
  assumes "worker_run tr s s'" "attempts_keyed s"
  shows "submissions k tr \<le> Suc (returns k tr) \<and>
    (\<forall>attempt. map_of (st_attempts s) k = Some attempt \<and> att_State attempt \<noteq> SubmissionAttemptPending \<longrightarrow>
      submissions k tr \<le> returns k tr)"
proof -
  have "attempt_open s' k + submissions k tr \<le> attempt_open s k + returns k tr"
    using worker_run_bound [OF assms] by blast
  moreover have "attempt_open s k \<le> 1" by (simp add: attempt_open_def)
  ultimately show ?thesis by (auto simp: attempt_open_def attempt_state_def)
qed

definition example_provider :: Provider where
  "example_provider = \<lparr>pv_CanRedeliver = False, pv_OutputMappingRef = None,
     pv_Submit = (\<lambda>_. SubmitReturn zero_submission None), pv_SubmitFenced = None,
     pv_Observe = (\<lambda>_. ObserveReturn (Inl (ErrMessage ''unreachable''))), pv_ObserveFenced = None\<rparr>"

definition example_dispatch_message :: OutboxMessage where
  "example_dispatch_message = (DispatchMessage ''op-1'' 1 4)\<lparr>msg_State := OutboxLeased, msg_LeaseToken := ''worker-a'',
     msg_LeasedUntil := 100\<rparr>"

definition example_dispatch_store :: Store where
  "example_dispatch_store = NewStore\<lparr>
     st_executions := [(''op-1'', example_execution\<lparr>ex_State := AttemptPending, ex_CurrentAttempt := 1, ex_Version := 4\<rparr>)],
     st_attempts := [(''op-1:1'', example_attempt\<lparr>att_State := SubmissionAttemptPending,
       att_DispatchMessage := msg_ID example_dispatch_message\<rparr>)],
     st_outbox := [(msg_ID example_dispatch_message, example_dispatch_message)]\<rparr>"

lemma example_prepare:
  "(case prepareDispatch example_worker (\<lambda>_. Some example_provider) 50 example_dispatch_message example_dispatch_store of
      (Inl e, s') \<Rightarrow> False | (Inr pd, s') \<Rightarrow> True)"
  by code_simp

lemma example_dispatch_keyed: "attempts_keyed example_dispatch_store"
proof -
  have "attemptKey (att_OperationID example_attempt) (att_AttemptNumber example_attempt) = ''op-1:1''" by code_simp
  then show ?thesis by (simp add: attempts_keyed_def example_dispatch_store_def NewStore_def)
qed

theorem at_most_one_submission_witness:
  "\<exists>s'. worker_run [Submitted ''op-1:1''] example_dispatch_store s' \<and>
     submissions ''op-1:1'' [Submitted ''op-1:1''] = 1 \<and>
     submissions ''op-1:1'' [Submitted ''op-1:1''] \<le> Suc (returns ''op-1:1'' [Submitted ''op-1:1''])"
proof -
  obtain r s' where run: "prepareDispatch example_worker (\<lambda>_. Some example_provider) 50 example_dispatch_message
      example_dispatch_store = (r, s')" by fastforce
  then obtain p d where r: "r = Inr (p, d)" using example_prepare by (cases r) auto
  have key: "message_key example_dispatch_message = ''op-1:1''" by code_simp
  have "worker_step (Submitted ''op-1:1'') example_dispatch_store s'"
    using worker_step.prepared [OF run [unfolded r]] by (simp add: key)
  then have "worker_run ([] @ [Submitted ''op-1:1'']) example_dispatch_store s'"
    by (rule worker_run.step [OF worker_run.start])
  then have wr: "worker_run [Submitted ''op-1:1''] example_dispatch_store s'" by simp
  then show ?thesis
    using at_most_one_submission [OF wr example_dispatch_keyed, of "''op-1:1''"]
    by (auto simp: submissions_def submitted_def)
qed

section \<open>Finishing commits everything at once\<close>

lemma save_resource_Inr:
  "SaveResource r v s = (Inr u, s') \<Longrightarrow>
     s' = s\<lparr>st_resources := put (resource_id (rr_Resource r)) (r\<lparr>rr_Version := v + 1\<rparr>) (st_resources s)\<rparr>"
  by (cases rule: SaveResource_cases [of r v s]) auto

lemma save_operation_Inr:
  assumes "SaveOperation r v s = (Inr u, s')"
  obtains new where "or_Operation new = or_Operation r"
    "s' = s\<lparr>st_operations := put (op_id (or_Operation r)) new (st_operations s)\<rparr>"
  using assms by (cases rule: SaveOperation_cases [of r v s]) auto

lemma append_event_Inr: "AppendEvent e s = (Inr u, s') \<Longrightarrow> s' = s\<lparr>st_events := put (event_id e) e (st_events s)\<rparr>"
  by (auto simp: AppendEvent_def split: if_splits)

lemma save_execution_Inr:
  "SaveExecution e v s = (Inr u, s') \<Longrightarrow>
     s' = s\<lparr>st_executions := put (ex_OperationID e) (e\<lparr>ex_Version := v + 1\<rparr>) (st_executions s)\<rparr>"
  by (auto simp: SaveExecution_def split: option.splits if_splits)

lemma settle_work_Inr:
  assumes "settle_work now message reason s = (Inr u, s')"
  obtains m where "msg_State m = OutboxCompleted" "msg_TerminalReason m = reason"
    "s' = s\<lparr>st_outbox := put (msg_ID message) m (st_outbox s)\<rparr>"
proof -
  from assms obtain x where "s' = s\<lparr>st_outbox := put (msg_ID message) (x\<lparr>msg_State := OutboxCompleted,
      msg_LeaseToken := '''', msg_LeasedUntil := 0, msg_TerminalReason := reason\<rparr>) (st_outbox s)\<rparr>"
    by (auto simp: settle_work_def CompleteOutbox_def update_work_def split: option.splits if_splits)
  then show thesis by (rule that [rotated 2]) simp_all
qed

lemma wake_if_waited_only_outbox: "\<exists>t. snd (EnqueueWakeDependentsIfWaited now rid v s) = s\<lparr>st_outbox := t\<rparr>"
proof -
  have "\<exists>t. s = s\<lparr>st_outbox := t\<rparr>" by (rule exI [of _ "st_outbox s"]) simp
  then show ?thesis
    using only_outbox(2) [of now "WakeDependentsMessage rid v" s]
    by (simp add: EnqueueWakeDependentsIfWaited_def bindT_def HasDependencyWaiterForTarget_def)
qed

lemma side_effects_Inr:
  assumes "applyTerminalSideEffects now operation rid v s = (Inr u, s')"
  obtains t where "s' = s\<lparr>st_dependencyWaits := filter (\<lambda>(key, _). \<not> wait_prefix (op_id operation) key) (st_dependencyWaits s),
      st_desiredReferences := (if op_capability operation = CapabilityDelete \<and> op_state operation = OperationStateSucceeded
        then del rid (st_desiredReferences s) else st_desiredReferences s),
      st_appliedReferences := (if op_capability operation = CapabilityDelete \<and> op_state operation = OperationStateSucceeded
        then del rid (st_appliedReferences s) else st_appliedReferences s), st_outbox := t\<rparr>"
proof -
  let ?s1 = "snd (DeleteDependencyWaitsForOperation (op_id operation) s)"
  let ?del = "op_capability operation = CapabilityDelete \<and> op_state operation = OperationStateSucceeded"
  let ?s2 = "if ?del then snd (DeleteReferencesForSource rid ?s1) else ?s1"
  have "s' = snd (EnqueueWakeDependentsIfWaited now rid v ?s2)"
    using assms by (auto simp: applyTerminalSideEffects_def bindT_def DeleteDependencyWaitsForOperation_def
        DeleteReferencesForSource_def split: if_splits prod.splits sum.splits)
  moreover obtain t where "snd (EnqueueWakeDependentsIfWaited now rid v ?s2) = ?s2\<lparr>st_outbox := t\<rparr>"
    using wake_if_waited_only_outbox by blast
  ultimately have "s' = ?s2\<lparr>st_outbox := t\<rparr>" by simp
  then show thesis
    by (intro that [of t]) (simp add: DeleteDependencyWaitsForOperation_def DeleteReferencesForSource_def)
qed

text \<open>
  The store a committed finish leaves, relative to the one \<open>publish\<close> left (\<open>sa\<close>) and the one
  \<open>advance\<close> left (\<open>sc\<close>).
\<close>

lemma commit_finish_effect:
  assumes "commit_finish now message resource operation result publish execution expected advance reason s = (Inr (), s')"
  obtains sa sc new m t where
    "publish (s\<lparr>st_resources := put (resource_id (rr_Resource resource))
        (resource\<lparr>rr_Status := lr_Status result, rr_Version := rr_Version resource + 1\<rparr>) (st_resources s)\<rparr>) = (Inr (), sa)"
    "or_Operation new = lr_Operation result"
    "advance (sa\<lparr>st_operations := put (op_id (lr_Operation result)) new (st_operations sa),
        st_events := put (event_id (lr_Event result)) (lr_Event result) (st_events sa),
        st_executions := put (ex_OperationID execution) (execution\<lparr>ex_Version := expected + 1\<rparr>) (st_executions sa)\<rparr>) = (Inr (), sc)"
    "applyTerminalSideEffects now (lr_Operation result) (resource_id (rr_Resource resource)) (rr_Version resource + 1) sc = (Inr (), t)"
    "msg_State m = OutboxCompleted" "msg_TerminalReason m = reason"
    "s' = t\<lparr>st_outbox := put (msg_ID message) m (st_outbox t)\<rparr>"
proof -
  let ?save = "SaveOperation \<lparr>or_Operation = lr_Operation result, or_Sequence = 0, or_Version = 0\<rparr> (or_Version operation)"
  obtain s1 sa s3 s4 s5 sc t where
    c: "SaveResource (resource\<lparr>rr_Status := lr_Status result\<rparr>) (rr_Version resource) s = (Inr (), s1)"
    "publish s1 = (Inr (), sa)" "?save sa = (Inr (), s3)" "AppendEvent (lr_Event result) s3 = (Inr (), s4)"
    "SaveExecution execution expected s4 = (Inr (), s5)" "advance s5 = (Inr (), sc)"
    "applyTerminalSideEffects now (lr_Operation result) (resource_id (rr_Resource resource)) (rr_Version resource + 1) sc = (Inr (), t)"
    "settle_work now message reason t = (Inr (), s')"
    using assms unfolding commit_finish_def bindT_eq_Inr by auto
  obtain new where new: "or_Operation new = lr_Operation result"
    "s3 = sa\<lparr>st_operations := put (op_id (lr_Operation result)) new (st_operations sa)\<rparr>"
    using save_operation_Inr [OF c(3)] by auto
  obtain m where m: "msg_State m = OutboxCompleted" "msg_TerminalReason m = reason"
    "s' = t\<lparr>st_outbox := put (msg_ID message) m (st_outbox t)\<rparr>"
    using settle_work_Inr [OF c(8)] by blast
  show thesis
  proof (rule that [OF _ new(1) _ c(7) m])
    show "publish (s\<lparr>st_resources := put (resource_id (rr_Resource resource))
        (resource\<lparr>rr_Status := lr_Status result, rr_Version := rr_Version resource + 1\<rparr>) (st_resources s)\<rparr>) = (Inr (), sa)"
      using c(2) save_resource_Inr [OF c(1)] by simp
    show "advance (sa\<lparr>st_operations := put (op_id (lr_Operation result)) new (st_operations sa),
        st_events := put (event_id (lr_Event result)) (lr_Event result) (st_events sa),
        st_executions := put (ex_OperationID execution) (execution\<lparr>ex_Version := expected + 1\<rparr>) (st_executions sa)\<rparr>) = (Inr (), sc)"
      using c(6) save_execution_Inr [OF c(5)] append_event_Inr [OF c(4)] new(2) by simp
  qed
qed

lemma finish_evidence:
  assumes "BuildFinishEvidence op r st fin at = Inr res"
  shows "lr_Operation res = op\<lparr>op_state := (if fin_Succeeded fin then OperationStateSucceeded else OperationStateFailed),
    op_completedAt := at, op_failure := (if fin_Succeeded fin then None
      else Some \<lparr>failure_reason = fin_Reason fin, failure_message = fin_Message fin\<rparr>)\<rparr>"
proof -
  obtain res' where res': "(if fin_Succeeded fin
      then Engine_Complete r st op (InternalEventID (op_id op) ''succeeded'') at
      else Engine_Fail r st op (fin_Reason fin) (fin_Message fin) (InternalEventID (op_id op) ''failed'') at) = Inr res'"
    "lr_Operation res = lr_Operation res'"
    using assms by (auto simp: BuildFinishEvidence_def Let_def split: if_splits)
  show ?thesis
  proof (cases "fin_Succeeded fin")
    case True
    then have "Engine_Complete r st op (InternalEventID (op_id op) ''succeeded'') at = Inr res'" using res' by simp
    then show ?thesis using True res'(2)
      by (auto elim!: Engine_Complete_result complete_cases dest!: Operation_Succeed_complete)
  next
    case False
    then have "Engine_Fail r st op (fin_Reason fin) (fin_Message fin) (InternalEventID (op_id op) ''failed'') at = Inr res'"
      using res' by simp
    then show ?thesis using False res'(2)
      by (auto elim!: Engine_Fail_result complete_cases dest!: Operation_Fail_complete)
  qed
qed

lemma publish_Inr:
  assumes "(case publish of None \<Rightarrow> returnT () | Some out \<Rightarrow> SaveResourceOutputs out) s = (Inr (), s')"
  obtains t where "s' = s\<lparr>st_outputs := t\<rparr>" "publish = None \<Longrightarrow> t = st_outputs s"
    "\<And>out. publish = Some out \<Longrightarrow> \<exists>generations stored. map_of t (out_ResourceID out) = Some generations \<and>
       map_of generations (out_ObservedGeneration out) = Some stored \<and> out_ValuesDigest stored = out_ValuesDigest out"
proof (cases publish)
  case None
  then show thesis using assms that [of "st_outputs s"] by simp
next
  case (Some out)
  let ?g = "case map_of (st_outputs s) (out_ResourceID out) of None \<Rightarrow> [] | Some g \<Rightarrow> g"
  let ?t1 = "if map_of (st_outputs s) (out_ResourceID out) = None
    then put (out_ResourceID out) [] (st_outputs s) else st_outputs s"
  have run: "SaveResourceOutputs out s = (Inr (), s')" using assms Some by simp
  show thesis
  proof (cases "map_of ?g (out_ObservedGeneration out)")
    case None
    then have "s' = s\<lparr>st_outputs := put (out_ResourceID out) (put (out_ObservedGeneration out) out ?g) ?t1\<rparr>"
      using run by (auto simp: SaveResourceOutputs_def Let_def split: if_splits)
    then show thesis using Some by (intro that) auto
  next
    case (Some stored)
    then have "map_of ?t1 (out_ResourceID out) = Some ?g" by (auto split: option.splits)
    moreover have "s' = s\<lparr>st_outputs := ?t1\<rparr>" "out_ValuesDigest stored = out_ValuesDigest out"
      using run Some by (auto simp: SaveResourceOutputs_def Let_def split: if_splits)
    ultimately show thesis using \<open>publish = Some out\<close> Some by (intro that) auto
  qed
qed

lemma advance_applied_Inr:
  assumes "advance_applied resource operation execution s = (Inr (), s')"
  obtains t where "s' = s\<lparr>st_appliedReferences := t\<rparr>"
    "\<lbrakk>ex_Capability execution \<in> {CapabilityCreate, CapabilityUpdate};
      op_targetGeneration (or_Operation operation) = resource_generation (rr_Resource resource)\<rbrakk> \<Longrightarrow>
     edges_of t (resource_id (rr_Resource resource)) =
       edges_of (st_desiredReferences s) (resource_id (rr_Resource resource))"
proof (cases "ex_Capability execution \<in> {CapabilityCreate, CapabilityUpdate} \<and>
    op_targetGeneration (or_Operation operation) = resource_generation (rr_Resource resource)")
  case True
  let ?rid = "resource_id (rr_Resource resource)"
  let ?gen = "op_targetGeneration (or_Operation operation)"
  let ?d = "edges_of (st_desiredReferences s) ?rid"
  have gen: "list_all (\<lambda>e. edge_Generation e = ?gen) ?d"
    and s': "AdvanceAppliedReferences ?rid ?gen ?d s = (Inr (), s')"
    using assms True by (auto simp: advance_applied_def DesiredReferences_def list_all_iff list_ex_iff split: if_splits)
  have "stamp_edges ?gen ?d = ?d"
    using gen by (auto simp: stamp_edges_def list_all_iff intro: map_idI)
  then have "s' = s\<lparr>st_appliedReferences := (if ?d = [] then del ?rid (st_appliedReferences s)
      else put ?rid ?d (st_appliedReferences s))\<rparr>"
    using s' by (auto simp: AdvanceAppliedReferences_def)
  then show thesis by (rule that) (simp add: edges_of_def split: option.splits)
next
  case False
  have "s' = s\<lparr>st_appliedReferences := st_appliedReferences s\<rparr>"
    using assms False by (auto simp: advance_applied_def split: if_splits)
  then show thesis by (rule that) (use False in auto)
qed

definition no_waits :: "operation_id \<Rightarrow> Store \<Rightarrow> bool" where
  "no_waits oid s \<longleftrightarrow> list_all (\<lambda>(key, _). \<not> wait_prefix oid key) (st_dependencyWaits s)"

definition completed_work :: "OutboxMessage \<Rightarrow> string \<Rightarrow> Store \<Rightarrow> bool" where
  "completed_work message reason s \<longleftrightarrow> (\<exists>m. map_of (st_outbox s) (msg_ID message) = Some m \<and>
     msg_State m = OutboxCompleted \<and> msg_TerminalReason m = reason)"

text \<open>What every committed finish establishes, whichever of its branches ran.\<close>

lemma commit_finish_post:
  assumes "commit_finish now message resource operation result publish execution expected advance reason s = (Inr (), s')"
    and frame: "\<And>t u. publish t = (Inr (), u) \<Longrightarrow> \<exists>o1. u = t\<lparr>st_outputs := o1\<rparr>"
      "\<And>t u. advance t = (Inr (), u) \<Longrightarrow> \<exists>a1. u = t\<lparr>st_appliedReferences := a1\<rparr>"
  shows "(\<exists>new. map_of (st_operations s') (op_id (lr_Operation result)) = Some new \<and> or_Operation new = lr_Operation result)"
    "map_of (st_resources s') (resource_id (rr_Resource resource)) =
       Some (resource\<lparr>rr_Status := lr_Status result, rr_Version := rr_Version resource + 1\<rparr>)"
    "map_of (st_executions s') (ex_OperationID execution) = Some (execution\<lparr>ex_Version := expected + 1\<rparr>)"
    "map_of (st_events s') (event_id (lr_Event result)) = Some (lr_Event result)"
    "no_waits (op_id (lr_Operation result)) s'" "completed_work message reason s'"
    "\<exists>sb sa. publish sb = (Inr (), sa) \<and> st_outputs sb = st_outputs s \<and> st_outputs s' = st_outputs sa"
    "\<not> (op_capability (lr_Operation result) = CapabilityDelete \<and> op_state (lr_Operation result) = OperationStateSucceeded) \<Longrightarrow>
       \<exists>sb sc. advance sb = (Inr (), sc) \<and> st_desiredReferences sb = st_desiredReferences s \<and>
         st_appliedReferences sb = st_appliedReferences s \<and> st_appliedReferences s' = st_appliedReferences sc"
proof -
  from assms(1) obtain sa sc new m t where
    pub: "publish (s\<lparr>st_resources := put (resource_id (rr_Resource resource))
        (resource\<lparr>rr_Status := lr_Status result, rr_Version := rr_Version resource + 1\<rparr>) (st_resources s)\<rparr>) = (Inr (), sa)"
    and new: "or_Operation new = lr_Operation result"
    and adv: "advance (sa\<lparr>st_operations := put (op_id (lr_Operation result)) new (st_operations sa),
        st_events := put (event_id (lr_Event result)) (lr_Event result) (st_events sa),
        st_executions := put (ex_OperationID execution) (execution\<lparr>ex_Version := expected + 1\<rparr>) (st_executions sa)\<rparr>) = (Inr (), sc)"
    and side: "applyTerminalSideEffects now (lr_Operation result) (resource_id (rr_Resource resource)) (rr_Version resource + 1) sc = (Inr (), t)"
    and m: "msg_State m = OutboxCompleted" "msg_TerminalReason m = reason"
      "s' = t\<lparr>st_outbox := put (msg_ID message) m (st_outbox t)\<rparr>"
    by (rule commit_finish_effect)
  obtain o1 where sa: "sa = s\<lparr>st_resources := put (resource_id (rr_Resource resource))
        (resource\<lparr>rr_Status := lr_Status result, rr_Version := rr_Version resource + 1\<rparr>) (st_resources s), st_outputs := o1\<rparr>"
    using frame(1) [OF pub] by auto
  obtain a1 where sc: "sc = sa\<lparr>st_operations := put (op_id (lr_Operation result)) new (st_operations sa),
        st_events := put (event_id (lr_Event result)) (lr_Event result) (st_events sa),
        st_executions := put (ex_OperationID execution) (execution\<lparr>ex_Version := expected + 1\<rparr>) (st_executions sa),
        st_appliedReferences := a1\<rparr>"
    using frame(2) [OF adv] by auto
  note facts = side_effects_Inr [OF side]
  show "\<exists>new. map_of (st_operations s') (op_id (lr_Operation result)) = Some new \<and> or_Operation new = lr_Operation result"
    by (rule facts) (use new in \<open>simp add: m(3) sc\<close>)
  show "map_of (st_resources s') (resource_id (rr_Resource resource)) =
       Some (resource\<lparr>rr_Status := lr_Status result, rr_Version := rr_Version resource + 1\<rparr>)"
    by (rule facts) (simp add: m(3) sc sa)
  show "map_of (st_executions s') (ex_OperationID execution) = Some (execution\<lparr>ex_Version := expected + 1\<rparr>)"
    by (rule facts) (simp add: m(3) sc)
  show "map_of (st_events s') (event_id (lr_Event result)) = Some (lr_Event result)"
    by (rule facts) (simp add: m(3) sc)
  show "no_waits (op_id (lr_Operation result)) s'"
    by (rule facts) (simp add: m(3) no_waits_def list_all_iff)
  show "completed_work message reason s'" using m by (simp add: completed_work_def)
  have "st_outputs s' = st_outputs sa" by (rule facts) (simp add: m(3) sc)
  then show "\<exists>sb sa. publish sb = (Inr (), sa) \<and> st_outputs sb = st_outputs s \<and> st_outputs s' = st_outputs sa"
    using pub by (intro exI conjI) (assumption | simp)+
  assume keep: "\<not> (op_capability (lr_Operation result) = CapabilityDelete \<and> op_state (lr_Operation result) = OperationStateSucceeded)"
  have "st_appliedReferences s' = st_appliedReferences sc" by (rule facts) (use keep in \<open>auto simp: m(3)\<close>)
  then show "\<exists>sb sc. advance sb = (Inr (), sc) \<and> st_desiredReferences sb = st_desiredReferences s \<and>
         st_appliedReferences sb = st_appliedReferences s \<and> st_appliedReferences s' = st_appliedReferences sc"
    using adv sa by (intro exI conjI) (assumption | simp)+
qed

definition finished_as :: "operation_id \<Rightarrow> OperationState \<Rightarrow> OutboxMessage \<Rightarrow> Store \<Rightarrow> bool" where
  "finished_as oid state message s \<longleftrightarrow>
     (\<exists>new. map_of (st_operations s) oid = Some new \<and> op_state (or_Operation new) = state) \<and> no_waits oid s \<and>
     (\<exists>reason. completed_work message reason s)"

lemma load_finish_Inr:
  "load_finish oid s = (Inr (resource, operation), s') \<longleftrightarrow>
     s' = s \<and> map_of (st_operations s) oid = Some operation \<and>
     map_of (st_resources s) (op_resourceID (or_Operation operation)) = Some resource"
  by (auto simp: load_finish_def bindT_eq_Inr readers_Inr LookupOperation_def)

lemma operations_key: "\<lbrakk>operations_inv s; map_of (st_operations s) oid = Some r\<rbrakk> \<Longrightarrow> op_id (or_Operation r) = oid"
  using map_of_SomeD by (fastforce simp: operations_inv_def)

lemma defer_outputs_post:
  assumes "defer_outputs w now message execution expected s = (Inr (), s')"
  shows "st_operations s' = st_operations s" "st_outputs s' = st_outputs s"
    "st_appliedReferences s' = st_appliedReferences s"
    "\<exists>e. map_of (st_executions s') (ex_OperationID execution) = Some e \<and> ex_State e = AttemptSucceeded \<and>
       ex_OutputResolution e = OutputResolutionPending"
proof -
  obtain scheduled nxt where sch: "scheduleObserve (execution\<lparr>ex_State := AttemptSucceeded,
      ex_OutputResolution := OutputResolutionPending\<rparr>) (w_RetryBase w) = (scheduled, nxt)" by fastforce
  have e: "ex_State scheduled = AttemptSucceeded" "ex_OutputResolution scheduled = OutputResolutionPending"
    "ex_OperationID scheduled = ex_OperationID execution"
    using sch by (auto simp: scheduleObserve_def Let_def)
  obtain s1 s2 where "SaveExecution scheduled expected s = (Inr (), s1)"
    "settle_work now message ''OutputsPending'' s1 = (Inr (), s2)" "Enqueue now nxt s2 = (Inr (), s')"
    using assms by (auto simp: defer_outputs_def sch bindT_eq_Inr)
  moreover from this(2) obtain m where "s2 = s1\<lparr>st_outbox := put (msg_ID message) m (st_outbox s1)\<rparr>"
    by (rule settle_work_Inr)
  moreover obtain t where "snd (Enqueue now nxt s2) = s2\<lparr>st_outbox := t\<rparr>" using only_outbox(1) by blast
  ultimately have s': "s' = s\<lparr>st_executions := put (ex_OperationID scheduled) (scheduled\<lparr>ex_Version := expected + 1\<rparr>)
      (st_executions s), st_outbox := t\<rparr>"
    using save_execution_Inr by fastforce
  show "st_operations s' = st_operations s" "st_outputs s' = st_outputs s"
    "st_appliedReferences s' = st_appliedReferences s"
    "\<exists>e. map_of (st_executions s') (ex_OperationID execution) = Some e \<and> ex_State e = AttemptSucceeded \<and>
       ex_OutputResolution e = OutputResolutionPending"
    using e by (simp_all add: s')
qed

lemma returnT_frame: "returnT () t = (Inr (), u) \<Longrightarrow> \<exists>x. u = t\<lparr>st_outputs := x\<rparr>" "returnT () t = (Inr (), u) \<Longrightarrow> \<exists>x. u = t\<lparr>st_appliedReferences := x\<rparr>"
  by (auto intro: exI [of _ "st_outputs t"] exI [of _ "st_appliedReferences t"])

lemma reject_outputs_post:
  assumes "reject_outputs now message resource operation execution expected failure at s = (Inr (), s')"
  shows "finished_as (op_id (or_Operation operation)) OperationStateFailed message s'"
    "st_outputs s' = st_outputs s" "st_appliedReferences s' = st_appliedReferences s"
proof -
  let ?e = "execution\<lparr>ex_State := AttemptSucceeded, ex_OutputResolution := OutputResolutionRejected,
    ex_OutputFailureReason := fail_Reason failure, ex_OutputFailureMessage := fail_Message failure\<rparr>"
  obtain result where b: "BuildFinishEvidence (or_Operation operation) (rr_Resource resource) (rr_Status resource)
      \<lparr>fin_Succeeded = False, fin_Reason = fail_Reason failure, fin_Message = fail_Message failure,
       fin_Facts = ObservedFacts_zero\<rparr> at = Inr result"
    and c: "commit_finish now message resource operation result (returnT ()) ?e expected (returnT ())
      ''OutputPostconditionRejected'' s = (Inr (), s')"
    using assms unfolding reject_outputs_def bindT_eq_Inr by auto
  note post = commit_finish_post [OF c returnT_frame]
  have op: "op_id (lr_Operation result) = op_id (or_Operation operation)" "op_state (lr_Operation result) = OperationStateFailed"
    using finish_evidence [OF b] by simp_all
  show "finished_as (op_id (or_Operation operation)) OperationStateFailed message s'"
    using post(1,5,6) op by (auto simp: finished_as_def)
  show "st_outputs s' = st_outputs s" using post(7) by auto
  show "st_appliedReferences s' = st_appliedReferences s" using post(8) op(2) by auto
qed

lemma complete_success_post:
  assumes "complete_success now message resource operation execution expected finish at publish s = (Inr (), s')"
    "fin_Succeeded finish"
  shows "finished_as (op_id (or_Operation operation)) OperationStateSucceeded message s'"
    "publish = None \<Longrightarrow> st_outputs s' = st_outputs s"
    "publish = Some out \<Longrightarrow> \<exists>generations stored. map_of (st_outputs s') (out_ResourceID out) = Some generations \<and>
       map_of generations (out_ObservedGeneration out) = Some stored \<and> out_ValuesDigest stored = out_ValuesDigest out"
    "\<lbrakk>ex_Capability execution \<in> {CapabilityCreate, CapabilityUpdate}; op_capability (or_Operation operation) \<noteq> CapabilityDelete;
      op_targetGeneration (or_Operation operation) = resource_generation (rr_Resource resource)\<rbrakk> \<Longrightarrow>
       edges_of (st_appliedReferences s') (resource_id (rr_Resource resource)) =
         edges_of (st_desiredReferences s) (resource_id (rr_Resource resource))"
proof -
  let ?r = "execution\<lparr>ex_OutputResolution := (if publish = None then OutputResolutionNone else OutputResolutionPublished)\<rparr>"
  let ?pub = "case publish of None \<Rightarrow> returnT () | Some record \<Rightarrow> SaveResourceOutputs record"
  obtain aligned e' where al: "alignEvidenceTimeline at ?r resource = (aligned, e')" by fastforce
  then have e': "ex_Capability e' = ex_Capability execution"
    by (auto simp: alignEvidenceTimeline_def Let_def split: if_splits)
  obtain result where b: "BuildFinishEvidence (or_Operation operation) (rr_Resource resource) (rr_Status resource)
      finish aligned = Inr result"
    and c: "commit_finish now message resource operation result ?pub e' expected
      (advance_applied resource operation e') ''TerminalExecution'' s = (Inr (), s')"
    using assms(1) unfolding complete_success_def Let_def al by (auto simp: bindT_eq_Inr)
  have fr: "\<exists>o1. u = t\<lparr>st_outputs := o1\<rparr>" if "?pub t = (Inr (), u)" for t u
    using publish_Inr [OF that] by metis
  have fr2: "\<exists>a1. u = t\<lparr>st_appliedReferences := a1\<rparr>" if "advance_applied resource operation e' t = (Inr (), u)" for t u
    using advance_applied_Inr [OF that] by metis
  note post = commit_finish_post [OF c fr fr2]
  have op: "op_id (lr_Operation result) = op_id (or_Operation operation)"
    "op_state (lr_Operation result) = OperationStateSucceeded"
    "op_capability (lr_Operation result) = op_capability (or_Operation operation)"
    using finish_evidence [OF b] assms(2) by simp_all
  show "finished_as (op_id (or_Operation operation)) OperationStateSucceeded message s'"
    using post(1,5,6) op by (auto simp: finished_as_def)
  obtain sb sa where pub: "?pub sb = (Inr (), sa)" "st_outputs sb = st_outputs s" "st_outputs s' = st_outputs sa"
    using post(7) by blast
  obtain t where t: "sa = sb\<lparr>st_outputs := t\<rparr>" "publish = None \<Longrightarrow> t = st_outputs sb"
    "\<And>out. publish = Some out \<Longrightarrow> \<exists>generations stored. map_of t (out_ResourceID out) = Some generations \<and>
       map_of generations (out_ObservedGeneration out) = Some stored \<and> out_ValuesDigest stored = out_ValuesDigest out"
    using publish_Inr [OF pub(1)] by metis
  show "publish = None \<Longrightarrow> st_outputs s' = st_outputs s" using t(1,2) pub(2,3) by simp
  show "publish = Some out \<Longrightarrow> \<exists>generations stored. map_of (st_outputs s') (out_ResourceID out) = Some generations \<and>
       map_of generations (out_ObservedGeneration out) = Some stored \<and> out_ValuesDigest stored = out_ValuesDigest out"
    using t(1,3) pub(3) by simp
  assume cap: "ex_Capability execution \<in> {CapabilityCreate, CapabilityUpdate}" "op_capability (or_Operation operation) \<noteq> CapabilityDelete"
    "op_targetGeneration (or_Operation operation) = resource_generation (rr_Resource resource)"
  obtain sb sc where adv: "advance_applied resource operation e' sb = (Inr (), sc)"
    "st_desiredReferences sb = st_desiredReferences s" "st_appliedReferences s' = st_appliedReferences sc"
    using post(8) op(3) cap(2) by metis
  obtain t where "sc = sb\<lparr>st_appliedReferences := t\<rparr>"
    "\<lbrakk>ex_Capability e' \<in> {CapabilityCreate, CapabilityUpdate};
      op_targetGeneration (or_Operation operation) = resource_generation (rr_Resource resource)\<rbrakk> \<Longrightarrow>
     edges_of t (resource_id (rr_Resource resource)) =
       edges_of (st_desiredReferences sb) (resource_id (rr_Resource resource))"
    using advance_applied_Inr [OF adv(1)] by metis
  then show "edges_of (st_appliedReferences s') (resource_id (rr_Resource resource)) =
         edges_of (st_desiredReferences s) (resource_id (rr_Resource resource))"
    using adv(2,3) cap(1,3) e' by simp
qed

text \<open>What the commit of a terminal success leaves behind, by output plan.\<close>

fun plan_committed :: "OutputPlan \<Rightarrow> operation_id \<Rightarrow> resource_id \<Rightarrow> OutboxMessage \<Rightarrow> Store \<Rightarrow> Store \<Rightarrow> bool" where
  "plan_committed OutputPlanDefer oid rid message s s' \<longleftrightarrow>
     st_operations s' = st_operations s \<and> st_outputs s' = st_outputs s \<and>
     st_appliedReferences s' = st_appliedReferences s \<and>
     (\<exists>e. map_of (st_executions s') oid = Some e \<and> ex_State e = AttemptSucceeded \<and>
        ex_OutputResolution e = OutputResolutionPending)"
| "plan_committed (OutputPlanReject failure) oid rid message s s' \<longleftrightarrow>
     finished_as oid OperationStateFailed message s' \<and>
     st_outputs s' = st_outputs s \<and> st_appliedReferences s' = st_appliedReferences s"
| "plan_committed (OutputPlanPublish snapshot) oid rid message s s' \<longleftrightarrow>
     finished_as oid OperationStateSucceeded message s' \<and>
     (\<exists>generations. map_of (st_outputs s') rid = Some generations \<and>
        map_of generations (outputs_observedGeneration snapshot) \<noteq> None)"
| "plan_committed OutputPlanNone oid rid message s s' \<longleftrightarrow>
     finished_as oid OperationStateSucceeded message s' \<and> st_outputs s' = st_outputs s"

fun plan_succeeds :: "OutputPlan \<Rightarrow> bool" where
  "plan_succeeds OutputPlanNone = True"
| "plan_succeeds (OutputPlanPublish snapshot) = True"
| "plan_succeeds _ = False"


definition example_finish_store :: Store where
  "example_finish_store = example_drive_store\<lparr>
     st_resources := [(''res-2'', example_source\<lparr>rr_Status := (rr_Status example_source)\<lparr>status_conditions :=
         [example_condition ConditionReconciling ConditionStatusTrue ''Applying'',
          example_condition ConditionReconciled ConditionStatusFalse ''Applying'']\<rparr>\<rparr>)],
     st_operations := [(''op-1'', \<lparr>or_Operation = example_driven\<lparr>op_phase := OperationPhaseApplying\<rparr>,
       or_Sequence = 1, or_Version = 1\<rparr>)]\<rparr>"

definition example_finish :: Finish where
  "example_finish = \<lparr>fin_Succeeded = True, fin_Reason = ''ObservationSucceeded'', fin_Message = '''',
     fin_Facts = ObservedFacts_zero\<rparr>"

definition example_encoder :: json_encoder where
  "example_encoder = \<lparr>json_fields = (\<lambda>_. Inr ''[]''), json_values = (\<lambda>_. Inr ''{}'')\<rparr>"

abbreviation example_finish_run :: "unit tx" where
  "example_finish_run \<equiv> finishSuccessInTx example_worker example_encoder 50 example_drive_message
     (example_execution\<lparr>ex_ResourceID := ''res-2'', ex_State := AttemptSucceeded, ex_CurrentAttempt := 0\<rparr>) 1
     example_finish 50 None"

declare sha256_hex_def [code del]

lemma example_finish_commits:
  "(case example_finish_run example_finish_store of (Inl e, s') \<Rightarrow> False
    | (Inr u, s') \<Rightarrow> map (\<lambda>r. op_state (or_Operation (snd r))) (st_operations s') = [OperationStateSucceeded])"
  by code_simp

declare sha256_hex_def [code]

lemma example_finish_inv: "operations_inv example_finish_store"
  by (simp add: operations_inv_def example_finish_store_def example_drive_store_def example_driven_def
      example_operation_def)


section \<open>One cycle\<close>

lemma runOnce_since:
  assumes inv: "store_since past s" and meanwhile: "\<And>m. preserves (store_since past) (cy_meanwhile cycle m)"
    and run: "runOnce w json resolve cycle s = (r, s')"
  shows "store_since past s'"
proof -
  obtain r1 s1 where rec: "recoverExpiredDispatch w (cy_now cycle) (can_redeliver resolve) s = (r1, s1)" by fastforce
  have i1: "store_since past s1" by (rule preserves_since [OF recoverExpiredDispatch_preserves inv rec])
  show ?thesis
  proof (cases "r1 = Inr False \<and> (\<exists>token. cy_token cycle = Inr token)")
    case False
    then have "s' = s1" using run rec by (auto simp: runOnce_def split: sum.splits bool.splits)
    then show ?thesis using i1 by simp
  next
    case True
    then obtain token where token: "r1 = Inr False" "cy_token cycle = Inr token" by blast
    obtain r2 s2 where claim: "Within (ClaimOutbox (cy_now cycle) token (w_Lease w)) s1 = (r2, s2)" by fastforce
    have "preserves (store_since past) (Within (ClaimOutbox (cy_now cycle) token (w_Lease w)))"
      by (intro preserves_sinceI preserves_intros)
    then have i2: "store_since past s2" using i1 claim by (rule preservesD)
    show ?thesis
    proof (cases "\<exists>message. r2 = Inr (Some message)")
      case False
      then have "s' = s2" using run rec token claim by (auto simp: runOnce_def split: sum.splits option.splits)
      then show ?thesis using i2 by simp
    next
      case True
      then obtain message where m: "r2 = Inr (Some message)" by blast
      obtain r3 s3 where p: "process w json resolve cycle message s2 = (r3, s3)" by fastforce
      have i3: "store_since past s3" by (rule preservesD [OF process_preserves [OF meanwhile] i2 p])
      have "s' = s3 \<or> (\<exists>failure. s' = settle_failure w (cy_later cycle) message failure s3)"
        using run rec token claim m p by (cases r3) (simp_all add: runOnce_def, blast)
      then show ?thesis using i3 settle_failure_inv by blast
    qed
  qed
qed

lemma runOnce_inv:
  assumes "store_inv s" "\<And>m. preserves store_inv (cy_meanwhile cycle m)"
    and "runOnce w json resolve cycle s = (r, s')"
  shows "store_inv s'"
  using runOnce_since [of "[]" s cycle w json resolve r s'] assms by (simp add: preserves_def store_since_start)

text \<open>
  A worker cycle keeps the store consistent, whatever it finds, whatever the provider answers and
  however it ends. Starting from a consistent store, every cycle ends in one: no two active work items
  of one kind share an aggregate, Operations and Resources stay keyed by their identifiers with
  distinct sequence numbers; a commit of another process during a provider call is only assumed to do
  the same. A cycle that reports neither work nor an error found no work item that was due and left the
  Operations alone.
\<close>
theorem worker_cycle_keeps_store_consistent:
  assumes "store_inv s" "\<And>m. preserves store_inv (cy_meanwhile cycle m)"
    "runOnce w json resolve cycle s = ((found, failure), s')"
  shows "store_inv s' \<and> (\<not> found \<and> failure = None \<longrightarrow> st_operations s' = st_operations s \<and>
    (\<forall>m \<in> set (map snd (st_outbox s')). msg_State m = OutboxPending \<longrightarrow> cy_now cycle < msg_AvailableAt m))"
proof
  show "store_inv s'" by (rule runOnce_inv [OF assms])
  show "\<not> found \<and> failure = None \<longrightarrow> st_operations s' = st_operations s \<and>
    (\<forall>m \<in> set (map snd (st_outbox s')). msg_State m = OutboxPending \<longrightarrow> cy_now cycle < msg_AvailableAt m)"
  proof
    assume idle: "\<not> found \<and> failure = None"
    obtain r1 s1 where rec: "recoverExpiredDispatch w (cy_now cycle) (can_redeliver resolve) s = (r1, s1)" by fastforce
    have r1: "r1 = Inr False" using assms(3) idle rec by (auto simp: runOnce_def split: sum.splits bool.splits)
    then have "recover_expired_tx w (cy_now cycle) (can_redeliver resolve) s = (Inr False, s1)"
      using rec by (simp add: recoverExpiredDispatch_def Within_Inr)
    then have s1: "s1 = s"
      by (auto simp: recover_expired_tx_def bindT_eq_Inr FindExpiredDispatch_def split: option.splits if_splits)
    obtain token where token: "cy_token cycle = Inr token"
      using assms(3) idle rec r1 by (auto simp: runOnce_def split: sum.splits)
    obtain r2 s2 where claim: "Within (ClaimOutbox (cy_now cycle) token (w_Lease w)) s = (r2, s2)" by fastforce
    have "r2 = Inr None \<and> s' = s2"
    proof (cases r2)
      case (Inl e)
      then show ?thesis using assms(3) idle rec r1 s1 token claim by (simp add: runOnce_def)
    next
      case (Inr found')
      then show ?thesis using assms(3) idle rec r1 s1 token claim
        by (cases found') (auto simp: runOnce_def split: prod.splits sum.splits)
    qed
    then have "ClaimOutbox (cy_now cycle) token (w_Lease w) s = (Inr None, s')" using claim by (simp add: Within_Inr)
    then have "s' = s" "List.find (\<lambda>(mid, m). msg_State m = OutboxPending \<and>
        \<not> (msg_AvailableAt m \<noteq> 0 \<and> cy_now cycle < msg_AvailableAt m)) (st_outbox s) = None"
      by (auto simp: ClaimOutbox_def Let_def split: option.splits)
    then show "st_operations s' = st_operations s \<and>
      (\<forall>m \<in> set (map snd (st_outbox s')). msg_State m = OutboxPending \<longrightarrow> cy_now cycle < msg_AvailableAt m)"
      by (auto simp: find_None_iff)
  qed
qed

definition example_cycle :: Cycle where
  "example_cycle = \<lparr>cy_now = 50, cy_later = 60, cy_clock = 60, cy_token = Inr ''worker-a'', cy_drift_token = Inr ''d'',
     cy_meanwhile = (\<lambda>m. returnT ())\<rparr>"

lemma example_idle:
  "fst (runOnce example_worker example_encoder (\<lambda>_. Some example_provider) example_cycle NewStore) = (False, None)"
  by (simp add: runOnce_def recoverExpiredDispatch_def recover_expired_tx_def FindExpiredDispatch_def NewStore_def
      Within_def ClaimOutbox_def example_cycle_def)

theorem worker_cycle_keeps_store_consistent_witness:
  "\<exists>s'. runOnce example_worker example_encoder (\<lambda>_. Some example_provider) example_cycle NewStore = ((False, None), s') \<and>
     store_inv s'"
proof -
  obtain s' where run: "runOnce example_worker example_encoder (\<lambda>_. Some example_provider) example_cycle NewStore =
      ((False, None), s')"
    using example_idle by (metis prod.collapse)
  have "preserves store_inv (cy_meanwhile example_cycle m)" for m
    by (simp add: example_cycle_def preserves_def)
  from worker_cycle_keeps_store_consistent [OF store_inv_NewStore this run] run show ?thesis by blast
qed

section \<open>Stale registrations\<close>

lemma enqueue_leaves_row:
  assumes "Enqueue now message s = (r, s')"
  shows "r = Inr () \<or> r = Inl (ErrConcurrencyConflict ''concurrency conflict'')"
    "\<exists>m \<in> set (map snd (st_outbox s')). msg_DedupeKey m = msg_DedupeKey message \<or> (active_work m \<and> same_aggregate m message)"
proof (atomize (full), cases "enqueue_scan message (map snd (st_outbox s))")
  case None
  let ?m = "stamp_times now (if msg_State message = OutboxStateOther ''''
    then message\<lparr>msg_State := OutboxPending\<rparr> else message)"
  have r: "r = Inr ()" "s' = s\<lparr>st_outbox := put (msg_ID message) ?m (st_outbox s)\<rparr>"
    using assms None by (simp_all add: Enqueue_def Let_def)
  have "?m \<in> set (map snd (put (msg_ID message) ?m (st_outbox s)))"
    using map_of_SomeD [of "put (msg_ID message) ?m (st_outbox s)" "msg_ID message" ?m] by force
  then have "?m \<in> set (map snd (st_outbox s'))" by (simp only: r(2) Store.select_convs Store.update_convs) simp
  moreover have "msg_DedupeKey ?m = msg_DedupeKey message" by (simp add: stamp_times_def Let_def)
  ultimately show "(r = Inr () \<or> r = Inl (ErrConcurrencyConflict ''concurrency conflict'')) \<and>
    (\<exists>m \<in> set (map snd (st_outbox s')). msg_DedupeKey m = msg_DedupeKey message \<or> (active_work m \<and> same_aggregate m message))"
    using r(1) by blast
next
  case (Some q)
  then have "r = q" "s' = s" using assms by (simp_all add: Enqueue_def)
  then show "(r = Inr () \<or> r = Inl (ErrConcurrencyConflict ''concurrency conflict'')) \<and>
    (\<exists>m \<in> set (map snd (st_outbox s')). msg_DedupeKey m = msg_DedupeKey message \<or> (active_work m \<and> same_aggregate m message))"
    using enqueue_scan_Some [OF Some] by blast
qed

text \<open>
  What waking a registered waiter does. A registration of an earlier version of its Operation is
  dropped together with every other registration of that Operation, also the current ones, and no
  Drive is scheduled; the only way left to wake such an Operation is a Drive that is already queued.
  A current registration of an unfinished, undispatched Operation schedules a Drive of the current
  version unless an active or equal one exists, and no registration is touched.
\<close>
theorem waking_a_waiter:
  assumes "map_of (st_operations s) (wait_OperationID wait) = Some operation" "\<not> IsTerminal (or_Operation operation)"
  shows "(or_Version operation \<noteq> wait_OperationVersion wait \<longrightarrow>
      (\<exists>s'. revalidateWaiter now wait s = (Inr (), s') \<and> no_waits (wait_OperationID wait) s' \<and> st_outbox s' = st_outbox s)) \<and>
    (or_Version operation = wait_OperationVersion wait \<and>
     (\<exists>execution. map_of (st_executions s) (wait_OperationID wait) = Some execution \<and>
        ex_CurrentAttempt execution = 0 \<and> \<not> IsOutputRecovery execution) \<longrightarrow>
      (\<exists>s'. revalidateWaiter now wait s = (Inr (), s') \<and> st_dependencyWaits s' = st_dependencyWaits s \<and>
        (let drive = DriveMessage (wait_OperationID wait) (or_Version operation) in
         \<exists>m \<in> set (map snd (st_outbox s')). msg_DedupeKey m = msg_DedupeKey drive \<or>
           (active_work m \<and> same_aggregate m drive))))"
proof (intro conjI impI)
  assume "or_Version operation \<noteq> wait_OperationVersion wait"
  then have "revalidateWaiter now wait s = DeleteDependencyWaitsForOperation (wait_OperationID wait) s"
    using assms by (simp add: revalidateWaiter_def GetOperation_def stale_waiter_def)
  then show "\<exists>s'. revalidateWaiter now wait s = (Inr (), s') \<and> no_waits (wait_OperationID wait) s' \<and> st_outbox s' = st_outbox s"
    by (simp add: DeleteDependencyWaitsForOperation_def no_waits_def list_all_iff)
next
  let ?drive = "DriveMessage (wait_OperationID wait) (or_Version operation)"
  assume "or_Version operation = wait_OperationVersion wait \<and>
     (\<exists>execution. map_of (st_executions s) (wait_OperationID wait) = Some execution \<and>
        ex_CurrentAttempt execution = 0 \<and> \<not> IsOutputRecovery execution)"
  then have "stale_waiter wait operation s = (Inr False, s)"
    using assms(2) by (auto simp: stale_waiter_def LookupExecution_def GetExecution_def)
  then have run: "revalidateWaiter now wait s = (case Enqueue now ?drive s of
      (Inl (ErrConcurrencyConflict _), s2) \<Rightarrow> (Inr (), s2) | r \<Rightarrow> r)"
    using assms(1) by (simp add: revalidateWaiter_def GetOperation_def bindT_def)
  obtain r s2 where enq: "Enqueue now ?drive s = (r, s2)" by fastforce
  obtain t where "s2 = s\<lparr>st_outbox := t\<rparr>" using only_outbox(1) [of now ?drive s] enq by auto
  then have waits: "st_dependencyWaits s2 = st_dependencyWaits s" by simp
  note row = enqueue_leaves_row [OF enq]
  show "\<exists>s'. revalidateWaiter now wait s = (Inr (), s') \<and> st_dependencyWaits s' = st_dependencyWaits s \<and>
        (let drive = ?drive in \<exists>m \<in> set (map snd (st_outbox s')). msg_DedupeKey m = msg_DedupeKey drive \<or>
           (active_work m \<and> same_aggregate m drive))"
    using run enq row waits by (auto simp: Let_def)
qed

definition example_wait :: "resource_id \<Rightarrow> uint64 \<Rightarrow> uint64 \<Rightarrow> string \<times> DependencyWait" where
  "example_wait target sequence version = (waitKey ''op-1'' target,
     \<lparr>wait_OperationID = ''op-1'', wait_TargetID = target, wait_WaitSequence = sequence,
      wait_OperationVersion = version, wait_RegisteredTargetVersion = 1\<rparr>)"

text \<open>An Operation blocked on \<open>res-4\<close> at version 3, with an older registration for \<open>res-3\<close>.\<close>

definition example_waiting :: Store where
  "example_waiting = NewStore\<lparr>
     st_operations := [(''op-1'', \<lparr>or_Operation = example_driven, or_Sequence = 1, or_Version = 3\<rparr>)],
     st_nextOperationSequence := 1,
     st_dependencyWaits := [example_wait ''res-3'' 1 2, example_wait ''res-4'' 2 3], st_nextWaitSequence := 2\<rparr>"

theorem waking_a_waiter_witness:
  "\<exists>s'. revalidateWaiter 50 (snd (example_wait ''res-3'' 1 2)) example_waiting = (Inr (), s') \<and> no_waits ''op-1'' s'"
proof -
  have op: "map_of (st_operations example_waiting) (wait_OperationID (snd (example_wait ''res-3'' 1 2))) =
      Some \<lparr>or_Operation = example_driven, or_Sequence = 1, or_Version = 3\<rparr>"
    by (simp add: example_waiting_def example_wait_def)
  have "\<not> IsTerminal (or_Operation \<lparr>or_Operation = example_driven, or_Sequence = 1, or_Version = 3\<rparr>)"
    by (simp add: example_driven_def example_operation_def IsTerminal_def)
  from waking_a_waiter [OF op this, of 50] show ?thesis by (auto simp: example_wait_def)
qed

text \<open>
  The registration for \<open>res-4\<close> was current, and after the wake of \<open>res-3\<close> nothing is left that a
  transition of \<open>res-4\<close> could wake.
\<close>

lemma lost_wake:
  "fst (HasDependencyWaiterForTarget ''res-4'' example_waiting) = Inr True"
  "fst (HasDependencyWaiterForTarget ''res-4''
     (snd (revalidateWaiter 50 (snd (example_wait ''res-3'' 1 2)) example_waiting))) = Inr False"
  by code_simp+

section \<open>Passive observation is scheduled once\<close>

lemma passive_dedupe:
  "msg_DedupeKey (PassiveObserveMessage rid 0 v) = msg_DedupeKey (PassiveObserveMessage rid 0 v')"
  by (simp add: PassiveObserveMessage_def work_message_def)

lemma passive_scheduled_once:
  assumes "m \<in> set (map snd (st_outbox s))" "msg_DedupeKey m = msg_DedupeKey (PassiveObserveMessage rid 0 v)"
  shows "schedule_item now rid s = (Inr (), s)"
proof -
  have "snd (Enqueue now (PassiveObserveMessage rid 0 v') s) = s" for v'
  proof -
    have "enqueue_scan (PassiveObserveMessage rid 0 v') (map snd (st_outbox s)) \<noteq> None"
      using assms passive_dedupe [of rid v v'] unfolding enqueue_scan_None by auto
    then show ?thesis by (auto simp: Enqueue_def simp del: not_None_eq split: option.split)
  qed
  then show ?thesis
    by (auto simp: schedule_item_def Within_def LookupResource_def GetResource_def split: option.splits)
qed

section \<open>Terminal evidence\<close>

text \<open>
  C23: Terminal evidence finishes its Operation once it is aligned, whatever the clock of the provider.
  Consider the active Operation of a reachable Resource, in its last phase when the evidence is a success
  and with a reason that is not blank when it is a failure. Evidence of any time is lifted to the newest
  change of the status, and the receipt time of the execution moves with it exactly when it is lifted.
  At the aligned time the finish evidence is built whatever facts came with it, malformed ones included,
  and the Operation is terminal with the matching outcome at that time. Without the alignment, evidence
  older than the status is refused.
\<close>

theorem terminal_evidence_finishes_operation:
  assumes "engine_reachable rt k" "cfg_latest k = Some op" "\<not> IsTerminal op"
    "rr_Resource r = cfg_resource k" "rr_Status r = cfg_status k" "t \<noteq> 0"
    "fin_Succeeded f \<Longrightarrow> op_state op = OperationStateRunning \<and> isFinalPhase op"
    "\<not> fin_Succeeded f \<Longrightarrow> \<not> blank (fin_Reason f)"
    "alignEvidenceTimeline t e r = (at, e')"
  shows "at = max t (status_updatedAt (rr_Status r)) \<and>
    e' = (if at = t then e else e\<lparr>ex_LastObservedAt := at\<rparr>) \<and>
    (\<exists>res. BuildFinishEvidence op (rr_Resource r) (rr_Status r) f at = Inr res \<and>
       IsTerminal (lr_Operation res) \<and> op_completedAt (lr_Operation res) = at \<and>
       (op_state (lr_Operation res) = OperationStateSucceeded \<longleftrightarrow> fin_Succeeded f)) \<and>
    (t < status_updatedAt (rr_Status r) \<longrightarrow> isl (BuildFinishEvidence op (rr_Resource r) (rr_Status r) f t))"
proof -
  have inv: "lifecycle_inv rt k" by (rule engine_reachable_inv [OF assms(1)])
  then have st: "resource_updatedAt (rr_Resource r) \<le> status_updatedAt (rr_Status r)" "status_updatedAt (rr_Status r) \<noteq> 0"
    using assms(4,5) by (simp_all add: lifecycle_inv_def wf_status_def Let_def)
  then have at: "at = max t (status_updatedAt (rr_Status r))" "e' = (if at = t then e else e\<lparr>ex_LastObservedAt := at\<rparr>)"
    using assms(9) by (auto simp: alignEvidenceTimeline_def Let_def split: if_splits)
  then have "status_updatedAt (cfg_status k) \<le> at" "at \<noteq> 0" using assms(5,6) st(2) by (auto simp: max_def)
  from BuildFinishEvidence_progress [OF inv assms(2,3) this assms(7,8)] at assms(4,5)
  show ?thesis by (simp add: BuildFinishEvidence_refuses_old)
qed

text \<open>The Resource of the engine's example with the specification of a platform Resource.\<close>

definition example_platform :: "ResourceSpec config" where
  "example_platform = \<lparr>
     cfg_resource = \<lparr>resource_id = ''res-1'', resource_typeRef = rtype_ref example_type,
       resource_owner = \<lparr>owner_Kind = ''team'', owner_ID = ''t1''\<rparr>, resource_generation = 1,
       resource_spec = \<lparr>spec_values = []\<rparr>, resource_createdAt = 10, resource_updatedAt = 10\<rparr>,
     cfg_status = cfg_status example_active,
     cfg_latest = Some (example_operation OperationStatePending OperationPhaseRequested 0 10 0)\<rparr>"

lemma example_platform_request:
  "Engine_Request (cfg_resource example_platform) rt st None capability oid eid t =
   Engine_Request (cfg_resource example_config) rt st None capability oid eid t"
  by (simp add: Engine_Request_def validateResourceContext_def validateOperationSnapshot_def request_source_def
      validateRequestPrecondition_def example_platform_def example_config_def example_resource_def example_type_def
      Let_def split_beta)

lemma example_platform_reachable: "engine_reachable example_type example_platform"
proof -
  let ?k = "example_platform\<lparr>cfg_status := cfg_status example_config, cfg_latest := None\<rparr>"
  have k: "engine_reachable example_type ?k"
    using engine_reachable.create [of "''res-1''" example_type "\<lparr>owner_Kind = ''team'', owner_ID = ''t1''\<rparr>"
        "\<lparr>spec_values = []\<rparr>" 10 "cfg_resource example_platform" "cfg_status example_config"]
    by (simp add: NewResource_def ResourceTypeRef_validate_def OwnerRef_validate_def example_type_def example_platform_def
        example_config_def NewResourceStatus_iff wf_status_def wf_conditions_def)
  obtain ev where "Engine_Request (cfg_resource ?k) example_type (cfg_status ?k) (cfg_latest ?k) CapabilityCreate
      ''op-1'' ''ev-1'' 10 = Inr \<lparr>lr_Operation = example_operation OperationStatePending OperationPhaseRequested 0 10 0,
        lr_Status = cfg_status example_active, lr_Event = ev\<rparr>"
    using example_request by (auto simp: example_platform_request)
  from engine_reachable.step [OF k engine_step.request [OF this]] show ?thesis by (simp add: example_platform_def)
qed

theorem terminal_evidence_finishes_operation_witness:
  "\<exists>res. BuildFinishEvidence (example_operation OperationStatePending OperationPhaseRequested 0 10 0)
      (cfg_resource example_platform) (cfg_status example_platform)
      \<lparr>fin_Succeeded = False, fin_Reason = ''Boom'', fin_Message = '''',
       fin_Facts = \<lparr>facts_Presence = ResourcePresenceOther ''?'',
         facts_Readiness = ResourceReadinessReady, facts_Drift = ResourceDriftUnknown\<rparr>\<rparr> 10 = Inr res \<and>
      op_completedAt (lr_Operation res) = 10 \<and>
   alignEvidenceTimeline 7 example_execution
     \<lparr>rr_Resource = cfg_resource example_platform, rr_Status = cfg_status example_platform,
      rr_ProvisionerRef = ''p'', rr_Version = 1\<rparr> = (10, example_execution\<lparr>ex_LastObservedAt := 10\<rparr>)"
proof -
  let ?r = "\<lparr>rr_Resource = cfg_resource example_platform, rr_Status = cfg_status example_platform,
      rr_ProvisionerRef = ''p'', rr_Version = 1\<rparr>"
  let ?f = "\<lparr>fin_Succeeded = False, fin_Reason = ''Boom'', fin_Message = '''',
       fin_Facts = \<lparr>facts_Presence = ResourcePresenceOther ''?'',
         facts_Readiness = ResourceReadinessReady, facts_Drift = ResourceDriftUnknown\<rparr>\<rparr>"
  have al: "alignEvidenceTimeline 7 example_execution ?r = (10, example_execution\<lparr>ex_LastObservedAt := 10\<rparr>)"
    by (simp add: alignEvidenceTimeline_def example_platform_def example_active_def)
  from terminal_evidence_finishes_operation [OF example_platform_reachable, of
      "example_operation OperationStatePending OperationPhaseRequested 0 10 0" ?r 7 ?f, OF _ _ _ _ _ _ _ al] al
  show ?thesis by (auto simp: example_platform_def example_operation_def IsTerminal_def)
qed

end
