(* ===== verification/Access.thy ===== *)
theory Access
  imports Store
begin

text \<open>
  Principals and authorization: \<^verbatim>\<open>internal/identity\<close> (principals, their identifiers, actions, targets and
  visibility), the two shipped authorizers of \<^verbatim>\<open>internal/auth\<close> (\<^verbatim>\<open>authorizer.go\<close>,
  \<^verbatim>\<open>operator_authorizer.go\<close>) and the fail-closed calls of \<^verbatim>\<open>internal/application/authorization.go\<close>.

  An authorizer is a function from principal, action and target to an error or nothing; the service
  holds an optional one, \<open>None\<close> being the missing interface value. The claims of a token and
  the files of grants are read in \<open>Auth_Mapping\<close>.
\<close>

section \<open>Identity\<close>

text \<open>\<^verbatim>\<open>fmt.Fprintf(w, "%08x", len(part))\<close> followed by the part: the framing of every digest input.\<close>

fun hex_number :: "nat \<Rightarrow> string" where
  "hex_number n = (if n < 16 then [digit n] else hex_number (n div 16) @ [digit (n mod 16)])"

declare hex_number.simps [simp del]

definition pad8 :: "string \<Rightarrow> string" where
  "pad8 s = replicate (8 - length s) (CHR ''0'') @ s"

definition writeFramed :: "string \<Rightarrow> string" where
  "writeFramed part = pad8 (hex_number (length part)) @ part"

definition principalIDPrefixV1 :: string where "principalIDPrefixV1 = ''prn_v1_''"

definition NewPrincipalID :: "string \<Rightarrow> string \<Rightarrow> string" where
  "NewPrincipalID issuer subject =
     principalIDPrefixV1 @ sha256_hex (writeFramed issuer @ writeFramed subject)"

definition KindUser :: string where "KindUser = ''user''"
definition KindServiceAccount :: string where "KindServiceAccount = ''serviceAccount''"
definition KindSystem :: string where "KindSystem = ''system''"

definition PrincipalKind_valid :: "string \<Rightarrow> bool" where
  "PrincipalKind_valid k \<longleftrightarrow> k = KindUser \<or> k = KindServiceAccount \<or> k = KindSystem"

record Principal =
  prn_ID :: string
  prn_Kind :: string
  prn_Issuer :: string
  prn_Subject :: string
  prn_Memberships :: "OwnerRef list"
  prn_Method :: string

definition maxMethodLength :: nat where "maxMethodLength = 64"

definition validateMembership :: "OwnerRef \<Rightarrow> bool" where
  "validateMembership owner \<longleftrightarrow>
     \<not> blank (owner_Kind owner) \<and> \<not> blank (owner_ID owner) \<and>
     owner_Kind owner = TrimSpace (owner_Kind owner) \<and> owner_ID owner = TrimSpace (owner_ID owner)"

definition owner_key :: "OwnerRef \<Rightarrow> string \<times> string" where
  "owner_key owner = (owner_Kind owner, owner_ID owner)"

definition normalizeMemberships :: "OwnerRef list \<Rightarrow> OwnerRef list" where
  "normalizeMemberships memberships = sort_key owner_key (remdups (filter validateMembership memberships))"

definition NewPrincipal ::
    "string \<Rightarrow> string \<Rightarrow> string \<Rightarrow> string \<Rightarrow> OwnerRef list \<Rightarrow> Principal result" where
  "NewPrincipal kind issuer subject method memberships =
     (if \<not> PrincipalKind_valid kind \<or> blank issuer \<or> blank subject \<or>
         maxMethodLength < length method \<or> list_ex (\<lambda>c. c \<in> {CHR 0x00, CHR 0x0A, CHR 0x0D}) method
      then Inl (ErrMessage ''invalid principal'')
      else Inr \<lparr>prn_ID = NewPrincipalID issuer subject, prn_Kind = kind, prn_Issuer = issuer,
             prn_Subject = subject, prn_Memberships = normalizeMemberships memberships, prn_Method = method\<rparr>)"

definition IsMember :: "Principal \<Rightarrow> OwnerRef \<Rightarrow> bool" where
  "IsMember p owner \<longleftrightarrow> list_ex (\<lambda>m. m = owner) (prn_Memberships p)"

datatype Action =
    ActionResourceCreate | ActionResourceRead | ActionResourceUpdate | ActionResourceDelete
  | ActionResourceRetry | ActionResourceList | ActionResourceTypeRead | ActionSecretResolve
  | ActionOperatorDiagnosticsRead | ActionOperatorObserveTrigger | ActionOperatorWorkRecover
  | ActionOther string

fun ValidOperatorAction :: "Action \<Rightarrow> bool" where
  "ValidOperatorAction a = (a \<in> {ActionOperatorDiagnosticsRead, ActionOperatorObserveTrigger, ActionOperatorWorkRecover})"

record ResourceTarget =
  rt_Type :: ResourceTypeRef
  rt_Owner :: OwnerRef
  rt_ResourceID :: resource_id

record ResourceVisibility =
  vis_Owners :: "OwnerRef list"
  vis_AllOwners :: bool

definition Canonical :: "ResourceVisibility \<Rightarrow> ResourceVisibility" where
  "Canonical v = \<lparr>vis_Owners = sort_key owner_key
       (remdups (filter (\<lambda>owner. owner_Kind owner \<noteq> '''' \<and> owner_ID owner \<noteq> '''') (vis_Owners v))),
     vis_AllOwners = vis_AllOwners v\<rparr>"

section \<open>Authorizers\<close>

type_synonym Authorizer = "Principal \<Rightarrow> Action \<Rightarrow> ResourceTarget \<Rightarrow> unit result"

definition ErrDenied :: error where "ErrDenied = ErrMessage ''denied by authorization policy''"

definition OwnerAuthorizer_Authorize :: Authorizer where
  "OwnerAuthorizer_Authorize prn action target =
     (if prn_ID prn = '''' then Inl ErrDenied
      else if action = ActionResourceTypeRead then Inr ()
      else if action \<in> {ActionResourceCreate, ActionResourceRead, ActionResourceUpdate,
                        ActionResourceDelete, ActionResourceRetry}
        then if \<not> IsMember prn (rt_Owner target) then Inl ErrDenied else Inr ()
      else Inl ErrDenied)"

definition OwnerAuthorizer_AuthorizeResourceList :: "Principal \<Rightarrow> ResourceVisibility result" where
  "OwnerAuthorizer_AuthorizeResourceList prn =
     (if prn_ID prn = '''' then Inl ErrDenied
      else Inr \<lparr>vis_Owners = prn_Memberships prn, vis_AllOwners = False\<rparr>)"

definition StaticOperatorAuthorizer_AuthorizeOperator ::
    "(string, Action list) table \<Rightarrow> Principal \<Rightarrow> Action \<Rightarrow> unit result" where
  "StaticOperatorAuthorizer_AuthorizeOperator subjects prn action =
     (if prn_ID prn = '''' \<or> \<not> ValidOperatorAction action then Inl ErrDenied
      else case map_of subjects (prn_Subject prn) of
        None \<Rightarrow> Inl ErrDenied
      | Some granted \<Rightarrow> if list_ex (\<lambda>g. g = action) granted then Inr () else Inl ErrDenied)"

section \<open>The calls of the service\<close>

definition not_authorized :: error where "not_authorized = ErrNotAuthorized ''not authorized''"

definition authorize :: "Authorizer option \<Rightarrow> Principal \<Rightarrow> Action \<Rightarrow> ResourceTarget \<Rightarrow> unit result" where
  "authorize authorizer prn action target =
     (if prn_ID prn = '''' \<or> prn_Kind prn = '''' then Inl not_authorized
      else case authorizer of
        None \<Rightarrow> Inl not_authorized
      | Some decide \<Rightarrow>
          (case decide prn action target of Inl _ \<Rightarrow> Inl not_authorized | Inr _ \<Rightarrow> Inr ()))"

definition authorizeResourceList ::
    "(Principal \<Rightarrow> ResourceVisibility result) option \<Rightarrow> Principal \<Rightarrow> ResourceVisibility result" where
  "authorizeResourceList authorizer prn =
     (if prn_ID prn = '''' \<or> prn_Kind prn = '''' then Inl not_authorized
      else case authorizer of
        None \<Rightarrow> Inl not_authorized
      | Some decide \<Rightarrow>
          (case decide prn of Inl _ \<Rightarrow> Inl not_authorized | Inr v \<Rightarrow> Inr (Canonical v)))"

definition resourceTargetOf :: "ResourceRecord \<Rightarrow> ResourceTarget" where
  "resourceTargetOf record = \<lparr>rt_Type = resource_typeRef (rr_Resource record),
     rt_Owner = resource_owner (rr_Resource record), rt_ResourceID = resource_id (rr_Resource record)\<rparr>"

definition idempotencyScope :: "Principal \<Rightarrow> string" where
  "idempotencyScope prn = prn_ID prn"

section \<open>Framing is unambiguous\<close>

lemma hex_number_not_Nil [simp]: "hex_number n \<noteq> []"
  by (simp add: hex_number.simps [of n])

text \<open>Reading a hexadecimal numeral back; leading zeros do not matter.\<close>

definition hex_value :: "string \<Rightarrow> nat" where
  "hex_value s = foldl (\<lambda>n c. 16 * n + length (takeWhile (\<lambda>d. d \<noteq> c) ''0123456789abcdef'')) 0 s"

lemma hex_digit_value: "n < 16 \<Longrightarrow> length (takeWhile (\<lambda>d. d \<noteq> digit n) ''0123456789abcdef'') = n"
proof -
  have "\<forall>m < 16. length (takeWhile (\<lambda>d. d \<noteq> digit m) ''0123456789abcdef'') = m" by code_simp
  then show "n < 16 \<Longrightarrow> length (takeWhile (\<lambda>d. d \<noteq> digit n) ''0123456789abcdef'') = n" by blast
qed

lemma hex_value_number: "hex_value (replicate k (CHR ''0'') @ hex_number n) = n"
proof (induction n rule: hex_number.induct)
  case (1 n)
  have z: "foldl (\<lambda>n c. 16 * n + length (takeWhile (\<lambda>d. d \<noteq> c) ''0123456789abcdef'')) 0
      (replicate k (CHR ''0'')) = (0::nat)" by (induction k) simp_all
  show ?case
  proof (cases "n < 16")
    case True
    have "hex_value (replicate k (CHR ''0'') @ hex_number n) =
        16 * (0::nat) + length (takeWhile (\<lambda>d. d \<noteq> digit n) ''0123456789abcdef'')"
      unfolding hex_value_def hex_number.simps [of n] foldl_append z using True by simp
    with hex_digit_value [OF True] show ?thesis by simp
  next
    case False
    have "hex_value (replicate k (CHR ''0'') @ hex_number n) =
        16 * hex_value (replicate k (CHR ''0'') @ hex_number (n div 16)) +
        length (takeWhile (\<lambda>d. d \<noteq> digit (n mod 16)) ''0123456789abcdef'')"
      using False by (simp only: hex_number.simps [of n] hex_value_def if_False append_assoc [symmetric]
          foldl_append foldl.simps)
    also have "\<dots> = 16 * (n div 16) + n mod 16"
      using 1 False hex_digit_value [of "n mod 16"] by simp
    finally show ?thesis by simp
  qed
qed

lemma hex_number_length: "n < 16 ^ Suc k \<Longrightarrow> length (hex_number n) \<le> Suc k"
proof (induction k arbitrary: n)
  case (Suc k)
  have "n div 16 < 16 ^ Suc k" using Suc.prems by (simp add: less_mult_imp_div_less mult.commute)
  from Suc.IH [OF this] show ?case by (simp add: hex_number.simps [of n])
qed (simp add: hex_number.simps)

definition frameable :: "string \<Rightarrow> bool" where
  "frameable part \<longleftrightarrow> length part < 2 ^ 32"

lemma pad8_length: "frameable part \<Longrightarrow> length (pad8 (hex_number (length part))) = 8"
  using hex_number_length [of "length part" 7] by (simp add: pad8_def frameable_def)

lemma writeFramed_prefix:
  assumes "frameable a" "frameable b" "writeFramed a @ x = writeFramed b @ y"
  shows "a = b \<and> x = y"
proof -
  define h where "h s = pad8 (hex_number (length s))" for s :: string
  have "h a @ (a @ x) = h b @ (b @ y)" using assms(3) by (simp only: writeFramed_def append_assoc h_def)
  moreover have "length (h a) = length (h b)" unfolding h_def using pad8_length assms(1,2) by metis
  ultimately have h: "h a = h b" and ab: "a @ x = b @ y" by simp_all
  have "hex_value (h s) = length s" for s by (simp only: h_def pad8_def hex_value_number)
  with h have "length a = length b" by metis
  with ab show ?thesis by simp
qed

lemma writeFramed_not_Nil: "writeFramed p \<noteq> []"
  by (simp add: writeFramed_def pad8_def)

lemma framed_parts_inj:
  "\<lbrakk>list_all frameable ps; list_all frameable qs;
    concat (map writeFramed ps) = concat (map writeFramed qs)\<rbrakk> \<Longrightarrow> ps = qs"
proof (induction ps arbitrary: qs)
  case Nil
  then show ?case by (cases qs) (simp_all add: writeFramed_not_Nil)
next
  case (Cons p ps)
  obtain q qs' where qs: "qs = q # qs'" using Cons.prems by (cases qs) (simp_all add: writeFramed_not_Nil)
  have "p = q \<and> concat (map writeFramed ps) = concat (map writeFramed qs')"
    by (rule writeFramed_prefix) (use Cons.prems in \<open>simp_all add: qs\<close>)
  with Cons.IH [of qs'] Cons.prems show ?case by (simp add: qs)
qed

section \<open>Authorization fails closed\<close>

lemma authorize_iff:
  "authorize authorizer prn action target = Inr () \<longleftrightarrow>
     prn_ID prn \<noteq> '''' \<and> prn_Kind prn \<noteq> '''' \<and>
     (\<exists>decide. authorizer = Some decide \<and> decide prn action target = Inr ())"
  by (auto simp: authorize_def split: option.splits sum.splits)

lemma authorize_error: "authorize authorizer prn action target = Inl e \<Longrightarrow> e = not_authorized"
  by (auto simp: authorize_def split: option.splits sum.splits if_splits)

lemma owner_key_inj: "owner_key a = owner_key b \<longleftrightarrow> a = b"
  by (cases a, cases b) (simp add: owner_key_def)

lemma NewPrincipal_members:
  assumes "NewPrincipal kind issuer subject method memberships = Inr p"
  shows "IsMember p owner \<longleftrightarrow> owner \<in> set memberships \<and> validateMembership owner"
proof -
  have "prn_Memberships p = normalizeMemberships memberships"
    using assms unfolding NewPrincipal_def if_Inl_eq_Inr by auto
  then show ?thesis by (simp add: IsMember_def normalizeMemberships_def list_ex_iff conj_commute)
qed

text \<open>
  The listing scope of the shipped authorizer is exactly its read scope: an owner is visible in the
  inventory when, and only when, its resources may be read.
\<close>

lemma list_scope_is_read_scope:
  assumes "NewPrincipal kind issuer subject method memberships = Inr p"
    and "authorizeResourceList (Some OwnerAuthorizer_AuthorizeResourceList) p = Inr v"
  shows "\<not> vis_AllOwners v \<and>
    (owner \<in> set (vis_Owners v) \<longleftrightarrow>
     authorize (Some OwnerAuthorizer_Authorize) p ActionResourceRead \<lparr>rt_Type = ty, rt_Owner = owner, rt_ResourceID = rid\<rparr> = Inr ())"
proof -
  have member: "IsMember p owner \<Longrightarrow> owner_Kind owner \<noteq> '''' \<and> owner_ID owner \<noteq> ''''"
    using NewPrincipal_members [OF assms(1)] by (auto simp: validateMembership_def)
  have "prn_ID p \<noteq> ''''" "prn_Kind p \<noteq> ''''"
    and v: "v = Canonical \<lparr>vis_Owners = prn_Memberships p, vis_AllOwners = False\<rparr>"
    using assms(2) by (auto simp: authorizeResourceList_def OwnerAuthorizer_AuthorizeResourceList_def split: if_splits)
  then show ?thesis
    using member by (auto simp: Canonical_def authorize_iff OwnerAuthorizer_Authorize_def IsMember_def list_ex_iff)
qed

text \<open>The two vocabularies are disjoint: no developer decision grants an operator action.\<close>

lemma operator_actions_disjoint:
  "ValidOperatorAction action \<Longrightarrow> authorize (Some OwnerAuthorizer_Authorize) p action target = Inl not_authorized"
  by (auto simp: authorize_def OwnerAuthorizer_Authorize_def)

end
