(* ===== verification/Policy.thy ===== *)
theory Policy
  imports Access
begin

text \<open>
  The admission policy: the port of \<^verbatim>\<open>internal/application/policy.go\<close> with its unrestricted
  implementation, and the rule-based implementation of \<^verbatim>\<open>internal/policy/policy.go\<close> from the compiled
  rules on (duplicate detection, normal order, revision, planning and deciding). \<open>Policy_Document\<close> holds the
  decoding of documents into rules; \<open>marshal\<close> is the JSON encoder of the canonical document.
\<close>

section \<open>The port\<close>

definition NewPolicyRevision :: "string \<Rightarrow> string" where
  "NewPolicyRevision canonical = ''pol_v1_'' @ sha256_hex canonical"

datatype AdmissionMutation = AdmissionCreate | AdmissionUpdate | AdmissionMutationOther string

fun AdmissionMutation_valid :: "AdmissionMutation \<Rightarrow> bool" where
  "AdmissionMutation_valid m = (m = AdmissionCreate \<or> m = AdmissionUpdate)"

record AdmissionIntent =
  ai_Mutation :: AdmissionMutation
  ai_Owner :: OwnerRef
  ai_ResourceType :: ResourceTypeRef

datatype QuotaDimension = QuotaOwnerResources | QuotaOwnerTypeResources | QuotaDimensionOther string

record ResourceCountConstraint =
  rcc_RuleID :: string
  rcc_Dimension :: QuotaDimension
  rcc_Limit :: uint64

record AdmissionPlan =
  pl_Intent :: AdmissionIntent
  pl_Revision :: string
  pl_CapabilityDenial :: "PolicyDenial option"
  pl_CountConstraints :: "ResourceCountConstraint list"

definition RequiresResourceCounts :: "AdmissionPlan \<Rightarrow> bool" where
  "RequiresResourceCounts p \<longleftrightarrow> length (pl_CountConstraints p) \<noteq> 0"

datatype AdmissionOutcome = AdmissionAllowed | AdmissionDenied | AdmissionOutcomeOther string

record AdmissionDecision =
  de_Outcome :: AdmissionOutcome
  de_Revision :: string
  de_Denial :: "PolicyDenial option"

record AdmissionPolicy =
  ap_Revision :: string
  ap_Plan :: "AdmissionIntent \<Rightarrow> AdmissionPlan result"
  ap_Decide :: "AdmissionPlan \<Rightarrow> ResourceCountFacts \<Rightarrow> AdmissionDecision result"

definition empty_facts :: ResourceCountFacts where
  "empty_facts = \<lparr>rcf_Available = False, rcf_Owner = \<lparr>owner_Kind = '''', owner_ID = ''''\<rparr>,
     rcf_ResourceType = \<lparr>tref_Name = '''', tref_Version = ''''\<rparr>, rcf_OwnerNonDeleted = 0, rcf_TypeNonDeleted = 0\<rparr>"

section \<open>No restrictions\<close>

definition complete_intent :: "AdmissionIntent \<Rightarrow> bool" where
  "complete_intent intent \<longleftrightarrow>
     AdmissionMutation_valid (ai_Mutation intent) \<and> owner_Kind (ai_Owner intent) \<noteq> '''' \<and>
     owner_ID (ai_Owner intent) \<noteq> '''' \<and> tref_Name (ai_ResourceType intent) \<noteq> '''' \<and>
     tref_Version (ai_ResourceType intent) \<noteq> ''''"

definition validateAdmissionIntent :: "AdmissionIntent \<Rightarrow> unit result" where
  "validateAdmissionIntent intent =
     (if \<not> complete_intent intent then Inl (ErrPolicyEvaluation ''admission intent is incomplete'') else Inr ())"

definition unrestricted_revision :: string where
  "unrestricted_revision =
     NewPolicyRevision ''{\"apiVersion\":\"liftr.dev/admission-policy/v1\",\"rules\":[]}''"

definition unrestricted_plan :: "AdmissionIntent \<Rightarrow> AdmissionPlan result" where
  "unrestricted_plan intent =
     bindE (validateAdmissionIntent intent) (\<lambda>_.
       Inr \<lparr>pl_Intent = intent, pl_Revision = unrestricted_revision, pl_CapabilityDenial = None,
            pl_CountConstraints = []\<rparr>)"

definition unrestricted_decide :: "AdmissionPlan \<Rightarrow> ResourceCountFacts \<Rightarrow> AdmissionDecision result" where
  "unrestricted_decide plan facts =
     (if pl_Revision plan \<noteq> unrestricted_revision \<or> length (pl_CountConstraints plan) \<noteq> 0 \<or>
         pl_CapabilityDenial plan \<noteq> None
      then Inl (ErrPolicyEvaluation ''invalid unrestricted admission plan'')
      else bindE (validateAdmissionIntent (pl_Intent plan)) (\<lambda>_.
        Inr \<lparr>de_Outcome = AdmissionAllowed, de_Revision = unrestricted_revision, de_Denial = None\<rparr>))"

definition NoRestrictionsAdmissionPolicy :: AdmissionPolicy where
  "NoRestrictionsAdmissionPolicy =
     \<lparr>ap_Revision = unrestricted_revision, ap_Plan = unrestricted_plan, ap_Decide = unrestricted_decide\<rparr>"

section \<open>Compiled rules\<close>

datatype ruleKind = kindCapabilityDeny | kindResourceQuota

fun rule_kind_string :: "ruleKind \<Rightarrow> string" where
  "rule_kind_string kindCapabilityDeny = ''capability-deny''"
| "rule_kind_string kindResourceQuota = ''resource-count-quota''"

fun mutation_string :: "AdmissionMutation \<Rightarrow> string" where
  "mutation_string AdmissionCreate = ''create''"
| "mutation_string AdmissionUpdate = ''update''"
| "mutation_string (AdmissionMutationOther m) = m"

record compiledRule =
  rule_ID :: string
  rule_Kind :: ruleKind
  rule_Owner :: "OwnerRef option"
  rule_ResourceType :: "ResourceTypeRef option"
  rule_Capabilities :: "AdmissionMutation list"
  rule_Limit :: uint64

record Policy =
  policy_revision :: string
  policy_rules :: "compiledRule list"

definition selectorKey :: "OwnerRef option \<Rightarrow> ResourceTypeRef option \<Rightarrow> string" where
  "selectorKey owner ref =
     (let fields = [''owner''] @ (case owner of None \<Rightarrow> [] | Some w \<Rightarrow> [owner_Kind w, owner_ID w]) @
          [''type''] @ (case ref of None \<Rightarrow> [] | Some t \<Rightarrow> [tref_Name t, tref_Version t])
      in concat (map (\<lambda>field. decimal (length field) @ '':'' @ field) fields))"

definition semanticKeys :: "compiledRule \<Rightarrow> string list" where
  "semanticKeys rule =
     (let selector = selectorKey (rule_Owner rule) (rule_ResourceType rule);
          kind = rule_kind_string (rule_Kind rule)
      in if rule_Kind rule = kindResourceQuota then [kind @ [CHR 0x00] @ selector]
         else map (\<lambda>capability. kind @ [CHR 0x00] @ selector @ [CHR 0x00] @ mutation_string capability)
                (rule_Capabilities rule))"

fun claim_keys :: "string \<Rightarrow> string list \<Rightarrow> (string, string) table \<Rightarrow> (string, string) table result" where
  "claim_keys rid [] semantics = Inr semantics"
| "claim_keys rid (key # keys) semantics =
     (if map_of semantics key \<noteq> None
      then Inl (ErrMessage ''rules duplicate the same semantic restriction'')
      else claim_keys rid keys (put key rid semantics))"

fun check_rules :: "compiledRule list \<Rightarrow> string list \<Rightarrow> (string, string) table \<Rightarrow> unit result" where
  "check_rules [] ids semantics = Inr ()"
| "check_rules (rule # rules) ids semantics =
     (if rule_ID rule \<in> set ids then Inl (ErrMessage ''rule ID is duplicated'')
      else bindE (claim_keys (rule_ID rule) (semanticKeys rule) semantics) (\<lambda>semantics'.
        check_rules rules (rule_ID rule # ids) semantics'))"

definition compile_policy :: "(compiledRule list \<Rightarrow> string result) \<Rightarrow> compiledRule list \<Rightarrow> Policy result" where
  "compile_policy marshal rules =
     bindE (check_rules rules [] []) (\<lambda>_.
     let sorted = sort_key (\<lambda>r. (rule_kind_string (rule_Kind r), rule_ID r)) rules in
     bindE (marshal sorted) (\<lambda>canonical.
     Inr \<lparr>policy_revision = NewPolicyRevision canonical, policy_rules = sorted\<rparr>))"

section \<open>Planning\<close>

definition matches :: "compiledRule \<Rightarrow> AdmissionIntent \<Rightarrow> bool" where
  "matches rule intent \<longleftrightarrow>
     (case rule_Owner rule of None \<Rightarrow> True | Some w \<Rightarrow> w = ai_Owner intent) \<and>
     (case rule_ResourceType rule of None \<Rightarrow> True | Some t \<Rightarrow> t = ai_ResourceType intent)"

definition rule_dimension :: "compiledRule \<Rightarrow> QuotaDimension" where
  "rule_dimension rule = (if rule_ResourceType rule \<noteq> None then QuotaOwnerTypeResources else QuotaOwnerResources)"

definition capability_denial :: "string \<Rightarrow> PolicyDenial" where
  "capability_denial rid = \<lparr>pd_Kind = PolicyDenialCapabilityDisabled, pd_RuleID = rid, pd_Measure = '''',
     pd_Current = 0, pd_Requested = 0, pd_Limit = 0\<rparr>"

definition tighten ::
    "ResourceCountConstraint \<Rightarrow> (QuotaDimension, ResourceCountConstraint) table
      \<Rightarrow> (QuotaDimension, ResourceCountConstraint) table" where
  "tighten candidate best =
     (case map_of best (rcc_Dimension candidate) of
        None \<Rightarrow> put (rcc_Dimension candidate) candidate best
      | Some current \<Rightarrow>
          if rcc_Limit candidate < rcc_Limit current \<or>
             rcc_Limit candidate = rcc_Limit current \<and> rcc_RuleID candidate < rcc_RuleID current
          then put (rcc_Dimension candidate) candidate best else best)"

definition plan_rule ::
    "AdmissionIntent \<Rightarrow> compiledRule \<Rightarrow> PolicyDenial option \<times> (QuotaDimension, ResourceCountConstraint) table
      \<Rightarrow> PolicyDenial option \<times> (QuotaDimension, ResourceCountConstraint) table" where
  "plan_rule intent rule acc =
     (if \<not> matches rule intent then acc
      else case rule_Kind rule of
        kindCapabilityDeny \<Rightarrow>
          (if ai_Mutation intent \<in> set (rule_Capabilities rule) \<and> fst acc = None
           then (Some (capability_denial (rule_ID rule)), snd acc) else acc)
      | kindResourceQuota \<Rightarrow>
          if ai_Mutation intent \<noteq> AdmissionCreate then acc
          else (fst acc, tighten \<lparr>rcc_RuleID = rule_ID rule, rcc_Dimension = rule_dimension rule,
                                  rcc_Limit = rule_Limit rule\<rparr> (snd acc)))"

definition Policy_Plan :: "Policy \<Rightarrow> AdmissionIntent \<Rightarrow> AdmissionPlan result" where
  "Policy_Plan p intent =
     (if policy_revision p = '''' \<or> \<not> complete_intent intent
      then Inl (ErrPolicyEvaluation ''invalid admission intent or policy'')
      else let acc = fold (plan_rule intent) (policy_rules p) (None, []) in
        Inr \<lparr>pl_Intent = intent, pl_Revision = policy_revision p, pl_CapabilityDenial = fst acc,
             pl_CountConstraints = List.map_filter (map_of (snd acc)) [QuotaOwnerResources, QuotaOwnerTypeResources]\<rparr>)"

section \<open>Deciding\<close>

definition fact_count :: "ResourceCountFacts \<Rightarrow> QuotaDimension \<Rightarrow> uint64 option" where
  "fact_count facts dimension =
     (case dimension of
        QuotaOwnerResources \<Rightarrow> Some (rcf_OwnerNonDeleted facts)
      | QuotaOwnerTypeResources \<Rightarrow> Some (rcf_TypeNonDeleted facts)
      | QuotaDimensionOther _ \<Rightarrow> None)"

fun decide_constraints ::
    "string \<Rightarrow> ResourceCountFacts \<Rightarrow> ResourceCountConstraint list \<Rightarrow> QuotaDimension list \<Rightarrow> AdmissionDecision result" where
  "decide_constraints revision facts [] seen =
     Inr \<lparr>de_Outcome = AdmissionAllowed, de_Revision = revision, de_Denial = None\<rparr>"
| "decide_constraints revision facts (constraint # rest) seen =
     (if rcc_Limit constraint = 0 \<or> rcc_RuleID constraint = ''''
        then Inl (ErrPolicyEvaluation ''malformed count constraint'')
      else if rcc_Dimension constraint \<in> set seen
        then Inl (ErrPolicyEvaluation ''duplicate count dimension'')
      else case fact_count facts (rcc_Dimension constraint) of
        None \<Rightarrow> Inl (ErrPolicyEvaluation ''unsupported quota dimension'')
      | Some current \<Rightarrow>
          if rcc_Limit constraint \<le> current
          then Inr \<lparr>de_Outcome = AdmissionDenied, de_Revision = revision,
                 de_Denial = Some \<lparr>pd_Kind = PolicyDenialQuotaExceeded, pd_RuleID = rcc_RuleID constraint,
                   pd_Measure = ''resource_count'', pd_Current = current, pd_Requested = 1,
                   pd_Limit = rcc_Limit constraint\<rparr>\<rparr>
          else decide_constraints revision facts rest (rcc_Dimension constraint # seen))"

definition Policy_Decide :: "Policy \<Rightarrow> AdmissionPlan \<Rightarrow> ResourceCountFacts \<Rightarrow> AdmissionDecision result" where
  "Policy_Decide p plan facts =
     (if pl_Revision plan \<noteq> policy_revision p \<or> \<not> AdmissionMutation_valid (ai_Mutation (pl_Intent plan))
        then Inl (ErrPolicyEvaluation ''admission plan does not belong to this policy'')
      else case pl_CapabilityDenial plan of
        Some denial \<Rightarrow>
          Inr \<lparr>de_Outcome = AdmissionDenied, de_Revision = policy_revision p, de_Denial = Some denial\<rparr>
      | None \<Rightarrow>
          if length (pl_CountConstraints plan) = 0
            then Inr \<lparr>de_Outcome = AdmissionAllowed, de_Revision = policy_revision p, de_Denial = None\<rparr>
          else if \<not> rcf_Available facts \<or> rcf_Owner facts \<noteq> ai_Owner (pl_Intent plan) \<or>
                  rcf_ResourceType facts \<noteq> ai_ResourceType (pl_Intent plan)
            then Inl (ErrPolicyEvaluation ''resource count facts are missing or dimensionally inconsistent'')
          else decide_constraints (policy_revision p) facts (pl_CountConstraints plan) [])"

definition rule_policy :: "Policy \<Rightarrow> AdmissionPolicy" where
  "rule_policy p = \<lparr>ap_Revision = policy_revision p, ap_Plan = Policy_Plan p, ap_Decide = Policy_Decide p\<rparr>"

section \<open>The decision as the service reads it\<close>

text \<open>The common end of the create and update admissions: the plan, the decision and its error.\<close>

definition plan_admission :: "AdmissionPolicy \<Rightarrow> AdmissionIntent \<Rightarrow> AdmissionPlan result" where
  "plan_admission policy intent =
     (case ap_Plan policy intent of
        Inl e \<Rightarrow> Inl (ErrPolicyEvaluation (err_text e)) | Inr plan \<Rightarrow> Inr plan)"

definition decide_admission :: "AdmissionPolicy \<Rightarrow> AdmissionPlan \<Rightarrow> ResourceCountFacts \<Rightarrow> string result" where
  "decide_admission policy plan facts =
     (case ap_Decide policy plan facts of
        Inl e \<Rightarrow> Inl (ErrPolicyEvaluation (err_text e))
      | Inr decision \<Rightarrow>
          if de_Outcome decision \<noteq> AdmissionAllowed
          then (case de_Denial decision of
                  None \<Rightarrow> Inl (ErrPolicyEvaluation ''denial omitted reason'')
                | Some denial \<Rightarrow> Inl (PolicyAdmissionError (de_Revision decision) denial))
          else Inr (de_Revision decision))"

text \<open>
  What the service relies on: plans and decisions carry the revision of the policy they come from,
  and a refusal always states its reason.
\<close>

locale admission_policy =
  fixes policy :: AdmissionPolicy
  assumes plan_revision: "ap_Plan policy intent = Inr plan \<Longrightarrow>
      pl_Revision plan = ap_Revision policy \<and> pl_Intent plan = intent"
    and decide_revision: "ap_Decide policy plan facts = Inr decision \<Longrightarrow> de_Revision decision = ap_Revision policy"
    and denial_reason: "\<lbrakk>ap_Decide policy plan facts = Inr decision; de_Outcome decision \<noteq> AdmissionAllowed\<rbrakk>
      \<Longrightarrow> de_Denial decision \<noteq> None"
begin

lemma admitted_revision:
  "decide_admission policy plan facts = Inr revision \<Longrightarrow> revision = ap_Revision policy"
  by (auto simp: decide_admission_def dest: decide_revision split: sum.splits if_splits option.splits)

lemma refusal_explained:
  assumes "decide_admission policy plan facts = Inl e"
  obtains (evaluation) e' where "ap_Decide policy plan facts = Inl e'" "e = ErrPolicyEvaluation (err_text e')"
  | (denied) denial decision where "ap_Decide policy plan facts = Inr decision"
      "de_Outcome decision \<noteq> AdmissionAllowed" "e = PolicyAdmissionError (ap_Revision policy) denial"
proof (cases "ap_Decide policy plan facts")
  case (Inl e')
  then show ?thesis using assms evaluation by (simp add: decide_admission_def)
next
  case (Inr decision)
  with assms have out: "de_Outcome decision \<noteq> AdmissionAllowed"
    by (auto simp: decide_admission_def split: if_splits)
  then obtain denial where "de_Denial decision = Some denial" using denial_reason [OF Inr] by blast
  with assms Inr out have "e = PolicyAdmissionError (ap_Revision policy) denial"
    by (simp add: decide_admission_def decide_revision [OF Inr])
  with Inr out show ?thesis by (rule denied)
qed

end

interpretation unrestricted: admission_policy NoRestrictionsAdmissionPolicy
  by unfold_locales
    (auto simp: NoRestrictionsAdmissionPolicy_def unrestricted_plan_def unrestricted_decide_def)

lemma decide_constraints_Inr:
  "decide_constraints revision facts cs seen = Inr decision \<Longrightarrow>
     de_Revision decision = revision \<and> (de_Outcome decision \<noteq> AdmissionAllowed \<longrightarrow> de_Denial decision \<noteq> None)"
  by (induction cs arbitrary: seen) (auto split: if_splits option.splits)

interpretation rules: admission_policy "rule_policy p" for p
  by unfold_locales
    (auto simp: rule_policy_def Policy_Plan_def Policy_Decide_def Let_def
      dest: decide_constraints_Inr split: if_splits option.splits)

section \<open>The decision is exact\<close>

text \<open>The meaning of a set of rules, without any choice of a tightest constraint.\<close>

definition rule_admits :: "AdmissionIntent \<Rightarrow> ResourceCountFacts \<Rightarrow> compiledRule \<Rightarrow> bool" where
  "rule_admits intent facts rule \<longleftrightarrow>
     (matches rule intent \<longrightarrow>
        (rule_Kind rule = kindCapabilityDeny \<longrightarrow> ai_Mutation intent \<notin> set (rule_Capabilities rule)) \<and>
        (rule_Kind rule = kindResourceQuota \<longrightarrow> ai_Mutation intent = AdmissionCreate \<longrightarrow>
           (if rule_ResourceType rule = None then rcf_OwnerNonDeleted facts else rcf_TypeNonDeleted facts)
             < rule_Limit rule))"

text \<open>What parsing a rule guarantees: a pattern-checked identifier and a positive limit of a quota.\<close>

definition wf_rule :: "compiledRule \<Rightarrow> bool" where
  "wf_rule rule \<longleftrightarrow> rule_ID rule \<noteq> '''' \<and> (rule_Kind rule = kindResourceQuota \<longrightarrow> rule_Limit rule \<noteq> 0)"

definition quota_candidates :: "AdmissionIntent \<Rightarrow> QuotaDimension \<Rightarrow> compiledRule list \<Rightarrow> compiledRule list" where
  "quota_candidates intent dimension rules = filter (\<lambda>r. matches r intent \<and> rule_Kind r = kindResourceQuota \<and>
     ai_Mutation intent = AdmissionCreate \<and> rule_dimension r = dimension) rules"

text \<open>The invariant of the planning loop: what the accumulated table holds for a dimension.\<close>

definition tightest :: "compiledRule list \<Rightarrow> ResourceCountConstraint option \<Rightarrow> bool" where
  "tightest candidates c \<longleftrightarrow>
     (case c of
        None \<Rightarrow> candidates = []
      | Some k \<Rightarrow> (\<exists>r \<in> set candidates. rcc_RuleID k = rule_ID r \<and> rcc_Limit k = rule_Limit r) \<and>
          (\<forall>r \<in> set candidates. rcc_Limit k \<le> rule_Limit r))"

lemma tighten_tightest:
  assumes "tightest (quota_candidates intent d rules) (map_of best d)"
  shows "tightest (quota_candidates intent d (rules @ [rule])) (map_of (snd (plan_rule intent rule (x, best))) d)"
proof (cases "quota_candidates intent d [rule] = []")
  case True
  have same: "map_of (snd (plan_rule intent rule (x, best))) d = map_of best d"
    using True by (auto simp: plan_rule_def quota_candidates_def tighten_def split: ruleKind.splits option.splits if_splits)
  show ?thesis using assms True by (simp add: same) (simp add: quota_candidates_def split: if_splits)
next
  case False
  let ?k = "\<lparr>rcc_RuleID = rule_ID rule, rcc_Dimension = d, rcc_Limit = rule_Limit rule\<rparr>"
  have rule: "matches rule intent" "rule_Kind rule = kindResourceQuota" "ai_Mutation intent = AdmissionCreate"
    "rule_dimension rule = d" using False by (auto simp: quota_candidates_def split: if_splits)
  have new: "snd (plan_rule intent rule (x, best)) = tighten ?k best" by (simp add: plan_rule_def rule)
  have cands: "quota_candidates intent d (rules @ [rule]) = quota_candidates intent d rules @ [rule]"
    by (simp add: quota_candidates_def rule)
  show ?thesis
  proof (cases "map_of best d")
    case None
    then show ?thesis using assms by (simp add: new cands tightest_def tighten_def)
  next
    case (Some k)
    show ?thesis
      using assms by (auto simp: new cands tightest_def tighten_def Some split: if_splits)
  qed
qed

lemma plan_rules_tightest:
  "tightest (quota_candidates intent d rules) (map_of (snd (fold (plan_rule intent) rules (None, []))) d)"
proof (induction rules rule: rev_induct)
  case Nil
  then show ?case by (simp add: tightest_def quota_candidates_def)
next
  case (snoc rule rules)
  then show ?case
    using tighten_tightest [of intent d rules "snd (fold (plan_rule intent) rules (None, []))" rule
        "fst (fold (plan_rule intent) rules (None, []))"] by simp
qed

lemma plan_rules_denial:
  "(fst (fold (plan_rule intent) rules (None, [])) = None \<longleftrightarrow>
     (\<forall>r \<in> set rules. matches r intent \<and> rule_Kind r = kindCapabilityDeny \<longrightarrow>
        ai_Mutation intent \<notin> set (rule_Capabilities r))) \<and>
   (\<forall>denial. fst (fold (plan_rule intent) rules (None, [])) = Some denial \<longrightarrow>
      (\<exists>r \<in> set rules. denial = capability_denial (rule_ID r) \<and> matches r intent \<and>
         rule_Kind r = kindCapabilityDeny \<and> ai_Mutation intent \<in> set (rule_Capabilities r)))"
proof (induction rules rule: rev_induct)
  case (snoc rule rules)
  let ?acc = "fold (plan_rule intent) rules (None, [])"
  have step: "fst (plan_rule intent rule ?acc) =
      (if fst ?acc = None \<and> matches rule intent \<and> rule_Kind rule = kindCapabilityDeny \<and>
          ai_Mutation intent \<in> set (rule_Capabilities rule)
       then Some (capability_denial (rule_ID rule)) else fst ?acc)"
    by (auto simp: plan_rule_def split: ruleKind.splits)
  show ?case using snoc by (simp add: step) blast
qed simp

lemma candidates_admit:
  "(\<forall>r \<in> set rules. rule_admits intent facts r) \<longleftrightarrow>
     (\<forall>r \<in> set rules. matches r intent \<and> rule_Kind r = kindCapabilityDeny \<longrightarrow>
        ai_Mutation intent \<notin> set (rule_Capabilities r)) \<and>
     (\<forall>r \<in> set (quota_candidates intent QuotaOwnerResources rules). rcf_OwnerNonDeleted facts < rule_Limit r) \<and>
     (\<forall>r \<in> set (quota_candidates intent QuotaOwnerTypeResources rules). rcf_TypeNonDeleted facts < rule_Limit r)"
  by (auto simp: rule_admits_def quota_candidates_def rule_dimension_def)

text \<open>One constraint decides for all candidates of its dimension.\<close>

lemma tightest_admits:
  assumes "tightest candidates (Some k)"
  shows "(\<forall>r \<in> set candidates. n < rule_Limit r) \<longleftrightarrow> n < rcc_Limit k"
    and "rcc_Limit k \<le> n \<Longrightarrow> \<exists>r \<in> set candidates. rcc_RuleID k = rule_ID r \<and> \<not> n < rule_Limit r"
  using assms unfolding tightest_def by (auto simp: not_less intro: less_le_trans)

lemma tightest_wf:
  assumes "tightest candidates (Some k)" "\<forall>r \<in> set candidates. wf_rule r \<and> rule_Kind r = kindResourceQuota"
  shows "rcc_Limit k \<noteq> 0 \<and> rcc_RuleID k \<noteq> ''''"
  using assms unfolding tightest_def wf_rule_def by fastforce

lemma planned_dimension:
  "map_of (snd (fold (plan_rule intent) rules (None, []))) d = Some k \<Longrightarrow> rcc_Dimension k = d"
proof (induction rules arbitrary: k rule: rev_induct)
  case (snoc rule rules)
  then show ?case by (auto simp: plan_rule_def tighten_def split: ruleKind.splits option.splits if_splits)
qed simp

lemma compile_policy_Inr:
  assumes "compile_policy marshal rules = Inr p"
  shows "set (policy_rules p) = set rules" "policy_revision p \<noteq> ''''"
  using assms by (auto simp: compile_policy_def NewPolicyRevision_def Let_def)

section \<open>Properties\<close>

text \<open>
  A policy that was compiled from well-formed rules decides every complete intent, with the facts
  of its own owner and type, exactly as its rules mean it. Planning and deciding never fail; the
  intent is admitted if and only if every matching rule admits it, although the plan keeps only one
  constraint per dimension; the decision carries the revision of the policy, and the denial of a
  refusal names a rule that really forbids the intent.
\<close>

theorem policy_decision_exact:
  assumes "compile_policy marshal rules = Inr p" "list_all wf_rule rules" "complete_intent intent"
    and "rcf_Available facts" "rcf_Owner facts = ai_Owner intent" "rcf_ResourceType facts = ai_ResourceType intent"
  shows "\<exists>plan decision. Policy_Plan p intent = Inr plan \<and> Policy_Decide p plan facts = Inr decision \<and>
    de_Revision decision = policy_revision p \<and>
    (de_Outcome decision = AdmissionAllowed \<longleftrightarrow> (\<forall>r \<in> set rules. rule_admits intent facts r)) \<and>
    (de_Outcome decision = AdmissionAllowed \<longleftrightarrow> de_Denial decision = None) \<and>
    (\<forall>denial. de_Denial decision = Some denial \<longrightarrow>
       (\<exists>r \<in> set rules. pd_RuleID denial = rule_ID r \<and> \<not> rule_admits intent facts r))"
proof -
  note rules = compile_policy_Inr [OF assms(1)]
  let ?acc = "fold (plan_rule intent) (policy_rules p) (None, [])"
  let ?own = "quota_candidates intent QuotaOwnerResources (policy_rules p)"
  let ?tref = "quota_candidates intent QuotaOwnerTypeResources (policy_rules p)"
  define k1 k2 where "k1 = map_of (snd ?acc) QuotaOwnerResources" and "k2 = map_of (snd ?acc) QuotaOwnerTypeResources"
  have t1: "tightest ?own k1" and t2: "tightest ?tref k2" by (simp_all add: k1_def k2_def plan_rules_tightest)
  have wf: "\<forall>r \<in> set ?own \<union> set ?tref. wf_rule r \<and> rule_Kind r = kindResourceQuota"
    using assms(2) rules(1) by (auto simp: quota_candidates_def list_all_iff)
  have dim: "k1 = Some k \<Longrightarrow> rcc_Dimension k = QuotaOwnerResources"
    "k2 = Some k \<Longrightarrow> rcc_Dimension k = QuotaOwnerTypeResources" for k
    by (simp_all add: k1_def k2_def planned_dimension)
  have wk: "k1 = Some k \<Longrightarrow> rcc_Limit k \<noteq> 0 \<and> rcc_RuleID k \<noteq> ''''"
    "k2 = Some k \<Longrightarrow> rcc_Limit k \<noteq> 0 \<and> rcc_RuleID k \<noteq> ''''" for k
    using tightest_wf [of ?own k] tightest_wf [of ?tref k] t1 t2 wf by auto
  define plan where "plan = \<lparr>pl_Intent = intent, pl_Revision = policy_revision p, pl_CapabilityDenial = fst ?acc,
    pl_CountConstraints = List.map_filter (map_of (snd ?acc)) [QuotaOwnerResources, QuotaOwnerTypeResources]\<rparr>"
  have plan: "Policy_Plan p intent = Inr plan"
    using assms(3) rules(2) by (simp add: Policy_Plan_def plan_def Let_def)
  have cs: "pl_CountConstraints plan = (case k1 of None \<Rightarrow> [] | Some k \<Rightarrow> [k]) @ (case k2 of None \<Rightarrow> [] | Some k \<Rightarrow> [k])"
    by (simp add: plan_def k1_def k2_def map_filter_simps split: option.split)
  note denial = plan_rules_denial [of intent "policy_rules p", unfolded rules(1)]
  have quotas: "(\<forall>r \<in> set ?own. n < rule_Limit r) \<longleftrightarrow> (\<forall>k. k1 = Some k \<longrightarrow> n < rcc_Limit k)"
    "(\<forall>r \<in> set ?tref. n < rule_Limit r) \<longleftrightarrow> (\<forall>k. k2 = Some k \<longrightarrow> n < rcc_Limit k)" for n
    using t1 t2 tightest_admits(1) by (cases k1; cases k2; simp add: tightest_def [of _ None])+
  have admits: "(\<forall>r \<in> set rules. rule_admits intent facts r) \<longleftrightarrow> fst ?acc = None \<and>
      (\<forall>k. k1 = Some k \<longrightarrow> rcf_OwnerNonDeleted facts < rcc_Limit k) \<and>
      (\<forall>k. k2 = Some k \<longrightarrow> rcf_TypeNonDeleted facts < rcc_Limit k)"
    using candidates_admit [of "policy_rules p" intent facts] denial quotas by (simp add: rules(1))
  have forbids: "k1 = Some k \<Longrightarrow> rcc_Limit k \<le> rcf_OwnerNonDeleted facts \<Longrightarrow>
      \<exists>r \<in> set rules. rcc_RuleID k = rule_ID r \<and> \<not> rule_admits intent facts r"
    "k2 = Some k \<Longrightarrow> rcc_Limit k \<le> rcf_TypeNonDeleted facts \<Longrightarrow>
      \<exists>r \<in> set rules. rcc_RuleID k = rule_ID r \<and> \<not> rule_admits intent facts r" for k
    using t1 t2 tightest_admits(2) [of ?own k "rcf_OwnerNonDeleted facts"]
      tightest_admits(2) [of ?tref k "rcf_TypeNonDeleted facts"] rules(1)
    by (fastforce simp: rule_admits_def quota_candidates_def rule_dimension_def split: if_splits)+
  show ?thesis
  proof (cases "fst ?acc")
    case None
    have "Policy_Decide p plan facts = decide_constraints (policy_revision p) facts (pl_CountConstraints plan) []"
    proof -
      have "pl_Revision plan = policy_revision p" "pl_Intent plan = intent" "pl_CapabilityDenial plan = None"
        using None by (simp_all add: plan_def)
      then show ?thesis
        using assms(3-6) by (cases "pl_CountConstraints plan") (auto simp: Policy_Decide_def complete_intent_def)
    qed
    then show ?thesis
      using plan dim wk forbids None by (cases k1; cases k2) (auto simp: cs admits fact_count_def not_less)
  next
    case (Some refused)
    then obtain r where "r \<in> set rules" "refused = capability_denial (rule_ID r)" "\<not> rule_admits intent facts r"
      using denial by (auto simp: rule_admits_def)
    moreover have "Policy_Decide p plan facts =
        Inr \<lparr>de_Outcome = AdmissionDenied, de_Revision = policy_revision p, de_Denial = Some refused\<rparr>"
      using Some assms(3) by (simp add: Policy_Decide_def plan_def complete_intent_def)
    ultimately show ?thesis using plan by (auto simp: capability_denial_def)
  qed
qed

definition example_rules :: "compiledRule list" where
  "example_rules =
     [\<lparr>rule_ID = ''cap'', rule_Kind = kindResourceQuota, rule_Owner = None, rule_ResourceType = None,
       rule_Capabilities = [], rule_Limit = 5\<rparr>,
      \<lparr>rule_ID = ''tight'', rule_Kind = kindResourceQuota,
       rule_Owner = Some \<lparr>owner_Kind = ''team'', owner_ID = ''a''\<rparr>, rule_ResourceType = None,
       rule_Capabilities = [], rule_Limit = 2\<rparr>]"

definition example_intent :: AdmissionIntent where
  "example_intent = \<lparr>ai_Mutation = AdmissionCreate, ai_Owner = \<lparr>owner_Kind = ''team'', owner_ID = ''a''\<rparr>,
     ai_ResourceType = \<lparr>tref_Name = ''db'', tref_Version = ''v1''\<rparr>\<rparr>"

definition example_facts :: ResourceCountFacts where
  "example_facts = \<lparr>rcf_Available = True, rcf_Owner = ai_Owner example_intent,
     rcf_ResourceType = ai_ResourceType example_intent, rcf_OwnerNonDeleted = 2, rcf_TypeNonDeleted = 0\<rparr>"

lemma example_rules_compile: "\<exists>p. compile_policy (\<lambda>_. Inr []) example_rules = Inr p"
  by (simp add: compile_policy_def example_rules_def semanticKeys_def selectorKey_def Let_def)

theorem policy_decision_exact_witness:
  "\<exists>p plan decision. compile_policy (\<lambda>_. Inr []) example_rules = Inr p \<and>
     Policy_Plan p example_intent = Inr plan \<and> Policy_Decide p plan example_facts = Inr decision \<and>
     de_Outcome decision \<noteq> AdmissionAllowed"
proof -
  obtain p where p: "compile_policy (\<lambda>_. Inr []) example_rules = Inr p" using example_rules_compile by blast
  have wf: "list_all wf_rule example_rules" by (simp add: example_rules_def wf_rule_def)
  have intent: "complete_intent example_intent" by (simp add: complete_intent_def example_intent_def)
  have "\<not> (\<forall>r \<in> set example_rules. rule_admits example_intent example_facts r)"
    by (simp add: example_rules_def rule_admits_def matches_def example_intent_def example_facts_def)
  then show ?thesis
    using policy_decision_exact [OF p wf intent, of example_facts] p by (auto simp: example_facts_def)
qed

end
