(* ===== verification/Fingerprint.thy ===== *)
theory Fingerprint
  imports Policy Dependencies
begin

text \<open>
  Commands, their fingerprints and the check of a specification against its resource type:
  \<^verbatim>\<open>internal/application/fingerprint.go\<close>, \<^verbatim>\<open>internal/application/resourcetype.go\<close>,
  \<^verbatim>\<open>internal/resourcecontract/validation.go\<close> and the command types of \<^verbatim>\<open>application.go\<close>.

  The bit patterns of floating-point numbers (\<^verbatim>\<open>math.Float32bits\<close>, \<^verbatim>\<open>math.Float64bits\<close>) and the JSON
  encoder are arguments. A Go map is encoded by its members in key order, which is what
  \<^verbatim>\<open>json.Marshal\<close> writes.
\<close>

section \<open>Commands\<close>

record CreateResourceCommand =
  cc_Actor :: Principal
  cc_ID :: resource_id
  cc_Type :: ResourceTypeRef
  cc_Owner :: OwnerRef
  cc_Spec :: ResourceSpec
  cc_References :: "(string, string list) table"
  cc_OperationID :: operation_id
  cc_EventID :: event_id
  cc_RequestedAt :: time
  cc_IdempotencyKey :: string

record UpdateResourceCommand =
  uc_Actor :: Principal
  uc_ID :: resource_id
  uc_ExpectedGeneration :: uint64
  uc_Spec :: ResourceSpec
  uc_ReferencesPresent :: bool
  uc_References :: "(string, string list) table"
  uc_OperationID :: operation_id
  uc_EventID :: event_id
  uc_RequestedAt :: time
  uc_IdempotencyKey :: string

record DeleteResourceCommand =
  dc_Actor :: Principal
  dc_ID :: resource_id
  dc_ExpectedGeneration :: uint64
  dc_OperationID :: operation_id
  dc_EventID :: event_id
  dc_RequestedAt :: time
  dc_IdempotencyKey :: string

record RetryOperationCommand =
  tc_Actor :: Principal
  tc_OperationID :: operation_id
  tc_ExpectedGeneration :: uint64
  tc_NewOperationID :: operation_id
  tc_EventID :: event_id
  tc_RequestedAt :: time
  tc_IdempotencyKey :: string

section \<open>Encoding of specifications\<close>

datatype fingerprintNode =
    FingerprintNode string "string option" "(string \<times> fingerprintNode) list" "fingerprintNode list"

record fingerprint_codec =
  fc_Float32bits :: "float_value \<Rightarrow> word32"
  fc_Float64bits :: "float_value \<Rightarrow> uint64"
  fc_Marshal :: "fingerprintNode \<Rightarrow> string result"

definition putUint32 :: "word32 \<Rightarrow> nat list" where
  "putUint32 w = map (\<lambda>i. unat w div 256 ^ i mod 256) [3, 2, 1, 0]"

definition putUint64 :: "uint64 \<Rightarrow> nat list" where
  "putUint64 w = map (\<lambda>i. unat w div 256 ^ i mod 256) [7, 6, 5, 4, 3, 2, 1, 0]"

fun int_type_name :: "int_type \<Rightarrow> string" where
  "int_type_name GoInt = ''int''" | "int_type_name GoInt8 = ''int8''"
| "int_type_name GoInt16 = ''int16''" | "int_type_name GoInt32 = ''int32''"
| "int_type_name GoInt64 = ''int64''" | "int_type_name GoUint = ''uint''"
| "int_type_name GoUint8 = ''uint8''" | "int_type_name GoUint16 = ''uint16''"
| "int_type_name GoUint32 = ''uint32''" | "int_type_name GoUint64 = ''uint64''"

definition format_int :: "int \<Rightarrow> string" where
  "format_int n = (if n < 0 then CHR ''-'' # decimal (nat (- n)) else decimal (nat n))"

definition scalar :: "string \<Rightarrow> string \<Rightarrow> fingerprintNode" where
  "scalar kind value = FingerprintNode kind (Some value) [] []"

fun encodeFingerprintValue :: "fingerprint_codec \<Rightarrow> any \<Rightarrow> fingerprintNode result"
  and encode_object :: "fingerprint_codec \<Rightarrow> (string \<times> any) list \<Rightarrow> (string \<times> fingerprintNode) list result"
  and encode_list :: "fingerprint_codec \<Rightarrow> any list \<Rightarrow> fingerprintNode list result" where
  "encodeFingerprintValue c GoNil = Inr (FingerprintNode ''null'' None [] [])"
| "encodeFingerprintValue c (GoBool b) = Inr (scalar ''bool'' (if b then ''true'' else ''false''))"
| "encodeFingerprintValue c (GoString s) = Inr (scalar ''string'' s)"
| "encodeFingerprintValue c (GoInteger t n) = Inr (scalar (int_type_name t) (format_int n))"
| "encodeFingerprintValue c (GoFloat32 f) =
     Inr (scalar ''float32'' (hex_bytes (putUint32 (fc_Float32bits c f))))"
| "encodeFingerprintValue c (GoFloat64 f) =
     Inr (scalar ''float64'' (hex_bytes (putUint64 (fc_Float64bits c f))))"
| "encodeFingerprintValue c (GoMap m) =
     bindE (encode_object c m) (\<lambda>object. Inr (FingerprintNode ''object'' None (sort_key fst object) []))"
| "encodeFingerprintValue c (GoSlice xs) =
     bindE (encode_list c xs) (\<lambda>nodes. Inr (FingerprintNode ''list'' None [] nodes))"
| "encodeFingerprintValue c (GoOther s) = Inl (ErrMessage ''unsupported resource spec value'')"
| "encode_object c [] = Inr []"
| "encode_object c ((key, value) # m) =
     bindE (encodeFingerprintValue c value) (\<lambda>encoded.
     bindE (encode_object c m) (\<lambda>rest. Inr ((key, encoded) # rest)))"
| "encode_list c [] = Inr []"
| "encode_list c (x # xs) =
     bindE (encodeFingerprintValue c x) (\<lambda>node. bindE (encode_list c xs) (\<lambda>nodes. Inr (node # nodes)))"

text \<open>\<^verbatim>\<open>Values\<close> panics on a specification that cannot be cloned; a constructed one always can.\<close>

definition canonicalSpec :: "fingerprint_codec \<Rightarrow> ResourceSpec \<Rightarrow> string result" where
  "canonicalSpec c spec =
     (case ResourceSpec_Values spec of
        None \<Rightarrow> Inl (ErrMessage ''cannot clone the resource spec'')
      | Some values \<Rightarrow>
          bindE (encodeFingerprintValue c (GoMap values)) (\<lambda>node. fc_Marshal c node))"

section \<open>Fingerprints\<close>

definition canonicalReferenceEdges :: "ReferenceEdge list \<Rightarrow> string" where
  "canonicalReferenceEdges edges = sha256_hex (writeFramed ''refs-v1'' @
     writeFramed (decimal (length edges)) @
     concat (map (\<lambda>e. writeFramed (edge_Slot e) @ writeFramed (edge_TargetID e)) edges))"

definition fingerprintHash :: "string list \<Rightarrow> string" where
  "fingerprintHash parts = sha256_hex (concat (map writeFramed parts))"

definition createCommandFingerprint :: "fingerprint_codec \<Rightarrow> CreateResourceCommand \<Rightarrow> string result" where
  "createCommandFingerprint c cmd =
     bindE (canonicalSpec c (cc_Spec cmd)) (\<lambda>spec.
     bindE (CanonicalizeReferences (cc_References cmd)) (\<lambda>edges.
     Inr (fingerprintHash [''create'', cc_ID cmd, tref_Name (cc_Type cmd), tref_Version (cc_Type cmd),
       owner_Kind (cc_Owner cmd), owner_ID (cc_Owner cmd), spec, canonicalReferenceEdges edges])))"

definition updateCommandFingerprint :: "fingerprint_codec \<Rightarrow> UpdateResourceCommand \<Rightarrow> string result" where
  "updateCommandFingerprint c cmd =
     bindE (canonicalSpec c (uc_Spec cmd)) (\<lambda>spec.
     bindE (if uc_ReferencesPresent cmd
            then bindE (CanonicalizeReferences (uc_References cmd)) (\<lambda>edges. Inr (canonicalReferenceEdges edges))
            else Inr ''absent'') (\<lambda>referencePart.
     Inr (fingerprintHash [''update'', uc_ID cmd, decimal64 (uc_ExpectedGeneration cmd), spec, referencePart])))"

definition deleteCommandFingerprint :: "DeleteResourceCommand \<Rightarrow> string" where
  "deleteCommandFingerprint cmd =
     fingerprintHash [''delete'', dc_ID cmd, decimal64 (dc_ExpectedGeneration cmd)]"

definition retryCommandFingerprint :: "RetryOperationCommand \<Rightarrow> string" where
  "retryCommandFingerprint cmd =
     fingerprintHash [''retry-operation-v1'', tc_OperationID cmd, decimal64 (tc_ExpectedGeneration cmd)]"

section \<open>Specification checks\<close>

record TypeContract = ResourceContract +
  tc_Domain :: ResourceType
  tc_ValidateSpec :: "ResourceSpec \<Rightarrow> unit result"
  tc_ValidateUpdate :: "ResourceSpec \<Rightarrow> ResourceSpec \<Rightarrow> unit result"

definition MaxSpecViolations :: nat where "MaxSpecViolations = 10"

definition SortViolations :: "SpecViolation list \<Rightarrow> SpecViolation list" where
  "SortViolations vs = sort_key (\<lambda>v. (sv_Path v, sv_Keyword v, sv_Message v)) vs"

definition NewValidationError :: "ResourceTypeRef \<Rightarrow> SpecViolation list \<Rightarrow> error" where
  "NewValidationError ref violations =
     ValidationError (tref_Name ref) (tref_Version ref) (SortViolations (remdups violations))"

definition NewInvalidSpecError :: "ResourceTypeRef \<Rightarrow> SpecViolation list \<Rightarrow> error" where
  "NewInvalidSpecError ref violations =
     (let unique = SortViolations (remdups violations) in
      InvalidSpecError (tref_Name ref) (tref_Version ref)
        (if MaxSpecViolations < length unique then take MaxSpecViolations unique else unique)
        (MaxSpecViolations < length unique))"

fun asContractRejection :: "error \<Rightarrow> error option" where
  "asContractRejection (ValidationError name version vs) =
     Some (NewInvalidSpecError \<lparr>tref_Name = name, tref_Version = version\<rparr> vs)"
| "asContractRejection (InvalidSpecError name version vs truncated) =
     Some (InvalidSpecError name version vs truncated)"
| "asContractRejection _ = None"

text \<open>Wrapping with \<^verbatim>\<open>%w\<close> keeps the sentinel and extends the message, which is left out.\<close>

definition contract_answer :: "unit result \<Rightarrow> unit result" where
  "contract_answer answer =
     (case answer of
        Inr _ \<Rightarrow> Inr ()
      | Inl e \<Rightarrow> (case asContractRejection e of Some invalid \<Rightarrow> Inl invalid | None \<Rightarrow> Inl e))"

definition validateCommandSpec :: "TypeContract \<Rightarrow> ResourceSpec \<Rightarrow> unit result" where
  "validateCommandSpec contract spec = contract_answer (tc_ValidateSpec contract spec)"

definition validateCommandTransition :: "TypeContract \<Rightarrow> ResourceSpec \<Rightarrow> ResourceSpec \<Rightarrow> unit result" where
  "validateCommandTransition contract oldSpec newSpec = contract_answer (tc_ValidateUpdate contract oldSpec newSpec)"

section \<open>A rejection is bounded and canonical\<close>

definition violation_key :: "SpecViolation \<Rightarrow> string \<times> string \<times> string" where
  "violation_key v = (sv_Path v, sv_Keyword v, sv_Message v)"

lemma violation_key_inj: "inj_on violation_key A"
  by (rule inj_onI) (simp add: violation_key_def)

lemma SortViolations_key: "SortViolations vs = sort_key violation_key vs"
  by (simp add: SortViolations_def violation_key_def [abs_def])

text \<open>The reported violations depend on the set of violations only, not on the order they were found in.\<close>

lemma SortViolations_set:
  assumes "set vs = set ws"
  shows "SortViolations (remdups vs) = SortViolations (remdups ws)"
  unfolding SortViolations_key
proof (rule sort_key_inj_key_eq)
  show "mset (remdups vs) = mset (sort_key violation_key (remdups ws))"
    using assms by (simp add: set_eq_iff_mset_remdups_eq [symmetric])
qed (simp_all add: violation_key_inj)

lemma spec_rejection_bounded:
  assumes "tc_ValidateSpec contract spec = Inl (NewValidationError ref vs)"
  obtains reported truncated where
    "validateCommandSpec contract spec = Inl (InvalidSpecError (tref_Name ref) (tref_Version ref) reported truncated)"
    "length reported \<le> MaxSpecViolations" "distinct reported" "set reported \<subseteq> set vs"
    "truncated \<longleftrightarrow> MaxSpecViolations < card (set vs)" "\<not> truncated \<Longrightarrow> set reported = set vs"
proof -
  let ?u = "SortViolations (remdups (SortViolations (remdups vs)))"
  have u: "distinct ?u" "set ?u = set vs" by (simp_all add: SortViolations_def)
  then have len: "length ?u = card (set vs)" by (metis distinct_card)
  have "validateCommandSpec contract spec = Inl (InvalidSpecError (tref_Name ref) (tref_Version ref)
      (take MaxSpecViolations ?u) (MaxSpecViolations < card (set vs)))"
    using len by (simp add: validateCommandSpec_def contract_answer_def assms NewValidationError_def NewInvalidSpecError_def Let_def)
  then show ?thesis
    by (rule that) (use u len set_take_subset [of MaxSpecViolations ?u] in auto)
qed

section \<open>Fingerprints separate commands\<close>

lemma fingerprintHash_separates:
  assumes "list_all frameable ps" "list_all frameable qs" "fingerprintHash ps = fingerprintHash qs"
  shows "ps = qs \<or> concat (map writeFramed ps) \<noteq> concat (map writeFramed qs) \<and>
    sha256_hex (concat (map writeFramed ps)) = sha256_hex (concat (map writeFramed qs))"
  using assms framed_parts_inj [of ps qs] by (auto simp: fingerprintHash_def)

text \<open>The order in which a client lists its references does not matter to the fingerprint.\<close>

lemma fingerprint_reference_order:
  "CanonicalizeReferences refs = CanonicalizeReferences (cc_References cmd) \<Longrightarrow>
     createCommandFingerprint c (cmd\<lparr>cc_References := refs\<rparr>) = createCommandFingerprint c cmd"
  by (simp add: createCommandFingerprint_def)

end
