(* ===== verification/Admission.thy ===== *)
theory Admission
  imports Worker_Execution Fingerprint
begin

text \<open>
  Admission of create, update, delete and retry requests: the functions \<^verbatim>\<open>Admit...\<close>,
  \<^verbatim>\<open>persistCreateRequest\<close>, \<^verbatim>\<open>persistExistingRequest\<close>, \<^verbatim>\<open>persistRetryRequest\<close>, \<^verbatim>\<open>replayWithin\<close> and their
  helpers in \<^verbatim>\<open>internal/application/application.go\<close>.

  The ports of the service (catalog, selector, resolver, authorizer, policy) are fields of \<open>Service\<close>,
  so every theorem holds for all of them; \<open>svc_Now\<close> is the clock the queue reads. One transaction is
  one function on the store; \<open>Within\<close> commits it or drops its effects.
\<close>

section \<open>The service\<close>

record RecoveryProvider = Provider +
  rp_SelectOutputRecoveryMapping :: "(ResourceTypeRef \<Rightarrow> capability \<Rightarrow> string \<Rightarrow> string \<times> bool) option"

record Service =
  svc_Types :: "ResourceTypeRef \<Rightarrow> TypeContract result"
  svc_Selector :: "ResourceTypeRef \<Rightarrow> capability \<Rightarrow> string result"
  svc_Resolver :: "string \<Rightarrow> RecoveryProvider option"
  svc_Authorizer :: "Authorizer option"
  svc_AdmissionPolicy :: AdmissionPolicy
  svc_Codec :: fingerprint_codec
  svc_Now :: time

record Result =
  res_Resource :: ResourceRecord
  res_Operation :: Operation
  res_Execution :: "ProvisioningExecutionRecord option"
  res_Event :: "Event option"
  res_Replay :: bool
  res_OutputsPending :: bool

definition wrapE :: "(string \<Rightarrow> error) \<Rightarrow> 'a result \<Rightarrow> 'a result" where
  "wrapE sentinel r = (case r of Inl e \<Rightarrow> Inl (sentinel (err_text e)) | Inr x \<Rightarrow> Inr x)"

definition wrapT :: "(string \<Rightarrow> error) \<Rightarrow> 'a tx \<Rightarrow> 'a tx" where
  "wrapT sentinel m = (\<lambda>s. case m s of (r, s') \<Rightarrow> (wrapE sentinel r, s'))"

definition NewProvisionerRef :: "string \<Rightarrow> string result" where
  "NewProvisionerRef value =
     (if blank value then Inl (ErrMessage ''provisioner reference is required'') else Inr value)"

section \<open>Replay\<close>

definition find_idempotency :: "string \<Rightarrow> string \<Rightarrow> IdempotencyRecord option tx" where
  "find_idempotency scope key = (\<lambda>s. case GetIdempotency scope key s of
       (Inl (ErrIdempotencyNotFound _), s') \<Rightarrow> (Inr None, s')
     | (Inl e, s') \<Rightarrow> (Inl e, s')
     | (Inr existing, s') \<Rightarrow> (Inr (Some existing), s'))"

definition replay_recorded :: "string \<Rightarrow> IdempotencyRecord \<Rightarrow> Result tx" where
  "replay_recorded key existing =
     bindT (GetResource (idem_ResourceID existing)) (\<lambda>resource.
     bindT (GetOperation (idem_OperationID existing)) (\<lambda>op.
     if idem_Key existing \<noteq> key \<or> idem_OperationID existing \<noteq> op_id (or_Operation op) \<or>
        idem_ResourceID existing \<noteq> resource_id (rr_Resource resource) \<or>
        op_resourceID (or_Operation op) \<noteq> resource_id (rr_Resource resource)
     then throwT (ErrInvalidApplicationCall ''idempotency record associations are inconsistent'')
     else bindT (GetExecution (idem_OperationID existing)) (\<lambda>execution.
     bindT (liftT (validateExecutionContext resource (or_Operation op) execution)) (\<lambda>_.
     bindT (if IsTerminal (or_Operation op) \<or> \<not> IsOutputRecovery execution \<and>
               (ex_State execution = AttemptSucceeded \<or> ex_State execution = AttemptFailed)
            then liftT (validatePersistedTerminalEvidence execution (rr_Resource resource) (rr_Status resource)
                          (or_Operation op))
            else returnT ()) (\<lambda>_.
     returnT \<lparr>res_Resource = resource, res_Operation = or_Operation op, res_Execution = Some execution,
              res_Event = None, res_Replay = True, res_OutputsPending = False\<rparr>)))))"

definition replayWithin :: "string \<Rightarrow> string \<Rightarrow> string \<Rightarrow> string \<Rightarrow> Result option tx" where
  "replayWithin scope key fingerprint commandKind =
     (if key = '''' then returnT None
      else bindT (find_idempotency scope key) (\<lambda>found.
        case found of
          None \<Rightarrow> returnT None
        | Some existing \<Rightarrow>
            if idem_Fingerprint existing \<noteq> fingerprint \<or> idem_CommandKind existing \<noteq> commandKind
            then throwT (ErrIdempotencyConflict ''idempotency key conflicts with existing command'')
            else bindT (replay_recorded key existing) (\<lambda>r. returnT (Some r))))"

text \<open>The recorded answer when there is one, and the admission otherwise.\<close>

definition or_replay :: "Result option tx \<Rightarrow> Result tx \<Rightarrow> Result tx" where
  "or_replay replay admit = bindT replay (\<lambda>found. case found of Some r \<Rightarrow> returnT r | None \<Rightarrow> admit)"

section \<open>Persisting an admitted transition\<close>

definition stampedAdmissionEvent :: "lifecycle_result \<Rightarrow> Principal \<Rightarrow> string option \<Rightarrow> Event result" where
  "stampedAdmissionEvent transition prn policyRevision =
     bindE (WithActor (lr_Event transition) \<lparr>actor_ID = prn_ID prn, actor_Kind = prn_Kind prn\<rparr>) (\<lambda>event.
     case policyRevision of
       None \<Rightarrow> Inr event
     | Some revision \<Rightarrow> if revision = '''' then Inr event else WithAdmissionPolicyRevision event revision)"

definition persistExistingTransitionWithExecution ::
    "time \<Rightarrow> ResourceRecord \<Rightarrow> lifecycle_result \<Rightarrow> ProvisioningExecutionRecord \<Rightarrow> string \<Rightarrow> string \<Rightarrow> string
      \<Rightarrow> string \<Rightarrow> Result tx" where
  "persistExistingTransitionWithExecution now record transition execution scope key fingerprint commandKind =
     (let operation = lr_Operation transition in
      bindT (CreateOperation \<lparr>or_Operation = operation, or_Sequence = 0, or_Version = 1\<rparr>) (\<lambda>_.
      bindT (AppendEvent (lr_Event transition)) (\<lambda>_.
      bindT (CreateExecution execution) (\<lambda>_.
      bindT (if key \<noteq> ''''
             then PutIdempotency \<lparr>idem_Scope = scope, idem_Key = key, idem_Fingerprint = fingerprint,
                    idem_CommandKind = commandKind, idem_ResourceID = resource_id (rr_Resource record),
                    idem_OperationID = op_id operation\<rparr>
             else returnT ()) (\<lambda>_.
      bindT (Enqueue now (DriveMessage (op_id operation) 1)) (\<lambda>_.
      returnT \<lparr>res_Resource = record, res_Operation = operation, res_Execution = Some execution,
               res_Event = Some (lr_Event transition), res_Replay = False, res_OutputsPending = False\<rparr>))))))"

definition admitted_execution :: "ResourceRecord \<Rightarrow> Operation \<Rightarrow> ProvisioningExecutionRecord" where
  "admitted_execution record operation =
     zero_execution\<lparr>ex_OperationID := op_id operation, ex_ProvisionerRef := rr_ProvisionerRef record,
       ex_ResourceID := resource_id (rr_Resource record), ex_ResourceType := resource_typeRef (rr_Resource record),
       ex_Spec := resource_spec (rr_Resource record), ex_Capability := op_capability operation,
       ex_TargetGeneration := op_targetGeneration operation, ex_State := AttemptPending,
       ex_Correlation := RequestCorrelationUnknown, ex_NextObservation := 1, ex_Version := 1\<rparr>"

definition persistExistingTransition ::
    "time \<Rightarrow> ResourceRecord \<Rightarrow> lifecycle_result \<Rightarrow> string \<Rightarrow> string \<Rightarrow> string \<Rightarrow> string \<Rightarrow> Result tx" where
  "persistExistingTransition now record transition scope key fingerprint commandKind =
     persistExistingTransitionWithExecution now record transition
       (admitted_execution record (lr_Operation transition)) scope key fingerprint commandKind"

definition persistNewRequest ::
    "time \<Rightarrow> ResourceRecord \<Rightarrow> lifecycle_result \<Rightarrow> string \<Rightarrow> string \<Rightarrow> string \<Rightarrow> ReferenceEdge list \<Rightarrow> Result tx" where
  "persistNewRequest now record transition scope key fingerprint edges =
     bindT (CreateResource record) (\<lambda>_.
     bindT (ReplaceDesiredReferences (resource_id (rr_Resource record))
              (resource_generation (rr_Resource record)) edges) (\<lambda>_.
     persistExistingTransition now record transition scope key fingerprint
       (op_capability (lr_Operation transition))))"

section \<open>Creates\<close>

definition prepare_create ::
    "Service \<Rightarrow> CreateResourceCommand \<Rightarrow> (TypeContract \<times> ReferenceEdge list \<times> ResourceSpec Resource \<times> lifecycle_result) result" where
  "prepare_create svc cmd =
     bindE (wrapE ErrResourceTypeNotFound (svc_Types svc (cc_Type cmd))) (\<lambda>resourceType.
     bindE (validateCommandSpec resourceType (cc_Spec cmd)) (\<lambda>_.
     bindE (CanonicalizeReferences (cc_References cmd)) (\<lambda>edges.
     bindE (ValidateReferenceShape (rc_ReferenceContract resourceType) (cc_ID cmd) edges) (\<lambda>_.
     bindE (NewResource (cc_ID cmd) (cc_Type cmd) (cc_Owner cmd) (cc_Spec cmd) (cc_RequestedAt cmd)) (\<lambda>resource.
     bindE (NewResourceStatus (resource_id resource) 0 ResourceStateUnknown [] (cc_RequestedAt cmd)) (\<lambda>status.
     bindE (Engine_Request resource (tc_Domain resourceType) status None CapabilityCreate (cc_OperationID cmd)
              (cc_EventID cmd) (cc_RequestedAt cmd)) (\<lambda>transition.
     Inr (resourceType, edges, resource, transition))))))))"

definition read_allowed :: "Service \<Rightarrow> Principal \<Rightarrow> ResourceRecord \<Rightarrow> bool" where
  "read_allowed svc prn record \<longleftrightarrow>
     authorize (svc_Authorizer svc) prn ActionResourceRead (resourceTargetOf record) = Inr ()"

definition detect_cycle :: "resource_id \<Rightarrow> ReferenceEdge list \<Rightarrow> unit tx" where
  "detect_cycle source edges =
     readT (\<lambda>s. DetectDependencyCycle (\<lambda>rid. fst (OutgoingReferenceTargets rid s)) source (distinctEdgeTargets edges))"

definition admit_edges ::
    "Service \<Rightarrow> Principal \<Rightarrow> OwnerRef \<Rightarrow> ReferenceContract option \<Rightarrow> resource_id \<Rightarrow> ReferenceEdge list \<Rightarrow> unit tx" where
  "admit_edges svc prn owner contract source edges =
     (if edges = [] then returnT ()
      else bindT (validateReferenceTargets (read_allowed svc prn) owner contract edges) (\<lambda>_.
           detect_cycle source edges))"

definition lock_new_resource :: "AdmissionPlan \<Rightarrow> CreateResourceCommand \<Rightarrow> ReferenceContract option \<Rightarrow> ReferenceEdge list \<Rightarrow> unit tx" where
  "lock_new_resource plan cmd contract edges =
     bindT (if RequiresResourceCounts plan \<or> edges \<noteq> [] \<or> contract \<noteq> None
            then wrapT ErrPersistenceUnavailable (LockOwnerQuota (cc_Owner cmd)) else returnT ()) (\<lambda>_.
     bindT (LockResourceID (cc_ID cmd)) (\<lambda>exists.
     bindT (ActiveForResource (cc_ID cmd)) (\<lambda>active.
     if active \<noteq> None then throwT (ErrOperationActive ''resource has operation'')
     else if exists then throwT (ErrConcurrencyConflict ''resource already exists'')
     else returnT ())))"

definition quota_facts :: "AdmissionPlan \<Rightarrow> CreateResourceCommand \<Rightarrow> ResourceCountFacts tx" where
  "quota_facts plan cmd =
     (if RequiresResourceCounts plan
      then (\<lambda>s. case ResourceCountFacts_of (cc_Owner cmd) (cc_Type cmd) s of
          (Inl (ErrQuotaInvariant m), s') \<Rightarrow> (Inl (ErrQuotaInvariant m), s')
        | (r, s') \<Rightarrow> (wrapE ErrPersistenceUnavailable r, s'))
      else returnT empty_facts)"

definition select_provisioner :: "Service \<Rightarrow> CreateResourceCommand \<Rightarrow> string result" where
  "select_provisioner svc cmd =
     bindE (wrapE ErrProvisionerNotFound (svc_Selector svc (cc_Type cmd) CapabilityCreate)) (\<lambda>ref.
     wrapE ErrProvisionerNotFound (NewProvisionerRef ref))"

definition admit_create :: "Service \<Rightarrow> CreateResourceCommand \<Rightarrow> string \<Rightarrow> Result tx" where
  "admit_create svc cmd fingerprint =
     bindT (liftT (prepare_create svc cmd)) (\<lambda>(resourceType, edges, resource, transition).
     bindT (liftT (plan_admission (svc_AdmissionPolicy svc)
              \<lparr>ai_Mutation = AdmissionCreate, ai_Owner = cc_Owner cmd, ai_ResourceType = cc_Type cmd\<rparr>)) (\<lambda>plan.
     bindT (lock_new_resource plan cmd (rc_ReferenceContract resourceType) edges) (\<lambda>_.
     bindT (admit_edges svc (cc_Actor cmd) (cc_Owner cmd) (rc_ReferenceContract resourceType) (cc_ID cmd) edges) (\<lambda>_.
     bindT (quota_facts plan cmd) (\<lambda>facts.
     bindT (liftT (decide_admission (svc_AdmissionPolicy svc) plan facts)) (\<lambda>revision.
     bindT (liftT (select_provisioner svc cmd)) (\<lambda>ref.
     bindT (liftT (stampedAdmissionEvent transition (cc_Actor cmd) (Some revision))) (\<lambda>event.
     persistNewRequest (svc_Now svc)
       \<lparr>rr_Resource = resource, rr_Status = lr_Status transition, rr_ProvisionerRef = ref, rr_Version = 1\<rparr>
       (transition\<lparr>lr_Event := event\<rparr>) (idempotencyScope (cc_Actor cmd)) (cc_IdempotencyKey cmd)
       fingerprint edges))))))))"

definition create_target :: "CreateResourceCommand \<Rightarrow> ResourceTarget" where
  "create_target cmd = \<lparr>rt_Type = cc_Type cmd, rt_Owner = cc_Owner cmd, rt_ResourceID = ''''\<rparr>"

definition persistCreateRequest :: "Service \<Rightarrow> CreateResourceCommand \<Rightarrow> Result tx" where
  "persistCreateRequest svc cmd = Within (
     bindT (liftT (authorize (svc_Authorizer svc) (cc_Actor cmd) ActionResourceCreate (create_target cmd))) (\<lambda>_.
     bindT (liftT (createCommandFingerprint (svc_Codec svc) cmd)) (\<lambda>fingerprint.
     or_replay (replayWithin (idempotencyScope (cc_Actor cmd)) (cc_IdempotencyKey cmd) fingerprint CapabilityCreate)
       (admit_create svc cmd fingerprint))))"

definition AdmitCreateResource :: "Service \<Rightarrow> CreateResourceCommand \<Rightarrow> Result tx" where
  "AdmitCreateResource svc cmd =
     bindT (liftT (authorize (svc_Authorizer svc) (cc_Actor cmd) ActionResourceCreate (create_target cmd))) (\<lambda>_.
     bindT (liftT (validateExternalEventID (cc_EventID cmd))) (\<lambda>_.
     persistCreateRequest svc cmd))"

section \<open>Updates and deletes\<close>

record existingRequest =
  er_id :: resource_id
  er_expectedGeneration :: uint64
  er_spec :: "ResourceSpec option"
  er_referencesPresent :: bool
  er_references :: "(string, string list) table"
  er_capability :: capability
  er_operationID :: operation_id
  er_eventID :: event_id
  er_requestedAt :: time
  er_idempotencyKey :: string
  er_actor :: Principal

definition actionForCapability :: "capability \<Rightarrow> Action" where
  "actionForCapability capability =
     (if capability = CapabilityCreate then ActionResourceCreate
      else if capability = CapabilityDelete then ActionResourceDelete else ActionResourceUpdate)"

definition fingerprintForExistingRequest :: "fingerprint_codec \<Rightarrow> existingRequest \<Rightarrow> string result" where
  "fingerprintForExistingRequest codec r =
     (if er_spec r \<noteq> None \<and> er_capability r = CapabilityUpdate
      then updateCommandFingerprint codec \<lparr>uc_Actor = er_actor r, uc_ID = er_id r,
             uc_ExpectedGeneration = er_expectedGeneration r, uc_Spec = the (er_spec r),
             uc_ReferencesPresent = er_referencesPresent r, uc_References = er_references r,
             uc_OperationID = '''', uc_EventID = '''', uc_RequestedAt = 0, uc_IdempotencyKey = ''''\<rparr>
      else if er_capability r = CapabilityDelete
      then Inr (deleteCommandFingerprint \<lparr>dc_Actor = er_actor r, dc_ID = er_id r,
             dc_ExpectedGeneration = er_expectedGeneration r, dc_OperationID = '''', dc_EventID = '''',
             dc_RequestedAt = 0, dc_IdempotencyKey = ''''\<rparr>)
      else Inl (ErrInvalidApplicationCall ''unsupported existing request capability''))"

text \<open>The desired references after the request, and the checks of the edges it adds.\<close>

definition effective_references ::
    "Service \<Rightarrow> existingRequest \<Rightarrow> ResourceRecord \<Rightarrow> ReferenceContract option \<Rightarrow> ReferenceEdge list tx" where
  "effective_references svc r stored contract =
     (if \<not> (er_capability r = CapabilityUpdate \<and> contract \<noteq> None \<or> er_referencesPresent r) then returnT []
      else bindT (DesiredReferences (resource_id (rr_Resource stored))) (\<lambda>oldEdges.
        if \<not> er_referencesPresent r then returnT oldEdges
        else bindT (liftT (CanonicalizeReferences (er_references r))) (\<lambda>edges.
          bindT (liftT (ValidateReferenceShape contract (resource_id (rr_Resource stored)) edges)) (\<lambda>_.
          bindT (admit_edges svc (er_actor r) (resource_owner (rr_Resource stored)) contract
                   (resource_id (rr_Resource stored)) (fst (ReferenceDifference oldEdges edges))) (\<lambda>_.
          returnT edges)))))"

definition requested_spec :: "existingRequest \<Rightarrow> TypeContract \<Rightarrow> ResourceSpec Resource \<Rightarrow> ResourceSpec Resource result" where
  "requested_spec r resourceType resource =
     (case er_spec r of
        None \<Rightarrow> Inr resource
      | Some spec \<Rightarrow>
          bindE (validateCommandSpec resourceType spec) (\<lambda>_.
          bindE (if er_capability r = CapabilityUpdate
                 then validateCommandTransition resourceType (resource_spec resource) spec else Inr ()) (\<lambda>_.
          UpdateSpec resource spec (er_requestedAt r))))"

definition update_revision :: "Service \<Rightarrow> existingRequest \<Rightarrow> ResourceRecord \<Rightarrow> string result" where
  "update_revision svc r stored =
     (if er_capability r \<noteq> CapabilityUpdate then Inr ''''
      else bindE (plan_admission (svc_AdmissionPolicy svc)
             \<lparr>ai_Mutation = AdmissionUpdate, ai_Owner = resource_owner (rr_Resource stored),
              ai_ResourceType = resource_typeRef (rr_Resource stored)\<rparr>) (\<lambda>plan.
        decide_admission (svc_AdmissionPolicy svc) plan empty_facts))"

definition check_unreferenced :: "existingRequest \<Rightarrow> ResourceRecord \<Rightarrow> unit tx" where
  "check_unreferenced r stored =
     (if er_capability r = CapabilityDelete
      then bindT (HasInboundProtectiveReference (resource_id (rr_Resource stored))) (\<lambda>protected.
        if protected then throwT (ErrResourceInUse ''resource is in use'') else returnT ())
      else returnT ())"

definition load_existing :: "existingRequest \<Rightarrow> ResourceRecord \<Rightarrow> (ResourceRecord \<times> OperationRecord option) tx" where
  "load_existing r preflight =
     bindT (if er_capability r = CapabilityDelete \<or> er_referencesPresent r
            then wrapT ErrPersistenceUnavailable (LockOwnerQuota (rt_Owner (resourceTargetOf preflight)))
            else returnT ()) (\<lambda>_.
     bindT (wrapT ErrResourceNotFound (GetResource (er_id r))) (\<lambda>stored.
     if resourceTargetOf stored \<noteq> resourceTargetOf preflight then throwT conflict
     else if resource_generation (rr_Resource stored) \<noteq> er_expectedGeneration r
       then throwT (ErrConcurrencyConflict ''unexpected generation'')
     else bindT (ActiveForResource (er_id r)) (\<lambda>active. returnT (stored, active))))"

definition admit_existing :: "Service \<Rightarrow> existingRequest \<Rightarrow> ResourceRecord \<Rightarrow> string \<Rightarrow> Result tx" where
  "admit_existing svc r preflight fingerprint =
     bindT (load_existing r preflight) (\<lambda>(stored, active).
     bindT (liftT (wrapE ErrResourceTypeNotFound (svc_Types svc (resource_typeRef (rr_Resource stored))))) (\<lambda>resourceType.
     bindT (check_unreferenced r stored) (\<lambda>_.
     bindT (effective_references svc r stored (rc_ReferenceContract resourceType)) (\<lambda>effectiveDesired.
     bindT (liftT (requested_spec r resourceType (rr_Resource stored))) (\<lambda>resource.
     bindT (liftT (Engine_Request resource (tc_Domain resourceType) (rr_Status stored)
              (map_option or_Operation active) (er_capability r) (er_operationID r) (er_eventID r)
              (er_requestedAt r))) (\<lambda>transition.
     bindT (liftT (update_revision svc r (stored\<lparr>rr_Resource := resource\<rparr>))) (\<lambda>revision.
     bindT (liftT (stampedAdmissionEvent transition (er_actor r) (Some revision))) (\<lambda>event.
     let saved = stored\<lparr>rr_Resource := resource, rr_Status := lr_Status transition\<rparr> in
     bindT (SaveResource saved (rr_Version stored)) (\<lambda>_.
     bindT (if er_capability r = CapabilityUpdate \<and> (er_referencesPresent r \<or> effectiveDesired \<noteq> [])
            then ReplaceDesiredReferences (resource_id resource) (resource_generation resource) effectiveDesired
            else returnT ()) (\<lambda>_.
     persistExistingTransition (svc_Now svc) (saved\<lparr>rr_Version := rr_Version stored + 1\<rparr>)
       (transition\<lparr>lr_Event := event\<rparr>) (idempotencyScope (er_actor r)) (er_idempotencyKey r) fingerprint
       (er_capability r)))))))))))"

definition persistExistingRequest :: "Service \<Rightarrow> existingRequest \<Rightarrow> Result tx" where
  "persistExistingRequest svc r =
     (if er_expectedGeneration r = 0
      then throwT (ErrInvalidApplicationCall ''expected generation is required'')
      else Within (
        bindT (wrapT ErrResourceNotFound (LookupResource (er_id r))) (\<lambda>preflight.
        bindT (liftT (authorize (svc_Authorizer svc) (er_actor r) (actionForCapability (er_capability r))
                 (resourceTargetOf preflight))) (\<lambda>_.
        bindT (liftT (fingerprintForExistingRequest (svc_Codec svc) r)) (\<lambda>fingerprint.
        or_replay (replayWithin (idempotencyScope (er_actor r)) (er_idempotencyKey r) fingerprint (er_capability r))
          (admit_existing svc r preflight fingerprint))))))"

definition AdmitUpdateResource :: "Service \<Rightarrow> UpdateResourceCommand \<Rightarrow> Result tx" where
  "AdmitUpdateResource svc cmd =
     bindT (liftT (validateExternalEventID (uc_EventID cmd))) (\<lambda>_.
     persistExistingRequest svc \<lparr>er_id = uc_ID cmd, er_expectedGeneration = uc_ExpectedGeneration cmd,
       er_spec = Some (uc_Spec cmd), er_referencesPresent = uc_ReferencesPresent cmd,
       er_references = uc_References cmd, er_capability = CapabilityUpdate, er_operationID = uc_OperationID cmd,
       er_eventID = uc_EventID cmd, er_requestedAt = uc_RequestedAt cmd,
       er_idempotencyKey = uc_IdempotencyKey cmd, er_actor = uc_Actor cmd\<rparr>)"

definition AdmitDeleteResource :: "Service \<Rightarrow> DeleteResourceCommand \<Rightarrow> Result tx" where
  "AdmitDeleteResource svc cmd =
     bindT (liftT (validateExternalEventID (dc_EventID cmd))) (\<lambda>_.
     persistExistingRequest svc \<lparr>er_id = dc_ID cmd, er_expectedGeneration = dc_ExpectedGeneration cmd,
       er_spec = None, er_referencesPresent = False, er_references = [], er_capability = CapabilityDelete,
       er_operationID = dc_OperationID cmd, er_eventID = dc_EventID cmd, er_requestedAt = dc_RequestedAt cmd,
       er_idempotencyKey = dc_IdempotencyKey cmd, er_actor = dc_Actor cmd\<rparr>)"

section \<open>Retries\<close>

definition retryStateCompatible :: "capability \<Rightarrow> ResourceState \<Rightarrow> bool" where
  "retryStateCompatible capability state =
     (if capability = CapabilityCreate then state = ResourceStateFailed
      else if capability = CapabilityUpdate then state = ResourceStateReady
      else if capability = CapabilityDelete then state = ResourceStateReady \<or> state = ResourceStateFailed
      else False)"

definition validateRetryProvenance :: "ResourceRecord \<Rightarrow> Operation \<Rightarrow> ProvisioningExecutionRecord \<Rightarrow> unit result" where
  "validateRetryProvenance resource operation execution =
     (if ex_OperationID execution \<noteq> op_id operation \<or> ex_ResourceID execution \<noteq> resource_id (rr_Resource resource) \<or>
         ex_ResourceType execution \<noteq> resource_typeRef (rr_Resource resource) \<or>
         ex_Capability execution \<noteq> op_capability operation \<or>
         ex_TargetGeneration execution \<noteq> op_targetGeneration operation \<or>
         ex_ProvisionerRef execution \<noteq> rr_ProvisionerRef resource \<or>
         spec_values (ex_Spec execution) \<noteq> spec_values (resource_spec (rr_Resource resource))
      then Inl (ErrOperationNotRetryable ''source execution provenance does not match current resource intent'')
      else Inr ())"

definition outputRecoveryFailure :: "Operation \<Rightarrow> bool" where
  "outputRecoveryFailure operation \<longleftrightarrow>
     (case op_failure operation of None \<Rightarrow> False | Some f \<Rightarrow> failure_reason f = ReasonOutputPostconditionRejected)"

definition validateOutputRecoveryAdmission ::
    "Operation \<Rightarrow> ProvisioningExecutionRecord \<Rightarrow> SubmissionAttemptRecord \<Rightarrow> unit result" where
  "validateOutputRecoveryAdmission operation execution attempt =
     (let reason = (case op_failure operation of None \<Rightarrow> '''' | Some f \<Rightarrow> failure_reason f);
          message = (case op_failure operation of None \<Rightarrow> '''' | Some f \<Rightarrow> failure_message f)
      in if ex_State execution \<noteq> AttemptSucceeded \<or> ex_OutputResolution execution \<noteq> OutputResolutionRejected \<or>
            ex_OutputFailureReason execution \<noteq> reason \<or> ex_OutputFailureMessage execution \<noteq> message \<or>
            (op_capability operation \<noteq> CapabilityCreate \<and> op_capability operation \<noteq> CapabilityUpdate) \<or>
            ex_CurrentAttempt execution = 0 \<or> ex_ProvisionerRef execution = '''' \<or>
            blank (ex_OutputMappingRef execution) \<or> att_OperationID attempt \<noteq> ex_OperationID execution \<or>
            att_AttemptNumber attempt \<noteq> ex_CurrentAttempt execution
         then Inl (ErrOperationNotRetryable ''source output-recovery provenance is inconsistent'')
         else if att_State attempt = SubmissionAttemptAccepted then Inr ()
         else if att_State attempt = SubmissionAttemptUnknown \<and> ex_AcceptanceConfirmed execution \<and>
                 ex_Correlation execution = RequestCorrelationFound \<and>
                 (case persistedTerminalExecution execution of
                    None \<Rightarrow> False | Some evidence \<Rightarrow> exec_State evidence = ExecutionStateSucceeded)
           then Inr ()
         else Inl (ErrOperationNotRetryable ''source submission attempt has unsafe terminal correlation state''))"

text \<open>The mapping a recovery continues with, which must differ from the rejected one.\<close>

definition recovery_mapping :: "Service \<Rightarrow> ProvisioningExecutionRecord \<Rightarrow> string result" where
  "recovery_mapping svc source =
     (case svc_Resolver svc (ex_ProvisionerRef source) of
        None \<Rightarrow> Inl (ErrProvisionerNotFound ''provisioner not found'')
      | Some provider \<Rightarrow>
          (case rp_SelectOutputRecoveryMapping provider of
             None \<Rightarrow> Inl (ErrProvisionerNotFound ''provisioner does not support output recovery'')
           | Some select \<Rightarrow>
               (case select (ex_ResourceType source) (ex_Capability source) (ex_OutputMappingRef source) of
                  (mapping, selected) \<Rightarrow>
                    if \<not> selected \<or> blank mapping \<or> mapping = ex_OutputMappingRef source
                    then Inl (ErrProvisionerNotFound ''no compatible output recovery mapping'')
                    else Inr mapping)))"

definition retry_child :: "ProvisioningExecutionRecord \<Rightarrow> ProvisioningExecutionRecord" where
  "retry_child source =
     zero_execution\<lparr>ex_ProvisionerRef := ex_ProvisionerRef source, ex_ResourceID := ex_ResourceID source,
       ex_ResourceType := ex_ResourceType source, ex_Capability := ex_Capability source,
       ex_TargetGeneration := ex_TargetGeneration source, ex_Spec := ex_Spec source,
       ex_State := AttemptPending, ex_Correlation := RequestCorrelationUnknown,
       ex_NextObservation := 1, ex_Version := 1\<rparr>"

definition recovery_child :: "Service \<Rightarrow> ResourceRecord \<Rightarrow> Operation \<Rightarrow> ProvisioningExecutionRecord
    \<Rightarrow> ProvisioningExecutionRecord tx" where
  "recovery_child svc record failed source =
     (if \<not> outputRecoveryFailure failed then returnT (retry_child source)
      else bindT (liftT (wrapE ErrOperationNotRetryable
             (validatePersistedTerminalEvidence source (rr_Resource record) (rr_Status record) failed))) (\<lambda>_.
        bindT (wrapT ErrOperationNotRetryable
             (GetSubmissionAttempt (ex_OperationID source) (ex_CurrentAttempt source))) (\<lambda>attempt.
        bindT (liftT (validateOutputRecoveryAdmission failed source attempt)) (\<lambda>_.
        bindT (liftT (recovery_mapping svc source)) (\<lambda>mapping.
        returnT ((retry_child source)\<lparr>ex_OutputMappingRef := mapping,
          ex_OutputResolution := OutputResolutionPending, ex_State := AttemptSucceeded,
          ex_RecoverySourceOperationID := ex_OperationID source,
          ex_RecoverySourceAttempt := ex_CurrentAttempt source\<rparr>))))))"

definition check_latest :: "ResourceRecord \<Rightarrow> OperationRecord \<Rightarrow> unit tx" where
  "check_latest record failed =
     bindT (ActiveForResource (resource_id (rr_Resource record))) (\<lambda>active.
     if active \<noteq> None then throwT (ErrOperationActive ''resource has operation'')
     else bindT (LatestForResource (resource_id (rr_Resource record))) (\<lambda>latest.
       case latest of
         None \<Rightarrow> throwT (ErrOperationNotRetryable ''source operation is not latest'')
       | Some l \<Rightarrow>
           if or_Sequence l \<noteq> or_Sequence failed \<or> op_id (or_Operation l) \<noteq> op_id (or_Operation failed)
           then throwT (ErrOperationNotRetryable ''source operation is not latest'') else returnT ()))"

definition load_retry :: "RetryOperationCommand \<Rightarrow> OperationRecord \<Rightarrow> ResourceRecord \<Rightarrow> (ResourceRecord \<times> OperationRecord) tx" where
  "load_retry cmd preflight preflightResource =
     bindT (wrapT ErrResourceNotFound (GetResource (op_resourceID (or_Operation preflight)))) (\<lambda>record.
     if resourceTargetOf record \<noteq> resourceTargetOf preflightResource then throwT conflict
     else bindT (wrapT ErrOperationNotFound (GetOperation (tc_OperationID cmd))) (\<lambda>failed.
     if op_resourceID (or_Operation failed) \<noteq> resource_id (rr_Resource record) then throwT conflict
     else if resource_generation (rr_Resource record) \<noteq> tc_ExpectedGeneration cmd
       then throwT (ErrConcurrencyConflict ''unexpected generation'')
     else if op_state (or_Operation failed) \<noteq> OperationStateFailed
       then throwT (ErrOperationNotRetryable ''source operation is not failed'')
     else bindT (check_latest record failed) (\<lambda>_.
     if op_targetGeneration (or_Operation failed) \<noteq> resource_generation (rr_Resource record)
       then throwT (ErrOperationNotRetryable ''source operation does not target the current generation'')
     else if \<not> retryStateCompatible (op_capability (or_Operation failed)) (status_state (rr_Status record))
       then throwT (ErrOperationNotRetryable ''operation cannot be retried from resource state'')
     else returnT (record, failed))))"

definition admit_retry ::
    "Service \<Rightarrow> RetryOperationCommand \<Rightarrow> OperationRecord \<Rightarrow> ResourceRecord \<Rightarrow> Result tx" where
  "admit_retry svc cmd preflight preflightResource =
     bindT (load_retry cmd preflight preflightResource) (\<lambda>(record, failed).
     let operation = or_Operation failed in
     bindT (liftT (wrapE ErrResourceTypeNotFound (svc_Types svc (resource_typeRef (rr_Resource record))))) (\<lambda>resourceType.
     if \<not> Supports (tc_Domain resourceType) (op_capability operation)
       then throwT (ErrOperationNotRetryable ''resource type no longer supports source capability'')
     else bindT (wrapT ErrOperationNotRetryable (GetExecution (op_id operation))) (\<lambda>source.
     bindT (liftT (validateRetryProvenance record operation source)) (\<lambda>_.
     bindT (recovery_child svc record operation source) (\<lambda>child.
     bindT (liftT (Engine_Request (rr_Resource record) (tc_Domain resourceType) (rr_Status record) (Some operation)
              (op_capability operation) (tc_NewOperationID cmd) (tc_EventID cmd) (tc_RequestedAt cmd))) (\<lambda>transition.
     bindT (liftT (stampedAdmissionEvent transition (tc_Actor cmd) None)) (\<lambda>event.
     let saved = record\<lparr>rr_Status := lr_Status transition\<rparr> in
     bindT (SaveResource saved (rr_Version record)) (\<lambda>_.
     persistExistingTransitionWithExecution (svc_Now svc) (saved\<lparr>rr_Version := rr_Version record + 1\<rparr>)
       (transition\<lparr>lr_Event := event\<rparr>) (child\<lparr>ex_OperationID := op_id (lr_Operation transition)\<rparr>)
       (idempotencyScope (tc_Actor cmd)) (tc_IdempotencyKey cmd) (retryCommandFingerprint cmd) ''retry''))))))))"

definition persistRetryRequest :: "Service \<Rightarrow> RetryOperationCommand \<Rightarrow> Result tx" where
  "persistRetryRequest svc cmd = Within (
     bindT (wrapT ErrOperationNotFound (LookupOperation (tc_OperationID cmd))) (\<lambda>preflight.
     bindT (wrapT ErrResourceNotFound (LookupResource (op_resourceID (or_Operation preflight)))) (\<lambda>preflightResource.
     bindT (liftT (authorize (svc_Authorizer svc) (tc_Actor cmd) ActionResourceRetry (resourceTargetOf preflightResource))) (\<lambda>_.
     if tc_ExpectedGeneration cmd = 0
       then throwT (ErrInvalidApplicationCall ''expected generation is required'')
     else or_replay (replayWithin (idempotencyScope (tc_Actor cmd)) (tc_IdempotencyKey cmd)
              (retryCommandFingerprint cmd) ''retry'')
       (admit_retry svc cmd preflight preflightResource)))))"

definition AdmitRetryOperation :: "Service \<Rightarrow> RetryOperationCommand \<Rightarrow> Result tx" where
  "AdmitRetryOperation svc cmd =
     bindT (liftT (validateExternalEventID (tc_EventID cmd))) (\<lambda>_. persistRetryRequest svc cmd)"

end
