(* ===== verification/Admission_Safety.thy ===== *)
theory Admission_Safety
  imports Admission Worker_Safety
begin

text \<open>
  What admission guarantees: its effect on the store is one Operation with its execution, event,
  idempotency row and queued Drive, or nothing; a request that is repeated is answered from what
  was recorded; a key is used at most once; protected resources are not deleted.
\<close>

section \<open>Requests\<close>

text \<open>The four admitting use cases of the service, and what they have in common.\<close>

datatype admission_request =
    Create CreateResourceCommand
  | Update UpdateResourceCommand
  | Delete DeleteResourceCommand
  | Retry RetryOperationCommand

fun admit :: "Service \<Rightarrow> admission_request \<Rightarrow> Result tx" where
  "admit svc (Create cmd) = AdmitCreateResource svc cmd"
| "admit svc (Update cmd) = AdmitUpdateResource svc cmd"
| "admit svc (Delete cmd) = AdmitDeleteResource svc cmd"
| "admit svc (Retry cmd) = AdmitRetryOperation svc cmd"

fun request_key :: "admission_request \<Rightarrow> string" where
  "request_key (Create cmd) = cc_IdempotencyKey cmd"
| "request_key (Update cmd) = uc_IdempotencyKey cmd"
| "request_key (Delete cmd) = dc_IdempotencyKey cmd"
| "request_key (Retry cmd) = tc_IdempotencyKey cmd"

fun request_actor :: "admission_request \<Rightarrow> Principal" where
  "request_actor (Create cmd) = cc_Actor cmd"
| "request_actor (Update cmd) = uc_Actor cmd"
| "request_actor (Delete cmd) = dc_Actor cmd"
| "request_actor (Retry cmd) = tc_Actor cmd"

definition recorded :: "admission_request \<Rightarrow> Store \<Rightarrow> IdempotencyRecord option" where
  "recorded req s = map_of (st_idempotency s) (idempotencyMapKey (idempotencyScope (request_actor req)) (request_key req))"

section \<open>What successful steps did\<close>

lemma liftT_Inr [simp]: "liftT r s = (Inr x, s') \<longleftrightarrow> r = Inr x \<and> s' = s"
  by (auto simp: liftT_def)

lemma wrapE_Inr [simp]: "wrapE sentinel r = Inr x \<longleftrightarrow> r = Inr x"
  by (simp add: wrapE_def split: sum.splits)

lemma wrapT_Inr [simp]: "wrapT sentinel m s = (Inr x, s') \<longleftrightarrow> m s = (Inr x, s')"
  by (auto simp: wrapT_def split: prod.splits)

lemma create_operation_Inr:
  assumes "CreateOperation r s = (Inr u, s')" "or_Version r \<noteq> 0"
  shows "map_of (st_operations s) (op_id (or_Operation r)) = None"
    "s' = s\<lparr>st_nextOperationSequence := st_nextOperationSequence s + 1,
       st_operations := put (op_id (or_Operation r)) (r\<lparr>or_Sequence := st_nextOperationSequence s + 1\<rparr>) (st_operations s)\<rparr>"
  using assms by (auto simp: CreateOperation_def Let_def split: if_splits)

lemma create_execution_Inr:
  "CreateExecution e s = (Inr u, s') \<Longrightarrow> ex_Version e \<noteq> 0 \<Longrightarrow>
     s' = s\<lparr>st_executions := put (ex_OperationID e) e (st_executions s)\<rparr>"
  by (auto simp: CreateExecution_def split: if_splits)

lemma put_idempotency_Inr:
  "PutIdempotency i s = (Inr u, s') \<Longrightarrow>
     map_of (st_idempotency s) (idempotencyMapKey (idem_Scope i) (idem_Key i)) = None \<and>
     s' = s\<lparr>st_idempotency := put (idempotencyMapKey (idem_Scope i) (idem_Key i)) i (st_idempotency s)\<rparr>"
  by (auto simp: PutIdempotency_def Let_def split: if_splits)

lemma create_resource_Inr:
  "CreateResource r s = (Inr u, s') \<Longrightarrow> rr_Version r \<noteq> 0 \<Longrightarrow>
     map_of (st_resources s) (resource_id (rr_Resource r)) = None \<and>
     s' = s\<lparr>st_nextResourceSequence := st_nextResourceSequence s + 1,
       st_resourceSequences := put (resource_id (rr_Resource r)) (st_nextResourceSequence s + 1) (st_resourceSequences s),
       st_resources := put (resource_id (rr_Resource r)) r (st_resources s)\<rparr>"
  by (auto simp: CreateResource_def Let_def split: if_splits)

lemma enqueue_Inr:
  assumes "Enqueue now m s = (Inr u, s')"
  obtains t where "s' = s\<lparr>st_outbox := t\<rparr>" "\<exists>row \<in> set (map snd t). msg_DedupeKey row = msg_DedupeKey m"
    "(\<forall>row \<in> set (map snd (st_outbox s)). msg_DedupeKey row \<noteq> msg_DedupeKey m) \<Longrightarrow> msg_State m = OutboxPending \<Longrightarrow>
      \<exists>row. map_of t (msg_ID m) = Some row \<and> row = stamp_times now m"
proof (cases "enqueue_scan m (map snd (st_outbox s))")
  case None
  let ?m = "stamp_times now (if msg_State m = OutboxStateOther '''' then m\<lparr>msg_State := OutboxPending\<rparr> else m)"
  have s': "s' = s\<lparr>st_outbox := put (msg_ID m) ?m (st_outbox s)\<rparr>"
    using assms None by (simp add: Enqueue_def Let_def)
  have "?m \<in> set (map snd (put (msg_ID m) ?m (st_outbox s)))"
    using map_of_SomeD [of "put (msg_ID m) ?m (st_outbox s)" "msg_ID m" ?m] by force
  then show thesis by (intro that [OF s'] bexI [of _ ?m]) (auto split: if_splits)
next
  case (Some r)
  then have "r = Inr u" "s' = s" using assms by (simp_all add: Enqueue_def)
  then have row: "\<exists>row \<in> set (map snd (st_outbox s)). msg_DedupeKey row = msg_DedupeKey m"
    using enqueue_scan_Some [OF Some] by auto
  then show thesis using \<open>s' = s\<close> by (intro that [of "st_outbox s"]) auto
qed

lemma active_Inr:
  "ActiveForResource rid s = (Inr x, s') \<longleftrightarrow> s' = s \<and>
     x = List.find (\<lambda>r. op_resourceID (or_Operation r) = rid \<and> \<not> IsTerminal (or_Operation r)) (map snd (st_operations s))"
  by (auto simp: ActiveForResource_def)

definition no_active :: "resource_id \<Rightarrow> Store \<Rightarrow> bool" where
  "no_active rid s \<longleftrightarrow> (\<forall>(k, r) \<in> set (st_operations s). op_resourceID (or_Operation r) = rid \<longrightarrow> IsTerminal (or_Operation r))"

lemma active_None: "ActiveForResource rid s = (Inr None, s') \<Longrightarrow> no_active rid s"
  by (auto simp: active_Inr no_active_def find_None_iff2)

lemma active_Some: "ActiveForResource rid s = (Inr (Some r), s') \<Longrightarrow> \<not> IsTerminal (or_Operation r)"
  by (auto simp: active_Inr find_Some_iff2)

section \<open>The effect of an admission\<close>

text \<open>
  \<open>persisted s r idem s'\<close>: the store \<open>s'\<close> is \<open>s\<close> with exactly one new Operation, execution, event and,
  when the request has a key, idempotency record, with a queued Drive, and nothing else changed but
  the Resource tables that the caller wrote before.
\<close>

definition drive_queued :: "operation_id \<Rightarrow> Store \<Rightarrow> bool" where
  "drive_queued oid s \<longleftrightarrow> (\<exists>row \<in> set (map snd (st_outbox s)). msg_DedupeKey row = msg_DedupeKey (DriveMessage oid 1))"

definition persisted :: "Store \<Rightarrow> Result \<Rightarrow> IdempotencyRecord \<Rightarrow> Store \<Rightarrow> bool" where
  "persisted s r idem s' \<longleftrightarrow>
     (let op = res_Operation r; n = st_nextOperationSequence s + 1;
          key = idempotencyMapKey (idem_Scope idem) (idem_Key idem) in
      map_of (st_operations s) (op_id op) = None \<and> \<not> res_Replay r \<and> \<not> res_OutputsPending r \<and>
      (idem_Key idem \<noteq> '''' \<longrightarrow> map_of (st_idempotency s) key = None) \<and>
      drive_queued (op_id op) s' \<and>
      (\<exists>e event t. res_Execution r = Some e \<and> res_Event r = Some event \<and>
         s' = s\<lparr>st_nextOperationSequence := n,
           st_operations := put (op_id op) \<lparr>or_Operation = op, or_Sequence = n, or_Version = 1\<rparr> (st_operations s),
           st_events := put (event_id event) event (st_events s),
           st_executions := put (ex_OperationID e) e (st_executions s),
           st_idempotency := (if idem_Key idem = '''' then st_idempotency s else put key idem (st_idempotency s)),
           st_outbox := t\<rparr>))"

definition idempotency_of :: "string \<Rightarrow> string \<Rightarrow> string \<Rightarrow> string \<Rightarrow> Result \<Rightarrow> IdempotencyRecord" where
  "idempotency_of scope key fingerprint commandKind r =
     \<lparr>idem_Scope = scope, idem_Key = key, idem_Fingerprint = fingerprint, idem_CommandKind = commandKind,
      idem_ResourceID = resource_id (rr_Resource (res_Resource r)), idem_OperationID = op_id (res_Operation r)\<rparr>"

lemma persist_Inr:
  assumes "persistExistingTransitionWithExecution now record transition execution scope key fingerprint kind s = (Inr r, s')"
    and "ex_Version execution \<noteq> 0"
  shows "persisted s r (idempotency_of scope key fingerprint kind r) s'"
    and "res_Resource r = record" "res_Operation r = lr_Operation transition" "res_Execution r = Some execution"
    and "res_Event r = Some (lr_Event transition)"
    and "(ex_RecoverySourceOperationID execution = '''') = (ex_RecoverySourceAttempt execution = 0)"
    and "outbox_inv (st_outbox s) \<Longrightarrow> outbox_inv (st_outbox s')"
proof -
  let ?op = "lr_Operation transition"
  let ?idem = "\<lparr>idem_Scope = scope, idem_Key = key, idem_Fingerprint = fingerprint, idem_CommandKind = kind,
    idem_ResourceID = resource_id (rr_Resource record), idem_OperationID = op_id ?op\<rparr>"
  from assms(1) obtain s1 s2 s3 s4 s5 where c:
    "CreateOperation \<lparr>or_Operation = ?op, or_Sequence = 0, or_Version = 1\<rparr> s = (Inr (), s1)"
    "AppendEvent (lr_Event transition) s1 = (Inr (), s2)"
    "CreateExecution execution s2 = (Inr (), s3)"
    "(if key \<noteq> '''' then PutIdempotency ?idem else returnT ()) s3 = (Inr (), s4)"
    "Enqueue now (DriveMessage (op_id ?op) 1) s4 = (Inr (), s5)"
    and r: "r = \<lparr>res_Resource = record, res_Operation = ?op, res_Execution = Some execution,
      res_Event = Some (lr_Event transition), res_Replay = False, res_OutputsPending = False\<rparr>" "s' = s5"
    by (auto simp: persistExistingTransitionWithExecution_def Let_def bindT_eq_Inr split del: if_split)
  show "res_Resource r = record" "res_Operation r = ?op" "res_Execution r = Some execution"
    "res_Event r = Some (lr_Event transition)" by (simp_all add: r(1))
  show "(ex_RecoverySourceOperationID execution = '''') = (ex_RecoverySourceAttempt execution = 0)"
    using c(3) by (auto simp: CreateExecution_def split: if_splits)
  have s4: "s4 = s3\<lparr>st_idempotency := (if key = '''' then st_idempotency s3
      else put (idempotencyMapKey scope key) ?idem (st_idempotency s3))\<rparr>"
    "key \<noteq> '''' \<Longrightarrow> map_of (st_idempotency s3) (idempotencyMapKey scope key) = None"
    using c(4) put_idempotency_Inr [of ?idem s3 "()" s4] by (auto split: if_splits)
  obtain t where t: "s5 = s4\<lparr>st_outbox := t\<rparr>" "\<exists>row \<in> set (map snd t). msg_DedupeKey row = msg_DedupeKey (DriveMessage (op_id ?op) 1)"
    using enqueue_Inr [OF c(5)] by metis
  note op = create_operation_Inr [OF c(1), simplified]
  note steps = op(2) append_event_Inr [OF c(2)] create_execution_Inr [OF c(3) assms(2)]
  have state: "s' = s\<lparr>st_nextOperationSequence := st_nextOperationSequence s + 1,
      st_operations := put (op_id ?op) \<lparr>or_Operation = ?op, or_Sequence = st_nextOperationSequence s + 1, or_Version = 1\<rparr> (st_operations s),
      st_events := put (event_id (lr_Event transition)) (lr_Event transition) (st_events s),
      st_executions := put (ex_OperationID execution) execution (st_executions s),
      st_idempotency := (if key = '''' then st_idempotency s else put (idempotencyMapKey scope key) ?idem (st_idempotency s)),
      st_outbox := t\<rparr>"
    by (simp add: r(2) t(1) s4(1) steps)
  have key: "map_of (st_idempotency s) (idempotencyMapKey scope key) = None" if "key \<noteq> ''''"
    using s4(2) [OF that] by (simp add: steps)
  have "st_outbox s4 = st_outbox s" by (simp add: s4(1) steps)
  then show "outbox_inv (st_outbox s')" if "outbox_inv (st_outbox s)"
    using c(5) that outbox_effect_inv [of "st_outbox s4", OF _ Enqueue_effect [of "DriveMessage (op_id ?op) 1" s4 now]]
    by (simp add: r(2) DriveMessage_def work_message_def work_kinds_def)
  show "persisted s r (idempotency_of scope key fingerprint kind r) s'"
    using state key op(1) t(2) by (auto simp: persisted_def Let_def r(1) idempotency_of_def drive_queued_def)
qed

definition resource_written :: "Store \<Rightarrow> Result \<Rightarrow> Store \<Rightarrow> bool" where
  "resource_written s r s1 \<longleftrightarrow> (\<exists>n q d. s1 = s\<lparr>st_nextResourceSequence := n, st_resourceSequences := q,
     st_resources := put (resource_id (rr_Resource (res_Resource r))) (res_Resource r) (st_resources s),
     st_desiredReferences := d\<rparr>)"

definition consistent_result :: "Result \<Rightarrow> bool" where
  "consistent_result r \<longleftrightarrow>
     op_resourceID (res_Operation r) = resource_id (rr_Resource (res_Resource r)) \<and> \<not> IsTerminal (res_Operation r) \<and>
     (\<exists>e. res_Execution r = Some e \<and> validateExecutionContext (res_Resource r) (res_Operation r) e = Inr () \<and>
        (ex_State e = AttemptPending \<or> ex_State e = AttemptSucceeded \<and> IsOutputRecovery e))"

definition admitted :: "Store \<Rightarrow> Result \<Rightarrow> IdempotencyRecord \<Rightarrow> Store \<Rightarrow> bool" where
  "admitted s r idem s' \<longleftrightarrow> consistent_result r \<and> no_active (resource_id (rr_Resource (res_Resource r))) s \<and>
     idem_ResourceID idem = resource_id (rr_Resource (res_Resource r)) \<and> idem_OperationID idem = op_id (res_Operation r) \<and>
     (\<exists>s1. resource_written s r s1 \<and> persisted s1 r idem s')"

text \<open>The two table invariants that an admission keeps while the Resource counter has not wrapped.\<close>

definition keeps_tables :: "Store \<Rightarrow> Store \<Rightarrow> bool" where
  "keeps_tables s s' \<longleftrightarrow> (outbox_inv (st_outbox s) \<longrightarrow> outbox_inv (st_outbox s')) \<and>
     (resources_inv s \<and> st_nextResourceSequence s \<noteq> - 1 \<longrightarrow> resources_inv s')"

lemma persisted_resources: "persisted s r idem s' \<Longrightarrow> resources_inv s' = resources_inv s"
  by (rule resources_inv_cong) (auto simp: persisted_def Let_def)

definition stamp_of :: "Principal \<Rightarrow> EventActor" where
  "stamp_of prn = \<lparr>actor_ID = TrimSpace (prn_ID prn), actor_Kind = TrimSpace (prn_Kind prn)\<rparr>"

lemma stamped_actor:
  "stampedAdmissionEvent transition prn revision = Inr event \<Longrightarrow>
     event_actor event = Some (stamp_of prn)"
  by (auto simp: stampedAdmissionEvent_def stamp_of_def WithActor_def WithAdmissionPolicyRevision_def Let_def
      split: if_splits option.splits)

lemma Engine_Request_operation:
  assumes "Engine_Request r rt st latest c oid eid t = Inr res"
  shows "op_resourceID (lr_Operation res) = resource_id r" "op_capability (lr_Operation res) = c"
    "op_id (lr_Operation res) = oid" "\<not> IsTerminal (lr_Operation res)"
    "\<lbrakk>latest = Some l; op_state l = OperationStateFailed; op_capability l = c\<rbrakk> \<Longrightarrow>
       op_targetGeneration (lr_Operation res) = op_targetGeneration l"
proof -
  obtain retry retryOf target cs where e: "request_source r latest c oid = Inr (retry, retryOf, target)"
    "NewOperation oid (resource_id r) c target t [retryOf] = Inr (lr_Operation res)"
    "op_targetGeneration (lr_Operation res) = target"
    using Engine_Request_result [OF assms] by metis
  show "op_resourceID (lr_Operation res) = resource_id r" "op_capability (lr_Operation res) = c"
    "op_id (lr_Operation res) = oid" "\<not> IsTerminal (lr_Operation res)"
    using NewOperation_fields [OF e(2)] by (simp_all add: IsTerminal_def)
  show "op_targetGeneration (lr_Operation res) = op_targetGeneration l"
    if "latest = Some l" "op_state l = OperationStateFailed" "op_capability l = c"
    using e(1,3) that by (auto simp: request_source_def split: if_splits)
qed

text \<open>The plain admissions, which start a pending execution of their own.\<close>

lemma admitted_execution_fields [simp]:
  "ex_Version (admitted_execution record op) = 1" "ex_State (admitted_execution record op) = AttemptPending"
  by (simp_all add: admitted_execution_def)

lemma admitted_execution_consistent:
  "op_resourceID op = resource_id (rr_Resource record) \<Longrightarrow>
     validateExecutionContext record op (admitted_execution record op) = Inr ()"
  by (simp add: validateExecutionContext_def admitted_execution_def Let_def)

lemma persistExistingTransition_admitted:
  assumes "persistExistingTransition now record transition scope key fingerprint kind s1 = (Inr r, s')"
    and "op_resourceID (lr_Operation transition) = resource_id (rr_Resource record)" "\<not> IsTerminal (lr_Operation transition)"
    and "no_active (resource_id (rr_Resource record)) s"
    and "s1 = s\<lparr>st_nextResourceSequence := n, st_resourceSequences := q,
      st_resources := put (resource_id (rr_Resource record)) record (st_resources s), st_desiredReferences := d\<rparr>"
  shows "admitted s r (idempotency_of scope key fingerprint kind r) s'" "res_Resource r = record"
    "res_Operation r = lr_Operation transition" "res_Execution r = Some (admitted_execution record (lr_Operation transition))"
    "res_Event r = Some (lr_Event transition)"
    "(resources_inv s \<and> st_nextResourceSequence s \<noteq> - 1 \<Longrightarrow> resources_inv s1) \<Longrightarrow> keeps_tables s s'"
proof -
  have v: "ex_Version (admitted_execution record (lr_Operation transition)) \<noteq> 0" by simp
  note p = persist_Inr [OF assms(1) [unfolded persistExistingTransition_def] v]
  have "resource_written s r s1" unfolding resource_written_def p(2) using assms(5) by blast
  moreover have "consistent_result r"
    using assms(2,3) admitted_execution_consistent [OF assms(2)] by (simp add: consistent_result_def p(2-4))
  ultimately show "admitted s r (idempotency_of scope key fingerprint kind r) s'"
    using p(1) assms(4) unfolding admitted_def p(2) by (auto simp: idempotency_of_def p(2))
  show "keeps_tables s s'" if "resources_inv s \<and> st_nextResourceSequence s \<noteq> - 1 \<Longrightarrow> resources_inv s1"
    using that p(7) persisted_resources [OF p(1)] by (simp add: keeps_tables_def assms(5))
qed (use persist_Inr [OF assms(1) [unfolded persistExistingTransition_def]] in simp_all)

section \<open>Creates\<close>

lemma or_replay_Inr:
  "or_replay replay adm s = (Inr r, s') \<longleftrightarrow>
     replay s = (Inr (Some r), s') \<or> (\<exists>s1. replay s = (Inr None, s1) \<and> adm s1 = (Inr r, s'))"
  by (auto simp: or_replay_def bindT_eq_Inr split: option.splits)

lemma find_idempotency_Inr:
  "find_idempotency scope key s = (Inr x, s') \<longleftrightarrow> s' = s \<and> x = map_of (st_idempotency s) (idempotencyMapKey scope key)"
  by (auto simp: find_idempotency_def GetIdempotency_def split: option.splits)

lemma replay_recorded_Inr:
  assumes "replay_recorded key existing s = (Inr r, s')"
  shows "s' = s" "res_Replay r" "res_Event r = None" "op_id (res_Operation r) = idem_OperationID existing"
    "resource_id (rr_Resource (res_Resource r)) = idem_ResourceID existing"
  using assms by (auto simp: replay_recorded_def bindT_eq_Inr readers_Inr split: if_splits)

lemma replayWithin_Inr:
  assumes "replayWithin scope key fingerprint kind s = (Inr x, s')"
  shows "s' = s"
    and "x = None \<Longrightarrow> key \<noteq> '''' \<Longrightarrow> map_of (st_idempotency s) (idempotencyMapKey scope key) = None"
    and "x = Some r \<Longrightarrow> res_Replay r \<and> key \<noteq> '''' \<and> (\<exists>existing.
      map_of (st_idempotency s) (idempotencyMapKey scope key) = Some existing \<and>
      idem_Fingerprint existing = fingerprint \<and> idem_CommandKind existing = kind \<and>
      replay_recorded key existing s = (Inr r, s))"
  using assms
  by (auto simp: replayWithin_def bindT_eq_Inr find_idempotency_Inr replay_recorded_Inr
      dest: replay_recorded_Inr(1,2) split: if_splits option.splits)

lemma tx_reads [simp]:
  "LockOwnerQuota owner s = (Inr u, s') \<longleftrightarrow> s' = s"
  "LockResourceID rid s = (Inr b, s') \<longleftrightarrow> s' = s \<and> b = (map_of (st_resources s) rid \<noteq> None)"
  "DesiredReferences rid s = (Inr es, s') \<longleftrightarrow> s' = s \<and> es = edges_of (st_desiredReferences s) rid"
  by (auto simp: LockOwnerQuota_def LockResourceID_def DesiredReferences_def)

lemma validate_targets_state: "validateReferenceTargets authorized owner contract added s = (x, s') \<Longrightarrow> s' = s"
  by (auto simp: validateReferenceTargets_def LockResources_def split: sum.splits error.splits)

lemma admit_edges_Inr:
  "admit_edges svc prn owner contract source edges s = (Inr u, s') \<Longrightarrow> s' = s \<and>
     (edges \<noteq> [] \<longrightarrow> validateReferenceTargets (read_allowed svc prn) owner contract edges s = (Inr (), s) \<and>
        detect_cycle source edges s = (Inr (), s))"
  by (auto simp: admit_edges_def bindT_eq_Inr detect_cycle_def dest: validate_targets_state split: if_splits)

lemma quota_facts_Inr: "quota_facts plan cmd s = (Inr facts, s') \<Longrightarrow> s' = s"
  by (auto simp: quota_facts_def ResourceCountFacts_of_def split: if_splits sum.splits error.splits prod.splits)

lemma lock_new_resource_Inr:
  "lock_new_resource plan cmd contract edges s = (Inr u, s') \<Longrightarrow>
     s' = s \<and> map_of (st_resources s) (cc_ID cmd) = None \<and> no_active (cc_ID cmd) s"
  by (auto simp: lock_new_resource_def bindT_eq_Inr dest: active_None split: if_splits) (auto simp: active_Inr)

lemma replace_desired_Inr:
  "ReplaceDesiredReferences rid g es s = (Inr u, s') \<Longrightarrow> \<exists>d. s' = s\<lparr>st_desiredReferences := d\<rparr>"
  by (auto simp: ReplaceDesiredReferences_def Let_def split: if_splits)

text \<open>
  A create that is admitted met every condition the code checks, in the store the transaction started
  from: the specification and the references are valid, the identity is free, every referenced target
  is admissible, and the policy of the owner allows it.
\<close>

lemma admit_create_Inr:
  assumes "admit_create svc cmd fingerprint s = (Inr r, s')"
  obtains resourceType edges resource transition plan facts revision event ref where
    "prepare_create svc cmd = Inr (resourceType, edges, resource, transition)"
    "plan_admission (svc_AdmissionPolicy svc) \<lparr>ai_Mutation = AdmissionCreate, ai_Owner = cc_Owner cmd,
       ai_ResourceType = cc_Type cmd\<rparr> = Inr plan"
    "map_of (st_resources s) (cc_ID cmd) = None" "no_active (cc_ID cmd) s"
    "admit_edges svc (cc_Actor cmd) (cc_Owner cmd) (rc_ReferenceContract resourceType) (cc_ID cmd) edges s = (Inr (), s)"
    "quota_facts plan cmd s = (Inr facts, s)"
    "decide_admission (svc_AdmissionPolicy svc) plan facts = Inr revision"
    "select_provisioner svc cmd = Inr ref"
    "stampedAdmissionEvent transition (cc_Actor cmd) (Some revision) = Inr event"
    "persistNewRequest (svc_Now svc)
       \<lparr>rr_Resource = resource, rr_Status = lr_Status transition, rr_ProvisionerRef = ref, rr_Version = 1\<rparr>
       (transition\<lparr>lr_Event := event\<rparr>) (idempotencyScope (cc_Actor cmd)) (cc_IdempotencyKey cmd)
       fingerprint edges s = (Inr r, s')"
proof -
  from assms obtain resourceType edges resource transition plan facts revision event ref s1 s2 s3 where c:
    "prepare_create svc cmd = Inr (resourceType, edges, resource, transition)"
    "plan_admission (svc_AdmissionPolicy svc) \<lparr>ai_Mutation = AdmissionCreate, ai_Owner = cc_Owner cmd,
       ai_ResourceType = cc_Type cmd\<rparr> = Inr plan"
    "lock_new_resource plan cmd (rc_ReferenceContract resourceType) edges s = (Inr (), s1)"
    "admit_edges svc (cc_Actor cmd) (cc_Owner cmd) (rc_ReferenceContract resourceType) (cc_ID cmd) edges s1 = (Inr (), s2)"
    "quota_facts plan cmd s2 = (Inr facts, s3)"
    "decide_admission (svc_AdmissionPolicy svc) plan facts = Inr revision"
    "select_provisioner svc cmd = Inr ref"
    "stampedAdmissionEvent transition (cc_Actor cmd) (Some revision) = Inr event"
    "persistNewRequest (svc_Now svc)
       \<lparr>rr_Resource = resource, rr_Status = lr_Status transition, rr_ProvisionerRef = ref, rr_Version = 1\<rparr>
       (transition\<lparr>lr_Event := event\<rparr>) (idempotencyScope (cc_Actor cmd)) (cc_IdempotencyKey cmd)
       fingerprint edges s3 = (Inr r, s')"
    unfolding admit_create_def bindT_eq_Inr by (auto simp: bindT_eq_Inr)
  have "s1 = s" "s2 = s" "s3 = s"
    using lock_new_resource_Inr [OF c(3)] admit_edges_Inr [OF c(4)] quota_facts_Inr [OF c(5)] by simp_all
  then show thesis
    using c lock_new_resource_Inr [OF c(3)] by (intro that [of resourceType edges resource transition plan facts revision ref event]) simp_all
qed

lemma prepare_create_Inr:
  assumes "prepare_create svc cmd = Inr (resourceType, edges, resource, transition)"
  shows "svc_Types svc (cc_Type cmd) = Inr resourceType" "validateCommandSpec resourceType (cc_Spec cmd) = Inr ()"
    "CanonicalizeReferences (cc_References cmd) = Inr edges" "resource_id resource = cc_ID cmd"
    "resource_owner resource = cc_Owner cmd" "resource_typeRef resource = cc_Type cmd"
    "resource_spec resource = cc_Spec cmd"
    "\<exists>status. Engine_Request resource (tc_Domain resourceType) status None CapabilityCreate (cc_OperationID cmd)
       (cc_EventID cmd) (cc_RequestedAt cmd) = Inr transition"
  using assms by (auto simp: prepare_create_def NewResource_def split: if_splits)

lemma create_admitted:
  assumes "admit_create svc cmd fingerprint s = (Inr r, s')"
  shows "admitted s r (idempotency_of (idempotencyScope (cc_Actor cmd)) (cc_IdempotencyKey cmd) fingerprint CapabilityCreate r) s'"
    "op_id (res_Operation r) = cc_OperationID cmd"
    "map_of (st_resources s) (resource_id (rr_Resource (res_Resource r))) = None" "keeps_tables s s'"
    "\<exists>event. res_Event r = Some event \<and> event_actor event = Some (stamp_of (cc_Actor cmd))"
proof -
  obtain resourceType edges resource transition plan facts revision event ref where c:
    "prepare_create svc cmd = Inr (resourceType, edges, resource, transition)"
    "map_of (st_resources s) (cc_ID cmd) = None" "no_active (cc_ID cmd) s"
    "persistNewRequest (svc_Now svc)
       \<lparr>rr_Resource = resource, rr_Status = lr_Status transition, rr_ProvisionerRef = ref, rr_Version = 1\<rparr>
       (transition\<lparr>lr_Event := event\<rparr>) (idempotencyScope (cc_Actor cmd)) (cc_IdempotencyKey cmd)
       fingerprint edges s = (Inr r, s')"
    "stampedAdmissionEvent transition (cc_Actor cmd) (Some revision) = Inr event"
    by (rule admit_create_Inr [OF assms])
  note prep = prepare_create_Inr [OF c(1)]
  obtain status where "Engine_Request resource (tc_Domain resourceType) status None CapabilityCreate
      (cc_OperationID cmd) (cc_EventID cmd) (cc_RequestedAt cmd) = Inr transition" using prep(8) by blast
  note op = Engine_Request_operation [OF this]
  let ?saved = "\<lparr>rr_Resource = resource, rr_Status = lr_Status transition, rr_ProvisionerRef = ref, rr_Version = 1\<rparr>"
  from c(4) obtain s1 s2 where p: "CreateResource ?saved s = (Inr (), s1)"
    "ReplaceDesiredReferences (resource_id resource) (resource_generation resource) edges s1 = (Inr (), s2)"
    "persistExistingTransition (svc_Now svc) ?saved (transition\<lparr>lr_Event := event\<rparr>) (idempotencyScope (cc_Actor cmd))
       (cc_IdempotencyKey cmd) fingerprint CapabilityCreate s2 = (Inr r, s')"
    by (auto simp: persistNewRequest_def bindT_eq_Inr op(2))
  obtain d where d: "s2 = s1\<lparr>st_desiredReferences := d\<rparr>" using replace_desired_Inr [OF p(2)] by blast
  have s2: "s2 = s\<lparr>st_nextResourceSequence := st_nextResourceSequence s + 1,
      st_resourceSequences := put (resource_id resource) (st_nextResourceSequence s + 1) (st_resourceSequences s),
      st_resources := put (resource_id (rr_Resource ?saved)) ?saved (st_resources s), st_desiredReferences := d\<rparr>"
    using create_resource_Inr [OF p(1)] d by simp
  have inv: "resources_inv s2" if "resources_inv s \<and> st_nextResourceSequence s \<noteq> - 1"
    using resources_inv_create [of s ?saved] that p(1) resources_inv_cong [of s2 s1] by (simp add: d)
  from persistExistingTransition_admitted [OF p(3) _ _ _ s2] op c(2,3) prep(4) inv stamped_actor [OF c(5)]
  show "admitted s r (idempotency_of (idempotencyScope (cc_Actor cmd)) (cc_IdempotencyKey cmd) fingerprint CapabilityCreate r) s'"
    "op_id (res_Operation r) = cc_OperationID cmd"
    "map_of (st_resources s) (resource_id (rr_Resource (res_Resource r))) = None" "keeps_tables s s'"
    "\<exists>event. res_Event r = Some event \<and> event_actor event = Some (stamp_of (cc_Actor cmd))"
    by simp_all
qed

section \<open>Updates, deletes and retries\<close>

lemma lock_owner_if [simp]:
  "(if b then wrapT sentinel (LockOwnerQuota owner) else returnT ()) s = (Inr u, s') \<longleftrightarrow> s' = s"
  by auto

lemma load_existing_Inr:
  assumes "load_existing r preflight s = (Inr (stored, active), s')"
  shows "s' = s" "map_of (st_resources s) (er_id r) = Some stored" "resourceTargetOf stored = resourceTargetOf preflight"
    "resource_generation (rr_Resource stored) = er_expectedGeneration r"
    "ActiveForResource (er_id r) s = (Inr active, s)"
  using assms by (auto simp: load_existing_def bindT_eq_Inr readers_Inr active_Inr split: if_splits)

lemma check_unreferenced_Inr:
  "check_unreferenced r stored s = (Inr u, s') \<Longrightarrow> s' = s \<and>
     (er_capability r = CapabilityDelete \<longrightarrow>
        HasInboundProtectiveReference (resource_id (rr_Resource stored)) s = (Inr False, s))"
  by (auto simp: check_unreferenced_def bindT_eq_Inr HasInboundProtectiveReference_def split: if_splits)

lemma effective_references_Inr: "effective_references svc r stored contract s = (Inr es, s') \<Longrightarrow> s' = s"
  by (auto simp: effective_references_def bindT_eq_Inr dest!: admit_edges_Inr split: if_splits)

lemma requested_spec_Inr:
  assumes "requested_spec r resourceType resource = Inr resource'"
  shows "resource_id resource' = resource_id resource" "resource_typeRef resource' = resource_typeRef resource"
    "resource_owner resource' = resource_owner resource"
  using assms by (auto simp: requested_spec_def UpdateSpec_fields split: option.splits)

lemma admit_existing_Inr:
  assumes "admit_existing svc r preflight fingerprint s = (Inr res, s')"
  obtains stored active resourceType effectiveDesired resource transition revision event s1 s2 where
    "load_existing r preflight s = (Inr (stored, active), s)"
    "svc_Types svc (resource_typeRef (rr_Resource stored)) = Inr resourceType"
    "check_unreferenced r stored s = (Inr (), s)"
    "effective_references svc r stored (rc_ReferenceContract resourceType) s = (Inr effectiveDesired, s)"
    "requested_spec r resourceType (rr_Resource stored) = Inr resource"
    "Engine_Request resource (tc_Domain resourceType) (rr_Status stored) (map_option or_Operation active)
       (er_capability r) (er_operationID r) (er_eventID r) (er_requestedAt r) = Inr transition"
    "update_revision svc r (stored\<lparr>rr_Resource := resource\<rparr>) = Inr revision"
    "stampedAdmissionEvent transition (er_actor r) (Some revision) = Inr event"
    "SaveResource (stored\<lparr>rr_Resource := resource, rr_Status := lr_Status transition\<rparr>) (rr_Version stored) s = (Inr (), s1)"
    "(if er_capability r = CapabilityUpdate \<and> (er_referencesPresent r \<or> effectiveDesired \<noteq> [])
      then ReplaceDesiredReferences (resource_id resource) (resource_generation resource) effectiveDesired
      else returnT ()) s1 = (Inr (), s2)"
    "persistExistingTransition (svc_Now svc)
       (stored\<lparr>rr_Resource := resource, rr_Status := lr_Status transition, rr_Version := rr_Version stored + 1\<rparr>)
       (transition\<lparr>lr_Event := event\<rparr>) (idempotencyScope (er_actor r)) (er_idempotencyKey r) fingerprint
       (er_capability r) s2 = (Inr res, s')"
proof -
  from assms obtain stored active t1 where l: "load_existing r preflight s = (Inr (stored, active), t1)"
    by (auto simp: admit_existing_def bindT_eq_Inr)
  note l' = load_existing_Inr [OF l]
  from assms l obtain resourceType t2 where
    c1: "svc_Types svc (resource_typeRef (rr_Resource stored)) = Inr resourceType" "check_unreferenced r stored s = (Inr (), t2)"
    by (auto simp: admit_existing_def bindT_eq_Inr l'(1))
  have t2: "t2 = s" using check_unreferenced_Inr [OF c1(2)] by simp
  from assms l c1 obtain effectiveDesired t3 where
    c2: "effective_references svc r stored (rc_ReferenceContract resourceType) s = (Inr effectiveDesired, t3)"
    by (auto simp: admit_existing_def bindT_eq_Inr l'(1) t2)
  have t3: "t3 = s" by (rule effective_references_Inr [OF c2])
  from assms l c1 c2 show thesis
    by (auto simp: admit_existing_def bindT_eq_Inr l'(1) t2 t3 Let_def split del: if_split intro!: that)
qed

lemma stored_key: "\<lbrakk>store_inv s; map_of (st_resources s) rid = Some record\<rbrakk> \<Longrightarrow> resource_id (rr_Resource record) = rid"
  by (drule map_of_SomeD) (auto simp: store_inv_def resources_inv_def)

lemma existing_admitted:
  assumes "admit_existing svc q preflight fingerprint s = (Inr r, s')" "store_inv s"
  shows "admitted s r (idempotency_of (idempotencyScope (er_actor q)) (er_idempotencyKey q) fingerprint (er_capability q) r) s'"
    "op_id (res_Operation r) = er_operationID q" "resource_id (rr_Resource (res_Resource r)) = er_id q"
    "resourceTargetOf (res_Resource r) = resourceTargetOf preflight"
    "er_capability q = CapabilityDelete \<Longrightarrow> HasInboundProtectiveReference (er_id q) s = (Inr False, s)" "keeps_tables s s'"
    "\<exists>event. res_Event r = Some event \<and> event_actor event = Some (stamp_of (er_actor q))"
proof -
  obtain stored active resourceType effectiveDesired resource transition revision event s1 s2 where c:
    "load_existing q preflight s = (Inr (stored, active), s)"
    "check_unreferenced q stored s = (Inr (), s)"
    "requested_spec q resourceType (rr_Resource stored) = Inr resource"
    "Engine_Request resource (tc_Domain resourceType) (rr_Status stored) (map_option or_Operation active)
       (er_capability q) (er_operationID q) (er_eventID q) (er_requestedAt q) = Inr transition"
    "SaveResource (stored\<lparr>rr_Resource := resource, rr_Status := lr_Status transition\<rparr>) (rr_Version stored) s = (Inr (), s1)"
    "(if er_capability q = CapabilityUpdate \<and> (er_referencesPresent q \<or> effectiveDesired \<noteq> [])
      then ReplaceDesiredReferences (resource_id resource) (resource_generation resource) effectiveDesired
      else returnT ()) s1 = (Inr (), s2)"
    "persistExistingTransition (svc_Now svc)
       (stored\<lparr>rr_Resource := resource, rr_Status := lr_Status transition, rr_Version := rr_Version stored + 1\<rparr>)
       (transition\<lparr>lr_Event := event\<rparr>) (idempotencyScope (er_actor q)) (er_idempotencyKey q) fingerprint
       (er_capability q) s2 = (Inr r, s')"
    "stampedAdmissionEvent transition (er_actor q) (Some revision) = Inr event"
    by (rule admit_existing_Inr [OF assms(1)])
  note l = load_existing_Inr [OF c(1)] and spec = requested_spec_Inr [OF c(3)] and op = Engine_Request_operation [OF c(4)]
  have key: "resource_id (rr_Resource stored) = er_id q" by (rule stored_key [OF assms(2) l(2)])
  have "active = None"
    using Engine_Request_guards(5) [OF c(4)] active_Some [of "er_id q" s _ s] l(5) by (cases active) auto
  then have free: "no_active (er_id q) s" using active_None l(5) by blast
  let ?saved = "stored\<lparr>rr_Resource := resource, rr_Status := lr_Status transition, rr_Version := rr_Version stored + 1\<rparr>"
  obtain d where d: "s2 = s1\<lparr>st_desiredReferences := d\<rparr>"
  proof (cases "er_capability q = CapabilityUpdate \<and> (er_referencesPresent q \<or> effectiveDesired \<noteq> [])")
    case True
    then show ?thesis using c(6) replace_desired_Inr that by fastforce
  next
    case False
    then have "s2 = s1\<lparr>st_desiredReferences := st_desiredReferences s1\<rparr>" using c(6) by auto
    then show ?thesis by (rule that)
  qed
  have s2: "s2 = s\<lparr>st_nextResourceSequence := st_nextResourceSequence s, st_resourceSequences := st_resourceSequences s,
      st_resources := put (resource_id (rr_Resource ?saved)) ?saved (st_resources s), st_desiredReferences := d\<rparr>"
    using save_resource_Inr [OF c(5)] d by simp
  note p = persistExistingTransition_admitted [OF c(7) _ _ _ s2]
  have inv: "resources_inv s2" if "resources_inv s \<and> st_nextResourceSequence s \<noteq> - 1"
    using resources_inv_save [of s "stored\<lparr>rr_Resource := resource, rr_Status := lr_Status transition\<rparr>" "rr_Version stored"]
      that c(5) resources_inv_cong [of s2 s1] by (simp add: d)
  show "admitted s r (idempotency_of (idempotencyScope (er_actor q)) (er_idempotencyKey q) fingerprint (er_capability q) r) s'"
    "op_id (res_Operation r) = er_operationID q" "resource_id (rr_Resource (res_Resource r)) = er_id q"
    "resourceTargetOf (res_Resource r) = resourceTargetOf preflight" "keeps_tables s s'"
    "\<exists>event. res_Event r = Some event \<and> event_actor event = Some (stamp_of (er_actor q))"
    using p op free spec key l(3) inv stamped_actor [OF c(8)] by (simp_all add: resourceTargetOf_def)
  show "HasInboundProtectiveReference (er_id q) s = (Inr False, s)" if "er_capability q = CapabilityDelete"
    using check_unreferenced_Inr [OF c(2)] that key by simp
qed

lemma get_attempt_Inr: "GetSubmissionAttempt oid n s = (Inr a, s') \<Longrightarrow> s' = s"
  by (simp add: readers_Inr)

lemma recovery_child_Inr:
  assumes "recovery_child svc record failed source s = (Inr child, s')"
  shows "s' = s" "ex_Version child = 1" "ex_ResourceID child = ex_ResourceID source" "ex_ResourceType child = ex_ResourceType source"
    "ex_Capability child = ex_Capability source" "ex_TargetGeneration child = ex_TargetGeneration source"
    "ex_ProvisionerRef child = ex_ProvisionerRef source" "ex_Spec child = ex_Spec source"
    "ex_State child = AttemptPending \<or> ex_State child = AttemptSucceeded \<and> ex_RecoverySourceAttempt child \<noteq> 0"
  using assms
  by (auto simp: recovery_child_def bindT_eq_Inr readers_Inr retry_child_def
      validateOutputRecoveryAdmission_def Let_def split: if_splits)

lemma latest_Inr: "LatestForResource rid s = (Inr x, s') \<Longrightarrow> s' = s"
  by (simp add: LatestForResource_def)

lemma check_latest_Inr:
  "check_latest record failed s = (Inr u, s') \<Longrightarrow> s' = s \<and> no_active (resource_id (rr_Resource record)) s"
  by (auto simp: check_latest_def bindT_eq_Inr dest: latest_Inr active_None split: if_splits option.splits)
    (auto simp: active_Inr dest: latest_Inr)

lemma load_retry_Inr:
  assumes "load_retry cmd preflight preflightResource s = (Inr (record, failed), s')"
  shows "s' = s" "map_of (st_resources s) (op_resourceID (or_Operation preflight)) = Some record"
    "resourceTargetOf record = resourceTargetOf preflightResource"
    "map_of (st_operations s) (tc_OperationID cmd) = Some failed" "op_state (or_Operation failed) = OperationStateFailed"
    "op_resourceID (or_Operation failed) = resource_id (rr_Resource record)"
    "no_active (resource_id (rr_Resource record)) s"
  using assms
  by (auto simp: load_retry_def bindT_eq_Inr readers_Inr dest!: check_latest_Inr split: if_splits)

lemma retry_admitted:
  assumes "admit_retry svc cmd preflight preflightResource s = (Inr r, s')" "store_inv s"
  shows "admitted s r (idempotency_of (idempotencyScope (tc_Actor cmd)) (tc_IdempotencyKey cmd)
      (retryCommandFingerprint cmd) ''retry'' r) s'"
    "op_id (res_Operation r) = tc_NewOperationID cmd"
    "resourceTargetOf (res_Resource r) = resourceTargetOf preflightResource" "keeps_tables s s'"
    "\<exists>event. res_Event r = Some event \<and> event_actor event = Some (stamp_of (tc_Actor cmd))"
proof -
  from assms(1) obtain stored failed t1 where l: "load_retry cmd preflight preflightResource s = (Inr (stored, failed), t1)"
    by (auto simp: admit_retry_def bindT_eq_Inr)
  note l' = load_retry_Inr [OF l]
  let ?op = "or_Operation failed"
  from assms(1) l obtain resourceType source child t2 transition event s1 where
    ty: "svc_Types svc (resource_typeRef (rr_Resource stored)) = Inr resourceType" and
    c1: "map_of (st_executions s) (op_id ?op) = Some source" "validateRetryProvenance stored ?op source = Inr ()"
      "recovery_child svc stored ?op source s = (Inr child, t2)"
    and c: "Engine_Request (rr_Resource stored) (tc_Domain resourceType) (rr_Status stored) (Some ?op)
       (op_capability ?op) (tc_NewOperationID cmd) (tc_EventID cmd) (tc_RequestedAt cmd) = Inr transition"
    "SaveResource (stored\<lparr>rr_Status := lr_Status transition\<rparr>) (rr_Version stored) t2 = (Inr (), s1)"
    "persistExistingTransitionWithExecution (svc_Now svc)
       (stored\<lparr>rr_Status := lr_Status transition, rr_Version := rr_Version stored + 1\<rparr>)
       (transition\<lparr>lr_Event := event\<rparr>) (child\<lparr>ex_OperationID := op_id (lr_Operation transition)\<rparr>)
       (idempotencyScope (tc_Actor cmd)) (tc_IdempotencyKey cmd) (retryCommandFingerprint cmd) ''retry'' s1 = (Inr r, s')"
    "stampedAdmissionEvent transition (tc_Actor cmd) None = Inr event"
    by (auto simp: admit_retry_def bindT_eq_Inr Let_def readers_Inr l'(1) split: if_splits)
  note ch = recovery_child_Inr [OF c1(3)]
  note c2 = c [unfolded ch(1)]
  note op = Engine_Request_operation [OF c2(1)]
  let ?child = "child\<lparr>ex_OperationID := op_id (lr_Operation transition)\<rparr>"
  let ?stored = "stored\<lparr>rr_Status := lr_Status transition, rr_Version := rr_Version stored + 1\<rparr>"
  have "ex_Version ?child \<noteq> 0" by (simp add: ch(2))
  note p = persist_Inr [OF c2(3) this]
  have s1: "s1 = s\<lparr>st_resources := put (resource_id (rr_Resource ?stored)) ?stored (st_resources s)\<rparr>"
    using save_resource_Inr [OF c2(2)] by simp
  have "resource_written s r s1"
    unfolding resource_written_def p(2)
    by (rule exI [of _ "st_nextResourceSequence s"], rule exI [of _ "st_resourceSequences s"],
        rule exI [of _ "st_desiredReferences s"]) (simp add: s1)
  moreover have "ex_OperationID source = op_id ?op" "ex_ResourceID source = resource_id (rr_Resource stored)"
    "ex_ResourceType source = resource_typeRef (rr_Resource stored)" "ex_Capability source = op_capability ?op"
    "ex_TargetGeneration source = op_targetGeneration ?op" "ex_ProvisionerRef source = rr_ProvisionerRef stored"
    "spec_values (ex_Spec source) = spec_values (resource_spec (rr_Resource stored))"
    using c1(2) by (auto simp: validateRetryProvenance_def split: if_splits)
  then have "validateExecutionContext ?stored (lr_Operation transition) ?child = Inr ()"
    using op(1,2) op(5) [OF refl l'(5) refl] by (simp add: validateExecutionContext_def Let_def ch(3-8))
  then have "consistent_result r"
    using op(1,4) ch(9) p(6) by (auto simp: consistent_result_def p(2-4) IsOutputRecovery_def)
  ultimately show "admitted s r (idempotency_of (idempotencyScope (tc_Actor cmd)) (tc_IdempotencyKey cmd)
      (retryCommandFingerprint cmd) ''retry'' r) s'"
    using p(1) l'(7) by (auto simp: admitted_def p(2) idempotency_of_def)
  have "resources_inv s1" if "resources_inv s"
    using resources_inv_save [of s "stored\<lparr>rr_Status := lr_Status transition\<rparr>" "rr_Version stored"] that c2(2) by simp
  then show "keeps_tables s s'"
    using p(7) persisted_resources [OF p(1)] by (simp add: keeps_tables_def s1)
  show "\<exists>event. res_Event r = Some event \<and> event_actor event = Some (stamp_of (tc_Actor cmd))"
    using stamped_actor [OF c2(4)] by (simp add: p(5))
  show "op_id (res_Operation r) = tc_NewOperationID cmd"
    "resourceTargetOf (res_Resource r) = resourceTargetOf preflightResource"
    using op(3) l'(3) by (simp_all add: p(2,3) resourceTargetOf_def)
qed

section \<open>Replays\<close>

lemma context_operation: "validateExecutionContext rec op e = Inr () \<Longrightarrow> ex_OperationID e = op_id op"
  by (auto simp: validateExecutionContext_def Let_def split: if_splits)

lemma admitted_replays:
  assumes "admitted s r (idempotency_of scope key fingerprint kind r) s'" "key \<noteq> ''''"
  shows "replayWithin scope key fingerprint kind s' = (Inr (Some (r\<lparr>res_Event := None, res_Replay := True\<rparr>)), s')"
proof -
  from assms(1) obtain s1 where s1: "resource_written s r s1" "persisted s1 r (idempotency_of scope key fingerprint kind r) s'"
    and con: "consistent_result r" unfolding admitted_def by blast
  obtain e where e: "res_Execution r = Some e" "validateExecutionContext (res_Resource r) (res_Operation r) e = Inr ()"
    "ex_State e = AttemptPending \<or> ex_State e = AttemptSucceeded \<and> IsOutputRecovery e" "\<not> IsTerminal (res_Operation r)"
    "op_resourceID (res_Operation r) = resource_id (rr_Resource (res_Resource r))"
    using con unfolding consistent_result_def by blast
  have eid: "ex_OperationID e = op_id (res_Operation r)" by (rule context_operation [OF e(2)])
  obtain n q d where w: "s1 = s\<lparr>st_nextResourceSequence := n, st_resourceSequences := q,
      st_resources := put (resource_id (rr_Resource (res_Resource r))) (res_Resource r) (st_resources s),
      st_desiredReferences := d\<rparr>" using s1(1) unfolding resource_written_def by blast
  have rows: "map_of (st_resources s') (resource_id (rr_Resource (res_Resource r))) = Some (res_Resource r)"
    "\<exists>o1. map_of (st_operations s') (op_id (res_Operation r)) = Some o1 \<and> or_Operation o1 = res_Operation r"
    "map_of (st_executions s') (op_id (res_Operation r)) = Some e" "\<not> res_OutputsPending r"
    "map_of (st_idempotency s') (idempotencyMapKey scope key) = Some (idempotency_of scope key fingerprint kind r)"
    using s1(2) assms(2) e(1) by (auto simp: persisted_def Let_def w eid idempotency_of_def)
  have "replay_recorded key (idempotency_of scope key fingerprint kind r) s' =
      (Inr (r\<lparr>res_Event := None, res_Replay := True\<rparr>), s')"
  proof -
    obtain o1 where o1: "map_of (st_operations s') (op_id (res_Operation r)) = Some o1" "or_Operation o1 = res_Operation r"
      using rows(2) by blast
    have "GetResource (resource_id (rr_Resource (res_Resource r))) s' = (Inr (res_Resource r), s')"
      "GetOperation (op_id (res_Operation r)) s' = (Inr o1, s')" "GetExecution (op_id (res_Operation r)) s' = (Inr e, s')"
      using rows(1,3) o1(1) by (simp_all add: readers_Inr)
    then show ?thesis
      using e rows(4) by (auto simp: replay_recorded_def idempotency_of_def o1(2) liftT_def)
  qed
  moreover have "find_idempotency scope key s' = (Inr (Some (idempotency_of scope key fingerprint kind r)), s')"
    using rows(5) by (simp add: find_idempotency_Inr)
  ultimately show ?thesis
    using assms(2) by (simp add: replayWithin_def) (simp add: idempotency_of_def)
qed

text \<open>Stores in which the same requests address the same targets.\<close>

definition same_targets :: "Store \<Rightarrow> Store \<Rightarrow> bool" where
  "same_targets s t \<longleftrightarrow>
     (\<forall>rid r. map_of (st_resources s) rid = Some r \<longrightarrow>
        (\<exists>r'. map_of (st_resources t) rid = Some r' \<and> resourceTargetOf r' = resourceTargetOf r)) \<and>
     (\<forall>oid r. map_of (st_operations s) oid = Some r \<longrightarrow>
        (\<exists>r'. map_of (st_operations t) oid = Some r' \<and> op_resourceID (or_Operation r') = op_resourceID (or_Operation r)))"

lemma same_targets_refl [simp]: "same_targets s s"
  by (simp add: same_targets_def)

text \<open>Every request is a prologue that decides its fingerprint, and then the recorded answer or an admission.\<close>

definition keeps_target :: "Store \<Rightarrow> Result \<Rightarrow> bool" where
  "keeps_target s r \<longleftrightarrow> (\<forall>stored. map_of (st_resources s) (resource_id (rr_Resource (res_Resource r))) = Some stored \<longrightarrow>
     resourceTargetOf (res_Resource r) = resourceTargetOf stored)"

lemma admitted_same_targets:
  assumes "admitted s r idem s'" "keeps_target s r"
  shows "same_targets s s'"
proof -
  from assms(1) obtain s1 n q d where w: "s1 = s\<lparr>st_nextResourceSequence := n, st_resourceSequences := q,
      st_resources := put (resource_id (rr_Resource (res_Resource r))) (res_Resource r) (st_resources s),
      st_desiredReferences := d\<rparr>" and p: "persisted s1 r idem s'"
    unfolding admitted_def resource_written_def by blast
  have "st_resources s' = put (resource_id (rr_Resource (res_Resource r))) (res_Resource r) (st_resources s)"
    "\<exists>o1. st_operations s' = put (op_id (res_Operation r)) o1 (st_operations s)"
    "map_of (st_operations s) (op_id (res_Operation r)) = None"
    using p by (auto simp: persisted_def Let_def w)
  with assms(2) show ?thesis by (auto simp: same_targets_def keeps_target_def)
qed

definition update_request :: "UpdateResourceCommand \<Rightarrow> existingRequest" where
  "update_request cmd = \<lparr>er_id = uc_ID cmd, er_expectedGeneration = uc_ExpectedGeneration cmd,
       er_spec = Some (uc_Spec cmd), er_referencesPresent = uc_ReferencesPresent cmd,
       er_references = uc_References cmd, er_capability = CapabilityUpdate, er_operationID = uc_OperationID cmd,
       er_eventID = uc_EventID cmd, er_requestedAt = uc_RequestedAt cmd,
       er_idempotencyKey = uc_IdempotencyKey cmd, er_actor = uc_Actor cmd\<rparr>"

definition delete_request :: "DeleteResourceCommand \<Rightarrow> existingRequest" where
  "delete_request cmd = \<lparr>er_id = dc_ID cmd, er_expectedGeneration = dc_ExpectedGeneration cmd,
       er_spec = None, er_referencesPresent = False, er_references = [], er_capability = CapabilityDelete,
       er_operationID = dc_OperationID cmd, er_eventID = dc_EventID cmd, er_requestedAt = dc_RequestedAt cmd,
       er_idempotencyKey = dc_IdempotencyKey cmd, er_actor = dc_Actor cmd\<rparr>"

definition existing_prologue :: "Service \<Rightarrow> existingRequest \<Rightarrow> Store \<Rightarrow> (string \<times> string) result" where
  "existing_prologue svc q s =
     (if er_expectedGeneration q = 0 then Inl (ErrInvalidApplicationCall ''expected generation is required'')
      else bindE (fst (wrapT ErrResourceNotFound (LookupResource (er_id q)) s)) (\<lambda>preflight.
        bindE (authorize (svc_Authorizer svc) (er_actor q) (actionForCapability (er_capability q)) (resourceTargetOf preflight)) (\<lambda>_.
        bindE (fingerprintForExistingRequest (svc_Codec svc) q) (\<lambda>fingerprint. Inr (fingerprint, er_capability q)))))"

fun prologue :: "Service \<Rightarrow> admission_request \<Rightarrow> Store \<Rightarrow> (string \<times> string) result" where
  "prologue svc (Create cmd) s =
     bindE (authorize (svc_Authorizer svc) (cc_Actor cmd) ActionResourceCreate (create_target cmd)) (\<lambda>_.
     bindE (validateExternalEventID (cc_EventID cmd)) (\<lambda>_.
     bindE (createCommandFingerprint (svc_Codec svc) cmd) (\<lambda>fingerprint. Inr (fingerprint, CapabilityCreate))))"
| "prologue svc (Update cmd) s =
     bindE (validateExternalEventID (uc_EventID cmd)) (\<lambda>_. existing_prologue svc (update_request cmd) s)"
| "prologue svc (Delete cmd) s =
     bindE (validateExternalEventID (dc_EventID cmd)) (\<lambda>_. existing_prologue svc (delete_request cmd) s)"
| "prologue svc (Retry cmd) s =
     bindE (validateExternalEventID (tc_EventID cmd)) (\<lambda>_.
     bindE (fst (wrapT ErrOperationNotFound (LookupOperation (tc_OperationID cmd)) s)) (\<lambda>preflight.
     bindE (fst (wrapT ErrResourceNotFound (LookupResource (op_resourceID (or_Operation preflight))) s)) (\<lambda>resource.
     bindE (authorize (svc_Authorizer svc) (tc_Actor cmd) ActionResourceRetry (resourceTargetOf resource)) (\<lambda>_.
     if tc_ExpectedGeneration cmd = 0
       then Inl (ErrInvalidApplicationCall ''expected generation is required'')
     else Inr (retryCommandFingerprint cmd, ''retry'')))))"

fun admission :: "Service \<Rightarrow> admission_request \<Rightarrow> string \<Rightarrow> Store \<Rightarrow> Result tx" where
  "admission svc (Create cmd) fingerprint s = admit_create svc cmd fingerprint"
| "admission svc (Update cmd) fingerprint s =
     admit_existing svc (update_request cmd) (the (map_of (st_resources s) (uc_ID cmd))) fingerprint"
| "admission svc (Delete cmd) fingerprint s =
     admit_existing svc (delete_request cmd) (the (map_of (st_resources s) (dc_ID cmd))) fingerprint"
| "admission svc (Retry cmd) fingerprint s =
     (let preflight = the (map_of (st_operations s) (tc_OperationID cmd)) in
      admit_retry svc cmd preflight (the (map_of (st_resources s) (op_resourceID (or_Operation preflight)))))"

definition replay_of :: "admission_request \<Rightarrow> string \<times> string \<Rightarrow> Result option tx" where
  "replay_of req p = replayWithin (idempotencyScope (request_actor req)) (request_key req) (fst p) (snd p)"

definition request_run :: "Service \<Rightarrow> admission_request \<Rightarrow> string \<times> string \<Rightarrow> Store \<Rightarrow> Result result \<times> Store" where
  "request_run svc req p s = Within (or_replay (replay_of req p) (admission svc req (fst p) s)) s"

lemma Within_cong: "m s = m' s \<Longrightarrow> Within m s = Within m' s"
  by (simp add: Within_def)

lemma bindT_liftT [simp]: "bindT (liftT r) f s = (case r of Inl e \<Rightarrow> (Inl e, s) | Inr x \<Rightarrow> f x s)"
  by (simp add: bindT_def liftT_def split: sum.splits)

lemma Within_refused: "m s = (Inl e, s) \<Longrightarrow> Within m s = (Inl e, s)"
  by (simp add: Within_def)

lemma lookups:
  "LookupResource rid s = (case map_of (st_resources s) rid of
     None \<Rightarrow> (Inl (ErrResourceNotFound ''resource not found''), s) | Some r \<Rightarrow> (Inr r, s))"
  "LookupOperation oid s = (case map_of (st_operations s) oid of
     None \<Rightarrow> (Inl (ErrOperationNotFound ''operation not found''), s) | Some r \<Rightarrow> (Inr r, s))"
  by (simp_all add: LookupResource_def GetResource_def LookupOperation_def GetOperation_def readT_def split: option.splits)

lemma existing_run:
  "persistExistingRequest svc q s = (case existing_prologue svc q s of
     Inl e \<Rightarrow> (Inl e, s)
   | Inr p \<Rightarrow> Within (or_replay (replayWithin (idempotencyScope (er_actor q)) (er_idempotencyKey q) (fst p) (snd p))
       (admit_existing svc q (the (map_of (st_resources s) (er_id q))) (fst p))) s)"
proof (cases "er_expectedGeneration q = 0")
  case False
  show ?thesis
  proof (cases "map_of (st_resources s) (er_id q)")
    case None
    then show ?thesis
      using False by (simp add: persistExistingRequest_def existing_prologue_def wrapT_def wrapE_def lookups Within_def bindT_def)
  next
    case (Some stored)
    have look: "wrapT ErrResourceNotFound (LookupResource (er_id q)) s = (Inr stored, s)"
      by (simp add: wrapT_def wrapE_def lookups Some)
    show ?thesis
    proof (cases "authorize (svc_Authorizer svc) (er_actor q) (actionForCapability (er_capability q)) (resourceTargetOf stored)")
      case (Inl e)
      then show ?thesis using False
        by (simp add: persistExistingRequest_def existing_prologue_def look) (simp add: Within_def look)
    next
      case (Inr u)
      then show ?thesis using False
        by (cases "fingerprintForExistingRequest (svc_Codec svc) q")
          (simp_all add: persistExistingRequest_def existing_prologue_def look Some Within_def)
    qed
  qed
qed (simp add: persistExistingRequest_def existing_prologue_def)

lemma create_run:
  "AdmitCreateResource svc cmd s = (case prologue svc (Create cmd) s of
     Inl e \<Rightarrow> (Inl e, s) | Inr p \<Rightarrow> request_run svc (Create cmd) p s)"
proof (cases "authorize (svc_Authorizer svc) (cc_Actor cmd) ActionResourceCreate (create_target cmd)")
  case (Inr u)
  then show ?thesis
    by (cases "validateExternalEventID (cc_EventID cmd)"; cases "createCommandFingerprint (svc_Codec svc) cmd")
      (simp_all add: AdmitCreateResource_def persistCreateRequest_def request_run_def replay_of_def Within_def)
qed (simp add: AdmitCreateResource_def)

lemma retry_run:
  "AdmitRetryOperation svc cmd s = (case prologue svc (Retry cmd) s of
     Inl e \<Rightarrow> (Inl e, s) | Inr p \<Rightarrow> request_run svc (Retry cmd) p s)"
proof (cases "validateExternalEventID (tc_EventID cmd)")
  case (Inr u)
  show ?thesis
  proof (cases "map_of (st_operations s) (tc_OperationID cmd)")
    case None
    then show ?thesis
      using Inr by (simp add: AdmitRetryOperation_def persistRetryRequest_def Within_def bindT_def wrapT_def wrapE_def lookups liftT_def)
  next
    case (Some preflight)
    have op: "wrapT ErrOperationNotFound (LookupOperation (tc_OperationID cmd)) s = (Inr preflight, s)"
      by (simp add: wrapT_def wrapE_def lookups Some)
    show ?thesis
    proof (cases "map_of (st_resources s) (op_resourceID (or_Operation preflight))")
      case None
      then have "wrapT ErrResourceNotFound (LookupResource (op_resourceID (or_Operation preflight))) s =
          (Inl (ErrResourceNotFound (err_text (ErrResourceNotFound ''resource not found''))), s)"
        by (simp add: wrapT_def wrapE_def lookups)
      then show ?thesis
        using Inr op by (simp add: AdmitRetryOperation_def persistRetryRequest_def Within_def bindT_def liftT_def del: wrapT_Inr)
    next
      case (Some stored)
      have res: "wrapT ErrResourceNotFound (LookupResource (op_resourceID (or_Operation preflight))) s = (Inr stored, s)"
        by (simp add: wrapT_def wrapE_def lookups Some)
      show ?thesis
        using Inr op res Some \<open>map_of (st_operations s) (tc_OperationID cmd) = Some preflight\<close>
        by (cases "authorize (svc_Authorizer svc) (tc_Actor cmd) ActionResourceRetry (resourceTargetOf stored)")
          (simp_all add: AdmitRetryOperation_def persistRetryRequest_def Within_def request_run_def replay_of_def
            del: wrapT_Inr)
    qed
  qed
qed (simp add: AdmitRetryOperation_def)

lemma admit_run:
  "admit svc req s = (case prologue svc req s of Inl e \<Rightarrow> (Inl e, s) | Inr p \<Rightarrow> request_run svc req p s)"
proof (cases req)
  case (Update cmd)
  have "AdmitUpdateResource svc cmd s = (case validateExternalEventID (uc_EventID cmd) of
      Inl e \<Rightarrow> (Inl e, s) | Inr _ \<Rightarrow> persistExistingRequest svc (update_request cmd) s)"
    by (simp add: AdmitUpdateResource_def update_request_def split: sum.split)
  then show ?thesis
    by (cases "validateExternalEventID (uc_EventID cmd)"; cases "existing_prologue svc (update_request cmd) s")
      (simp_all add: Update existing_run request_run_def replay_of_def, simp_all add: update_request_def)
next
  case (Delete cmd)
  have "AdmitDeleteResource svc cmd s = (case validateExternalEventID (dc_EventID cmd) of
      Inl e \<Rightarrow> (Inl e, s) | Inr _ \<Rightarrow> persistExistingRequest svc (delete_request cmd) s)"
    by (simp add: AdmitDeleteResource_def delete_request_def split: sum.split)
  then show ?thesis
    by (cases "validateExternalEventID (dc_EventID cmd)"; cases "existing_prologue svc (delete_request cmd) s")
      (simp_all add: Delete existing_run request_run_def replay_of_def, simp_all add: delete_request_def)
qed (simp_all only: admit.simps create_run retry_run)

section \<open>One admission\<close>

fun request_operation :: "admission_request \<Rightarrow> operation_id" where
  "request_operation (Create cmd) = cc_OperationID cmd"
| "request_operation (Update cmd) = uc_OperationID cmd"
| "request_operation (Delete cmd) = dc_OperationID cmd"
| "request_operation (Retry cmd) = tc_NewOperationID cmd"

definition request_record :: "admission_request \<Rightarrow> string \<times> string \<Rightarrow> Result \<Rightarrow> IdempotencyRecord" where
  "request_record req p r = idempotency_of (idempotencyScope (request_actor req)) (request_key req) (fst p) (snd p) r"

lemma existing_prologue_Inr:
  "existing_prologue svc q s = Inr p \<Longrightarrow> snd p = er_capability q \<and> er_expectedGeneration q \<noteq> 0 \<and>
     (\<exists>stored. map_of (st_resources s) (er_id q) = Some stored \<and>
        authorize (svc_Authorizer svc) (er_actor q) (actionForCapability (er_capability q)) (resourceTargetOf stored) = Inr () \<and>
        fingerprintForExistingRequest (svc_Codec svc) q = Inr (fst p))"
  by (auto simp: existing_prologue_def wrapT_def lookups split: if_splits option.splits prod.splits)

lemma retry_prologue_Inr:
  "prologue svc (Retry cmd) s = Inr p \<Longrightarrow> p = (retryCommandFingerprint cmd, ''retry'') \<and> tc_ExpectedGeneration cmd \<noteq> 0 \<and>
     validateExternalEventID (tc_EventID cmd) = Inr () \<and> (\<exists>preflight stored. map_of (st_operations s) (tc_OperationID cmd) = Some preflight \<and>
        map_of (st_resources s) (op_resourceID (or_Operation preflight)) = Some stored \<and>
        authorize (svc_Authorizer svc) (tc_Actor cmd) ActionResourceRetry (resourceTargetOf stored) = Inr ())"
  by (auto simp: wrapT_def lookups split: if_splits option.splits prod.splits)

lemma existing_prologue_same:
  assumes "existing_prologue svc q s = Inr p" "same_targets s t"
  shows "existing_prologue svc q t = Inr p"
proof -
  note e = existing_prologue_Inr [OF assms(1)]
  then obtain stored where "map_of (st_resources s) (er_id q) = Some stored"
    "authorize (svc_Authorizer svc) (er_actor q) (actionForCapability (er_capability q)) (resourceTargetOf stored) = Inr ()"
    "fingerprintForExistingRequest (svc_Codec svc) q = Inr (fst p)" by blast
  moreover then obtain stored' where "map_of (st_resources t) (er_id q) = Some stored'"
    "resourceTargetOf stored' = resourceTargetOf stored" using assms(2) unfolding same_targets_def by blast
  ultimately show ?thesis
    using e by (simp add: existing_prologue_def wrapT_def wrapE_def lookups prod_eq_iff)
qed

lemma prologue_same:
  assumes "prologue svc req s = Inr p" "same_targets s t"
  shows "prologue svc req t = Inr p"
proof (cases req)
  case (Retry cmd)
  from retry_prologue_Inr [OF assms(1) [unfolded Retry]] obtain preflight stored where
    p: "p = (retryCommandFingerprint cmd, ''retry'')" "tc_ExpectedGeneration cmd \<noteq> 0"
      "validateExternalEventID (tc_EventID cmd) = Inr ()"
    and s: "map_of (st_operations s) (tc_OperationID cmd) = Some preflight"
      "map_of (st_resources s) (op_resourceID (or_Operation preflight)) = Some stored"
    and a: "authorize (svc_Authorizer svc) (tc_Actor cmd) ActionResourceRetry (resourceTargetOf stored) = Inr ()" by blast
  obtain preflight' stored' where "map_of (st_operations t) (tc_OperationID cmd) = Some preflight'"
    "op_resourceID (or_Operation preflight') = op_resourceID (or_Operation preflight)"
    "map_of (st_resources t) (op_resourceID (or_Operation preflight)) = Some stored'"
    "resourceTargetOf stored' = resourceTargetOf stored"
    using s assms(2) unfolding same_targets_def by metis
  then show ?thesis using p a by (simp add: Retry wrapT_def wrapE_def lookups)
qed (use assms existing_prologue_same [OF _ assms(2)] in auto)

lemma admission_admitted:
  assumes "prologue svc req s = Inr p" "admission svc req (fst p) s s = (Inr r, s')" "store_inv s"
  shows "admitted s r (request_record req p r) s' \<and> op_id (res_Operation r) = request_operation req \<and> keeps_target s r \<and>
      keeps_tables s s' \<and> (\<exists>event. res_Event r = Some event \<and> event_actor event = Some (stamp_of (request_actor req)))"
proof (cases req)
  case (Create cmd)
  have p: "snd p = CapabilityCreate" using assms(1) by (auto simp: Create)
  from create_admitted [OF assms(2) [unfolded Create admission.simps]]
  show "admitted s r (request_record req p r) s' \<and> op_id (res_Operation r) = request_operation req \<and> keeps_target s r \<and>
      keeps_tables s s' \<and> (\<exists>event. res_Event r = Some event \<and> event_actor event = Some (stamp_of (request_actor req)))"
    by (simp add: Create request_record_def p keeps_target_def)
next
  case (Update cmd)
  have e: "existing_prologue svc (update_request cmd) s = Inr p" using assms(1) by (auto simp: Update)
  obtain stored where st: "map_of (st_resources s) (uc_ID cmd) = Some stored" "snd p = CapabilityUpdate"
    using existing_prologue_Inr [OF e] by (auto simp: update_request_def)
  note a = existing_admitted [OF assms(2) [unfolded Update admission.simps] assms(3)]
  show "admitted s r (request_record req p r) s' \<and> op_id (res_Operation r) = request_operation req \<and> keeps_target s r \<and>
      keeps_tables s s' \<and> (\<exists>event. res_Event r = Some event \<and> event_actor event = Some (stamp_of (request_actor req)))"
    using a st by (simp add: Update request_record_def update_request_def keeps_target_def)
next
  case (Delete cmd)
  have e: "existing_prologue svc (delete_request cmd) s = Inr p" using assms(1) by (auto simp: Delete)
  obtain stored where st: "map_of (st_resources s) (dc_ID cmd) = Some stored" "snd p = CapabilityDelete"
    using existing_prologue_Inr [OF e] by (auto simp: delete_request_def)
  note a = existing_admitted [OF assms(2) [unfolded Delete admission.simps] assms(3)]
  show "admitted s r (request_record req p r) s' \<and> op_id (res_Operation r) = request_operation req \<and> keeps_target s r \<and>
      keeps_tables s s' \<and> (\<exists>event. res_Event r = Some event \<and> event_actor event = Some (stamp_of (request_actor req)))"
    using a st by (simp add: Delete request_record_def delete_request_def keeps_target_def)
next
  case (Retry cmd)
  from retry_prologue_Inr [OF assms(1) [unfolded Retry]] obtain preflight stored where
    p: "p = (retryCommandFingerprint cmd, ''retry'')" and s: "map_of (st_operations s) (tc_OperationID cmd) = Some preflight"
      "map_of (st_resources s) (op_resourceID (or_Operation preflight)) = Some stored" by blast
  have "admit_retry svc cmd preflight stored s = (Inr r, s')" using assms(2) s by (simp add: Retry)
  note a = retry_admitted [OF this assms(3)]
  have "resource_id (rr_Resource (res_Resource r)) = op_resourceID (or_Operation preflight)"
    using a(3) stored_key [OF assms(3) s(2)] by (simp add: resourceTargetOf_def)
  then show "admitted s r (request_record req p r) s' \<and> op_id (res_Operation r) = request_operation req \<and> keeps_target s r \<and>
      keeps_tables s s' \<and> (\<exists>event. res_Event r = Some event \<and> event_actor event = Some (stamp_of (request_actor req)))"
    using a s(2) by (simp add: Retry request_record_def p keeps_target_def)
qed

text \<open>The three outcomes of a request.\<close>

lemma recorded_state: "replay_recorded key existing s = (x, t) \<Longrightarrow> t = s"
  by (auto simp: replay_recorded_def bindT_def GetResource_def GetOperation_def GetExecution_def
      split: option.splits if_splits sum.splits prod.splits)

lemma replay_state: "replayWithin scope key fingerprint kind s = (x, t) \<Longrightarrow> t = s"
  by (auto simp: replayWithin_def bindT_def find_idempotency_def GetIdempotency_def
      split: option.splits if_splits sum.splits prod.splits dest: recorded_state)

lemma admit_Inr_cases:
  assumes "admit svc req s = (Inr r, s')" "store_inv s"
  obtains (replay) p existing where "prologue svc req s = Inr p" "request_key req \<noteq> ''''" "s' = s" "res_Replay r"
      "recorded req s = Some existing" "idem_Fingerprint existing = fst p" "idem_CommandKind existing = snd p"
      "replay_recorded (request_key req) existing s = (Inr r, s)"
  | (fresh) p where "prologue svc req s = Inr p" "request_key req \<noteq> '''' \<Longrightarrow> recorded req s = None"
      "admission svc req (fst p) s s = (Inr r, s')"
proof -
  from assms(1) obtain p where p: "prologue svc req s = Inr p" "request_run svc req p s = (Inr r, s')"
    by (auto simp: admit_run split: sum.splits)
  from p(2) consider (a) "replay_of req p s = (Inr (Some r), s')"
    | (b) s1 where "replay_of req p s = (Inr None, s1)" "admission svc req (fst p) s s1 = (Inr r, s')"
    by (auto simp: request_run_def Within_Inr or_replay_Inr)
  then show thesis
  proof cases
    case a
    note w = replayWithin_Inr [OF a [unfolded replay_of_def]]
    obtain existing where "map_of (st_idempotency s) (idempotencyMapKey (idempotencyScope (request_actor req)) (request_key req)) = Some existing"
      "idem_Fingerprint existing = fst p" "idem_CommandKind existing = snd p" "res_Replay r" "request_key req \<noteq> ''''"
      "replay_recorded (request_key req) existing s = (Inr r, s)" using w(3) [OF refl] by blast
    then show thesis using w(1) p(1) by (intro replay [of p existing]) (simp_all add: recorded_def)
  next
    case b
    note w = replayWithin_Inr [OF b(1) [unfolded replay_of_def]]
    show thesis using b(2) w(1,2) p(1) by (intro fresh [of p]) (simp_all add: recorded_def)
  qed
qed

section \<open>Counters of an aborted admission\<close>

definition counters :: "Store \<Rightarrow> uint64 \<times> uint64" where
  "counters s = (st_nextOperationSequence s, st_nextResourceSequence s)"

definition leads :: "(Store \<Rightarrow> bool) \<Rightarrow> 'a tx \<Rightarrow> (Store \<Rightarrow> bool) \<Rightarrow> bool" where
  "leads P m Q \<longleftrightarrow> (\<forall>s. P s \<longrightarrow> Q (snd (m s)))"

lemma leads_bindT:
  assumes "leads P m R" "\<And>x. leads R (f x) Q" "\<And>s. R s \<Longrightarrow> Q s"
  shows "leads P (bindT m f) Q"
  unfolding leads_def
proof (intro allI impI)
  fix s assume "P s"
  then have R: "R (snd (m s))" using assms(1) by (simp add: leads_def)
  show "Q (snd (bindT m f s))"
  proof (cases "m s")
    case (Pair q s1)
    then show ?thesis using R assms(2,3) by (cases q) (auto simp: bindT_def leads_def)
  qed
qed

lemma leads_preserves: "preserves P m \<Longrightarrow> (\<And>s. P s \<Longrightarrow> Q s) \<Longrightarrow> leads P m Q"
  by (simp add: leads_def preserves_def)

lemma leads_after: "preserves P m \<Longrightarrow> (\<And>x. leads P (f x) Q) \<Longrightarrow> (\<And>s. P s \<Longrightarrow> Q s) \<Longrightarrow> leads P (bindT m f) Q"
  using leads_bindT leads_preserves by metis

text \<open>The methods that move no counter.\<close>

lemma counters_methods [preserves_intros]:
  "preserves (\<lambda>s. counters s \<in> C) (SaveResource r v)" "preserves (\<lambda>s. counters s \<in> C) (AppendEvent ev)"
  "preserves (\<lambda>s. counters s \<in> C) (ReplaceDesiredReferences rid g es)" "preserves (\<lambda>s. counters s \<in> C) (CreateExecution e)"
  "preserves (\<lambda>s. counters s \<in> C) (PutIdempotency i)" "preserves (\<lambda>s. counters s \<in> C) (Enqueue now m)"
proof -
  show "preserves (\<lambda>s. counters s \<in> C) (SaveResource r v)"
    by (simp add: preserves_def counters_def frames)
qed (simp_all add: preserves_def counters_def AppendEvent_def ReplaceDesiredReferences_def CreateExecution_def
    PutIdempotency_def Enqueue_def Let_def split: option.split)

lemma preserves_wrapT [preserves_intros]: "preserves P m \<Longrightarrow> preserves P (wrapT sentinel m)"
  by (auto simp: preserves_def wrapT_def split: prod.split)

lemma reading_parts [preserves_intros]:
  "preserves P (validateReferenceTargets authorized owner contract edges)" "preserves P (quota_facts plan cmd)"
  "preserves P (detect_cycle source edges)" "preserves P (replayWithin scope key fingerprint kind)"
  by (auto simp: preserves_def detect_cycle_def quota_facts_def ResourceCountFacts_of_def dest: validate_targets_state replay_state
      split: prod.split sum.split error.split)
    (metis validate_targets_state prod.collapse, metis replay_state prod.collapse)

lemmas admission_parts = admit_edges_def lock_new_resource_def check_unreferenced_def effective_references_def
  load_existing_def load_retry_def check_latest_def recovery_child_def

lemma admission_parts_preserve [preserves_intros]:
  "preserves P (lock_new_resource plan cmd contract edges)" "preserves P (admit_edges svc prn owner contract source edges)"
  "preserves P (load_existing r preflight)" "preserves P (check_unreferenced r stored)"
  "preserves P (load_retry rcmd opr preflightResource)" "preserves P (recovery_child svc rec failed execution)"
  unfolding admission_parts by (intro preserves_intros)+

lemma effective_references_preserve [preserves_intros]: "preserves P (effective_references svc r stored contract)"
  unfolding effective_references_def by (intro preserves_intros)

text \<open>An admission moves each counter by at most one step, whatever it answers.\<close>

definition at_most_one_step :: "uint64 \<times> uint64 \<Rightarrow> Store \<Rightarrow> bool" where
  "at_most_one_step c s \<longleftrightarrow> counters s \<in> {fst c, fst c + 1} \<times> {snd c, snd c + 1}"

lemma create_operation_counters:
  "leads (\<lambda>s. counters s \<in> {fst c} \<times> {snd c, snd c + 1}) (CreateOperation r) (at_most_one_step c)"
  by (auto simp: leads_def counters_def CreateOperation_def Let_def at_most_one_step_def)

lemma create_resource_counters:
  "leads (\<lambda>s. counters s = c) (CreateResource r) (\<lambda>s. counters s \<in> {fst c} \<times> {snd c, snd c + 1})"
  by (auto simp: leads_def counters_def CreateResource_def Let_def)

lemma persist_counters:
  "leads (\<lambda>s. counters s \<in> {fst c} \<times> {snd c, snd c + 1})
     (persistExistingTransitionWithExecution now stored transition execution scope key fingerprint kind) (at_most_one_step c)"
  "leads (\<lambda>s. counters s \<in> {fst c} \<times> {snd c, snd c + 1})
     (persistExistingTransition now stored transition scope key fingerprint kind) (at_most_one_step c)"
proof -
  show main: "leads (\<lambda>s. counters s \<in> {fst c} \<times> {snd c, snd c + 1})
     (persistExistingTransitionWithExecution now stored transition execution scope key fingerprint kind) (at_most_one_step c)"
    for execution kind
    unfolding persistExistingTransitionWithExecution_def Let_def
    by (rule leads_bindT [OF create_operation_counters]; (rule leads_preserves)?)
      (simp_all only: at_most_one_step_def [abs_def], intro preserves_intros)
  show "leads (\<lambda>s. counters s \<in> {fst c} \<times> {snd c, snd c + 1})
     (persistExistingTransition now stored transition scope key fingerprint kind) (at_most_one_step c)"
    unfolding persistExistingTransition_def by (rule main)
qed

lemma counters_step [simp]: "counters s = c \<Longrightarrow> at_most_one_step c s"
  "counters s \<in> {fst c} \<times> {snd c, snd c + 1} \<Longrightarrow> at_most_one_step c s"
  by (auto simp: at_most_one_step_def)

lemma leads_mono: "leads P m Q \<Longrightarrow> (\<And>s. P' s \<Longrightarrow> P s) \<Longrightarrow> leads P' m Q"
  by (simp add: leads_def)

lemma leads_let: "(\<And>x. leads P (f x) Q) \<Longrightarrow> leads P (let x = e in f x) Q"
  by simp

lemma leads_case_prod: "(\<And>x y. leads P (f x y) Q) \<Longrightarrow> leads P (case p of (x, y) \<Rightarrow> f x y) Q"
  by (cases p) simp

lemma leads_refused: "(\<And>s. P s \<Longrightarrow> Q s) \<Longrightarrow> leads P (throwT e) Q"
  by (simp add: leads_def throwT_def)

lemma leads_if: "leads P m Q \<Longrightarrow> leads P m' Q \<Longrightarrow> leads P (if b then m else m') Q"
  by simp

lemma SaveResource_counters [preserves_intros]: "preserves (\<lambda>s. counters s = c) (SaveResource r v)"
  "preserves (\<lambda>s. counters s = c) (ReplaceDesiredReferences rid g es)"
  using counters_methods [of "{c}"] by simp_all

lemma persistNewRequest_counters:
  "leads (\<lambda>s. counters s = c) (persistNewRequest now stored transition scope key fingerprint edges) (at_most_one_step c)"
  unfolding persistNewRequest_def
proof (rule leads_bindT [OF create_resource_counters])
  fix u :: unit
  show "leads (\<lambda>s. counters s \<in> {fst c} \<times> {snd c, snd c + 1})
      (bindT (ReplaceDesiredReferences (resource_id (rr_Resource stored)) (resource_generation (rr_Resource stored)) edges)
        (\<lambda>_. persistExistingTransition now stored transition scope key fingerprint (op_capability (lr_Operation transition))))
      (at_most_one_step c)"
    by (rule leads_after [OF counters_methods(3) persist_counters(2) counters_step(2)])
qed (rule counters_step(2))

lemma persist_counters_from:
  "leads (\<lambda>s. counters s = c)
     (persistExistingTransitionWithExecution now stored transition execution scope key fingerprint kind) (at_most_one_step c)"
  "leads (\<lambda>s. counters s = c)
     (persistExistingTransition now stored transition scope key fingerprint kind) (at_most_one_step c)"
  by (auto intro: leads_mono [OF persist_counters(1)] leads_mono [OF persist_counters(2)])

lemma admission_counters: "leads (\<lambda>s. counters s = c) (admission svc req fingerprint s0) (at_most_one_step c)"
proof -
  note step = leads_after [OF _ _ counters_step(1)] leads_case_prod leads_let leads_if leads_refused [OF counters_step(1)]
    persistNewRequest_counters persist_counters_from preserves_intros
  have create: "leads (\<lambda>s. counters s = c) (admit_create svc cmd fingerprint) (at_most_one_step c)" for cmd
    unfolding admit_create_def by (intro step)
  have existing: "leads (\<lambda>s. counters s = c) (admit_existing svc q preflight fingerprint) (at_most_one_step c)" for q preflight
    unfolding admit_existing_def by (intro step)
  have retry: "leads (\<lambda>s. counters s = c) (admit_retry svc cmd preflight target) (at_most_one_step c)" for cmd preflight target
    unfolding admit_retry_def by (intro step)
  show ?thesis by (cases req) (simp_all add: create existing retry Let_def)
qed

lemma admission_refused:
  assumes "admit svc req s = (Inl e, s')"
  shows "at_most_one_step (counters s) s' \<and> (\<exists>n m w. s' = s\<lparr>st_nextOperationSequence := n, st_nextResourceSequence := m, st_nextWaitSequence := w\<rparr>)"
proof (cases "prologue svc req s")
  case (Inl e)
  have "\<exists>n m w. s = s\<lparr>st_nextOperationSequence := n, st_nextResourceSequence := m, st_nextWaitSequence := w\<rparr>"
    by (rule exI [of _ "st_nextOperationSequence s"], rule exI [of _ "st_nextResourceSequence s"],
        rule exI [of _ "st_nextWaitSequence s"]) simp
  moreover have "s' = s" using assms Inl by (simp add: admit_run)
  ultimately show ?thesis by simp
next
  case (Inr p)
  have "leads (\<lambda>t. counters t = counters s) (or_replay (replay_of req p) (admission svc req (fst p) s)) (at_most_one_step (counters s))"
    unfolding or_replay_def replay_of_def
    by (rule leads_after [OF reading_parts(4)]) (use admission_counters [of "counters s" svc req "fst p" s] in \<open>auto simp: leads_def returnT_def split: option.split\<close>)
  then have "at_most_one_step (counters s) (snd (or_replay (replay_of req p) (admission svc req (fst p) s) s))"
    by (simp add: leads_def)
  then show ?thesis
    using assms Inr by (auto simp: admit_run request_run_def Within_def at_most_one_step_def counters_def split: prod.splits sum.splits)
qed

section \<open>The state after a request\<close>

lemma resources_inv_counter:
  assumes "resources_inv s" "n = st_nextResourceSequence s \<or> n = st_nextResourceSequence s + 1 \<and> st_nextResourceSequence s \<noteq> - 1"
  shows "resources_inv (s\<lparr>st_nextOperationSequence := k, st_nextResourceSequence := n, st_nextWaitSequence := w\<rparr>)"
proof -
  have "sequence_of (s\<lparr>st_nextOperationSequence := k, st_nextResourceSequence := n, st_nextWaitSequence := w\<rparr>) = sequence_of s"
    by (rule ext) (simp add: sequence_of_def)
  then show ?thesis
    using assms word_Suc_less [of "st_nextResourceSequence s"] unfolding resources_inv_def
    by (auto intro: order_trans less_imp_le)
qed

lemma operations_inv_counter:
  assumes "operations_inv s" "n = st_nextOperationSequence s \<or> n = st_nextOperationSequence s + 1 \<and> st_nextOperationSequence s \<noteq> - 1"
  shows "operations_inv (s\<lparr>st_nextOperationSequence := n, st_nextResourceSequence := k, st_nextWaitSequence := w\<rparr>)"
  using assms word_Suc_less [of "st_nextOperationSequence s"] unfolding operations_inv_def
  by (auto intro: order_trans less_imp_le)

lemma refused_preserves:
  assumes "store_inv s" "st_nextOperationSequence s \<noteq> - 1" "st_nextResourceSequence s \<noteq> - 1" "admit svc req s = (Inl e, s')"
  shows "store_inv s'"
proof -
  obtain n m w where s': "s' = s\<lparr>st_nextOperationSequence := n, st_nextResourceSequence := m, st_nextWaitSequence := w\<rparr>"
    "at_most_one_step (counters s) s'" using admission_refused [OF assms(4)] by blast
  then have "n = st_nextOperationSequence s \<or> n = st_nextOperationSequence s + 1"
    "m = st_nextResourceSequence s \<or> m = st_nextResourceSequence s + 1"
    by (auto simp: at_most_one_step_def counters_def)
  then show ?thesis
    using assms(1-3) resources_inv_counter [where s = s and k = n and n = m and w = w]
      operations_inv_counter [where s = s and k = m and n = n and w = w]
      single_active_cong [of s' s] by (simp add: store_inv_def s'(1))
qed

lemma single_active_admitted:
  assumes "operations_inv s" "single_active s" "no_active (op_resourceID (or_Operation r)) s"
    and "st_operations s' = put k r (st_operations s)" "map_of (st_operations s) k = None"
  shows "single_active s'"
proof -
  have wf: "wf_table (st_operations s)" "wf_table (st_operations s')"
    using assms(1,4) by (simp_all add: operations_inv_def)
  have none: "IsTerminal (or_Operation r')" if "map_of (st_operations s) k' = Some r'"
    "op_resourceID (or_Operation r') = op_resourceID (or_Operation r)" for k' r'
    using assms(3) map_of_SomeD [OF that(1)] that(2) by (auto simp: no_active_def)
  show ?thesis
    using assms(2) none unfolding single_active_iff [OF wf(1)] single_active_iff [OF wf(2)]
    by (auto simp: assms(4) split: if_splits)
qed

lemma admitted_preserves:
  assumes "store_inv s" "st_nextOperationSequence s \<noteq> - 1" "st_nextResourceSequence s \<noteq> - 1"
    and "admitted s r idem s'" "keeps_tables s s'"
  shows "store_inv s'"
proof -
  from assms(4) obtain s1 n q d where w: "s1 = s\<lparr>st_nextResourceSequence := n, st_resourceSequences := q,
      st_resources := put (resource_id (rr_Resource (res_Resource r))) (res_Resource r) (st_resources s),
      st_desiredReferences := d\<rparr>" and p: "persisted s1 r idem s'" and con: "consistent_result r"
      and free: "no_active (resource_id (rr_Resource (res_Resource r))) s"
    unfolding admitted_def resource_written_def by blast
  let ?row = "\<lparr>or_Operation = res_Operation r, or_Sequence = st_nextOperationSequence s + 1, or_Version = 1\<rparr>"
  have o: "st_operations s' = put (op_id (res_Operation r)) ?row (st_operations s)"
    "map_of (st_operations s) (op_id (res_Operation r)) = None"
    "st_nextOperationSequence s' = st_nextOperationSequence s + 1"
    using p by (auto simp: persisted_def Let_def w)
  have inv: "operations_inv s" "single_active s" using assms(1) by (simp_all add: store_inv_def)
  have "operations_effect s s'"
    unfolding operations_effect_def using assms(2) o by (intro disjI2 disjI1 conjI exI [of _ ?row]) simp_all
  then have "operations_inv s'" by (rule operations_effect_inv [OF inv(1)])
  moreover have "single_active s'"
    by (rule single_active_admitted [OF inv _ o(1,2)]) (use con free in \<open>simp add: consistent_result_def\<close>)
  ultimately show ?thesis using assms(1,3,5) by (simp add: store_inv_def keeps_tables_def)
qed

lemma admit_preserves:
  assumes "store_inv s" "st_nextOperationSequence s \<noteq> - 1" "st_nextResourceSequence s \<noteq> - 1" "admit svc req s = (x, s')"
  shows "store_inv s'"
proof (cases x)
  case (Inl e)
  then show ?thesis using refused_preserves assms by blast
next
  case (Inr r)
  have run: "admit svc req s = (Inr r, s')" using assms(4) Inr by simp
  show ?thesis
  proof (rule admit_Inr_cases [OF run assms(1)])
    fix p assume p: "prologue svc req s = Inr p" "admission svc req (fst p) s s = (Inr r, s')"
    show ?thesis
      using admission_admitted [OF p assms(1)] admitted_preserves [OF assms(1-3)] by blast
  qed (simp add: assms(1))
qed

section \<open>Properties of admission\<close>

lemma fresh_effect:
  assumes "admitted s r (request_record req p r) s'"
  shows "no_active (resource_id (rr_Resource (res_Resource r))) s \<and>
    map_of (st_operations s) (op_id (res_Operation r)) = None \<and>
    st_operations s' = put (op_id (res_Operation r))
      \<lparr>or_Operation = res_Operation r, or_Sequence = st_nextOperationSequence s + 1, or_Version = 1\<rparr> (st_operations s) \<and>
    op_resourceID (res_Operation r) = resource_id (rr_Resource (res_Resource r)) \<and> \<not> IsTerminal (res_Operation r) \<and>
    st_resources s' = put (resource_id (rr_Resource (res_Resource r))) (res_Resource r) (st_resources s) \<and>
    (\<exists>e. res_Execution r = Some e \<and> st_executions s' = put (op_id (res_Operation r)) e (st_executions s) \<and>
       validateExecutionContext (res_Resource r) (res_Operation r) e = Inr ()) \<and>
    (\<exists>event. res_Event r = Some event \<and> st_events s' = put (event_id event) event (st_events s)) \<and>
    (if request_key req = '''' then st_idempotency s' = st_idempotency s
     else recorded req s = None \<and> (\<exists>i. recorded req s' = Some i \<and> idem_OperationID i = op_id (res_Operation r) \<and>
       idem_ResourceID i = resource_id (rr_Resource (res_Resource r)))) \<and>
    drive_queued (op_id (res_Operation r)) s' \<and> \<not> res_Replay r \<and>
    st_attempts s' = st_attempts s \<and> st_outputs s' = st_outputs s \<and> st_appliedReferences s' = st_appliedReferences s \<and>
    st_dependencyWaits s' = st_dependencyWaits s"
proof -
  from assms obtain s1 n q d where w: "s1 = s\<lparr>st_nextResourceSequence := n, st_resourceSequences := q,
      st_resources := put (resource_id (rr_Resource (res_Resource r))) (res_Resource r) (st_resources s),
      st_desiredReferences := d\<rparr>" and p: "persisted s1 r (request_record req p r) s'" and con: "consistent_result r"
      and free: "no_active (resource_id (rr_Resource (res_Resource r))) s"
    unfolding admitted_def resource_written_def by blast
  obtain e where e: "res_Execution r = Some e" "validateExecutionContext (res_Resource r) (res_Operation r) e = Inr ()"
    "op_resourceID (res_Operation r) = resource_id (rr_Resource (res_Resource r))" "\<not> IsTerminal (res_Operation r)"
    using con unfolding consistent_result_def by blast
  have eid: "ex_OperationID e = op_id (res_Operation r)" by (rule context_operation [OF e(2)])
  show ?thesis
    using p free e eid by (auto simp: persisted_def Let_def w recorded_def request_record_def idempotency_of_def)
qed

section \<open>Example inputs\<close>

definition example_contract_type :: TypeContract where
  "example_contract_type = \<lparr>rc_ReferenceContract = None, rc_OutputContract = None, tc_Domain = example_type,
     tc_ValidateSpec = (\<lambda>_. Inr ()), tc_ValidateUpdate = (\<lambda>_ _. Inr ())\<rparr>"

definition example_policy :: AdmissionPolicy where
  "example_policy = \<lparr>ap_Revision = '''', ap_Plan = (\<lambda>intent. Inr \<lparr>pl_Intent = intent, pl_Revision = '''',
       pl_CapabilityDenial = None, pl_CountConstraints = []\<rparr>),
     ap_Decide = (\<lambda>_ _. Inr \<lparr>de_Outcome = AdmissionAllowed, de_Revision = '''', de_Denial = None\<rparr>)\<rparr>"

definition example_service :: Service where
  "example_service = \<lparr>svc_Types = (\<lambda>_. Inr example_contract_type), svc_Selector = (\<lambda>_ _. Inr ''tofu''),
     svc_Resolver = (\<lambda>_. None), svc_Authorizer = Some (\<lambda>_ _ _. Inr ()), svc_AdmissionPolicy = example_policy,
     svc_Codec = \<lparr>fc_Float32bits = (\<lambda>_. 0), fc_Float64bits = (\<lambda>_. 0), fc_Marshal = (\<lambda>_. Inr ''{}'')\<rparr>, svc_Now = 50\<rparr>"

definition example_caller :: Principal where
  "example_caller = \<lparr>prn_ID = ''p-1'', prn_Kind = ''user'', prn_Issuer = ''idp'', prn_Subject = ''alice'',
     prn_Memberships = [], prn_Method = ''oidc''\<rparr>"

definition example_create :: admission_request where
  "example_create = Create \<lparr>cc_Actor = example_caller, cc_ID = ''res-1'',
     cc_Type = \<lparr>tref_Name = ''app'', tref_Version = ''v1''\<rparr>, cc_Owner = \<lparr>owner_Kind = ''team'', owner_ID = ''t1''\<rparr>,
     cc_Spec = \<lparr>spec_values = []\<rparr>, cc_References = [], cc_OperationID = ''op-1'', cc_EventID = ''ev-1'',
     cc_RequestedAt = 20, cc_IdempotencyKey = ''key-1''\<rparr>"

definition example_delete :: DeleteResourceCommand where
  "example_delete = \<lparr>dc_Actor = example_caller, dc_ID = ''res-1'', dc_ExpectedGeneration = 1,
     dc_OperationID = ''op-2'', dc_EventID = ''ev-2'', dc_RequestedAt = 20, dc_IdempotencyKey = ''''\<rparr>"

definition example_deletable :: Store where
  "example_deletable = snd (CreateResource ((example_resource_record ''res-1'' ResourceStateReady)\<lparr>rr_Version := 1\<rparr>) NewStore)"

definition example_recorded :: Store where
  "example_recorded = NewStore\<lparr>st_idempotency := [(idempotencyMapKey ''p-1'' ''key-1'', \<lparr>idem_Scope = ''p-1'',
     idem_Key = ''key-1'', idem_Fingerprint = ''another command'', idem_CommandKind = CapabilityDelete,
     idem_ResourceID = ''res-9'', idem_OperationID = ''op-9''\<rparr>)]\<rparr>"

declare sha256_hex_def [code del]

lemma example_create_fresh: "map_sum (\<lambda>_. ()) res_Replay (fst (admit example_service example_create NewStore)) = Inr False"
  by code_simp

lemma example_delete_run: "map_sum (\<lambda>_. ()) res_Replay (fst (admit example_service (Delete example_delete) example_deletable)) = Inr False"
  by code_simp

lemma example_recorded_prologue: "\<not> isl (prologue example_service example_create example_recorded)"
  by code_simp

declare sha256_hex_def [code]
lemma example_create_result:
  obtains r s' where "admit example_service example_create NewStore = (Inr r, s')" "\<not> res_Replay r"
    "request_key example_create \<noteq> ''''"
proof -
  obtain x s' where run: "admit example_service example_create NewStore = (x, s')" by fastforce
  then obtain r where "x = Inr r" "\<not> res_Replay r" using example_create_fresh by (cases x) auto
  then show thesis using run by (intro that) (simp_all add: example_create_def)
qed

lemma example_deletable_inv: "store_inv example_deletable"
proof -
  have "resources_inv NewStore" "st_nextResourceSequence NewStore \<noteq> - 1"
    using store_inv_NewStore by (simp_all add: store_inv_def NewStore_def)
  then have "resources_inv example_deletable" unfolding example_deletable_def by (rule resources_inv_create)
  moreover have "st_outbox example_deletable = []" "st_operations example_deletable = []"
    by (simp_all add: example_deletable_def CreateResource_def Let_def NewStore_def)
  ultimately show ?thesis
    by (simp add: store_inv_def operations_inv_def single_active_def outbox_inv_def)
qed

text \<open>
  C2: A request is admitted entirely or not at all. From a store that satisfies the invariant, whatever
  ports the service has, a refused create, update, delete or retry changes nothing but the sequence
  counters it consumed; a replayed one changes nothing; and any other writes exactly one new,
  non-terminal Operation under the requested identity for a Resource that had no active one, with the
  Resource row, an execution that matches both, one event stamped with the caller, the idempotency row
  when the request has a key, and a queued Drive. The store satisfies its invariant afterwards, so no
  Resource ever has two active Operations. The sequence counters must not be exhausted.
\<close>

theorem admission_all_or_nothing:
  assumes "store_inv s" "st_nextOperationSequence s \<noteq> - 1" "st_nextResourceSequence s \<noteq> - 1"
    and "admit svc req s = (x, s')"
  shows "store_inv s' \<and> (case x of
      Inl e \<Rightarrow> \<exists>n m w. s' = s\<lparr>st_nextOperationSequence := n, st_nextResourceSequence := m, st_nextWaitSequence := w\<rparr>
    | Inr r \<Rightarrow> let op = res_Operation r; rid = resource_id (rr_Resource (res_Resource r)) in
        if res_Replay r then s' = s
        else op_id op = request_operation req \<and> map_of (st_operations s) (op_id op) = None \<and>
          op_resourceID op = rid \<and> \<not> IsTerminal op \<and> no_active rid s \<and>
          st_operations s' = put (op_id op)
            \<lparr>or_Operation = op, or_Sequence = st_nextOperationSequence s + 1, or_Version = 1\<rparr> (st_operations s) \<and>
          st_resources s' = put rid (res_Resource r) (st_resources s) \<and>
          (\<exists>e. res_Execution r = Some e \<and> st_executions s' = put (op_id op) e (st_executions s) \<and>
             validateExecutionContext (res_Resource r) op e = Inr ()) \<and>
          (\<exists>event. res_Event r = Some event \<and> st_events s' = put (event_id event) event (st_events s) \<and>
             event_actor event = Some (stamp_of (request_actor req))) \<and>
          (if request_key req = '''' then st_idempotency s' = st_idempotency s
           else recorded req s = None \<and> (\<exists>i. recorded req s' = Some i \<and> idem_OperationID i = op_id op \<and> idem_ResourceID i = rid)) \<and>
          drive_queued (op_id op) s' \<and>
          st_attempts s' = st_attempts s \<and> st_outputs s' = st_outputs s \<and>
          st_appliedReferences s' = st_appliedReferences s \<and> st_dependencyWaits s' = st_dependencyWaits s)"
proof (cases x)
  case (Inl e)
  then show ?thesis using admit_preserves [OF assms] admission_refused [of svc req s e s'] assms(4) by simp
next
  case (Inr r)
  have run: "admit svc req s = (Inr r, s')" using assms(4) Inr by simp
  show ?thesis
  proof (rule admit_Inr_cases [OF run assms(1)])
    fix p assume p: "prologue svc req s = Inr p" "admission svc req (fst p) s s = (Inr r, s')"
    note a = admission_admitted [OF p assms(1)]
    note f = fresh_effect [OF conjunct1 [OF a]]
    from a f show ?thesis unfolding Inr Let_def sum.case using admit_preserves [OF assms] by auto
  qed (use Inr admit_preserves [OF assms] in simp)
qed

theorem admission_all_or_nothing_witness:
  "\<exists>r s'. admit example_service example_create NewStore = (Inr r, s') \<and> store_inv s' \<and> no_active (resource_id (rr_Resource (res_Resource r))) NewStore \<and>
     drive_queued ''op-1'' s'"
proof -
  obtain r s' where run: "admit example_service example_create NewStore = (Inr r, s')" "\<not> res_Replay r"
    by (rule example_create_result)
  have n: "st_nextOperationSequence NewStore \<noteq> - 1" "st_nextResourceSequence NewStore \<noteq> - 1"
    by (simp_all add: NewStore_def)
  show ?thesis
    using admission_all_or_nothing [OF store_inv_NewStore n run(1)] run
    by (auto simp: Let_def example_create_def)
qed

text \<open>
  C13: Repeating a request is safe. When a create, update, delete or retry with an idempotency key has
  succeeded, sending it again at once answers with the same Resource, Operation and execution, marked
  as a replay and without a second event, and leaves the store exactly as it is.
\<close>

theorem admission_replay_idempotent:
  assumes "store_inv s" "request_key req \<noteq> ''''" "admit svc req s = (Inr r, s')"
  shows "admit svc req s' = (Inr (r\<lparr>res_Event := None, res_Replay := True\<rparr>), s')"
proof (rule admit_Inr_cases [OF assms(3,1)])
  fix p existing
  assume "s' = s" "res_Replay r" "replay_recorded (request_key req) existing s = (Inr r, s)"
  moreover then have "r\<lparr>res_Event := None, res_Replay := True\<rparr> = r" using replay_recorded_Inr(2,3) by fastforce
  ultimately show ?thesis using assms(3) by simp
next
  fix p assume p: "prologue svc req s = Inr p" "admission svc req (fst p) s s = (Inr r, s')"
  note a = admission_admitted [OF p assms(1)]
  have "same_targets s s'" using a admitted_same_targets by blast
  then have pro: "prologue svc req s' = Inr p" by (rule prologue_same [OF p(1)])
  have "replay_of req p s' = (Inr (Some (r\<lparr>res_Event := None, res_Replay := True\<rparr>)), s')"
    unfolding replay_of_def
    using admitted_replays [OF _ assms(2)] a unfolding request_record_def by blast
  then show ?thesis by (simp add: admit_run pro request_run_def Within_def or_replay_def)
qed

theorem admission_replay_idempotent_witness:
  "\<exists>r s'. admit example_service example_create NewStore = (Inr r, s') \<and> \<not> res_Replay r \<and>
     admit example_service example_create s' = (Inr (r\<lparr>res_Event := None, res_Replay := True\<rparr>), s')"
proof -
  obtain r s' where run: "admit example_service example_create NewStore = (Inr r, s')" "\<not> res_Replay r"
    "request_key example_create \<noteq> ''''" by (rule example_create_result)
  show ?thesis using admission_replay_idempotent [OF store_inv_NewStore run(3,1)] run(1,2) by blast
qed

text \<open>
  C5: An idempotency key is used once. While a key of a caller is recorded, no request of that caller
  with that key changes the store; it succeeds only when its fingerprint and command kind are the recorded
  ones, and then returns the recorded Operation and Resource; with any other fingerprint or kind it is
  refused as a conflict.
\<close>

theorem idempotency_key_used_once:
  assumes "request_key req \<noteq> ''''" "recorded req s = Some existing" "admit svc req s = (x, s')"
  shows "s' = s \<and> (case x of
      Inr r \<Rightarrow> res_Replay r \<and> res_Event r = None \<and> op_id (res_Operation r) = idem_OperationID existing \<and>
        resource_id (rr_Resource (res_Resource r)) = idem_ResourceID existing \<and>
        prologue svc req s = Inr (idem_Fingerprint existing, idem_CommandKind existing)
    | Inl e \<Rightarrow> \<forall>p. prologue svc req s = Inr p \<and> p \<noteq> (idem_Fingerprint existing, idem_CommandKind existing) \<longrightarrow>
        e = ErrIdempotencyConflict ''idempotency key conflicts with existing command'')"
proof (cases "prologue svc req s")
  case (Inl e)
  then show ?thesis using assms(3) by (auto simp: admit_run)
next
  case (Inr p)
  have found: "find_idempotency (idempotencyScope (request_actor req)) (request_key req) s = (Inr (Some existing), s)"
    using assms(2) by (simp add: find_idempotency_Inr recorded_def)
  have run: "request_run svc req p s = (x, s')" using assms(3) Inr by (simp add: admit_run)
  show ?thesis
  proof (cases "p = (idem_Fingerprint existing, idem_CommandKind existing)")
    case False
    then have "replay_of req p s = (Inl (ErrIdempotencyConflict ''idempotency key conflicts with existing command''), s)"
      using assms(1) found by (cases p) (auto simp: replay_of_def replayWithin_def bindT_def throwT_def)
    then show ?thesis
      using run False Inr by (auto simp: request_run_def or_replay_def bindT_def Within_def)
  next
    case True
    obtain y where y: "replay_recorded (request_key req) existing s = (y, s)"
      by (metis recorded_state surj_pair)
    have "replay_of req p s = (case y of Inl e \<Rightarrow> Inl e | Inr r \<Rightarrow> Inr (Some r), s)"
      using assms(1) found True y by (auto simp: replay_of_def replayWithin_def bindT_def returnT_def split: sum.split)
    then have "x = y \<and> s' = s"
      using run by (auto simp: request_run_def or_replay_def bindT_def Within_def returnT_def split: sum.splits)
    then show ?thesis using y True Inr by (auto split: sum.split dest: replay_recorded_Inr)
  qed
qed

theorem idempotency_key_used_once_witness:
  "admit example_service example_create example_recorded =
     (Inl (ErrIdempotencyConflict ''idempotency key conflicts with existing command''), example_recorded)"
proof -
  obtain p where p: "prologue example_service example_create example_recorded = Inr p"
    using example_recorded_prologue by (cases "prologue example_service example_create example_recorded") auto
  have "snd p = CapabilityCreate" using p by (auto simp: example_create_def)
  obtain existing where e: "recorded example_create example_recorded = Some existing" "idem_CommandKind existing = CapabilityDelete"
    by (simp add: recorded_def example_recorded_def example_create_def example_caller_def idempotencyScope_def)
  obtain x s' where run: "admit example_service example_create example_recorded = (x, s')" by fastforce
  have "request_key example_create \<noteq> ''''" by (simp add: example_create_def)
  from idempotency_key_used_once [OF this e(1) run] show ?thesis
    using run p \<open>snd p = CapabilityCreate\<close> e(2) by (cases x) auto
qed

text \<open>
  C15: A Resource that others protectively reference is not deleted, and a caller who may not delete it
  learns and changes nothing. A delete that is admitted is authorized for the stored Resource, and no
  protective reference points at it in the store the deletion is decided in.
\<close>

theorem delete_needs_no_dependents:
  assumes "store_inv s" "admit svc (Delete cmd) s = (x, s')"
  shows "case x of
      Inr r \<Rightarrow> (\<exists>stored. map_of (st_resources s) (dc_ID cmd) = Some stored \<and>
          authorize (svc_Authorizer svc) (dc_Actor cmd) ActionResourceDelete (resourceTargetOf stored) = Inr ()) \<and>
        (\<not> res_Replay r \<longrightarrow> HasInboundProtectiveReference (dc_ID cmd) s = (Inr False, s) \<and>
           resource_id (rr_Resource (res_Resource r)) = dc_ID cmd)
    | Inl e \<Rightarrow> (\<forall>stored. map_of (st_resources s) (dc_ID cmd) = Some stored \<and>
          authorize (svc_Authorizer svc) (dc_Actor cmd) ActionResourceDelete (resourceTargetOf stored) \<noteq> Inr () \<longrightarrow> s' = s)"
proof (cases x)
  case (Inl e)
  have "s' = s" if "map_of (st_resources s) (dc_ID cmd) = Some stored"
    "authorize (svc_Authorizer svc) (dc_Actor cmd) ActionResourceDelete (resourceTargetOf stored) \<noteq> Inr ()" for stored
  proof (cases "prologue svc (Delete cmd) s")
    case (Inr p)
    then show ?thesis
      using existing_prologue_Inr [of svc "delete_request cmd" s p] that
      by (auto simp: delete_request_def actionForCapability_def)
  qed (use assms(2) in \<open>simp add: admit_run del: admit.simps prologue.simps\<close>)
  then show ?thesis by (simp add: Inl)
next
  case (Inr r)
  have run: "admit svc (Delete cmd) s = (Inr r, s')" using assms(2) Inr by simp
  obtain p where p: "prologue svc (Delete cmd) s = Inr p"
    "\<not> res_Replay r \<Longrightarrow> admission svc (Delete cmd) (fst p) s s = (Inr r, s')"
    by (rule admit_Inr_cases [OF run assms(1)]) auto
  then have "\<exists>stored. map_of (st_resources s) (dc_ID cmd) = Some stored \<and>
      authorize (svc_Authorizer svc) (dc_Actor cmd) ActionResourceDelete (resourceTargetOf stored) = Inr ()"
    using existing_prologue_Inr [of svc "delete_request cmd" s p]
    by (auto simp: delete_request_def actionForCapability_def)
  moreover have "HasInboundProtectiveReference (dc_ID cmd) s = (Inr False, s) \<and> resource_id (rr_Resource (res_Resource r)) = dc_ID cmd"
    if "\<not> res_Replay r"
    using existing_admitted(3,5) [OF p(2) [OF that, unfolded admission.simps] assms(1)]
    by (simp add: delete_request_def)
  ultimately show ?thesis by (simp add: Inr)
qed

theorem delete_needs_no_dependents_witness:
  "\<exists>r s'. admit example_service (Delete example_delete) example_deletable = (Inr r, s') \<and> \<not> res_Replay r \<and>
     HasInboundProtectiveReference (dc_ID example_delete) example_deletable = (Inr False, example_deletable)"
proof -
  obtain x s' where run: "admit example_service (Delete example_delete) example_deletable = (x, s')" by fastforce
  then obtain r where r: "x = Inr r" "\<not> res_Replay r" using example_delete_run by (cases x) auto
  show ?thesis
    using delete_needs_no_dependents [OF example_deletable_inv run] run r by (auto simp del: admit.simps)
qed

end
