(* ===== verification/Recovery.thy ===== *)
theory Recovery
  imports Outbox
begin

text \<open>
  The recovery planner of the operator plane, \<^verbatim>\<open>src/internal/application/recovery_planner.go\<close>: pure
  functions from a diagnostic snapshot to a closed assessment, which names the state, the runbook codes
  and the actions that are safe.
\<close>

section \<open>Vocabulary\<close>

datatype RecoveryState =
    RecoveryNoActionNeeded | RecoverySafeObserve | RecoverySafePassiveObserve | RecoverySafeRecoverDeadWork
  | RecoveryUserRetryAvailable | RecoveryAmbiguousWaitingEvidence | RecoveryManualInterventionNeeded
  | RecoveryUnsupportedRepair | RecoveryTerminal | RecoverySuperseded

datatype DiagnosticReason =
    ReasonOperationTerminal | ReasonExecutionRecordMissing | ReasonExecutionNotObservable
  | ReasonExecutionEvidencePending | ReasonAmbiguousExecution | ReasonObservationInFlight
  | ReasonUserRetryAvailable | ReasonResourceDeleted | ReasonActiveOperationPresent
  | ReasonDeadDispatchPreSubmit | ReasonDeadDispatchViaObserve | ReasonRegistrationMissing
  | ReasonWorkAlreadyActive | ReasonWorkNotDead | ReasonOutputRecoveryPending
  | ReasonManualInterventionRequired | ReasonDependencyBlocked | ReasonDependencyFailed
  | ReasonDependencyInvalid | ReasonDeadWake

fun reason_string :: "DiagnosticReason \<Rightarrow> string" where
  "reason_string ReasonOperationTerminal = ''OPERATION_TERMINAL''"
| "reason_string ReasonExecutionRecordMissing = ''EXECUTION_RECORD_MISSING''"
| "reason_string ReasonExecutionNotObservable = ''EXECUTION_NOT_OBSERVABLE''"
| "reason_string ReasonExecutionEvidencePending = ''EXECUTION_TERMINAL_EVIDENCE_PENDING''"
| "reason_string ReasonAmbiguousExecution = ''AMBIGUOUS_EXECUTION''"
| "reason_string ReasonObservationInFlight = ''OBSERVATION_IN_FLIGHT''"
| "reason_string ReasonUserRetryAvailable = ''USER_RETRY_AVAILABLE''"
| "reason_string ReasonResourceDeleted = ''RESOURCE_DELETED''"
| "reason_string ReasonActiveOperationPresent = ''ACTIVE_OPERATION_PRESENT''"
| "reason_string ReasonDeadDispatchPreSubmit = ''DEAD_DISPATCH_PRE_SUBMIT''"
| "reason_string ReasonDeadDispatchViaObserve = ''DEAD_DISPATCH_RECOVERY_VIA_OBSERVE''"
| "reason_string ReasonRegistrationMissing = ''HISTORICAL_REGISTRATION_MISSING''"
| "reason_string ReasonWorkAlreadyActive = ''EQUIVALENT_WORK_ALREADY_ACTIVE''"
| "reason_string ReasonWorkNotDead = ''WORK_NOT_DEAD''"
| "reason_string ReasonOutputRecoveryPending = ''OUTPUT_RESOLUTION_PENDING''"
| "reason_string ReasonManualInterventionRequired = ''MANUAL_INTERVENTION_REQUIRED''"
| "reason_string ReasonDependencyBlocked = ''DEPENDENCY_BLOCKED''"
| "reason_string ReasonDependencyFailed = ''DEPENDENCY_FAILED''"
| "reason_string ReasonDependencyInvalid = ''DEPENDENCY_INVALID''"
| "reason_string ReasonDeadWake = ''DEPENDENCY_WAKE_DEAD''"

datatype OperatorActionKind = ActionKindTriggerObserve | ActionKindTriggerPassiveObserve | ActionKindRecoverDeadWork

record RecoveryAssessment =
  as_State :: RecoveryState
  as_Reasons :: "DiagnosticReason list"
  as_AllowedActions :: "OperatorActionKind list"

definition assessment :: "RecoveryState \<Rightarrow> DiagnosticReason list \<Rightarrow> OperatorActionKind list \<Rightarrow> RecoveryAssessment" where
  "assessment state reasons actions = \<lparr>as_State = state, as_Reasons = reasons, as_AllowedActions = actions\<rparr>"

definition assessmentAllows :: "RecoveryAssessment \<Rightarrow> OperatorActionKind \<Rightarrow> bool" where
  "assessmentAllows a action \<longleftrightarrow> list_ex (\<lambda>allowed. allowed = action) (as_AllowedActions a)"

section \<open>One Operation\<close>

record executionObservationSummary =
  eos_State :: ProvisioningAttemptState
  eos_Correlation :: RequestCorrelation
  eos_OutputResolution :: OutputResolution
  eos_IsOutputRecovery :: bool
  eos_AcceptanceConfirmed :: bool

definition observableForObserve :: "executionObservationSummary \<Rightarrow> bool" where
  "observableForObserve s =
     (case eos_State s of
        AttemptUnknown \<Rightarrow> True
      | AttemptAccepted \<Rightarrow> True
      | AttemptSucceeded \<Rightarrow> eos_OutputResolution s = OutputResolutionPending
      | _ \<Rightarrow> False)"

text \<open>The zero value of an execution summary, which a snapshot without an execution carries.\<close>

definition no_execution :: executionObservationSummary where
  "no_execution = \<lparr>eos_State = AttemptOther '''', eos_Correlation = RequestCorrelationOther '''',
     eos_OutputResolution = OutputResolutionOther '''', eos_IsOutputRecovery = False, eos_AcceptanceConfirmed = False\<rparr>"

record OperationRecoverySnapshot =
  ors_OperationState :: OperationState
  ors_HasExecution :: bool
  ors_Execution :: executionObservationSummary
  ors_ActiveObserveWork :: bool
  ors_DependencyBlocked :: bool
  ors_RegistrationAvailable :: bool

fun operationStateIsTerminal :: "OperationState \<Rightarrow> bool" where
  "operationStateIsTerminal state =
     (state \<in> {OperationStateSucceeded, OperationStateFailed, OperationStateCanceled})"

definition PlanOperationObserve :: "OperationRecoverySnapshot \<Rightarrow> RecoveryAssessment" where
  "PlanOperationObserve s =
     (if operationStateIsTerminal (ors_OperationState s) then assessment RecoveryTerminal [ReasonOperationTerminal] []
      else if \<not> ors_HasExecution s
        then assessment RecoveryManualInterventionNeeded [ReasonExecutionRecordMissing] []
      else if \<not> ors_RegistrationAvailable s
        then assessment RecoveryManualInterventionNeeded [ReasonRegistrationMissing] []
      else if observableForObserve (ors_Execution s) then
        (let ambiguous = eos_Correlation (ors_Execution s) = RequestCorrelationUnknown;
             state = (if ambiguous then RecoveryAmbiguousWaitingEvidence else RecoverySafeObserve);
             reasons = (if ambiguous then [ReasonAmbiguousExecution] else []) @
               (if eos_State (ors_Execution s) = AttemptSucceeded then [ReasonOutputRecoveryPending] else [])
         in if ors_ActiveObserveWork s then assessment state (reasons @ [ReasonObservationInFlight]) []
            else assessment state reasons [ActionKindTriggerObserve])
      else if eos_State (ors_Execution s) = AttemptFailed
        then assessment RecoveryManualInterventionNeeded [ReasonExecutionEvidencePending] []
      else if ors_DependencyBlocked s then assessment RecoveryNoActionNeeded [ReasonDependencyBlocked] []
      else assessment RecoveryNoActionNeeded [ReasonExecutionNotObservable] [])"

section \<open>One Resource\<close>

record ResourcePassiveObserveSnapshot =
  rps_ResourceState :: ResourceState
  rps_ActiveOperation :: bool
  rps_ActivePassiveObserveWork :: bool
  rps_RegistrationAvailable :: bool

definition PlanResourcePassiveObserve :: "ResourcePassiveObserveSnapshot \<Rightarrow> RecoveryAssessment" where
  "PlanResourcePassiveObserve s =
     (if rps_ResourceState s = ResourceStateDeleted
        then assessment RecoveryUnsupportedRepair [ReasonResourceDeleted] []
      else if \<not> rps_RegistrationAvailable s
        then assessment RecoveryManualInterventionNeeded [ReasonRegistrationMissing] []
      else if rps_ActiveOperation s then assessment RecoveryNoActionNeeded [ReasonActiveOperationPresent] []
      else if rps_ActivePassiveObserveWork s then assessment RecoveryNoActionNeeded [ReasonObservationInFlight] []
      else assessment RecoverySafePassiveObserve [] [ActionKindTriggerPassiveObserve])"

section \<open>One dead work item\<close>

record DeadWorkKindSnapshot =
  dws_Kind :: OutboxKind
  dws_State :: OutboxState
  dws_OperationTarget :: bool
  dws_OperationState :: OperationState
  dws_Execution :: executionObservationSummary
  dws_HasExecution :: bool
  dws_ResourceState :: ResourceState
  dws_ActiveEquivalentWork :: bool
  dws_ActiveOperation :: bool
  dws_Superseded :: bool
  dws_RegistrationAvailable :: bool
  dws_TargetVersion :: uint64
  dws_ExecutionVersion :: uint64

definition plan_dead_dispatch :: "DeadWorkKindSnapshot \<Rightarrow> RecoveryAssessment" where
  "plan_dead_dispatch s =
     (if \<not> observableForObserve (dws_Execution s) then
        assessment RecoveryManualInterventionNeeded [ReasonDeadDispatchPreSubmit, ReasonManualInterventionRequired] []
      else
        (let ambiguous = eos_Correlation (dws_Execution s) = RequestCorrelationUnknown;
             state = (if ambiguous then RecoveryAmbiguousWaitingEvidence else RecoverySafeRecoverDeadWork);
             reasons = ReasonDeadDispatchViaObserve # (if ambiguous then [ReasonAmbiguousExecution] else [])
         in if dws_ActiveEquivalentWork s
            then assessment RecoveryNoActionNeeded (reasons @ [ReasonObservationInFlight]) []
            else assessment state reasons [ActionKindRecoverDeadWork]))"

definition plan_dead_operation_work :: "DeadWorkKindSnapshot \<Rightarrow> RecoveryAssessment" where
  "plan_dead_operation_work s =
     (if operationStateIsTerminal (dws_OperationState s) then assessment RecoverySuperseded [ReasonOperationTerminal] []
      else if dws_Superseded s then assessment RecoverySuperseded [ReasonManualInterventionRequired] []
      else if (dws_Kind s = OutboxDispatch \<or> dws_Kind s = OutboxObserve) \<and> \<not> dws_HasExecution s
        then assessment RecoveryManualInterventionNeeded [ReasonExecutionRecordMissing] []
      else if \<not> dws_RegistrationAvailable s
        then assessment RecoveryManualInterventionNeeded [ReasonRegistrationMissing] []
      else if dws_ActiveEquivalentWork s \<and> dws_Kind s \<noteq> OutboxDispatch
        then assessment RecoveryNoActionNeeded [ReasonWorkAlreadyActive] []
      else case dws_Kind s of
        OutboxDispatch \<Rightarrow> plan_dead_dispatch s
      | OutboxObserve \<Rightarrow>
          if \<not> observableForObserve (dws_Execution s)
            then assessment RecoveryNoActionNeeded [ReasonExecutionNotObservable] []
          else if dws_ActiveEquivalentWork s then assessment RecoveryNoActionNeeded [ReasonObservationInFlight] []
          else assessment RecoverySafeRecoverDeadWork [] [ActionKindRecoverDeadWork]
      | OutboxDrive \<Rightarrow>
          if dws_ActiveEquivalentWork s then assessment RecoveryNoActionNeeded [ReasonWorkAlreadyActive] []
          else assessment RecoverySafeRecoverDeadWork [] [ActionKindRecoverDeadWork]
      | _ \<Rightarrow> assessment RecoveryUnsupportedRepair [ReasonManualInterventionRequired] [])"

definition plan_dead_resource_work :: "DeadWorkKindSnapshot \<Rightarrow> RecoveryAssessment" where
  "plan_dead_resource_work s =
     (if dws_Kind s \<noteq> OutboxPassiveObserve \<and> dws_Kind s \<noteq> OutboxWakeDependents
        then assessment RecoveryUnsupportedRepair [ReasonManualInterventionRequired] []
      else if dws_ActiveOperation s then assessment RecoveryNoActionNeeded [ReasonActiveOperationPresent] []
      else if dws_ResourceState s = ResourceStateDeleted
        then assessment RecoveryUnsupportedRepair [ReasonResourceDeleted] []
      else if dws_Kind s = OutboxWakeDependents then
        (if dws_ActiveEquivalentWork s then assessment RecoveryNoActionNeeded [ReasonWorkAlreadyActive] []
         else assessment RecoverySafeRecoverDeadWork [ReasonDeadWake] [ActionKindRecoverDeadWork])
      else if \<not> dws_RegistrationAvailable s
        then assessment RecoveryManualInterventionNeeded [ReasonRegistrationMissing] []
      else if dws_ActiveEquivalentWork s then assessment RecoveryNoActionNeeded [ReasonWorkAlreadyActive] []
      else assessment RecoverySafeRecoverDeadWork [] [ActionKindRecoverDeadWork])"

definition PlanDeadWorkRecovery :: "DeadWorkKindSnapshot \<Rightarrow> RecoveryAssessment" where
  "PlanDeadWorkRecovery s =
     (if dws_State s \<noteq> OutboxDead then assessment RecoveryNoActionNeeded [ReasonWorkNotDead] []
      else if dws_OperationTarget s then plan_dead_operation_work s else plan_dead_resource_work s)"

section \<open>When an action is allowed\<close>

text \<open>
  The contract of the planner, stated on the facts of a snapshot: what an operator may do to an
  Operation, to a Resource and to a dead work item.
\<close>

definition may_observe :: "OperationRecoverySnapshot \<Rightarrow> bool" where
  "may_observe s \<longleftrightarrow> \<not> operationStateIsTerminal (ors_OperationState s) \<and> ors_HasExecution s \<and>
     ors_RegistrationAvailable s \<and> observableForObserve (ors_Execution s) \<and> \<not> ors_ActiveObserveWork s"

definition may_observe_passively :: "ResourcePassiveObserveSnapshot \<Rightarrow> bool" where
  "may_observe_passively s \<longleftrightarrow> rps_ResourceState s \<noteq> ResourceStateDeleted \<and> rps_RegistrationAvailable s \<and>
     \<not> rps_ActiveOperation s \<and> \<not> rps_ActivePassiveObserveWork s"

definition may_recover :: "DeadWorkKindSnapshot \<Rightarrow> bool" where
  "may_recover s \<longleftrightarrow> dws_State s = OutboxDead \<and> \<not> dws_ActiveEquivalentWork s \<and>
     (if dws_OperationTarget s
      then \<not> operationStateIsTerminal (dws_OperationState s) \<and> \<not> dws_Superseded s \<and> dws_RegistrationAvailable s \<and>
        (dws_Kind s = OutboxDrive \<or> (dws_Kind s = OutboxDispatch \<or> dws_Kind s = OutboxObserve) \<and>
           dws_HasExecution s \<and> observableForObserve (dws_Execution s))
      else \<not> dws_ActiveOperation s \<and> dws_ResourceState s \<noteq> ResourceStateDeleted \<and>
        (dws_Kind s = OutboxWakeDependents \<or> dws_Kind s = OutboxPassiveObserve \<and> dws_RegistrationAvailable s))"

lemma assessment_sel [simp]:
  "as_State (assessment st rs acts) = st" "as_Reasons (assessment st rs acts) = rs"
  "as_AllowedActions (assessment st rs acts) = acts"
  "assessmentAllows (assessment st rs acts) a \<longleftrightarrow> a \<in> set acts"
  by (auto simp: assessment_def assessmentAllows_def list_ex_iff)

lemma plan_operation_actions:
  "as_AllowedActions (PlanOperationObserve s) = (if may_observe s then [ActionKindTriggerObserve] else [])"
  by (simp add: PlanOperationObserve_def may_observe_def Let_def)

lemma plan_resource_actions:
  "as_AllowedActions (PlanResourcePassiveObserve s) =
     (if may_observe_passively s then [ActionKindTriggerPassiveObserve] else [])"
  by (simp add: PlanResourcePassiveObserve_def may_observe_passively_def)

lemma plan_dead_actions:
  "as_AllowedActions (PlanDeadWorkRecovery s) = (if may_recover s then [ActionKindRecoverDeadWork] else [])"
proof (cases "dws_OperationTarget s")
  case True
  then show ?thesis
    by (cases "dws_Kind s")
      (simp_all add: PlanDeadWorkRecovery_def may_recover_def plan_dead_operation_work_def plan_dead_dispatch_def Let_def)
next
  case False
  then show ?thesis
    by (simp add: PlanDeadWorkRecovery_def may_recover_def plan_dead_resource_work_def)
qed

text \<open>
  The recovery planner is exact. It allows at most one action, the one of its question, and exactly
  in the safe states: an Operation may be observed when it is active, its submission may be outstanding
  and no observation is queued; a Resource when it is live, idle and not being observed; a dead item
  may be recovered when it is still current, its target is active and no live item does its work.
\<close>

theorem recovery_planner_exact:
  "(assessmentAllows (PlanOperationObserve o1) k \<longleftrightarrow> k = ActionKindTriggerObserve \<and> may_observe o1) \<and>
   (assessmentAllows (PlanResourcePassiveObserve r) k \<longleftrightarrow> k = ActionKindTriggerPassiveObserve \<and> may_observe_passively r) \<and>
   (assessmentAllows (PlanDeadWorkRecovery d) k \<longleftrightarrow> k = ActionKindRecoverDeadWork \<and> may_recover d)"
  by (auto simp: assessmentAllows_def plan_operation_actions plan_resource_actions plan_dead_actions)

end
