(* ===== verification/Cursor.thy ===== *)
theory Cursor
  imports Fingerprint Paging
begin

text \<open>
  The opaque continuation token of the resource inventory (\<^verbatim>\<open>src/internal/application/inventory.go\<close>):
  unpadded URL-safe base64 of \<^verbatim>\<open>encoding/base64\<close>, the digests of the filters and of the visibility of
  a request, and the envelope that binds them to a position.
\<close>

section \<open>Base64\<close>

text \<open>\<^verbatim>\<open>base64.RawURLEncoding\<close>, on sextets and then on characters.\<close>

definition b64_alphabet :: string where
  "b64_alphabet = ''ABCDEFGHIJKLMNOPQRSTUVWXYZabcdefghijklmnopqrstuvwxyz0123456789-_''"

fun encode_quanta :: "nat list \<Rightarrow> nat list" where
  "encode_quanta [] = []"
| "encode_quanta [a] = [a div 4, a mod 4 * 16]"
| "encode_quanta [a, b] = [a div 4, a mod 4 * 16 + b div 16, b mod 16 * 4]"
| "encode_quanta (a # b # c # bs) =
     (a div 4) # (a mod 4 * 16 + b div 16) # (b mod 16 * 4 + c div 64) # (c mod 64) # encode_quanta bs"

definition EncodeToString :: "nat list \<Rightarrow> string" where
  "EncodeToString bs = map (\<lambda>n. b64_alphabet ! n) (encode_quanta bs)"

text \<open>
  The strict decoder refuses a last quantum whose unused bits are not zero. Like the Go decoder, strict
  or not, it skips carriage returns and line feeds wherever they stand.
\<close>

fun decode_quanta :: "nat list \<Rightarrow> nat list option" where
  "decode_quanta [] = Some []"
| "decode_quanta [v] = None"
| "decode_quanta [v, w] = (if w mod 16 \<noteq> 0 then None else Some [v * 4 + w div 16])"
| "decode_quanta [v, w, x] =
     (if x mod 4 \<noteq> 0 then None else Some [v * 4 + w div 16, w mod 16 * 16 + x div 4])"
| "decode_quanta (v # w # x # y # vs) =
     map_option (\<lambda>bs. (v * 4 + w div 16) # (w mod 16 * 16 + x div 4) # (x mod 4 * 64 + y) # bs) (decode_quanta vs)"

definition skip_newlines :: "string \<Rightarrow> string" where
  "skip_newlines s = filter (\<lambda>c. c \<noteq> CHR 0x0A \<and> c \<noteq> CHR 0x0D) s"

definition b64_value :: "char \<Rightarrow> nat option" where
  "b64_value c = map_of (zip b64_alphabet [0..<64]) c"

definition DecodeString :: "string \<Rightarrow> nat list option" where
  "DecodeString s = Option.bind (those (map b64_value (skip_newlines s))) decode_quanta"

section \<open>Digests of a request\<close>

record ListResourcesRequest =
  lq_Principal :: Principal
  lq_OwnerFilter :: "OwnerRef option"
  lq_TypeName :: string
  lq_TypeVersion :: string
  lq_StateFilter :: "ResourceState option"
  lq_IncludeDeleted :: bool
  lq_Limit :: int
  lq_Cursor :: string

definition bytes_string :: "nat list \<Rightarrow> string" where
  "bytes_string bs = map char_of bs"

definition appendPrefixed :: "string \<Rightarrow> string \<Rightarrow> string" where
  "appendPrefixed dst value = dst @ bytes_string (putUint32 (of_nat (length value))) @ value"

fun state_string :: "ResourceState \<Rightarrow> string" where
  "state_string ResourceStateUnknown = ''Unknown''"
| "state_string ResourceStatePending = ''Pending''"
| "state_string ResourceStateReady = ''Ready''"
| "state_string ResourceStateDeleting = ''Deleting''"
| "state_string ResourceStateDeleted = ''Deleted''"
| "state_string ResourceStateFailed = ''Failed''"
| "state_string (ResourceStateOther s) = s"

definition resourceListFilterDigest :: "ListResourcesRequest \<Rightarrow> nat list" where
  "resourceListFilterDigest req =
     (let (kind, i) = (case lq_OwnerFilter req of None \<Rightarrow> ('''', '''') | Some f \<Rightarrow> (owner_Kind f, owner_ID f));
          state = (case lq_StateFilter req of None \<Rightarrow> '''' | Some st \<Rightarrow> state_string st);
          canonical = fold (\<lambda>value dst. appendPrefixed dst value)
            [''liftr-resource-list-filters-v1'', kind, i, lq_TypeName req, lq_TypeVersion req, state] []
      in sha256 (canonical @ [if lq_IncludeDeleted req then CHR 0x01 else CHR 0x00]))"

definition resourceListVisibilityDigest :: "ResourceVisibility \<Rightarrow> nat list" where
  "resourceListVisibilityDigest visibility =
     (let canonical = Canonical visibility;
          encoded = appendPrefixed [] ''liftr-resource-list-visibility-v1''
      in sha256 (if vis_AllOwners canonical then encoded @ CHR 0x01 # bytes_string (putUint32 0)
        else fold (\<lambda>owner dst. appendPrefixed (appendPrefixed dst (owner_Kind owner)) (owner_ID owner))
          (vis_Owners canonical)
          (encoded @ CHR 0x00 # bytes_string (putUint32 (of_nat (length (vis_Owners canonical)))))))"

section \<open>The envelope\<close>

definition resourceCursorPrefix :: string where "resourceCursorPrefix = ''r1_''"
definition resourceCursorKind :: nat where "resourceCursorKind = 2"
definition resourceCursorBytes :: nat where "resourceCursorBytes = 1 + 32 + 32 + 8"
definition maxResourceCursorEncoded :: nat where "maxResourceCursorEncoded = 128"
definition MaxCursorPosition :: uint64 where "MaxCursorPosition = 9223372036854775807"

definition invalid_cursor :: error where
  "invalid_cursor = ErrInvalidApplicationCall ''invalid resource inventory cursor''"

definition cursor_payload :: "ListResourcesRequest \<Rightarrow> ResourceVisibility \<Rightarrow> uint64 \<Rightarrow> nat list" where
  "cursor_payload req visibility next_position =
     resourceCursorKind # resourceListFilterDigest req @ resourceListVisibilityDigest visibility @ putUint64 next_position"

definition encodeResourceListCursor :: "ListResourcesRequest \<Rightarrow> ResourceVisibility \<Rightarrow> uint64 \<Rightarrow> string" where
  "encodeResourceListCursor req visibility next_position =
     resourceCursorPrefix @ EncodeToString (cursor_payload req visibility next_position)"

definition getUint64 :: "nat list \<Rightarrow> uint64" where
  "getUint64 bs = of_nat (foldl (\<lambda>a b. a * 256 + b) 0 bs)"

definition decodeResourceListCursor :: "string \<Rightarrow> ListResourcesRequest \<Rightarrow> ResourceVisibility \<Rightarrow> uint64 result" where
  "decodeResourceListCursor cursor req visibility =
     (if maxResourceCursorEncoded < length cursor \<or> take 3 cursor \<noteq> resourceCursorPrefix then Inl invalid_cursor
      else case DecodeString (drop 3 cursor) of
        None \<Rightarrow> Inl invalid_cursor
      | Some payload \<Rightarrow>
          if length payload \<noteq> resourceCursorBytes \<or> payload ! 0 \<noteq> resourceCursorKind then Inl invalid_cursor
          else let position = getUint64 (drop 65 payload) in
            if take 32 (drop 1 payload) \<noteq> resourceListFilterDigest req \<or>
               take 32 (drop 33 payload) \<noteq> resourceListVisibilityDigest visibility
            then Inl invalid_cursor
            else if position = 0 \<or> MaxCursorPosition < position then Inl invalid_cursor
            else Inr position)"

section \<open>Base64 is a bijection\<close>

abbreviation bytes :: "nat list \<Rightarrow> bool" where "bytes bs \<equiv> \<forall>b \<in> set bs. b < 256"
abbreviation sextets :: "nat list \<Rightarrow> bool" where "sextets vs \<equiv> \<forall>v \<in> set vs. v < 64"

lemma encode_sextets: "bytes bs \<Longrightarrow> sextets (encode_quanta bs)"
  by (induction bs rule: encode_quanta.induct) (auto simp: less_mult_imp_div_less)

lemma decode_encode: "bytes bs \<Longrightarrow> decode_quanta (encode_quanta bs) = Some bs"
  by (induction bs rule: encode_quanta.induct) (auto simp: less_mult_imp_div_less)

lemma encode_decode: "\<lbrakk>sextets vs; decode_quanta vs = Some bs\<rbrakk> \<Longrightarrow> encode_quanta bs = vs \<and> bytes bs"
proof (induction vs arbitrary: bs rule: decode_quanta.induct)
  case (5 v w x y vs)
  then obtain rest where r: "decode_quanta vs = Some rest"
    "bs = (v * 4 + w div 16) # (w mod 16 * 16 + x div 4) # (x mod 4 * 64 + y) # rest" by auto
  have lt: "v < 64" "w < 64" "x < 64" "y < 64" using 5(2) by simp_all
  have "(v * 4 + w div 16) div 4 = v" "(v * 4 + w div 16) mod 4 = w div 16" using lt by simp_all
  moreover have "(w mod 16 * 16 + x div 4) div 16 = w mod 16" "(w mod 16 * 16 + x div 4) mod 16 = x div 4" using lt by simp_all
  moreover have "(x mod 4 * 64 + y) div 64 = x mod 4" "(x mod 4 * 64 + y) mod 64 = y" using lt by simp_all
  ultimately show ?case using 5(1) [OF _ r(1)] 5(2) r(2) lt by auto
qed (auto split: if_splits)

lemma b64_alphabet_values:
  "\<forall>n < 64. b64_value (b64_alphabet ! n) = Some n \<and> b64_alphabet ! n \<noteq> CHR 0x0A \<and> b64_alphabet ! n \<noteq> CHR 0x0D"
  by code_simp

lemma b64_value_Some: "b64_value c = Some n \<Longrightarrow> n < 64 \<and> b64_alphabet ! n = c"
proof -
  assume "b64_value c = Some n"
  then have "(c, n) \<in> set (zip b64_alphabet [0..<64])" unfolding b64_value_def by (rule map_of_SomeD)
  moreover have "length b64_alphabet = 64" by (simp add: b64_alphabet_def)
  ultimately show ?thesis by (auto simp: in_set_zip)
qed

lemma those_map_Some: "those (map f xs) = Some ys \<longleftrightarrow> map f xs = map Some ys"
  by (induction xs arbitrary: ys) (auto split: option.splits)

lemma decode_string_encode: "bytes bs \<Longrightarrow> DecodeString (EncodeToString bs) = Some bs"
proof -
  assume b: "bytes bs"
  have s: "sextets (encode_quanta bs)" by (rule encode_sextets [OF b])
  then have "skip_newlines (EncodeToString bs) = EncodeToString bs"
    using b64_alphabet_values by (auto simp: skip_newlines_def EncodeToString_def filter_id_conv)
  moreover have "map b64_value (EncodeToString bs) = map Some (encode_quanta bs)"
    using s b64_alphabet_values by (auto simp: EncodeToString_def)
  ultimately have "those (map b64_value (skip_newlines (EncodeToString bs))) = Some (encode_quanta bs)"
    by (simp add: those_map_Some)
  then show ?thesis by (simp add: DecodeString_def decode_encode [OF b])
qed

text \<open>What decodes at all is, but for line breaks, exactly the encoding of the result.\<close>

lemma decode_string_exact: "DecodeString s = Some bs \<longleftrightarrow> bytes bs \<and> skip_newlines s = EncodeToString bs"
proof
  assume "DecodeString s = Some bs"
  then obtain vs where vs: "map b64_value (skip_newlines s) = map Some vs" "decode_quanta vs = Some bs"
    by (auto simp: DecodeString_def those_map_Some Option.bind_eq_Some_conv)
  have "sextets us \<and> t = map (\<lambda>n. b64_alphabet ! n) us" if "map b64_value t = map Some us" for t us
    using that by (induction us arbitrary: t) (auto dest: b64_value_Some)
  then have "sextets vs \<and> skip_newlines s = map (\<lambda>n. b64_alphabet ! n) vs" using vs(1) by blast
  then show "bytes bs \<and> skip_newlines s = EncodeToString bs"
    using encode_decode [OF _ vs(2)] by (simp add: EncodeToString_def)
next
  assume b: "bytes bs \<and> skip_newlines s = EncodeToString bs"
  have "skip_newlines (skip_newlines s) = skip_newlines s" by (simp add: skip_newlines_def)
  then have "DecodeString s = DecodeString (EncodeToString bs)" using b by (simp add: DecodeString_def)
  then show "DecodeString s = Some bs" using b decode_string_encode by simp
qed

section \<open>Eight bytes of a position\<close>

lemma putUint64_bytes: "length (putUint64 w) = 8" "bytes (putUint64 w)"
  by (simp_all add: putUint64_def)

definition bytes_value :: "nat list \<Rightarrow> nat" where
  "bytes_value bs = foldl (\<lambda>a b. a * 256 + b) 0 bs"

lemma bytes_value_snoc [simp]: "bytes_value (bs @ [b]) = bytes_value bs * 256 + b" "bytes_value [] = 0"
  by (simp_all add: bytes_value_def)

lemma bytes_value_less: "bytes bs \<Longrightarrow> bytes_value bs < 256 ^ length bs"
proof (induction bs rule: rev_induct)
  case (snoc b bs)
  then have "bytes_value bs + 1 \<le> 256 ^ length bs" "b < 256" by simp_all
  then have "bytes_value bs * 256 + b < (bytes_value bs + 1) * 256" by simp
  also have "\<dots> \<le> 256 ^ length bs * 256" by (rule mult_right_mono) (use \<open>bytes_value bs + 1 \<le> _\<close> in simp_all)
  finally show ?case by simp
qed simp

lemma bytes_value_inj: "\<lbrakk>bytes bs; bytes cs; length bs = length cs; bytes_value bs = bytes_value cs\<rbrakk> \<Longrightarrow> bs = cs"
proof (induction bs arbitrary: cs rule: rev_induct)
  case (snoc b bs)
  then obtain c cs' where cs: "cs = cs' @ [c]" by (metis append_Nil2 length_0_conv rev_exhaust snoc_eq_iff_butlast)
  have lt: "b < 256" "c < 256" using snoc.prems(1,2) cs by simp_all
  have eq: "bytes_value bs * 256 + b = bytes_value cs' * 256 + c" using snoc.prems(4) cs by simp
  have "bytes_value bs = bytes_value cs'" using arg_cong [OF eq, of "\<lambda>n. n div 256"] lt by simp
  moreover then have "b = c" using eq by simp
  ultimately show ?case using snoc.IH [of cs'] snoc.prems cs by simp
qed simp

lemma put_get: "\<lbrakk>bytes bs; length bs = 8\<rbrakk> \<Longrightarrow> putUint64 (getUint64 bs) = bs"
  and get_put: "getUint64 (putUint64 w) = w"
proof -
  have step: "n div 256 ^ Suc i * 256 + n div 256 ^ i mod 256 = n div 256 ^ i" for n i :: nat
    by (simp add: div_mult2_eq [symmetric] mult.commute [of 256] flip: div_mult2_eq) (metis div_mult_mod_eq div_mult2_eq mult.commute)
  have val: "bytes_value (putUint64 w) = unat w" for w
  proof -
    have "unat w < 256 ^ 8" using unsigned_less [of w] by simp
    then have top: "unat w div 256 ^ 8 = 0" by simp
    have "bytes_value (putUint64 w) = ((((((((unat w div 256 ^ 8) * 256 + unat w div 256 ^ 7 mod 256) * 256
        + unat w div 256 ^ 6 mod 256) * 256 + unat w div 256 ^ 5 mod 256) * 256 + unat w div 256 ^ 4 mod 256) * 256
        + unat w div 256 ^ 3 mod 256) * 256 + unat w div 256 ^ 2 mod 256) * 256 + unat w div 256 ^ 1 mod 256) * 256
        + unat w div 256 ^ 0 mod 256"
      unfolding top by (simp add: bytes_value_def putUint64_def)
    also have "\<dots> = unat w"
      using step [of "unat w" 7] step [of "unat w" 6] step [of "unat w" 5] step [of "unat w" 4] step [of "unat w" 3]
        step [of "unat w" 2] step [of "unat w" 1] step [of "unat w" 0] by (simp only: eval_nat_numeral) simp
    finally show ?thesis .
  qed
  show "getUint64 (putUint64 w) = w" for w
    using val [of w] by (simp add: getUint64_def bytes_value_def)
  show "putUint64 (getUint64 bs) = bs" if b: "bytes bs" "length bs = 8"
  proof (rule bytes_value_inj)
    have "bytes_value bs < 2 ^ 64" using bytes_value_less [OF b(1)] b(2) by simp
    then show "bytes_value (putUint64 (getUint64 bs)) = bytes_value bs"
      unfolding val by (simp add: getUint64_def bytes_value_def [symmetric] unat_of_nat)
  qed (use b putUint64_bytes in auto)
qed

section \<open>The shape of a digest\<close>

lemma sha_rounds_length: "length st = 8 \<Longrightarrow> length (sha_rounds kws st) = 8"
proof (induction kws arbitrary: st)
  case (Cons kw kws)
  obtain k w where kw: "kw = (k, w)" by fastforce
  obtain a b c d e f g h where st: "st = [a, b, c, d, e, f, g, h]"
    using Cons.prems by (auto simp: length_Suc_conv eval_nat_numeral)
  show ?case unfolding kw st by (simp add: Let_def Cons.IH)
qed (cases st rule: list.exhaust; simp)

lemma sha_blocks_length: "length st = 8 \<Longrightarrow> length (sha_blocks st bs) = 8"
proof (induction st bs rule: sha_blocks.induct)
  case (1 st bs)
  then show ?case by (simp add: sha_blocks.simps [of st bs] sha_block_def sha_rounds_length)
qed

lemma sha256_shape: "length (sha256 s) = 32" "bytes (sha256 s)"
proof -
  have len: "length (sha_blocks sha_init xs) = 8" for xs by (rule sha_blocks_length) (simp add: sha_init_def)
  have "length (concat (map word_bytes ws)) = 4 * length ws" for ws by (induction ws) (simp_all add: word_bytes_def)
  then show "length (sha256 s) = 32" by (simp add: sha256_def len)
  show "bytes (sha256 s)" by (auto simp: sha256_def word_bytes_def)
qed

lemma request_digest_shape:
  "length (resourceListFilterDigest req) = 32" "bytes (resourceListFilterDigest req)"
  "length (resourceListVisibilityDigest visibility) = 32" "bytes (resourceListVisibilityDigest visibility)"
  by (simp_all add: resourceListFilterDigest_def resourceListVisibilityDigest_def Let_def sha256_shape case_prod_beta)

lemma cursor_payload_shape:
  "length (cursor_payload req visibility n) = resourceCursorBytes" "bytes (cursor_payload req visibility n)"
  using request_digest_shape putUint64_bytes [of n]
  by (auto simp: cursor_payload_def resourceCursorBytes_def resourceCursorKind_def)

lemma encoded_length: "length (EncodeToString bs) = (4 * length bs + 2) div 3"
proof -
  have "length (encode_quanta bs) = (4 * length bs + 2) div 3"
    by (induction bs rule: encode_quanta.induct) auto
  then show ?thesis by (simp add: EncodeToString_def)
qed

text \<open>
  The decoder accepts exactly the encodings of the positions of this traversal, up to line breaks that
  it skips: a cursor names the filters and the visibility it was issued for, and no other position
  than the one encoded.
\<close>

lemma payload_exact:
  assumes "bytes payload"
  shows "length payload = resourceCursorBytes \<and> payload ! 0 = resourceCursorKind \<and>
      take 32 (drop 1 payload) = resourceListFilterDigest req \<and>
      take 32 (drop 33 payload) = resourceListVisibilityDigest visibility \<and> getUint64 (drop 65 payload) = n \<longleftrightarrow>
    payload = cursor_payload req visibility n"
proof
  assume p: "length payload = resourceCursorBytes \<and> payload ! 0 = resourceCursorKind \<and>
      take 32 (drop 1 payload) = resourceListFilterDigest req \<and>
      take 32 (drop 33 payload) = resourceListVisibilityDigest visibility \<and> getUint64 (drop 65 payload) = n"
  then have len: "length payload = 73" by (simp add: resourceCursorBytes_def)
  have "payload = payload ! 0 # drop 1 payload" using len by (cases payload) simp_all
  also have "drop 1 payload = take 32 (drop 1 payload) @ take 32 (drop 33 payload) @ drop 65 payload"
  proof -
    have d: "drop 33 payload = drop 32 (drop 1 payload)" "drop 65 payload = drop 32 (drop 33 payload)" by simp_all
    show ?thesis unfolding d(2) append_take_drop_id by (simp only: d(1) append_take_drop_id)
  qed
  also have "drop 65 payload = putUint64 n"
  proof -
    have "bytes (drop 65 payload)" using assms by (meson in_set_dropD)
    then show ?thesis using put_get [of "drop 65 payload"] len p by simp
  qed
  finally show "payload = cursor_payload req visibility n" using p by (simp add: cursor_payload_def)
next
  assume "payload = cursor_payload req visibility n"
  then show "length payload = resourceCursorBytes \<and> payload ! 0 = resourceCursorKind \<and>
      take 32 (drop 1 payload) = resourceListFilterDigest req \<and>
      take 32 (drop 33 payload) = resourceListVisibilityDigest visibility \<and> getUint64 (drop 65 payload) = n"
    using request_digest_shape cursor_payload_shape by (simp add: cursor_payload_def get_put)
qed

lemma decode_cursor_exact:
  "decodeResourceListCursor cursor req visibility = Inr n \<longleftrightarrow>
     length cursor \<le> maxResourceCursorEncoded \<and> take 3 cursor = resourceCursorPrefix \<and>
     skip_newlines (drop 3 cursor) = EncodeToString (cursor_payload req visibility n) \<and> n \<noteq> 0 \<and> n \<le> MaxCursorPosition"
proof (cases "DecodeString (drop 3 cursor)")
  case None
  then have "skip_newlines (drop 3 cursor) \<noteq> EncodeToString (cursor_payload req visibility n)"
    using decode_string_exact [of "drop 3 cursor" "cursor_payload req visibility n"] cursor_payload_shape(2) by auto
  then show ?thesis using None by (simp add: decodeResourceListCursor_def)
next
  case (Some payload)
  have p: "bytes payload" "skip_newlines (drop 3 cursor) = EncodeToString payload"
    using Some unfolding decode_string_exact by simp_all
  have inj: "EncodeToString payload = EncodeToString (cursor_payload req visibility n) \<longleftrightarrow> payload = cursor_payload req visibility n"
    using decode_string_encode [OF p(1)] decode_string_encode [OF cursor_payload_shape(2)] by (metis option.inject)
  show ?thesis
    unfolding p(2) inj payload_exact [OF p(1), symmetric]
    by (auto simp: decodeResourceListCursor_def Some Let_def not_less not_le)
qed

lemma decode_cursor_encoded:
  "n \<noteq> 0 \<Longrightarrow> n \<le> MaxCursorPosition \<Longrightarrow> decodeResourceListCursor (encodeResourceListCursor req visibility n) req visibility = Inr n"
proof -
  assume n: "n \<noteq> 0" "n \<le> MaxCursorPosition"
  let ?e = "EncodeToString (cursor_payload req visibility n)"
  have "length ?e = 98" unfolding encoded_length cursor_payload_shape by (simp add: resourceCursorBytes_def)
  moreover have "skip_newlines ?e = ?e"
    using decode_string_encode [OF cursor_payload_shape(2) [of req visibility n]]
    unfolding decode_string_exact by simp
  ultimately show ?thesis
    using n unfolding decode_cursor_exact
    by (simp add: encodeResourceListCursor_def resourceCursorPrefix_def maxResourceCursorEncoded_def)
qed

text \<open>
  C35: A cursor is exactly the position it was issued for. The cursor of a position decodes to it; one
  that decodes is, up to the line breaks the decoder skips, the very encoding of a positive position
  that fits the sequence column; and a cursor that decodes in two traversals names one position, and
  the traversals have the same filter digest and the same visibility digest.
\<close>

theorem cursor_exact:
  "(n \<noteq> 0 \<and> n \<le> MaxCursorPosition \<longrightarrow>
      decodeResourceListCursor (encodeResourceListCursor req visibility n) req visibility = Inr n) \<and>
   (decodeResourceListCursor cursor req visibility = Inr m \<longrightarrow> m \<noteq> 0 \<and> m \<le> MaxCursorPosition \<and>
      take 3 cursor @ skip_newlines (drop 3 cursor) = encodeResourceListCursor req visibility m) \<and>
   (decodeResourceListCursor cursor req visibility = Inr m \<and> decodeResourceListCursor cursor req' visibility' = Inr m' \<longrightarrow>
      m = m' \<and> resourceListFilterDigest req = resourceListFilterDigest req' \<and>
      resourceListVisibilityDigest visibility = resourceListVisibilityDigest visibility')"
proof (intro conjI impI)
  assume two: "decodeResourceListCursor cursor req visibility = Inr m \<and> decodeResourceListCursor cursor req' visibility' = Inr m'"
  then have "EncodeToString (cursor_payload req visibility m) = EncodeToString (cursor_payload req' visibility' m')"
    unfolding decode_cursor_exact by (elim conjE) simp
  then have "cursor_payload req visibility m = cursor_payload req' visibility' m'"
    using decode_string_encode cursor_payload_shape(2) by (metis option.inject)
  with payload_exact [OF cursor_payload_shape(2)]
  have "m = m' \<and> resourceListFilterDigest req = resourceListFilterDigest req' \<and>
      resourceListVisibilityDigest visibility = resourceListVisibilityDigest visibility'" by metis
  then show "m = m'" "resourceListFilterDigest req = resourceListFilterDigest req'"
    "resourceListVisibilityDigest visibility = resourceListVisibilityDigest visibility'" by blast+
qed (use decode_cursor_encoded in \<open>auto simp: decode_cursor_exact encodeResourceListCursor_def\<close>)

definition example_cursor_request :: ListResourcesRequest where
  "example_cursor_request = \<lparr>lq_Principal = \<lparr>prn_ID = ''p-1'', prn_Kind = ''user'', prn_Issuer = ''idp'',
     prn_Subject = ''alice'', prn_Memberships = [], prn_Method = ''oidc''\<rparr>, lq_OwnerFilter = None, lq_TypeName = '''',
     lq_TypeVersion = '''', lq_StateFilter = None, lq_IncludeDeleted = False, lq_Limit = 1, lq_Cursor = ''''\<rparr>"

theorem cursor_exact_witness:
  "decodeResourceListCursor (encodeResourceListCursor example_cursor_request \<lparr>vis_Owners = [], vis_AllOwners = True\<rparr> 7)
     example_cursor_request \<lparr>vis_Owners = [], vis_AllOwners = True\<rparr> = Inr 7"
  using cursor_exact [of 7] by (simp add: MaxCursorPosition_def)

end
