(* ===== verification/Diagnostics.thy ===== *)
theory Diagnostics
  imports Recovery Admission Cursor
begin

text \<open>
  The diagnostics of the operator plane, \<^verbatim>\<open>src/internal/application/operator_diagnostics.go\<close>: curated
  snapshots of one Resource, one Operation or one work item, each with the assessment of the planner and
  a revision that changes with the facts the planner sees. A span of time is kept as the integer
  number of its nanoseconds; its conversion to floating-point seconds is presentation.
\<close>

section \<open>Operators\<close>

datatype OperatorTargetKind =
    OperatorTargetResource | OperatorTargetOperation | OperatorTargetWork | OperatorTargetOther string

fun target_kind_string :: "OperatorTargetKind \<Rightarrow> string" where
  "target_kind_string OperatorTargetResource = ''resource''"
| "target_kind_string OperatorTargetOperation = ''operation''"
| "target_kind_string OperatorTargetWork = ''work''"
| "target_kind_string (OperatorTargetOther s) = s"

fun ValidOperatorTargetKind :: "OperatorTargetKind \<Rightarrow> bool" where
  "ValidOperatorTargetKind k = (k \<in> {OperatorTargetResource, OperatorTargetOperation, OperatorTargetWork})"

record OperatorTarget =
  ot_Kind :: OperatorTargetKind
  ot_ID :: string

type_synonym OperatorAuthorizer = "Principal \<Rightarrow> Action \<Rightarrow> OperatorTarget \<Rightarrow> unit result"

record OperatorService = Service +
  ops_OperatorAuthorizer :: "OperatorAuthorizer option"
  ops_MarshalValues :: "ResourceSpec \<Rightarrow> string result"

definition authorizeOperator :: "OperatorService \<Rightarrow> Principal \<Rightarrow> Action \<Rightarrow> OperatorTarget \<Rightarrow> unit result" where
  "authorizeOperator svc prn action target =
     (if \<not> ValidOperatorAction action \<or> \<not> ValidOperatorTargetKind (ot_Kind target) then Inl not_authorized
      else if prn_ID prn = '''' \<or> prn_Kind prn = '''' then Inl not_authorized
      else case ops_OperatorAuthorizer svc of
        None \<Rightarrow> Inl not_authorized
      | Some decide \<Rightarrow> (case decide prn action target of Inl _ \<Rightarrow> Inl not_authorized | Inr _ \<Rightarrow> Inr ()))"

definition resolveRegistration :: "OperatorService \<Rightarrow> string \<Rightarrow> bool" where
  "resolveRegistration svc ref \<longleftrightarrow> svc_Resolver svc ref \<noteq> None"

section \<open>Names of enumerations\<close>

fun operation_state_string :: "OperationState \<Rightarrow> string" where
  "operation_state_string OperationStatePending = ''Pending''"
| "operation_state_string OperationStateRunning = ''Running''"
| "operation_state_string OperationStateSucceeded = ''Succeeded''"
| "operation_state_string OperationStateFailed = ''Failed''"
| "operation_state_string OperationStateCanceled = ''Canceled''"
| "operation_state_string (OperationStateOther s) = s"

fun attempt_state_string :: "ProvisioningAttemptState \<Rightarrow> string" where
  "attempt_state_string AttemptPending = ''Pending''"
| "attempt_state_string AttemptDispatching = ''Dispatching''"
| "attempt_state_string AttemptAccepted = ''Accepted''"
| "attempt_state_string AttemptSucceeded = ''Succeeded''"
| "attempt_state_string AttemptFailed = ''Failed''"
| "attempt_state_string AttemptUnknown = ''Unknown''"
| "attempt_state_string (AttemptOther s) = s"

fun submission_state_string :: "SubmissionAttemptState \<Rightarrow> string" where
  "submission_state_string SubmissionAttemptPending = ''Pending''"
| "submission_state_string SubmissionAttemptLeased = ''Leased''"
| "submission_state_string SubmissionAttemptAccepted = ''Accepted''"
| "submission_state_string SubmissionAttemptRejected = ''Rejected''"
| "submission_state_string SubmissionAttemptNotFound = ''NotFound''"
| "submission_state_string SubmissionAttemptUnknown = ''Unknown''"
| "submission_state_string (SubmissionAttemptOther s) = s"

fun correlation_string :: "RequestCorrelation \<Rightarrow> string" where
  "correlation_string RequestCorrelationFound = ''Found''"
| "correlation_string RequestCorrelationNotFound = ''NotFound''"
| "correlation_string RequestCorrelationUnknown = ''Unknown''"
| "correlation_string (RequestCorrelationOther s) = s"

fun resolution_string :: "OutputResolution \<Rightarrow> string" where
  "resolution_string OutputResolutionNone = ''None''"
| "resolution_string OutputResolutionPending = ''Pending''"
| "resolution_string OutputResolutionPublished = ''Published''"
| "resolution_string OutputResolutionRejected = ''Rejected''"
| "resolution_string (OutputResolutionOther s) = s"

fun outbox_kind_string :: "OutboxKind \<Rightarrow> string" where
  "outbox_kind_string OutboxDrive = ''Drive''"
| "outbox_kind_string OutboxDispatch = ''Dispatch''"
| "outbox_kind_string OutboxObserve = ''Observe''"
| "outbox_kind_string OutboxPassiveObserve = ''PassiveObserve''"
| "outbox_kind_string OutboxWakeDependents = ''WakeDependents''"
| "outbox_kind_string (OutboxKindOther s) = s"

fun outbox_state_string :: "OutboxState \<Rightarrow> string" where
  "outbox_state_string OutboxPending = ''Pending''"
| "outbox_state_string OutboxLeased = ''Leased''"
| "outbox_state_string OutboxCompleted = ''Completed''"
| "outbox_state_string OutboxDead = ''Dead''"
| "outbox_state_string (OutboxStateOther s) = s"

section \<open>Summaries\<close>

record OperationRefSummary =
  ref_ID :: operation_id
  ref_Capability :: capability
  ref_State :: OperationState
  ref_Phase :: OperationPhase
  ref_TargetGeneration :: uint64

record ExecutionDiagnostics =
  xd_State :: ProvisioningAttemptState
  xd_Correlation :: string
  xd_AcceptanceConfirmed :: bool
  xd_HandlePresent :: bool
  xd_IsOutputRecovery :: bool
  xd_OutputResolution :: OutputResolution
  xd_OutputFailureKind :: string
  xd_CurrentAttempt :: uint64
  xd_NextObservationSequence :: uint64

record StateIdentitySummary =
  si_ProvisionerRef :: string
  si_Engine :: string
  si_Program :: string
  si_Backend :: string
  si_StateKey :: string
  si_LineagePresent :: bool
  si_Serial :: uint64
  si_DigestPrefix :: string
  si_Version :: uint64

definition failureKindOf :: "ExecutionFailure option \<Rightarrow> string" where
  "failureKindOf failure = (case failure of None \<Rightarrow> '''' | Some f \<Rightarrow> failure_kind_string (fail_Kind f))"

definition executionSummaryOf :: "ProvisioningExecutionRecord \<Rightarrow> executionObservationSummary" where
  "executionSummaryOf execution = \<lparr>eos_State = ex_State execution, eos_Correlation = ex_Correlation execution,
     eos_OutputResolution = ex_OutputResolution execution, eos_IsOutputRecovery = IsOutputRecovery execution,
     eos_AcceptanceConfirmed = ex_AcceptanceConfirmed execution\<rparr>"

definition executionDiagnosticOf :: "ProvisioningExecutionRecord \<Rightarrow> ExecutionDiagnostics" where
  "executionDiagnosticOf execution = \<lparr>xd_State = ex_State execution,
     xd_Correlation = correlation_string (ex_Correlation execution),
     xd_AcceptanceConfirmed = ex_AcceptanceConfirmed execution, xd_HandlePresent = (ex_Handle execution \<noteq> None),
     xd_IsOutputRecovery = IsOutputRecovery execution, xd_OutputResolution = ex_OutputResolution execution,
     xd_OutputFailureKind = failureKindOf (ex_LastFailure execution),
     xd_CurrentAttempt = ex_CurrentAttempt execution, xd_NextObservationSequence = ex_NextObservation execution\<rparr>"

definition operationRefOf :: "Operation \<Rightarrow> OperationRefSummary" where
  "operationRefOf op = \<lparr>ref_ID = op_id op, ref_Capability = op_capability op, ref_State = op_state op,
     ref_Phase = op_phase op, ref_TargetGeneration = op_targetGeneration op\<rparr>"

text \<open>The lookup of an execution that may be missing.\<close>

definition find_execution :: "operation_id \<Rightarrow> ProvisioningExecutionRecord option tx" where
  "find_execution oid = (\<lambda>s. case GetExecution oid s of
       (Inl (ErrResourceNotFound _), s') \<Rightarrow> (Inr None, s')
     | (Inl (ErrOperationNotFound _), s') \<Rightarrow> (Inr None, s')
     | (Inl e, s') \<Rightarrow> (Inl e, s')
     | (Inr execution, s') \<Rightarrow> (Inr (Some execution), s'))"

section \<open>Revisions\<close>

definition boolFlag :: "bool \<Rightarrow> string" where "boolFlag value = (if value then ''1'' else ''0'')"

definition revisionOf :: "string list \<Rightarrow> string" where
  "revisionOf parts = ''diag_v1_'' @ fingerprintHash (''liftr/operator-revision/v1'' # parts)"

text \<open>The zero time lies outside the range of the nanosecond clock, which wraps it to this value.\<close>

definition UnixNano :: "time \<Rightarrow> int" where
  "UnixNano at = (if at = 0 then - 6795364578871345152 else at)"

definition activeWorkParts :: "WorkHistorySummary \<Rightarrow> string list" where
  "activeWorkParts work = concat (map (\<lambda>m. [''active-work'', msg_ID m, outbox_kind_string (msg_Kind m),
     outbox_state_string (msg_State m), format_int (msg_AttemptCount m)]) (whs_Active work))"

definition operation_parts :: "string \<Rightarrow> OperationRefSummary option \<Rightarrow> string list" where
  "operation_parts label summary = (case summary of
     None \<Rightarrow> [label, ''none'']
   | Some r \<Rightarrow> [label, ref_ID r, ref_Capability r, operation_state_string (ref_State r), phase_string (ref_Phase r),
       decimal64 (ref_TargetGeneration r)])"

definition execution_parts :: "ExecutionDiagnostics \<Rightarrow> string list" where
  "execution_parts x = [''execution'', attempt_state_string (xd_State x), xd_Correlation x,
     resolution_string (xd_OutputResolution x), decimal64 (xd_CurrentAttempt x), decimal64 (xd_NextObservationSequence x)]"

definition computeResourceRevision ::
    "uint64 \<Rightarrow> time \<Rightarrow> uint64 \<Rightarrow> uint64 \<Rightarrow> ResourceState \<Rightarrow> OperationRefSummary option \<Rightarrow> OperationRefSummary option \<Rightarrow>
     StateIdentitySummary option \<Rightarrow> ExecutionDiagnostics option \<Rightarrow> WorkHistorySummary \<Rightarrow> bool \<Rightarrow> string" where
  "computeResourceRevision version updatedAt generation observed state active latest binding execution work registered =
     revisionOf ([''resource'', decimal64 version, ''status'', format_int (UnixNano updatedAt),
         decimal64 generation, decimal64 observed, state_string state] @
       operation_parts ''active'' active @ operation_parts ''latest'' latest @
       (case binding of None \<Rightarrow> [] | Some b \<Rightarrow> [''binding'', decimal64 (si_Version b)]) @
       (case execution of None \<Rightarrow> [] | Some x \<Rightarrow> execution_parts x) @
       activeWorkParts work @ [''registration'', boolFlag registered])"

definition operationRevision ::
    "OperationRecord \<Rightarrow> AttemptHistorySummary \<Rightarrow> WorkHistorySummary \<Rightarrow> ExecutionDiagnostics option \<Rightarrow> bool \<Rightarrow> string" where
  "operationRevision op attempts work execution registered =
     revisionOf ([''operation'', op_id (or_Operation op), decimal64 (or_Version op),
         operation_state_string (op_state (or_Operation op)), phase_string (op_phase (or_Operation op))] @
       (case ahs_Latest attempts of
          None \<Rightarrow> []
        | Some latest \<Rightarrow> [''attempt'', decimal64 (att_AttemptNumber latest), submission_state_string (att_State latest)]) @
       activeWorkParts work @
       (case execution of
          None \<Rightarrow> []
        | Some x \<Rightarrow> execution_parts x @ [boolFlag (xd_AcceptanceConfirmed x), boolFlag (xd_HandlePresent x),
            boolFlag (xd_IsOutputRecovery x), xd_OutputFailureKind x]) @
       [''registration'', boolFlag registered])"

definition workRevision :: "OutboxMessage \<Rightarrow> DeadWorkKindSnapshot \<Rightarrow> string" where
  "workRevision message snapshot =
     revisionOf [''work'', msg_ID message, outbox_state_string (msg_State message), format_int (msg_AttemptCount message),
       msg_TerminalReason message, boolFlag (msg_LeaseToken message \<noteq> ''''),
       ''target'', decimal64 (dws_TargetVersion snapshot), operation_state_string (dws_OperationState snapshot),
       state_string (dws_ResourceState snapshot),
       ''execution'', decimal64 (dws_ExecutionVersion snapshot), attempt_state_string (eos_State (dws_Execution snapshot)),
       correlation_string (eos_Correlation (dws_Execution snapshot)),
       ''facts'', boolFlag (dws_ActiveEquivalentWork snapshot), boolFlag (dws_ActiveOperation snapshot),
       boolFlag (dws_Superseded snapshot), boolFlag (dws_RegistrationAvailable snapshot)]"

section \<open>The repository of private diagnostics\<close>

definition StateIdentity :: "resource_id \<Rightarrow> StateIdentitySummary option tx" where
  "StateIdentity rid = returnT None"

definition SpecDigest :: "OperatorService \<Rightarrow> resource_id \<Rightarrow> (string \<times> bool) tx" where
  "SpecDigest svc rid = readT (\<lambda>s. case map_of (st_resources s) rid of
       None \<Rightarrow> Inr ('''', False)
     | Some r \<Rightarrow> bindE (ops_MarshalValues svc (resource_spec (rr_Resource r))) (\<lambda>body. Inr (sha256_hex body, True)))"

section \<open>Spans of time\<close>

definition durationSeconds :: "int \<Rightarrow> int" where
  "durationSeconds d = (if d \<le> 0 then 0 else d)"

definition clampPast :: "time \<Rightarrow> time \<Rightarrow> time" where
  "clampPast t now = (if t = 0 \<or> now < t then now else t)"

definition lastActivityOf :: "Operation \<Rightarrow> ProvisioningExecutionRecord \<Rightarrow> time" where
  "lastActivityOf op execution =
     (let candidates = op_requestedAt op #
            (if op_phaseChangedAt op \<noteq> 0 then [op_phaseChangedAt op] else []) @
            (if op_startedAt op \<noteq> 0 then [op_startedAt op] else []) @
            (if ex_LastObservedAt execution \<noteq> 0 then [ex_LastObservedAt execution] else [])
      in fold (\<lambda>candidate newest. if newest < candidate then candidate else newest) (tl candidates) (hd candidates))"

section \<open>Diagnostics of a Resource\<close>

record ResourceDiagnostics =
  rd_ResourceID :: resource_id
  rd_TypeName :: string
  rd_TypeVersion :: string
  rd_OwnerKind :: string
  rd_OwnerID :: string
  rd_Generation :: uint64
  rd_ObservedGeneration :: uint64
  rd_State :: ResourceState
  rd_StatusUpdatedAt :: time
  rd_ActiveOperation :: "OperationRefSummary option"
  rd_LatestOperation :: "OperationRefSummary option"
  rd_OperationAgeSeconds :: int
  rd_ReconciliationSilenceSeconds :: int
  rd_OutputResolution :: OutputResolution
  rd_ProvisionerRef :: string
  rd_RegistrationAvailable :: bool
  rd_StateIdentity :: "StateIdentitySummary option"
  rd_SpecDigest :: string
  rd_SpecDigestAvailable :: bool
  rd_Assessment :: RecoveryAssessment
  rd_Revision :: string

text \<open>What the branch of an active Operation, or that of none, contributes.\<close>

record resource_branch =
  rb_Age :: int
  rb_Silence :: int
  rb_OutputResolution :: OutputResolution
  rb_Registration :: bool
  rb_Execution :: "ExecutionDiagnostics option"
  rb_Work :: WorkHistorySummary
  rb_Assessment :: RecoveryAssessment

definition no_work :: WorkHistorySummary where "no_work = \<lparr>whs_Active = [], whs_Counts = []\<rparr>"

definition active_branch :: "OperatorService \<Rightarrow> Operation \<Rightarrow> resource_branch tx" where
  "active_branch svc op =
     (let now = svc_Now svc; age = durationSeconds (now - clampPast (op_requestedAt op) now) in
      bindT (find_execution (op_id op)) (\<lambda>found. case found of
        None \<Rightarrow> returnT \<lparr>rb_Age = age, rb_Silence = 0, rb_OutputResolution = OutputResolutionOther '''',
          rb_Registration = False, rb_Execution = None, rb_Work = no_work,
          rb_Assessment = PlanOperationObserve \<lparr>ors_OperationState = op_state op, ors_HasExecution = False,
            ors_Execution = no_execution, ors_ActiveObserveWork = False, ors_DependencyBlocked = False,
            ors_RegistrationAvailable = False\<rparr>\<rparr>
      | Some execution \<Rightarrow>
          bindT (SummarizeWorkByOperation (op_id op)) (\<lambda>work.
          bindT (HasDependencyWaitsForOperation (op_id op)) (\<lambda>blocked.
          let registered = resolveRegistration svc (ex_ProvisionerRef execution) in
          returnT \<lparr>rb_Age = age,
            rb_Silence = durationSeconds (now - clampPast (lastActivityOf op execution) now),
            rb_OutputResolution = ex_OutputResolution execution, rb_Registration = registered,
            rb_Execution = Some (executionDiagnosticOf execution), rb_Work = work,
            rb_Assessment = PlanOperationObserve \<lparr>ors_OperationState = op_state op, ors_HasExecution = True,
              ors_Execution = executionSummaryOf execution, ors_ActiveObserveWork = HasActive work OutboxObserve,
              ors_DependencyBlocked = blocked, ors_RegistrationAvailable = registered\<rparr>\<rparr>))))"

definition idle_branch :: "OperatorService \<Rightarrow> ResourceRecord \<Rightarrow> resource_branch tx" where
  "idle_branch svc stored =
     (let registered = resolveRegistration svc (rr_ProvisionerRef stored) in
      bindT (SummarizeWorkByResource (resource_id (rr_Resource stored))) (\<lambda>work.
      returnT \<lparr>rb_Age = 0, rb_Silence = 0, rb_OutputResolution = OutputResolutionOther '''',
        rb_Registration = registered, rb_Execution = None, rb_Work = work,
        rb_Assessment = PlanResourcePassiveObserve \<lparr>rps_ResourceState = status_state (rr_Status stored),
          rps_ActiveOperation = False, rps_ActivePassiveObserveWork = HasActive work OutboxPassiveObserve,
          rps_RegistrationAvailable = registered\<rparr>\<rparr>))"

definition ResourceOperatorDiagnostics ::
    "OperatorService \<Rightarrow> Principal \<Rightarrow> resource_id \<Rightarrow> ResourceDiagnostics tx" where
  "ResourceOperatorDiagnostics svc prn rid =
     bindT (liftT (authorizeOperator svc prn ActionOperatorDiagnosticsRead
              \<lparr>ot_Kind = OperatorTargetResource, ot_ID = rid\<rparr>)) (\<lambda>_.
     Within (
     bindT (GetResource rid) (\<lambda>stored.
     bindT (ActiveForResource rid) (\<lambda>active.
     bindT (LatestForResource rid) (\<lambda>latest.
     bindT (case active of Some row \<Rightarrow> active_branch svc (or_Operation row) | None \<Rightarrow> idle_branch svc stored) (\<lambda>branch.
     bindT (StateIdentity rid) (\<lambda>binding.
     bindT (SpecDigest svc rid) (\<lambda>(digest, digestAvailable).
     let resource = rr_Resource stored; status = rr_Status stored;
         activeRef = map_option (operationRefOf \<circ> or_Operation) active;
         latestRef = map_option (operationRefOf \<circ> or_Operation) latest in
     returnT \<lparr>rd_ResourceID = resource_id resource, rd_TypeName = tref_Name (resource_typeRef resource),
       rd_TypeVersion = tref_Version (resource_typeRef resource), rd_OwnerKind = owner_Kind (resource_owner resource),
       rd_OwnerID = owner_ID (resource_owner resource), rd_Generation = resource_generation resource,
       rd_ObservedGeneration = status_observedGeneration status, rd_State = status_state status,
       rd_StatusUpdatedAt = status_updatedAt status, rd_ActiveOperation = activeRef, rd_LatestOperation = latestRef,
       rd_OperationAgeSeconds = rb_Age branch, rd_ReconciliationSilenceSeconds = rb_Silence branch,
       rd_OutputResolution = rb_OutputResolution branch, rd_ProvisionerRef = rr_ProvisionerRef stored,
       rd_RegistrationAvailable = rb_Registration branch, rd_StateIdentity = binding, rd_SpecDigest = digest,
       rd_SpecDigestAvailable = digestAvailable, rd_Assessment = rb_Assessment branch,
       rd_Revision = computeResourceRevision (rr_Version stored) (status_updatedAt status)
         (resource_generation resource) (status_observedGeneration status) (status_state status)
         activeRef latestRef binding (rb_Execution branch) (rb_Work branch) (rb_Registration branch)\<rparr>))))))))"

section \<open>Diagnostics of an Operation\<close>

record AttemptDiagnostic =
  ad_Number :: uint64
  ad_State :: SubmissionAttemptState
  ad_BoundaryCrossed :: bool
  ad_ClaimedAt :: time
  ad_ResolvedAt :: time
  ad_FailureKind :: string

record OutstandingWork =
  ow_ID :: string
  ow_Kind :: OutboxKind
  ow_State :: OutboxState
  ow_CreatedAt :: time
  ow_AvailableAt :: time
  ow_AttemptCount :: int

record OperationDiagnostics =
  od_OperationID :: operation_id
  od_ResourceID :: resource_id
  od_Capability :: capability
  od_TargetGeneration :: uint64
  od_State :: OperationState
  od_Phase :: OperationPhase
  od_RetryOf :: operation_id
  od_RequestedAt :: time
  od_StartedAt :: time
  od_CompletedAt :: time
  od_AgeSeconds :: int
  od_Execution :: "ExecutionDiagnostics option"
  od_LatestAttempt :: "AttemptDiagnostic option"
  od_AttemptCount :: nat
  od_ActiveWork :: "OutstandingWork list"
  od_ActiveWorkTruncated :: bool
  od_WorkCount :: nat
  od_ProvisionerRef :: string
  od_RegistrationAvailable :: bool
  od_Assessment :: RecoveryAssessment
  od_Revision :: string

definition attempt_diagnostic :: "SubmissionAttemptRecord \<Rightarrow> AttemptDiagnostic" where
  "attempt_diagnostic attempt = \<lparr>ad_Number = att_AttemptNumber attempt, ad_State = att_State attempt,
     ad_BoundaryCrossed = (att_ClaimedAt attempt \<noteq> 0), ad_ClaimedAt = att_ClaimedAt attempt,
     ad_ResolvedAt = att_ResolvedAt attempt, ad_FailureKind = failureKindOf (att_Failure attempt)\<rparr>"

definition outstanding_work :: "OutboxMessage \<Rightarrow> OutstandingWork" where
  "outstanding_work m = \<lparr>ow_ID = msg_ID m, ow_Kind = msg_Kind m, ow_State = msg_State m,
     ow_CreatedAt = msg_CreatedAt m, ow_AvailableAt = msg_AvailableAt m, ow_AttemptCount = msg_AttemptCount m\<rparr>"

definition workTotal :: "WorkHistorySummary \<Rightarrow> nat" where
  "workTotal summary = sum_list (map snd (whs_Counts summary))"

definition OperationOperatorDiagnostics ::
    "OperatorService \<Rightarrow> Principal \<Rightarrow> operation_id \<Rightarrow> OperationDiagnostics tx" where
  "OperationOperatorDiagnostics svc prn oid =
     bindT (liftT (authorizeOperator svc prn ActionOperatorDiagnosticsRead
              \<lparr>ot_Kind = OperatorTargetOperation, ot_ID = oid\<rparr>)) (\<lambda>_.
     Within (
     bindT (GetOperation oid) (\<lambda>stored.
     bindT (SummarizeSubmissionAttempts oid) (\<lambda>attempts.
     bindT (SummarizeWorkByOperation oid) (\<lambda>work.
     bindT (find_execution oid) (\<lambda>found.
     let op = or_Operation stored; now = svc_Now svc;
         execution = map_option executionDiagnosticOf found;
         registered = (case found of None \<Rightarrow> False | Some x \<Rightarrow> resolveRegistration svc (ex_ProvisionerRef x));
         snapshot = \<lparr>ors_OperationState = op_state op, ors_HasExecution = (found \<noteq> None),
           ors_Execution = (case found of None \<Rightarrow> no_execution | Some x \<Rightarrow> executionSummaryOf x),
           ors_ActiveObserveWork = (found \<noteq> None \<and> HasActive work OutboxObserve), ors_DependencyBlocked = False,
           ors_RegistrationAvailable = registered\<rparr> in
     returnT \<lparr>od_OperationID = op_id op, od_ResourceID = op_resourceID op, od_Capability = op_capability op,
       od_TargetGeneration = op_targetGeneration op, od_State = op_state op, od_Phase = op_phase op,
       od_RetryOf = op_retryOf op, od_RequestedAt = op_requestedAt op, od_StartedAt = op_startedAt op,
       od_CompletedAt = op_completedAt op, od_AgeSeconds = durationSeconds (now - clampPast (op_requestedAt op) now),
       od_Execution = execution, od_LatestAttempt = map_option attempt_diagnostic (ahs_Latest attempts),
       od_AttemptCount = ahs_Count attempts, od_ActiveWork = map outstanding_work (whs_Active work),
       od_ActiveWorkTruncated = (WorkActiveLimit \<le> length (whs_Active work)), od_WorkCount = workTotal work,
       od_ProvisionerRef = (case found of None \<Rightarrow> '''' | Some x \<Rightarrow> ex_ProvisionerRef x),
       od_RegistrationAvailable = registered, od_Assessment = PlanOperationObserve snapshot,
       od_Revision = operationRevision stored attempts work execution registered\<rparr>))))))"

section \<open>Diagnostics of a work item\<close>

record WorkDiagnostics =
  wd_WorkID :: string
  wd_Kind :: OutboxKind
  wd_State :: OutboxState
  wd_OperationID :: operation_id
  wd_ResourceID :: resource_id
  wd_AttemptNumber :: uint64
  wd_CreatedAt :: time
  wd_AvailableAt :: time
  wd_AttemptCount :: int
  wd_LeaseActive :: bool
  wd_LeaseExpired :: bool
  wd_TerminalReasonClass :: string
  wd_TargetTerminal :: bool
  wd_ActiveEquivalentWork :: bool
  wd_Superseded :: bool
  wd_Assessment :: RecoveryAssessment
  wd_Revision :: string

definition knownTerminalReasons :: "string list" where
  "knownTerminalReasons = [''StaleWork'', ''StaleDrive'', ''AlreadyDispatchable'', ''Driven'', ''Submitted'',
     ''AmbiguousSubmission'', ''OutputsPending'', ''OutputPostconditionRejected'', ''TerminalExecution'',
     ''ObservedNoCurrentExecution'', ''ObservedUncorrelatedExecution'', ''ObservedNonterminal'', ''StaleObservation'',
     ''SubmissionNotFound'', ''PassivelyObserved'', ''DispatchResultPersistenceFailed'', ''StaleExpiredDispatch'',
     ''LeaseExpiredAmbiguous'', ''ExpiredFencedDispatch'']"

definition terminalReasonClass :: "string \<Rightarrow> string" where
  "terminalReasonClass reason =
     (if reason = '''' then '''' else if reason \<in> set knownTerminalReasons then reason else ''UNCLASSIFIED'')"

text \<open>The kind whose active work already does what recovering this kind would do.\<close>

definition equivalent_kind :: "OutboxKind \<Rightarrow> OutboxKind" where
  "equivalent_kind kind = (if kind = OutboxDispatch then OutboxObserve else kind)"

definition activeEquivalentOfWork :: "OutboxMessage \<Rightarrow> bool tx" where
  "activeEquivalentOfWork message =
     bindT (if msg_OperationID message \<noteq> '''' then SummarizeWorkByOperation (msg_OperationID message)
            else SummarizeWorkByResource (msg_ResourceID message)) (\<lambda>summary.
     returnT (list_ex (\<lambda>row. msg_ID row \<noteq> msg_ID message \<and> msg_Kind row = equivalent_kind (msg_Kind message))
       (whs_Active summary)))"

text \<open>The zero snapshot of a work item, with only its kind and state set.\<close>

definition work_snapshot :: "OutboxMessage \<Rightarrow> DeadWorkKindSnapshot" where
  "work_snapshot message = \<lparr>dws_Kind = msg_Kind message, dws_State = msg_State message, dws_OperationTarget = False,
     dws_OperationState = OperationStateOther '''', dws_Execution = no_execution, dws_HasExecution = False,
     dws_ResourceState = ResourceStateOther '''', dws_ActiveEquivalentWork = False, dws_ActiveOperation = False,
     dws_Superseded = False, dws_RegistrationAvailable = False, dws_TargetVersion = 0, dws_ExecutionVersion = 0\<rparr>"

definition superseded_by :: "OutboxMessage \<Rightarrow> ProvisioningExecutionRecord \<Rightarrow> bool" where
  "superseded_by message execution \<longleftrightarrow>
     (if msg_Kind message = OutboxDispatch then msg_AttemptNumber message \<noteq> ex_CurrentAttempt execution
      else if msg_Kind message = OutboxObserve
        then msg_Sequence message = 0 \<or> msg_Sequence message + 1 \<noteq> ex_NextObservation execution
      else False)"

text \<open>The facts of a work item bound to an Operation, and of one bound to a Resource.\<close>

definition operation_work_facts :: "OperatorService \<Rightarrow> OutboxMessage \<Rightarrow> (DeadWorkKindSnapshot \<times> bool \<times> bool) tx" where
  "operation_work_facts svc message =
     bindT (GetOperation (msg_OperationID message)) (\<lambda>stored.
     let op = or_Operation stored; terminal = operationStateIsTerminal (op_state op);
         snapshot = (work_snapshot message)\<lparr>dws_OperationTarget := True, dws_OperationState := op_state op,
           dws_TargetVersion := or_Version stored\<rparr> in
     if msg_Kind message = OutboxDrive then
       bindT (GetResource (op_resourceID op)) (\<lambda>resource.
       bindT (activeEquivalentOfWork message) (\<lambda>active.
       returnT (snapshot\<lparr>dws_ActiveEquivalentWork := active,
         dws_RegistrationAvailable := resolveRegistration svc (rr_ProvisionerRef resource)\<rparr>, terminal, terminal)))
     else
       bindT (find_execution (msg_OperationID message)) (\<lambda>found. case found of
         None \<Rightarrow> returnT (snapshot, terminal, terminal)
       | Some execution \<Rightarrow>
           bindT (activeEquivalentOfWork message) (\<lambda>active.
           let superseded = superseded_by message execution in
           returnT (snapshot\<lparr>dws_HasExecution := True, dws_Execution := executionSummaryOf execution,
             dws_ExecutionVersion := ex_Version execution, dws_Superseded := superseded,
             dws_ActiveEquivalentWork := active,
             dws_RegistrationAvailable := resolveRegistration svc (ex_ProvisionerRef execution)\<rparr>,
             terminal, terminal \<or> superseded))))"

definition resource_work_facts :: "OperatorService \<Rightarrow> OutboxMessage \<Rightarrow> (DeadWorkKindSnapshot \<times> bool \<times> bool) tx" where
  "resource_work_facts svc message =
     bindT (GetResource (msg_ResourceID message)) (\<lambda>stored.
     bindT (ActiveForResource (msg_ResourceID message)) (\<lambda>activeOperation.
     bindT (activeEquivalentOfWork message) (\<lambda>active.
     let terminal = status_state (rr_Status stored) = ResourceStateDeleted in
     returnT ((work_snapshot message)\<lparr>dws_ResourceState := status_state (rr_Status stored),
       dws_TargetVersion := rr_Version stored, dws_ActiveOperation := (activeOperation \<noteq> None),
       dws_ActiveEquivalentWork := active,
       dws_RegistrationAvailable := resolveRegistration svc (rr_ProvisionerRef stored)\<rparr>, terminal, terminal))))"

definition WorkOperatorDiagnostics :: "OperatorService \<Rightarrow> Principal \<Rightarrow> string \<Rightarrow> WorkDiagnostics tx" where
  "WorkOperatorDiagnostics svc prn workID =
     bindT (liftT (authorizeOperator svc prn ActionOperatorDiagnosticsRead
              \<lparr>ot_Kind = OperatorTargetWork, ot_ID = workID\<rparr>)) (\<lambda>_.
     Within (
     bindT (GetOutbox workID) (\<lambda>message.
     bindT (if msg_OperationID message \<noteq> '''' then operation_work_facts svc message
            else resource_work_facts svc message) (\<lambda>(snapshot, terminal, superseded).
     let leased = msg_State message = OutboxLeased; live = svc_Now svc < msg_LeasedUntil message in
     returnT \<lparr>wd_WorkID = msg_ID message, wd_Kind = msg_Kind message, wd_State = msg_State message,
       wd_OperationID = msg_OperationID message, wd_ResourceID = msg_ResourceID message,
       wd_AttemptNumber = msg_AttemptNumber message, wd_CreatedAt = msg_CreatedAt message,
       wd_AvailableAt = msg_AvailableAt message, wd_AttemptCount = msg_AttemptCount message,
       wd_LeaseActive = (leased \<and> live), wd_LeaseExpired = (leased \<and> \<not> live),
       wd_TerminalReasonClass = terminalReasonClass (msg_TerminalReason message), wd_TargetTerminal = terminal,
       wd_ActiveEquivalentWork = dws_ActiveEquivalentWork snapshot, wd_Superseded = superseded,
       wd_Assessment = PlanDeadWorkRecovery snapshot, wd_Revision = workRevision message snapshot\<rparr>))))"

end
