(* ===== verification/Operator.thy ===== *)
theory Operator
  imports Diagnostics
begin

text \<open>
  The mutations of the operator plane, \<^verbatim>\<open>src/internal/application/operator.go\<close> and
  \<^verbatim>\<open>operator_mutations.go\<close>: triggering an observation of an Operation or of a Resource, and recovering dead
  work. Each is one transaction that resolves the idempotency key, rebuilds the diagnostics, asks the
  planner, queues one work item, and appends one audit row.
\<close>

section \<open>Commands and results\<close>

record OperatorMutationCommand =
  omc_Actor :: Principal
  omc_IdempotencyKey :: string
  omc_RequestID :: string
  omc_IfMatch :: string

record OperatorMutationResult =
  omr_Replay :: bool
  omr_Action :: string
  omr_TargetKind :: string
  omr_TargetID :: string
  omr_OperatorActionID :: string
  omr_CreatedWorkID :: string
  omr_SourceWorkKind :: OutboxKind

datatype OperatorAuditAction = AuditTriggerObserve | AuditTriggerPassiveObserve | AuditRecoverDeadWork

fun audit_string :: "OperatorAuditAction \<Rightarrow> string" where
  "audit_string AuditTriggerObserve = ''trigger_observe''"
| "audit_string AuditTriggerPassiveObserve = ''trigger_passive_observe''"
| "audit_string AuditRecoverDeadWork = ''recover_dead_work''"

record operatorMutationPlan =
  omp_auditAction :: OperatorAuditAction
  omp_permission :: Action
  omp_target :: OperatorTarget
  omp_actionID :: string
  omp_apply :: "string \<Rightarrow> string tx"

definition operatorRequestRepresentationVersion :: int where "operatorRequestRepresentationVersion = 1"

definition operatorDigest :: "string \<Rightarrow> string list \<Rightarrow> string" where
  "operatorDigest namespace parts = bytes_string (sha256 (concat (map writeFramed (namespace # parts))))"

definition FingerprintOperatorRequest :: "OperatorAuditAction \<Rightarrow> OperatorTargetKind \<Rightarrow> string \<Rightarrow> int \<Rightarrow> string" where
  "FingerprintOperatorRequest action targetKind targetID requestVersion =
     operatorDigest ''liftr/operator-fingerprint/v1''
       [audit_string action, target_kind_string targetKind, targetID, format_int requestVersion]"

definition DigestOperatorIdempotencyScope :: "string \<Rightarrow> string \<Rightarrow> string" where
  "DigestOperatorIdempotencyScope scope key = operatorDigest ''liftr/operator-idempotency-digest/v1'' [scope, key]"

text \<open>The identifier of an action is sixteen random bytes, whose generation may fail.\<close>

definition newOperatorActionID :: "nat list result \<Rightarrow> string result" where
  "newOperatorActionID raw = (case raw of
     Inl e \<Rightarrow> Inl (ErrMessage (''create operator action ID: '' @ err_text e))
   | Inr bs \<Rightarrow> Inr (''opact_'' @ hex_bytes bs))"

definition matchDiagnosticRevision :: "string \<Rightarrow> string \<Rightarrow> bool" where
  "matchDiagnosticRevision ifMatch current \<longleftrightarrow> ifMatch = '''' \<or> ifMatch = [CHR 0x22] @ current @ [CHR 0x22]"

definition stale_revision :: error where "stale_revision = ErrDiagnosticStale ''diagnostic revision is stale''"

definition plannerError :: "RecoveryAssessment \<Rightarrow> string \<Rightarrow> error" where
  "plannerError a existingWorkID =
     (if existingWorkID \<noteq> '''' then RecoveryAlreadyActiveError existingWorkID
      else let reason = (case as_Reasons a of [] \<Rightarrow> '''' | r # _ \<Rightarrow> reason_string r) in
        if as_State a = RecoveryManualInterventionNeeded \<or> as_State a = RecoveryUnsupportedRepair
        then UnsafeRecoveryError reason else NotApplicableError reason)"

section \<open>The work an operator may create\<close>

definition nextObserveMessage ::
    "ProvisioningExecutionRecord \<Rightarrow> OutboxMessage \<times> ProvisioningExecutionRecord" where
  "nextObserveMessage execution =
     (let sequence = (if ex_NextObservation execution = 0 then 1 else ex_NextObservation execution)
      in (ObserveMessage (ex_OperationID execution) sequence (ex_Version execution + 1),
          execution\<lparr>ex_NextObservation := sequence + 1\<rparr>))"

definition operatorPassiveObserveMessage :: "string \<Rightarrow> resource_id \<Rightarrow> uint64 \<Rightarrow> OutboxMessage" where
  "operatorPassiveObserveMessage actionID rid expectedVersion =
     work_message OutboxPassiveObserve [] rid 0 (''operator:'' @ actionID @ '':passive-observe'') expectedVersion
       (if expectedVersion = 0 then 1 else expectedVersion)"

definition operatorWakeDependentsMessage :: "string \<Rightarrow> resource_id \<Rightarrow> uint64 \<Rightarrow> OutboxMessage" where
  "operatorWakeDependentsMessage actionID rid expectedVersion =
     work_message OutboxWakeDependents [] rid 0 (''operator:'' @ actionID @ '':wake-dependents'') expectedVersion 0"

definition operatorDriveMessage :: "string \<Rightarrow> operation_id \<Rightarrow> uint64 \<Rightarrow> OutboxMessage" where
  "operatorDriveMessage actionID oid expectedVersion =
     work_message OutboxDrive oid [] 0 (''operator:'' @ actionID @ '':drive'') expectedVersion 0"

text \<open>Queueing the new work; a conflict means that equivalent work exists.\<close>

definition enqueue_recovery :: "time \<Rightarrow> OutboxMessage \<Rightarrow> string \<Rightarrow> unit tx" where
  "enqueue_recovery now message existing = (\<lambda>s. case Enqueue now message s of
       (Inl (ErrConcurrencyConflict _), s') \<Rightarrow> (Inl (RecoveryAlreadyActiveError existing), s')
     | other \<Rightarrow> other)"

section \<open>Triggering an observation\<close>

definition apply_operation_observation :: "OperatorService \<Rightarrow> operation_id \<Rightarrow> string \<Rightarrow> string tx" where
  "apply_operation_observation svc oid ifMatch =
     bindT (GetOperation oid) (\<lambda>stored.
     bindT (SummarizeSubmissionAttempts oid) (\<lambda>attempts.
     bindT (SummarizeWorkByOperation oid) (\<lambda>work.
     bindT (find_execution oid) (\<lambda>found. case found of
       None \<Rightarrow> throwT (plannerError (PlanOperationObserve
         \<lparr>ors_OperationState = op_state (or_Operation stored), ors_HasExecution = False, ors_Execution = no_execution,
          ors_ActiveObserveWork = False, ors_DependencyBlocked = False, ors_RegistrationAvailable = False\<rparr>) '''')
     | Some execution \<Rightarrow>
         let registered = resolveRegistration svc (ex_ProvisionerRef execution);
             revision = operationRevision stored attempts work (Some (executionDiagnosticOf execution)) registered in
         if \<not> matchDiagnosticRevision ifMatch revision then throwT stale_revision
         else bindT (HasDependencyWaitsForOperation oid) (\<lambda>blocked.
           let plan = PlanOperationObserve
                 \<lparr>ors_OperationState = op_state (or_Operation stored), ors_HasExecution = True,
                  ors_Execution = executionSummaryOf execution, ors_ActiveObserveWork = HasActive work OutboxObserve,
                  ors_DependencyBlocked = blocked, ors_RegistrationAvailable = registered\<rparr> in
           if \<not> assessmentAllows plan ActionKindTriggerObserve
           then throwT (plannerError plan (ActiveID work OutboxObserve))
           else let (message, advanced) = nextObserveMessage execution in
             bindT (SaveExecution advanced (ex_Version execution)) (\<lambda>_.
             bindT (enqueue_recovery (svc_Now svc) message (ActiveID work OutboxObserve)) (\<lambda>_.
             returnT (msg_ID message))))))))"

text \<open>The execution of the active Operation of a Resource, if there is one and it has one.\<close>

definition active_execution :: "OperationRecord option \<Rightarrow> ProvisioningExecutionRecord option tx" where
  "active_execution active = (case active of None \<Rightarrow> returnT None | Some row \<Rightarrow> find_execution (op_id (or_Operation row)))"

definition apply_resource_observation :: "OperatorService \<Rightarrow> string \<Rightarrow> resource_id \<Rightarrow> string \<Rightarrow> string tx" where
  "apply_resource_observation svc actionID rid ifMatch =
     bindT (GetResource rid) (\<lambda>stored.
     bindT (ActiveForResource rid) (\<lambda>active.
     bindT (LatestForResource rid) (\<lambda>latest.
     bindT (SummarizeWorkByResource rid) (\<lambda>work.
     bindT (active_execution active) (\<lambda>execution.
     bindT (StateIdentity rid) (\<lambda>binding.
     let registered = resolveRegistration svc (rr_ProvisionerRef stored);
         status = rr_Status stored;
         revision = computeResourceRevision (rr_Version stored) (status_updatedAt status)
           (resource_generation (rr_Resource stored)) (status_observedGeneration status) (status_state status)
           (map_option (operationRefOf \<circ> or_Operation) active) (map_option (operationRefOf \<circ> or_Operation) latest)
           binding (map_option executionDiagnosticOf execution) work registered in
     if \<not> matchDiagnosticRevision ifMatch revision then throwT stale_revision
     else
       let plan = PlanResourcePassiveObserve \<lparr>rps_ResourceState = status_state status,
             rps_ActiveOperation = (active \<noteq> None), rps_ActivePassiveObserveWork = HasActive work OutboxPassiveObserve,
             rps_RegistrationAvailable = registered\<rparr> in
       if \<not> assessmentAllows plan ActionKindTriggerPassiveObserve
       then throwT (plannerError plan (ActiveID work OutboxPassiveObserve))
       else let message = operatorPassiveObserveMessage actionID rid (rr_Version stored) in
         bindT (enqueue_recovery (svc_Now svc) message (ActiveID work OutboxPassiveObserve)) (\<lambda>_.
         returnT (msg_ID message))))))))"

section \<open>Recovering dead work\<close>

record dead_work_facts =
  dwf_Snapshot :: DeadWorkKindSnapshot
  dwf_EquivalentID :: string
  dwf_Execution :: "ProvisioningExecutionRecord option"
  dwf_Resource :: "ResourceRecord option"
  dwf_Operation :: "OperationRecord option"

definition dead_operation_facts :: "OperatorService \<Rightarrow> OutboxMessage \<Rightarrow> dead_work_facts tx" where
  "dead_operation_facts svc dead =
     bindT (GetOperation (msg_OperationID dead)) (\<lambda>stored.
     bindT (SummarizeWorkByOperation (msg_OperationID dead)) (\<lambda>work.
     let equivalentID = ActiveID work (equivalent_kind (msg_Kind dead));
         snapshot = (work_snapshot dead)\<lparr>dws_OperationTarget := True,
           dws_OperationState := op_state (or_Operation stored), dws_TargetVersion := or_Version stored\<rparr> in
     if msg_Kind dead = OutboxDrive then
       bindT (GetResource (op_resourceID (or_Operation stored))) (\<lambda>resource.
       returnT \<lparr>dwf_Snapshot = snapshot\<lparr>dws_ActiveEquivalentWork := (equivalentID \<noteq> ''''),
           dws_RegistrationAvailable := resolveRegistration svc (rr_ProvisionerRef resource)\<rparr>,
         dwf_EquivalentID = equivalentID, dwf_Execution = None, dwf_Resource = None, dwf_Operation = Some stored\<rparr>)
     else
       bindT (find_execution (msg_OperationID dead)) (\<lambda>found. case found of
         None \<Rightarrow> returnT \<lparr>dwf_Snapshot = snapshot, dwf_EquivalentID = '''', dwf_Execution = None,
           dwf_Resource = None, dwf_Operation = Some stored\<rparr>
       | Some execution \<Rightarrow> returnT
           \<lparr>dwf_Snapshot = snapshot\<lparr>dws_HasExecution := True, dws_Execution := executionSummaryOf execution,
              dws_ExecutionVersion := ex_Version execution, dws_Superseded := superseded_by dead execution,
              dws_ActiveEquivalentWork := (equivalentID \<noteq> ''''),
              dws_RegistrationAvailable := resolveRegistration svc (ex_ProvisionerRef execution)\<rparr>,
            dwf_EquivalentID = equivalentID, dwf_Execution = Some execution, dwf_Resource = None,
            dwf_Operation = Some stored\<rparr>)))"

definition dead_resource_facts :: "OperatorService \<Rightarrow> OutboxMessage \<Rightarrow> dead_work_facts tx" where
  "dead_resource_facts svc dead =
     bindT (GetResource (msg_ResourceID dead)) (\<lambda>stored.
     bindT (SummarizeWorkByResource (msg_ResourceID dead)) (\<lambda>work.
     bindT (ActiveForResource (msg_ResourceID dead)) (\<lambda>active.
     let equivalentID = ActiveID work (msg_Kind dead) in
     returnT \<lparr>dwf_Snapshot = (work_snapshot dead)\<lparr>dws_ResourceState := status_state (rr_Status stored),
         dws_TargetVersion := rr_Version stored, dws_ActiveOperation := (active \<noteq> None),
         dws_ActiveEquivalentWork := (equivalentID \<noteq> ''''),
         dws_RegistrationAvailable := resolveRegistration svc (rr_ProvisionerRef stored)\<rparr>,
       dwf_EquivalentID = equivalentID, dwf_Execution = None, dwf_Resource = Some stored, dwf_Operation = None\<rparr>)))"

definition deadWorkSnapshot :: "OperatorService \<Rightarrow> OutboxMessage \<Rightarrow> dead_work_facts tx" where
  "deadWorkSnapshot svc dead =
     (if msg_OperationID dead \<noteq> '''' then dead_operation_facts svc dead else dead_resource_facts svc dead)"

definition unsafe :: "DiagnosticReason \<Rightarrow> 'a tx" where
  "unsafe reason = throwT (UnsafeRecoveryError (reason_string reason))"

text \<open>The fresh work that takes the place of a dead item, from the current state of its target.\<close>

definition recovery_message :: "string \<Rightarrow> OutboxKind \<Rightarrow> dead_work_facts \<Rightarrow> OutboxMessage tx" where
  "recovery_message actionID kind facts = (case kind of
       OutboxDrive \<Rightarrow> (case dwf_Operation facts of
           None \<Rightarrow> unsafe ReasonExecutionRecordMissing
         | Some stored \<Rightarrow> returnT (operatorDriveMessage actionID (op_id (or_Operation stored)) (or_Version stored)))
     | OutboxPassiveObserve \<Rightarrow> (case dwf_Resource facts of
           None \<Rightarrow> unsafe ReasonManualInterventionRequired
         | Some stored \<Rightarrow>
             returnT (operatorPassiveObserveMessage actionID (resource_id (rr_Resource stored)) (rr_Version stored)))
     | OutboxWakeDependents \<Rightarrow> (case dwf_Resource facts of
           None \<Rightarrow> unsafe ReasonManualInterventionRequired
         | Some stored \<Rightarrow>
             returnT (operatorWakeDependentsMessage actionID (resource_id (rr_Resource stored)) (rr_Version stored)))
     | OutboxKindOther _ \<Rightarrow> unsafe ReasonManualInterventionRequired
     | _ \<Rightarrow> (case dwf_Execution facts of
           None \<Rightarrow> unsafe ReasonExecutionRecordMissing
         | Some execution \<Rightarrow> let (message, advanced) = nextObserveMessage execution in
             bindT (SaveExecution advanced (ex_Version execution)) (\<lambda>_. returnT message)))"

definition apply_dead_recovery :: "OperatorService \<Rightarrow> string \<Rightarrow> string \<Rightarrow> string \<Rightarrow> string tx" where
  "apply_dead_recovery svc actionID workID ifMatch =
     bindT (GetOutbox workID) (\<lambda>dead.
     if msg_State dead \<noteq> OutboxDead then throwT (NotApplicableError (reason_string ReasonWorkNotDead))
     else bindT (deadWorkSnapshot svc dead) (\<lambda>facts.
       if \<not> matchDiagnosticRevision ifMatch (workRevision dead (dwf_Snapshot facts)) then throwT stale_revision
       else let plan = PlanDeadWorkRecovery (dwf_Snapshot facts) in
         if \<not> assessmentAllows plan ActionKindRecoverDeadWork then throwT (plannerError plan (dwf_EquivalentID facts))
         else bindT (recovery_message actionID (msg_Kind dead) facts) (\<lambda>created.
           if msg_Kind created = OutboxDispatch
           then throwT (ErrInvalidApplicationCall ''dead work recovery must never create Dispatch'')
           else bindT (enqueue_recovery (svc_Now svc) created (dwf_EquivalentID facts)) (\<lambda>_.
             returnT (msg_ID created)))))"

section \<open>One privileged mutation\<close>

definition find_operator_idempotency :: "string \<Rightarrow> string \<Rightarrow> OperatorIdempotencyRecord option tx" where
  "find_operator_idempotency scope key = (\<lambda>s. case GetOperatorIdempotency scope key s of
       (Inl (ErrOperatorIdempotencyNotFound _), s') \<Rightarrow> (Inr None, s')
     | (Inl e, s') \<Rightarrow> (Inl e, s')
     | (Inr bound, s') \<Rightarrow> (Inr (Some bound), s'))"

text \<open>The kind of the work item an action names as its source, if it names one.\<close>

definition source_kind :: "string \<Rightarrow> OutboxKind tx" where
  "source_kind workID =
     (if workID = '''' then returnT (OutboxKindOther '''')
      else bindT (GetOutbox workID) (\<lambda>source. returnT (msg_Kind source)))"

definition replay_operator_action :: "OperatorIdempotencyRecord \<Rightarrow> string \<Rightarrow> OperatorMutationResult tx" where
  "replay_operator_action bound fingerprint =
     (if oi_Fingerprint bound \<noteq> fingerprint then throwT (ErrIdempotencyConflict ''idempotency key conflict'')
      else bindT (GetOperatorAction (oi_OperatorActionID bound)) (\<lambda>action.
        bindT (source_kind (oa_SourceWorkID action)) (\<lambda>kind.
        returnT \<lparr>omr_Replay = True, omr_Action = oa_Action action, omr_TargetKind = oa_TargetKind action,
          omr_TargetID = oa_TargetID action, omr_OperatorActionID = oa_ID action,
          omr_CreatedWorkID = oa_CreatedWorkID action, omr_SourceWorkKind = kind\<rparr>)))"

text \<open>The audit row of an accepted mutation and the binding of its key.\<close>

definition operator_action_row ::
    "OperatorService \<Rightarrow> OperatorMutationCommand \<Rightarrow> operatorMutationPlan \<Rightarrow> string \<Rightarrow> OperatorActionRecord" where
  "operator_action_row svc cmd plan createdWorkID =
     \<lparr>oa_ID = omp_actionID plan, oa_ActorPrincipalID = prn_ID (omc_Actor cmd), oa_ActorKind = prn_Kind (omc_Actor cmd),
      oa_Action = audit_string (omp_auditAction plan), oa_TargetKind = target_kind_string (ot_Kind (omp_target plan)),
      oa_TargetID = ot_ID (omp_target plan),
      oa_SourceWorkID = (if omp_auditAction plan = AuditRecoverDeadWork then ot_ID (omp_target plan) else []),
      oa_CreatedWorkID = createdWorkID,
      oa_IdempotencyDigest = DigestOperatorIdempotencyScope (prn_ID (omc_Actor cmd)) (omc_IdempotencyKey cmd),
      oa_RequestID = omc_RequestID cmd, oa_CreatedAt = svc_Now svc\<rparr>"

definition operator_binding :: "OperatorMutationCommand \<Rightarrow> string \<Rightarrow> string \<Rightarrow> OperatorIdempotencyRecord" where
  "operator_binding cmd fingerprint actionID =
     \<lparr>oi_Scope = prn_ID (omc_Actor cmd), oi_Key = omc_IdempotencyKey cmd, oi_Fingerprint = fingerprint,
      oi_OperatorActionID = actionID\<rparr>"

definition admit_operator_action ::
    "OperatorService \<Rightarrow> OperatorMutationCommand \<Rightarrow> operatorMutationPlan \<Rightarrow> string \<Rightarrow> OperatorMutationResult tx" where
  "admit_operator_action svc cmd plan fingerprint =
     bindT (liftT (authorizeOperator svc (omc_Actor cmd) (omp_permission plan) (omp_target plan))) (\<lambda>_.
     bindT (omp_apply plan (omc_IfMatch cmd)) (\<lambda>createdWorkID.
     if createdWorkID = '''' then throwT (ErrInvalidApplicationCall ''accepted operator mutation created no work'')
     else
       let action = operator_action_row svc cmd plan createdWorkID in
       bindT (if omp_auditAction plan = AuditRecoverDeadWork
              then bindT (GetOutbox (ot_ID (omp_target plan))) (\<lambda>source. returnT (msg_Kind source))
              else returnT (OutboxKindOther '''')) (\<lambda>kind.
       bindT (InsertOperatorAction action) (\<lambda>_.
       bindT (PutOperatorIdempotency (operator_binding cmd fingerprint (oa_ID action))) (\<lambda>_.
       returnT \<lparr>omr_Replay = False, omr_Action = audit_string (omp_auditAction plan),
         omr_TargetKind = target_kind_string (ot_Kind (omp_target plan)), omr_TargetID = ot_ID (omp_target plan),
         omr_OperatorActionID = oa_ID action, omr_CreatedWorkID = createdWorkID, omr_SourceWorkKind = kind\<rparr>)))))"

definition request_fingerprint :: "operatorMutationPlan \<Rightarrow> string" where
  "request_fingerprint plan = FingerprintOperatorRequest (omp_auditAction plan) (ot_Kind (omp_target plan))
     (ot_ID (omp_target plan)) operatorRequestRepresentationVersion"

definition runOperatorMutation ::
    "OperatorService \<Rightarrow> OperatorMutationCommand \<Rightarrow> operatorMutationPlan \<Rightarrow> OperatorMutationResult tx" where
  "runOperatorMutation svc cmd plan =
     (if prn_ID (omc_Actor cmd) = '''' \<or> prn_Kind (omc_Actor cmd) = '''' \<or> blank (omc_IdempotencyKey cmd) \<or>
         200 < length (omc_IdempotencyKey cmd)
      then throwT (ErrInvalidApplicationCall ''actor and bounded Idempotency-Key are required'')
      else if blank (omc_RequestID cmd) then throwT (ErrInvalidApplicationCall ''request ID is required'')
      else bindT (liftT (authorizeOperator svc (omc_Actor cmd) (omp_permission plan) (omp_target plan))) (\<lambda>_.
        let fingerprint = request_fingerprint plan in
        Within (
        bindT (find_operator_idempotency (prn_ID (omc_Actor cmd)) (omc_IdempotencyKey cmd)) (\<lambda>found. case found of
          Some bound \<Rightarrow> replay_operator_action bound fingerprint
        | None \<Rightarrow> admit_operator_action svc cmd plan fingerprint))))"

section \<open>The three mutations\<close>

datatype operator_target = ObserveOperation operation_id | ObserveResource resource_id | RecoverWork string

fun operator_plan :: "OperatorService \<Rightarrow> operator_target \<Rightarrow> string \<Rightarrow> operatorMutationPlan" where
  "operator_plan svc (ObserveOperation oid) actionID =
     \<lparr>omp_auditAction = AuditTriggerObserve, omp_permission = ActionOperatorObserveTrigger,
      omp_target = \<lparr>ot_Kind = OperatorTargetOperation, ot_ID = oid\<rparr>, omp_actionID = actionID,
      omp_apply = apply_operation_observation svc oid\<rparr>"
| "operator_plan svc (ObserveResource rid) actionID =
     \<lparr>omp_auditAction = AuditTriggerPassiveObserve, omp_permission = ActionOperatorObserveTrigger,
      omp_target = \<lparr>ot_Kind = OperatorTargetResource, ot_ID = rid\<rparr>, omp_actionID = actionID,
      omp_apply = apply_resource_observation svc actionID rid\<rparr>"
| "operator_plan svc (RecoverWork workID) actionID =
     \<lparr>omp_auditAction = AuditRecoverDeadWork, omp_permission = ActionOperatorWorkRecover,
      omp_target = \<lparr>ot_Kind = OperatorTargetWork, ot_ID = workID\<rparr>, omp_actionID = actionID,
      omp_apply = apply_dead_recovery svc actionID workID\<rparr>"

definition operate ::
    "OperatorService \<Rightarrow> nat list result \<Rightarrow> OperatorMutationCommand \<Rightarrow> operator_target \<Rightarrow> OperatorMutationResult tx" where
  "operate svc raw cmd target =
     bindT (liftT (newOperatorActionID raw)) (\<lambda>actionID. runOperatorMutation svc cmd (operator_plan svc target actionID))"

definition TriggerOperationObservation ::
    "OperatorService \<Rightarrow> nat list result \<Rightarrow> OperatorMutationCommand \<Rightarrow> operation_id \<Rightarrow> OperatorMutationResult tx" where
  "TriggerOperationObservation svc raw cmd oid = operate svc raw cmd (ObserveOperation oid)"

definition TriggerResourcePassiveObservation ::
    "OperatorService \<Rightarrow> nat list result \<Rightarrow> OperatorMutationCommand \<Rightarrow> resource_id \<Rightarrow> OperatorMutationResult tx" where
  "TriggerResourcePassiveObservation svc raw cmd rid = operate svc raw cmd (ObserveResource rid)"

definition RecoverDeadWork ::
    "OperatorService \<Rightarrow> nat list result \<Rightarrow> OperatorMutationCommand \<Rightarrow> string \<Rightarrow> OperatorMutationResult tx" where
  "RecoverDeadWork svc raw cmd workID = operate svc raw cmd (RecoverWork workID)"

end
