(* ===== verification/Queries.thy ===== *)
theory Queries
  imports Transactions
begin

text \<open>
  Transactions that only read: a calculus that shows a use case to leave the store alone, and that
  evaluates it to the values its queries return.
\<close>

lemma Within_read: "snd (m s) = s \<Longrightarrow> Within m s = (fst (m s), s)"
  by (cases "m s"; cases "fst (m s)") (auto simp: Within_def)

definition reads_only :: "'a tx \<Rightarrow> bool" where
  "reads_only m \<longleftrightarrow> (\<forall>s. snd (m s) = s)"

lemma reads_only_bind: "\<lbrakk>reads_only m; \<And>x. reads_only (f x)\<rbrakk> \<Longrightarrow> reads_only (bindT m f)"
  by (auto simp: reads_only_def bindT_def split: prod.split sum.split) (metis snd_conv)+

lemma reads_only_methods:
  "reads_only (GetResource rid)" "reads_only (GetOperation oid)" "reads_only (LookupOperation oid)"
  "reads_only (LatestForResource rid)" "reads_only (LatestResourceOutputs rid)" "reads_only (DesiredReferences rid)"
  "reads_only (PageForResource rid seq limit)" "reads_only (ListResources q)"
  "reads_only (ActiveForResource rid)" "reads_only (GetExecution oid)" "reads_only (SummarizeSubmissionAttempts oid)"
  "reads_only (SummarizeWorkByOperation oid)" "reads_only (SummarizeWorkByResource rid)" "reads_only (GetOutbox mid)"
  "reads_only (HasDependencyWaitsForOperation oid)" "reads_only (GetOperatorAction aid)"
  "reads_only (GetOperatorIdempotency sc k)"
  "reads_only (liftT r)" "reads_only (returnT x)" "reads_only (throwT e)"
  by (simp_all add: reads_only_def GetResource_def GetOperation_def LookupOperation_def LatestForResource_def
      LatestResourceOutputs_def DesiredReferences_def PageForResource_def ListResources_def liftT_def
      ActiveForResource_def GetExecution_def SummarizeSubmissionAttempts_def SummarizeWorkByOperation_def
      SummarizeWorkByResource_def GetOutbox_def HasDependencyWaitsForOperation_def GetOperatorAction_def
      GetOperatorIdempotency_def)

lemma reads_only_Within: "reads_only m \<Longrightarrow> reads_only (Within m)"
  by (simp add: reads_only_def Within_read)

lemma reads_only_if: "reads_only m \<Longrightarrow> reads_only m' \<Longrightarrow> reads_only (if b then m else m')"
  by simp

lemma reads_only_case_prod: "(\<And>x y. reads_only (f x y)) \<Longrightarrow> reads_only (case p of (x, y) \<Rightarrow> f x y)"
  by (cases p) simp

lemma reads_only_case_option:
  "\<lbrakk>reads_only m; \<And>x. reads_only (f x)\<rbrakk> \<Longrightarrow> reads_only (case c of None \<Rightarrow> m | Some x \<Rightarrow> f x)"
  by (cases c) simp_all

lemmas reads_only_intros = reads_only_bind reads_only_Within reads_only_if reads_only_case_prod
  reads_only_case_option reads_only_methods

lemma read_result: "reads_only m \<Longrightarrow> fst (Within m s) = fst (m s)"
  by (simp add: reads_only_def Within_read)

lemma read_bind: "reads_only m \<Longrightarrow> fst (bindT m f s) = bindE (fst (m s)) (\<lambda>x. fst (f x s))"
  by (cases "m s"; cases "fst (m s)") (auto simp: reads_only_def bindT_def dest: spec [of _ s])

text \<open>A query at the front of a transaction is its value; the rest runs on the same store.\<close>

lemma read_first:
  "reads_only m \<Longrightarrow> bindT m f s = (case fst (m s) of Inl e \<Rightarrow> (Inl e, s) | Inr x \<Rightarrow> f x s)"
  by (cases "m s"; cases "fst (m s)") (auto simp: reads_only_def bindT_def dest: spec [of _ s])

lemma read_first_Inr:
  "reads_only m \<Longrightarrow> bindT m f s = (Inr y, s') \<longleftrightarrow> (\<exists>x. fst (m s) = Inr x \<and> f x s = (Inr y, s'))"
  by (auto simp: read_first split: sum.split)

lemma read_values:
  "fst (GetResource rid s) = (case map_of (st_resources s) rid of
     None \<Rightarrow> Inl (ErrResourceNotFound ''resource not found'') | Some row \<Rightarrow> Inr row)"
  "fst (GetOperation oid s) = (case map_of (st_operations s) oid of
     None \<Rightarrow> Inl (ErrOperationNotFound ''operation not found'') | Some row \<Rightarrow> Inr row)"
  "fst (LookupOperation oid s) = fst (GetOperation oid s)" "fst (liftT r s) = r"
  "fst (returnT x s) = Inr x" "fst (throwT e s) = Inl e" "fst ((if b then m else m') s) = (if b then fst (m s) else fst (m' s))"
  by (simp_all add: GetResource_def GetOperation_def LookupOperation_def liftT_def)

end
