(* ===== verification/Operator_Safety.thy ===== *)
theory Operator_Safety
  imports Operator Queries Admission_Safety
begin

text \<open>
  What the operator plane guarantees: a mutation acts only when the facts of the store make it safe,
  queues one item of work that is never a Dispatch, leaves Operations, Resources and attempts alone, is
  audited once, and is answered from its audit row when it is repeated.
\<close>

section \<open>Queries of the operator plane\<close>

lemma find_execution_run [simp]: "find_execution oid s = (Inr (map_of (st_executions s) oid), s)"
  by (simp add: find_execution_def GetExecution_def split: option.split)

lemma operator_query_runs [simp]:
  "active_execution active s =
     (Inr (case active of None \<Rightarrow> None | Some row \<Rightarrow> map_of (st_executions s) (op_id (or_Operation row))), s)"
  "StateIdentity rid s = (Inr None, s)"
  by (simp_all add: active_execution_def StateIdentity_def split: option.split)

lemma operator_queries [intro, simp]:
  "reads_only (find_execution oid)" "reads_only (active_execution active)" "reads_only (StateIdentity rid)"
  "reads_only (SpecDigest svc rid)" "reads_only (activeEquivalentOfWork message)" "reads_only (source_kind workID)"
  "reads_only (find_operator_idempotency scope key)" "reads_only (replay_operator_action bound fingerprint)"
proof -
  show "reads_only (find_execution oid)" by (simp add: reads_only_def)
  then show "reads_only (active_execution active)"
    unfolding active_execution_def by (cases active) (auto simp: reads_only_def)
  show "reads_only (StateIdentity rid)" "reads_only (SpecDigest svc rid)" "reads_only (find_operator_idempotency scope key)"
    by (auto simp: reads_only_def StateIdentity_def SpecDigest_def find_operator_idempotency_def GetOperatorIdempotency_def
        split: option.split)
  show "reads_only (activeEquivalentOfWork message)" "reads_only (source_kind workID)"
    unfolding activeEquivalentOfWork_def source_kind_def by (intro reads_only_intros)+
  then show "reads_only (replay_operator_action bound fingerprint)"
    unfolding replay_operator_action_def source_kind_def by (intro reads_only_intros)
qed

lemma reads_only_facts [intro, simp]:
  "reads_only (dead_operation_facts svc dead)" "reads_only (dead_resource_facts svc dead)"
  "reads_only (deadWorkSnapshot svc dead)" "reads_only (operation_work_facts svc message)"
  "reads_only (resource_work_facts svc message)"
  unfolding dead_operation_facts_def dead_resource_facts_def deadWorkSnapshot_def operation_work_facts_def
    resource_work_facts_def Let_def
  by (intro reads_only_intros operator_queries)+

section \<open>One item of work\<close>

definition next_sequence :: "ProvisioningExecutionRecord \<Rightarrow> uint64" where
  "next_sequence e = (if ex_NextObservation e = 0 then 1 else ex_NextObservation e)"

text \<open>
  The executions after a mutation: as they were, or with the next observation number of one of them
  reserved and its version advanced.
\<close>

definition observation_reserved ::
    "(operation_id, ProvisioningExecutionRecord) table \<Rightarrow> (operation_id, ProvisioningExecutionRecord) table \<Rightarrow> bool" where
  "observation_reserved ex ex' \<longleftrightarrow> ex' = ex \<or> (\<exists>k e. map_of ex k = Some e \<and>
     ex' = put (ex_OperationID e) (e\<lparr>ex_NextObservation := next_sequence e + 1, ex_Version := ex_Version e + 1\<rparr>) ex)"

text \<open>The outbox after a mutation: every row as it was, and the row of the created work, pending when it is new.\<close>

definition work_queued ::
    "(string, OutboxMessage) table \<Rightarrow> OutboxKind \<Rightarrow> string \<Rightarrow> (string, OutboxMessage) table \<Rightarrow> bool" where
  "work_queued t kind mid t' \<longleftrightarrow> (\<forall>k. k \<noteq> mid \<longrightarrow> map_of t' k = map_of t k) \<and>
     (\<exists>row. map_of t' mid = Some row \<and> (case map_of t mid of
        Some old \<Rightarrow> row = old
      | None \<Rightarrow> msg_ID row = mid \<and> msg_Kind row = kind \<and> msg_State row = OutboxPending \<and> msg_LeaseToken row = ''''))"

definition operator_effect :: "OutboxKind \<Rightarrow> string \<Rightarrow> Store \<Rightarrow> Store \<Rightarrow> bool" where
  "operator_effect kind mid s s' \<longleftrightarrow> (\<exists>ex t. s' = s\<lparr>st_executions := ex, st_outbox := t\<rparr> \<and>
     observation_reserved (st_executions s) ex \<and> work_queued (st_outbox s) kind mid t)"

lemma enqueue_recovery_Inr:
  assumes "enqueue_recovery now m existing s = (Inr u, s')" "msg_State m = OutboxPending"
  shows "(\<exists>row \<in> set (map snd (st_outbox s)). msg_DedupeKey row = msg_DedupeKey m) \<and> s' = s \<or>
    (\<forall>row \<in> set (map snd (st_outbox s)). msg_DedupeKey row \<noteq> msg_DedupeKey m) \<and>
    s' = s\<lparr>st_outbox := put (msg_ID m) (stamp_times now m) (st_outbox s)\<rparr>"
proof (cases "enqueue_scan m (map snd (st_outbox s))")
  case None
  then show ?thesis
    using assms unfolding enqueue_scan_None by (auto simp: enqueue_recovery_def Enqueue_def None Let_def)
next
  case (Some r)
  then show ?thesis
    using assms(1) enqueue_scan_Some [OF Some] by (auto simp: enqueue_recovery_def Enqueue_def)
qed

lemma stamp_times_sel [simp]:
  "msg_ID (stamp_times now m) = msg_ID m" "msg_Kind (stamp_times now m) = msg_Kind m"
  "msg_State (stamp_times now m) = msg_State m" "msg_LeaseToken (stamp_times now m) = msg_LeaseToken m"
  by (simp_all add: stamp_times_def Let_def)

lemma queued_effect:
  assumes inv: "outbox_inv (st_outbox s)" and run: "enqueue_recovery now m existing (s\<lparr>st_executions := ex\<rparr>) = (Inr u, s')"
    and ex: "observation_reserved (st_executions s) ex"
    and m: "msg_ID m = msg_DedupeKey m" "msg_State m = OutboxPending" "msg_LeaseToken m = ''''"
  shows "operator_effect (msg_Kind m) (msg_ID m) s s'"
proof -
  have row_key: "k = msg_ID row \<and> msg_ID row = msg_DedupeKey row" if "(k, row) \<in> set (st_outbox s)" for k row
    using inv that unfolding outbox_inv_def by blast
  have wf: "wf_table (st_outbox s)" using inv by (simp add: outbox_inv_def)
  show ?thesis
    using enqueue_recovery_Inr [OF run m(2)]
  proof (elim disjE conjE)
    assume "\<exists>row \<in> set (map snd (st_outbox (s\<lparr>st_executions := ex\<rparr>))). msg_DedupeKey row = msg_DedupeKey m"
      and s': "s' = s\<lparr>st_executions := ex\<rparr>"
    then obtain row where "(msg_ID m, row) \<in> set (st_outbox s)" using row_key m(1) by fastforce
    then have "map_of (st_outbox s) (msg_ID m) = Some row" using wf_table_in_set_iff [OF wf] by blast
    then show ?thesis
      unfolding operator_effect_def work_queued_def using ex s'
      by (intro exI [of _ ex] exI [of _ "st_outbox s"]) auto
  next
    assume none: "\<forall>row \<in> set (map snd (st_outbox (s\<lparr>st_executions := ex\<rparr>))). msg_DedupeKey row \<noteq> msg_DedupeKey m"
      and s': "s' = s\<lparr>st_executions := ex, st_outbox := put (msg_ID m) (stamp_times now m) (st_outbox (s\<lparr>st_executions := ex\<rparr>))\<rparr>"
    have "map_of (st_outbox s) (msg_ID m) = None"
    proof (rule ccontr)
      assume "map_of (st_outbox s) (msg_ID m) \<noteq> None"
      then obtain row where "(msg_ID m, row) \<in> set (st_outbox s)" by (auto dest: map_of_SomeD)
      then show False using row_key none m(1) by force
    qed
    then show ?thesis
      unfolding operator_effect_def work_queued_def using ex s' m(2,3)
      by (intro exI [of _ ex] exI [of _ "put (msg_ID m) (stamp_times now m) (st_outbox s)"]) auto
  qed
qed

section \<open>When a mutation is safe\<close>

text \<open>The backend truth of an execution is outstanding: it was submitted and has no terminal evidence yet.\<close>

definition outstanding :: "ProvisioningExecutionRecord \<Rightarrow> bool" where
  "outstanding e \<longleftrightarrow> ex_State e = AttemptUnknown \<or> ex_State e = AttemptAccepted \<or>
     ex_State e = AttemptSucceeded \<and> ex_OutputResolution e = OutputResolutionPending"

definition active_operation_row :: "operation_id \<Rightarrow> Store \<Rightarrow> bool" where
  "active_operation_row oid s \<longleftrightarrow> (\<exists>stored. map_of (st_operations s) oid = Some stored \<and> \<not> IsTerminal (or_Operation stored))"

definition live_resource :: "resource_id \<Rightarrow> Store \<Rightarrow> bool" where
  "live_resource rid s \<longleftrightarrow> (\<exists>stored. map_of (st_resources s) rid = Some stored \<and>
     status_state (rr_Status stored) \<noteq> ResourceStateDeleted) \<and> no_active rid s"

fun operator_safe :: "operator_target \<Rightarrow> Store \<Rightarrow> bool" where
  "operator_safe (ObserveOperation oid) s \<longleftrightarrow> active_operation_row oid s \<and>
     (\<exists>e. map_of (st_executions s) oid = Some e \<and> outstanding e)"
| "operator_safe (ObserveResource rid) s \<longleftrightarrow> live_resource rid s"
| "operator_safe (RecoverWork workID) s \<longleftrightarrow> (\<exists>dead. map_of (st_outbox s) workID = Some dead \<and> msg_State dead = OutboxDead \<and>
     (if msg_OperationID dead \<noteq> '''' then active_operation_row (msg_OperationID dead) s \<and>
        (msg_Kind dead = OutboxDrive \<or> (msg_Kind dead = OutboxDispatch \<or> msg_Kind dead = OutboxObserve) \<and>
           (\<exists>e. map_of (st_executions s) (msg_OperationID dead) = Some e \<and> outstanding e \<and> \<not> superseded_by dead e))
      else live_resource (msg_ResourceID dead) s \<and>
        (msg_Kind dead = OutboxPassiveObserve \<or> msg_Kind dead = OutboxWakeDependents)))"

text \<open>The kind of work a mutation creates.\<close>

fun created_kind :: "operator_target \<Rightarrow> Store \<Rightarrow> OutboxKind" where
  "created_kind (ObserveOperation oid) s = OutboxObserve"
| "created_kind (ObserveResource rid) s = OutboxPassiveObserve"
| "created_kind (RecoverWork workID) s =
     (case map_of (st_outbox s) workID of None \<Rightarrow> OutboxKindOther '''' | Some dead \<Rightarrow> equivalent_kind (msg_Kind dead))"

lemma observable_outstanding [simp]: "observableForObserve (executionSummaryOf e) = outstanding e"
  by (simp add: observableForObserve_def executionSummaryOf_def outstanding_def split: ProvisioningAttemptState.split)

lemma terminal_operation [simp]: "operationStateIsTerminal (op_state op) = IsTerminal op"
  by (cases "op_state op") (simp_all add: IsTerminal_def)

declare operationStateIsTerminal.simps [simp del]

lemma next_observe_message [simp]:
  "msg_ID (fst (nextObserveMessage e)) = msg_DedupeKey (fst (nextObserveMessage e))"
  "msg_State (fst (nextObserveMessage e)) = OutboxPending" "msg_LeaseToken (fst (nextObserveMessage e)) = ''''"
  "msg_Kind (fst (nextObserveMessage e)) = OutboxObserve"
  "snd (nextObserveMessage e) = e\<lparr>ex_NextObservation := next_sequence e + 1\<rparr>"
  by (simp_all add: nextObserveMessage_def next_sequence_def Let_def ObserveMessage_def work_message_def)

lemma operator_messages [simp]:
  "msg_ID (operatorPassiveObserveMessage a rid v) = msg_DedupeKey (operatorPassiveObserveMessage a rid v)"
  "msg_ID (operatorWakeDependentsMessage a rid v) = msg_DedupeKey (operatorWakeDependentsMessage a rid v)"
  "msg_ID (operatorDriveMessage a oid v) = msg_DedupeKey (operatorDriveMessage a oid v)"
  "msg_State (operatorPassiveObserveMessage a rid v) = OutboxPending" "msg_LeaseToken (operatorPassiveObserveMessage a rid v) = ''''"
  "msg_State (operatorWakeDependentsMessage a rid v) = OutboxPending" "msg_LeaseToken (operatorWakeDependentsMessage a rid v) = ''''"
  "msg_State (operatorDriveMessage a oid v) = OutboxPending" "msg_LeaseToken (operatorDriveMessage a oid v) = ''''"
  "msg_Kind (operatorPassiveObserveMessage a rid v) = OutboxPassiveObserve"
  "msg_Kind (operatorWakeDependentsMessage a rid v) = OutboxWakeDependents" "msg_Kind (operatorDriveMessage a oid v) = OutboxDrive"
  by (simp_all add: operatorPassiveObserveMessage_def operatorWakeDependentsMessage_def operatorDriveMessage_def work_message_def)

lemma save_reserved:
  assumes "SaveExecution (e\<lparr>ex_NextObservation := next_sequence e + 1\<rparr>) (ex_Version e) s = (Inr u, s1)"
    "map_of (st_executions s) k = Some e"
  obtains ex where "s1 = s\<lparr>st_executions := ex\<rparr>" "observation_reserved (st_executions s) ex"
  using assms by (auto simp: SaveExecution_def observation_reserved_def split: option.splits if_splits)

lemma same_executions: "s\<lparr>st_executions := st_executions s\<rparr> = s" "observation_reserved ex ex"
  by (simp_all add: observation_reserved_def)

section \<open>The three mutations\<close>

text \<open>Successful runs, step by step.\<close>

lemma query_runs:
  "GetOutbox mid s = (Inr m, s') \<longleftrightarrow> s' = s \<and> map_of (st_outbox s) mid = Some m"
  "SummarizeSubmissionAttempts oid s = (Inr a, s') \<longleftrightarrow> s' = s \<and> a = summarize_attempts oid (map snd (st_attempts s)) \<lparr>ahs_Count = 0, ahs_Latest = None\<rparr>"
  "SummarizeWorkByOperation oid s = (Inr w, s') \<longleftrightarrow> s' = s \<and> w = summarizeWork (\<lambda>m. msg_OperationID m = oid) s"
  "SummarizeWorkByResource rid s = (Inr w, s') \<longleftrightarrow> s' = s \<and> w = summarizeWork (\<lambda>m. msg_ResourceID m = rid) s"
  "HasDependencyWaitsForOperation oid s = (Inr b, s') \<longleftrightarrow> s' = s \<and> b = list_ex (wait_prefix oid) (map fst (st_dependencyWaits s))"
  "LatestForResource rid s = (Inr l, s') \<longleftrightarrow> s' = s \<and> l = latest_record rid (map snd (st_operations s)) None"
  by (auto simp: GetOutbox_def SummarizeSubmissionAttempts_def SummarizeWorkByOperation_def
      SummarizeWorkByResource_def HasDependencyWaitsForOperation_def LatestForResource_def split: option.splits)

lemma guarded_runs:
  "(case c of None \<Rightarrow> throwT e | Some x \<Rightarrow> f x) s = (Inr y, s') \<longleftrightarrow> (\<exists>x. c = Some x \<and> f x s = (Inr y, s'))"
  "(if b then throwT e else m) s = (Inr y, s') \<longleftrightarrow> \<not> b \<and> m s = (Inr y, s')"
  "throwT e s = (Inr y, s') \<longleftrightarrow> False" "returnT x s = (Inr y, s') \<longleftrightarrow> y = x \<and> s' = s"
  by (cases c; auto)+

lemmas successful_runs = bindT_eq_Inr readers_Inr query_runs guarded_runs find_execution_run operator_query_runs prod.inject sum.inject Let_def case_prod_unfold

lemma apply_operation_observation_Inr:
  assumes inv: "outbox_inv (st_outbox s)" and run: "apply_operation_observation svc oid ifMatch s = (Inr mid, s')"
  shows "operator_effect OutboxObserve mid s s'" "operator_safe (ObserveOperation oid) s"
proof -
  from run obtain stored attempts work e blocked s1 where
    stored: "map_of (st_operations s) oid = Some stored" and e: "map_of (st_executions s) oid = Some e" and
    plan: "assessmentAllows (PlanOperationObserve \<lparr>ors_OperationState = op_state (or_Operation stored),
        ors_HasExecution = True, ors_Execution = executionSummaryOf e, ors_ActiveObserveWork = HasActive work OutboxObserve,
        ors_DependencyBlocked = blocked, ors_RegistrationAvailable = resolveRegistration svc (ex_ProvisionerRef e)\<rparr>)
        ActionKindTriggerObserve" and
    save: "SaveExecution (e\<lparr>ex_NextObservation := next_sequence e + 1\<rparr>) (ex_Version e) s = (Inr (), s1)" and
    queue: "enqueue_recovery (svc_Now svc) (fst (nextObserveMessage e)) (ActiveID work OutboxObserve) s1 = (Inr (), s')" and
    mid: "mid = msg_ID (fst (nextObserveMessage e))"
    unfolding apply_operation_observation_def successful_runs by (auto split del: if_split)
  obtain ex where ex: "s1 = s\<lparr>st_executions := ex\<rparr>" "observation_reserved (st_executions s) ex"
    by (rule save_reserved [OF save e])
  show "operator_effect OutboxObserve mid s s'"
    using queued_effect [OF inv queue [unfolded ex(1)] ex(2)] by (simp add: mid)
  show "operator_safe (ObserveOperation oid) s"
    using plan stored e by (simp add: assessmentAllows_def plan_operation_actions may_observe_def active_operation_row_def
        split: if_splits)
qed

lemma apply_resource_observation_Inr:
  assumes inv: "outbox_inv (st_outbox s)" and run: "apply_resource_observation svc actionID rid ifMatch s = (Inr mid, s')"
  shows "operator_effect OutboxPassiveObserve mid s s'" "operator_safe (ObserveResource rid) s"
proof -
  from run obtain stored active work existing s1 where
    stored: "map_of (st_resources s) rid = Some stored" and active: "ActiveForResource rid s = (Inr active, s)" and
    plan: "assessmentAllows (PlanResourcePassiveObserve \<lparr>rps_ResourceState = status_state (rr_Status stored),
        rps_ActiveOperation = (active \<noteq> None), rps_ActivePassiveObserveWork = HasActive work OutboxPassiveObserve,
        rps_RegistrationAvailable = resolveRegistration svc (rr_ProvisionerRef stored)\<rparr>)
        ActionKindTriggerPassiveObserve" and
    queue: "enqueue_recovery (svc_Now svc) (operatorPassiveObserveMessage actionID rid (rr_Version stored)) existing s = (Inr (), s')" and
    mid: "mid = msg_ID (operatorPassiveObserveMessage actionID rid (rr_Version stored))"
    unfolding apply_resource_observation_def successful_runs active_Inr by (auto split del: if_split)
  show "operator_effect OutboxPassiveObserve mid s s'"
    using queued_effect [OF inv _ same_executions(2), unfolded same_executions(1), OF queue] by (simp add: mid)
  show "operator_safe (ObserveResource rid) s"
    using plan stored active_None active by (auto simp: assessmentAllows_def plan_resource_actions may_observe_passively_def
        live_resource_def split: if_splits)
qed

lemma work_snapshot_sel [simp]:
  "dws_Kind (work_snapshot m) = msg_Kind m" "dws_State (work_snapshot m) = msg_State m"
  "\<not> dws_OperationTarget (work_snapshot m)" "\<not> dws_HasExecution (work_snapshot m)"
  by (simp_all add: work_snapshot_def)

lemma dead_operation_facts_Inr:
  assumes "dead_operation_facts svc dead s = (Inr facts, s')"
  obtains stored where "s' = s" "map_of (st_operations s) (msg_OperationID dead) = Some stored" "dwf_Operation facts = Some stored"
    "dws_Kind (dwf_Snapshot facts) = msg_Kind dead" "dws_OperationTarget (dwf_Snapshot facts)"
    "dws_OperationState (dwf_Snapshot facts) = op_state (or_Operation stored)"
    "msg_Kind dead \<noteq> OutboxDrive \<Longrightarrow> dwf_Execution facts = map_of (st_executions s) (msg_OperationID dead)"
    "\<And>e. msg_Kind dead \<noteq> OutboxDrive \<Longrightarrow> dwf_Execution facts = Some e \<Longrightarrow>
       dws_Execution (dwf_Snapshot facts) = executionSummaryOf e \<and> dws_Superseded (dwf_Snapshot facts) = superseded_by dead e"
    "msg_Kind dead \<noteq> OutboxDrive \<Longrightarrow> dws_HasExecution (dwf_Snapshot facts) \<Longrightarrow> dwf_Execution facts \<noteq> None"
  using assms unfolding dead_operation_facts_def successful_runs
  by (auto simp: successful_runs split: if_splits option.splits)

lemma dead_resource_facts_Inr:
  assumes "dead_resource_facts svc dead s = (Inr facts, s')"
  obtains stored active where "s' = s" "map_of (st_resources s) (msg_ResourceID dead) = Some stored"
    "dwf_Resource facts = Some stored" "ActiveForResource (msg_ResourceID dead) s = (Inr active, s)"
    "dws_Kind (dwf_Snapshot facts) = msg_Kind dead" "\<not> dws_OperationTarget (dwf_Snapshot facts)"
    "dws_ResourceState (dwf_Snapshot facts) = status_state (rr_Status stored)"
    "dws_ActiveOperation (dwf_Snapshot facts) = (active \<noteq> None)"
  using assms unfolding dead_resource_facts_def successful_runs by (auto simp: active_Inr)

lemma recovery_message_Inr:
  assumes run: "recovery_message actionID kind facts s = (Inr m, s1)"
    and found: "\<And>e. dwf_Execution facts = Some e \<Longrightarrow> kind = OutboxDispatch \<or> kind = OutboxObserve \<Longrightarrow> map_of (st_executions s) k = Some e"
  obtains ex where "s1 = s\<lparr>st_executions := ex\<rparr>" "observation_reserved (st_executions s) ex" "msg_ID m = msg_DedupeKey m"
    "msg_State m = OutboxPending" "msg_LeaseToken m = ''''" "msg_Kind m = equivalent_kind kind"
proof (cases "kind = OutboxDispatch \<or> kind = OutboxObserve")
  case True
  then have "(case dwf_Execution facts of None \<Rightarrow> unsafe ReasonExecutionRecordMissing
      | Some execution \<Rightarrow> let (message, advanced) = nextObserveMessage execution in
          bindT (SaveExecution advanced (ex_Version execution)) (\<lambda>_. returnT message)) s = (Inr m, s1)"
    using run by (auto simp: recovery_message_def)
  then obtain e where e: "dwf_Execution facts = Some e" "m = fst (nextObserveMessage e)"
    "SaveExecution (e\<lparr>ex_NextObservation := next_sequence e + 1\<rparr>) (ex_Version e) s = (Inr (), s1)"
    unfolding unsafe_def successful_runs by auto
  obtain ex where "s1 = s\<lparr>st_executions := ex\<rparr>" "observation_reserved (st_executions s) ex"
    by (rule save_reserved [OF e(3) found [OF e(1) True]])
  then show thesis using that True by (auto simp: e(2) equivalent_kind_def)
next
  case False
  then have "s1 = s \<and> msg_ID m = msg_DedupeKey m \<and> msg_State m = OutboxPending \<and> msg_LeaseToken m = '''' \<and> msg_Kind m = kind"
    using run by (cases kind) (auto simp: recovery_message_def unsafe_def split: option.splits)
  then show thesis
    using that [of "st_executions s"] False same_executions by (simp add: equivalent_kind_def)
qed

lemma may_recover_cases:
  assumes "assessmentAllows (PlanDeadWorkRecovery sn) ActionKindRecoverDeadWork"
  shows "if dws_OperationTarget sn
      then \<not> operationStateIsTerminal (dws_OperationState sn) \<and> \<not> dws_Superseded sn \<and>
        (dws_Kind sn = OutboxDrive \<or> (dws_Kind sn = OutboxDispatch \<or> dws_Kind sn = OutboxObserve) \<and> dws_HasExecution sn \<and>
           observableForObserve (dws_Execution sn))
      else \<not> dws_ActiveOperation sn \<and> dws_ResourceState sn \<noteq> ResourceStateDeleted \<and>
        (dws_Kind sn = OutboxWakeDependents \<or> dws_Kind sn = OutboxPassiveObserve)"
  using assms by (auto simp: assessmentAllows_def plan_dead_actions may_recover_def split: if_splits)

lemma apply_dead_recovery_Inr:
  assumes inv: "outbox_inv (st_outbox s)" and run: "apply_dead_recovery svc actionID workID ifMatch s = (Inr mid, s')"
  shows "operator_effect (created_kind (RecoverWork workID) s) mid s s'" "operator_safe (RecoverWork workID) s"
proof -
  from run obtain dead facts s0 created s1 where
    dead: "map_of (st_outbox s) workID = Some dead" "msg_State dead = OutboxDead" and
    facts: "deadWorkSnapshot svc dead s = (Inr facts, s0)" and
    plan: "assessmentAllows (PlanDeadWorkRecovery (dwf_Snapshot facts)) ActionKindRecoverDeadWork" and
    created: "recovery_message actionID (msg_Kind dead) facts s0 = (Inr created, s1)" and
    queue: "enqueue_recovery (svc_Now svc) created (dwf_EquivalentID facts) s1 = (Inr (), s')" and
    mid: "mid = msg_ID created"
    unfolding apply_dead_recovery_def successful_runs by (auto split del: if_split)
  have safe: "operator_safe (RecoverWork workID) s \<and> s0 = s \<and> (\<forall>e. dwf_Execution facts = Some e \<and>
      (msg_Kind dead = OutboxDispatch \<or> msg_Kind dead = OutboxObserve) \<longrightarrow> map_of (st_executions s) (msg_OperationID dead) = Some e)"
  proof (cases "msg_OperationID dead = ''''")
    case True
    then have "dead_resource_facts svc dead s = (Inr facts, s0)" using facts by (simp add: deadWorkSnapshot_def)
    then obtain stored active where "s0 = s" "map_of (st_resources s) (msg_ResourceID dead) = Some stored"
      "ActiveForResource (msg_ResourceID dead) s = (Inr active, s)" "dws_Kind (dwf_Snapshot facts) = msg_Kind dead"
      "\<not> dws_OperationTarget (dwf_Snapshot facts)" "dws_ResourceState (dwf_Snapshot facts) = status_state (rr_Status stored)"
      "dws_ActiveOperation (dwf_Snapshot facts) = (active \<noteq> None)"
      by (rule dead_resource_facts_Inr) blast
    then show ?thesis
      using may_recover_cases [OF plan] dead True active_None [of "msg_ResourceID dead" s s] by (auto simp: live_resource_def)
  next
    case False
    then have "dead_operation_facts svc dead s = (Inr facts, s0)" using facts by (simp add: deadWorkSnapshot_def)
    then show ?thesis
    proof (rule dead_operation_facts_Inr)
      fix stored
      assume "s0 = s" and facts: "map_of (st_operations s) (msg_OperationID dead) = Some stored"
        "dws_Kind (dwf_Snapshot facts) = msg_Kind dead" "dws_OperationTarget (dwf_Snapshot facts)"
        "dws_OperationState (dwf_Snapshot facts) = op_state (or_Operation stored)"
        "msg_Kind dead \<noteq> OutboxDrive \<Longrightarrow> dwf_Execution facts = map_of (st_executions s) (msg_OperationID dead)"
        "\<And>e. msg_Kind dead \<noteq> OutboxDrive \<Longrightarrow> dwf_Execution facts = Some e \<Longrightarrow>
           dws_Execution (dwf_Snapshot facts) = executionSummaryOf e \<and> dws_Superseded (dwf_Snapshot facts) = superseded_by dead e"
        "msg_Kind dead \<noteq> OutboxDrive \<Longrightarrow> dws_HasExecution (dwf_Snapshot facts) \<Longrightarrow> dwf_Execution facts \<noteq> None"
      show ?thesis
      proof (cases "msg_Kind dead = OutboxDrive")
        case True
        then show ?thesis
          using \<open>s0 = s\<close> facts(1-4) may_recover_cases [OF plan] dead False by (auto simp: active_operation_row_def)
      next
        case False
        then obtain e where "map_of (st_executions s) (msg_OperationID dead) = Some e" "dwf_Execution facts = Some e"
          "dws_Execution (dwf_Snapshot facts) = executionSummaryOf e" "dws_Superseded (dwf_Snapshot facts) = superseded_by dead e"
          using facts(2,3,5-7) may_recover_cases [OF plan] by fastforce
        then show ?thesis
          using \<open>s0 = s\<close> facts(1-4) False may_recover_cases [OF plan] dead \<open>msg_OperationID dead \<noteq> []\<close>
          by (auto simp: active_operation_row_def)
      qed
    qed
  qed
  then obtain ex where "s1 = s\<lparr>st_executions := ex\<rparr>" "observation_reserved (st_executions s) ex" and
    m: "msg_ID created = msg_DedupeKey created" "msg_State created = OutboxPending" "msg_LeaseToken created = ''''" and
    kind: "msg_Kind created = equivalent_kind (msg_Kind dead)"
    using recovery_message_Inr [OF created, of "msg_OperationID dead"] by auto
  with queued_effect [OF inv _ _ m] queue show "operator_effect (created_kind (RecoverWork workID) s) mid s s'"
    by (simp add: mid dead(1))
  show "operator_safe (RecoverWork workID) s" using safe by blast
qed

section \<open>An accepted mutation\<close>

lemma created_kind_not_dispatch: "operator_safe target s \<Longrightarrow> created_kind target s \<noteq> OutboxDispatch"
  by (cases target) (auto simp: equivalent_kind_def split: if_splits)

lemma apply_Inr:
  assumes "outbox_inv (st_outbox s)" "omp_apply (operator_plan svc target actionID) ifMatch s = (Inr mid, s')"
  shows "operator_effect (created_kind target s) mid s s'" "operator_safe target s"
  using assms by (cases target; auto dest: apply_operation_observation_Inr apply_resource_observation_Inr
      apply_dead_recovery_Inr simp del: operator_safe.simps created_kind.simps(3))+

definition binding_key :: "OperatorMutationCommand \<Rightarrow> string" where
  "binding_key cmd = idempotencyMapKey (prn_ID (omc_Actor cmd)) (omc_IdempotencyKey cmd)"

lemma find_binding_run [simp]:
  "find_operator_idempotency (prn_ID (omc_Actor cmd)) (omc_IdempotencyKey cmd) s =
     (Inr (map_of (st_operatorIdempotency s) (binding_key cmd)), s)"
  by (simp add: find_operator_idempotency_def GetOperatorIdempotency_def binding_key_def split: option.split)

lemma insert_action_Inr:
  "InsertOperatorAction a s = (Inr u, s') \<longleftrightarrow> map_of (st_operatorActions s) (oa_ID a) = None \<and>
     map_of (st_outbox s) (oa_CreatedWorkID a) \<noteq> None \<and>
     (oa_SourceWorkID a \<noteq> '''' \<longrightarrow> map_of (st_outbox s) (oa_SourceWorkID a) \<noteq> None) \<and>
     s' = s\<lparr>st_operatorActions := put (oa_ID a) a (st_operatorActions s)\<rparr>"
  by (auto simp: InsertOperatorAction_def)

lemma put_binding_Inr:
  "PutOperatorIdempotency (operator_binding cmd fp aid) s = (Inr u, s') \<longleftrightarrow>
     map_of (st_operatorIdempotency s) (binding_key cmd) = None \<and> map_of (st_operatorActions s) aid \<noteq> None \<and>
     s' = s\<lparr>st_operatorIdempotency := put (binding_key cmd) (operator_binding cmd fp aid) (st_operatorIdempotency s)\<rparr>"
  by (auto simp: PutOperatorIdempotency_def operator_binding_def binding_key_def Let_def)

definition well_formed_command :: "OperatorMutationCommand \<Rightarrow> bool" where
  "well_formed_command cmd \<longleftrightarrow> prn_ID (omc_Actor cmd) \<noteq> '''' \<and> prn_Kind (omc_Actor cmd) \<noteq> '''' \<and>
     \<not> blank (omc_IdempotencyKey cmd) \<and> length (omc_IdempotencyKey cmd) \<le> 200 \<and> \<not> blank (omc_RequestID cmd)"

lemma run_mutation:
  assumes "well_formed_command cmd"
    "authorizeOperator svc (omc_Actor cmd) (omp_permission plan) (omp_target plan) = Inr ()"
  shows "runOperatorMutation svc cmd plan s = Within (case map_of (st_operatorIdempotency s) (binding_key cmd) of
      Some bound \<Rightarrow> replay_operator_action bound (request_fingerprint plan)
    | None \<Rightarrow> admit_operator_action svc cmd plan (request_fingerprint plan)) s"
  using assms by (auto simp: runOperatorMutation_def well_formed_command_def Let_def bindT_def Within_def not_less
      split: option.split)

lemma run_mutation_Inr:
  assumes "runOperatorMutation svc cmd plan s = (Inr r, s')"
  shows "well_formed_command cmd" "authorizeOperator svc (omc_Actor cmd) (omp_permission plan) (omp_target plan) = Inr ()"
  using assms by (auto simp: runOperatorMutation_def well_formed_command_def Let_def split: if_splits sum.splits)

definition audited :: "OperatorService \<Rightarrow> OperatorMutationCommand \<Rightarrow> operatorMutationPlan \<Rightarrow> string \<Rightarrow> Store \<Rightarrow> Store \<Rightarrow> bool" where
  "audited svc cmd plan mid s s' \<longleftrightarrow>
     (let action = operator_action_row svc cmd plan mid;
          binding = operator_binding cmd (request_fingerprint plan) (omp_actionID plan) in
      map_of (st_operatorActions s) (omp_actionID plan) = None \<and> map_of (st_operatorIdempotency s) (binding_key cmd) = None \<and>
      s' = s\<lparr>st_operatorActions := put (omp_actionID plan) action (st_operatorActions s),
             st_operatorIdempotency := put (binding_key cmd) binding (st_operatorIdempotency s)\<rparr>)"

text \<open>The answer to a mutation that was accepted, and the one to its repetition.\<close>

definition accepted_result :: "bool \<Rightarrow> operatorMutationPlan \<Rightarrow> string \<Rightarrow> OutboxKind \<Rightarrow> OperatorMutationResult" where
  "accepted_result replay plan mid kind =
     \<lparr>omr_Replay = replay, omr_Action = audit_string (omp_auditAction plan),
      omr_TargetKind = target_kind_string (ot_Kind (omp_target plan)), omr_TargetID = ot_ID (omp_target plan),
      omr_OperatorActionID = omp_actionID plan, omr_CreatedWorkID = mid, omr_SourceWorkKind = kind\<rparr>"

lemma effect_frame:
  assumes "operator_effect kind mid s s'"
  shows "st_operatorActions s' = st_operatorActions s" "st_operatorIdempotency s' = st_operatorIdempotency s"
    "map_of (st_outbox s) k = Some row \<Longrightarrow> map_of (st_outbox s') k = Some row" "map_of (st_outbox s') mid \<noteq> None"
  using assms by (auto simp: operator_effect_def work_queued_def split: option.splits) (cases "k = mid"; auto)

lemma admit_action_Inr:
  assumes inv: "outbox_inv (st_outbox s)" and plan: "plan = operator_plan svc target actionID"
    and run: "admit_operator_action svc cmd plan (request_fingerprint plan) s = (Inr r, s')"
  obtains mid s1 kind where "operator_effect (created_kind target s) mid s s1" "operator_safe target s" "mid \<noteq> ''''"
    "audited svc cmd plan mid s1 s'" "r = accepted_result False plan mid kind"
    "target \<noteq> RecoverWork [] \<Longrightarrow> source_kind (oa_SourceWorkID (operator_action_row svc cmd plan mid)) s' = (Inr kind, s')"
proof -
  from run obtain mid s1 kind s2 where
    applied: "omp_apply plan (omc_IfMatch cmd) s = (Inr mid, s1)" "mid \<noteq> ''''" and
    kind: "(if omp_auditAction plan = AuditRecoverDeadWork
       then bindT (GetOutbox (ot_ID (omp_target plan))) (\<lambda>source. returnT (msg_Kind source))
       else returnT (OutboxKindOther '''')) s1 = (Inr kind, s1)" and
    action: "InsertOperatorAction (operator_action_row svc cmd plan mid) s1 = (Inr (), s2)" and
    binding: "PutOperatorIdempotency (operator_binding cmd (request_fingerprint plan)
       (oa_ID (operator_action_row svc cmd plan mid))) s2 = (Inr (), s')" and
    r: "r = accepted_result False plan mid kind"
    unfolding admit_operator_action_def successful_runs
    by (auto simp: successful_runs accepted_result_def operator_action_row_def split: if_splits)
  note effect = apply_Inr [OF inv applied(1) [unfolded plan]]
  have row: "oa_ID (operator_action_row svc cmd plan mid) = omp_actionID plan" by (simp add: operator_action_row_def)
  have audited: "audited svc cmd plan mid s1 s'"
    using action binding unfolding insert_action_Inr put_binding_Inr row by (auto simp: audited_def Let_def)
  moreover have "source_kind (oa_SourceWorkID (operator_action_row svc cmd plan mid)) s' = (Inr kind, s')"
    if "target \<noteq> RecoverWork []"
    using kind audited that by (cases target) (auto simp: plan source_kind_def operator_action_row_def audited_def Let_def successful_runs
        GetOutbox_def bindT_def split: if_splits option.splits)
  ultimately show thesis using that effect applied(2) r by blast
qed

lemma operate_admitted:
  assumes inv: "outbox_inv (st_outbox s)" and run: "operate svc raw cmd target s = (Inr r, s')" and fresh: "\<not> omr_Replay r"
  obtains actionID mid s1 kind where "newOperatorActionID raw = Inr actionID" "well_formed_command cmd"
    "authorizeOperator svc (omc_Actor cmd) (omp_permission (operator_plan svc target actionID))
       (omp_target (operator_plan svc target actionID)) = Inr ()"
    "operator_effect (created_kind target s) mid s s1" "operator_safe target s" "mid \<noteq> ''''"
    "audited svc cmd (operator_plan svc target actionID) mid s1 s'"
    "r = accepted_result False (operator_plan svc target actionID) mid kind"
    "target \<noteq> RecoverWork [] \<Longrightarrow>
       source_kind (oa_SourceWorkID (operator_action_row svc cmd (operator_plan svc target actionID) mid)) s' = (Inr kind, s')"
proof -
  from run obtain actionID where id: "newOperatorActionID raw = Inr actionID"
    and mutation: "runOperatorMutation svc cmd (operator_plan svc target actionID) s = (Inr r, s')"
    by (auto simp: operate_def bindT_eq_Inr split: sum.splits)
  let ?plan = "operator_plan svc target actionID"
  note command = run_mutation_Inr [OF mutation]
  have within: "Within (case map_of (st_operatorIdempotency s) (binding_key cmd) of
      Some bound \<Rightarrow> replay_operator_action bound (request_fingerprint ?plan)
    | None \<Rightarrow> admit_operator_action svc cmd ?plan (request_fingerprint ?plan)) s = (Inr r, s')"
    using mutation run_mutation [OF command] by simp
  have "map_of (st_operatorIdempotency s) (binding_key cmd) = None"
  proof (rule ccontr)
    assume "map_of (st_operatorIdempotency s) (binding_key cmd) \<noteq> None"
    then obtain bound where "replay_operator_action bound (request_fingerprint ?plan) s = (Inr r, s')"
      using within by (auto simp: Within_Inr)
    then show False using fresh unfolding replay_operator_action_def successful_runs by auto
  qed
  then have "admit_operator_action svc cmd ?plan (request_fingerprint ?plan) s = (Inr r, s')"
    using within by (simp add: Within_Inr)
  then show thesis
  proof (rule admit_action_Inr [OF inv refl])
    fix mid s1 kind
    assume "operator_effect (created_kind target s) mid s s1" "operator_safe target s" "mid \<noteq> []"
      "audited svc cmd ?plan mid s1 s'" "r = accepted_result False ?plan mid kind"
      "target \<noteq> RecoverWork [] \<Longrightarrow> source_kind (oa_SourceWorkID (operator_action_row svc cmd ?plan mid)) s' = (Inr kind, s')"
    then show thesis by (rule that [OF id command])
  qed
qed

lemma mutation_frame:
  assumes e: "operator_effect kind mid s s1" and a: "audited svc cmd plan mid s1 s'" and kind: "kind \<noteq> OutboxDispatch"
  shows "(st_operations s', st_resources s', st_attempts s', st_outputs s', st_events s') =
      (st_operations s, st_resources s, st_attempts s, st_outputs s, st_events s)"
    "\<forall>k row. map_of (st_outbox s) k = Some row \<longrightarrow> map_of (st_outbox s') k = Some row"
    "\<forall>k row. map_of (st_outbox s') k = Some row \<and> msg_Kind row = OutboxDispatch \<longrightarrow> map_of (st_outbox s) k = Some row"
proof -
  obtain ex t where t: "s1 = s\<lparr>st_executions := ex, st_outbox := t\<rparr>" "work_queued (st_outbox s) kind mid t"
    using e unfolding operator_effect_def by blast
  have s': "st_outbox s' = t" using a t(1) by (auto simp: audited_def Let_def)
  show "(st_operations s', st_resources s', st_attempts s', st_outputs s', st_events s') =
      (st_operations s, st_resources s, st_attempts s, st_outputs s, st_events s)"
    using a t(1) by (auto simp: audited_def Let_def)
  show "\<forall>k row. map_of (st_outbox s) k = Some row \<longrightarrow> map_of (st_outbox s') k = Some row"
    using effect_frame(3) [OF e] by (simp add: s' t(1))
  show "\<forall>k row. map_of (st_outbox s') k = Some row \<and> msg_Kind row = OutboxDispatch \<longrightarrow> map_of (st_outbox s) k = Some row"
  proof (intro allI impI)
    fix k row assume row: "map_of (st_outbox s') k = Some row \<and> msg_Kind row = OutboxDispatch"
    show "map_of (st_outbox s) k = Some row"
    proof (cases "k = mid")
      case True
      then show ?thesis using t(2) row kind unfolding s' work_queued_def by (auto split: option.splits)
    next
      case False
      then show ?thesis using t(2) row unfolding s' work_queued_def by metis
    qed
  qed
qed


section \<open>A refused mutation\<close>

definition sequences :: "Store \<Rightarrow> uint64 \<times> uint64 \<times> uint64" where
  "sequences s = (st_nextOperationSequence s, st_nextResourceSequence s, st_nextWaitSequence s)"

lemma reads_only_preserves: "reads_only m \<Longrightarrow> preserves P m"
  by (simp add: reads_only_def preserves_def)

lemma Within_unchanged:
  assumes "Within m s = (Inl e, s')" "preserves (\<lambda>t. sequences t = sequences s) m"
  shows "s' = s"
proof -
  obtain r s1 where m: "m s = (r, s1)" by fastforce
  have "sequences s1 = sequences s" by (rule preservesD [OF assms(2) refl m])
  then show ?thesis using assms(1) by (cases r) (auto simp: Within_def m sequences_def)
qed

text \<open>Every step of a mutation keeps what the methods that write keep.\<close>

lemma enqueueable_operator_messages:
  "enqueueable (fst (nextObserveMessage e))" "enqueueable (operatorPassiveObserveMessage a rid v)"
  "enqueueable (operatorWakeDependentsMessage a rid v)" "enqueueable (operatorDriveMessage a oid v)"
  by (simp_all add: enqueueable_def work_kinds_def operatorWakeDependentsMessage_def work_message_def)

definition closed_under_mutations :: "(Store \<Rightarrow> bool) \<Rightarrow> bool" where
  "closed_under_mutations P \<longleftrightarrow> (\<forall>e v. preserves P (SaveExecution e v)) \<and>
     (\<forall>now m existing. enqueueable m \<longrightarrow> preserves P (enqueue_recovery now m existing)) \<and>
     (\<forall>a. preserves P (InsertOperatorAction a)) \<and> (\<forall>b. preserves P (PutOperatorIdempotency b)) \<and>
     (\<forall>m :: OperatorMutationResult tx. preserves P m \<longrightarrow> preserves P (Within m))"

lemma closedD:
  assumes "closed_under_mutations P"
  shows "preserves P (SaveExecution e v)" "enqueueable m \<Longrightarrow> preserves P (enqueue_recovery now m existing)"
    "preserves P (InsertOperatorAction a)" "preserves P (PutOperatorIdempotency b)"
    "preserves P (m1 :: OperatorMutationResult tx) \<Longrightarrow> preserves P (Within m1)"
  using assms unfolding closed_under_mutations_def by blast+

lemmas query_preserves = reads_only_preserves [OF operator_queries(1)] reads_only_preserves [OF operator_queries(2)]
  reads_only_preserves [OF operator_queries(3)] reads_only_preserves [OF operator_queries(7)]
  reads_only_preserves [OF operator_queries(8)] reads_only_preserves [OF reads_only_facts(3)]

lemma reader_methods_preserve: "preserves P (SummarizeSubmissionAttempts oid)" "preserves P (SummarizeWorkByOperation oid)"
  "preserves P (SummarizeWorkByResource rid)"
  by (intro reads_only_preserves reads_only_methods)+

lemma apply_preserves:
  assumes "closed_under_mutations P"
  shows "preserves P (apply_operation_observation svc oid ifMatch)"
    "preserves P (apply_resource_observation svc actionID rid ifMatch)"
  unfolding apply_operation_observation_def apply_resource_observation_def Let_def case_prod_unfold
  by (intro preserves_intros query_preserves reader_methods_preserve closedD [OF assms] enqueueable_operator_messages)+

lemma preserves_bind_result:
  assumes m: "preserves P m" and result: "\<And>s x s'. m s = (Inr x, s') \<Longrightarrow> Q x" and f: "\<And>x. Q x \<Longrightarrow> preserves P (f x)"
  shows "preserves P (bindT m f)"
  unfolding preserves_def
proof (intro allI impI)
  fix s assume "P s"
  obtain r s1 where run: "m s = (r, s1)" by fastforce
  have "P s1" by (rule preservesD [OF m \<open>P s\<close> run])
  then show "P (snd (bindT m f s))"
    using f [OF result [of s _ s1]] by (cases r) (simp_all add: bindT_def run preserves_def)
qed

lemma recovery_message_enqueueable: "recovery_message actionID kind facts s = (Inr m, s') \<Longrightarrow> enqueueable m"
  by (cases kind) (auto simp: recovery_message_def unsafe_def successful_runs enqueueable_operator_messages split: option.splits)

lemma recovery_message_preserves: "closed_under_mutations P \<Longrightarrow> preserves P (recovery_message actionID kind facts)"
  by (cases kind) (auto simp: recovery_message_def unsafe_def Let_def case_prod_unfold intro!: preserves_intros closedD
      split: option.split)

lemma apply_recovery_preserves:
  assumes "closed_under_mutations P"
  shows "preserves P (apply_dead_recovery svc actionID workID ifMatch)"
  unfolding apply_dead_recovery_def Let_def
  by (intro preserves_intros query_preserves closedD(2) [OF assms]
      preserves_bind_result [OF recovery_message_preserves [OF assms] recovery_message_enqueueable] | assumption)+

lemma body_preserves:
  assumes closed: "closed_under_mutations P"
  shows "preserves P (case found of Some bound \<Rightarrow> replay_operator_action bound fingerprint
    | None \<Rightarrow> admit_operator_action svc cmd (operator_plan svc target actionID) fingerprint)"
proof -
  have "preserves P (omp_apply (operator_plan svc target actionID) ifMatch)" for ifMatch
    using apply_preserves [OF closed] apply_recovery_preserves [OF closed] by (cases target) simp_all
  then show ?thesis
    unfolding admit_operator_action_def Let_def
    by (intro preserves_intros query_preserves closedD [OF closed] | assumption)+
qed

lemma run_preserves:
  assumes closed: "closed_under_mutations P"
  shows "preserves P (runOperatorMutation svc cmd (operator_plan svc target actionID))"
  unfolding runOperatorMutation_def Let_def
  by (intro preserves_intros query_preserves closedD(5) [OF closed] body_preserves [OF closed])

lemma sequences_closed: "closed_under_mutations (\<lambda>t. sequences t = c)"
  unfolding closed_under_mutations_def
proof (intro conjI allI impI)
  fix m :: "OperatorMutationResult tx" assume m: "preserves (\<lambda>t. sequences t = c) m"
  show "preserves (\<lambda>t. sequences t = c) (Within m)"
    unfolding preserves_def
  proof (intro allI impI)
    fix s assume s: "sequences s = c"
    obtain r s1 where run: "m s = (r, s1)" by fastforce
    have "sequences s1 = c" by (rule preservesD [OF m s run])
    then show "sequences (snd (Within m s)) = c" by (cases r) (simp_all add: Within_def run sequences_def)
  qed
qed (auto simp: preserves_def sequences_def SaveExecution_def enqueue_recovery_def Enqueue_def InsertOperatorAction_def
      PutOperatorIdempotency_def Let_def split: option.split sum.split error.split)

lemma enqueue_recovery_store [simp]: "snd (enqueue_recovery now m existing s) = snd (Enqueue now m s)"
  by (auto simp: enqueue_recovery_def split: prod.split sum.split error.split)

lemma store_at_closed: "closed_under_mutations (store_at c)"
  unfolding closed_under_mutations_def
proof (intro conjI allI impI)
  fix m :: OutboxMessage and now existing assume "enqueueable m"
  then show "preserves (store_at c) (enqueue_recovery now m existing)"
    using Enqueue_preserves [of m c now] by (simp add: preserves_def)
next
  show "preserves (store_at c) (InsertOperatorAction a)" "preserves (store_at c) (PutOperatorIdempotency b)" for a b
    by (rule preserves_same_tables, simp add: same_tables_def InsertOperatorAction_def PutOperatorIdempotency_def Let_def)+
qed (auto intro: other_methods_preserve Within_preserves)

lemma operate_preserves:
  assumes "closed_under_mutations P"
  shows "preserves P (operate svc raw cmd target)"
  unfolding operate_def by (intro preserves_intros run_preserves [OF assms])

text \<open>
  C30: An operator mutation that is refused changes nothing at all: no work, no audit row, no key, no
  reserved observation and not even a sequence number, whatever it was refused for.
\<close>

theorem operator_refusal_changes_nothing:
  assumes "operate svc raw cmd target s = (Inl e, s')"
  shows "s' = s"
proof (cases "newOperatorActionID raw")
  case (Inl e')
  then show ?thesis using assms by (simp add: operate_def bindT_def)
next
  case (Inr actionID)
  let ?plan = "operator_plan svc target actionID"
  have run: "runOperatorMutation svc cmd ?plan s = (Inl e, s')" using assms Inr by (simp add: operate_def bindT_def)
  show ?thesis
  proof (cases "well_formed_command cmd \<and> authorizeOperator svc (omc_Actor cmd) (omp_permission ?plan) (omp_target ?plan) = Inr ()")
    case True
    let ?body = "case map_of (st_operatorIdempotency s) (binding_key cmd) of
        Some bound \<Rightarrow> replay_operator_action bound (request_fingerprint ?plan)
      | None \<Rightarrow> admit_operator_action svc cmd ?plan (request_fingerprint ?plan)"
    have "Within ?body s = (Inl e, s')" using run run_mutation [of cmd svc ?plan s] True by simp
    then show ?thesis by (rule Within_unchanged) (rule body_preserves [OF sequences_closed])
  next
    case False
    then show ?thesis
      using run by (auto simp: runOperatorMutation_def well_formed_command_def Let_def bindT_def split: if_splits sum.splits)
  qed
qed

section \<open>A repeated mutation\<close>

lemma plan_independent:
  "omp_permission (operator_plan svc target a) = omp_permission (operator_plan svc target b)"
  "omp_target (operator_plan svc target a) = omp_target (operator_plan svc target b)"
  "omp_auditAction (operator_plan svc target a) = omp_auditAction (operator_plan svc target b)"
  "request_fingerprint (operator_plan svc target a) = request_fingerprint (operator_plan svc target b)"
  by (cases target; simp add: request_fingerprint_def)+

lemma operate_bound:
  assumes "newOperatorActionID raw = Inr a" "well_formed_command cmd"
    "authorizeOperator svc (omc_Actor cmd) (omp_permission (operator_plan svc target a)) (omp_target (operator_plan svc target a)) = Inr ()"
    "map_of (st_operatorIdempotency s) (binding_key cmd) = Some bound"
  shows "operate svc raw cmd target s = Within (replay_operator_action bound (request_fingerprint (operator_plan svc target a))) s"
  using assms by (simp add: operate_def bindT_def run_mutation)

text \<open>
  C29: Repeating an accepted operator mutation under its key is answered from the audit row: the same
  action and the same work are returned, marked as a replay, and nothing changes, whatever revision or
  request ID the repetition carries. The same key on another request is a conflict and changes nothing.
\<close>

theorem operator_replay_idempotent:
  assumes "store_inv s" "operate svc raw cmd target s = (Inr r, s')" "\<not> omr_Replay r" "target \<noteq> RecoverWork ''''"
    and again: "newOperatorActionID raw' = Inr a'" "omc_Actor cmd' = omc_Actor cmd"
      "omc_IdempotencyKey cmd' = omc_IdempotencyKey cmd" "\<not> blank (omc_RequestID cmd')"
  shows "operate svc raw' cmd' target s' = (Inr (r\<lparr>omr_Replay := True\<rparr>), s') \<and>
    (\<forall>other. request_fingerprint (operator_plan svc other a') \<noteq> request_fingerprint (operator_plan svc target a') \<and>
       authorizeOperator svc (omc_Actor cmd) (omp_permission (operator_plan svc other a')) (omp_target (operator_plan svc other a')) = Inr () \<longrightarrow>
       operate svc raw' cmd' other s' = (Inl (ErrIdempotencyConflict ''idempotency key conflict''), s'))"
proof -
  have inv: "outbox_inv (st_outbox s)" using assms(1) by (simp add: store_inv_def)
  from inv assms(2,3) show ?thesis
  proof (rule operate_admitted)
    fix actionID mid s1 kind
    let ?plan = "operator_plan svc target actionID"
    assume "well_formed_command cmd"
      and auth: "authorizeOperator svc (omc_Actor cmd) (omp_permission ?plan) (omp_target ?plan) = Inr ()"
      and a: "audited svc cmd ?plan mid s1 s'" and r: "r = accepted_result False ?plan mid kind"
      and source: "target \<noteq> RecoverWork [] \<Longrightarrow> source_kind (oa_SourceWorkID (operator_action_row svc cmd ?plan mid)) s' = (Inr kind, s')"
    then have command: "well_formed_command cmd'" using again by (simp add: well_formed_command_def)
    have key: "binding_key cmd' = binding_key cmd" using again by (simp add: binding_key_def)
    have bound: "map_of (st_operatorIdempotency s') (binding_key cmd') =
        Some (operator_binding cmd (request_fingerprint ?plan) actionID)"
      and row: "map_of (st_operatorActions s') actionID = Some (operator_action_row svc cmd ?plan mid)"
      using a by (cases target; simp add: audited_def Let_def key)+
    have "replay_operator_action (operator_binding cmd (request_fingerprint ?plan) actionID)
        (request_fingerprint (operator_plan svc target a')) s' = (Inr (r\<lparr>omr_Replay := True\<rparr>), s')"
      using source assms(4) row plan_independent [of svc target a' actionID]
      by (cases target) (simp_all add: replay_operator_action_def operator_binding_def GetOperatorAction_def
          operator_action_row_def r accepted_result_def)
    then have "operate svc raw' cmd' target s' = (Inr (r\<lparr>omr_Replay := True\<rparr>), s')"
      using operate_bound [OF again(1) command _ bound] auth again(2) plan_independent [of svc target a' actionID]
      by (simp add: Within_def)
    moreover have "operate svc raw' cmd' other s' = (Inl (ErrIdempotencyConflict ''idempotency key conflict''), s')"
      if "request_fingerprint (operator_plan svc other a') \<noteq> request_fingerprint (operator_plan svc target a')"
        "authorizeOperator svc (omc_Actor cmd) (omp_permission (operator_plan svc other a')) (omp_target (operator_plan svc other a')) = Inr ()"
      for other
      using operate_bound [OF again(1) command _ bound, of svc other] that again(2) plan_independent(4) [of svc target a' actionID]
      by (simp add: Within_def replay_operator_action_def operator_binding_def)
    ultimately show ?thesis by blast
  qed
qed

section \<open>Diagnosed revisions\<close>

text \<open>The revision of a diagnosis, quoted as the transport sends it back.\<close>

definition quoted :: "string \<Rightarrow> string" where "quoted revision = [CHR 0x22] @ revision @ [CHR 0x22]"

lemma match_revision [simp]: "matchDiagnosticRevision (quoted r) r" "matchDiagnosticRevision '''' r"
  by (simp_all add: matchDiagnosticRevision_def quoted_def)

lemma bindT_start: "p s = q s \<Longrightarrow> bindT p f s = bindT q f s"
  by (simp add: bindT_def)

lemma operate_if_match:
  assumes "\<And>actionID. omp_apply (operator_plan svc target actionID) m s = omp_apply (operator_plan svc target actionID) '''' s"
  shows "operate svc raw (cmd\<lparr>omc_IfMatch := m\<rparr>) target s = operate svc raw (cmd\<lparr>omc_IfMatch := ''''\<rparr>) target s"
proof -
  have "admit_operator_action svc (cmd\<lparr>omc_IfMatch := m\<rparr>) (operator_plan svc target a) fp s =
      admit_operator_action svc (cmd\<lparr>omc_IfMatch := ''''\<rparr>) (operator_plan svc target a) fp s" for a fp
  proof -
    have same: "operator_action_row svc (cmd\<lparr>omc_IfMatch := m\<rparr>) p x = operator_action_row svc (cmd\<lparr>omc_IfMatch := []\<rparr>) p x"
      "operator_binding (cmd\<lparr>omc_IfMatch := m\<rparr>) fp x = operator_binding (cmd\<lparr>omc_IfMatch := []\<rparr>) fp x"
      "omc_Actor (cmd\<lparr>omc_IfMatch := m\<rparr>) = omc_Actor (cmd\<lparr>omc_IfMatch := []\<rparr>)"
      "omc_IfMatch (cmd\<lparr>omc_IfMatch := m\<rparr>) = m" "omc_IfMatch (cmd\<lparr>omc_IfMatch := []\<rparr>) = []" for p x
      by (simp_all add: operator_action_row_def operator_binding_def)
    show ?thesis
      unfolding admit_operator_action_def same
      by (cases "authorizeOperator svc (omc_Actor (cmd\<lparr>omc_IfMatch := []\<rparr>)) (omp_permission (operator_plan svc target a))
          (omp_target (operator_plan svc target a))")
        (simp_all only: bindT_Inr bindT_Inl tx_apply
          bindT_start [where p = "omp_apply (operator_plan svc target a) m" and q = "omp_apply (operator_plan svc target a) []", OF assms])
  qed
  then have "runOperatorMutation svc (cmd\<lparr>omc_IfMatch := m\<rparr>) (operator_plan svc target a) s =
      runOperatorMutation svc (cmd\<lparr>omc_IfMatch := ''''\<rparr>) (operator_plan svc target a) s" for a
    by (auto simp: runOperatorMutation_def Let_def bindT_def Within_def find_operator_idempotency_def GetOperatorIdempotency_def
        split: sum.split option.split)
  then show ?thesis by (simp add: operate_def bindT_def split: sum.split)
qed

lemma reads_only_diagnostics [intro, simp]:
  "reads_only (ResourceOperatorDiagnostics svc prn rid)" "reads_only (OperationOperatorDiagnostics svc prn oid)"
  "reads_only (WorkOperatorDiagnostics svc prn workID)"
  unfolding ResourceOperatorDiagnostics_def OperationOperatorDiagnostics_def WorkOperatorDiagnostics_def
    active_branch_def idle_branch_def Let_def
  by (intro reads_only_intros operator_queries reads_only_facts)+

text \<open>
  The revision decides the precondition of a mutation: with the revision or without one it runs as it
  would without a precondition, with any other it is refused as stale.
\<close>

abbreviation decided_by :: "string \<Rightarrow> (string \<Rightarrow> string tx) \<Rightarrow> Store \<Rightarrow> bool" where
  "decided_by revision apply_with s \<equiv> \<forall>ifMatch. apply_with ifMatch s =
     (if matchDiagnosticRevision ifMatch revision then apply_with '''' s else (Inl stale_revision, s))"

lemma diagnosed_operation:
  assumes "OperationOperatorDiagnostics svc prn oid s = (Inr d, s')" "od_Execution d \<noteq> None"
  shows "decided_by (od_Revision d) (apply_operation_observation svc oid) s"
  using assms unfolding OperationOperatorDiagnostics_def Within_Inr successful_runs
  by (auto simp: apply_operation_observation_def bindT_def Let_def SummarizeSubmissionAttempts_def
      SummarizeWorkByOperation_def GetOperation_def Within_Inr successful_runs)

lemma resource_key: "resources_inv s \<Longrightarrow> map_of (st_resources s) k = Some r \<Longrightarrow> resource_id (rr_Resource r) = k"
  by (auto simp: resources_inv_def dest!: map_of_SomeD)

lemma diagnosed_resource:
  assumes "resources_inv s" "ResourceOperatorDiagnostics svc prn rid s = (Inr d, s')" "rd_ActiveOperation d = None"
  shows "decided_by (rd_Revision d) (apply_resource_observation svc actionID rid) s"
  using assms(2,3) unfolding ResourceOperatorDiagnostics_def Within_Inr successful_runs
  by (auto simp: apply_resource_observation_def bindT_def Let_def GetResource_def ActiveForResource_def LatestForResource_def
      SummarizeWorkByResource_def StateIdentity_def active_execution_def idle_branch_def Within_Inr successful_runs
      resource_key [OF assms(1), of rid] split: option.splits)

text \<open>The diagnosis of a dead item and its recovery see the same active work of the equivalent kind.\<close>

lemma active_row:
  assumes "m \<in> set (whs_Active (summarizeWork P s))"
  shows "m \<in> set (map snd (st_outbox s))" "msg_State m \<noteq> OutboxDead"
  using assms by (auto simp: summarizeWork_def Let_def active_work_def)

lemma outbox_row_key:
  assumes inv: "outbox_inv (st_outbox s)" and m: "m \<in> set (map snd (st_outbox s))"
  shows "map_of (st_outbox s) (msg_ID m) = Some m"
proof -
  have "wf_table (st_outbox s)" using inv unfolding outbox_inv_def by blast
  note row = wf_table_in_set_iff [OF this, THEN iffD1]
  obtain x where "x \<in> set (st_outbox s)" "m = snd x" using m unfolding set_map by blast
  then have k: "map_of (st_outbox s) (fst x) = Some m" by (intro row) simp
  show ?thesis using outbox_inv_row [OF inv k] k by simp
qed

lemma equivalent_work:
  assumes inv: "outbox_inv (st_outbox s)" "map_of (st_outbox s) '''' = None"
    and dead: "map_of (st_outbox s) workID = Some dead" "msg_State dead = OutboxDead"
  shows "list_ex (\<lambda>row. msg_ID row \<noteq> msg_ID dead \<and> msg_Kind row = kind) (whs_Active (summarizeWork P s)) \<longleftrightarrow>
    ActiveID (summarizeWork P s) kind \<noteq> ''''"
proof -
  have key: "workID = msg_ID dead" using outbox_inv_row [OF inv(1) dead(1)] by simp
  have row: "msg_ID m \<noteq> msg_ID dead" "msg_ID m \<noteq> ''''" if m: "m \<in> set (whs_Active (summarizeWork P s))" for m
  proof -
    note found = outbox_row_key [OF inv(1) active_row(1) [OF m]]
    show "msg_ID m \<noteq> ''''" using found inv(2) by (metis option.distinct(1))
    show "msg_ID m \<noteq> msg_ID dead"
      using found dead active_row(2) [OF m] unfolding key by (metis option.inject)
  qed
  show ?thesis
  proof (cases "List.find (\<lambda>m. msg_Kind m = kind) (whs_Active (summarizeWork P s))")
    case None
    then have "\<forall>m \<in> set (whs_Active (summarizeWork P s)). msg_Kind m \<noteq> kind" unfolding find_None_iff by blast
    with None show ?thesis by (simp add: ActiveID_def list_ex_iff)
  next
    case (Some m)
    then obtain i where "i < length (whs_Active (summarizeWork P s))" "m = whs_Active (summarizeWork P s) ! i" "msg_Kind m = kind"
      unfolding find_Some_iff by blast
    then have m: "m \<in> set (whs_Active (summarizeWork P s))" "msg_Kind m = kind" by simp_all
    then show ?thesis unfolding ActiveID_def Some using row [OF m(1)] by (auto simp: list_ex_iff)
  qed
qed

lemma work_facts_agree:
  assumes inv: "outbox_inv (st_outbox s)" "map_of (st_outbox s) '''' = None"
    and dead: "map_of (st_outbox s) workID = Some dead" "msg_State dead = OutboxDead"
      "msg_Kind dead = OutboxDispatch \<longrightarrow> msg_OperationID dead \<noteq> ''''"
    and read: "(if msg_OperationID dead \<noteq> '''' then operation_work_facts svc dead else resource_work_facts svc dead) s =
      (Inr facts, s')"
  shows "\<exists>found. deadWorkSnapshot svc dead s = (Inr found, s) \<and> dwf_Snapshot found = fst facts"
proof (cases "msg_OperationID dead = ''''")
  case False
  have active: "activeEquivalentOfWork dead s =
      (Inr (ActiveID (summarizeWork (\<lambda>m. msg_OperationID m = msg_OperationID dead) s) (equivalent_kind (msg_Kind dead)) \<noteq> ''''), s)"
    using equivalent_work [OF inv dead(1,2)] False
    by (simp add: activeEquivalentOfWork_def SummarizeWorkByOperation_def bindT_def)
  show ?thesis
    using read False unfolding deadWorkSnapshot_def dead_operation_facts_def operation_work_facts_def
    by (auto simp: active bindT_def Let_def GetOperation_def GetResource_def SummarizeWorkByOperation_def
        split: option.splits if_splits)
next
  case True
  then have kind: "equivalent_kind (msg_Kind dead) = msg_Kind dead" using dead(3) by (simp add: equivalent_kind_def)
  have active: "activeEquivalentOfWork dead s =
      (Inr (ActiveID (summarizeWork (\<lambda>m. msg_ResourceID m = msg_ResourceID dead) s) (msg_Kind dead) \<noteq> ''''), s)"
    using equivalent_work [OF inv dead(1,2)] True kind
    by (simp add: activeEquivalentOfWork_def SummarizeWorkByResource_def bindT_def)
  show ?thesis
    using read True unfolding deadWorkSnapshot_def dead_resource_facts_def resource_work_facts_def
    by (auto simp: active bindT_def Let_def GetResource_def ActiveForResource_def SummarizeWorkByResource_def
        split: option.splits if_splits prod.splits sum.splits)
qed

lemma diagnosed_work:
  assumes inv: "outbox_inv (st_outbox s)" "map_of (st_outbox s) '''' = None"
    and d: "WorkOperatorDiagnostics svc prn workID s = (Inr d, s')" "wd_State d = OutboxDead"
      "wd_Kind d = OutboxDispatch \<longrightarrow> wd_OperationID d \<noteq> ''''"
  shows "decided_by (wd_Revision d) (apply_dead_recovery svc actionID workID) s"
proof -
  from d(1) obtain dead facts s1 where row: "map_of (st_outbox s) workID = Some dead"
    and read: "(if msg_OperationID dead \<noteq> '''' then operation_work_facts svc dead else resource_work_facts svc dead) s =
      (Inr facts, s1)"
    and fields: "wd_State d = msg_State dead" "wd_Kind d = msg_Kind dead" "wd_OperationID d = msg_OperationID dead"
      "wd_Revision d = workRevision dead (fst facts)"
    unfolding WorkOperatorDiagnostics_def liftT_Inr Within_Inr successful_runs by (auto split del: if_split)
  obtain found where "deadWorkSnapshot svc dead s = (Inr found, s)" "dwf_Snapshot found = fst facts"
    using work_facts_agree [OF inv row _ _ read] d(2,3) fields by auto
  then show ?thesis
    using row d(2) fields by (simp add: apply_dead_recovery_def bindT_def GetOutbox_def)
qed

text \<open>A diagnosis of the target of a mutation that the mutation answers, and its revision.\<close>

fun diagnosed :: "OperatorService \<Rightarrow> Principal \<Rightarrow> operator_target \<Rightarrow> string \<Rightarrow> Store \<Rightarrow> bool" where
  "diagnosed svc prn (ObserveOperation oid) revision s \<longleftrightarrow>
     (\<exists>d. OperationOperatorDiagnostics svc prn oid s = (Inr d, s) \<and> od_Execution d \<noteq> None \<and> revision = od_Revision d)"
| "diagnosed svc prn (ObserveResource rid) revision s \<longleftrightarrow>
     (\<exists>d. ResourceOperatorDiagnostics svc prn rid s = (Inr d, s) \<and> rd_ActiveOperation d = None \<and> revision = rd_Revision d)"
| "diagnosed svc prn (RecoverWork workID) revision s \<longleftrightarrow>
     (\<exists>d. WorkOperatorDiagnostics svc prn workID s = (Inr d, s) \<and> wd_State d = OutboxDead \<and>
        (wd_Kind d = OutboxDispatch \<longrightarrow> wd_OperationID d \<noteq> '''') \<and> map_of (st_outbox s) '''' = None \<and>
        revision = wd_Revision d)"

lemma diagnosed_decides:
  assumes "store_inv s" "diagnosed svc prn target revision s"
  shows "decided_by revision (omp_apply (operator_plan svc target actionID)) s"
proof -
  have inv: "resources_inv s" "outbox_inv (st_outbox s)" using assms(1) by (simp_all add: store_inv_def)
  show ?thesis
  proof (cases target)
    case (ObserveOperation oid)
    with assms(2) obtain d where "OperationOperatorDiagnostics svc prn oid s = (Inr d, s)" "od_Execution d \<noteq> None"
      and r: "revision = od_Revision d" by auto
    from diagnosed_operation [OF this(1,2)] show ?thesis
      unfolding ObserveOperation r operator_plan.simps operatorMutationPlan.select_convs .
  next
    case (ObserveResource rid)
    with assms(2) obtain d where "ResourceOperatorDiagnostics svc prn rid s = (Inr d, s)" "rd_ActiveOperation d = None"
      and r: "revision = rd_Revision d" by auto
    from diagnosed_resource [OF inv(1) this(1,2)] show ?thesis
      unfolding ObserveResource r operator_plan.simps operatorMutationPlan.select_convs .
  next
    case (RecoverWork workID)
    with assms(2) obtain d where "WorkOperatorDiagnostics svc prn workID s = (Inr d, s)" "wd_State d = OutboxDead"
      "wd_Kind d = OutboxDispatch \<longrightarrow> wd_OperationID d \<noteq> ''''" "map_of (st_outbox s) '''' = None"
      and r: "revision = wd_Revision d" by auto
    from diagnosed_work [OF inv(2) this(4,1,2,3)] show ?thesis
      unfolding RecoverWork r operator_plan.simps operatorMutationPlan.select_convs .
  qed
qed

lemma replay_marked: "replay_operator_action bound fp s = (Inr r, s') \<Longrightarrow> omr_Replay r"
  by (auto simp: replay_operator_action_def bindT_eq_Inr guarded_runs)

lemma operate_stale:
  assumes run: "operate svc raw (cmd\<lparr>omc_IfMatch := ''''\<rparr>) target s = (Inr r, s')" "\<not> omr_Replay r"
    and stale: "\<And>actionID. omp_apply (operator_plan svc target actionID) m s = (Inl stale_revision, s)"
  shows "operate svc raw (cmd\<lparr>omc_IfMatch := m\<rparr>) target s = (Inl stale_revision, s)"
proof -
  obtain actionID where a: "newOperatorActionID raw = Inr actionID"
    "runOperatorMutation svc (cmd\<lparr>omc_IfMatch := ''''\<rparr>) (operator_plan svc target actionID) s = (Inr r, s')"
    using run(1) by (cases "newOperatorActionID raw") (auto simp: operate_def)
  let ?p = "operator_plan svc target actionID"
  obtain found where find: "find_operator_idempotency (prn_ID (omc_Actor cmd)) (omc_IdempotencyKey cmd) s = (Inr found, s)"
    by (cases "map_of (st_operatorIdempotency s) (idempotencyMapKey (prn_ID (omc_Actor cmd)) (omc_IdempotencyKey cmd))")
      (auto simp: find_operator_idempotency_def GetOperatorIdempotency_def)
  have auth: "authorizeOperator svc (omc_Actor cmd) (omp_permission ?p) (omp_target ?p) = Inr ()"
    using a(2) by (cases "authorizeOperator svc (omc_Actor cmd) (omp_permission ?p) (omp_target ?p)")
      (auto simp: runOperatorMutation_def split: if_splits)
  have none: "found = None"
  proof (rule ccontr)
    assume "found \<noteq> None"
    then obtain bound where "found = Some bound" by blast
    then have "replay_operator_action bound (request_fingerprint ?p) s = (Inr r, s')"
      using a(2) find auth by (auto simp: runOperatorMutation_def Let_def Within_Inr bindT_eq_Inr split: if_splits)
    then show False using replay_marked run(2) by blast
  qed
  have "admit_operator_action svc (cmd\<lparr>omc_IfMatch := m\<rparr>) ?p fp s = (Inl stale_revision, s)" for fp
    using stale [of actionID] auth by (simp add: admit_operator_action_def bindT_def liftT_def)
  then show ?thesis
    using a find none auth
    by (auto simp: operate_def runOperatorMutation_def Let_def Within_def bindT_def liftT_def split: if_splits)
qed

text \<open>
  C31: A diagnosis answers the mutation it is read for, and only its revision does. It is read of an
  Operation with an execution record, of a Resource without an active Operation, or of a dead item of
  work that is not a Dispatch without an Operation, in a store whose items of work all have an
  identifier. While the store is the same, its revision sent back as If-Match makes the mutation do
  exactly what it does without any precondition, and for a mutation that would be accepted anew without
  one, any other If-Match is refused as stale and changes nothing. For the Resources left out, those with
  an active Operation, the read and the mutation derive their revisions from different work.
\<close>

theorem diagnosis_answers_mutation:
  assumes "store_inv s" "diagnosed svc prn target revision s"
  shows "operate svc raw (cmd\<lparr>omc_IfMatch := quoted revision\<rparr>) target s =
      operate svc raw (cmd\<lparr>omc_IfMatch := ''''\<rparr>) target s \<and>
    (\<forall>m r s'. m \<noteq> '''' \<and> m \<noteq> quoted revision \<and>
       operate svc raw (cmd\<lparr>omc_IfMatch := ''''\<rparr>) target s = (Inr r, s') \<and> \<not> omr_Replay r \<longrightarrow>
       operate svc raw (cmd\<lparr>omc_IfMatch := m\<rparr>) target s = (Inl stale_revision, s))"
proof (intro conjI allI impI)
  note decides = diagnosed_decides [OF assms, rule_format]
  show "operate svc raw (cmd\<lparr>omc_IfMatch := quoted revision\<rparr>) target s =
      operate svc raw (cmd\<lparr>omc_IfMatch := ''''\<rparr>) target s"
    by (rule operate_if_match) (use decides [where ifMatch = "quoted revision"] in simp)
  fix m r s'
  assume m: "m \<noteq> '''' \<and> m \<noteq> quoted revision \<and>
    operate svc raw (cmd\<lparr>omc_IfMatch := ''''\<rparr>) target s = (Inr r, s') \<and> \<not> omr_Replay r"
  then have "\<not> matchDiagnosticRevision m revision" by (simp add: matchDiagnosticRevision_def quoted_def)
  then show "operate svc raw (cmd\<lparr>omc_IfMatch := m\<rparr>) target s = (Inl stale_revision, s)"
    using m operate_stale [of svc raw cmd target s r s' m] decides [where ifMatch = m] by simp
qed

section \<open>Examples\<close>

definition example_operator :: OperatorService where
  "example_operator = Service.extend (example_service\<lparr>svc_Resolver := (\<lambda>_. Some (Provider.extend example_provider \<lparr>rp_SelectOutputRecoveryMapping = None\<rparr>))\<rparr>)
     \<lparr>ops_OperatorAuthorizer = Some (\<lambda>_ _ _. Inr ()), ops_MarshalValues = (\<lambda>_. Inr ''{}'')\<rparr>"

definition example_mutation :: OperatorMutationCommand where
  "example_mutation = \<lparr>omc_Actor = example_caller, omc_IdempotencyKey = ''key-1'', omc_RequestID = ''req-1'', omc_IfMatch = ''''\<rparr>"

declare sha256_hex_def [code del]
declare computeResourceRevision_def [code del]
declare DigestOperatorIdempotencyScope_def [code del]
declare FingerprintOperatorRequest_def [code del]

lemma example_mutation_run:
  "map_sum (\<lambda>_. ()) omr_Replay
     (fst (operate example_operator (Inr [1, 2]) example_mutation (ObserveResource ''res-1'') example_deletable)) = Inr False"
  by code_simp

lemma example_mutation_refused:
  "isl (fst (operate example_operator (Inr [1, 2]) example_mutation (ObserveResource ''res-2'') example_deletable))"
  by code_simp

lemma example_diagnosis:
  "map_sum (\<lambda>_. ()) rd_ActiveOperation
     (fst (ResourceOperatorDiagnostics example_operator example_caller ''res-1'' example_deletable)) = Inr None"
  by code_simp

declare sha256_hex_def [code]
declare computeResourceRevision_def [code]
declare DigestOperatorIdempotencyScope_def [code]
declare FingerprintOperatorRequest_def [code]

abbreviation example_observe :: "OperatorMutationResult tx" where
  "example_observe \<equiv> operate example_operator (Inr [1, 2]) example_mutation (ObserveResource ''res-1'')"

lemma example_observe_result:
  obtains r s' where "example_observe example_deletable = (Inr r, s')" "\<not> omr_Replay r"
proof -
  obtain x s' where run: "example_observe example_deletable = (x, s')" by fastforce
  then obtain r where "x = Inr r" "\<not> omr_Replay r" using example_mutation_run by (cases x) auto
  then show ?thesis using that run by simp
qed


theorem operator_refusal_changes_nothing_witness:
  "\<exists>e. operate example_operator (Inr [1, 2]) example_mutation (ObserveResource ''res-2'') example_deletable = (Inl e, example_deletable)"
proof -
  obtain x s' where run: "operate example_operator (Inr [1, 2]) example_mutation (ObserveResource ''res-2'') example_deletable = (x, s')"
    by fastforce
  then obtain e where "x = Inl e" using example_mutation_refused by (cases x) auto
  then show ?thesis using run operator_refusal_changes_nothing [of example_operator "Inr [1, 2]" example_mutation
      "ObserveResource ''res-2''" example_deletable e s'] by auto
qed

theorem operator_replay_idempotent_witness:
  "\<exists>r s'. \<not> omr_Replay r \<and> example_observe s' = (Inr (r\<lparr>omr_Replay := True\<rparr>), s')"
proof (rule example_observe_result)
  fix r s' assume run: "example_observe example_deletable = (Inr r, s')" "\<not> omr_Replay r"
  have "\<not> blank (omc_RequestID example_mutation)" by code_simp
  then have "example_observe s' = (Inr (r\<lparr>omr_Replay := True\<rparr>), s')"
    using operator_replay_idempotent [OF example_deletable_inv run, where raw' = "Inr [1, 2]" and cmd' = example_mutation, OF _ _ refl refl]
    by (simp add: newOperatorActionID_def del: operator_plan.simps)
  then show ?thesis using run by blast
qed

theorem diagnosis_answers_mutation_witness:
  "\<exists>d. ResourceOperatorDiagnostics example_operator example_caller ''res-1'' example_deletable = (Inr d, example_deletable) \<and>
     operate example_operator (Inr [1, 2]) (example_mutation\<lparr>omc_IfMatch := quoted (rd_Revision d)\<rparr>)
       (ObserveResource ''res-1'') example_deletable = example_observe example_deletable \<and>
     operate example_operator (Inr [1, 2]) (example_mutation\<lparr>omc_IfMatch := ''stale''\<rparr>)
       (ObserveResource ''res-1'') example_deletable = (Inl stale_revision, example_deletable)"
proof -
  obtain x s' where run: "ResourceOperatorDiagnostics example_operator example_caller ''res-1'' example_deletable = (x, s')"
    by fastforce
  then obtain d where x: "x = Inr d" "rd_ActiveOperation d = None" using example_diagnosis by (cases x) auto
  have s': "s' = example_deletable" using reads_only_diagnostics(1) run unfolding reads_only_def by (metis prod.sel(2))
  have d: "diagnosed example_operator example_caller (ObserveResource ''res-1'') (rd_Revision d) example_deletable"
    using run x s' by auto
  have plain: "example_mutation\<lparr>omc_IfMatch := ''''\<rparr> = example_mutation" by (simp add: example_mutation_def)
  have other: "''stale'' \<noteq> ''''" "''stale'' \<noteq> quoted (rd_Revision d)" by (simp_all add: quoted_def)
  obtain r t where accepted: "example_observe example_deletable = (Inr r, t)" "\<not> omr_Replay r" by (rule example_observe_result)
  from diagnosis_answers_mutation [OF example_deletable_inv d, where raw = "Inr [1, 2]" and cmd = example_mutation]
  show ?thesis unfolding plain using run x(1) s' other accepted by blast
qed

end
