(* ===== verification/System.thy ===== *)
theory System
  imports Operator_Safety
begin

text \<open>
  The system as a whole: API processes that admit requests, operators who schedule recovery work, worker
  processes that run cycles, and the sweep that schedules passive observations, in any order and number
  on one store. While a worker waits for a provider, the others go on: what happens meanwhile is any
  run of the same system.
\<close>

section \<open>Runs of the system\<close>

text \<open>
  The ports, clocks and tokens of a step are arbitrary and may differ from step to step. The two
  sequence counters are not exhausted when a request is admitted.
\<close>

inductive system_run :: "Store \<Rightarrow> Store \<Rightarrow> bool" where
  start: "system_run s s"
| admission: "\<lbrakk>system_run s t; st_nextOperationSequence t \<noteq> - 1; st_nextResourceSequence t \<noteq> - 1\<rbrakk> \<Longrightarrow>
    system_run s (snd (admit svc req t))"
| worker: "\<lbrakk>system_run s t; \<And>m u. system_run u (snd (cy_meanwhile cycle m u))\<rbrakk> \<Longrightarrow>
    system_run s (snd (runOnce w json resolve cycle t))"
| operator: "system_run s t \<Longrightarrow> system_run s (snd (operate ops raw cmd target t))"
| sweep: "system_run s t \<Longrightarrow> system_run s (schedulePassiveObservations fuel now sequence t)"

inductive_cases system_run_cases: "system_run s t"

section \<open>What every step keeps\<close>

lemma admit_since:
  assumes "store_since past s" "st_nextOperationSequence s \<noteq> - 1" "st_nextResourceSequence s \<noteq> - 1"
  shows "store_since past (snd (admit svc req s))"
proof -
  obtain x s' where run: "admit svc req s = (x, s')" by fastforce
  have inv: "store_inv s" and hist: "keeps_history past s" using assms(1) by (simp_all add: store_since_def)
  have inv': "store_inv s'" by (rule admit_preserves [OF inv assms(2,3) run])
  have ops: "operations_inv s" using inv by (simp add: store_inv_def)
  have "operations_effect s s'"
  proof (cases x)
    case (Inl e)
    then show ?thesis
      using admission_refused [of svc req s e s'] run assms(2)
      by (auto simp: operations_effect_def at_most_one_step_def counters_def)
  next
    case (Inr r)
    have run': "admit svc req s = (Inr r, s')" using run Inr by simp
    show ?thesis
    proof (rule admit_Inr_cases [OF run' inv])
      fix p assume p: "prologue svc req s = Inr p" "admission svc req (fst p) s s = (Inr r, s')"
      have adm: "admitted s r (request_record req p r) s'" using admission_admitted [OF p inv] by blast
      then have "st_nextOperationSequence s' = st_nextOperationSequence s + 1"
        by (auto simp: admitted_def resource_written_def persisted_def Let_def)
      then show ?thesis
        unfolding operations_effect_def using fresh_effect [OF adm] assms(2)
        by (intro disjI2 disjI1 conjI exI [of _ "\<lparr>or_Operation = res_Operation r,
          or_Sequence = st_nextOperationSequence s + 1, or_Version = 1\<rparr>"]) simp_all
    qed (simp add: operations_effect_def)
  qed
  then show ?thesis using keeps_history_effect [OF hist ops] inv' by (simp add: run store_since_def)
qed

lemma schedule_item_preserves: "preserves (store_at c) (schedule_item now rid)"
proof -
  have "preserves (store_at c) (\<lambda>s. case LookupResource rid s of
      (Inl _, s1) \<Rightarrow> (Inr (), s1)
    | (Inr loaded, s1) \<Rightarrow> (Inr (), snd (Enqueue now (PassiveObserveMessage rid 0 (rr_Version loaded)) s1)))"
    using preservesD [OF Enqueue_preserves [OF enqueueable_messages(4)]]
    by (auto simp: preserves_def LookupResource_def GetResource_def split: option.split prod.split)
      (metis prod.collapse)
  then show ?thesis unfolding schedule_item_def by (rule Within_preserves)
qed

lemma schedule_items_since: "store_since past s \<Longrightarrow> store_since past (schedule_items now items s)"
proof (induction items arbitrary: s)
  case (Cons item items)
  have "store_since past (snd (schedule_item now (ii_ID item) s))"
    using preserves_sinceI [OF schedule_item_preserves] Cons.prems by (simp add: preserves_def)
  then show ?case using Cons by simp
qed simp

lemma ListResources_preserves: "preserves (store_at c) (Within (ListResources q))"
  by (intro Within_preserves) (simp add: preserves_def ListResources_def Let_def)

lemma sweep_since: "store_since past s \<Longrightarrow> store_since past (schedulePassiveObservations fuel now sequence s)"
proof (induction fuel arbitrary: s sequence)
  case (Suc fuel)
  obtain r s1 where page: "Within (ListResources (passive_query sequence)) s = (r, s1)" by fastforce
  have s1: "store_since past s1" by (rule preserves_since [OF ListResources_preserves Suc.prems page])
  show ?case
    using Suc.IH s1 schedule_items_since [OF s1] by (simp add: page Let_def split: sum.split)
qed simp

lemma operate_since: "store_since past s \<Longrightarrow> store_since past (snd (operate svc raw cmd target s))"
  using preserves_sinceI [OF operate_preserves [OF store_at_closed]] by (simp add: preserves_def)

lemma system_run_since: "system_run s t \<Longrightarrow> store_since past s \<Longrightarrow> store_since past t"
proof (induction arbitrary: past rule: system_run.induct)
  case (worker s t cycle w json resolve)
  then have "store_since past t" by blast
  moreover have "preserves (store_since past) (cy_meanwhile cycle m)" for m
    using worker.IH(2) by (simp add: preserves_def)
  moreover obtain r s' where "runOnce w json resolve cycle t = (r, s')" by fastforce
  ultimately show ?case using runOnce_since by fastforce
qed (auto intro: admit_since operate_since sweep_since)

section \<open>Properties of the system\<close>

text \<open>The run of one admission, as an input of the witnesses.\<close>

lemma example_admitted:
  obtains s r where "system_run NewStore s" "map_of (st_operations s) ''op-1'' = Some r" "\<not> IsTerminal (or_Operation r)"
    "store_inv s"
proof -
  obtain r s' where run: "admit example_service example_create NewStore = (Inr r, s')" "\<not> res_Replay r"
    by (rule example_create_result)
  have n: "st_nextOperationSequence NewStore \<noteq> - 1" "st_nextResourceSequence NewStore \<noteq> - 1"
    by (simp_all add: NewStore_def)
  have inv: "store_inv s'" by (rule admit_preserves [OF store_inv_NewStore n run(1)])
  have "system_run NewStore s'"
    using system_run.admission [OF system_run.start n, of example_service example_create] by (simp add: run(1))
  moreover have "\<exists>row. map_of (st_operations s') ''op-1'' = Some row \<and> \<not> IsTerminal (or_Operation row)"
  proof (rule admit_Inr_cases [OF run(1) store_inv_NewStore])
    fix p assume p: "prologue example_service example_create NewStore = Inr p"
      "admission example_service example_create (fst p) NewStore NewStore = (Inr r, s')"
    note a = admission_admitted [OF p store_inv_NewStore]
    then have "op_id (res_Operation r) = ''op-1''" by (simp add: example_create_def)
    then show ?thesis using fresh_effect [OF conjunct1 [OF a]] by auto
  qed (use run(2) in simp)
  ultimately show thesis using inv that by blast
qed

text \<open>
  C3: However API processes, operators, workers and the passive sweep interleave on one store, starting from the
  empty one, a Resource never has two active Operations, no two active work items of one kind share an
  aggregate, and every Operation is stored under its identity with a distinct, positive sequence number.
\<close>

theorem one_active_operation:
  assumes "system_run NewStore s" "map_of (st_operations s) oid = Some r" "map_of (st_operations s) oid' = Some r'"
  shows "op_id (or_Operation r) = oid \<and> 0 < or_Sequence r \<and> (or_Sequence r = or_Sequence r' \<longrightarrow> oid = oid') \<and>
    (op_resourceID (or_Operation r) = op_resourceID (or_Operation r') \<and> \<not> IsTerminal (or_Operation r) \<and>
       \<not> IsTerminal (or_Operation r') \<longrightarrow> oid = oid') \<and> outbox_inv (st_outbox s)"
proof -
  have "store_since [] s" by (rule system_run_since [OF assms(1)]) (simp add: store_since_start store_inv_NewStore)
  then have inv: "operations_inv s" "single_active s" "outbox_inv (st_outbox s)"
    by (simp_all add: store_since_start store_inv_def)
  have wf: "wf_table (st_operations s)" by (rule operations_inv_wf [OF inv(1)])
  have rows: "(oid, r) \<in> set (st_operations s)" "(oid', r') \<in> set (st_operations s)"
    using assms(2,3) by (simp_all add: map_of_SomeD)
  have "(oid, r) = (oid', r')" if "or_Sequence r = or_Sequence r'"
    using inj_onD [of "or_Sequence \<circ> snd" "set (st_operations s)", OF _ _ rows] inv(1) that
    by (simp add: operations_inv_def distinct_map)
  moreover have "op_id (or_Operation r) = oid \<and> 0 < or_Sequence r"
    using inv(1) rows(1) unfolding operations_inv_def by auto
  ultimately show ?thesis
    using assms(2,3) inv(2,3) unfolding single_active_iff [OF wf] by blast
qed

theorem one_active_operation_witness:
  "\<exists>s r. system_run NewStore s \<and> map_of (st_operations s) ''op-1'' = Some r \<and> \<not> IsTerminal (or_Operation r) \<and>
     op_id (or_Operation r) = ''op-1''"
proof -
  obtain s r where s: "system_run NewStore s" "map_of (st_operations s) ''op-1'' = Some r" "\<not> IsTerminal (or_Operation r)"
    by (rule example_admitted)
  from one_active_operation [OF s(1,2,2)] s show ?thesis by blast
qed

text \<open>
  C8: The history of Operations survives the whole system. Whatever requests, worker cycles and sweeps
  run between two moments, an Operation stored at the first is stored at the second with the same
  identity, Resource, capability, target generation and sequence number, and one that was terminal has
  the very same record.
\<close>

theorem system_history_append_only:
  assumes "store_inv s" "system_run s t" "map_of (st_operations s) oid = Some r"
  shows "\<exists>r'. map_of (st_operations t) oid = Some r' \<and> same_intent (or_Operation r) (or_Operation r') \<and>
    or_Sequence r' = or_Sequence r \<and> (IsTerminal (or_Operation r) \<longrightarrow> r' = r)"
  using system_run_since [OF assms(2), of "st_operations s"] assms(1,3)
  by (simp add: store_since_start) (auto simp: store_since_def keeps_history_def)

theorem system_history_append_only_witness:
  "\<exists>s t r r'. store_inv s \<and> t = snd (runOnce example_worker example_encoder (\<lambda>_. Some example_provider) example_cycle s) \<and>
     map_of (st_operations s) ''op-1'' = Some r \<and> map_of (st_operations t) ''op-1'' = Some r' \<and>
     or_Sequence r' = or_Sequence r"
proof -
  obtain s r where s: "map_of (st_operations s) ''op-1'' = Some r" "store_inv s" by (rule example_admitted)
  let ?t = "snd (runOnce example_worker example_encoder (\<lambda>_. Some example_provider) example_cycle s)"
  have "system_run s ?t"
    by (rule system_run.worker [OF system_run.start]) (simp add: example_cycle_def system_run.start)
  from system_history_append_only [OF s(2) this s(1)] s show ?thesis by blast
qed

end
