(* ===== verification/Reads.thy ===== *)
theory Reads
  imports System Cursor Queries
begin

text \<open>
  The read use cases of the service: \<^verbatim>\<open>src/internal/application/read.go\<close>, the inventory of
  \<^verbatim>\<open>inventory.go\<close> and the catalogue reads of \<^verbatim>\<open>resourcetype.go\<close>. Each is one transaction that loads,
  authorizes against the stored owner and only then answers.
\<close>

section \<open>One Resource, one Operation\<close>

record ResourceView =
  rv_Resource :: ResourceRecord
  rv_Latest :: "Operation option"
  rv_Outputs :: "ResourceOutputs option"
  rv_References :: "ReferenceEdge list"

definition Service_GetResource :: "Service \<Rightarrow> Principal \<Rightarrow> resource_id \<Rightarrow> ResourceRecord tx" where
  "Service_GetResource svc prn rid = Within (
     bindT (GetResource rid) (\<lambda>stored.
     bindT (liftT (authorize (svc_Authorizer svc) prn ActionResourceRead (resourceTargetOf stored))) (\<lambda>_.
     returnT stored)))"

definition Service_GetOperation :: "Service \<Rightarrow> Principal \<Rightarrow> operation_id \<Rightarrow> OperationRecord tx" where
  "Service_GetOperation svc prn oid = Within (
     bindT (LookupOperation oid) (\<lambda>preflight.
     bindT (GetResource (op_resourceID (or_Operation preflight))) (\<lambda>resource.
     bindT (GetOperation oid) (\<lambda>stored.
     if op_resourceID (or_Operation stored) \<noteq> resource_id (rr_Resource resource) then throwT conflict
     else bindT (liftT (authorize (svc_Authorizer svc) prn ActionResourceRead (resourceTargetOf resource))) (\<lambda>_.
     returnT stored)))))"

definition MaxResourceOperationPageSize :: int where "MaxResourceOperationPageSize = 100"

definition ListResourceOperations ::
    "Service \<Rightarrow> Principal \<Rightarrow> resource_id \<Rightarrow> uint64 \<Rightarrow> int \<Rightarrow> OperationPage tx" where
  "ListResourceOperations svc prn rid beforeSequence limit = Within (
     bindT (GetResource rid) (\<lambda>resource.
     bindT (liftT (authorize (svc_Authorizer svc) prn ActionResourceRead (resourceTargetOf resource))) (\<lambda>_.
     if limit < 1 \<or> MaxResourceOperationPageSize < limit
     then throwT (ErrInvalidApplicationCall ''operation page limit must be between 1 and 100'')
     else PageForResource rid beforeSequence limit)))"

definition GetResourceOperation :: "Service \<Rightarrow> Principal \<Rightarrow> resource_id \<Rightarrow> ResourceView tx" where
  "GetResourceOperation svc prn rid = Within (
     bindT (GetResource rid) (\<lambda>stored.
     bindT (liftT (authorize (svc_Authorizer svc) prn ActionResourceRead (resourceTargetOf stored))) (\<lambda>_.
     bindT (LatestForResource rid) (\<lambda>latest.
     bindT (if status_state (rr_Status stored) = ResourceStateDeleted then returnT None else LatestResourceOutputs rid) (\<lambda>outputs.
     bindT (DesiredReferences rid) (\<lambda>references.
     returnT \<lparr>rv_Resource = stored, rv_Latest = map_option or_Operation latest,
              rv_Outputs = map_option out_Values outputs, rv_References = references\<rparr>))))))"

section \<open>The inventory\<close>

text \<open>The second method of the authorizer, and the listing of the catalogue.\<close>

record ReadService = Service +
  svc_AuthorizeResourceList :: "(Principal \<Rightarrow> ResourceVisibility result) option"
  svc_ListTypes :: "TypeContract list result"

record ResourceInventoryPageView =
  rpv_Items :: "ResourceInventoryItem list"
  rpv_NextCursor :: string

definition maxListFilterLength :: nat where "maxListFilterLength = 512"
definition DefaultResourcePageSize :: int where "DefaultResourcePageSize = 20"
definition MaxResourcePageSize :: int where "MaxResourcePageSize = 100"

fun validResourceState :: "ResourceState \<Rightarrow> bool" where
  "validResourceState (ResourceStateOther s) = False"
| "validResourceState _ = True"

definition canonical_text :: "string \<Rightarrow> bool" where
  "canonical_text s \<longleftrightarrow> \<not> blank s \<and> s = TrimSpace s"

definition validateListFilters :: "ListResourcesRequest \<Rightarrow> unit result" where
  "validateListFilters req =
     (if (case lq_OwnerFilter req of None \<Rightarrow> False
          | Some f \<Rightarrow> \<not> canonical_text (owner_Kind f) \<or> \<not> canonical_text (owner_ID f))
        then Inl (ErrInvalidApplicationCall ''owner filter kind and ID must be canonical non-empty strings'')
      else if lq_TypeVersion req \<noteq> '''' \<and> lq_TypeName req = ''''
        then Inl (ErrInvalidApplicationCall ''filtering by type version requires a type name'')
      else if list_ex (\<lambda>value. maxListFilterLength < length value)
          ([lq_TypeName req, lq_TypeVersion req] @
           (case lq_OwnerFilter req of None \<Rightarrow> [] | Some f \<Rightarrow> [owner_Kind f, owner_ID f]))
        then Inl (ErrInvalidApplicationCall ''filter values are bounded to 512 characters'')
      else case lq_StateFilter req of
        None \<Rightarrow> Inr ()
      | Some st \<Rightarrow>
          if \<not> validResourceState st then Inl (ErrInvalidApplicationCall ''unknown resource state filter'')
          else if st = ResourceStateDeleted \<and> \<not> lq_IncludeDeleted req
            then Inl (ErrInvalidApplicationCall ''state Deleted requires includeDeleted'')
          else Inr ())"

definition list_query :: "ListResourcesRequest \<Rightarrow> ResourceVisibility \<Rightarrow> uint64 \<Rightarrow> int \<Rightarrow> ResourceListQuery" where
  "list_query req visibility after limit =
     \<lparr>q_AllowedOwners = vis_Owners visibility, q_Unrestricted = vis_AllOwners visibility,
      q_OwnerFilter = lq_OwnerFilter req, q_TypeName = lq_TypeName req, q_TypeVersion = lq_TypeVersion req,
      q_StateFilter = lq_StateFilter req, q_IncludeDeleted = lq_IncludeDeleted req,
      q_AfterSequence = after, q_Limit = limit\<rparr>"

definition Service_ListResources :: "ReadService \<Rightarrow> ListResourcesRequest \<Rightarrow> ResourceInventoryPageView tx" where
  "Service_ListResources svc req =
     (let limit = (if lq_Limit req = 0 then DefaultResourcePageSize else lq_Limit req) in
      if limit < 1 \<or> MaxResourcePageSize < limit
      then throwT (ErrInvalidApplicationCall ''resource page limit must be between 1 and 100'')
      else bindT (liftT (validateListFilters req)) (\<lambda>_.
        bindT (Within (
          bindT (liftT (authorizeResourceList (svc_AuthorizeResourceList svc) (lq_Principal req))) (\<lambda>visibility.
          bindT (if lq_Cursor req = '''' then returnT 0
                 else liftT (decodeResourceListCursor (lq_Cursor req) req visibility)) (\<lambda>after.
          bindT (ListResources (list_query req visibility after limit)) (\<lambda>page. returnT (visibility, page)))))) (\<lambda>(visibility, page).
        returnT \<lparr>rpv_Items = ip_Items page,
          rpv_NextCursor = (if ip_NextSequence page = 0 then ''''
             else encodeResourceListCursor req visibility (ip_NextSequence page))\<rparr>)))"

section \<open>The catalogue\<close>

definition GetResourceType :: "ReadService \<Rightarrow> Principal \<Rightarrow> ResourceTypeRef \<Rightarrow> TypeContract result" where
  "GetResourceType svc prn ref =
     bindE (authorize (svc_Authorizer svc) prn ActionResourceTypeRead
              \<lparr>rt_Type = ref, rt_Owner = \<lparr>owner_Kind = '''', owner_ID = ''''\<rparr>, rt_ResourceID = ''''\<rparr>) (\<lambda>_.
     wrapE ErrResourceTypeNotFound (svc_Types svc ref))"

definition ListResourceTypes :: "ReadService \<Rightarrow> Principal \<Rightarrow> TypeContract list result" where
  "ListResourceTypes svc prn =
     bindE (authorize (svc_Authorizer svc) prn ActionResourceTypeRead
              \<lparr>rt_Type = \<lparr>tref_Name = '''', tref_Version = ''''\<rparr>, rt_Owner = \<lparr>owner_Kind = '''', owner_ID = ''''\<rparr>,
               rt_ResourceID = ''''\<rparr>) (\<lambda>_. svc_ListTypes svc)"

section \<open>What a caller of the reads learns\<close>

lemma use_cases_read_only:
  "reads_only (Service_GetResource svc prn rid)" "reads_only (Service_GetOperation svc prn oid)"
  "reads_only (ListResourceOperations svc prn rid n limit)" "reads_only (GetResourceOperation svc prn rid)"
  "reads_only (Service_ListResources rsvc req)"
  unfolding Service_GetResource_def Service_GetOperation_def ListResourceOperations_def GetResourceOperation_def
    Service_ListResources_def Let_def
  by (intro reads_only_intros)+

section \<open>Following the cursors\<close>

definition browse_page ::
    "ReadService \<Rightarrow> ListResourcesRequest \<Rightarrow> Store \<Rightarrow> string \<Rightarrow> (ResourceInventoryItem list \<times> string) option" where
  "browse_page svc req s cursor =
     (case fst (Service_ListResources svc (req\<lparr>lq_Cursor := cursor\<rparr>) s) of
        Inl _ \<Rightarrow> None | Inr view \<Rightarrow> Some (rpv_Items view, rpv_NextCursor view))"

text \<open>A client that starts without a cursor and sends back the one of the last page until there is none.\<close>

fun browse :: "nat \<Rightarrow> (string \<Rightarrow> ('a list \<times> string) option) \<Rightarrow> string \<Rightarrow> 'a list option" where
  "browse 0 page cursor = None"
| "browse (Suc fuel) page cursor =
     (case page cursor of
        None \<Rightarrow> None
      | Some (items, next_cursor) \<Rightarrow>
          if next_cursor = '''' then Some items
          else map_option (\<lambda>rest. items @ rest) (browse fuel page next_cursor))"

definition list_limit :: "ListResourcesRequest \<Rightarrow> int" where
  "list_limit req = (if lq_Limit req = 0 then DefaultResourcePageSize else lq_Limit req)"

definition cursor_at :: "ListResourcesRequest \<Rightarrow> ResourceVisibility \<Rightarrow> uint64 \<Rightarrow> string" where
  "cursor_at req visibility n = (if n = 0 then '''' else encodeResourceListCursor req visibility n)"

lemma cursor_selectors:
  "lq_OwnerFilter (req\<lparr>lq_Cursor := c\<rparr>) = lq_OwnerFilter req" "lq_TypeName (req\<lparr>lq_Cursor := c\<rparr>) = lq_TypeName req"
  "lq_TypeVersion (req\<lparr>lq_Cursor := c\<rparr>) = lq_TypeVersion req" "lq_StateFilter (req\<lparr>lq_Cursor := c\<rparr>) = lq_StateFilter req"
  "lq_IncludeDeleted (req\<lparr>lq_Cursor := c\<rparr>) = lq_IncludeDeleted req" "lq_Limit (req\<lparr>lq_Cursor := c\<rparr>) = lq_Limit req"
  "lq_Principal (req\<lparr>lq_Cursor := c\<rparr>) = lq_Principal req" "lq_Cursor (req\<lparr>lq_Cursor := c\<rparr>) = c"
  by simp_all

lemma cursor_ignored [simp]:
  "resourceListFilterDigest (req\<lparr>lq_Cursor := c\<rparr>) = resourceListFilterDigest req"
  "validateListFilters (req\<lparr>lq_Cursor := c\<rparr>) = validateListFilters req"
  "list_query (req\<lparr>lq_Cursor := c\<rparr>) visibility after limit = list_query req visibility after limit"
  by (simp_all only: resourceListFilterDigest_def validateListFilters_def list_query_def cursor_selectors)

lemma cursor_ignored_codec [simp]:
  "encodeResourceListCursor (req\<lparr>lq_Cursor := c\<rparr>) visibility n = encodeResourceListCursor req visibility n"
  "decodeResourceListCursor cursor (req\<lparr>lq_Cursor := c\<rparr>) visibility = decodeResourceListCursor cursor req visibility"
  by (simp_all only: encodeResourceListCursor_def decodeResourceListCursor_def cursor_payload_def cursor_ignored)

lemma encoded_not_empty [simp]: "encodeResourceListCursor req visibility n \<noteq> []"
  by (simp add: encodeResourceListCursor_def resourceCursorPrefix_def)

lemma decode_cursor_at:
  "n \<le> MaxCursorPosition \<Longrightarrow> (if cursor_at req visibility n = '''' then returnT 0
      else liftT (decodeResourceListCursor (cursor_at req visibility n) req visibility)) = returnT n"
  using decode_cursor_encoded [of n req visibility] by (cases "n = 0") (simp_all add: cursor_at_def liftT_def fun_eq_iff)

lemma tx_units: "liftT (Inr x) = returnT x" "bindT (returnT x) f = f x"
  by (simp_all add: liftT_def bindT_def fun_eq_iff)

text \<open>A page of the service is a page of the stored rows, its cursor the encoding of the position.\<close>

lemma browse_page_sequence:
  assumes auth: "authorizeResourceList (svc_AuthorizeResourceList svc) (lq_Principal req) = Inr visibility"
    and filters: "validateListFilters req = Inr ()"
    and limit: "1 \<le> list_limit req" "list_limit req \<le> MaxResourcePageSize" and n: "n \<le> MaxCursorPosition"
  shows "browse_page svc req s (cursor_at req visibility n) =
    map_option (\<lambda>(items, nxt). (items, cursor_at req visibility nxt))
      (inventory_page (list_query req visibility 0 0) s (nat (list_limit req)) n)"
proof -
  define limit where "limit = list_limit req"
  have guard: "(limit < 1 \<or> MaxResourcePageSize < limit) = False" using limit by (simp add: limit_def)
  let ?q = "list_query req visibility n limit"
  have q: "(list_query req visibility 0 0)\<lparr>q_AfterSequence := n, q_Limit := int (nat (list_limit req))\<rparr> = ?q"
    using limit(1) by (simp add: list_query_def limit_def)
  obtain r where listed: "ListResources ?q s = (r, s)" by (simp add: ListResources_def)
  have service: "Service_ListResources svc (req\<lparr>lq_Cursor := cursor_at req visibility n\<rparr>) =
      bindT (Within (bindT (ListResources ?q) (\<lambda>page. returnT (visibility, page)))) (\<lambda>(visibility, page).
        returnT \<lparr>rpv_Items = ip_Items page, rpv_NextCursor = cursor_at req visibility (ip_NextSequence page)\<rparr>)"
    unfolding Service_ListResources_def cursor_selectors cursor_ignored cursor_ignored_codec
      list_limit_def [symmetric] limit_def [symmetric] Let_def guard if_False filters auth decode_cursor_at [OF n]
      tx_units cursor_at_def [symmetric] ..
  show ?thesis
    unfolding browse_page_def inventory_page_def q service
    by (cases r) (simp_all add: listed bindT_def Within_def)
qed

text \<open>The cursors of the service lead a client through the very pages that the positions lead through.\<close>

lemma next_position_bounded:
  assumes inv: "resources_inv s" and n: "0 < n"
    and page: "inventory_page query s n cursor = Some (items, nxt)"
  shows "nxt \<le> st_nextResourceSequence s"
proof -
  define rest where "rest = filter (\<lambda>r. cursor = 0 \<or> ii_Sequence r < cursor) (inventory_rows query s)"
  have nxt: "nxt = (if n < length rest then ii_Sequence (last (take n rest)) else 0)"
    using inventory_page_rows [OF n rest_def] page by simp
  show ?thesis
  proof (cases "n < length rest")
    case True
    then have "last (take n rest) \<in> set (take n rest)" using n by (intro last_in_set) auto
    then have "last (take n rest) \<in> set (inventory_rows query s)"
      using set_take_subset [of n rest] by (auto simp: rest_def)
    then obtain rid r where row: "map_of (st_resources s) rid = Some r" "last (take n rest) = inventory_item s (rid, r)"
      unfolding inventory_rows_set [OF inv] by blast
    then have "rid \<in> fst ` set (st_resources s)" by (force dest: map_of_SomeD)
    then have "sequence_of s rid \<le> st_nextResourceSequence s" using inv unfolding resources_inv_def by blast
    then show ?thesis using row(2) True by (simp add: nxt)
  qed (simp add: nxt)
qed

lemma browse_follows:
  assumes auth: "authorizeResourceList (svc_AuthorizeResourceList svc) (lq_Principal req) = Inr visibility"
    and filters: "validateListFilters req = Inr ()"
    and limit: "1 \<le> list_limit req" "list_limit req \<le> MaxResourcePageSize"
    and inv: "resources_inv s" and bound: "st_nextResourceSequence s \<le> MaxCursorPosition"
  shows "n \<le> MaxCursorPosition \<Longrightarrow> browse fuel (browse_page svc req s) (cursor_at req visibility n) =
    follow fuel (inventory_page (list_query req visibility 0 0) s (nat (list_limit req))) n"
proof (induction fuel arbitrary: n)
  case (Suc fuel)
  note page = browse_page_sequence [OF auth filters limit Suc.prems, of s]
  show ?case
  proof (cases "inventory_page (list_query req visibility 0 0) s (nat (list_limit req)) n")
    case None
    then show ?thesis by (simp add: page)
  next
    case (Some p)
    obtain items nxt where p: "p = (items, nxt)" by fastforce
    have n: "0 < nat (list_limit req)" using limit(1) by simp
    have "nxt \<le> MaxCursorPosition"
      by (rule order.trans [OF next_position_bounded [OF inv n Some [unfolded p]] bound])
    from Suc.IH [OF this] show ?thesis by (simp add: page Some p) (simp add: cursor_at_def)
  qed
qed simp

section \<open>Properties of the reads\<close>

text \<open>
  C25: Browsing the inventory loses nothing and leaks nothing. On any store the system reaches, a caller
  whose listing is authorized and whose filters are valid, and who starts without a cursor and sends
  back the opaque one of each page until there is none, is answered on every page and gets, newest
  first and each once, exactly the Resources the filters select among the owners the authorizer lets
  it see; none of another owner appears unless every owner is visible, and none that is deleted unless
  asked for.
\<close>

theorem inventory_listing_complete:
  assumes "system_run NewStore s"
    and auth: "authorizeResourceList (svc_AuthorizeResourceList svc) (lq_Principal req) = Inr visibility"
    and filters: "validateListFilters req = Inr ()"
    and limit: "1 \<le> list_limit req" "list_limit req \<le> MaxResourcePageSize"
    and bound: "st_nextResourceSequence s \<le> MaxCursorPosition" and fuel: "length (st_resources s) < fuel"
  shows "\<exists>items. browse fuel (browse_page svc req s) '''' = Some items \<and>
    sorted_wrt (\<lambda>a b. ii_Sequence b < ii_Sequence a) items \<and>
    set items = {inventory_item s (rid, r) | rid r. map_of (st_resources s) rid = Some r \<and>
      inventory_match (list_query req visibility 0 0) s (rid, r)} \<and>
    (\<forall>item \<in> set items. (vis_AllOwners visibility \<or> ii_Owner item \<in> set (vis_Owners visibility)) \<and>
      (ii_State item = ResourceStateDeleted \<longrightarrow> lq_IncludeDeleted req))"
proof -
  have "store_since [] s" by (rule system_run_since [OF assms(1)]) (simp add: store_since_start store_inv_NewStore)
  then have inv: "resources_inv s" by (simp add: store_since_start store_inv_def)
  have n: "0 < nat (list_limit req)" using limit(1) by simp
  let ?q = "list_query req visibility 0 0"
  have "length (inventory_rows ?q s) < fuel" using inventory_rows_length [of ?q s] fuel by simp
  then have "browse fuel (browse_page svc req s) '''' = Some (inventory_rows ?q s)"
    using browse_follows [OF auth filters limit inv bound, of 0] inventory_pages.follow_all [OF inv n, of ?q]
    by (simp add: cursor_at_def)
  moreover have "?q\<lparr>q_AfterSequence := 0\<rparr> = ?q" by (simp add: list_query_def)
  then have "set (inventory_rows ?q s) = {inventory_item s (rid, r) | rid r. map_of (st_resources s) rid = Some r \<and>
      inventory_match ?q s (rid, r)}"
    using inventory_rows_set [OF inv, of ?q] by simp
  moreover have "q_Unrestricted ?q = vis_AllOwners visibility" "q_AllowedOwners ?q = vis_Owners visibility"
    "q_IncludeDeleted ?q = lq_IncludeDeleted req"
    by (simp_all add: list_query_def)
  then have "\<forall>item \<in> set (inventory_rows ?q s). (vis_AllOwners visibility \<or> ii_Owner item \<in> set (vis_Owners visibility)) \<and>
      (ii_State item = ResourceStateDeleted \<longrightarrow> lq_IncludeDeleted req)"
    using inventory_rows_confined [OF inv, of _ ?q] by metis
  ultimately show ?thesis
    using inventory_pages.rows_descending [OF inv, of ?q] by blast
qed

definition example_reader :: ReadService where
  "example_reader = Service.extend example_service \<lparr>svc_AuthorizeResourceList = Some (\<lambda>_. Inr \<lparr>vis_Owners = [\<lparr>owner_Kind = ''team'', owner_ID = ''t1''\<rparr>],
     vis_AllOwners = False\<rparr>), svc_ListTypes = Inr [example_contract_type]\<rparr>"

definition example_listing :: ListResourcesRequest where
  "example_listing = \<lparr>lq_Principal = example_caller, lq_OwnerFilter = None, lq_TypeName = '''', lq_TypeVersion = '''',
     lq_StateFilter = None, lq_IncludeDeleted = False, lq_Limit = 1, lq_Cursor = ''''\<rparr>"

declare sha256_hex_def [code del]

lemma example_create_counts:
  "(length (st_resources (snd (admit example_service example_create NewStore))),
    st_nextResourceSequence (snd (admit example_service example_create NewStore))) = (1, 1)"
  by code_simp

declare sha256_hex_def [code]

theorem inventory_listing_complete_witness:
  "\<exists>s items. browse 2 (browse_page example_reader example_listing s) '''' = Some items \<and>
     (\<forall>item \<in> set items. ii_Owner item = \<lparr>owner_Kind = ''team'', owner_ID = ''t1''\<rparr>)"
proof -
  let ?s = "snd (admit example_service example_create NewStore)"
  have run: "system_run NewStore ?s"
    by (rule system_run.admission [OF system_run.start]) (simp_all add: NewStore_def)
  have vis: "authorizeResourceList (svc_AuthorizeResourceList example_reader) (lq_Principal example_listing) =
      Inr \<lparr>vis_Owners = [\<lparr>owner_Kind = ''team'', owner_ID = ''t1''\<rparr>], vis_AllOwners = False\<rparr>"
    by (simp add: authorizeResourceList_def example_reader_def Service.extend_def example_listing_def example_caller_def Canonical_def)
  have filters: "validateListFilters example_listing = Inr ()"
    by (simp add: validateListFilters_def example_listing_def maxListFilterLength_def)
  have limit: "1 \<le> list_limit example_listing" "list_limit example_listing \<le> MaxResourcePageSize"
    by (simp_all add: list_limit_def example_listing_def MaxResourcePageSize_def)
  have counts: "st_nextResourceSequence ?s \<le> MaxCursorPosition" "length (st_resources ?s) < 2"
    using example_create_counts by (simp_all add: MaxCursorPosition_def)
  from inventory_listing_complete [OF run vis filters limit counts] show ?thesis by auto
qed

text \<open>The permission a read asks for: the caller may read the Resource under its stored owner.\<close>

definition may_read :: "Service \<Rightarrow> Principal \<Rightarrow> Store \<Rightarrow> resource_id \<Rightarrow> bool" where
  "may_read svc prn s rid = (case map_of (st_resources s) rid of
     None \<Rightarrow> False | Some row \<Rightarrow> authorize (svc_Authorizer svc) prn ActionResourceRead (resourceTargetOf row) = Inr ())"

lemma GetResource_run: "GetResource rid s = (case map_of (st_resources s) rid of
    None \<Rightarrow> (Inl (ErrResourceNotFound ''resource not found''), s) | Some row \<Rightarrow> (Inr row, s))"
  by (simp add: GetResource_def split: option.split)

lemmas read_runs = read_result read_bind read_values reads_only_intros

lemma authorize_refusal: "authorize authorizer prn action target \<noteq> Inr () \<Longrightarrow> authorize authorizer prn action target = Inl not_authorized"
  by (cases "authorize authorizer prn action target") (auto simp: authorize_def split: if_splits option.splits sum.splits)

lemma page_of_resource:
  "fst (PageForResource rid before limit s) = Inr page \<Longrightarrow> limit \<le> 100 \<Longrightarrow>
    length (opg_Records page) \<le> 100 \<and> (\<forall>r \<in> set (opg_Records page). op_resourceID (or_Operation r) = rid)"
  by (auto simp: PageForResource_def readT_def Let_def split: if_splits dest!: in_set_takeD)

text \<open>What each read evaluates to, one equation per use case.\<close>

lemma read_values_of_use_cases:
  "fst (Service_GetResource svc prn rid s) = bindE (fst (GetResource rid s)) (\<lambda>row.
     bindE (authorize (svc_Authorizer svc) prn ActionResourceRead (resourceTargetOf row)) (\<lambda>_. Inr row))"
  "fst (Service_GetOperation svc prn oid s) = bindE (fst (GetOperation oid s)) (\<lambda>op.
     bindE (fst (GetResource (op_resourceID (or_Operation op)) s)) (\<lambda>row.
     if op_resourceID (or_Operation op) \<noteq> resource_id (rr_Resource row) then Inl conflict
     else bindE (authorize (svc_Authorizer svc) prn ActionResourceRead (resourceTargetOf row)) (\<lambda>_. Inr op)))"
  "fst (ListResourceOperations svc prn rid before limit s) = bindE (fst (GetResource rid s)) (\<lambda>row.
     bindE (authorize (svc_Authorizer svc) prn ActionResourceRead (resourceTargetOf row)) (\<lambda>_.
     if limit < 1 \<or> MaxResourceOperationPageSize < limit
     then Inl (ErrInvalidApplicationCall ''operation page limit must be between 1 and 100'')
     else fst (PageForResource rid before limit s)))"
  by (simp_all add: Service_GetResource_def Service_GetOperation_def ListResourceOperations_def read_runs bindE_def
      split: sum.split)

lemma read_value_of_view:
  "fst (GetResourceOperation svc prn rid s) = bindE (fst (GetResource rid s)) (\<lambda>row.
     bindE (authorize (svc_Authorizer svc) prn ActionResourceRead (resourceTargetOf row)) (\<lambda>_.
     bindE (fst (LatestForResource rid s)) (\<lambda>latest.
     bindE (if status_state (rr_Status row) = ResourceStateDeleted then Inr None else fst (LatestResourceOutputs rid s)) (\<lambda>outputs.
     bindE (fst (DesiredReferences rid s)) (\<lambda>references.
     Inr \<lparr>rv_Resource = row, rv_Latest = map_option or_Operation latest,
          rv_Outputs = map_option out_Values outputs, rv_References = references\<rparr>)))))"
  unfolding GetResourceOperation_def by (simp only: read_runs)

lemmas read_answers = read_values_of_use_cases read_value_of_view

lemma may_read_iff: "may_read svc prn s rid \<longleftrightarrow> (\<exists>row. map_of (st_resources s) rid = Some row \<and>
    authorize (svc_Authorizer svc) prn ActionResourceRead (resourceTargetOf row) = Inr ())"
  by (simp add: may_read_def split: option.split)

lemma read_Inr [simp]:
  "fst (GetResource rid s) = Inr row \<longleftrightarrow> map_of (st_resources s) rid = Some row"
  "fst (GetOperation oid s) = Inr op \<longleftrightarrow> map_of (st_operations s) oid = Some op"
  by (simp_all add: read_values split: option.split)

lemma unread_refused:
  assumes "map_of (st_resources s) rid = Some row" "\<not> may_read svc prn s rid"
  shows "fst (Service_GetResource svc prn rid s) = Inl not_authorized"
    "fst (ListResourceOperations svc prn rid before limit s) = Inl not_authorized"
    "fst (GetResourceOperation svc prn rid s) = Inl not_authorized"
proof -
  have "fst (GetResource rid s) = Inr row" using assms(1) by simp
  moreover have "authorize (svc_Authorizer svc) prn ActionResourceRead (resourceTargetOf row) = Inl not_authorized"
    using assms by (intro authorize_refusal) (auto simp: may_read_iff)
  ultimately show "fst (Service_GetResource svc prn rid s) = Inl not_authorized"
    "fst (ListResourceOperations svc prn rid before limit s) = Inl not_authorized"
    "fst (GetResourceOperation svc prn rid s) = Inl not_authorized"
    by (simp_all only: read_answers bindE_simps)
qed

lemma page_answer:
  "fst (ListResourceOperations svc prn rid before limit s) = Inr page \<Longrightarrow> may_read svc prn s rid \<and>
    length (opg_Records page) \<le> 100 \<and> (\<forall>r \<in> set (opg_Records page). op_resourceID (or_Operation r) = rid)"
  using page_of_resource [of rid before limit s page]
  by (auto simp: read_answers may_read_iff MaxResourceOperationPageSize_def)

text \<open>
  C26: No read answers a caller that may not read. Reading a Resource, an Operation, the history of a
  Resource or the composed view succeeds only if the authorizer permits the caller on the Resource under
  the owner stored for it, a history page has at most a hundred Operations and only those of the
  Resource, the view of a deleted Resource exposes no outputs, none of the reads changes anything, and
  a refused caller gets the refusal whatever the Resource holds.
\<close>

theorem reads_answer_authorized:
  "(fst (Service_GetResource svc prn rid s) = Inr stored \<longrightarrow>
      may_read svc prn s rid \<and> map_of (st_resources s) rid = Some stored) \<and>
    (fst (Service_GetOperation svc prn oid s) = Inr found \<longrightarrow>
      may_read svc prn s (op_resourceID (or_Operation found)) \<and> map_of (st_operations s) oid = Some found) \<and>
    (fst (ListResourceOperations svc prn rid before limit s) = Inr page \<longrightarrow> may_read svc prn s rid \<and>
      length (opg_Records page) \<le> 100 \<and> (\<forall>r \<in> set (opg_Records page). op_resourceID (or_Operation r) = rid)) \<and>
    (fst (GetResourceOperation svc prn rid s) = Inr view \<longrightarrow>
      may_read svc prn s rid \<and> map_of (st_resources s) rid = Some (rv_Resource view) \<and>
      (status_state (rr_Status (rv_Resource view)) = ResourceStateDeleted \<longrightarrow> rv_Outputs view = None)) \<and>
    snd (Service_GetResource svc prn rid s) = s \<and> snd (Service_GetOperation svc prn oid s) = s \<and>
    snd (ListResourceOperations svc prn rid before limit s) = s \<and> snd (GetResourceOperation svc prn rid s) = s \<and>
    (map_of (st_resources s) rid = Some stored \<and> \<not> may_read svc prn s rid \<longrightarrow>
      fst (Service_GetResource svc prn rid s) = Inl not_authorized \<and>
      fst (ListResourceOperations svc prn rid before limit s) = Inl not_authorized \<and>
      fst (GetResourceOperation svc prn rid s) = Inl not_authorized)"
  using use_cases_read_only(1,3,4) [of svc prn rid] use_cases_read_only(2) [of svc prn oid] page_answer [of svc prn rid before limit s page]
    unread_refused [of s rid stored svc prn]
  by (auto simp: reads_only_def read_answers may_read_iff)

theorem reads_answer_authorized_witness:
  "\<exists>stored. fst (Service_GetResource example_service example_caller ''res-1'' example_deletable) = Inr stored \<and>
     may_read example_service example_caller example_deletable ''res-1'' \<and>
     fst (Service_GetResource example_service (example_caller\<lparr>prn_ID := ''''\<rparr>) ''res-1'' example_deletable) = Inl not_authorized"
proof -
  obtain stored where row: "map_of (st_resources example_deletable) ''res-1'' = Some stored"
    by (simp add: example_deletable_def CreateResource_def Let_def NewStore_def example_resource_record_def)
  have "fst (Service_GetResource example_service example_caller ''res-1'' example_deletable) = Inr stored"
    using row by (simp add: read_answers authorize_def example_service_def example_caller_def)
  moreover have "\<not> may_read example_service (example_caller\<lparr>prn_ID := ''''\<rparr>) example_deletable ''res-1''"
    using row by (simp add: may_read_iff authorize_def)
  ultimately show ?thesis
    using reads_answer_authorized row by blast
qed

end
