(* ===== verification/Kube.thy ===== *)
theory Kube
  imports Worker_Execution Cursor "HOL-Library.State_Monad"
begin

text \<open>
  The private REST boundary of the Crossplane adapter,
  \<^verbatim>\<open>src/internal/provisioning/crossplane/kube/client.go\<close>: unstructured objects and their accessors,
  the classification of API errors, and the client. The API server is not part of the sources: a client
  answers every call by an arbitrary function of all calls made before, so whatever holds of the adapter
  holds for every server and every interleaving of other writers. A call appends itself and its answer
  to the exchanges of the run, which is the state of a \<open>state\<close> monad of the library.
\<close>

section \<open>Objects\<close>

record GVR =
  gvr_Group :: string
  gvr_Version :: string
  gvr_Resource :: string

type_synonym document = "(string \<times> any) list"

record Object =
  obj_raw :: document

definition childMap :: "document \<Rightarrow> string \<Rightarrow> document" where
  "childMap parent key = (case map_of parent key of Some (GoMap m) \<Rightarrow> m | _ \<Rightarrow> [])"

text \<open>A field that is read as a string: missing and otherwise typed fields read as absent.\<close>

definition string_field :: "document \<Rightarrow> string \<Rightarrow> string option" where
  "string_field d key = (case map_of d key of Some (GoString s) \<Rightarrow> Some s | _ \<Rightarrow> None)"

definition text_field :: "document \<Rightarrow> string \<Rightarrow> string" where
  "text_field d key = (case string_field d key of None \<Rightarrow> '''' | Some s \<Rightarrow> s)"

definition Metadata :: "Object \<Rightarrow> document" where "Metadata obj = childMap (obj_raw obj) ''metadata''"
definition Object_Name :: "Object \<Rightarrow> string" where "Object_Name obj = text_field (Metadata obj) ''name''"
definition UID :: "Object \<Rightarrow> string" where "UID obj = text_field (Metadata obj) ''uid''"

definition ResourceVersion :: "Object \<Rightarrow> string" where
  "ResourceVersion obj = text_field (Metadata obj) ''resourceVersion''"

definition Terminating :: "Object \<Rightarrow> bool" where
  "Terminating obj \<longleftrightarrow> map_of (Metadata obj) ''deletionTimestamp'' \<noteq> None"

definition LabelString :: "Object \<Rightarrow> string \<Rightarrow> string option" where
  "LabelString obj key = string_field (childMap (Metadata obj) ''labels'') key"

definition AnnotationString :: "Object \<Rightarrow> string \<Rightarrow> string option" where
  "AnnotationString obj key = string_field (childMap (Metadata obj) ''annotations'') key"

definition Object_Status :: "Object \<Rightarrow> document" where "Object_Status obj = childMap (obj_raw obj) ''status''"

definition Conditions :: "Object \<Rightarrow> document list" where
  "Conditions obj = (case map_of (Object_Status obj) ''conditions'' of
     Some (GoSlice entries) \<Rightarrow> List.map_filter (\<lambda>entry. case entry of GoMap m \<Rightarrow> Some m | _ \<Rightarrow> None) entries
   | _ \<Rightarrow> [])"

text \<open>
  Reading a number as an unsigned one. A floating-point number outside the range of \<open>uint64\<close> converts
  to \<open>2 ^ 63\<close>, as it does on amd64.
\<close>

definition truncate_float :: "int \<Rightarrow> int \<Rightarrow> int" where
  "truncate_float m e = (if 0 \<le> e then m * 2 ^ nat e else m div 2 ^ nat (- e))"

fun uint64Value :: "any \<Rightarrow> uint64" where
  "uint64Value (GoFloat64 (Finite m e)) =
     (if m < 0 then 0 else if truncate_float m e < 2 ^ 64 then of_int (truncate_float m e) else 2 ^ 63)"
| "uint64Value (GoFloat64 (Inf negative)) = (if negative then 0 else 2 ^ 63)"
| "uint64Value (GoFloat64 NaN) = 2 ^ 63"
| "uint64Value (GoInteger t n) =
     (if t \<in> {GoInt, GoInt64} then (if n < 0 then 0 else of_int n) else if t = GoUint64 then of_int n else 0)"
| "uint64Value _ = 0"

definition Object_Generation :: "Object \<Rightarrow> uint64" where
  "Object_Generation obj = (case map_of (Metadata obj) ''generation'' of None \<Rightarrow> 0 | Some v \<Rightarrow> uint64Value v)"

section \<open>Errors of the API server\<close>

text \<open>An error either carries the structured answer of the server or is anything else.\<close>

datatype kube_error = APIError int string string | OtherError string

text \<open>
  \<^verbatim>\<open>strings.EqualFold\<close> against an ASCII literal: besides ASCII letters only the long s and the Kelvin
  sign fold into ASCII.
\<close>

fun fold_case :: "string \<Rightarrow> string" where
  "fold_case (c # d # e # s) =
     (if c = CHR 0xC5 \<and> d = CHR 0xBF then CHR ''s'' # fold_case (e # s)
      else if c = CHR 0xE2 \<and> d = CHR 0x84 \<and> e = CHR 0xAA then CHR ''k'' # fold_case s
      else lower_char c # fold_case (d # e # s))"
| "fold_case [c, d] = (if c = CHR 0xC5 \<and> d = CHR 0xBF then ''s'' else [lower_char c, lower_char d])"
| "fold_case [c] = [lower_char c]"
| "fold_case [] = []"

definition EqualFold :: "string \<Rightarrow> string \<Rightarrow> bool" where
  "EqualFold s literal \<longleftrightarrow> fold_case s = fold_case literal"

fun IsAPIError :: "kube_error \<Rightarrow> bool" where
  "IsAPIError (APIError code reason message) = True"
| "IsAPIError (OtherError e) = False"

fun IsNotFound :: "kube_error \<Rightarrow> bool" where
  "IsNotFound (APIError code reason message) \<longleftrightarrow> code = 404 \<or> EqualFold reason ''NotFound''"
| "IsNotFound (OtherError e) = False"

fun IsAlreadyExists :: "kube_error \<Rightarrow> bool" where
  "IsAlreadyExists (APIError code reason message) \<longleftrightarrow> EqualFold reason ''AlreadyExists''"
| "IsAlreadyExists (OtherError e) = False"

fun IsConflict :: "kube_error \<Rightarrow> bool" where
  "IsConflict (APIError code reason message) \<longleftrightarrow> code = 409 \<or> EqualFold reason ''Conflict''"
| "IsConflict (OtherError e) = False"

fun IsForbidden :: "kube_error \<Rightarrow> bool" where
  "IsForbidden (APIError code reason message) \<longleftrightarrow> code = 403 \<or> EqualFold reason ''Forbidden''"
| "IsForbidden (OtherError e) = False"

fun IsInvalid :: "kube_error \<Rightarrow> bool" where
  "IsInvalid (APIError code reason message) \<longleftrightarrow> code = 422 \<or> EqualFold reason ''Invalid''"
| "IsInvalid (OtherError e) = False"

fun IsUnavailable :: "kube_error \<Rightarrow> bool" where
  "IsUnavailable (APIError code reason message) \<longleftrightarrow>
     code = 429 \<or> 500 \<le> code \<or> EqualFold reason ''Timeout'' \<or> EqualFold reason ''ServerTimeout''"
| "IsUnavailable (OtherError e) = True"

section \<open>The client\<close>

datatype ServedVerdict = ServedConfirmed | ServedRefuted | ServedUnknown

datatype exchange =
    GetX GVR string string "kube_error + Object"
  | CreateX GVR string Object "kube_error + Object"
  | UpdateX GVR string string Object string "kube_error + Object"
  | DeleteX GVR string string string "kube_error option"
  | ServedX GVR ServedVerdict

record Client =
  kc_Get :: "exchange list \<Rightarrow> GVR \<Rightarrow> string \<Rightarrow> string \<Rightarrow> kube_error + Object"
  kc_Create :: "exchange list \<Rightarrow> GVR \<Rightarrow> string \<Rightarrow> Object \<Rightarrow> kube_error + Object"
  kc_Update :: "exchange list \<Rightarrow> GVR \<Rightarrow> string \<Rightarrow> string \<Rightarrow> Object \<Rightarrow> string \<Rightarrow> kube_error + Object"
  kc_Delete :: "exchange list \<Rightarrow> GVR \<Rightarrow> string \<Rightarrow> string \<Rightarrow> string \<Rightarrow> kube_error option"
  kc_ServedResource :: "exchange list \<Rightarrow> GVR \<Rightarrow> ServedVerdict"

type_synonym 'a rest = "(exchange list, 'a) state"

text \<open>One call: the server answers, and the exchange is appended.\<close>

definition exchange :: "(exchange list \<Rightarrow> 'a) \<Rightarrow> ('a \<Rightarrow> exchange) \<Rightarrow> 'a rest" where
  "exchange answer entry = State (\<lambda>h. (answer h, h @ [entry (answer h)]))"

lemma run_exchange [simp]: "run_state (exchange answer entry) h = (answer h, h @ [entry (answer h)])"
  by (simp add: exchange_def)

definition client_Get :: "Client \<Rightarrow> GVR \<Rightarrow> string \<Rightarrow> string \<Rightarrow> (kube_error + Object) rest" where
  "client_Get c gvr namespace name = exchange (\<lambda>h. kc_Get c h gvr namespace name) (GetX gvr namespace name)"

definition client_Create :: "Client \<Rightarrow> GVR \<Rightarrow> string \<Rightarrow> Object \<Rightarrow> (kube_error + Object) rest" where
  "client_Create c gvr namespace obj = exchange (\<lambda>h. kc_Create c h gvr namespace obj) (CreateX gvr namespace obj)"

definition client_Update ::
    "Client \<Rightarrow> GVR \<Rightarrow> string \<Rightarrow> string \<Rightarrow> Object \<Rightarrow> string \<Rightarrow> (kube_error + Object) rest" where
  "client_Update c gvr namespace name obj required =
     exchange (\<lambda>h. kc_Update c h gvr namespace name obj required) (UpdateX gvr namespace name obj required)"

definition client_Delete :: "Client \<Rightarrow> GVR \<Rightarrow> string \<Rightarrow> string \<Rightarrow> string \<Rightarrow> kube_error option rest" where
  "client_Delete c gvr namespace name uid =
     exchange (\<lambda>h. kc_Delete c h gvr namespace name uid) (DeleteX gvr namespace name uid)"

definition client_ServedResource :: "Client \<Rightarrow> GVR \<Rightarrow> ServedVerdict rest" where
  "client_ServedResource c gvr = exchange (\<lambda>h. kc_ServedResource c h gvr) (ServedX gvr)"

end
