(* ===== verification/Json.thy ===== *)
theory Json
  imports Digest
begin

text \<open>
  JSON documents as \<^verbatim>\<open>encoding/json\<close> reads them: a number is its text, an object its members in the
  order of the text, duplicates included. \<^verbatim>\<open>strconv.ParseUint\<close> and the numerals it reads back.
\<close>

datatype json =
    JNull | JBool bool | JNumber string | JString string | JArray "json list" | JObject "(string \<times> json) list"

text \<open>\<open>reader\<close> is the first document of a text and whether more than white space follows it.\<close>

type_synonym json_reader = "string \<Rightarrow> (json \<times> bool) option"

text \<open>Decoding an object into a map keeps the last member of a name.\<close>

definition json_map :: "(string \<times> 'a) list \<Rightarrow> (string, 'a) table" where
  "json_map members = fold (\<lambda>(name, value). put name value) members []"

lemma map_of_json_map: "map_of (json_map members) name = map_of (rev members) name"
proof (induction members rule: rev_induct)
  case (snoc m ms)
  then show ?case by (cases m) (auto simp: json_map_def)
qed (simp add: json_map_def)

text \<open>
  Decoding into Go values. The members of a struct are found by their folded names, where besides the
  ASCII letters the Kelvin sign counts as a k and the long s as an s. \<^verbatim>\<open>null\<close> leaves a
  string as it is and empties a slice or a map; the result is \<open>None\<close> for a value of another type.
\<close>

fun fold_name :: "string \<Rightarrow> string" where
  "fold_name [] = []"
| "fold_name (a # s) =
     (if a = CHR 0xE2 \<and> take 2 s = [CHR 0x84, CHR 0xAA] then CHR ''k'' # fold_name (drop 2 s)
      else if a = CHR 0xC5 \<and> take 1 s = [CHR 0xBF] then CHR ''s'' # fold_name (drop 1 s)
      else (if CHR ''A'' \<le> a \<and> a \<le> CHR ''Z'' then char_of (of_char a + (32::nat)) else a) # fold_name s)"

definition struct_field ::
    "(json \<Rightarrow> 'a \<Rightarrow> 'a option) \<Rightarrow> (string \<times> json) list \<Rightarrow> string \<Rightarrow> 'a \<Rightarrow> 'a option" where
  "struct_field decode members name zero =
     fold (\<lambda>(k, v) acc. if fold_name k = name then Option.bind acc (decode v) else acc) members (Some zero)"

fun into_string :: "json \<Rightarrow> string \<Rightarrow> string option" where
  "into_string (JString s) old = Some s"
| "into_string JNull old = Some old"
| "into_string v old = None"

definition struct_string :: "(string \<times> json) list \<Rightarrow> string \<Rightarrow> string option" where
  "struct_string members name = struct_field into_string members name ''''"

fun into_slice :: "(json \<Rightarrow> 'a option) \<Rightarrow> json \<Rightarrow> 'a list \<Rightarrow> 'a list option" where
  "into_slice decode (JArray xs) old = those (map decode xs)"
| "into_slice decode JNull old = Some []"
| "into_slice decode v old = None"

fun into_map :: "(json \<Rightarrow> 'a option) \<Rightarrow> json \<Rightarrow> (string, 'a) table \<Rightarrow> (string, 'a) table option" where
  "into_map decode (JObject members) old =
     fold (\<lambda>(k, v) acc. Option.bind acc (\<lambda>m. map_option (\<lambda>x. put k x m) (decode v))) members (Some old)"
| "into_map decode JNull old = Some []"
| "into_map decode v old = None"

text \<open>\<^verbatim>\<open>strconv.ParseUint\<close> in base ten with 64 bits.\<close>

definition ParseUint :: "string \<Rightarrow> uint64 option" where
  "ParseUint s =
     (if s = '''' \<or> \<not> list_all (\<lambda>c. CHR ''0'' \<le> c \<and> c \<le> CHR ''9'') s then None
      else let n = foldl (\<lambda>acc c. acc * 10 + (of_char c - 48)) (0::nat) s in
        if n < 2 ^ 64 then Some (of_nat n) else None)"

lemma of_char_digit: "n < 10 \<Longrightarrow> of_char (digit n) = n + 48 \<and> CHR ''0'' \<le> digit n \<and> digit n \<le> CHR ''9''"
proof -
  have "\<forall>n < 10. of_char (digit n) = n + 48 \<and> CHR ''0'' \<le> digit n \<and> digit n \<le> CHR ''9''" by code_simp
  then show "n < 10 \<Longrightarrow> ?thesis" by blast
qed

lemma decimal_digit_chars:
  "list_all (\<lambda>c. CHR ''0'' \<le> c \<and> c \<le> CHR ''9'') (decimal n) \<and> decimal n \<noteq> '''' \<and>
   foldl (\<lambda>acc c. acc * 10 + (of_char c - 48)) (0::nat) (decimal n) = n"
proof (induction n rule: decimal.induct)
  case (1 n)
  show ?case
  proof (cases "n < 10")
    case True
    then show ?thesis using of_char_digit [of n] by (simp add: decimal.simps [of n])
  next
    case False
    have "n mod 10 < 10" by simp
    from of_char_digit [OF this] show ?thesis
      using 1 [OF False] False by (simp add: decimal.simps [of n])
  qed
qed

lemma ParseUint_decimal64 [simp]: "ParseUint (decimal64 n) = Some n"
proof -
  have "unat n < 2 ^ 64" using unsigned_less [of n] by simp
  then show ?thesis using decimal_digit_chars [of "unat n"] by (simp add: ParseUint_def decimal64_def Let_def)
qed

end
