(* ===== verification/Crossplane_Config.thy ===== *)
theory Crossplane_Config
  imports Kube Json
begin

text \<open>
  Configuration of the Crossplane provisioner (\<^verbatim>\<open>src/internal/provisioning/crossplane/config.go\<close>),
  object names (\<^verbatim>\<open>names.go\<close>) and the metadata by which it recognizes its own objects
  (\<^verbatim>\<open>metadata.go\<close>). The input encoder of a binding is configuration, hence an argument.
\<close>

section \<open>Configuration\<close>

record GVK =
  gvk_Group :: string
  gvk_Version :: string
  gvk_Kind :: string

record ConditionRule =
  rule_Type :: string
  rule_Required :: bool

definition DefaultConditionRules :: "ConditionRule list" where
  "DefaultConditionRules = [\<lparr>rule_Type = ''Ready'', rule_Required = True\<rparr>, \<lparr>rule_Type = ''Synced'', rule_Required = True\<rparr>]"

record OutputMapping =
  om_Ref :: string
  om_StatusPath :: "string list"
  om_CompatibleSourceMappingRef :: string

record Input =
  in_OperationID :: operation_id
  in_AttemptNumber :: uint64
  in_ResourceID :: resource_id
  in_ResourceType :: ResourceTypeRef
  in_Capability :: capability
  in_Spec :: ResourceSpec
  in_TargetGeneration :: uint64

record Binding =
  bd_ResourceType :: ResourceTypeRef
  bd_Capabilities :: "capability list"
  bd_Target :: GVK
  bd_Plural :: string
  bd_Namespace :: string
  bd_NamingVersion :: string
  bd_EncodeInput :: "(Input \<Rightarrow> string result) option"
  bd_Readiness :: "ConditionRule list option"
  bd_TerminalSyncedReasons :: "string list"
  bd_OutputMappings :: "OutputMapping list"
  bd_CurrentOutputMappingRef :: string

record Config =
  cfg_Identity :: string
  cfg_Bindings :: "Binding list"

record resolvedBinding =
  xb_binding :: Binding
  xb_gvr :: GVR
  xb_kind :: string
  xb_namespace :: string
  xb_readiness :: "ConditionRule list"
  xb_terminalReasons :: "string list"
  xb_outputs :: "(string \<times> OutputMapping) list"

definition supportsCapability :: "resolvedBinding \<Rightarrow> capability \<Rightarrow> bool" where
  "supportsCapability b capability \<longleftrightarrow> list_ex (\<lambda>supported. supported = capability) (bd_Capabilities (xb_binding b))"

text \<open>The two patterns of names.\<close>

definition lower_letter :: "char \<Rightarrow> bool" where "lower_letter c \<longleftrightarrow> CHR ''a'' \<le> c \<and> c \<le> CHR ''z''"
definition lower_alnum :: "char \<Rightarrow> bool" where "lower_alnum c \<longleftrightarrow> lower_letter c \<or> CHR ''0'' \<le> c \<and> c \<le> CHR ''9''"

fun pluralPattern :: "string \<Rightarrow> bool" where
  "pluralPattern [] = False"
| "pluralPattern (c # s) \<longleftrightarrow> lower_letter c \<and> list_all lower_alnum s"

definition namespacePattern :: "string \<Rightarrow> bool" where
  "namespacePattern s \<longleftrightarrow> s \<noteq> '''' \<and> lower_alnum (hd s) \<and> lower_alnum (last s) \<and>
     list_all (\<lambda>c. c = CHR ''-'' \<or> lower_alnum c) s"

definition maxNamespaceLength :: nat where "maxNamespaceLength = 63"
definition NamingVersionV1 :: string where "NamingVersionV1 = ''v1''"

fun check_binding_capabilities :: "capability list \<Rightarrow> capability list \<Rightarrow> unit result" where
  "check_binding_capabilities [] seen = Inr ()"
| "check_binding_capabilities (c # cs) seen =
     (if c \<notin> {CapabilityCreate, CapabilityUpdate, CapabilityDelete}
      then Inl (ErrMessage ''unsupported XR binding capability'')
      else if c \<in> set seen then Inl (ErrMessage ''XR binding capability is duplicated'')
      else check_binding_capabilities cs (c # seen))"

fun check_condition_rules :: "ConditionRule list \<Rightarrow> string list \<Rightarrow> unit result" where
  "check_condition_rules [] seen = Inr ()"
| "check_condition_rules (rule # rules) seen =
     (if blank (rule_Type rule) then Inl (ErrMessage ''XR binding readiness condition type is required'')
      else if rule_Type rule \<in> set seen then Inl (ErrMessage ''XR binding readiness condition type is duplicated'')
      else check_condition_rules rules (rule_Type rule # seen))"

fun register_mappings :: "OutputMapping list \<Rightarrow> (string \<times> OutputMapping) list \<Rightarrow> (string \<times> OutputMapping) list result" where
  "register_mappings [] outputs = Inr outputs"
| "register_mappings (mapping # mappings) outputs =
     (if blank (om_Ref mapping) \<or> om_StatusPath mapping = []
      then Inl (ErrMessage ''XR output mapping identity and status path are required'')
      else if map_of outputs (om_Ref mapping) \<noteq> None
      then Inl (ErrMessage ''XR output mapping identity is duplicated'')
      else if om_CompatibleSourceMappingRef mapping \<noteq> '''' \<and> om_CompatibleSourceMappingRef mapping = om_Ref mapping
      then Inl (ErrMessage ''compatible XR output source mapping identity is invalid'')
      else register_mappings mappings (put (om_Ref mapping) mapping outputs))"

definition validateOutputMappings :: "resolvedBinding \<Rightarrow> resolvedBinding result" where
  "validateOutputMappings resolved =
     (let binding = xb_binding resolved; current = TrimSpace (bd_CurrentOutputMappingRef binding) in
      if bd_OutputMappings binding = [] then
        if current \<noteq> '''' then Inl (ErrMessage ''current XR output mapping is not registered'') else Inr resolved
      else if current = '''' then Inl (ErrMessage ''current XR output mapping identity is required'')
      else bindE (register_mappings (bd_OutputMappings binding) (xb_outputs resolved)) (\<lambda>outputs.
        if map_of outputs current = None then Inl (ErrMessage ''current XR output mapping is not registered'')
        else Inr (resolved\<lparr>xb_outputs := outputs\<rparr>)))"

definition resolveBinding :: "Binding \<Rightarrow> resolvedBinding result" where
  "resolveBinding binding =
     (let ref = bd_ResourceType binding; target = bd_Target binding in
      if blank (tref_Name ref) \<or> blank (tref_Version ref)
      then Inl (ErrMessage ''XR binding resource type reference is required'')
      else if bd_Capabilities binding = [] then Inl (ErrMessage ''XR binding capabilities are required'')
      else bindE (check_binding_capabilities (bd_Capabilities binding) []) (\<lambda>_.
        if blank (gvk_Group target) \<or> blank (gvk_Version target) \<or> blank (gvk_Kind target)
        then Inl (ErrMessage ''XR binding must declare a complete group/version/kind'')
        else if \<not> pluralPattern (bd_Plural binding) then Inl (ErrMessage ''XR binding plural is invalid'')
        else if \<not> namespacePattern (bd_Namespace binding) \<or> maxNamespaceLength < length (bd_Namespace binding)
        then Inl (ErrMessage ''XR binding namespace is not a valid DNS label'')
        else if bd_NamingVersion binding \<noteq> NamingVersionV1
        then Inl (ErrMessage ''XR binding naming version is unsupported'')
        else if bd_EncodeInput binding = None then Inl (ErrMessage ''XR binding input encoder is required'')
        else let rules = (case bd_Readiness binding of None \<Rightarrow> DefaultConditionRules | Some rs \<Rightarrow> rs) in
        if rules = [] then Inl (ErrMessage ''XR binding must require at least one readiness condition'')
        else bindE (check_condition_rules rules []) (\<lambda>_.
          if \<not> list_ex rule_Required rules
          then Inl (ErrMessage ''XR binding readiness rule set requires at least one required condition'')
          else if list_ex blank (bd_TerminalSyncedReasons binding)
          then Inl (ErrMessage ''XR binding terminal reconciliation reasons must not be empty'')
          else validateOutputMappings
            \<lparr>xb_binding = binding,
             xb_gvr = \<lparr>gvr_Group = gvk_Group target, gvr_Version = gvk_Version target, gvr_Resource = bd_Plural binding\<rparr>,
             xb_kind = gvk_Kind target, xb_namespace = bd_Namespace binding, xb_readiness = rules,
             xb_terminalReasons = bd_TerminalSyncedReasons binding, xb_outputs = []\<rparr>)))"

fun resolve_bindings ::
    "Binding list \<Rightarrow> (ResourceTypeRef \<times> resolvedBinding) list \<Rightarrow> (ResourceTypeRef \<times> resolvedBinding) list result" where
  "resolve_bindings [] bindings = Inr bindings"
| "resolve_bindings (b # bs) bindings =
     bindE (resolveBinding b) (\<lambda>resolved.
       if map_of bindings (bd_ResourceType b) \<noteq> None then Inl (ErrMessage ''duplicate XR binding for resource type'')
       else resolve_bindings bs (put (bd_ResourceType b) resolved bindings))"

section \<open>Names and ownership metadata\<close>

definition PlatformDigest :: "string \<Rightarrow> string" where
  "PlatformDigest identity = take 16 (sha256_hex (''liftr-crossplane'' @ CHR 0x00 # identity))"

definition Config_resolve :: "Config \<Rightarrow> (string \<times> (ResourceTypeRef \<times> resolvedBinding) list) result" where
  "Config_resolve c =
     (if blank (cfg_Identity c) then Inl (ErrMessage ''configuration identity is required'')
      else if cfg_Bindings c = [] then Inl (ErrMessage ''at least one XR binding is required'')
      else bindE (resolve_bindings (cfg_Bindings c) []) (\<lambda>bindings. Inr (PlatformDigest (cfg_Identity c), bindings)))"

fun join_nul :: "string list \<Rightarrow> string" where
  "join_nul [] = ''''"
| "join_nul [s] = s"
| "join_nul (s # ss) = s @ CHR 0x00 # join_nul ss"

definition ObjectName :: "string \<Rightarrow> string \<Rightarrow> ResourceTypeRef \<Rightarrow> resource_id \<Rightarrow> string" where
  "ObjectName identity xrNamespace ref rid =
     ''liftr-'' @ take 20 (sha256_hex (join_nul [identity, xrNamespace, tref_Name ref, tref_Version ref, rid]))"

definition resourceTypeAnnotation :: "ResourceTypeRef \<Rightarrow> string" where
  "resourceTypeAnnotation ref = tref_Name ref @ ''/'' @ tref_Version ref"

definition labelManagedBy :: string where "labelManagedBy = ''app.kubernetes.io/managed-by''"
definition labelPlatform :: string where "labelPlatform = ''liftr.io/platform''"
definition annotationResourceID :: string where "annotationResourceID = ''liftr.io/resource-id''"
definition annotationResourceType :: string where "annotationResourceType = ''liftr.io/resource-type''"
definition annotationTargetGenerationKey :: string where "annotationTargetGenerationKey = ''liftr.io/target-generation''"
definition annotationOperationID :: string where "annotationOperationID = ''liftr.io/operation-id''"
definition managedByValue :: string where "managedByValue = ''liftr''"

record identityMetadata =
  im_platformDigest :: string
  im_resourceID :: resource_id
  im_resourceType :: ResourceTypeRef

text \<open>Writing a field of a nested document, created when it is missing or no document.\<close>

definition put_child :: "string \<Rightarrow> string \<Rightarrow> any \<Rightarrow> document \<Rightarrow> document" where
  "put_child child key value d = put child (GoMap (put key value (childMap d child))) d"

definition stamp :: "identityMetadata \<Rightarrow> document \<Rightarrow> document" where
  "stamp i obj =
     (let metadata = childMap obj ''metadata'';
          m1 = put_child ''labels'' labelManagedBy (GoString managedByValue) metadata;
          m2 = put_child ''labels'' labelPlatform (GoString (im_platformDigest i)) m1;
          m3 = put_child ''annotations'' annotationResourceID (GoString (im_resourceID i)) m2;
          m4 = put_child ''annotations'' annotationResourceType
                 (GoString (resourceTypeAnnotation (im_resourceType i))) m3
      in put ''metadata'' (GoMap m4) obj)"

definition verify :: "identityMetadata \<Rightarrow> Object \<Rightarrow> bool" where
  "verify i obj \<longleftrightarrow>
     LabelString obj labelManagedBy = Some managedByValue \<and>
     LabelString obj labelPlatform = Some (im_platformDigest i) \<and>
     AnnotationString obj annotationResourceID = Some (im_resourceID i) \<and>
     AnnotationString obj annotationResourceType = Some (resourceTypeAnnotation (im_resourceType i))"

definition stampOperationCorrelation :: "document \<Rightarrow> operation_id \<Rightarrow> uint64 \<Rightarrow> document" where
  "stampOperationCorrelation obj oid targetGeneration =
     (let m1 = put_child ''annotations'' annotationOperationID (GoString oid) (childMap obj ''metadata'');
          m2 = put_child ''annotations'' annotationTargetGenerationKey (GoString (decimal64 targetGeneration)) m1
      in put ''metadata'' (GoMap m2) obj)"

definition operationCorrelated :: "Object \<Rightarrow> operation_id \<Rightarrow> uint64 \<Rightarrow> bool" where
  "operationCorrelated obj oid targetGeneration \<longleftrightarrow>
     AnnotationString obj annotationOperationID = Some oid \<and>
     (case AnnotationString obj annotationTargetGenerationKey of
        None \<Rightarrow> False | Some generation \<Rightarrow> ParseUint generation = Some targetGeneration)"

definition annotationTargetGeneration :: "Object \<Rightarrow> uint64 option" where
  "annotationTargetGeneration obj = Option.bind (AnnotationString obj annotationTargetGenerationKey) ParseUint"

end
