(* ===== verification/Base64url.thy ===== *)
theory Base64url
  imports Cursor
begin

text \<open>The decoder of \<^verbatim>\<open>base64.RawURLEncoding\<close>, which ignores unused bits of the last quantum and line breaks.\<close>

fun decode_quanta_lax :: "nat list \<Rightarrow> nat list option" where
  "decode_quanta_lax [] = Some []"
| "decode_quanta_lax [v] = None"
| "decode_quanta_lax [v, w] = Some [v * 4 + w div 16]"
| "decode_quanta_lax [v, w, x] = Some [v * 4 + w div 16, w mod 16 * 16 + x div 4]"
| "decode_quanta_lax (v # w # x # y # vs) =
     map_option (\<lambda>bs. (v * 4 + w div 16) # (w mod 16 * 16 + x div 4) # (x mod 4 * 64 + y) # bs) (decode_quanta_lax vs)"

definition base64RawURLDecode :: "string \<Rightarrow> string option" where
  "base64RawURLDecode s =
     map_option bytes_string (Option.bind (those (map b64_value (skip_newlines s))) decode_quanta_lax)"

end
