(* ===== verification/Crossplane.thy ===== *)
theory Crossplane
  imports Crossplane_Config Base64url "HOL-Library.Log_Nat"
begin

text \<open>
  The Crossplane provisioner, \<^verbatim>\<open>src/internal/provisioning/crossplane\<close>: manifests, handles, output
  envelopes, and the two operations of the provisioner contract. \<open>Submit\<close> persists desired state under
  identity preconditions, \<open>Observe\<close> normalizes what the control plane reports. Texts of JSON documents
  and of RFC 3339 times are read and written by a \<open>Codec\<close>.
\<close>

section \<open>Handles\<close>

record handlePayload =
  hp_Group :: string
  hp_Version :: string
  hp_Kind :: string
  hp_Namespace :: string
  hp_Name :: string
  hp_UID :: string

text \<open>
  \<open>js_Decode\<close> is the first document of a text and whether more follows, \<open>js_Float64\<close> the value of a number
  text, \<open>js_Number\<close> the value of a dynamic number that is no Go number, \<open>js_Time\<close> an RFC 3339 time, the
  zero time when the text is none.
\<close>

record Codec =
  js_Decode :: json_reader
  js_Float64 :: "string \<Rightarrow> float_value option"
  js_Number :: "string \<Rightarrow> float_value option"
  js_MarshalHandle :: "handlePayload \<Rightarrow> string result"
  js_UnmarshalHandle :: "string \<Rightarrow> handlePayload option"
  js_Time :: "string \<Rightarrow> time"

record Provisioner =
  xp_identity :: string
  xp_client :: Client
  xp_bindings :: "(ResourceTypeRef \<times> resolvedBinding) list"
  xp_codec :: Codec

definition handlePrefix :: string where "handlePrefix = ''xc1.''"

definition encodeHandle :: "Codec \<Rightarrow> resolvedBinding \<Rightarrow> string \<Rightarrow> string \<Rightarrow> ExecutionHandle" where
  "encodeHandle codec binding name uid =
     (case js_MarshalHandle codec \<lparr>hp_Group = gvr_Group (xb_gvr binding), hp_Version = gvr_Version (xb_gvr binding),
         hp_Kind = xb_kind binding, hp_Namespace = xb_namespace binding, hp_Name = name, hp_UID = uid\<rparr> of
        Inl _ \<Rightarrow> ''''
      | Inr encoded \<Rightarrow> (case NewExecutionHandle (handlePrefix @ EncodeToString (map of_char encoded)) of
          Inl _ \<Rightarrow> '''' | Inr handle \<Rightarrow> handle))"

definition decodeHandle :: "Codec \<Rightarrow> ExecutionHandle option \<Rightarrow> handlePayload option" where
  "decodeHandle codec handle = (case handle of None \<Rightarrow> None | Some token \<Rightarrow>
     if length token \<le> length handlePrefix \<or> take (length handlePrefix) token \<noteq> handlePrefix then None
     else Option.bind (base64RawURLDecode (drop (length handlePrefix) token)) (\<lambda>raw.
       case js_UnmarshalHandle codec raw of
         None \<Rightarrow> None
       | Some payload \<Rightarrow>
           if hp_Name payload = '''' \<or> hp_Kind payload = '''' \<or> hp_Version payload = '''' then None else Some payload))"

definition uidFromHandle :: "Codec \<Rightarrow> ObservationRequest \<Rightarrow> string" where
  "uidFromHandle codec request =
     (case decodeHandle codec (oreq_Handle request) of None \<Rightarrow> '''' | Some payload \<Rightarrow> hp_UID payload)"

section \<open>Manifests\<close>

definition maxSpecBytes :: nat where "maxSpecBytes = 65536"
definition forbiddenSpecKeys :: "string list" where "forbiddenSpecKeys = [''apiVersion'', ''kind'', ''metadata'', ''status'']"

fun normalizeJSON :: "Codec \<Rightarrow> json \<Rightarrow> any" where
  "normalizeJSON codec JNull = GoNil"
| "normalizeJSON codec (JBool b) = GoBool b"
| "normalizeJSON codec (JString s) = GoString s"
| "normalizeJSON codec (JNumber text) =
     (case js_Float64 codec text of None \<Rightarrow> GoString text | Some f \<Rightarrow> GoFloat64 f)"
| "normalizeJSON codec (JArray xs) = GoSlice (map (normalizeJSON codec) xs)"
| "normalizeJSON codec (JObject m) = GoMap (json_map (map (\<lambda>(k, v). (k, normalizeJSON codec v)) m))"

definition decodeEncodedSpec :: "Codec \<Rightarrow> string \<Rightarrow> document result" where
  "decodeEncodedSpec codec encoded =
     (if encoded = '''' then Inl (ErrMessage ''encoded spec is empty'')
      else if maxSpecBytes < length encoded then Inl (ErrMessage ''encoded spec exceeds the size bound'')
      else case js_Decode codec encoded of
        None \<Rightarrow> Inl (ErrMessage ''encoded spec is not valid JSON'')
      | Some (parsed, trailing) \<Rightarrow>
          if trailing then Inl (ErrMessage ''encoded spec carries trailing content'')
          else (case parsed of
            JObject m \<Rightarrow>
              if list_ex (\<lambda>key. map_of m key \<noteq> None) forbiddenSpecKeys
              then Inl (ErrMessage ''encoded spec must not declare reserved field'')
              else Inr (json_map (map (\<lambda>(k, v). (k, normalizeJSON codec v)) m))
          | _ \<Rightarrow> Inl (ErrMessage ''encoded spec must be a JSON object'')))"

definition buildManifest :: "Codec \<Rightarrow> resolvedBinding \<Rightarrow> identityMetadata \<Rightarrow> string \<Rightarrow> Input \<Rightarrow> Object result" where
  "buildManifest codec binding identity name input =
     (case bd_EncodeInput (xb_binding binding) of
        None \<Rightarrow> Inl (ErrMessage ''encode XR spec'')
      | Some encode \<Rightarrow>
          bindE (encode input) (\<lambda>encoded.
          bindE (decodeEncodedSpec codec encoded) (\<lambda>spec.
          let group = gvr_Group (xb_gvr binding); version = gvr_Version (xb_gvr binding);
              apiVersion = (if group = '''' then version else group @ ''/'' @ version);
              skeleton = [(''apiVersion'', GoString apiVersion), (''kind'', GoString (xb_kind binding)),
                (''metadata'', GoMap [(''name'', GoString name), (''namespace'', GoString (xb_namespace binding))]),
                (''spec'', GoMap spec)]
          in Inr \<lparr>obj_raw = stampOperationCorrelation (stamp identity skeleton) (in_OperationID input)
                (in_TargetGeneration input)\<rparr>)))"

definition conditionalUpdate :: "Object \<Rightarrow> string \<Rightarrow> Object" where
  "conditionalUpdate manifest resourceVersion =
     (let metadata = del ''uid'' (Metadata manifest);
          metadata' = (if resourceVersion = '''' then metadata
            else put ''resourceVersion'' (GoString resourceVersion) metadata)
      in \<lparr>obj_raw = put ''metadata'' (GoMap metadata') (obj_raw manifest)\<rparr>)"

section \<open>Facts and failures\<close>

definition presentFacts :: "ResourceReadiness \<Rightarrow> ObservedFacts" where
  "presentFacts readiness = \<lparr>facts_Presence = ResourcePresencePresent, facts_Readiness = readiness,
     facts_Drift = ResourceDriftUnknown\<rparr>"

definition absentFacts :: ObservedFacts where
  "absentFacts = \<lparr>facts_Presence = ResourcePresenceNotFound, facts_Readiness = ResourceReadinessUnknown,
     facts_Drift = ResourceDriftUnknown\<rparr>"

definition unknownFacts :: ObservedFacts where
  "unknownFacts = \<lparr>facts_Presence = ResourcePresenceUnknown, facts_Readiness = ResourceReadinessUnknown,
     facts_Drift = ResourceDriftUnknown\<rparr>"

type_synonym failurePair = "ExecutionFailureKind \<times> string"

definition unavailable_pair :: failurePair where "unavailable_pair = (FailureUnavailable, ''ControlPlaneUnavailable'')"
definition unregistered_pair :: failurePair where "unregistered_pair = (FailureUnsupported, ''TargetKindUnregistered'')"

definition classifyAPIError :: "kube_error \<Rightarrow> failurePair" where
  "classifyAPIError e =
     (if IsForbidden e then (FailureUnavailable, ''AccessDenied'')
      else if IsInvalid e then (FailureInvalidRequest, ''AdmissionRejected'')
      else if IsNotFound e then unregistered_pair
      else (FailureUnknown, ''ControlPlaneRejected''))"

definition isTransportUncertain :: "kube_error \<Rightarrow> bool" where
  "isTransportUncertain e \<longleftrightarrow> \<not> IsAPIError e \<or> IsUnavailable e"

definition identityConflictFailure :: "string \<Rightarrow> ExecutionFailure" where
  "identityConflictFailure reason = \<lparr>fail_Kind = FailureExecution, fail_Reason = reason,
     fail_Message = (if reason = ''TargetIdentityChanged''
       then ''the managed target's physical identity changed during the execution''
       else ''a foreign object occupies the managed target name'')\<rparr>"

definition kindUnavailableFailure :: ExecutionFailure where
  "kindUnavailableFailure = \<lparr>fail_Kind = FailureUnsupported, fail_Reason = ''TargetKindUnregistered'',
     fail_Message = ''the target API kind is no longer served by the control plane''\<rparr>"

text \<open>An observation without outputs.\<close>

definition observation_of ::
    "RequestCorrelation \<Rightarrow> Execution option \<Rightarrow> ObservedFacts \<Rightarrow> time \<Rightarrow> ExecutionObservation" where
  "observation_of correlation execution facts seenAt = \<lparr>obs_Correlation = correlation, obs_Execution = execution,
     obs_Resource = facts, obs_ObservedAt = seenAt, obs_Outputs = None\<rparr>"

definition execution_of :: "ExecutionState \<Rightarrow> ExecutionHandle option \<Rightarrow> ExecutionFailure option \<Rightarrow> Execution" where
  "execution_of state handle failure = \<lparr>exec_State = state, exec_Handle = handle, exec_Failure = failure\<rparr>"

definition failed_execution :: "ExecutionFailure \<Rightarrow> Execution" where
  "failed_execution failure = execution_of ExecutionStateFailed None (Some failure)"

type_synonym submit_result = "Submission \<times> submit_error option"

definition submission_of :: "RequestCorrelation \<Rightarrow> Execution \<Rightarrow> ObservedFacts \<Rightarrow> submit_result" where
  "submission_of correlation execution facts =
     (\<lparr>sub_Observation = observation_of correlation (Some execution) facts 0\<rparr>, None)"

definition failedSubmission :: "failurePair \<Rightarrow> submit_result" where
  "failedSubmission pair = submission_of RequestCorrelationNotFound
     (failed_execution \<lparr>fail_Kind = fst pair, fail_Reason = snd pair,
        fail_Message = ''provisioning request was rejected before any infrastructure effect''\<rparr>) unknownFacts"

definition conflictedSubmission :: "ObservedFacts \<Rightarrow> ExecutionFailure \<Rightarrow> submit_result" where
  "conflictedSubmission facts failure = submission_of RequestCorrelationFound (failed_execution failure) facts"

definition acceptedSubmission :: "ExecutionHandle \<Rightarrow> ObservedFacts \<Rightarrow> submit_result" where
  "acceptedSubmission handle facts =
     submission_of RequestCorrelationFound (execution_of ExecutionStateAccepted (Some handle) None) facts"

definition ambiguous_error :: submit_error where
  "ambiguous_error = \<lparr>se_Text = ''provisioner submission outcome is ambiguous'', se_NotAttempted = None, se_Ambiguous = True\<rparr>"

definition unknownSubmission :: "ExecutionHandle \<Rightarrow> submit_result" where
  "unknownSubmission handle =
     (fst (submission_of RequestCorrelationUnknown (execution_of ExecutionStateUnknown (Some handle)
        (Some \<lparr>fail_Kind = FailureUnknown, fail_Reason = ''SubmissionOutcomeUnknown'',
           fail_Message = ''submission outcome could not be determined''\<rparr>)) unknownFacts), Some ambiguous_error)"

definition deletionObservedComplete :: "ExecutionHandle \<Rightarrow> submit_result" where
  "deletionObservedComplete handle =
     submission_of RequestCorrelationFound (execution_of ExecutionStateSucceeded (Some handle) None) absentFacts"

section \<open>Output envelopes\<close>

datatype evidenceState = evidenceUnavailable | evidenceAvailable "(string \<times> any) list" | evidenceInvalid

definition outputEnvelopeVersion :: uint64 where "outputEnvelopeVersion = 1"
definition maxEnvelopeKeys :: nat where "maxEnvelopeKeys = 64"
definition maxEnvelopeStringLen :: nat where "maxEnvelopeStringLen = 4096"

definition envelope_invalid :: error where
  "envelope_invalid = ErrMessage ''declared outputs violated the private output contract''"

text \<open>The unsigned value of a floating-point number that is one.\<close>

fun integral_float :: "float_value \<Rightarrow> uint64 option" where
  "integral_float (Finite m e) =
     (let v = (if 0 \<le> e then m * 2 ^ nat e else m div 2 ^ nat (- e)) in
      if m < 0 \<or> (e < 0 \<and> m mod 2 ^ nat (- e) \<noteq> 0) \<or> 2 ^ 64 \<le> v then None else Some (of_int v))"
| "integral_float _ = None"

definition envelopeInteger :: "document \<Rightarrow> string \<Rightarrow> uint64 option result" where
  "envelopeInteger envelope field = (case map_of envelope field of
     None \<Rightarrow> Inr None
   | Some (GoFloat64 f) \<Rightarrow> (case integral_float f of None \<Rightarrow> Inl envelope_invalid | Some v \<Rightarrow> Inr (Some v))
   | Some (GoInteger t n) \<Rightarrow> if t = GoInt64 \<or> t = GoInt then Inr (Some (of_int n)) else Inl envelope_invalid
   | Some _ \<Rightarrow> Inl envelope_invalid)"

text \<open>An integer as a \<^verbatim>\<open>float64\<close>, rounded to the nearest of 53 bits and to even between two.\<close>

definition round_float :: "int \<Rightarrow> float_value" where
  "round_float n =
     (let a = \<bar>n\<bar>; k = floorlog 2 (nat a) - 53; unit = 2 ^ k; q = a div unit; r = a mod unit;
          up = (unit < 2 * r \<or> (unit = 2 * r \<and> odd q))
      in if k = 0 then Finite n 0 else Finite (sgn n * (if up then q + 1 else q)) (int k))"

definition flatScalar :: "Codec \<Rightarrow> any \<Rightarrow> any option" where
  "flatScalar codec value = (case value of
     GoString s \<Rightarrow> Some (GoString s)
   | GoBool b \<Rightarrow> Some (GoBool b)
   | GoFloat64 f \<Rightarrow> if finite_float f then Some (GoFloat64 f) else None
   | GoInteger t n \<Rightarrow> if t = GoInt \<or> t = GoInt64 then Some (GoFloat64 (round_float n)) else None
   | GoOther text \<Rightarrow> map_option GoFloat64 (js_Number codec text)
   | _ \<Rightarrow> None)"

fun flat_values :: "Codec \<Rightarrow> (string \<times> any) list \<Rightarrow> (string \<times> any) list result" where
  "flat_values codec [] = Inr []"
| "flat_values codec ((name, raw) # rest) = (case flatScalar codec raw of
     None \<Rightarrow> Inl envelope_invalid
   | Some flat \<Rightarrow>
       if (case flat of GoString text \<Rightarrow> maxEnvelopeStringLen < length text | _ \<Rightarrow> False) then Inl envelope_invalid
       else bindE (flat_values codec rest) (\<lambda>values. Inr ((name, flat) # values)))"

definition decodeStatusEnvelope ::
    "Codec \<Rightarrow> document \<Rightarrow> string \<Rightarrow> resource_id \<Rightarrow> uint64 \<Rightarrow> (string \<times> any) list result" where
  "decodeStatusEnvelope codec envelope mappingRef rid targetGeneration =
     (if envelope = [] \<or> maxEnvelopeKeys < length envelope then Inl envelope_invalid
      else if list_ex (\<lambda>(field, _). field \<notin> {''version'', ''mapping'', ''resourceId'', ''targetGeneration'', ''values''}) envelope
      then Inl envelope_invalid
      else if envelopeInteger envelope ''version'' \<noteq> Inr (Some outputEnvelopeVersion) then Inl envelope_invalid
      else if string_field envelope ''mapping'' \<noteq> Some mappingRef then Inl envelope_invalid
      else if string_field envelope ''resourceId'' \<noteq> Some rid then Inl envelope_invalid
      else if envelopeInteger envelope ''targetGeneration'' \<noteq> Inr (Some targetGeneration) then Inl envelope_invalid
      else case map_of envelope ''values'' of
        Some (GoMap rawValues) \<Rightarrow>
          if maxEnvelopeKeys < length rawValues then Inl envelope_invalid
          else bindE (flat_values codec rawValues) (\<lambda>values.
            if values = [] then Inl envelope_invalid else Inr values)
      | _ \<Rightarrow> Inl envelope_invalid)"

fun value_at :: "any \<Rightarrow> string list \<Rightarrow> any option" where
  "value_at value [] = Some value"
| "value_at (GoMap m) (segment # path) = (case map_of m segment of None \<Rightarrow> None | Some v \<Rightarrow> value_at v path)"
| "value_at _ (segment # path) = None"

definition extractOutputEvidence ::
    "Codec \<Rightarrow> Object \<Rightarrow> OutputMapping \<Rightarrow> string \<Rightarrow> resource_id \<Rightarrow> uint64 \<Rightarrow> evidenceState" where
  "extractOutputEvidence codec obj mapping envelopeRef rid targetGeneration =
     (case value_at (GoMap (Object_Status obj)) (om_StatusPath mapping) of
        None \<Rightarrow> evidenceUnavailable
      | Some (GoMap envelope) \<Rightarrow>
          (case decodeStatusEnvelope codec envelope envelopeRef rid targetGeneration of
             Inl _ \<Rightarrow> evidenceInvalid | Inr values \<Rightarrow> evidenceAvailable values)
      | Some _ \<Rightarrow> evidenceInvalid)"

section \<open>Readiness of an object\<close>

record objectEvaluation =
  oe_readiness :: ResourceReadiness
  oe_terminalFailure :: "ExecutionFailure option"
  oe_observedAt :: time

definition conditionByType :: "document list \<Rightarrow> string \<Rightarrow> document option" where
  "conditionByType conditions conditionType = find (\<lambda>c. text_field c ''type'' = conditionType) conditions"

definition conditionObservedGeneration :: "document \<Rightarrow> uint64 option" where
  "conditionObservedGeneration condition = (case map_of condition ''observedGeneration'' of
     Some (GoFloat64 f) \<Rightarrow> integral_float f
   | Some (GoInteger t n) \<Rightarrow> if (t = GoInt64 \<or> t = GoInt) \<and> 0 \<le> n then Some (of_int n) else None
   | _ \<Rightarrow> None)"

definition conditionLastTransition :: "Codec \<Rightarrow> document \<Rightarrow> time" where
  "conditionLastTransition codec condition = js_Time codec (text_field condition ''lastTransitionTime'')"

definition terminal_reconciliation :: ExecutionFailure where
  "terminal_reconciliation = \<lparr>fail_Kind = FailureExecution, fail_Reason = ''TerminalReconciliationFailure'',
     fail_Message = ''crossplane reported a terminal reconciliation failure reason''\<rparr>"

text \<open>The loop over the readiness rules, with the readiness and the newest transition so far.\<close>

fun evaluate_rules ::
    "Codec \<Rightarrow> resolvedBinding \<Rightarrow> Object \<Rightarrow> ConditionRule list \<Rightarrow> ResourceReadiness \<Rightarrow> time \<Rightarrow> objectEvaluation" where
  "evaluate_rules codec binding obj [] readiness newest =
     \<lparr>oe_readiness = ResourceReadinessReady, oe_terminalFailure = None, oe_observedAt = newest\<rparr>"
| "evaluate_rules codec binding obj (rule # rules) readiness newest =
     (let stop = \<lparr>oe_readiness = readiness, oe_terminalFailure = None, oe_observedAt = 0\<rparr> in
      if \<not> rule_Required rule then evaluate_rules codec binding obj rules readiness newest
      else case conditionByType (Conditions obj) (rule_Type rule) of
        None \<Rightarrow> stop
      | Some condition \<Rightarrow>
          let transition = conditionLastTransition codec condition;
              newest' = (if newest < transition then transition else newest);
              status = text_field condition ''status'' in
          if status = ''True'' then
            if conditionObservedGeneration condition \<noteq> Some (Object_Generation obj) then stop
            else evaluate_rules codec binding obj rules readiness newest'
          else if status = ''False'' then
            if text_field condition ''reason'' \<in> set (xb_terminalReasons binding)
            then \<lparr>oe_readiness = readiness, oe_terminalFailure = Some terminal_reconciliation, oe_observedAt = transition\<rparr>
            else evaluate_rules codec binding obj rules ResourceReadinessNotReady newest'
          else stop)"

definition evaluateObject :: "Codec \<Rightarrow> Object \<Rightarrow> resolvedBinding \<Rightarrow> uint64 \<Rightarrow> objectEvaluation" where
  "evaluateObject codec obj binding requestGeneration =
     (if Terminating obj
      then \<lparr>oe_readiness = ResourceReadinessNotReady, oe_terminalFailure = None, oe_observedAt = 0\<rparr>
      else if annotationTargetGeneration obj \<noteq> Some requestGeneration
      then \<lparr>oe_readiness = ResourceReadinessUnknown, oe_terminalFailure = None, oe_observedAt = 0\<rparr>
      else evaluate_rules codec binding obj (xb_readiness binding) ResourceReadinessUnknown 0)"

section \<open>The provisioner\<close>

definition Provisioner_resolveBinding ::
    "Provisioner \<Rightarrow> ResourceTypeRef \<Rightarrow> capability \<Rightarrow> failurePair + resolvedBinding" where
  "Provisioner_resolveBinding p ref capability = (case map_of (xp_bindings p) ref of
     None \<Rightarrow> Inl (FailureUnsupported, ''ResourceTypeUnsupported'')
   | Some binding \<Rightarrow>
       if capability \<noteq> '''' \<and> \<not> supportsCapability binding capability
       then Inl (FailureUnsupported, ''CapabilityUnsupported'') else Inr binding)"

definition identityFor :: "Provisioner \<Rightarrow> ResourceTypeRef \<Rightarrow> resource_id \<Rightarrow> identityMetadata" where
  "identityFor p ref rid = \<lparr>im_platformDigest = PlatformDigest (xp_identity p), im_resourceID = rid, im_resourceType = ref\<rparr>"

definition targetName :: "Provisioner \<Rightarrow> resolvedBinding \<Rightarrow> resource_id \<Rightarrow> string" where
  "targetName p binding rid =
     ObjectName (xp_identity p) (xb_namespace binding) (bd_ResourceType (xb_binding binding)) rid"

definition Provisioner_OutputMappingRef :: "Provisioner \<Rightarrow> ResourceTypeRef \<Rightarrow> capability \<Rightarrow> string" where
  "Provisioner_OutputMappingRef p ref capability = (case map_of (xp_bindings p) ref of
     None \<Rightarrow> ''''
   | Some binding \<Rightarrow>
       if capability = CapabilityDelete \<or> \<not> supportsCapability binding capability then ''''
       else bd_CurrentOutputMappingRef (xb_binding binding))"

definition SelectOutputRecoveryMapping ::
    "Provisioner \<Rightarrow> ResourceTypeRef \<Rightarrow> capability \<Rightarrow> string \<Rightarrow> string \<times> bool" where
  "SelectOutputRecoveryMapping p ref capability source = (case map_of (xp_bindings p) ref of
     None \<Rightarrow> ('''', False)
   | Some binding \<Rightarrow>
       if source = '''' \<or> capability = CapabilityDelete \<or> \<not> supportsCapability binding capability then ('''', False)
       else case find (\<lambda>m. om_Ref m \<noteq> source \<and> om_CompatibleSourceMappingRef m = source)
                   (bd_OutputMappings (xb_binding binding)) of
         None \<Rightarrow> ('''', False)
       | Some mapping \<Rightarrow> (om_Ref mapping, True))"

datatype absenceResolution = absenceProven | kindNotServed | absenceUncertain

definition resolveAbsence :: "Provisioner \<Rightarrow> resolvedBinding \<Rightarrow> absenceResolution rest" where
  "resolveAbsence p binding = do {
     verdict \<leftarrow> client_ServedResource (xp_client p) (xb_gvr binding);
     State_Monad.return (case verdict of
       ServedConfirmed \<Rightarrow> absenceProven | ServedRefuted \<Rightarrow> kindNotServed | ServedUnknown \<Rightarrow> absenceUncertain)
   }"

section \<open>Submitting\<close>

abbreviation reply :: "'a \<Rightarrow> 'a rest" where "reply \<equiv> State_Monad.return"

definition maxConditionalRetries :: nat where "maxConditionalRetries = 3"

datatype mutationOutcome = mutationSucceeded | mutationIdentityConflict | mutationRejected | mutationUncertain

definition resourceIDOfManifest :: "Object \<Rightarrow> string" where
  "resourceIDOfManifest manifest =
     (case AnnotationString manifest annotationResourceID of None \<Rightarrow> '''' | Some value \<Rightarrow> value)"

definition get_target :: "Provisioner \<Rightarrow> resolvedBinding \<Rightarrow> string \<Rightarrow> (kube_error + Object) rest" where
  "get_target p binding name = client_Get (xp_client p) (xb_gvr binding) (xb_namespace binding) name"

text \<open>
  The loop of conditional updates. Its first argument is how many attempts are left, and every attempt
  after the first starts from a read that has been verified again.
\<close>

fun applyDesiredState ::
    "nat \<Rightarrow> Provisioner \<Rightarrow> resolvedBinding \<Rightarrow> string \<Rightarrow> Object \<Rightarrow> string \<Rightarrow> string \<Rightarrow> mutationOutcome rest" where
  "applyDesiredState 0 p binding name manifest verifiedUID currentVersion = reply mutationRejected"
| "applyDesiredState (Suc attempts) p binding name manifest verifiedUID currentVersion = do {
     updated \<leftarrow> client_Update (xp_client p) (xb_gvr binding) (xb_namespace binding) name
       (conditionalUpdate manifest currentVersion) currentVersion;
     case updated of
       Inr _ \<Rightarrow> reply mutationSucceeded
     | Inl e \<Rightarrow>
         if IsConflict e then do {
           fresh \<leftarrow> get_target p binding name;
           case fresh of
             Inl e' \<Rightarrow> reply (if IsNotFound e' then mutationIdentityConflict else mutationUncertain)
           | Inr obj \<Rightarrow>
               if \<not> verify (identityFor p (bd_ResourceType (xb_binding binding)) (resourceIDOfManifest manifest)) obj \<or>
                  (verifiedUID \<noteq> '''' \<and> UID obj \<noteq> verifiedUID)
               then reply mutationIdentityConflict
               else applyDesiredState attempts p binding name manifest verifiedUID (ResourceVersion obj)
         }
         else reply (if isTransportUncertain e then mutationUncertain else mutationRejected)
   }"

definition identity_conflict :: submit_result where
  "identity_conflict = conflictedSubmission (presentFacts ResourceReadinessUnknown)
     (identityConflictFailure ''TargetIdentityConflict'')"

definition mutationSubmission :: "ExecutionHandle \<Rightarrow> mutationOutcome \<Rightarrow> submit_result" where
  "mutationSubmission handle outcome = (case outcome of
     mutationSucceeded \<Rightarrow> acceptedSubmission handle (presentFacts ResourceReadinessUnknown)
   | mutationIdentityConflict \<Rightarrow> identity_conflict
   | mutationUncertain \<Rightarrow> unknownSubmission handle
   | mutationRejected \<Rightarrow> failedSubmission (FailureExecution, ''DesiredStateUpdateRejected''))"

text \<open>Reasserting desired state on an object that has been read and verified.\<close>

definition reassert :: "Provisioner \<Rightarrow> resolvedBinding \<Rightarrow> string \<Rightarrow> Object \<Rightarrow> ExecutionHandle \<Rightarrow> Object \<Rightarrow> submit_result rest" where
  "reassert p binding name manifest handle live = do {
     outcome \<leftarrow> applyDesiredState maxConditionalRetries p binding name manifest (UID live) (ResourceVersion live);
     reply (mutationSubmission handle outcome)
   }"

text \<open>A failed read before any write: nothing can have happened.\<close>

definition preflight_failure :: "kube_error \<Rightarrow> failurePair" where
  "preflight_failure e = (if \<not> IsAPIError e \<or> IsUnavailable e then unavailable_pair else classifyAPIError e)"

definition createMissingObject ::
    "Provisioner \<Rightarrow> resolvedBinding \<Rightarrow> ExecutionRequest \<Rightarrow> Object \<Rightarrow> ExecutionHandle \<Rightarrow> submit_result rest" where
  "createMissingObject p binding request manifest handle = do {
     created \<leftarrow> client_Create (xp_client p) (xb_gvr binding) (xb_namespace binding) manifest;
     case created of
       Inr _ \<Rightarrow> reply (acceptedSubmission handle (presentFacts ResourceReadinessUnknown))
     | Inl e \<Rightarrow>
         if IsAlreadyExists e then do {
           raced \<leftarrow> get_target p binding (targetName p binding (req_ResourceID request));
           case raced of
             Inl _ \<Rightarrow> reply (unknownSubmission handle)
           | Inr live \<Rightarrow>
               if verify (identityFor p (req_ResourceType request) (req_ResourceID request)) live
               then reassert p binding (Object_Name live) manifest handle live
               else reply identity_conflict
         }
         else reply (if isTransportUncertain e then unknownSubmission handle else failedSubmission (classifyAPIError e))
   }"

definition buildExecutionManifest :: "Provisioner \<Rightarrow> resolvedBinding \<Rightarrow> ExecutionRequest \<Rightarrow> failurePair + Object" where
  "buildExecutionManifest p binding request =
     (case buildManifest (xp_codec p) binding (identityFor p (req_ResourceType request) (req_ResourceID request))
        (targetName p binding (req_ResourceID request))
        \<lparr>in_OperationID = req_OperationID request, in_AttemptNumber = req_AttemptNumber request,
         in_ResourceID = req_ResourceID request, in_ResourceType = req_ResourceType request,
         in_Capability = req_Capability request, in_Spec = req_Spec request,
         in_TargetGeneration = req_TargetGeneration request\<rparr> of
        Inl _ \<Rightarrow> Inl (FailureInvalidRequest, ''ProgramInputInvalid'')
      | Inr manifest \<Rightarrow> Inr manifest)"

definition submitCreateOrUpdate :: "Provisioner \<Rightarrow> resolvedBinding \<Rightarrow> ExecutionRequest \<Rightarrow> submit_result rest" where
  "submitCreateOrUpdate p binding request =
     (case buildExecutionManifest p binding request of
        Inl pair \<Rightarrow> reply (failedSubmission pair)
      | Inr manifest \<Rightarrow>
          let name = targetName p binding (req_ResourceID request);
              handle = encodeHandle (xp_codec p) binding name '''' in do {
          existing \<leftarrow> get_target p binding name;
          case existing of
            Inl e \<Rightarrow>
              if IsNotFound e then
                if req_Capability request = CapabilityUpdate then do {
                  absence \<leftarrow> resolveAbsence p binding;
                  reply (failedSubmission (case absence of
                    kindNotServed \<Rightarrow> unregistered_pair
                  | absenceUncertain \<Rightarrow> unavailable_pair
                  | absenceProven \<Rightarrow> (FailureNotFound, ManagedTargetAbsentReason)))
                }
                else createMissingObject p binding request manifest handle
              else reply (failedSubmission (preflight_failure e))
          | Inr live \<Rightarrow>
              if verify (identityFor p (req_ResourceType request) (req_ResourceID request)) live
              then reassert p binding name manifest handle live
              else reply identity_conflict
        })"

definition managed_absence :: submit_result where
  "managed_absence = submission_of RequestCorrelationNotFound
     (failed_execution \<lparr>fail_Kind = FailureNotFound, fail_Reason = ManagedTargetAbsentReason,
        fail_Message = ''the managed target is conclusively absent''\<rparr>) absentFacts"

definition submitDelete :: "Provisioner \<Rightarrow> resolvedBinding \<Rightarrow> ExecutionRequest \<Rightarrow> submit_result rest" where
  "submitDelete p binding request =
     (let name = targetName p binding (req_ResourceID request);
          handle = encodeHandle (xp_codec p) binding name '''' in do {
      existing \<leftarrow> get_target p binding name;
      case existing of
        Inl e \<Rightarrow>
          if IsNotFound e then do {
            absence \<leftarrow> resolveAbsence p binding;
            reply (case absence of
              absenceProven \<Rightarrow> managed_absence
            | kindNotServed \<Rightarrow> failedSubmission unregistered_pair
            | absenceUncertain \<Rightarrow> failedSubmission unavailable_pair)
          }
          else reply (failedSubmission (preflight_failure e))
      | Inr live \<Rightarrow>
          if \<not> verify (identityFor p (req_ResourceType request) (req_ResourceID request)) live
          then reply identity_conflict
          else do {
            deleted \<leftarrow> client_Delete (xp_client p) (xb_gvr binding) (xb_namespace binding) name (UID live);
            case deleted of
              None \<Rightarrow> reply (acceptedSubmission handle (presentFacts ResourceReadinessNotReady))
            | Some e \<Rightarrow>
                if IsConflict e then do {
                  replacement \<leftarrow> get_target p binding name;
                  reply (case replacement of
                    Inr _ \<Rightarrow> identity_conflict
                  | Inl e' \<Rightarrow> if IsNotFound e' then deletionObservedComplete handle else unknownSubmission handle)
                }
                else if IsNotFound e then do {
                  absence \<leftarrow> resolveAbsence p binding;
                  reply (case absence of
                    absenceProven \<Rightarrow> deletionObservedComplete handle
                  | kindNotServed \<Rightarrow>
                      conflictedSubmission (presentFacts ResourceReadinessUnknown) kindUnavailableFailure
                  | absenceUncertain \<Rightarrow> unknownSubmission handle)
                }
                else reply (if isTransportUncertain e then unknownSubmission handle else failedSubmission (classifyAPIError e))
          }
      })"

definition Submit :: "Provisioner \<Rightarrow> ExecutionRequest \<Rightarrow> submit_result rest" where
  "Submit p request =
     (if ExecutionRequest_Validate request \<noteq> Inr ()
      then reply (failedSubmission (FailureInvalidRequest, ''InvalidExecutionRequest''))
      else case Provisioner_resolveBinding p (req_ResourceType request) (req_Capability request) of
        Inl pair \<Rightarrow> reply (failedSubmission pair)
      | Inr binding \<Rightarrow>
          if req_Capability request = CapabilityDelete then submitDelete p binding request
          else submitCreateOrUpdate p binding request)"

section \<open>Observing\<close>

datatype observe_error = ObservationError ExecutionFailure | ErrObservationFailure string

definition observationUnavailable :: "string \<Rightarrow> observe_error + ExecutionObservation" where
  "observationUnavailable reason = Inl (ObservationError \<lparr>fail_Kind = FailureUnavailable, fail_Reason = reason,
     fail_Message = ''provisioning observation is unavailable''\<rparr>)"

definition conflictedObservation :: "ObservedFacts \<Rightarrow> ExecutionFailure \<Rightarrow> time \<Rightarrow> ExecutionObservation" where
  "conflictedObservation facts failure seenAt =
     observation_of RequestCorrelationFound (Some (failed_execution failure)) facts seenAt"

definition runningObservation :: "ObservedFacts \<Rightarrow> ExecutionHandle \<Rightarrow> time \<Rightarrow> ExecutionObservation" where
  "runningObservation facts handle seenAt =
     observation_of RequestCorrelationFound (Some (execution_of ExecutionStateRunning (Some handle) None)) facts seenAt"

definition deletionCompleteObservation :: "ExecutionHandle \<Rightarrow> ExecutionObservation" where
  "deletionCompleteObservation handle =
     observation_of RequestCorrelationFound (Some (execution_of ExecutionStateSucceeded (Some handle) None)) absentFacts 0"

definition output_failure :: "string \<Rightarrow> observe_error + ExecutionObservation" where
  "output_failure text = Inl (ErrObservationFailure text)"

definition attachOutputs ::
    "Codec \<Rightarrow> resolvedBinding \<Rightarrow> ObservationRequest \<Rightarrow> Object \<Rightarrow> ExecutionObservation \<Rightarrow> observe_error + ExecutionObservation" where
  "attachOutputs codec binding request obj observation =
     (if oreq_Capability request = CapabilityDelete \<or> oreq_Capability request = '''' then Inr observation
      else if \<not> (obs_Correlation observation = RequestCorrelationFound \<and>
          (case obs_Execution observation of None \<Rightarrow> False | Some x \<Rightarrow> exec_State x = ExecutionStateSucceeded))
      then Inr observation
      else let selected = oreq_OutputMappingRef request; source = oreq_OutputSourceMappingRef request in
      if xb_outputs binding = [] \<and> selected = '''' \<and> source = '''' then Inr observation
      else if xb_outputs binding = []
      then output_failure ''execution references an output mapping but no such mapping is registered''
      else if selected = ''''
      then output_failure ''registered output mapping has no durable identity on the execution''
      else case map_of (xb_outputs binding) selected of
        None \<Rightarrow> output_failure ''requested output mapping is not registered''
      | Some mapping \<Rightarrow>
          if source \<noteq> '''' \<and> om_CompatibleSourceMappingRef mapping \<noteq> source
          then output_failure ''selected output mapping is not compatible with source mapping''
          else let envelopeRef = (if source \<noteq> '''' then source else om_Ref mapping) in
            Inr (observation\<lparr>obs_Outputs := Some
              (case extractOutputEvidence codec obj mapping envelopeRef (oreq_ResourceID request)
                      (oreq_TargetGeneration request) of
                 evidenceAvailable values \<Rightarrow> \<lparr>ev_State = OutputsAvailable, ev_Values = values,
                   ev_OutputMappingRef = om_Ref mapping, ev_Reason = ''''\<rparr>
               | evidenceInvalid \<Rightarrow> \<lparr>ev_State = OutputsInvalid, ev_Values = [],
                   ev_OutputMappingRef = om_Ref mapping, ev_Reason = ''OutputContractViolation''\<rparr>
               | evidenceUnavailable \<Rightarrow> \<lparr>ev_State = OutputsUnavailable, ev_Values = [],
                   ev_OutputMappingRef = om_Ref mapping, ev_Reason = ''OutputsUnavailable''\<rparr>)\<rparr>))"

text \<open>What a read of the target that answered 404 means, once it is known whether the kind is served.\<close>

definition absent_observation ::
    "ObservationRequest \<Rightarrow> ExecutionHandle \<Rightarrow> absenceResolution \<Rightarrow> observe_error + ExecutionObservation" where
  "absent_observation request handle absence =
     (let passive = (oreq_OperationID request = '''');
          unknown = Inr (observation_of RequestCorrelationUnknown None unknownFacts 0) in
      case absence of
        kindNotServed \<Rightarrow> if passive then unknown else observationUnavailable ''TargetKindUnregistered''
      | absenceUncertain \<Rightarrow> if passive then unknown else observationUnavailable ''ControlPlaneUnavailable''
      | absenceProven \<Rightarrow>
          if \<not> passive \<and> oreq_Capability request = CapabilityDelete then Inr (deletionCompleteObservation handle)
          else Inr (observation_of (if passive then RequestCorrelationUnknown else RequestCorrelationNotFound) None absentFacts 0))"

text \<open>The normalized reading of a live object.\<close>

definition live_observation ::
    "Provisioner \<Rightarrow> resolvedBinding \<Rightarrow> ObservationRequest \<Rightarrow> Object \<Rightarrow> observe_error + ExecutionObservation" where
  "live_observation p binding request obj =
     (let passive = (oreq_OperationID request = ''''); codec = xp_codec p;
          expectedUID = uidFromHandle codec request in
      if \<not> verify (identityFor p (oreq_ResourceType request) (oreq_ResourceID request)) obj then
        if passive then Inr (observation_of RequestCorrelationUnknown None (presentFacts ResourceReadinessUnknown) 0)
        else Inr (conflictedObservation (presentFacts ResourceReadinessUnknown)
               (identityConflictFailure ''TargetIdentityConflict'') 0)
      else if expectedUID \<noteq> '''' \<and> UID obj \<noteq> expectedUID
      then Inr (conflictedObservation (presentFacts ResourceReadinessUnknown)
             (identityConflictFailure ''TargetIdentityChanged'') 0)
      else
      let handle = encodeHandle codec binding (targetName p binding (oreq_ResourceID request)) (UID obj);
          evaluation = evaluateObject codec obj binding (oreq_TargetGeneration request);
          seenAt = oe_observedAt evaluation in
      if passive
      then Inr (observation_of RequestCorrelationUnknown None (presentFacts (oe_readiness evaluation)) seenAt)
      else if oreq_Capability request = CapabilityDelete
      then Inr (runningObservation
             (presentFacts (if Terminating obj then ResourceReadinessNotReady else oe_readiness evaluation)) handle seenAt)
      else if \<not> operationCorrelated obj (oreq_OperationID request) (oreq_TargetGeneration request)
      then Inr (observation_of RequestCorrelationNotFound None (presentFacts (oe_readiness evaluation)) seenAt)
      else case oe_terminalFailure evaluation of
        Some failure \<Rightarrow> Inr (conflictedObservation (presentFacts (oe_readiness evaluation)) failure seenAt)
      | None \<Rightarrow>
          if oe_readiness evaluation = ResourceReadinessReady
          then attachOutputs codec binding request obj
            (observation_of RequestCorrelationFound (Some (execution_of ExecutionStateSucceeded (Some handle) None))
               (presentFacts ResourceReadinessReady) seenAt)
          else Inr (runningObservation (presentFacts (oe_readiness evaluation)) handle seenAt))"

definition Observe :: "Provisioner \<Rightarrow> ObservationRequest \<Rightarrow> (observe_error + ExecutionObservation) rest" where
  "Observe p request =
     (if ObservationRequest_Validate request \<noteq> Inr ()
      then reply (Inl (ObservationError \<lparr>fail_Kind = FailureInvalidRequest, fail_Reason = ''InvalidObservationRequest'',
        fail_Message = ''observation request is invalid''\<rparr>))
      else case Provisioner_resolveBinding p (oreq_ResourceType request) (oreq_Capability request) of
        Inl (kind, reason) \<Rightarrow> reply (Inl (ObservationError \<lparr>fail_Kind = kind, fail_Reason = reason,
          fail_Message = ''observation capability is unsupported''\<rparr>))
      | Inr binding \<Rightarrow>
          let name = targetName p binding (oreq_ResourceID request) in do {
          answer \<leftarrow> get_target p binding name;
          case answer of
            Inl e \<Rightarrow>
              if IsNotFound e then do {
                absence \<leftarrow> resolveAbsence p binding;
                reply (absent_observation request
                  (encodeHandle (xp_codec p) binding name (uidFromHandle (xp_codec p) request)) absence)
              }
              else reply (observationUnavailable
                (if IsAPIError e \<and> \<not> IsUnavailable e then snd (classifyAPIError e) else ''ControlPlaneUnavailable''))
          | Inr obj \<Rightarrow> reply (live_observation p binding request obj)
        })"

section \<open>Composition\<close>

definition newProvisioner :: "Config \<Rightarrow> Client \<Rightarrow> Codec \<Rightarrow> Provisioner result" where
  "newProvisioner config client codec =
     bindE (Config_resolve config) (\<lambda>(digest, bindings).
       if digest = '''' \<or> bindings = [] then Inl (ErrMessage ''crossplane configuration is incomplete'')
       else Inr \<lparr>xp_identity = cfg_Identity config, xp_client = client, xp_bindings = bindings, xp_codec = codec\<rparr>)"

end
