(* ===== verification/Crossplane_Safety.thy ===== *)
theory Crossplane_Safety
  imports Crossplane
begin

text \<open>
  What the Crossplane provisioner guarantees against every API server: it calls only the target of the
  Resource and writes only over an object it has just read there and recognized as its own, it calls a
  request rejected only when no write can have landed, it claims absence only with proof, save for one
  answer to a delete, and it recognizes what it wrote.
\<close>

section \<open>Running the calls\<close>

text \<open>What holds of the answer and of the exchanges when a program of calls has run.\<close>

definition holds :: "'a rest \<Rightarrow> exchange list \<Rightarrow> ('a \<Rightarrow> exchange list \<Rightarrow> bool) \<Rightarrow> bool" where
  "holds m h Q \<longleftrightarrow> Q (fst (run_state m h)) (snd (run_state m h))"

lemma holds_reply [simp]: "holds (reply x) h Q \<longleftrightarrow> Q x h"
  by (simp add: holds_def)

lemma holds_bind [simp]: "holds (State_Monad.bind m f) h Q \<longleftrightarrow> holds m h (\<lambda>x h'. holds (f x) h' Q)"
  by (simp add: holds_def split_beta)

lemma holds_calls [simp]:
  "holds (client_Get c g ns n) h Q \<longleftrightarrow> Q (kc_Get c h g ns n) (h @ [GetX g ns n (kc_Get c h g ns n)])"
  "holds (client_Create c g ns obj) h Q \<longleftrightarrow> Q (kc_Create c h g ns obj) (h @ [CreateX g ns obj (kc_Create c h g ns obj)])"
  "holds (client_Update c g ns n obj v) h Q \<longleftrightarrow>
     Q (kc_Update c h g ns n obj v) (h @ [UpdateX g ns n obj v (kc_Update c h g ns n obj v)])"
  "holds (client_Delete c g ns n u) h R \<longleftrightarrow> R (kc_Delete c h g ns n u) (h @ [DeleteX g ns n u (kc_Delete c h g ns n u)])"
  "holds (client_ServedResource c g) h V \<longleftrightarrow> V (kc_ServedResource c h g) (h @ [ServedX g (kc_ServedResource c h g)])"
  by (simp_all add: holds_def client_Get_def client_Create_def client_Update_def client_Delete_def client_ServedResource_def)

lemma holds_mono: "holds m h Q \<Longrightarrow> (\<And>x h'. Q x h' \<Longrightarrow> R x h') \<Longrightarrow> holds m h R"
  by (simp add: holds_def)

section \<open>Guarded writes\<close>

text \<open>
  The monitor of a run against one target, the kind, namespace and name a binding gives a Resource. It
  keeps the physical identity that desired state has been asserted on, and the last read since the last
  write. Every call is addressed to the target; a create needs a read that found nothing there, an update
  or a delete a read of an object with the metadata of the Resource, whose version or identity is the
  precondition. An update may use the name of the object just read, which is then the target.
\<close>

type_synonym target = "GVR \<times> string \<times> string"

fun guarded :: "identityMetadata \<Rightarrow> target \<Rightarrow> string option \<Rightarrow> (kube_error + Object) option \<Rightarrow> exchange list \<Rightarrow> bool" where
  "guarded i T pinned seen [] = True"
| "guarded i T pinned seen (GetX g ns n answer # h) \<longleftrightarrow> (g, ns, n) = T \<and> guarded i T pinned (Some answer) h"
| "guarded i T pinned seen (ServedX g verdict # h) \<longleftrightarrow> g = fst T \<and> guarded i T pinned seen h"
| "guarded i T pinned seen (CreateX g ns obj answer # h) \<longleftrightarrow>
     (g, ns, Object_Name obj) = T \<and> (\<exists>e. seen = Some (Inl e) \<and> IsNotFound e) \<and> guarded i T pinned None h"
| "guarded i T pinned seen (UpdateX g ns n obj required answer # h) \<longleftrightarrow>
     (\<exists>live. seen = Some (Inr live) \<and> verify i live \<and> required = ResourceVersion live \<and>
        ((g, ns, n) = T \<or> (g, ns, n) = (fst T, fst (snd T), Object_Name live)) \<and>
        (\<forall>u. pinned = Some u \<longrightarrow> u = '''' \<or> UID live = u) \<and>
        guarded i (g, ns, n) (Some (case pinned of None \<Rightarrow> UID live | Some u \<Rightarrow> u)) None h)"
| "guarded i T pinned seen (DeleteX g ns n uid answer # h) \<longleftrightarrow>
     (g, ns, n) = T \<and> (\<exists>live. seen = Some (Inr live) \<and> verify i live \<and> uid = UID live) \<and> guarded i T pinned None h"

text \<open>The target that the configuration of a provisioner gives a Resource.\<close>

definition binding_target :: "Provisioner \<Rightarrow> resolvedBinding \<Rightarrow> resource_id \<Rightarrow> target" where
  "binding_target p b rid = (xb_gvr b, xb_namespace b, targetName p b rid)"

definition target_of :: "Provisioner \<Rightarrow> ResourceTypeRef \<Rightarrow> resource_id \<Rightarrow> target option" where
  "target_of p ref rid = map_option (\<lambda>b. binding_target p b rid) (map_of (xp_bindings p) ref)"

text \<open>An object that carries the ownership metadata of a Resource and the correlation of an Operation.\<close>

definition recognized :: "identityMetadata \<Rightarrow> operation_id \<Rightarrow> uint64 \<Rightarrow> Object \<Rightarrow> bool" where
  "recognized i oid generation obj \<longleftrightarrow> verify i obj \<and> operationCorrelated obj oid generation \<and>
     annotationTargetGeneration obj = Some generation"

fun write_ok :: "(Object \<Rightarrow> bool) \<Rightarrow> exchange \<Rightarrow> bool" where
  "write_ok P (CreateX g ns obj answer) = P obj"
| "write_ok P (UpdateX g ns n obj required answer) = P obj"
| "write_ok P _ = True"

text \<open>The answer of a write, if the exchange is one; an answer that refuses it for certain.\<close>

fun write_answer :: "exchange \<Rightarrow> kube_error option option" where
  "write_answer (CreateX g ns obj answer) = Some (case answer of Inl e \<Rightarrow> Some e | Inr _ \<Rightarrow> None)"
| "write_answer (UpdateX g ns n obj required answer) = Some (case answer of Inl e \<Rightarrow> Some e | Inr _ \<Rightarrow> None)"
| "write_answer (DeleteX g ns n uid answer) = Some answer"
| "write_answer _ = None"

definition refused :: "exchange \<Rightarrow> bool" where
  "refused x \<longleftrightarrow> (case write_answer x of None \<Rightarrow> True | Some None \<Rightarrow> False
     | Some (Some e) \<Rightarrow> IsConflict e \<or> IsAlreadyExists e \<or> IsNotFound e \<or> \<not> isTransportUncertain e)"

definition acknowledged :: "exchange list \<Rightarrow> bool" where
  "acknowledged h \<longleftrightarrow> h \<noteq> [] \<and> write_answer (last h) = Some None"

definition writes :: "exchange list \<Rightarrow> nat" where
  "writes h = length (filter (\<lambda>x. write_answer x \<noteq> None) h)"

lemma exchange_simps [simp]:
  "refused (GetX g ns n a)" "refused (ServedX g verdict)"
  "refused (CreateX g ns obj a) \<longleftrightarrow> (\<exists>e. a = Inl e \<and> (IsConflict e \<or> IsAlreadyExists e \<or> IsNotFound e \<or> \<not> isTransportUncertain e))"
  "refused (UpdateX g ns n obj v a) \<longleftrightarrow> (\<exists>e. a = Inl e \<and> (IsConflict e \<or> IsAlreadyExists e \<or> IsNotFound e \<or> \<not> isTransportUncertain e))"
  "refused (DeleteX g ns n u b) \<longleftrightarrow> (\<exists>e. b = Some e \<and> (IsConflict e \<or> IsAlreadyExists e \<or> IsNotFound e \<or> \<not> isTransportUncertain e))"
  "writes [] = 0" "writes (x # h) = (if write_answer x \<noteq> None then Suc (writes h) else writes h)"
  "writes (h @ h') = writes h + writes h'"
  by (auto simp: refused_def writes_def split: sum.split option.split)

section \<open>What the provisioner writes it recognizes\<close>

lemma fields [simp]:
  "childMap (put k v d) key = (if k = key then (case v of GoMap m \<Rightarrow> m | _ \<Rightarrow> []) else childMap d key)"
  "string_field (put k v d) key = (if k = key then (case v of GoString s \<Rightarrow> Some s | _ \<Rightarrow> None) else string_field d key)"
  "childMap (del k d) key = (if k = key then [] else childMap d key)"
  "string_field (del k d) key = (if k = key then None else string_field d key)"
  by (simp_all add: childMap_def string_field_def update_conv' delete_conv' split: any.split)

lemma put_child_fields [simp]:
  "childMap (put_child c k v d) key = (if c = key then put k v (childMap d c) else childMap d key)"
  by (simp add: put_child_def)

lemmas annotation_names = labelManagedBy_def labelPlatform_def annotationResourceID_def annotationResourceType_def
  annotationTargetGenerationKey_def annotationOperationID_def managedByValue_def

lemma stamped_recognized:
  "recognized i oid generation \<lparr>obj_raw = stampOperationCorrelation (stamp i d) oid generation\<rparr>"
  by (simp add: recognized_def verify_def operationCorrelated_def annotationTargetGeneration_def LabelString_def
      AnnotationString_def Metadata_def stamp_def stampOperationCorrelation_def annotation_names Let_def)

lemma buildManifest_recognized:
  assumes "buildManifest codec b i name input = Inr m"
  shows "recognized i (in_OperationID input) (in_TargetGeneration input) m" "resourceIDOfManifest m = im_resourceID i"
proof -
  show r: "recognized i (in_OperationID input) (in_TargetGeneration input) m"
    using assms stamped_recognized by (auto simp: buildManifest_def Let_def split: option.splits)
  then show "resourceIDOfManifest m = im_resourceID i"
    by (simp add: recognized_def verify_def resourceIDOfManifest_def)
qed

lemma stamped_name: "Object_Name \<lparr>obj_raw = stampOperationCorrelation (stamp i d) oid generation\<rparr> = Object_Name \<lparr>obj_raw = d\<rparr>"
  by (simp add: Object_Name_def Metadata_def text_field_def stamp_def stampOperationCorrelation_def put_child_def Let_def)

lemma buildManifest_name: "buildManifest codec b i name input = Inr m \<Longrightarrow> Object_Name m = name"
  by (auto simp: buildManifest_def Let_def stamped_name split: option.splits)
    (simp_all add: Object_Name_def Metadata_def text_field_def childMap_def string_field_def)

lemma conditionalUpdate_recognized:
  "recognized i oid generation (conditionalUpdate m v) \<longleftrightarrow> recognized i oid generation m"
  by (simp add: recognized_def verify_def operationCorrelated_def annotationTargetGeneration_def LabelString_def
      AnnotationString_def Metadata_def conditionalUpdate_def Let_def)

section \<open>Conditional updates\<close>

lemma acknowledged_Cons: "t \<noteq> [] \<Longrightarrow> acknowledged (x # t) = acknowledged t"
  by (simp add: acknowledged_def)

lemma apply_guarded:
  assumes "verify i live" "u = '''' \<or> UID live = u" "pin = None \<and> UID live = u \<or> pin = Some u"
    and same: "identityFor p (bd_ResourceType (xb_binding b)) (resourceIDOfManifest m) = i"
    and payload: "\<And>v. P (conditionalUpdate m v)"
    and T: "fst T = xb_gvr b" "fst (snd T) = xb_namespace b" "name = snd (snd T) \<or> name = Object_Name live"
  shows "holds (applyDesiredState n p b name m u (ResourceVersion live)) h (\<lambda>out h'. \<exists>t. h' = h @ t \<and>
      guarded i T pin (Some (Inr live)) t \<and> writes t \<le> n \<and> list_all (write_ok P) t \<and>
      (case out of mutationSucceeded \<Rightarrow> acknowledged t | mutationUncertain \<Rightarrow> True | _ \<Rightarrow> list_all refused t))"
  using assms(1-3) T
proof (induction n arbitrary: live pin T h)
  case (Suc n)
  let ?v = "ResourceVersion live"
  let ?a = "kc_Update (xp_client p) h (xb_gvr b) (xb_namespace b) name (conditionalUpdate m ?v) ?v"
  let ?u = "UpdateX (xb_gvr b) (xb_namespace b) name (conditionalUpdate m ?v) ?v ?a"
  let ?T = "(xb_gvr b, xb_namespace b, name)"
  have first: "guarded i T pin (Some (Inr live)) (?u # t) = guarded i ?T (Some u) None t" for t
    using Suc.prems by (cases T) auto
  show ?case
  proof (cases ?a)
    case (Inr updated)
    then show ?thesis using first [of "[]"] payload by (auto simp: acknowledged_def)
  next
    case (Inl e)
    show ?thesis
    proof (cases "IsConflict e")
      case False
      then show ?thesis using first [of "[]"] Inl payload by auto
    next
      case True
      let ?b = "kc_Get (xp_client p) (h @ [?u]) (xb_gvr b) (xb_namespace b) name"
      let ?g = "GetX (xb_gvr b) (xb_namespace b) name ?b"
      show ?thesis
      proof (cases "\<exists>fresh. ?b = Inr fresh \<and> verify i fresh \<and> (u = '''' \<or> UID fresh = u)")
        case False
        then show ?thesis using first [of "[?g]"] Inl True payload same
          by (auto simp: get_target_def split: sum.split)
      next
        case True
        then obtain fresh where f: "?b = Inr fresh" "verify i fresh" "u = '''' \<or> UID fresh = u" by blast
        have T': "fst ?T = xb_gvr b" "fst (snd ?T) = xb_namespace b" "name = snd (snd ?T) \<or> name = Object_Name fresh"
          by simp_all
        from Suc.IH [OF f(2,3) _ T', of "Some u" "h @ [?u, ?g]"]
        have "holds (applyDesiredState n p b name m u (ResourceVersion fresh)) (h @ [?u, ?g]) (\<lambda>out h'. \<exists>t. h' = h @ t \<and>
            guarded i T pin (Some (Inr live)) t \<and> writes t \<le> Suc n \<and> list_all (write_ok P) t \<and>
            (case out of mutationSucceeded \<Rightarrow> acknowledged t | mutationUncertain \<Rightarrow> True | _ \<Rightarrow> list_all refused t))"
        proof (rule holds_mono)
          fix out h' assume "\<exists>t. h' = (h @ [?u, ?g]) @ t \<and> guarded i ?T (Some u) (Some (Inr fresh)) t \<and>
            writes t \<le> n \<and> list_all (write_ok P) t \<and>
            (case out of mutationSucceeded \<Rightarrow> acknowledged t | mutationUncertain \<Rightarrow> True | _ \<Rightarrow> list_all refused t)"
          then obtain t where t: "h' = h @ ?u # ?g # t" "guarded i ?T (Some u) (Some (Inr fresh)) t" "writes t \<le> n"
            "list_all (write_ok P) t"
            "case out of mutationSucceeded \<Rightarrow> acknowledged t | mutationUncertain \<Rightarrow> True | _ \<Rightarrow> list_all refused t"
            by auto
          have ack: "acknowledged t \<Longrightarrow> acknowledged (?u # ?g # t)"
            by (cases "t = []") (simp_all add: acknowledged_Cons, simp add: acknowledged_def)
          show "\<exists>t. h' = h @ t \<and> guarded i T pin (Some (Inr live)) t \<and> writes t \<le> Suc n \<and> list_all (write_ok P) t \<and>
            (case out of mutationSucceeded \<Rightarrow> acknowledged t | mutationUncertain \<Rightarrow> True | _ \<Rightarrow> list_all refused t)"
            by (rule exI [of _ "?u # ?g # t"])
              (use t first [of "?g # t"] f(1) ack Inl \<open>IsConflict e\<close> payload in \<open>auto split: mutationOutcome.split\<close>)
        qed simp
        then show ?thesis using Inl \<open>IsConflict e\<close> f same by (auto simp: get_target_def)
      qed
    qed
  qed
qed simp

section \<open>Submissions\<close>

lemmas submission_defs = failedSubmission_def conflictedSubmission_def acceptedSubmission_def unknownSubmission_def
  deletionObservedComplete_def managed_absence_def identity_conflict_def submission_of_def observation_of_def
  execution_of_def failed_execution_def

text \<open>The execution a submission reports, and the presence of its Resource.\<close>

abbreviation reported :: "submit_result \<Rightarrow> ExecutionState \<Rightarrow> bool" where
  "reported r state \<equiv> \<exists>x. obs_Execution (sub_Observation (fst r)) = Some x \<and> exec_State x = state"

abbreviation presence :: "submit_result \<Rightarrow> ResourcePresence" where
  "presence r \<equiv> facts_Presence (obs_Resource (sub_Observation (fst r)))"

fun not_found :: "target \<Rightarrow> exchange \<Rightarrow> bool" where
  "not_found T (GetX g ns n answer) \<longleftrightarrow> (g, ns, n) = T \<and> (\<exists>e. answer = Inl e \<and> IsNotFound e)"
| "not_found T (DeleteX g ns n u answer) \<longleftrightarrow> (g, ns, n) = T \<and> (\<exists>e. answer = Some e \<and> IsNotFound e)"
| "not_found T _ = False"

fun conflicting :: "target \<Rightarrow> exchange \<Rightarrow> bool" where
  "conflicting T (DeleteX g ns n u answer) \<longleftrightarrow> (g, ns, n) = T \<and> (\<exists>e. answer = Some e \<and> IsConflict e)"
| "conflicting T _ = False"

text \<open>
  The last two exchanges of a run are a call that found nothing at the target and the proof that the kind
  of the target is served.
\<close>

definition absence_proven :: "target \<Rightarrow> exchange list \<Rightarrow> bool" where
  "absence_proven T h \<longleftrightarrow> 2 \<le> length h \<and> last h = ServedX (fst T) ServedConfirmed \<and> not_found T (last (butlast h))"

text \<open>
  A delete of the target met a conflict, and the read of the target after it found nothing; nobody asked
  whether the kind is served.
\<close>

definition absence_assumed :: "target \<Rightarrow> exchange list \<Rightarrow> bool" where
  "absence_assumed T h \<longleftrightarrow> 2 \<le> length h \<and> not_found T (last h) \<and> conflicting T (last (butlast h))"

definition submit_run :: "identityMetadata \<Rightarrow> target \<Rightarrow> ExecutionRequest \<Rightarrow> submit_result \<Rightarrow> exchange list \<Rightarrow> bool" where
  "submit_run i T request r h \<longleftrightarrow>
     guarded i T None None h \<and> writes h \<le> 4 \<and>
     list_all (write_ok (recognized i (req_OperationID request) (req_TargetGeneration request))) h \<and>
     (reported r ExecutionStateAccepted \<longrightarrow> acknowledged h) \<and>
     (reported r ExecutionStateFailed \<longrightarrow> list_all refused h) \<and>
     (reported r ExecutionStateSucceeded \<longrightarrow> req_Capability request = CapabilityDelete \<and> presence r = ResourcePresenceNotFound) \<and>
     (presence r = ResourcePresenceNotFound \<longrightarrow> req_Capability request = CapabilityDelete \<and>
        (absence_proven T h \<or> reported r ExecutionStateSucceeded \<and> absence_assumed T h))"

lemma mutation_reports [simp]:
  "reported (mutationSubmission handle out) ExecutionStateAccepted \<longleftrightarrow> out = mutationSucceeded"
  "reported (mutationSubmission handle out) ExecutionStateFailed \<longleftrightarrow> out = mutationIdentityConflict \<or> out = mutationRejected"
  "\<not> reported (mutationSubmission handle out) ExecutionStateSucceeded"
  "presence (mutationSubmission handle out) \<noteq> ResourcePresenceNotFound"
  by (simp_all add: mutationSubmission_def submission_defs presentFacts_def unknownFacts_def split: mutationOutcome.split)

lemma reassert_run:
  assumes "verify i live" "identityFor p (bd_ResourceType (xb_binding b)) (resourceIDOfManifest m) = i"
    and "recognized i (req_OperationID request) (req_TargetGeneration request) m"
    and prefix: "list_all refused pre" "writes pre \<le> 1"
      "list_all (write_ok (recognized i (req_OperationID request) (req_TargetGeneration request))) pre"
      "\<And>t. guarded i T None None (pre @ t) = guarded i T None (Some (Inr live)) t"
    and T: "fst T = xb_gvr b" "fst (snd T) = xb_namespace b" "name = snd (snd T) \<or> name = Object_Name live"
  shows "holds (reassert p b name m handle live) pre (submit_run i T request)"
  unfolding reassert_def holds_bind holds_reply
proof (rule holds_mono)
  show "holds (applyDesiredState maxConditionalRetries p b name m (UID live) (ResourceVersion live)) pre
    (\<lambda>out h'. \<exists>t. h' = pre @ t \<and> guarded i T None (Some (Inr live)) t \<and> writes t \<le> maxConditionalRetries \<and>
      list_all (write_ok (recognized i (req_OperationID request) (req_TargetGeneration request))) t \<and>
      (case out of mutationSucceeded \<Rightarrow> acknowledged t | mutationUncertain \<Rightarrow> True | _ \<Rightarrow> list_all refused t))"
    by (rule apply_guarded [OF assms(1)]) (use assms(2,3) T in \<open>simp_all add: conditionalUpdate_recognized\<close>)
next
  fix out h'
  assume "\<exists>t. h' = pre @ t \<and> guarded i T None (Some (Inr live)) t \<and> writes t \<le> maxConditionalRetries \<and>
      list_all (write_ok (recognized i (req_OperationID request) (req_TargetGeneration request))) t \<and>
      (case out of mutationSucceeded \<Rightarrow> acknowledged t | mutationUncertain \<Rightarrow> True | _ \<Rightarrow> list_all refused t)"
  then obtain t where t: "h' = pre @ t" "guarded i T None (Some (Inr live)) t" "writes t \<le> 3"
      "list_all (write_ok (recognized i (req_OperationID request) (req_TargetGeneration request))) t"
      "case out of mutationSucceeded \<Rightarrow> acknowledged t | mutationUncertain \<Rightarrow> True | _ \<Rightarrow> list_all refused t"
    by (auto simp: maxConditionalRetries_def)
  have "acknowledged t \<Longrightarrow> acknowledged (pre @ t)" by (simp add: acknowledged_def)
  then show "submit_run i T request (mutationSubmission handle out) h'"
    unfolding submit_run_def mutation_reports using t prefix by (cases out) auto
qed

lemma holds_cases [simp]:
  "holds (case a of Inl x \<Rightarrow> f x | Inr y \<Rightarrow> g y) h Q \<longleftrightarrow> (case a of Inl x \<Rightarrow> holds (f x) h Q | Inr y \<Rightarrow> holds (g y) h Q)"
  "holds (case b of None \<Rightarrow> m | Some z \<Rightarrow> k z) h Q \<longleftrightarrow> (case b of None \<Rightarrow> holds m h Q | Some z \<Rightarrow> holds (k z) h Q)"
  "holds (if c then m else m') h Q \<longleftrightarrow> (if c then holds m h Q else holds m' h Q)"
  by (auto split: sum.split option.split)

lemmas run_conditions = submit_run_def absence_proven_def absence_assumed_def acknowledged_def submission_defs
  presentFacts_def unknownFacts_def absentFacts_def isTransportUncertain_def

lemma delete_run:
  assumes "req_Capability request = CapabilityDelete" "i = identityFor p (req_ResourceType request) (req_ResourceID request)"
  shows "holds (submitDelete p b request) [] (submit_run i (binding_target p b (req_ResourceID request)) request)"
  using assms
  by (auto simp: binding_target_def submitDelete_def Let_def get_target_def resolveAbsence_def run_conditions
      split: sum.split option.split ServedVerdict.split)

lemma create_or_update_run:
  assumes "req_Capability request \<noteq> CapabilityDelete" "i = identityFor p (req_ResourceType request) (req_ResourceID request)"
    and "bd_ResourceType (xb_binding b) = req_ResourceType request"
  shows "holds (submitCreateOrUpdate p b request) [] (submit_run i (binding_target p b (req_ResourceID request)) request)"
proof (cases "buildExecutionManifest p b request")
  case (Inl pair)
  then show ?thesis using assms by (simp add: submitCreateOrUpdate_def run_conditions)
next
  case (Inr m)
  have m: "recognized i (req_OperationID request) (req_TargetGeneration request) m"
    "identityFor p (bd_ResourceType (xb_binding b)) (resourceIDOfManifest m) = i"
    using Inr assms(2,3) buildManifest_recognized
    by (fastforce simp: buildExecutionManifest_def identityFor_def split: sum.splits)+
  have n: "Object_Name m = targetName p b (req_ResourceID request)"
    using Inr buildManifest_name by (fastforce simp: buildExecutionManifest_def split: sum.splits)
  let ?T = "(xb_gvr b, xb_namespace b, targetName p b (req_ResourceID request))"
  let ?get = "\<lambda>answer. GetX (xb_gvr b) (xb_namespace b) (targetName p b (req_ResourceID request)) answer"
  have reassert: "verify i live \<Longrightarrow> name = targetName p b (req_ResourceID request) \<or> name = Object_Name live \<Longrightarrow>
      pre = [?get (Inr live)] \<or>
      (\<exists>e e'. pre = [?get (Inl e), CreateX (xb_gvr b) (xb_namespace b) m (Inl e'), ?get (Inr live)] \<and>
        IsNotFound e \<and> IsAlreadyExists e') \<Longrightarrow>
      holds (reassert p b name m handle live) pre (submit_run i ?T request)" for live pre name handle
    by (rule reassert_run [OF _ m(2,1)]) (use m(1) n in auto)
  show ?thesis
    using Inr assms m n reassert
    by (auto simp: binding_target_def submitCreateOrUpdate_def createMissingObject_def Let_def get_target_def
        resolveAbsence_def run_conditions split: sum.split ServedVerdict.split)
qed

section \<open>A configured provisioner\<close>

lemma resolveBinding_type: "resolveBinding b = Inr resolved \<Longrightarrow> xb_binding resolved = b \<and> xb_readiness resolved \<noteq> []"
  by (auto simp: resolveBinding_def validateOutputMappings_def Let_def split: if_splits option.splits)

lemma resolve_bindings_types:
  "\<lbrakk>resolve_bindings bs bindings = Inr bindings'; \<And>ref b. map_of bindings ref = Some b \<Longrightarrow> bd_ResourceType (xb_binding b) = ref;
    map_of bindings' ref = Some b\<rbrakk> \<Longrightarrow> bd_ResourceType (xb_binding b) = ref"
proof (induction bs arbitrary: bindings)
  case (Cons c bs)
  from Cons.prems(1) obtain resolved where r: "resolveBinding c = Inr resolved"
    "resolve_bindings bs (put (bd_ResourceType c) resolved bindings) = Inr bindings'"
    by (auto split: if_splits)
  show ?case
    by (rule Cons.IH [OF r(2) _ Cons.prems(3)])
      (use Cons.prems(2) resolveBinding_type [OF r(1)] in \<open>auto simp: update_conv' split: if_splits\<close>)
qed simp

lemma newProvisioner_types:
  assumes "newProvisioner config client codec = Inr p" "map_of (xp_bindings p) ref = Some b"
  shows "bd_ResourceType (xb_binding b) = ref"
proof -
  obtain bindings where "resolve_bindings (cfg_Bindings config) [] = Inr bindings" "xp_bindings p = bindings"
    using assms(1) by (auto simp: newProvisioner_def Config_resolve_def split: if_splits)
  then show ?thesis using resolve_bindings_types [of "cfg_Bindings config" "[]" bindings ref b] assms(2) by simp
qed

text \<open>A submission that reaches the server has a target, and runs against it; any other one is refused.\<close>

definition unanswered :: "submit_result \<Rightarrow> exchange list \<Rightarrow> bool" where
  "unanswered r h \<longleftrightarrow> h = [] \<and> reported r ExecutionStateFailed \<and> presence r \<noteq> ResourcePresenceNotFound"

lemma Submit_run:
  assumes "newProvisioner config client codec = Inr p" "run_state (Submit p request) [] = (r, h)"
  obtains "unanswered r h"
  | T where "target_of p (req_ResourceType request) (req_ResourceID request) = Some T"
      "submit_run (identityFor p (req_ResourceType request) (req_ResourceID request)) T request r h"
proof -
  let ?i = "identityFor p (req_ResourceType request) (req_ResourceID request)"
  have "holds (Submit p request) [] (\<lambda>r h. unanswered r h \<or>
      (\<exists>T. target_of p (req_ResourceType request) (req_ResourceID request) = Some T \<and> submit_run ?i T request r h))"
  proof (cases "ExecutionRequest_Validate request = Inr ()")
    case False
    then show ?thesis by (simp add: Submit_def unanswered_def run_conditions)
  next
    case True
    show ?thesis
    proof (cases "Provisioner_resolveBinding p (req_ResourceType request) (req_Capability request)")
      case (Inl pair)
      then show ?thesis using True by (simp add: Submit_def unanswered_def run_conditions)
    next
      case (Inr b)
      then have b: "map_of (xp_bindings p) (req_ResourceType request) = Some b"
        by (auto simp: Provisioner_resolveBinding_def split: option.splits if_splits)
      then have "bd_ResourceType (xb_binding b) = req_ResourceType request" by (rule newProvisioner_types [OF assms(1)])
      then have "holds (Submit p request) [] (submit_run ?i (binding_target p b (req_ResourceID request)) request)"
        using True Inr delete_run [of request ?i p b] create_or_update_run [of request ?i p b] by (simp add: Submit_def)
      then show ?thesis using b by (auto simp: target_of_def elim: holds_mono)
    qed
  qed
  then show ?thesis using assms(2) that by (auto simp: holds_def)
qed

section \<open>Observations\<close>

abbreviation target_get :: "Provisioner \<Rightarrow> resolvedBinding \<Rightarrow> resource_id \<Rightarrow> (kube_error + Object) \<Rightarrow> exchange" where
  "target_get p b rid \<equiv> GetX (xb_gvr b) (xb_namespace b) (targetName p b rid)"

lemma Observe_run:
  assumes "run_state (Observe p request) [] = (r, h)"
  obtains "h = []" "isl r"
  | b e where "Provisioner_resolveBinding p (oreq_ResourceType request) (oreq_Capability request) = Inr b"
      "IsNotFound e" "h = [target_get p b (oreq_ResourceID request) (Inl e), ServedX (xb_gvr b) ServedConfirmed]"
      "r = absent_observation request (encodeHandle (xp_codec p) b (targetName p b (oreq_ResourceID request))
        (uidFromHandle (xp_codec p) request)) absenceProven"
  | b e verdicts where "Provisioner_resolveBinding p (oreq_ResourceType request) (oreq_Capability request) = Inr b"
      "h = target_get p b (oreq_ResourceID request) (Inl e) # map (ServedX (xb_gvr b)) verdicts"
      "isl r \<or> r = Inr (observation_of RequestCorrelationUnknown None unknownFacts 0)"
  | b obj where "Provisioner_resolveBinding p (oreq_ResourceType request) (oreq_Capability request) = Inr b"
      "h = [target_get p b (oreq_ResourceID request) (Inr obj)]" "r = live_observation p b request obj"
proof -
  consider "h = []" "isl r"
    | b where "Provisioner_resolveBinding p (oreq_ResourceType request) (oreq_Capability request) = Inr b"
        "ObservationRequest_Validate request = Inr ()"
    using assms by (auto simp: Observe_def split: if_splits sum.splits)
  then show thesis
  proof cases
    case 2
    show thesis
      using assms 2 that(2,4) [OF 2(1)] that(3) [OF 2(1), where verdicts = "[]"] that(3) [OF 2(1), where verdicts = "[v]" for v]
      by (auto simp: Observe_def Let_def get_target_def resolveAbsence_def observationUnavailable_def client_Get_def
          client_ServedResource_def absent_observation_def split: if_splits sum.splits ServedVerdict.splits)
  qed (use that(1) in blast)
qed

lemma served_guarded: "guarded i T pinned seen (map (ServedX (fst T)) verdicts)" "writes (map (ServedX g) verdicts) = 0"
  by (induction verdicts) auto

lemma resolved_target:
  "Provisioner_resolveBinding p ref capability = Inr b \<Longrightarrow>
   map_of (xp_bindings p) ref = Some b \<and> target_of p ref rid = Some (binding_target p b rid)"
  by (auto simp: Provisioner_resolveBinding_def target_of_def split: option.splits if_splits)

text \<open>A required condition is there, True, and reported for the current generation of the object.\<close>

definition rule_satisfied :: "Object \<Rightarrow> ConditionRule \<Rightarrow> bool" where
  "rule_satisfied obj rule \<longleftrightarrow> (rule_Required rule \<longrightarrow>
     (\<exists>condition. conditionByType (Conditions obj) (rule_Type rule) = Some condition \<and>
        text_field condition ''status'' = ''True'' \<and>
        conditionObservedGeneration condition = Some (Object_Generation obj)))"

text \<open>A required condition is there and False, for a reason that is not terminal.\<close>

definition plain_false :: "resolvedBinding \<Rightarrow> Object \<Rightarrow> ConditionRule \<Rightarrow> bool" where
  "plain_false b obj rule \<longleftrightarrow> rule_Required rule \<and>
     (\<exists>condition. conditionByType (Conditions obj) (rule_Type rule) = Some condition \<and>
        text_field condition ''status'' = ''False'' \<and>
        text_field condition ''reason'' \<notin> set (xb_terminalReasons b))"

lemma evaluate_rules_ready:
  "readiness \<noteq> ResourceReadinessReady \<Longrightarrow>
   (oe_readiness (evaluate_rules codec b obj rules readiness newest) = ResourceReadinessReady \<longleftrightarrow>
      list_all (\<lambda>rule. rule_satisfied obj rule \<or> plain_false b obj rule) rules) \<and>
   (oe_readiness (evaluate_rules codec b obj rules readiness newest) = ResourceReadinessReady \<longrightarrow>
      oe_terminalFailure (evaluate_rules codec b obj rules readiness newest) = None)"
proof (induction rules arbitrary: readiness newest)
  case (Cons rule rules)
  note IH = Cons.IH [OF Cons.prems] Cons.IH [of ResourceReadinessNotReady, simplified]
  show ?case using Cons.prems IH
    by (auto simp: rule_satisfied_def [of obj rule] plain_false_def [of b obj rule] Let_def split: option.split)
qed simp

lemma evaluateObject_ready:
  "oe_readiness (evaluateObject codec obj b generation) = ResourceReadinessReady \<longleftrightarrow>
     \<not> Terminating obj \<and> annotationTargetGeneration obj = Some generation \<and>
     list_all (\<lambda>rule. rule_satisfied obj rule \<or> plain_false b obj rule) (xb_readiness b)"
  "oe_readiness (evaluateObject codec obj b generation) = ResourceReadinessReady \<Longrightarrow>
     oe_terminalFailure (evaluateObject codec obj b generation) = None"
  using evaluate_rules_ready [of ResourceReadinessUnknown codec b obj "xb_readiness b" 0]
  by (auto simp: evaluateObject_def split: if_splits)

text \<open>
  The loop over the rules ends by setting the readiness to Ready, so that a required condition that is
  False for a reason that is not terminal does not count, against the comment on the function.
\<close>

lemma false_condition_overlooked:
  "\<lbrakk>\<not> Terminating obj; annotationTargetGeneration obj = Some generation; list_all (plain_false b obj) (xb_readiness b)\<rbrakk> \<Longrightarrow>
   oe_readiness (evaluateObject codec obj b generation) = ResourceReadinessReady"
  by (simp add: evaluateObject_ready(1) list_all_iff)

text \<open>
  C33: Provided that no required condition is False for a reason that is not terminal, a live object counts
  as Ready exactly when it is not being deleted, it carries the generation that is asked for, and each
  required condition is there, is True and is reported for the current generation of the object; and a
  Ready object has no terminal failure. In the case that is set aside the code departs from its own
  comment, which the lemma before this one shows.
\<close>

theorem crossplane_readiness_exact:
  assumes "list_all (\<lambda>rule. \<not> plain_false b obj rule) (xb_readiness b)"
  shows "(oe_readiness (evaluateObject codec obj b generation) = ResourceReadinessReady \<longleftrightarrow>
      \<not> Terminating obj \<and> annotationTargetGeneration obj = Some generation \<and> list_all (rule_satisfied obj) (xb_readiness b)) \<and>
    (oe_readiness (evaluateObject codec obj b generation) = ResourceReadinessReady \<longrightarrow>
      oe_terminalFailure (evaluateObject codec obj b generation) = None)"
  using assms evaluateObject_ready [of codec obj b generation] by (auto simp: list_all_iff)

text \<open>The execution an observation reports.\<close>

abbreviation observed :: "ExecutionObservation \<Rightarrow> ExecutionState \<Rightarrow> bool" where
  "observed obs state \<equiv> \<exists>x. obs_Execution obs = Some x \<and> exec_State x = state"

lemma attachOutputs_execution:
  "attachOutputs codec b request obj obs = Inr obs' \<Longrightarrow>
   obs_Execution obs' = obs_Execution obs \<and> obs_Resource obs' = obs_Resource obs"
  by (auto simp: attachOutputs_def output_failure_def Let_def split: if_splits option.splits)

lemma live_succeeded:
  assumes "live_observation p b request obj = Inr obs" "observed obs ExecutionStateSucceeded"
  shows "oreq_Capability request \<noteq> CapabilityDelete \<and> oreq_OperationID request \<noteq> '''' \<and>
    verify (identityFor p (oreq_ResourceType request) (oreq_ResourceID request)) obj \<and>
    operationCorrelated obj (oreq_OperationID request) (oreq_TargetGeneration request) \<and>
    (uidFromHandle (xp_codec p) request = '''' \<or> UID obj = uidFromHandle (xp_codec p) request) \<and>
    oe_readiness (evaluateObject (xp_codec p) obj b (oreq_TargetGeneration request)) = ResourceReadinessReady"
proof -
  show ?thesis
    using assms attachOutputs_execution
    by (fastforce simp: live_observation_def Let_def observation_of_def conflictedObservation_def runningObservation_def
        execution_of_def failed_execution_def split: if_splits option.splits)
qed

lemma live_present: "live_observation p b request obj = Inr obs \<Longrightarrow> facts_Presence (obs_Resource obs) = ResourcePresencePresent"
  using attachOutputs_execution
  by (fastforce simp: live_observation_def Let_def observation_of_def conflictedObservation_def runningObservation_def
      presentFacts_def split: if_splits option.splits)

section \<open>Properties\<close>

text \<open>
  A run of calls for a Resource: none at all, or against the target of the Resource and guarded.
\<close>

definition on_target :: "Provisioner \<Rightarrow> ResourceTypeRef \<Rightarrow> resource_id \<Rightarrow> exchange list \<Rightarrow> bool" where
  "on_target p ref rid h \<longleftrightarrow>
     h = [] \<or> (\<exists>T. target_of p ref rid = Some T \<and> guarded (identityFor p ref rid) T None None h)"

text \<open>Absence proven at the target of a Resource.\<close>

definition target_absent :: "Provisioner \<Rightarrow> ResourceTypeRef \<Rightarrow> resource_id \<Rightarrow> exchange list \<Rightarrow> bool" where
  "target_absent p ref rid h \<longleftrightarrow> (\<exists>T. target_of p ref rid = Some T \<and> absence_proven T h)"

lemma Observe_on_target:
  assumes "run_state (Observe p query) [] = (answer, k)"
  shows "writes k = 0 \<and> on_target p (oreq_ResourceType query) (oreq_ResourceID query) k"
  using assms
proof (rule Observe_run)
  fix b e verdicts
  assume b: "Provisioner_resolveBinding p (oreq_ResourceType query) (oreq_Capability query) = Inr b"
    and k: "k = target_get p b (oreq_ResourceID query) (Inl e) # map (ServedX (xb_gvr b)) verdicts"
  show ?thesis
    using resolved_target [OF b] k served_guarded(2) [of "xb_gvr b" verdicts] served_guarded(1) [where T = "binding_target p b (oreq_ResourceID query)"]
    by (simp add: on_target_def binding_target_def)
qed (auto simp: on_target_def binding_target_def dest!: resolved_target)


text \<open>
  C11: What a submission to Crossplane reports is grounded in what the API server answered. It is reported
  accepted only after a write that the server acknowledged, and failed only when the server refused every
  write for certain, so nothing can have changed. Success and absence are reported for deletes only, and
  only when a call on the target of the Resource found nothing and the kind of that target is then
  confirmed to be served; the exception is a delete of the target that met a conflict and whose next read
  of it found nothing, where the code does not ask.
\<close>

theorem crossplane_submission_grounded:
  assumes "newProvisioner config client codec = Inr p" "run_state (Submit p request) [] = (r, h)"
  shows "(reported r ExecutionStateAccepted \<longrightarrow> acknowledged h) \<and>
    (reported r ExecutionStateFailed \<longrightarrow> list_all refused h) \<and>
    (reported r ExecutionStateSucceeded \<or> presence r = ResourcePresenceNotFound \<longrightarrow>
       req_Capability request = CapabilityDelete \<and> presence r = ResourcePresenceNotFound \<and>
       (target_absent p (req_ResourceType request) (req_ResourceID request) h \<or>
        reported r ExecutionStateSucceeded \<and>
        (\<exists>T. target_of p (req_ResourceType request) (req_ResourceID request) = Some T \<and> absence_assumed T h)))"
  using assms
proof (rule Submit_run)
  assume "unanswered r h"
  then show ?thesis by (auto simp: unanswered_def)
next
  fix T
  assume T: "target_of p (req_ResourceType request) (req_ResourceID request) = Some T"
    and "submit_run (identityFor p (req_ResourceType request) (req_ResourceID request)) T request r h"
  from this(2) show ?thesis unfolding submit_run_def target_absent_def T option.inject by blast
qed

text \<open>
  C32: What an observation of Crossplane reports is grounded in what it read. Absence is reported only when
  the read of the target of the Resource found nothing and the kind of that target is then confirmed to be
  served. Success means absence proven in this way for a delete, and otherwise one live object, read at the
  target, that carries the metadata of the Resource and the correlation of the Operation, is the physical
  object the handle names, is not being deleted, and whose required conditions are each True for its
  current generation or, which the loop over the rules lets pass, False for a reason that is not terminal.
\<close>

theorem crossplane_observation_grounded:
  assumes "run_state (Observe p request) [] = (Inr obs, h)"
  shows "(facts_Presence (obs_Resource obs) = ResourcePresenceNotFound \<longrightarrow>
       target_absent p (oreq_ResourceType request) (oreq_ResourceID request) h) \<and>
    (observed obs ExecutionStateSucceeded \<longrightarrow>
       (if oreq_Capability request = CapabilityDelete
        then target_absent p (oreq_ResourceType request) (oreq_ResourceID request) h
        else \<exists>obj b. map_of (xp_bindings p) (oreq_ResourceType request) = Some b \<and>
          h = [GetX (xb_gvr b) (xb_namespace b) (targetName p b (oreq_ResourceID request)) (Inr obj)] \<and>
          recognized (identityFor p (oreq_ResourceType request) (oreq_ResourceID request))
            (oreq_OperationID request) (oreq_TargetGeneration request) obj \<and>
          (uidFromHandle (xp_codec p) request = '''' \<or> UID obj = uidFromHandle (xp_codec p) request) \<and>
          \<not> Terminating obj \<and> list_all (\<lambda>rule. rule_satisfied obj rule \<or> plain_false b obj rule) (xb_readiness b)))"
  using assms
proof (rule Observe_run)
  fix b e
  assume b: "Provisioner_resolveBinding p (oreq_ResourceType request) (oreq_Capability request) = Inr b"
    and h: "IsNotFound e" "h = [target_get p b (oreq_ResourceID request) (Inl e), ServedX (xb_gvr b) ServedConfirmed]"
    and obs: "Inr obs = absent_observation request (encodeHandle (xp_codec p) b (targetName p b (oreq_ResourceID request))
        (uidFromHandle (xp_codec p) request)) absenceProven"
  have "target_absent p (oreq_ResourceType request) (oreq_ResourceID request) h"
    using h resolved_target [OF b] by (simp add: target_absent_def absence_proven_def binding_target_def)
  then show ?thesis using obs
    by (auto simp: absent_observation_def observation_of_def deletionCompleteObservation_def Let_def split: if_splits)
next
  fix b obj
  assume b: "Provisioner_resolveBinding p (oreq_ResourceType request) (oreq_Capability request) = Inr b"
    and h: "h = [target_get p b (oreq_ResourceID request) (Inr obj)]" and live: "Inr obs = live_observation p b request obj"
  have "facts_Presence (obs_Resource obs) = ResourcePresencePresent" by (rule live_present [OF live [symmetric]])
  then show ?thesis
    using h resolved_target [OF b] live_succeeded [OF live [symmetric]]
    by (auto simp: recognized_def evaluateObject_ready(1))
qed (auto simp: observation_of_def unknownFacts_def)

text \<open>
  C34: The provisioner recognizes exactly what it wrote. The manifest of a request, also after it has been
  made conditional on a version, carries the metadata of its Resource and of its Operation, and no other
  installation, Resource, Operation or generation is recognized on it.
\<close>

theorem crossplane_recognizes_its_writes:
  assumes "buildManifest codec b i name input = Inr m"
  shows "recognized i (in_OperationID input) (in_TargetGeneration input) (conditionalUpdate m v) \<and>
    (recognized i' oid generation (conditionalUpdate m v) \<longrightarrow>
       im_platformDigest i' = im_platformDigest i \<and> im_resourceID i' = im_resourceID i \<and>
       resourceTypeAnnotation (im_resourceType i') = resourceTypeAnnotation (im_resourceType i) \<and>
       oid = in_OperationID input \<and> generation = in_TargetGeneration input)"
  using buildManifest_recognized(1) [OF assms] unfolding conditionalUpdate_recognized
  by (auto simp: recognized_def verify_def operationCorrelated_def)

section \<open>Examples\<close>

definition example_codec :: Codec where
  "example_codec = \<lparr>js_Decode = (\<lambda>_. Some (JObject [], False)), js_Float64 = (\<lambda>_. None), js_Number = (\<lambda>_. None),
     js_MarshalHandle = (\<lambda>_. Inr ''{}''), js_UnmarshalHandle = (\<lambda>_. None), js_Time = (\<lambda>_. 0)\<rparr>"

definition example_xr_type :: ResourceTypeRef where "example_xr_type = \<lparr>tref_Name = ''app'', tref_Version = ''v1''\<rparr>"

definition example_xr :: Binding where
  "example_xr = \<lparr>bd_ResourceType = example_xr_type, bd_Capabilities = [CapabilityCreate, CapabilityUpdate, CapabilityDelete],
     bd_Target = \<lparr>gvk_Group = ''example.org'', gvk_Version = ''v1'', gvk_Kind = ''App''\<rparr>, bd_Plural = ''apps'',
     bd_Namespace = ''liftr'', bd_NamingVersion = NamingVersionV1, bd_EncodeInput = Some (\<lambda>_. Inr ''{}''),
     bd_Readiness = None, bd_TerminalSyncedReasons = [], bd_OutputMappings = [], bd_CurrentOutputMappingRef = ''''\<rparr>"

text \<open>A server on which nothing exists yet, that accepts every write and serves the kind.\<close>

definition example_server :: Client where
  "example_server = \<lparr>kc_Get = (\<lambda>_ _ _ _. Inl (APIError 404 '''' '''')), kc_Create = (\<lambda>_ _ _ obj. Inr obj),
     kc_Update = (\<lambda>_ _ _ _ obj _. Inr obj), kc_Delete = (\<lambda>_ _ _ _ _. None), kc_ServedResource = (\<lambda>_ _. ServedConfirmed)\<rparr>"

definition example_xp_config :: Config where
  "example_xp_config = \<lparr>cfg_Identity = ''platform'', cfg_Bindings = [example_xr]\<rparr>"

definition example_xp_request :: ExecutionRequest where
  "example_xp_request = \<lparr>req_OperationID = ''op-1'', req_AttemptNumber = 1, req_ResourceID = ''res-1'',
     req_ResourceType = example_xr_type, req_Spec = \<lparr>spec_values = []\<rparr>, req_Capability = CapabilityCreate,
     req_TargetGeneration = 1, req_OutputMappingRef = ''''\<rparr>"

definition example_xp_query :: ObservationRequest where
  "example_xp_query = \<lparr>oreq_OperationID = ''op-2'', oreq_AttemptNumber = 1, oreq_ResourceID = ''res-1'',
     oreq_ResourceType = example_xr_type, oreq_Spec = \<lparr>spec_values = []\<rparr>, oreq_Capability = CapabilityDelete,
     oreq_TargetGeneration = 1, oreq_Handle = None, oreq_OutputMappingRef = '''', oreq_OutputSourceMappingRef = ''''\<rparr>"

definition example_input :: Input where
  "example_input = \<lparr>in_OperationID = ''op-1'', in_AttemptNumber = 1, in_ResourceID = ''res-1'',
     in_ResourceType = example_xr_type, in_Capability = CapabilityCreate, in_Spec = \<lparr>spec_values = []\<rparr>,
     in_TargetGeneration = 1\<rparr>"

declare sha256_hex_def [code del]

lemma example_binding: "\<not> isl (resolveBinding example_xr)" "\<not> blank ''platform''"
  by code_simp+

lemma example_valid: "ExecutionRequest_Validate example_xp_request = Inr ()" "ObservationRequest_Validate example_xp_query = Inr ()"
  by code_simp+

declare sha256_hex_def [code]

lemma PlatformDigest_length: "PlatformDigest identity \<noteq> ''''"
  using sha256_shape(1) by (cases "sha256 (''liftr-crossplane'' @ CHR 0x00 # identity)")
    (auto simp: PlatformDigest_def sha256_hex_def hex_bytes_def hex_byte_def, metis list.size(3) zero_neq_numeral)

lemma example_configured:
  obtains p b where "newProvisioner example_xp_config example_server example_codec = Inr p"
    "xp_bindings p = [(example_xr_type, b)]" "xb_binding b = example_xr" "xp_client p = example_server" "xp_codec p = example_codec"
proof -
  obtain b where b: "resolveBinding example_xr = Inr b" "xb_binding b = example_xr"
    using example_binding(1) resolveBinding_type by (cases "resolveBinding example_xr") auto
  show ?thesis
    by (rule that) (use b PlatformDigest_length example_binding(2) in
        \<open>auto simp: newProvisioner_def Config_resolve_def example_xp_config_def example_xr_def\<close>)
qed


lemma example_manifest:
  assumes "xb_binding b = example_xr"
  shows "\<exists>m. buildManifest example_codec b i name input = Inr m"
  using assms by (simp add: buildManifest_def example_xr_def decodeEncodedSpec_def maxSpecBytes_def example_codec_def
      forbiddenSpecKeys_def Let_def)

lemma example_supported:
  assumes "xp_bindings p = [(example_xr_type, b)]" "xb_binding b = example_xr"
  shows "Provisioner_resolveBinding p example_xr_type CapabilityCreate = Inr b"
    "Provisioner_resolveBinding p example_xr_type CapabilityDelete = Inr b"
  using assms by (simp_all add: Provisioner_resolveBinding_def supportsCapability_def example_xr_def capability_defs)

theorem crossplane_submission_grounded_witness:
  "\<exists>p r h. newProvisioner example_xp_config example_server example_codec = Inr p \<and>
     run_state (Submit p example_xp_request) [] = (r, h) \<and> reported r ExecutionStateAccepted \<and> acknowledged h"
proof (rule example_configured)
  fix p b assume p: "newProvisioner example_xp_config example_server example_codec = Inr p"
    and b: "xp_bindings p = [(example_xr_type, b)]" "xb_binding b = example_xr"
    and c: "xp_client p = example_server" "xp_codec p = example_codec"
  obtain m where m: "buildExecutionManifest p b example_xp_request = Inr m"
    unfolding buildExecutionManifest_def c using example_manifest [OF b(2)] by (metis sum.case(2))
  obtain r h where run: "run_state (Submit p example_xp_request) [] = (r, h)" by fastforce
  have "reported r ExecutionStateAccepted"
    using run example_valid(1) example_supported(1) [OF b] m c
    by (auto simp: Submit_def submitCreateOrUpdate_def createMissingObject_def get_target_def client_Get_def client_Create_def
        example_xp_request_def example_server_def capability_defs Let_def submission_defs)
  then show ?thesis using crossplane_submission_grounded [OF p run] p run by blast
qed

theorem crossplane_observation_grounded_witness:
  "\<exists>p obs h. run_state (Observe p example_xp_query) [] = (Inr obs, h) \<and> observed obs ExecutionStateSucceeded \<and>
     target_absent p example_xr_type ''res-1'' h"
proof (rule example_configured)
  fix p :: Provisioner and b
  assume b: "xp_bindings p = [(example_xr_type, b)]" "xb_binding b = example_xr" and c: "xp_client p = example_server"
  obtain x h where run: "run_state (Observe p example_xp_query) [] = (x, h)" by fastforce
  then obtain obs where obs: "x = Inr obs" "observed obs ExecutionStateSucceeded"
    using example_valid(2) example_supported(2) [OF b] c
    by (auto simp: Observe_def get_target_def resolveAbsence_def client_Get_def client_ServedResource_def
        example_xp_query_def example_server_def capability_defs Let_def absent_observation_def
        deletionCompleteObservation_def observation_of_def execution_of_def)
  then have "target_absent p example_xr_type ''res-1'' h"
    using crossplane_observation_grounded [of p example_xp_query obs h] run by (simp add: example_xp_query_def)
  then show ?thesis using run obs by blast
qed

text \<open>An object at its generation 3, stamped for the generation 1 of its Resource, with one condition.\<close>

definition example_live :: "string \<Rightarrow> Object" where
  "example_live status = \<lparr>obj_raw =
     [(''metadata'', GoMap [(''generation'', GoInteger GoInt64 3),
        (''annotations'', GoMap [(annotationTargetGenerationKey, GoString (decimal64 1))])]),
      (''status'', GoMap [(''conditions'', GoSlice [GoMap [(''type'', GoString ''Ready''), (''status'', GoString status),
        (''observedGeneration'', GoInteger GoInt64 3)]])])]\<rparr>"

definition example_resolved :: resolvedBinding where
  "example_resolved = \<lparr>xb_binding = example_xr, xb_gvr = \<lparr>gvr_Group = ''example.org'', gvr_Version = ''v1'',
     gvr_Resource = ''apps''\<rparr>, xb_kind = ''App'', xb_namespace = ''liftr'',
     xb_readiness = [\<lparr>rule_Type = ''Ready'', rule_Required = True\<rparr>], xb_terminalReasons = [], xb_outputs = []\<rparr>"

lemma example_live_condition:
  "conditionByType (Conditions (example_live status)) ''Ready'' = Some [(''type'', GoString ''Ready''),
     (''status'', GoString status), (''observedGeneration'', GoInteger GoInt64 3)]"
  by (simp add: example_live_def Conditions_def Object_Status_def conditionByType_def map_filter_simps
      text_field_def string_field_def childMap_def)

lemma example_live_metadata:
  "Object_Generation (example_live status) = 3" "\<not> Terminating (example_live status)"
  "AnnotationString (example_live status) annotationTargetGenerationKey = Some (decimal64 1)"
  by (simp_all add: example_live_def Object_Generation_def Terminating_def AnnotationString_def Metadata_def
      string_field_def childMap_def)

lemma example_live_generation: "annotationTargetGeneration (example_live status) = Some 1"
  by (simp only: annotationTargetGeneration_def example_live_metadata Option.bind.simps ParseUint_decimal64)

lemma example_live_satisfied:
  "list_all (rule_satisfied (example_live status)) (xb_readiness example_resolved) \<longleftrightarrow> status = ''True''"
  "status \<noteq> ''False'' \<Longrightarrow>
   list_all (\<lambda>rule. \<not> plain_false example_resolved (example_live status) rule) (xb_readiness example_resolved)"
  by (simp_all add: example_resolved_def rule_satisfied_def plain_false_def example_live_condition example_live_metadata
      conditionObservedGeneration_def text_field_def string_field_def)

theorem crossplane_readiness_exact_witness:
  "oe_readiness (evaluateObject example_codec (example_live ''True'') example_resolved 1) = ResourceReadinessReady \<and>
   oe_readiness (evaluateObject example_codec (example_live ''Unknown'') example_resolved 1) \<noteq> ResourceReadinessReady"
proof -
  note exact = crossplane_readiness_exact [OF example_live_satisfied(2), of _ example_codec 1]
  have "''True'' \<noteq> ''False''" "''Unknown'' \<noteq> ''False''" "''Unknown'' \<noteq> ''True''" by simp_all
  then show ?thesis
    using exact [of "''True''"] exact [of "''Unknown''"] example_live_generation example_live_metadata(2)
    by (simp only: example_live_satisfied(1) simp_thms)
qed

theorem crossplane_recognizes_its_writes_witness:
  "\<exists>m. buildManifest example_codec (\<lparr>xb_binding = example_xr, xb_gvr = \<lparr>gvr_Group = ''example.org'', gvr_Version = ''v1'',
        gvr_Resource = ''apps''\<rparr>, xb_kind = ''App'', xb_namespace = ''liftr'', xb_readiness = [], xb_terminalReasons = [],
        xb_outputs = []\<rparr>) \<lparr>im_platformDigest = ''d'', im_resourceID = ''res-1'', im_resourceType = example_xr_type\<rparr>
        ''liftr-1'' example_input = Inr m \<and>
     recognized \<lparr>im_platformDigest = ''d'', im_resourceID = ''res-1'', im_resourceType = example_xr_type\<rparr> ''op-1'' 1
       (conditionalUpdate m ''7'')"
proof -
  let ?b = "\<lparr>xb_binding = example_xr, xb_gvr = \<lparr>gvr_Group = ''example.org'', gvr_Version = ''v1'',
        gvr_Resource = ''apps''\<rparr>, xb_kind = ''App'', xb_namespace = ''liftr'', xb_readiness = [], xb_terminalReasons = [],
        xb_outputs = []\<rparr>"
  let ?i = "\<lparr>im_platformDigest = ''d'', im_resourceID = ''res-1'', im_resourceType = example_xr_type\<rparr>"
  obtain m where m: "buildManifest example_codec ?b ?i ''liftr-1'' example_input = Inr m"
    using example_manifest [of ?b ?i "''liftr-1''" example_input] by auto
  from crossplane_recognizes_its_writes [OF m] m show ?thesis by (auto simp: example_input_def)
qed

end
