(* ===== verification/Policy_Document.thy ===== *)
theory Policy_Document
  imports Policy Json "HOL-Library.Multiset"
begin

text \<open>
  The policy document: \<^verbatim>\<open>LoadFile\<close> and \<^verbatim>\<open>Parse\<close> of \<^verbatim>\<open>internal/policy/policy.go\<close>, from the bytes of a file
  to the rules that \<open>Policy\<close> plans and decides with. The decoder of JSON texts and the encoder of the
  canonical document are parameters.
\<close>

definition APIVersion :: string where "APIVersion = ''liftr.dev/admission-policy/v1''"
definition MaxFileBytes :: nat where "MaxFileBytes = 2 ^ 20"
definition MaxRules :: nat where "MaxRules = 1024"
definition MaxSelectorBytes :: nat where "MaxSelectorBytes = 256"
definition MaxQuotaLimit :: uint64 where "MaxQuotaLimit = 1000000000"

section \<open>Unambiguous documents\<close>

text \<open>No object names a member twice, and values nest at most 32 levels deep.\<close>

fun scanJSONValue :: "nat \<Rightarrow> json \<Rightarrow> unit result"
  and scanMembers :: "nat \<Rightarrow> string list \<Rightarrow> (string \<times> json) list \<Rightarrow> unit result"
  and scanElements :: "nat \<Rightarrow> json list \<Rightarrow> unit result" where
  "scanJSONValue depth v =
     (if 32 < depth then Inl (ErrMessage ''nesting exceeds 32 levels'')
      else case v of
        JObject members \<Rightarrow> scanMembers depth [] members
      | JArray elements \<Rightarrow> scanElements depth elements
      | _ \<Rightarrow> Inr ())"
| "scanMembers depth seen [] = Inr ()"
| "scanMembers depth seen ((name, v) # members) =
     (if name \<in> set seen then Inl (ErrMessage ''duplicate object member'')
      else bindE (scanJSONValue (depth + 1) v) (\<lambda>_. scanMembers depth (name # seen) members))"
| "scanElements depth [] = Inr ()"
| "scanElements depth (v # elements) =
     bindE (scanJSONValue (depth + 1) v) (\<lambda>_. scanElements depth elements)"

definition validateUniqueJSON :: "json_reader \<Rightarrow> string \<Rightarrow> json result" where
  "validateUniqueJSON reader raw =
     (case reader raw of
        None \<Rightarrow> Inl (ErrMessage ''invalid policy JSON'')
      | Some (document, trailing) \<Rightarrow>
          bindE (scanJSONValue 0 document) (\<lambda>_.
          if trailing then Inl (ErrMessage ''invalid policy JSON: trailing JSON value'') else Inr document))"

section \<open>Fields\<close>

definition decodeObject :: "json \<Rightarrow> string list \<Rightarrow> (string, json) table result" where
  "decodeObject v allowed =
     (case v of
        JObject members \<Rightarrow>
          if list_all (\<lambda>(name, _). name \<in> set allowed) members then Inr (json_map members)
          else Inl (ErrMessage ''unknown field'')
      | _ \<Rightarrow> Inl (ErrMessage ''value must be a JSON object''))"

definition requiredString :: "(string, json) table \<Rightarrow> string \<Rightarrow> string result" where
  "requiredString obj name =
     (case map_of obj name of
        None \<Rightarrow> Inl (ErrMessage ''field is required'')
      | Some (JString text) \<Rightarrow>
          if text = '''' then Inl (ErrMessage ''field must be a non-empty string'') else Inr text
      | Some _ \<Rightarrow> Inl (ErrMessage ''field must be a non-empty string''))"

definition canonicalSelectorString :: "(string, json) table \<Rightarrow> string \<Rightarrow> string result" where
  "canonicalSelectorString obj name =
     bindE (requiredString obj name) (\<lambda>text.
       if text \<noteq> TrimSpace text \<or> MaxSelectorBytes < length text
       then Inl (ErrMessage ''field must be canonical and bounded'') else Inr text)"

definition parseOwner :: "json \<Rightarrow> OwnerRef result" where
  "parseOwner raw =
     bindE (decodeObject raw [''kind'', ''id'']) (\<lambda>obj.
     bindE (canonicalSelectorString obj ''kind'') (\<lambda>kind.
     bindE (canonicalSelectorString obj ''id'') (\<lambda>oid.
       Inr \<lparr>owner_Kind = kind, owner_ID = oid\<rparr>)))"

definition parseResourceType :: "json \<Rightarrow> ResourceTypeRef result" where
  "parseResourceType raw =
     bindE (decodeObject raw [''name'', ''version'']) (\<lambda>obj.
     bindE (canonicalSelectorString obj ''name'') (\<lambda>name.
     bindE (canonicalSelectorString obj ''version'') (\<lambda>version.
       Inr \<lparr>tref_Name = name, tref_Version = version\<rparr>)))"

text \<open>A limit that is no number is refused by one of the two messages, depending on its characters.\<close>

definition parseLimit :: "json \<Rightarrow> uint64 result" where
  "parseLimit raw =
     (case raw of
        JNumber text \<Rightarrow>
          if text = '''' \<or> list_ex (\<lambda>c. c \<in> set ''.eE+-'') text
          then Inl (ErrMessage ''limit must be a positive bounded integer'')
          else (case ParseUint text of
              None \<Rightarrow> Inl (ErrMessage ''limit must be between 1 and 1000000000'')
            | Some n \<Rightarrow> if n = 0 \<or> MaxQuotaLimit < n
                then Inl (ErrMessage ''limit must be between 1 and 1000000000'') else Inr n)
      | _ \<Rightarrow> Inl (ErrMessage ''limit must be a positive bounded integer''))"

section \<open>Rules\<close>

text \<open>\<^verbatim>\<open>^[a-z0-9][a-z0-9._-]{0,63}$\<close>.\<close>

definition lower_alnum :: "char \<Rightarrow> bool" where
  "lower_alnum c \<longleftrightarrow> CHR ''a'' \<le> c \<and> c \<le> CHR ''z'' \<or> CHR ''0'' \<le> c \<and> c \<le> CHR ''9''"

definition ruleIDPattern :: "string \<Rightarrow> bool" where
  "ruleIDPattern s \<longleftrightarrow>
     s \<noteq> '''' \<and> lower_alnum (hd s) \<and> length (tl s) \<le> 63 \<and>
     list_all (\<lambda>c. lower_alnum c \<or> c \<in> set ''._-'') (tl s)"

text \<open>Decoding into a slice of strings: a null element stays empty, a null array has no elements.\<close>

definition string_elements :: "json \<Rightarrow> string list option" where
  "string_elements v =
     (case v of
        JArray elements \<Rightarrow>
          those (map (\<lambda>e. case e of JString text \<Rightarrow> Some text | JNull \<Rightarrow> Some '''' | _ \<Rightarrow> None) elements)
      | JNull \<Rightarrow> Some []
      | _ \<Rightarrow> None)"

fun deny_capabilities :: "string list \<Rightarrow> AdmissionMutation list \<Rightarrow> AdmissionMutation list result" where
  "deny_capabilities [] seen = Inr seen"
| "deny_capabilities (text # texts) seen =
     (if text \<noteq> ''create'' \<and> text \<noteq> ''update'' then Inl (ErrMessage ''unsupported denied capability'')
      else let capability = (if text = ''create'' then AdmissionCreate else AdmissionUpdate) in
        if capability \<in> set seen then Inl (ErrMessage ''capability is duplicated'')
        else deny_capabilities texts (seen @ [capability]))"

definition parse_owner_selector :: "(string, json) table \<Rightarrow> OwnerRef option result" where
  "parse_owner_selector obj =
     (case map_of obj ''owner'' of None \<Rightarrow> Inr None | Some raw \<Rightarrow> bindE (parseOwner raw) (\<lambda>w. Inr (Some w)))"

definition parse_type_selector ::
    "(string, json) table \<Rightarrow> ResourceTypeRef list \<Rightarrow> ResourceTypeRef option result" where
  "parse_type_selector obj registered =
     (case map_of obj ''resourceType'' of
        None \<Rightarrow> Inr None
      | Some raw \<Rightarrow> bindE (parseResourceType raw) (\<lambda>ref.
          if ref \<notin> set registered then Inl (ErrMessage ''ResourceType is not registered'') else Inr (Some ref)))"

definition parse_capability_deny ::
    "(string, json) table \<Rightarrow> ResourceTypeRef option \<Rightarrow> AdmissionMutation list result" where
  "parse_capability_deny obj ref =
     (if ref = None then Inl (ErrMessage ''capability-deny requires an exact resourceType'')
      else if map_of obj ''limit'' \<noteq> None then Inl (ErrMessage ''capability-deny does not accept limit'')
      else case map_of obj ''capabilities'' of
        None \<Rightarrow> Inl (ErrMessage ''capabilities is required'')
      | Some raw \<Rightarrow> (case string_elements raw of
          None \<Rightarrow> Inl (ErrMessage ''capabilities must be a non-empty array'')
        | Some caps \<Rightarrow>
            if caps = [] then Inl (ErrMessage ''capabilities must be a non-empty array'')
            else bindE (deny_capabilities caps []) (\<lambda>capabilities. Inr (sort_key mutation_string capabilities))))"

definition parse_quota :: "(string, json) table \<Rightarrow> uint64 result" where
  "parse_quota obj =
     (if map_of obj ''capabilities'' \<noteq> None
      then Inl (ErrMessage ''resource-count-quota does not accept capabilities'')
      else case map_of obj ''limit'' of
        None \<Rightarrow> Inl (ErrMessage ''limit is required'') | Some raw \<Rightarrow> parseLimit raw)"

definition parseRule :: "ResourceTypeRef list \<Rightarrow> json \<Rightarrow> compiledRule result" where
  "parseRule registered raw =
     bindE (decodeObject raw [''id'', ''kind'', ''owner'', ''resourceType'', ''capabilities'', ''limit'']) (\<lambda>obj.
     bindE (requiredString obj ''id'') (\<lambda>rid.
     if \<not> ruleIDPattern rid then Inl (ErrMessage ''rule ID must match the pattern'')
     else bindE (requiredString obj ''kind'') (\<lambda>kindText.
     bindE (parse_owner_selector obj) (\<lambda>rowner.
     bindE (parse_type_selector obj registered) (\<lambda>ref.
     if kindText = rule_kind_string kindCapabilityDeny
       then bindE (parse_capability_deny obj ref) (\<lambda>capabilities.
         Inr \<lparr>rule_ID = rid, rule_Kind = kindCapabilityDeny, rule_Owner = rowner, rule_ResourceType = ref,
              rule_Capabilities = capabilities, rule_Limit = 0\<rparr>)
     else if kindText = rule_kind_string kindResourceQuota
       then bindE (parse_quota obj) (\<lambda>limit.
         Inr \<lparr>rule_ID = rid, rule_Kind = kindResourceQuota, rule_Owner = rowner, rule_ResourceType = ref,
              rule_Capabilities = [], rule_Limit = limit\<rparr>)
     else Inl (ErrMessage ''unsupported rule kind''))))))"

section \<open>Documents\<close>

text \<open>
  The loop over the rules interleaves parsing with the checks for duplicates; every rule is parsed
  before the rules after it are looked at.
\<close>

fun parse_rules ::
    "ResourceTypeRef list \<Rightarrow> json list \<Rightarrow> string list \<Rightarrow> (string, string) table \<Rightarrow> compiledRule list result" where
  "parse_rules registered [] ids semantics = Inr []"
| "parse_rules registered (raw # raws) ids semantics =
     bindE (parseRule registered raw) (\<lambda>rule.
     if rule_ID rule \<in> set ids then Inl (ErrMessage ''rule ID is duplicated'')
     else bindE (claim_keys (rule_ID rule) (semanticKeys rule) semantics) (\<lambda>semantics'.
     bindE (parse_rules registered raws (rule_ID rule # ids) semantics') (\<lambda>rules. Inr (rule # rules))))"

definition normal_order :: "compiledRule list \<Rightarrow> compiledRule list" where
  "normal_order rules = sort_key (\<lambda>r. (rule_kind_string (rule_Kind r), rule_ID r)) rules"

definition Parse ::
    "json_reader \<Rightarrow> (compiledRule list \<Rightarrow> string result) \<Rightarrow> string \<Rightarrow> ResourceTypeRef list \<Rightarrow> Policy result" where
  "Parse reader marshal raw registered =
     (if raw = '''' then Inl (ErrMessage ''policy document is empty'')
      else if MaxFileBytes < length raw then Inl (ErrMessage ''policy document exceeds 1048576 bytes'')
      else bindE (validateUniqueJSON reader raw) (\<lambda>document.
      bindE (decodeObject document [''apiVersion'', ''rules'']) (\<lambda>root.
      bindE (requiredString root ''apiVersion'') (\<lambda>version.
      if version \<noteq> APIVersion then Inl (ErrMessage ''apiVersion must be liftr.dev/admission-policy/v1'')
      else case map_of root ''rules'' of
        None \<Rightarrow> Inl (ErrMessage ''rules is required'')
      | Some (JArray raws) \<Rightarrow>
          if MaxRules < length raws then Inl (ErrMessage ''policy declares more than 1024 rules'')
          else bindE (parse_rules registered raws [] []) (\<lambda>rules.
            bindE (marshal (normal_order rules)) (\<lambda>canonical.
            Inr \<lparr>policy_revision = NewPolicyRevision canonical, policy_rules = normal_order rules\<rparr>))
      | Some _ \<Rightarrow> Inl (ErrMessage ''rules must be an array'')))))"

definition empty_document :: string where
  "empty_document = ''{\"apiVersion\":\"liftr.dev/admission-policy/v1\",\"rules\":[]}''"

text \<open>
  \<open>catalog\<close> is what listing the ResourceTypes gives, \<open>None\<close> without a catalog; \<open>read_file\<close> reads a whole
  file, of which at most one byte more than allowed is looked at.
\<close>

definition LoadFile ::
    "json_reader \<Rightarrow> (compiledRule list \<Rightarrow> string result) \<Rightarrow> (string \<Rightarrow> string result) \<Rightarrow> string
      \<Rightarrow> ResourceTypeRef list result option \<Rightarrow> Policy result" where
  "LoadFile reader marshal read_file path catalog =
     (case catalog of
        None \<Rightarrow> Inl (ErrMessage ''policy ResourceType catalog is required'')
      | Some (Inl _) \<Rightarrow> Inl (ErrMessage ''list ResourceTypes for policy validation'')
      | Some (Inr registered) \<Rightarrow>
          if blank path then Parse reader marshal empty_document registered
          else (case read_file path of
              Inl _ \<Rightarrow> Inl (ErrMessage ''read policy file'')
            | Inr contents \<Rightarrow>
                let raw = take (MaxFileBytes + 1) contents in
                if MaxFileBytes < length raw then Inl (ErrMessage ''policy file exceeds 1048576 bytes'')
                else (case Parse reader marshal raw registered of
                    Inl _ \<Rightarrow> Inl (ErrMessage ''parse policy file'')
                  | Inr p \<Rightarrow> Inr p)))"

section \<open>What loading guarantees\<close>

definition loaded_rule :: "ResourceTypeRef list \<Rightarrow> compiledRule \<Rightarrow> bool" where
  "loaded_rule registered r \<longleftrightarrow>
     ruleIDPattern (rule_ID r) \<and>
     (\<forall>ref. rule_ResourceType r = Some ref \<longrightarrow> ref \<in> set registered) \<and>
     (rule_Kind r = kindCapabilityDeny \<longrightarrow> rule_ResourceType r \<noteq> None \<and> rule_Capabilities r \<noteq> [] \<and>
        distinct (rule_Capabilities r) \<and> set (rule_Capabilities r) \<subseteq> {AdmissionCreate, AdmissionUpdate}) \<and>
     (rule_Kind r = kindResourceQuota \<longrightarrow> 0 < rule_Limit r \<and> rule_Limit r \<le> MaxQuotaLimit)"

lemma loaded_rule_wf: "loaded_rule registered r \<Longrightarrow> wf_rule r"
  by (auto simp: loaded_rule_def wf_rule_def ruleIDPattern_def)

lemma deny_capabilities_Inr:
  assumes "deny_capabilities texts seen = Inr capabilities"
    and "distinct seen" "set seen \<subseteq> {AdmissionCreate, AdmissionUpdate}"
  shows "distinct capabilities \<and> set capabilities \<subseteq> {AdmissionCreate, AdmissionUpdate} \<and>
    length capabilities = length seen + length texts"
  using assms
proof (induction texts arbitrary: seen)
  case (Cons t ts)
  from Cons.prems Cons.IH [of "seen @ [if t = ''create'' then AdmissionCreate else AdmissionUpdate]"]
  show ?case by (auto simp: Let_def split: if_splits)
qed simp

lemma parse_capability_deny_Inr:
  assumes "parse_capability_deny obj ref = Inr capabilities"
  shows "ref \<noteq> None \<and> capabilities \<noteq> [] \<and> distinct capabilities \<and>
    set capabilities \<subseteq> {AdmissionCreate, AdmissionUpdate}"
  using assms deny_capabilities_Inr [of _ "[]"]
  by (fastforce simp: parse_capability_deny_def split: option.splits if_splits)

lemma parse_quota_Inr:
  "parse_quota obj = Inr limit \<Longrightarrow> 0 < limit \<and> limit \<le> MaxQuotaLimit"
  by (auto simp: parse_quota_def parseLimit_def not_less word_gt_0 split: option.splits json.splits if_splits)

lemma parse_type_selector_Inr:
  "parse_type_selector obj registered = Inr (Some ref) \<Longrightarrow> ref \<in> set registered"
  by (auto simp: parse_type_selector_def split: option.splits if_splits)

lemma parseRule_Inr:
  assumes "parseRule registered raw = Inr r"
  shows "loaded_rule registered r"
proof -
  from assms consider
    (deny) rid w ref capabilities obj where
      "r = \<lparr>rule_ID = rid, rule_Kind = kindCapabilityDeny, rule_Owner = w, rule_ResourceType = ref,
            rule_Capabilities = capabilities, rule_Limit = 0\<rparr>"
      "ruleIDPattern rid" "parse_type_selector obj registered = Inr ref"
      "parse_capability_deny obj ref = Inr capabilities"
  | (quota) rid w ref limit obj where
      "r = \<lparr>rule_ID = rid, rule_Kind = kindResourceQuota, rule_Owner = w, rule_ResourceType = ref,
            rule_Capabilities = [], rule_Limit = limit\<rparr>"
      "ruleIDPattern rid" "parse_type_selector obj registered = Inr ref" "parse_quota obj = Inr limit"
    unfolding parseRule_def by (auto split: if_splits)
  then show ?thesis
  proof cases
    case deny
    then show ?thesis
      using parse_capability_deny_Inr [OF deny(4)] parse_type_selector_Inr [of obj registered]
      by (simp add: loaded_rule_def)
  next
    case quota
    then show ?thesis
      using parse_quota_Inr [OF quota(4)] parse_type_selector_Inr [of obj registered]
      by (simp add: loaded_rule_def)
  qed
qed

lemma parse_rules_Inr:
  assumes "parse_rules registered raws ids semantics = Inr rules"
  shows "list_all2 (\<lambda>raw rule. parseRule registered raw = Inr rule) raws rules \<and>
    check_rules rules ids semantics = Inr ()"
  using assms
  by (induction raws arbitrary: ids semantics rules) (auto split: if_splits)

text \<open>Conversely, rules that parse and pass the checks are the rules of the document.\<close>

lemma parse_rules_complete:
  assumes "list_all2 (\<lambda>raw rule. parseRule registered raw = Inr rule) raws rules"
    and "check_rules rules ids semantics = Inr ()"
  shows "parse_rules registered raws ids semantics = Inr rules"
  using assms
  by (induction raws rules arbitrary: ids semantics rule: list_all2_induct) (auto split: if_splits)

lemma claim_keys_Inr:
  "claim_keys rid keys semantics = Inr semantics' \<Longrightarrow>
     distinct keys \<and> set keys \<inter> dom (map_of semantics) = {} \<and>
     dom (map_of semantics') = dom (map_of semantics) \<union> set keys"
proof (induction keys arbitrary: semantics)
  case (Cons key keys)
  then have fresh: "map_of semantics key = None"
    and rest: "claim_keys rid keys (put key rid semantics) = Inr semantics'" by (auto split: if_splits)
  show ?case using Cons.IH [OF rest] fresh by auto
qed simp

lemma claim_keys_succeeds:
  "distinct keys \<Longrightarrow> set keys \<inter> dom (map_of semantics) = {} \<Longrightarrow>
     \<exists>semantics'. claim_keys rid keys semantics = Inr semantics'"
proof (induction keys arbitrary: semantics)
  case (Cons key keys)
  then have "map_of semantics key = None" by auto
  with Cons show ?case by (force intro!: Cons.IH)
qed simp

text \<open>The checks accept a list of rules exactly when no identifier and no restriction occurs twice.\<close>

lemma check_rules_iff:
  "check_rules rules ids semantics = Inr () \<longleftrightarrow>
     distinct (map rule_ID rules) \<and> set (map rule_ID rules) \<inter> set ids = {} \<and>
     distinct (concat (map semanticKeys rules)) \<and>
     set (concat (map semanticKeys rules)) \<inter> dom (map_of semantics) = {}"
proof (induction rules arbitrary: ids semantics)
  case (Cons rule rules)
  show ?case
  proof (cases "rule_ID rule \<notin> set ids \<and> distinct (semanticKeys rule) \<and>
      set (semanticKeys rule) \<inter> dom (map_of semantics) = {}")
    case True
    then obtain semantics' where claimed: "claim_keys (rule_ID rule) (semanticKeys rule) semantics = Inr semantics'"
      using claim_keys_succeeds by blast
    with True show ?thesis using claim_keys_Inr [OF claimed] by (auto simp: Cons.IH)
  next
    case False
    then show ?thesis using claim_keys_Inr by (fastforce simp: bindE_eq_Inr)
  qed
qed simp

lemma rules_array:
  "(case v of None \<Rightarrow> Inl a | Some (JArray raws) \<Rightarrow> f raws | Some _ \<Rightarrow> Inl b) = Inr p \<longleftrightarrow>
     (\<exists>raws. v = Some (JArray raws) \<and> f raws = Inr p)"
  by (auto split: option.splits json.splits)

lemma Parse_parts:
  "Parse reader marshal raw registered = Inr p \<longleftrightarrow>
     raw \<noteq> '''' \<and> length raw \<le> MaxFileBytes \<and>
     (\<exists>document root raws rules canonical.
        validateUniqueJSON reader raw = Inr document \<and>
        decodeObject document [''apiVersion'', ''rules''] = Inr root \<and>
        requiredString root ''apiVersion'' = Inr APIVersion \<and>
        map_of root ''rules'' = Some (JArray raws) \<and> length raws \<le> MaxRules \<and>
        parse_rules registered raws [] [] = Inr rules \<and> marshal (normal_order rules) = Inr canonical \<and>
        p = \<lparr>policy_revision = NewPolicyRevision canonical, policy_rules = normal_order rules\<rparr>)"
  unfolding Parse_def if_Inl_eq_Inr bindE_eq_Inr rules_array not_less by blast

lemma Parse_Inr:
  assumes "Parse reader marshal raw registered = Inr p"
  obtains rules where "compile_policy marshal rules = Inr p" "list_all (loaded_rule registered) rules"
    "policy_rules p = normal_order rules"
proof -
  from assms obtain raws rules canonical where parsed: "parse_rules registered raws [] [] = Inr rules"
    and marshalled: "marshal (normal_order rules) = Inr canonical"
    and p: "p = \<lparr>policy_revision = NewPolicyRevision canonical, policy_rules = normal_order rules\<rparr>"
    unfolding Parse_parts by blast
  note good = parse_rules_Inr [OF parsed]
  have "list_all (loaded_rule registered) rules"
    using good by (auto simp: list_all2_conv_all_nth list_all_length intro: parseRule_Inr)
  moreover have "compile_policy marshal rules = Inr p"
    using good marshalled by (simp add: compile_policy_def p Let_def normal_order_def)
  ultimately show ?thesis using that p by simp
qed

lemma LoadFile_Inr:
  assumes "LoadFile reader marshal read_file path catalog = Inr p"
  obtains raw registered where "catalog = Some (Inr registered)" "Parse reader marshal raw registered = Inr p"
  using assms unfolding LoadFile_def by (auto simp: Let_def split: option.splits sum.splits if_splits)

lemma scanElements_iff:
  "scanElements depth elements = Inr () \<longleftrightarrow> list_all (\<lambda>v. scanJSONValue (depth + 1) v = Inr ()) elements"
  by (induction elements) auto

text \<open>Rules with distinct identifiers have one normal order.\<close>

lemma normal_order_unique:
  assumes "mset rules = mset rules'" "distinct (map rule_ID rules)"
  shows "normal_order rules = normal_order rules'"
proof -
  let ?key = "\<lambda>r. (rule_kind_string (rule_Kind r), rule_ID r)"
  have only: "filter (\<lambda>r. ?key k = ?key r) rs = replicate (count (mset rules) k) k"
    if "mset rs = mset rules" "k \<in> set rules" for rs k
  proof -
    have "filter (\<lambda>r. ?key k = ?key r) rs = filter ((=) k) rs"
      using assms(2) that by (intro filter_cong) (auto simp: distinct_map inj_on_def dest: mset_eq_setD)
    then show ?thesis using that(1) by (simp add: replicate_count_mset_eq_filter_eq [symmetric])
  qed
  show ?thesis unfolding normal_order_def
  proof (rule properties_for_sort_key)
    fix k assume "k \<in> set (sort_key ?key rules')"
    then have "k \<in> set rules" using mset_eq_setD [OF assms(1)] by simp
    then show "filter (\<lambda>r. ?key k = ?key r) (sort_key ?key rules') = filter (\<lambda>r. ?key k = ?key r) rules"
      using only [of "sort_key ?key rules'" k] only [of rules k] assms(1) by simp
  qed (use assms in simp_all)
qed

lemma mset_concat_perm:
  "mset xs = mset ys \<Longrightarrow> mset (concat (map f xs)) = mset (concat (map f ys))"
  by (metis mset_concat map_map mset_map sum_mset_sum_list)

lemma check_rules_perm:
  assumes "mset rules = mset rules'" "check_rules rules [] [] = Inr ()"
  shows "check_rules rules' [] [] = Inr ()"
proof -
  have "mset (map rule_ID rules) = mset (map rule_ID rules')" using assms(1) by simp
  then have "distinct (map rule_ID rules) = distinct (map rule_ID rules')" by (rule mset_eq_imp_distinct_iff)
  moreover have "distinct (concat (map semanticKeys rules)) = distinct (concat (map semanticKeys rules'))"
    using mset_concat_perm [OF assms(1)] by (rule mset_eq_imp_distinct_iff)
  ultimately show ?thesis using assms(2) by (simp add: check_rules_iff)
qed

section \<open>Properties\<close>

text \<open>
  C14: A policy that the server loads is well formed and decides every complete intent exactly as its
  rules mean it. Identifiers match their pattern and are distinct, selected types are registered,
  denials name an exact type and at least one mutation, limits lie between 1 and 1000000000, and the
  rules stand in normal order. Planning and deciding then never fail; the intent is admitted if and
  only if every rule admits it, and the denial of a refusal names a rule that forbids the intent.
\<close>

theorem loaded_policy_exact:
  assumes "LoadFile reader marshal read_file path catalog = Inr p" and "complete_intent intent"
    and "rcf_Available facts" "rcf_Owner facts = ai_Owner intent" "rcf_ResourceType facts = ai_ResourceType intent"
  shows "(\<exists>registered. catalog = Some (Inr registered) \<and> list_all (loaded_rule registered) (policy_rules p)) \<and>
    distinct (map rule_ID (policy_rules p)) \<and>
    sorted (map (\<lambda>r. (rule_kind_string (rule_Kind r), rule_ID r)) (policy_rules p)) \<and>
    (\<exists>plan decision. Policy_Plan p intent = Inr plan \<and> Policy_Decide p plan facts = Inr decision \<and>
      de_Revision decision = policy_revision p \<and>
      (de_Outcome decision = AdmissionAllowed \<longleftrightarrow> (\<forall>r \<in> set (policy_rules p). rule_admits intent facts r)) \<and>
      (\<forall>denial. de_Denial decision = Some denial \<longrightarrow>
         (\<exists>r \<in> set (policy_rules p). pd_RuleID denial = rule_ID r \<and> \<not> rule_admits intent facts r)))"
proof -
  obtain raw registered where catalog: "catalog = Some (Inr registered)"
    and parsed: "Parse reader marshal raw registered = Inr p" using assms(1) by (rule LoadFile_Inr)
  obtain rules where compiled: "compile_policy marshal rules = Inr p"
    and loaded: "list_all (loaded_rule registered) rules" and order: "policy_rules p = normal_order rules"
    using parsed by (rule Parse_Inr)
  have same: "set (policy_rules p) = set rules" by (simp add: order normal_order_def)
  have wf: "list_all wf_rule rules" using loaded by (auto simp: list_all_iff loaded_rule_wf)
  have checked: "check_rules rules [] [] = Inr ()" using compiled by (auto simp: compile_policy_def)
  have "mset (map rule_ID (policy_rules p)) = mset (map rule_ID rules)" by (simp add: order normal_order_def)
  then have "distinct (map rule_ID (policy_rules p))"
    using checked by (metis mset_eq_imp_distinct_iff check_rules_iff)
  moreover have "sorted (map (\<lambda>r. (rule_kind_string (rule_Kind r), rule_ID r)) (policy_rules p))"
    by (simp add: order normal_order_def)
  moreover have "list_all (loaded_rule registered) (policy_rules p)" using loaded by (simp add: list_all_iff same)
  ultimately show ?thesis using catalog policy_decision_exact [OF compiled wf assms(2-5)] unfolding same by blast
qed

text \<open>
  C28: The revision of a policy does not depend on the order in which its document lists the rules.
  If a document loads, then every document with the same rules in another order loads as well, and to
  the very same policy.
\<close>

theorem rule_order_irrelevant:
  assumes "Parse reader marshal raw registered = Inr p"
    and "reader raw = Some (JObject [(''apiVersion'', version), (''rules'', JArray raws)], False)"
    and "reader raw' = Some (JObject [(''apiVersion'', version), (''rules'', JArray raws')], False)"
    and "mset raws = mset raws'" and "raw' \<noteq> ''''" and "length raw' \<le> MaxFileBytes"
  shows "Parse reader marshal raw' registered = Inr p"
proof -
  have sets: "set raws = set raws'" using assms(4) by (rule mset_eq_setD)
  have short: "length raws' = length raws" using assms(4) by (metis size_mset)
  from assms(1) obtain root rules canonical where doc: "validateUniqueJSON reader raw =
        Inr (JObject [(''apiVersion'', version), (''rules'', JArray raws)])"
    and root: "requiredString (json_map [(''apiVersion'', version), (''rules'', JArray raws)]) ''apiVersion'' = Inr APIVersion"
    and bound: "length raws \<le> MaxRules" and parsed: "parse_rules registered raws [] [] = Inr rules"
    and marshalled: "marshal (normal_order rules) = Inr canonical"
    and p: "p = \<lparr>policy_revision = NewPolicyRevision canonical, policy_rules = normal_order rules\<rparr>"
    unfolding Parse_parts by (auto simp: validateUniqueJSON_def assms(2) decodeObject_def json_map_def)
  note good = parse_rules_Inr [OF parsed]
  then have ids: "distinct (map rule_ID rules)" by (simp add: check_rules_iff)
  obtain rules' where rules': "list_all2 (\<lambda>raw rule. parseRule registered raw = Inr rule) raws' rules'"
    and perm: "mset rules' = mset rules"
    using list_all2_reorder_left_invariance [OF good [THEN conjunct1] assms(4) [symmetric]] by blast
  have "check_rules rules' [] [] = Inr ()"
    using perm good by (metis check_rules_perm)
  then have parsed': "parse_rules registered raws' [] [] = Inr rules'" using rules' by (rule parse_rules_complete [rotated])
  have order: "normal_order rules' = normal_order rules"
    using normal_order_unique [OF perm [symmetric] ids] by simp
  have doc': "validateUniqueJSON reader raw' = Inr (JObject [(''apiVersion'', version), (''rules'', JArray raws')])"
    using doc by (auto simp: validateUniqueJSON_def assms(2,3) scanElements_iff list_all_iff sets)
  show ?thesis
    unfolding Parse_parts using assms(5,6) doc' root bound short parsed' marshalled order p
    by (auto simp: decodeObject_def json_map_def requiredString_def)
qed

text \<open>A document with a quota and a denial, under a reader that knows two orders of its rules.\<close>

definition sample_type :: ResourceTypeRef where
  "sample_type = \<lparr>tref_Name = ''db'', tref_Version = ''v1''\<rparr>"

definition sample_rules :: "json list" where
  "sample_rules =
     [JObject [(''id'', JString ''cap''), (''kind'', JString ''resource-count-quota''), (''limit'', JNumber ''2'')],
      JObject [(''id'', JString ''freeze''), (''kind'', JString ''capability-deny''),
        (''resourceType'', JObject [(''name'', JString ''db''), (''version'', JString ''v1'')]),
        (''capabilities'', JArray [JString ''update''])]]"

definition sample_reader :: json_reader where
  "sample_reader raw = Some (JObject [(''apiVersion'', JString ''liftr.dev/admission-policy/v1''),
     (''rules'', JArray (if raw = ''a'' then sample_rules else rev sample_rules))], False)"

definition sample_revision :: string where
  "sample_revision = NewPolicyRevision ''canonical''"

definition sample_policy :: Policy where
  "sample_policy = \<lparr>policy_revision = sample_revision, policy_rules =
     [\<lparr>rule_ID = ''freeze'', rule_Kind = kindCapabilityDeny, rule_Owner = None, rule_ResourceType = Some sample_type,
       rule_Capabilities = [AdmissionUpdate], rule_Limit = 0\<rparr>,
      \<lparr>rule_ID = ''cap'', rule_Kind = kindResourceQuota, rule_Owner = None, rule_ResourceType = None,
       rule_Capabilities = [], rule_Limit = 2\<rparr>]\<rparr>"

lemma sample_quota_parses: "parseRule [sample_type] (hd sample_rules) = Inr (last (policy_rules sample_policy))"
proof -
  have "ruleIDPattern ''cap''" by code_simp
  then show ?thesis
    by (simp add: parseRule_def sample_rules_def sample_policy_def decodeObject_def json_map_def requiredString_def
        parse_owner_selector_def parse_type_selector_def parse_quota_def parseLimit_def ParseUint_def MaxQuotaLimit_def)
qed

lemma sample_denial_parses: "parseRule [sample_type] (last sample_rules) = Inr (hd (policy_rules sample_policy))"
proof -
  have "ruleIDPattern ''freeze''" by code_simp
  moreover have "TrimSpace ''db'' = ''db''" "TrimSpace ''v1'' = ''v1''" by code_simp+
  ultimately show ?thesis
    by (simp add: parseRule_def sample_rules_def sample_policy_def decodeObject_def json_map_def requiredString_def
        parse_owner_selector_def parse_type_selector_def parseResourceType_def canonicalSelectorString_def
        MaxSelectorBytes_def parse_capability_deny_def string_elements_def sample_type_def)
qed

lemma sample_parses: "Parse sample_reader (\<lambda>_. Inr ''canonical'') ''a'' [sample_type] = Inr sample_policy"
proof -
  have "list_all2 (\<lambda>raw rule. parseRule [sample_type] raw = Inr rule) sample_rules (rev (policy_rules sample_policy))"
    using sample_quota_parses sample_denial_parses by (simp add: sample_rules_def sample_policy_def)
  moreover have "check_rules (rev (policy_rules sample_policy)) [] [] = Inr ()"
    by (simp add: sample_policy_def semanticKeys_def selectorKey_def Let_def sample_type_def)
  ultimately have "parse_rules [sample_type] sample_rules [] [] = Inr (rev (policy_rules sample_policy))"
    by (rule parse_rules_complete)
  moreover have "normal_order (rev (policy_rules sample_policy)) = policy_rules sample_policy"
    by (simp add: normal_order_def sample_policy_def)
  moreover have "validateUniqueJSON sample_reader ''a'' = Inr (fst (the (sample_reader ''a'')))" by code_simp
  moreover have "length sample_rules \<le> MaxRules" by (simp add: sample_rules_def MaxRules_def)
  ultimately show ?thesis
    unfolding Parse_parts
    by (auto simp: sample_reader_def decodeObject_def json_map_def requiredString_def APIVersion_def MaxFileBytes_def
        sample_policy_def sample_revision_def)
qed

lemma sample_loads:
  "LoadFile sample_reader (\<lambda>_. Inr ''canonical'') (\<lambda>_. Inr ''a'') ''policy.json'' (Some (Inr [sample_type])) =
     Inr sample_policy"
  by (simp add: LoadFile_def sample_parses MaxFileBytes_def)

theorem loaded_policy_exact_witness:
  "\<exists>plan decision. Policy_Plan sample_policy example_intent = Inr plan \<and>
     Policy_Decide sample_policy plan example_facts = Inr decision \<and> de_Outcome decision \<noteq> AdmissionAllowed"
proof -
  have intent: "complete_intent example_intent" by (simp add: complete_intent_def example_intent_def)
  have "\<not> (\<forall>r \<in> set (policy_rules sample_policy). rule_admits example_intent example_facts r)"
    by (simp add: sample_policy_def rule_admits_def matches_def example_intent_def example_facts_def)
  then show ?thesis
    using loaded_policy_exact [OF sample_loads intent, of example_facts] by (auto simp: example_facts_def)
qed

theorem rule_order_irrelevant_witness:
  "Parse sample_reader (\<lambda>_. Inr ''canonical'') ''b'' [sample_type] = Inr sample_policy"
  by (rule rule_order_irrelevant [OF sample_parses, where raws = sample_rules and raws' = "rev sample_rules"
        and version = "JString ''liftr.dev/admission-policy/v1''"])
    (simp_all add: sample_reader_def MaxFileBytes_def)

end
