(* ===== verification/Auth_Mapping.thy ===== *)
theory Auth_Mapping
  imports Access Json "HOL-Library.Multiset"
begin

text \<open>
  From token claims to owner memberships: the claim mapper of \<^verbatim>\<open>internal/auth/mapping.go\<close> with its
  bounds, and the files of static grants of \<^verbatim>\<open>authorizer.go\<close> and \<^verbatim>\<open>operator_authorizer.go\<close>.
\<close>

section \<open>The claim mapper\<close>

definition DefaultMaxGroupClaimEntries :: int where "DefaultMaxGroupClaimEntries = 256"
definition DefaultMaxGroupEntryLength :: int where "DefaultMaxGroupEntryLength = 512"
definition DefaultMaxGroupClaimBytes :: int where "DefaultMaxGroupClaimBytes = 65536"
definition defaultGroupClaim :: string where "defaultGroupClaim = ''groups''"

record StaticGrants =
  sg_Subjects :: "(string, OwnerRef list) table"
  sg_Groups :: "(string, OwnerRef list) table"

record ClaimMapper =
  cm_GroupClaim :: string
  cm_Prefix :: string
  cm_Grants :: StaticGrants
  cm_MaxEntries :: int
  cm_MaxEntryLength :: int
  cm_MaxTotalBytes :: int

definition withDefaults :: "ClaimMapper \<Rightarrow> ClaimMapper" where
  "withDefaults m = m\<lparr>
     cm_GroupClaim := (if cm_GroupClaim m = '''' then defaultGroupClaim else cm_GroupClaim m),
     cm_MaxEntries := (if cm_MaxEntries m = 0 then DefaultMaxGroupClaimEntries else cm_MaxEntries m),
     cm_MaxEntryLength := (if cm_MaxEntryLength m = 0 then DefaultMaxGroupEntryLength else cm_MaxEntryLength m),
     cm_MaxTotalBytes := (if cm_MaxTotalBytes m = 0 then DefaultMaxGroupClaimBytes else cm_MaxTotalBytes m)\<rparr>"

definition staticSubjectGrants :: "ClaimMapper \<Rightarrow> string \<Rightarrow> OwnerRef list" where
  "staticSubjectGrants m subject =
     (case map_of (sg_Subjects (cm_Grants m)) subject of None \<Rightarrow> [] | Some granted \<Rightarrow> granted)"

text \<open>\<^verbatim>\<open>strings.Cut\<close> at a colon.\<close>

definition cut_colon :: "string \<Rightarrow> (string \<times> string) option" where
  "cut_colon s = (case dropWhile (\<lambda>c. c \<noteq> CHR '':'') s of
     [] \<Rightarrow> None | _ # rest \<Rightarrow> Some (takeWhile (\<lambda>c. c \<noteq> CHR '':'') s, rest))"

definition canonical_part :: "string \<Rightarrow> bool" where
  "canonical_part s \<longleftrightarrow> \<not> blank s \<and> s = TrimSpace s"

definition interpret_entry :: "ClaimMapper \<Rightarrow> string \<Rightarrow> OwnerRef option" where
  "interpret_entry m entry =
     (if cm_Prefix m \<noteq> '''' \<and> \<not> has_prefix (cm_Prefix m) entry then None
      else let stripped = (if cm_Prefix m \<noteq> '''' then drop (length (cm_Prefix m)) entry else entry) in
        (case cut_colon stripped of
           None \<Rightarrow> None
         | Some (kind, oid) \<Rightarrow>
             if kind = '''' \<or> oid = '''' then None
             else if \<not> canonical_part kind \<or> \<not> canonical_part oid then None
             else Some \<lparr>owner_Kind = kind, owner_ID = oid\<rparr>))"

fun group_loop :: "ClaimMapper \<Rightarrow> string list \<Rightarrow> int \<Rightarrow> int \<Rightarrow> OwnerRef list" where
  "group_loop m [] processed totalBytes = []"
| "group_loop m (entry # entries) processed totalBytes =
     (if cm_MaxEntries m \<le> processed then []
      else let total = totalBytes + int (length entry) in
        if cm_MaxTotalBytes m < total \<or> cm_MaxEntryLength m < int (length entry) then []
        else (case interpret_entry m entry of
            None \<Rightarrow> group_loop m entries (processed + 1) total
          | Some w \<Rightarrow> w # group_loop m entries (processed + 1) total))"

definition groupMemberships :: "ClaimMapper \<Rightarrow> string list \<Rightarrow> OwnerRef list" where
  "groupMemberships m entries = group_loop m (sort entries) 0 0"

definition containsEntry :: "string list \<Rightarrow> string \<Rightarrow> bool" where
  "containsEntry entries v = list_ex (\<lambda>e. e = v) entries"

definition normalize_owners :: "OwnerRef list \<Rightarrow> OwnerRef list" where
  "normalize_owners memberships =
     sort_key owner_key (remdups (filter (\<lambda>w. owner_Kind w \<noteq> '''' \<and> owner_ID w \<noteq> '''') memberships))"

text \<open>\<^verbatim>\<open>json.Unmarshal\<close> into a slice of strings: a null element stays empty.\<close>

definition string_array :: "json \<Rightarrow> string list option" where
  "string_array v = into_slice (\<lambda>e. into_string e '''') v []"

definition MembershipsOf :: "ClaimMapper \<Rightarrow> (string, json) table \<Rightarrow> string \<Rightarrow> OwnerRef list" where
  "MembershipsOf m claims subject =
     (let mapper = withDefaults m;
          static = staticSubjectGrants mapper subject
      in normalize_owners (static @
        (case map_of claims (cm_GroupClaim mapper) of
           None \<Rightarrow> []
         | Some raw \<Rightarrow> (case string_array raw of
             None \<Rightarrow> []
           | Some entries \<Rightarrow> groupMemberships mapper entries @
               concat (map (\<lambda>(rawGroup, granted). if containsEntry entries rawGroup then granted else [])
                 (sg_Groups (cm_Grants mapper)))))))"

section \<open>Grant files\<close>

definition decode_owner :: "json \<Rightarrow> OwnerRef option" where
  "decode_owner v =
     (case v of
        JNull \<Rightarrow> Some \<lparr>owner_Kind = '''', owner_ID = ''''\<rparr>
      | JObject members \<Rightarrow>
          if list_ex (\<lambda>(k, _). fold_name k \<notin> {''kind'', ''id''}) members then None
          else Option.bind (struct_string members ''kind'') (\<lambda>kind.
            map_option (\<lambda>oid. \<lparr>owner_Kind = kind, owner_ID = oid\<rparr>) (struct_string members ''id''))
      | _ \<Rightarrow> None)"

definition into_grants :: "json \<Rightarrow> (string, OwnerRef list) table \<Rightarrow> (string, OwnerRef list) table option" where
  "into_grants v old = into_map (\<lambda>owners. into_slice decode_owner owners []) v old"

definition decode_grants :: "json \<Rightarrow> StaticGrants option" where
  "decode_grants v =
     (case v of
        JNull \<Rightarrow> Some \<lparr>sg_Subjects = [], sg_Groups = []\<rparr>
      | JObject members \<Rightarrow>
          if list_ex (\<lambda>(k, _). fold_name k \<notin> {''subjects'', ''groups''}) members then None
          else Option.bind (struct_field into_grants members ''subjects'' []) (\<lambda>subjects.
            map_option (\<lambda>groups. \<lparr>sg_Subjects = subjects, sg_Groups = groups\<rparr>)
              (struct_field into_grants members ''groups'' []))
      | _ \<Rightarrow> None)"

definition validateGrantedOwners :: "OwnerRef list \<Rightarrow> unit result" where
  "validateGrantedOwners owners =
     (if owners = [] then Inl (ErrMessage ''grant declares no owner'')
      else if \<not> list_all (\<lambda>w. canonical_part (owner_Kind w) \<and> canonical_part (owner_ID w)) owners
      then Inl (ErrMessage ''owner kind/id must be canonical non-empty strings'') else Inr ())"

fun validate_grants :: "(string, OwnerRef list) table \<Rightarrow> unit result" where
  "validate_grants [] = Inr ()"
| "validate_grants ((name, owners) # rest) =
     (if blank name then Inl (ErrMessage ''auth grants file has an empty key'')
      else bindE (validateGrantedOwners owners) (\<lambda>_. validate_grants rest))"

definition LoadStaticGrants :: "json_reader \<Rightarrow> (string \<Rightarrow> string result) \<Rightarrow> string \<Rightarrow> StaticGrants result" where
  "LoadStaticGrants reader read_file path =
     (if blank path then Inr \<lparr>sg_Subjects = [], sg_Groups = []\<rparr>
      else case read_file path of
        Inl _ \<Rightarrow> Inl (ErrMessage ''read auth grants file'')
      | Inr body \<Rightarrow>
          (case Option.bind (reader body) (decode_grants \<circ> fst) of
             None \<Rightarrow> Inl (ErrMessage ''parse auth grants file'')
           | Some grants \<Rightarrow>
               if sg_Subjects grants = [] \<and> sg_Groups grants = []
               then Inl (ErrMessage ''auth grants file declares no grants'')
               else bindE (validate_grants (sg_Subjects grants)) (\<lambda>_.
                 bindE (validate_grants (sg_Groups grants)) (\<lambda>_. Inr grants))))"

text \<open>Grants of the operator plane name actions by their strings.\<close>

fun parse_action :: "string \<Rightarrow> Action" where
  "parse_action s =
     (if s = ''operator:diagnostics:read'' then ActionOperatorDiagnosticsRead
      else if s = ''operator:observation:trigger'' then ActionOperatorObserveTrigger
      else if s = ''operator:work:recover'' then ActionOperatorWorkRecover
      else ActionOther s)"

definition into_action_lists :: "json \<Rightarrow> (string, Action list) table \<Rightarrow> (string, Action list) table option" where
  "into_action_lists v old =
     into_map (\<lambda>actions. into_slice (\<lambda>e. map_option parse_action (into_string e '''')) actions []) v old"

definition decode_operator_grants :: "json \<Rightarrow> (string, Action list) table option" where
  "decode_operator_grants v =
     (case v of
        JNull \<Rightarrow> Some []
      | JObject members \<Rightarrow>
          if list_ex (\<lambda>(k, _). fold_name k \<noteq> ''subjects'') members then None
          else struct_field into_action_lists members ''subjects'' []
      | _ \<Rightarrow> None)"

fun validate_actions :: "Action list \<Rightarrow> Action list \<Rightarrow> unit result" where
  "validate_actions [] seen = Inr ()"
| "validate_actions (action # actions) seen =
     (if \<not> ValidOperatorAction action then Inl (ErrMessage ''operator grants file declares unknown action'')
      else if action \<in> set seen then Inl (ErrMessage ''operator grants file repeats action'')
      else validate_actions actions (action # seen))"

fun validate_operator_subjects :: "(string, Action list) table \<Rightarrow> unit result" where
  "validate_operator_subjects [] = Inr ()"
| "validate_operator_subjects ((subject, actions) # rest) =
     (if blank subject \<or> subject \<noteq> TrimSpace subject
        then Inl (ErrMessage ''operator grants file has a non-canonical subject'')
      else if actions = [] then Inl (ErrMessage ''operator grants file declares no actions'')
      else bindE (validate_actions actions []) (\<lambda>_. validate_operator_subjects rest))"

definition LoadOperatorGrants ::
    "json_reader \<Rightarrow> (string \<Rightarrow> string result) \<Rightarrow> string \<Rightarrow> (string, Action list) table result" where
  "LoadOperatorGrants reader read_file path =
     (if blank path then Inl (ErrMessage ''operator grants file is required'')
      else case read_file path of
        Inl _ \<Rightarrow> Inl (ErrMessage ''read operator grants file'')
      | Inr body \<Rightarrow>
          if 2 ^ 20 < length body then Inl (ErrMessage ''operator grants file exceeds 1 MiB'')
          else (case reader body of
              None \<Rightarrow> Inl (ErrMessage ''parse operator grants file'')
            | Some (document, trailing) \<Rightarrow>
                (case decode_operator_grants document of
                   None \<Rightarrow> Inl (ErrMessage ''parse operator grants file'')
                 | Some subjects \<Rightarrow>
                     if trailing then Inl (ErrMessage ''parse operator grants file: trailing JSON content'')
                     else if subjects = [] then Inl (ErrMessage ''operator grants file declares no subject grants'')
                     else bindE (validate_operator_subjects subjects) (\<lambda>_. Inr subjects))))"

section \<open>Where memberships come from\<close>

text \<open>The entries that the bounds of a mapper let through, in the order in which they are processed.\<close>

fun bounded_entries :: "ClaimMapper \<Rightarrow> string list \<Rightarrow> int \<Rightarrow> int \<Rightarrow> string list" where
  "bounded_entries m [] processed totalBytes = []"
| "bounded_entries m (entry # entries) processed totalBytes =
     (if cm_MaxEntries m \<le> processed \<or> cm_MaxTotalBytes m < totalBytes + int (length entry) \<or>
         cm_MaxEntryLength m < int (length entry) then []
      else entry # bounded_entries m entries (processed + 1) (totalBytes + int (length entry)))"

lemma group_loop_bounded:
  "group_loop m entries processed totalBytes =
     List.map_filter (interpret_entry m) (bounded_entries m entries processed totalBytes)"
  by (induction entries arbitrary: processed totalBytes)
    (auto simp: Let_def map_filter_simps split: option.split)

lemma bounded_entries_bounds:
  assumes "processed \<le> cm_MaxEntries m" "totalBytes \<le> cm_MaxTotalBytes m"
  shows "processed + int (length (bounded_entries m entries processed totalBytes)) \<le> cm_MaxEntries m \<and>
    totalBytes + int (sum_list (map length (bounded_entries m entries processed totalBytes))) \<le> cm_MaxTotalBytes m \<and>
    set (bounded_entries m entries processed totalBytes) \<subseteq> set entries \<and>
    (\<forall>e \<in> set (bounded_entries m entries processed totalBytes). int (length e) \<le> cm_MaxEntryLength m)"
  using assms
proof (induction entries arbitrary: processed totalBytes)
  case (Cons entry entries)
  show ?case
  proof (cases "cm_MaxEntries m \<le> processed \<or> cm_MaxTotalBytes m < totalBytes + int (length entry) \<or>
      cm_MaxEntryLength m < int (length entry)")
    case False
    then show ?thesis using Cons.IH [of "processed + 1" "totalBytes + int (length entry)"] by auto
  qed (use Cons.prems in auto)
qed simp

lemma cut_colon_Some:
  assumes "cut_colon s = Some (kind, oid)"
  shows "s = kind @ CHR '':'' # oid \<and> CHR '':'' \<notin> set kind"
proof -
  obtain c where rest: "dropWhile (\<lambda>c. c \<noteq> CHR '':'') s = c # oid"
    and kind: "kind = takeWhile (\<lambda>c. c \<noteq> CHR '':'') s"
    using assms by (auto simp: cut_colon_def split: list.splits)
  have "c = CHR '':''" using hd_dropWhile [of "\<lambda>c. c \<noteq> CHR '':''" s] rest by simp
  then show ?thesis
    using takeWhile_dropWhile_id [of "\<lambda>c. c \<noteq> CHR '':''" s] rest kind set_takeWhileD [of "CHR '':''" _ s] by auto
qed

text \<open>An entry stands for one owner only, and is spelled exactly as that owner.\<close>

lemma interpret_entry_Some:
  assumes "interpret_entry m entry = Some w"
  shows "entry = cm_Prefix m @ owner_Kind w @ CHR '':'' # owner_ID w \<and> CHR '':'' \<notin> set (owner_Kind w) \<and>
    canonical_part (owner_Kind w) \<and> canonical_part (owner_ID w)"
proof -
  let ?stripped = "if cm_Prefix m \<noteq> '''' then drop (length (cm_Prefix m)) entry else entry"
  have "cm_Prefix m \<noteq> '''' \<Longrightarrow> take (length (cm_Prefix m)) entry = cm_Prefix m"
    using assms by (auto simp: interpret_entry_def has_prefix_def split: if_splits)
  then have "entry = cm_Prefix m @ ?stripped" by (metis append_take_drop_id append_Nil)
  moreover obtain kind oid where "cut_colon ?stripped = Some (kind, oid)"
    "w = \<lparr>owner_Kind = kind, owner_ID = oid\<rparr>" "canonical_part kind" "canonical_part oid"
    using assms by (auto simp: interpret_entry_def Let_def split: if_splits option.splits)
  ultimately show ?thesis using cut_colon_Some by fastforce
qed

text \<open>The three ways in which a token may make its bearer a member.\<close>

definition granted_to_subject :: "ClaimMapper \<Rightarrow> string \<Rightarrow> OwnerRef \<Rightarrow> bool" where
  "granted_to_subject m subject w \<longleftrightarrow>
     (\<exists>owners. map_of (sg_Subjects (cm_Grants m)) subject = Some owners \<and> w \<in> set owners)"

definition granted_to_group :: "ClaimMapper \<Rightarrow> string list \<Rightarrow> OwnerRef \<Rightarrow> bool" where
  "granted_to_group m entries w \<longleftrightarrow>
     (\<exists>(group, owners) \<in> set (sg_Groups (cm_Grants m)). group \<in> set entries \<and> w \<in> set owners)"

definition spelled_in_entry :: "ClaimMapper \<Rightarrow> string list \<Rightarrow> OwnerRef \<Rightarrow> bool" where
  "spelled_in_entry m entries w \<longleftrightarrow>
     cm_Prefix m @ owner_Kind w @ CHR '':'' # owner_ID w \<in> set (bounded_entries m (sort entries) 0 0) \<and>
     CHR '':'' \<notin> set (owner_Kind w) \<and> canonical_part (owner_Kind w) \<and> canonical_part (owner_ID w)"

definition group_entries :: "ClaimMapper \<Rightarrow> (string, json) table \<Rightarrow> string list" where
  "group_entries m claims =
     (case Option.bind (map_of claims (cm_GroupClaim m)) string_array of None \<Rightarrow> [] | Some entries \<Rightarrow> entries)"

lemma has_prefix_append [simp]: "has_prefix p (p @ s)"
  by (simp add: has_prefix_def)

lemma cut_colon_spelled: "CHR '':'' \<notin> set kind \<Longrightarrow> cut_colon (kind @ CHR '':'' # oid) = Some (kind, oid)"
  by (simp add: cut_colon_def dropWhile_append takeWhile_append)

lemma interpret_entry_spelled:
  assumes "CHR '':'' \<notin> set kind" "canonical_part kind" "canonical_part oid"
  shows "interpret_entry m (cm_Prefix m @ kind @ CHR '':'' # oid) = Some \<lparr>owner_Kind = kind, owner_ID = oid\<rparr>"
  using assms not_blank_not_Nil
  by (auto simp: interpret_entry_def cut_colon_spelled canonical_part_def)

lemma interpret_entry_iff:
  "interpret_entry m entry = Some w \<longleftrightarrow>
     entry = cm_Prefix m @ owner_Kind w @ CHR '':'' # owner_ID w \<and> CHR '':'' \<notin> set (owner_Kind w) \<and>
     canonical_part (owner_Kind w) \<and> canonical_part (owner_ID w)"
  using interpret_entry_Some [of m entry w] interpret_entry_spelled [of "owner_Kind w" "owner_ID w" m] by auto

lemma set_map_filter_iff: "y \<in> set (List.map_filter f xs) \<longleftrightarrow> (\<exists>x \<in> set xs. f x = Some y)"
  by (induction xs) (auto simp: map_filter_simps split: option.split)

lemma groupMemberships_iff: "w \<in> set (groupMemberships m entries) \<longleftrightarrow> spelled_in_entry m entries w"
  unfolding groupMemberships_def group_loop_bounded set_map_filter_iff interpret_entry_iff spelled_in_entry_def
  by blast

lemma inj_owner_key: "inj owner_key"
  by (auto simp: inj_def owner_key_def)

lemma normalize_owners_props:
  "w \<in> set (normalize_owners xs) \<longleftrightarrow> w \<in> set xs \<and> owner_Kind w \<noteq> '''' \<and> owner_ID w \<noteq> ''''"
  "distinct (normalize_owners xs)" "sorted (map owner_key (normalize_owners xs))"
  by (auto simp: normalize_owners_def)

lemma normalize_owners_cong:
  assumes "set xs = set ys"
  shows "normalize_owners xs = normalize_owners ys"
proof -
  have inj: "inj_on owner_key S" for S by (rule inj_on_subset [OF inj_owner_key subset_UNIV])
  have "set (normalize_owners xs) = set (normalize_owners ys)"
    by (simp add: set_eq_iff normalize_owners_props assms)
  then have "map owner_key (normalize_owners xs) = map owner_key (normalize_owners ys)"
    by (intro sorted_distinct_set_unique) (simp_all add: normalize_owners_props distinct_map inj)
  then show ?thesis using inj_owner_key by (simp add: inj_map_eq_map)
qed

lemma those_map: "those (map f xs) = Some ys \<longleftrightarrow> list_all2 (\<lambda>x y. f x = Some y) xs ys"
proof (induction xs arbitrary: ys)
  case (Cons x xs)
  then show ?case by (cases ys) (auto split: option.split simp: list_all2_Cons1)
qed auto

lemma string_array_perm:
  assumes "string_array (JArray names) = Some entries" "mset names' = mset names"
  obtains entries' where "string_array (JArray names') = Some entries'" "mset entries' = mset entries"
  using assms list_all2_reorder_left_invariance [OF _ assms(2)]
  unfolding string_array_def into_slice.simps those_map by metis

text \<open>A token without the group claim, or with one that is not an array of strings, has no entries.\<close>

lemma MembershipsOf_entries:
  "MembershipsOf m claims subject = normalize_owners (staticSubjectGrants (withDefaults m) subject @
    groupMemberships (withDefaults m) (group_entries (withDefaults m) claims) @
    concat (map (\<lambda>(rawGroup, granted). if containsEntry (group_entries (withDefaults m) claims) rawGroup then granted else [])
      (sg_Groups (cm_Grants (withDefaults m)))))"
proof -
  have none: "(\<lambda>(rawGroup, granted). if containsEntry [] rawGroup then granted else []) = (\<lambda>_. [])"
    by (auto simp: containsEntry_def fun_eq_iff)
  show ?thesis
    by (auto simp: MembershipsOf_def Let_def group_entries_def groupMemberships_def none map_replicate_const split: option.split)
qed

lemma group_entries_perm:
  assumes "map_of claims (cm_GroupClaim m) = Some (JArray names)" "mset names' = mset names"
  shows "mset (group_entries m (put (cm_GroupClaim m) (JArray names') claims)) = mset (group_entries m claims)"
proof (cases "string_array (JArray names)")
  case None
  have "string_array (JArray names') = None"
  proof (rule ccontr)
    assume "string_array (JArray names') \<noteq> None"
    then obtain entries' where "string_array (JArray names') = Some entries'" by blast
    from string_array_perm [OF this assms(2) [symmetric]] None show False by auto
  qed
  then show ?thesis using None assms(1) by (simp add: group_entries_def update_conv')
next
  case (Some entries)
  from string_array_perm [OF Some assms(2)] obtain entries'
    where "string_array (JArray names') = Some entries'" "mset entries' = mset entries" .
  then show ?thesis using Some assms(1) by (simp add: group_entries_def update_conv')
qed

lemma entries_order:
  assumes "mset entries' = mset entries"
  shows "groupMemberships m entries' = groupMemberships m entries" "containsEntry entries' = containsEntry entries"
proof -
  have "sort entries' = sort entries" by (rule properties_for_sort) (simp_all add: assms)
  then show "groupMemberships m entries' = groupMemberships m entries" by (simp add: groupMemberships_def)
  show "containsEntry entries' = containsEntry entries"
    using mset_eq_setD [OF assms] by (simp add: containsEntry_def fun_eq_iff list_ex_iff)
qed

lemma bounded_entries_subset: "set (bounded_entries m entries processed totalBytes) \<subseteq> set entries"
  by (induction m entries processed totalBytes rule: bounded_entries.induct) auto

lemma grants_iff:
  "w \<in> set (staticSubjectGrants m subject) \<longleftrightarrow> granted_to_subject m subject w"
  "w \<in> set (concat (map (\<lambda>(rawGroup, granted). if containsEntry entries rawGroup then granted else [])
      (sg_Groups (cm_Grants m)))) \<longleftrightarrow> granted_to_group m entries w"
  by (cases "map_of (sg_Subjects (cm_Grants m)) subject")
    (auto simp: staticSubjectGrants_def granted_to_subject_def granted_to_group_def containsEntry_def list_ex_iff
      split: if_splits)

section \<open>Properties\<close>

text \<open>
  C27: A token makes its bearer a member only of owners with a kind and an identifier that its subject is
  granted statically, that are granted statically to an entry of its group claim, or that an entry within
  the bounds spells out in full as prefix, kind, colon and identifier; an entry can spell one owner only.
  All owners granted to its subject, spelled out in this way, or granted to an entry within the bounds are
  its memberships, so that for a claim within the bounds these are exactly the memberships. A claim that is
  missing or not an array of strings has no entries. The memberships are sorted and distinct, and do not
  depend on the order in which the token lists its groups. The entries within the bounds keep the limits
  on their number, their length and their total size.
\<close>

theorem memberships_exact:
  assumes "0 \<le> cm_MaxEntries m" and "0 \<le> cm_MaxTotalBytes m"
  shows "let mapper = withDefaults m; entries = group_entries mapper claims;
      taken = bounded_entries mapper (sort entries) 0 0; memberships = MembershipsOf m claims subject in
    (\<forall>w \<in> set memberships. owner_Kind w \<noteq> '''' \<and> owner_ID w \<noteq> '''' \<and>
       (granted_to_subject mapper subject w \<or> granted_to_group mapper entries w \<or> spelled_in_entry mapper entries w)) \<and>
    (\<forall>w. owner_Kind w \<noteq> '''' \<and> owner_ID w \<noteq> '''' \<and>
       (granted_to_subject mapper subject w \<or> granted_to_group mapper taken w \<or> spelled_in_entry mapper entries w) \<longrightarrow>
       w \<in> set memberships) \<and>
    distinct memberships \<and> sorted (map owner_key memberships) \<and>
    (\<forall>names names'. map_of claims (cm_GroupClaim mapper) = Some (JArray names) \<and> mset names' = mset names \<longrightarrow>
       MembershipsOf m (put (cm_GroupClaim mapper) (JArray names') claims) subject = memberships) \<and>
    int (length taken) \<le> cm_MaxEntries mapper \<and> int (sum_list (map length taken)) \<le> cm_MaxTotalBytes mapper \<and>
    (\<forall>e \<in> set taken. int (length e) \<le> cm_MaxEntryLength mapper)"
proof -
  let ?m = "withDefaults m"
  let ?entries = "group_entries ?m claims"
  let ?taken = "bounded_entries ?m (sort ?entries) 0 0"
  note member = MembershipsOf_entries [of m claims subject] normalize_owners_props
  have in_iff: "w \<in> set (MembershipsOf m claims subject) \<longleftrightarrow> owner_Kind w \<noteq> '''' \<and> owner_ID w \<noteq> '''' \<and>
       (granted_to_subject ?m subject w \<or> granted_to_group ?m ?entries w \<or> spelled_in_entry ?m ?entries w)" for w
    unfolding member set_append Un_iff grants_iff groupMemberships_iff by blast
  have taken: "granted_to_group ?m ?taken w \<Longrightarrow> granted_to_group ?m ?entries w" for w
    using bounded_entries_subset [of ?m "sort ?entries" 0 0] by (force simp: granted_to_group_def)
  have order: "MembershipsOf m (put (cm_GroupClaim ?m) (JArray names') claims) subject = MembershipsOf m claims subject"
    if "map_of claims (cm_GroupClaim ?m) = Some (JArray names)" "mset names' = mset names" for names names'
    using entries_order [OF group_entries_perm [OF that]] by (simp add: MembershipsOf_entries)
  have "0 \<le> cm_MaxEntries ?m" "0 \<le> cm_MaxTotalBytes ?m"
    using assms by (simp_all add: withDefaults_def DefaultMaxGroupClaimEntries_def DefaultMaxGroupClaimBytes_def)
  note bounds = bounded_entries_bounds [of 0 ?m 0 "sort ?entries", OF this, simplified]
  have sorted: "distinct (MembershipsOf m claims subject)" "sorted (map owner_key (MembershipsOf m claims subject))"
    by (simp_all add: member)
  show ?thesis
    unfolding Let_def using in_iff taken order bounds sorted by (intro conjI) blast+
qed

definition sample_mapper :: ClaimMapper where
  "sample_mapper = \<lparr>cm_GroupClaim = '''', cm_Prefix = ''x:'',
     cm_Grants = \<lparr>sg_Subjects = [], sg_Groups = [(''987'', [\<lparr>owner_Kind = ''team'', owner_ID = ''p''\<rparr>])]\<rparr>,
     cm_MaxEntries = 0, cm_MaxEntryLength = 0, cm_MaxTotalBytes = 0\<rparr>"

definition sample_claims :: "(string, json) table" where
  "sample_claims = [(''groups'', JArray [JString ''987''])]"

lemmas sample_mapping = sample_mapper_def sample_claims_def withDefaults_def defaultGroupClaim_def group_entries_def
  string_array_def DefaultMaxGroupClaimEntries_def DefaultMaxGroupClaimBytes_def DefaultMaxGroupEntryLength_def

theorem memberships_exact_witness:
  "\<lparr>owner_Kind = ''team'', owner_ID = ''p''\<rparr> \<in> set (MembershipsOf sample_mapper sample_claims ''alice'') \<and>
   \<lparr>owner_Kind = ''team'', owner_ID = ''q''\<rparr> \<notin> set (MembershipsOf sample_mapper sample_claims ''alice'') \<and>
   MembershipsOf sample_mapper [(''groups'', JString ''987'')] ''alice'' = []"
proof -
  have b: "0 \<le> cm_MaxEntries sample_mapper" "0 \<le> cm_MaxTotalBytes sample_mapper" by (simp_all add: sample_mapper_def)
  have entries: "group_entries (withDefaults sample_mapper) sample_claims = [''987'']"
    "group_entries (withDefaults sample_mapper) [(''groups'', JString ''987'')] = []"
    "bounded_entries (withDefaults sample_mapper) (sort [''987'']) 0 0 = [''987'']"
    by (simp_all add: sample_mapping)
  have "granted_to_group (withDefaults sample_mapper) [''987''] \<lparr>owner_Kind = ''team'', owner_ID = ''p''\<rparr>"
    "\<not> granted_to_group (withDefaults sample_mapper) [''987''] \<lparr>owner_Kind = ''team'', owner_ID = ''q''\<rparr>"
    "\<not> granted_to_group (withDefaults sample_mapper) [] w" "\<not> spelled_in_entry (withDefaults sample_mapper) [] w"
    "\<not> granted_to_subject (withDefaults sample_mapper) ''alice'' w"
    "\<not> spelled_in_entry (withDefaults sample_mapper) [''987''] \<lparr>owner_Kind = ''team'', owner_ID = ''q''\<rparr>" for w
    by (simp_all add: granted_to_group_def granted_to_subject_def spelled_in_entry_def sample_mapping)
  note facts = this
  note exact = memberships_exact [OF b, of sample_claims "''alice''", unfolded Let_def entries, THEN conjunct1]
    memberships_exact [OF b, of sample_claims "''alice''", unfolded Let_def entries, THEN conjunct2, THEN conjunct1]
    memberships_exact [OF b, of "[(''groups'', JString ''987'')]" "''alice''", unfolded Let_def entries, THEN conjunct1]
  have "w \<notin> set (MembershipsOf sample_mapper [(''groups'', JString ''987'')] ''alice'')" for w
    using bspec [OF exact(3), of w] facts(3-5) by metis
  then have "MembershipsOf sample_mapper [(''groups'', JString ''987'')] ''alice'' = []" by (metis list.set_intros(1) neq_Nil_conv)
  moreover have "\<lparr>owner_Kind = ''team'', owner_ID = ''q''\<rparr> \<notin> set (MembershipsOf sample_mapper sample_claims ''alice'')"
    using bspec [OF exact(1)] facts(2,5,6) by metis
  moreover have "\<lparr>owner_Kind = ''team'', owner_ID = ''p''\<rparr> \<in> set (MembershipsOf sample_mapper sample_claims ''alice'')"
    by (rule exact(2) [rule_format]) (simp add: facts(1))
  ultimately show ?thesis by simp
qed

text \<open>
  The bounds cover the reading of entries by convention only: an entry that is longer than the limit,
  and is therefore not read, still earns what the group grants hold under it. The comment on the mapper
  says that oversized entries grant nothing.
\<close>

lemma oversized_group_still_granted:
  "bounded_entries (withDefaults (sample_mapper\<lparr>cm_MaxEntryLength := 2\<rparr>)) (sort [''987'']) 0 0 = [] \<and>
   MembershipsOf (sample_mapper\<lparr>cm_MaxEntryLength := 2\<rparr>) sample_claims ''alice'' = [\<lparr>owner_Kind = ''team'', owner_ID = ''p''\<rparr>]"
  by (simp add: MembershipsOf_def sample_mapping Let_def staticSubjectGrants_def groupMemberships_def
      normalize_owners_def containsEntry_def)

end
