(* ===== verification/Spec2Isabelle.thy ===== *)
theory Spec2Isabelle
  imports Prelude Lifecycle Paging Outbox Worker_Safety Access Policy Fingerprint Admission Admission_Safety System Reads Operator_Safety Crossplane_Safety Policy_Document Auth_Mapping
begin

text \<open>
  A verification development of liftr, a control plane for infrastructure Resources. API processes
  admit requests on declared Resources as Operations; workers drive each Operation to its provider,
  observe it and settle it; both share one transactional store. The development models the application
  core under \<^verbatim>\<open>src/internal\<close> and proves what its contracts promise. Every definition is executable.

  The parts, in the order they build on each other, with the sources they translate:

  \<^item> \<^verbatim>\<open>Prelude\<close>: errors as a datatype, the result type \<open>error + 'a\<close> with its bind, tables (the maps of
    the store as association lists with unique keys), strings, numbers as text, generic lemmas.
  \<^item> \<^verbatim>\<open>Domain\<close>, \<^verbatim>\<open>Status\<close>: Resources, Operations with their phase machine, statuses, conditions, events
    (\<^verbatim>\<open>domain/\<close>). \<^verbatim>\<open>Lifecycle\<close>: the engine that couples an Operation to the status of its Resource
    (\<^verbatim>\<open>lifecycle/\<close>).
  \<^item> \<^verbatim>\<open>References\<close>: reference contracts, canonical reference sets, and the bounded search that refuses
    dependency cycles (\<^verbatim>\<open>resourcecontract/reference.go\<close>, \<^verbatim>\<open>application/references.go\<close>).
  \<^item> \<^verbatim>\<open>Values\<close>: specification and output values and output contracts (\<^verbatim>\<open>resourcecontract/\<close>,
    \<^verbatim>\<open>domain/\<close>). \<^verbatim>\<open>Digest\<close>: SHA-256 and its hexadecimal form.
  \<^item> \<^verbatim>\<open>Provisioning\<close>: evidence of submissions and observations, what each report of a provider decides,
    and the plan for outputs (\<^verbatim>\<open>provisioning/\<close>, \<^verbatim>\<open>application/submission.go\<close>, \<^verbatim>\<open>outputs.go\<close>).
  \<^item> \<^verbatim>\<open>Store\<close>, \<^verbatim>\<open>Paging\<close>, \<^verbatim>\<open>Outbox\<close>: the repositories, the transaction bracket, the work queue with its
    leases, and the paged readers (\<^verbatim>\<open>application/fake/store.go\<close>, \<^verbatim>\<open>work.go\<close>). \<^verbatim>\<open>Transactions\<close>: which
    transactions keep the store consistent, as a calculus over the state monad.
  \<^item> \<^verbatim>\<open>Dependencies\<close>: dependency waits and the gate (\<^verbatim>\<open>application/dependencies.go\<close>,
    \<^verbatim>\<open>fake/references.go\<close>).
  \<^item> \<^verbatim>\<open>Worker_Drive\<close>, \<^verbatim>\<open>Worker_Execution\<close>, \<^verbatim>\<open>Worker_Safety\<close>: the worker cycle, handler by handler
    (\<^verbatim>\<open>worker/\<close>), and its safety.
  \<^item> \<^verbatim>\<open>Access\<close>, \<^verbatim>\<open>Policy\<close>: principals, authorizers and admission policies (\<^verbatim>\<open>identity/\<close>, \<^verbatim>\<open>policy/\<close>,
    \<^verbatim>\<open>application/authorization.go\<close>, \<^verbatim>\<open>policy.go\<close>). \<open>Policy_Document\<close>: loading a policy file. \<open>Auth_Mapping\<close>:
    from token claims to memberships, and the grant files (\<^verbatim>\<open>auth/mapping.go\<close>, \<^verbatim>\<open>authorizer.go\<close>,
    \<^verbatim>\<open>operator_authorizer.go\<close>). \<open>Json\<close>, \<open>Base64url\<close>: documents as the Go library decodes them.
  \<^item> \<^verbatim>\<open>Fingerprint\<close>, \<^verbatim>\<open>Admission\<close>, \<^verbatim>\<open>Admission_Safety\<close>: the four durable commands, their fingerprints and
    their admission (\<^verbatim>\<open>application/application.go\<close>, \<^verbatim>\<open>fingerprint.go\<close>, \<^verbatim>\<open>resourcetype.go\<close>).
  \<^item> \<^verbatim>\<open>Recovery\<close>, \<^verbatim>\<open>Diagnostics\<close>, \<^verbatim>\<open>Operator\<close>, \<^verbatim>\<open>Operator_Safety\<close>: the recovery planner, the diagnoses
    with their revisions, the three guarded mutations of platform operators, and what these guarantee
    (\<^verbatim>\<open>application/recovery_planner.go\<close>, \<^verbatim>\<open>operator_diagnostics.go\<close>, \<^verbatim>\<open>operator_mutations.go\<close>, \<^verbatim>\<open>operator.go\<close>).
  \<^item> \<^verbatim>\<open>System\<close>: API processes, operators, workers and the passive sweep interleaved on one store.
  \<^item> \<^verbatim>\<open>Queries\<close>, \<^verbatim>\<open>Cursor\<close>, \<^verbatim>\<open>Reads\<close>: which repository calls only read, the opaque inventory cursors and the
    read use cases
    (\<^verbatim>\<open>application/inventory.go\<close>, \<^verbatim>\<open>read.go\<close>).
  \<^item> \<^verbatim>\<open>Kube\<close>, \<^verbatim>\<open>Crossplane_Config\<close>, \<^verbatim>\<open>Crossplane\<close>, \<^verbatim>\<open>Crossplane_Safety\<close>: the provisioner that realizes
    Resources as Crossplane objects of a Kubernetes API: the classification of API answers and the
    identity of objects, the bindings with their readiness rules, manifests, handles and output
    envelopes, submission and observation, and what the worker may rely on
    (\<^verbatim>\<open>provisioning/crossplane/\<close>, \<^verbatim>\<open>crossplane/kube/client.go\<close>).

  How state and effects are represented. A Go struct is a \<open>record\<close>, an enumeration a datatype with the
  source's constructors and, where the code accepts foreign strings, one more for them. The maps of
  a specification are lists with ascending keys, so that \<^verbatim>\<open>reflect.DeepEqual\<close> is equality. Counters that
  the code keeps as \<open>uint64\<close> are words and wrap. A use case is a function \<open>Store \<Rightarrow> result \<times> Store\<close>; the
  bracket \<open>Within\<close> rolls back everything but the sequence numbers on an error, as the code's in-memory
  store does. Times are integers in nanoseconds, the zero time is 0, and clocks, tokens and identifiers are arguments.

  What the lemmas show. Locales state the contracts (keyset pages, the policy port, the work queue, the
  graph a search walks) and are interpreted on the model. The invariants \<open>outbox_inv\<close>,
  \<open>operations_inv\<close>, \<open>resources_inv\<close> and \<open>single_active\<close> make up \<open>store_inv\<close>, kept by every admission,
  operator mutation, cycle and sweep; \<open>store_since past\<close> adds that no Operation of an earlier history is lost or rewritten. The
  properties C1 to C40 stand in the theories of their components, each after a text that states it.

  Bounds. Go loops over finite data are structural recursions. The cycle search is the code's own
  bounded search (depth 32, 4096 nodes); it is proved to answer within its bounds exactly and beyond
  them conservatively. The loops that follow pages or wake waiters take fuel: \<open>follow\<close> and \<open>browse\<close> need one
  unit more than there are rows, which the completeness theorems assume and hence show to be enough,
  and \<open>wake_fuel_suffices\<close> gives the fuel of the wake fan-out. The Crossplane provisioner retries a
  conflicting write three times, as the code does.

  Parameters. The API server behind the Crossplane provisioner is an arbitrary function of the exchanges
  so far, and its JSON and RFC 3339 texts are parameters. Providers, the resolver of provisioners, the type catalogue, authorizers, the admission
  policy, the JSON encoders and decoders, the reading of files, random bytes and the bit patterns of floating-point numbers are arguments; no theorem
  assumes more of them than it states. While a worker waits for a provider the store may change by any
  function that keeps what the theorem at hand needs, in \<open>System\<close> by any run of the whole system.

  Not modelled: the synchronous execution paths that only tests enable, the PostgreSQL repositories
  (their meaning is that of SQL; the in-memory implementation of the same ports is modelled), the
  other provisioner back ends (external programs) and the REST transport of the Crossplane one, transports, the verification of
  tokens and the fetching of keys, command-line
  tools, configuration and observability (glue around the modelled core), and the JSON-schema library
  behind the type catalogue. The spans of time in a diagnosis stay nanoseconds instead of floating-point
  seconds.
\<close>

end
